(* ===== verification/StallPrelude.thy ===== *)
theory StallPrelude
  imports Main "HOL-Library.AList" "HOL-Library.Signed_Division"
begin

text \<open>
  Shared vocabulary of the development.

  \<^item> JavaScript numbers. Every amount, quantity and instant of the modelled code is an
    integer, so a \<open>number\<close> or \<open>bigint\<close> is an \<^typ>\<open>int\<close>; the places where the code tests
    \<open>Number.isSafeInteger\<close>, rounds with \<open>Math.round\<close>/\<open>Math.ceil\<close> or divides two
    \<open>bigint\<close>s are written out with the functions below.
  \<^item> Instants are milliseconds since the epoch; identifiers are strings.
  \<^item> A thrown error, or an early HTTP response, is the left summand of a sum.
  \<^item> A database table is the list of its rows; the small query language of the data
    layer (find, updateMany with its count, create) is defined here once.
\<close>

type_synonym uid = string
type_synonym instant = int

named_theorems stall_defs \<open>definitions unfolded when an operation is analysed branch by branch\<close>

section \<open>Arithmetic of the source language\<close>

definition MAX_SAFE_INTEGER :: int where
  "MAX_SAFE_INTEGER = 9007199254740991"

definition isSafeInteger :: "int \<Rightarrow> bool" where
  "isSafeInteger n \<longleftrightarrow> - MAX_SAFE_INTEGER \<le> n \<and> n \<le> MAX_SAFE_INTEGER"

text \<open>The range of a column of type \<open>integer\<close>.\<close>

definition int4 :: "int \<Rightarrow> bool" where
  "int4 n \<longleftrightarrow> - 2147483648 \<le> n \<and> n \<le> 2147483647"

text \<open>\<open>Math.round (a / b)\<close> and \<open>Math.ceil (a / b)\<close> for a positive divisor.\<close>

definition math_round_div :: "int \<Rightarrow> int \<Rightarrow> int" where
  "math_round_div a b = (2 * a + b) div (2 * b)"

definition math_ceil_div :: "int \<Rightarrow> int \<Rightarrow> int" where
  "math_ceil_div a b = - ((- a) div b)"

text \<open>\<open>bigint\<close> division truncates towards zero.\<close>

definition bigint_div :: "int \<Rightarrow> int \<Rightarrow> int" where
  "bigint_div a b = a sdiv b"

lemma bigint_div_nonneg [simp]: "0 \<le> a \<Longrightarrow> 0 < b \<Longrightarrow> bigint_div a b = a div b"
  by (simp add: bigint_div_def signed_divide_int_def sgn_if)

lemma math_round_div_le:
  assumes "0 < b" and "a \<le> k * b"
  shows "math_round_div a b \<le> k"
proof -
  have "2 * b * ((2 * a + b) div (2 * b)) \<le> 2 * a + b"
    using assms(1) by (simp add: minus_mod_eq_mult_div [symmetric])
  also have "\<dots> < 2 * b * (k + 1)" using assms by (simp add: algebra_simps)
  finally have "math_round_div a b < k + 1"
    unfolding math_round_div_def using assms(1) by (simp only: mult_less_cancel_left_pos)
  then show ?thesis by simp
qed

lemma math_round_div_ge:
  assumes "0 < b" and "k * b \<le> a"
  shows "k \<le> math_round_div a b"
proof -
  have "k * (2 * b) \<le> 2 * a + b" using assms by (simp add: algebra_simps)
  then have "k * (2 * b) div (2 * b) \<le> (2 * a + b) div (2 * b)"
    using assms(1) by (intro zdiv_mono1) simp_all
  then show ?thesis using assms(1) by (simp add: math_round_div_def)
qed

lemma math_round_div_nonneg: "0 < b \<Longrightarrow> 0 \<le> a \<Longrightarrow> 0 \<le> math_round_div a b"
  using math_round_div_ge [of b 0 a] by simp

lemma math_round_div_mono:
  "0 < b \<Longrightarrow> a \<le> a' \<Longrightarrow> math_round_div a b \<le> math_round_div a' b"
  by (simp add: math_round_div_def zdiv_mono1)

lemma math_round_div_exact [simp]: "0 < b \<Longrightarrow> math_round_div (k * b) b = k"
  using math_round_div_le [of b "k * b" k] math_round_div_ge [of b k "k * b"] by simp

text \<open>The rounded quotient is within half a unit of the exact one.\<close>

lemma math_round_div_error:
  assumes "0 < b"
  shows "2 * b * math_round_div a b \<le> 2 * a + b" and "2 * a < 2 * b * math_round_div a b + b"
proof -
  let ?q = "(2 * a + b) div (2 * b)"
  have e: "2 * a + b = 2 * b * ?q + (2 * a + b) mod (2 * b)" by simp
  have m: "0 \<le> (2 * a + b) mod (2 * b)" "(2 * a + b) mod (2 * b) < 2 * b" using assms by simp_all
  show "2 * b * math_round_div a b \<le> 2 * a + b" unfolding math_round_div_def using e m by linarith
  show "2 * a < 2 * b * math_round_div a b + b" unfolding math_round_div_def using e m by linarith
qed

section \<open>Results\<close>

text \<open>Sequencing of fallible steps: the first error ends the computation.\<close>

definition andThen :: "'e + 'a \<Rightarrow> ('a \<Rightarrow> 'e + 'b) \<Rightarrow> 'e + 'b" where
  "andThen r f = (case r of Inl e \<Rightarrow> Inl e | Inr a \<Rightarrow> f a)"

lemma andThen_simps [simp]: "andThen (Inl e) f = Inl e" "andThen (Inr a) f = f a"
  by (simp_all add: andThen_def)

lemma andThen_Inr_iff: "andThen r f = Inr b \<longleftrightarrow> (\<exists>a. r = Inr a \<and> f a = Inr b)"
  by (cases r) auto

lemma andThen_Inl_iff:
  "andThen r f = Inl e \<longleftrightarrow> r = Inl e \<or> (\<exists>a. r = Inr a \<and> f a = Inl e)"
  by (cases r) auto

definition ensure :: "bool \<Rightarrow> 'e \<Rightarrow> 'e + unit" where
  "ensure b e = (if b then Inr () else Inl e)"

lemma ensure_Inr [simp]: "ensure b e = Inr u \<longleftrightarrow> b"
  by (simp add: ensure_def)

section \<open>Lists, sets and maps of the source language\<close>

text \<open>\<open>[...new Set(xs)]\<close>: the first occurrence of every element, in order.\<close>

fun js_set :: "'a list \<Rightarrow> 'a list" where
  "js_set [] = []"
| "js_set (x # xs) = x # removeAll x (js_set xs)"

lemma set_js_set [simp]: "set (js_set xs) = set xs"
  by (induction xs) auto

lemma distinct_js_set [simp]: "distinct (js_set xs)"
  by (induction xs) (auto simp: distinct_removeAll)

lemma length_js_set: "length (js_set xs) = card (set xs)"
  using distinct_card [OF distinct_js_set, of xs] by simp

lemma js_set_distinct: "distinct xs \<Longrightarrow> js_set xs = xs"
  by (induction xs) (auto simp: removeAll_id)

text \<open>\<open>xs.findIndex(p)\<close>, with \<open>None\<close> for \<open>-1\<close>.\<close>

fun find_index :: "('a \<Rightarrow> bool) \<Rightarrow> 'a list \<Rightarrow> nat option" where
  "find_index p [] = None"
| "find_index p (x # xs) = (if p x then Some 0 else map_option Suc (find_index p xs))"

lemma find_index_Some:
  "find_index p xs = Some i \<Longrightarrow> i < length xs \<and> p (xs ! i) \<and> (\<forall>j < i. \<not> p (xs ! j))"
proof (induction xs arbitrary: i)
  case Nil
  then show ?case by simp
next
  case (Cons x xs)
  then show ?case by (auto split: if_splits simp: nth_Cons less_Suc_eq_0_disj split: nat.splits)
qed

lemma find_index_None: "find_index p xs = None \<longleftrightarrow> (\<forall>x \<in> set xs. \<not> p x)"
  by (induction xs) auto

lemma find_Some_D: "List.find p xs = Some x \<Longrightarrow> x \<in> set xs \<and> p x"
  by (induction xs) (auto split: if_splits)

lemma find_None_D: "List.find p xs = None \<longleftrightarrow> (\<forall>x \<in> set xs. \<not> p x)"
  by (induction xs) auto

text \<open>A total over a list, as \<open>reduce((sum, x) => sum + f(x), 0)\<close> computes it.\<close>

abbreviation sum_of :: "('a \<Rightarrow> int) \<Rightarrow> 'a list \<Rightarrow> int" where
  "sum_of f xs \<equiv> sum_list (map f xs)"

lemma sum_of_nonneg: "(\<And>x. x \<in> set xs \<Longrightarrow> 0 \<le> f x) \<Longrightarrow> 0 \<le> sum_of f xs"
  by (induction xs) auto

lemma sum_of_mono:
  "(\<And>x. x \<in> set xs \<Longrightarrow> f x \<le> g x) \<Longrightarrow> sum_of f xs \<le> sum_of g xs" for f g :: "'a \<Rightarrow> int"
  by (induction xs) (auto intro: add_mono)

lemma sum_of_filter_le:
  "(\<And>x. x \<in> set xs \<Longrightarrow> 0 \<le> f x) \<Longrightarrow> sum_of f (filter p xs) \<le> sum_of f xs" for f :: "'a \<Rightarrow> int"
  by (induction xs) (auto intro: add_increasing)

lemma sum_of_partition:
  "sum_of f xs = sum_of f (filter p xs) + sum_of f (filter (\<lambda>x. \<not> p x) xs)" for f :: "'a \<Rightarrow> int"
  by (induction xs) auto

section \<open>Tables\<close>

text \<open>
  \<open>updateMany\<close>: every row that satisfies the condition is changed, and the number of
  changed rows is the result the code tests.
\<close>

definition count_where :: "('r \<Rightarrow> bool) \<Rightarrow> 'r list \<Rightarrow> nat" where
  "count_where p rows = length (filter p rows)"

definition update_where :: "('r \<Rightarrow> bool) \<Rightarrow> ('r \<Rightarrow> 'r) \<Rightarrow> 'r list \<Rightarrow> 'r list" where
  "update_where p f rows = map (\<lambda>r. if p r then f r else r) rows"

lemma length_update_where [simp]: "length (update_where p f rows) = length rows"
  by (simp add: update_where_def)

lemma update_where_none: "count_where p rows = 0 \<Longrightarrow> update_where p f rows = rows"
  by (auto simp: count_where_def update_where_def filter_empty_conv intro: map_idI)

lemma update_where_Nil [simp]: "update_where p f [] = []"
  by (simp add: update_where_def)

lemma update_where_Cons [simp]:
  "update_where p f (r # rows) = (if p r then f r else r) # update_where p f rows"
  by (simp add: update_where_def)

lemma map_update_where_same:
  "(\<And>r. g (f r) = g r) \<Longrightarrow> map g (update_where p f rows) = map g rows"
  by (induction rows) auto

lemma in_update_where:
  "r \<in> set (update_where p f rows) \<longleftrightarrow> (\<exists>s \<in> set rows. r = (if p s then f s else s))"
  by (auto simp: update_where_def)

lemma count_where_Nil [simp]: "count_where p [] = 0"
  by (simp add: count_where_def)

lemma count_where_Cons [simp]:
  "count_where p (r # rows) = (if p r then Suc (count_where p rows) else count_where p rows)"
  by (simp add: count_where_def)

lemma count_where_pos: "count_where p rows > 0 \<longleftrightarrow> (\<exists>r \<in> set rows. p r)"
  by (induction rows) auto

lemma count_where_append [simp]: "count_where p (xs @ ys) = count_where p xs + count_where p ys"
  by (simp add: count_where_def)

lemma count_where_distinct_key:
  "distinct (map key rows) \<Longrightarrow> (\<And>r. p r \<Longrightarrow> key r = k) \<Longrightarrow> count_where p rows \<le> 1"
proof (induction rows)
  case Nil
  then show ?case by simp
next
  case (Cons r rows)
  show ?case
  proof (cases "p r")
    case True
    then have "key r = k" by (rule Cons.prems(2))
    then have "\<forall>s \<in> set rows. key s \<noteq> k" using Cons.prems(1) by (force simp: image_iff)
    then have "count_where p rows = 0"
      using Cons.prems(2) count_where_pos [of p rows] by auto
    then show ?thesis by simp
  next
    case False
    then show ?thesis using Cons by simp
  qed
qed

end
