(* ===== verification/Lifecycle.thy ===== *)
theory Lifecycle
  imports StallPrelude
begin

text \<open>
  The interface shared by every status column of the program: a relation \<open>advance\<close> of
  permitted changes and a predicate \<open>closed\<close> of statuses no change leaves. Clients reason
  about whole histories of a row (a list of the statuses it takes after its first one)
  inside the locales; each status machine of the code is an interpretation.
\<close>

fun history :: "('s \<Rightarrow> 's \<Rightarrow> bool) \<Rightarrow> 's \<Rightarrow> 's list \<Rightarrow> bool" where
  "history advance s [] = True"
| "history advance s (t # ts) = (advance s t \<and> history advance t ts)"

lemma history_append:
  "history advance s (ts @ us) \<longleftrightarrow> history advance s ts \<and> history advance (last (s # ts)) us"
  by (induction ts arbitrary: s) auto

lemma history_mono:
  "(\<And>a b. adv a b \<Longrightarrow> adv' a b) \<Longrightarrow> history adv s ts \<Longrightarrow> history adv' s ts"
  by (induction ts arbitrary: s) auto

locale lifecycle =
  fixes advance :: "'s \<Rightarrow> 's \<Rightarrow> bool"
    and closed :: "'s \<Rightarrow> bool"
  assumes closed_stuck: "closed s \<Longrightarrow> \<not> advance s t"
begin

lemma history_from_closed: "closed s \<Longrightarrow> history advance s ts \<longleftrightarrow> ts = []"
  using closed_stuck by (cases ts) auto

lemma closed_only_last: "history advance s (ts @ t # us) \<Longrightarrow> closed t \<Longrightarrow> us = []"
  by (simp add: history_append history_from_closed)

end

locale ranked_lifecycle = lifecycle advance closed
  for advance :: "'s \<Rightarrow> 's \<Rightarrow> bool" and closed :: "'s \<Rightarrow> bool" +
  fixes rank :: "'s \<Rightarrow> nat"
    and bound :: nat
  assumes rank_less: "advance s t \<Longrightarrow> rank s < rank t"
    and rank_le: "rank s \<le> bound"
begin

lemma history_rank: "history advance s ts \<Longrightarrow> t \<in> set ts \<Longrightarrow> rank s < rank t"
proof (induction ts arbitrary: s)
  case Nil
  then show ?case by simp
next
  case (Cons u ts)
  then have "rank s < rank u" by (simp add: rank_less)
  with Cons show ?case by (cases "t = u") (auto dest: less_trans)
qed

lemma history_no_repeat: "history advance s ts \<Longrightarrow> distinct (s # ts)"
proof (induction ts arbitrary: s)
  case Nil
  then show ?case by simp
next
  case (Cons u ts)
  then have "distinct (u # ts)" by force
  moreover have "s \<notin> set (u # ts)"
    using history_rank [OF Cons.prems] by (metis less_irrefl)
  ultimately show ?case by simp
qed

lemma history_length: "history advance s ts \<Longrightarrow> length ts + rank s \<le> bound"
proof (induction ts arbitrary: s)
  case Nil
  then show ?case by (simp add: rank_le)
next
  case (Cons u ts)
  then have "length ts + rank u \<le> bound" and "rank s < rank u" by (auto simp: rank_less)
  then show ?case by simp
qed

end

end
