(* ===== verification/Rbac.thy ===== *)
theory Rbac
  imports Lifecycle
begin

text \<open>
  Roles, permissions and the order status machine: \<open>src/src/lib/rbac.ts\<close>, with the enums
  \<open>UserRole\<close> and \<open>OrderStatus\<close> of \<open>src/prisma/schema.prisma\<close>. The permission table is the
  code's table, entry by entry; the lemmas state the role hierarchy it implements and the
  shape of every history of an order's status.
\<close>

datatype UserRole =
  PLATFORM_ADMIN | MERCHANT_OWNER | MERCHANT_MANAGER | ORGANIZATION_OWNER
| ORGANIZATION_ADMIN | FINANCE_VIEWER | STALL_MANAGER | STAFF | KITCHEN

datatype OrderStatus =
  WAITING_CONFIRMATION | CONFIRMED | PREPARING | PACKING | READY | COMPLETED | CANCELLED
| EXPIRED

datatype Permission =
  VIEW_ORDERS | CREATE_ORDERS | UPDATE_ORDERS | CHECKOUT_ORDERS
| MANAGE_PRINT_QUEUE | VIEW_CASH_SHIFT | MANAGE_CASH_SHIFT | REVIEW_CASH_SHIFT
| APPROVE_DISCOUNT | VIEW_DINING_FLOOR | MANAGE_PRODUCTS | MANAGE_ORDERING
| VIEW_REPORTS | MANAGE_STAFF | MANAGE_STALL | MANAGE_ORGANIZATION
| MANAGE_SUBSCRIPTION | VIEW_BILLING | MANAGE_SHARED_PRODUCTS | VIEW_AUDIT_LOGS
| MANAGE_OPERATIONAL_ALERTS | MANAGE_REPORT_SCHEDULES | VIEW_KDS | UPDATE_PRODUCTION_TASKS
| MANAGE_KDS | MANAGE_CDS | MANAGE_CAPACITY | OPERATE_CAPACITY
| MANAGE_STALL_LOCATIONS | MANAGE_STALL_SCHEDULES | MANAGE_MARKET_EVENTS | MANAGE_LINE_INTEGRATION
| MANAGE_DELIVERY_INTEGRATIONS | MANAGE_PAYMENT_INTEGRATIONS | REFUND_PROVIDER_PAYMENTS | USE_ATTENDANCE
| MANAGE_ATTENDANCE | PLATFORM_ADMIN

fun rolePermissions :: "UserRole \<Rightarrow> Permission list" where
  "rolePermissions UserRole.PLATFORM_ADMIN =
    [VIEW_ORDERS, CREATE_ORDERS, UPDATE_ORDERS, CHECKOUT_ORDERS,
     MANAGE_PRINT_QUEUE, VIEW_CASH_SHIFT, MANAGE_CASH_SHIFT, REVIEW_CASH_SHIFT,
     APPROVE_DISCOUNT, VIEW_DINING_FLOOR, MANAGE_PRODUCTS, MANAGE_ORDERING,
     VIEW_REPORTS, MANAGE_STAFF, MANAGE_STALL, MANAGE_ORGANIZATION,
     MANAGE_SUBSCRIPTION, VIEW_BILLING, MANAGE_SHARED_PRODUCTS, VIEW_AUDIT_LOGS,
     MANAGE_OPERATIONAL_ALERTS, MANAGE_REPORT_SCHEDULES, VIEW_KDS, UPDATE_PRODUCTION_TASKS,
     MANAGE_KDS, MANAGE_CDS, MANAGE_CAPACITY, OPERATE_CAPACITY,
     MANAGE_STALL_LOCATIONS, MANAGE_STALL_SCHEDULES, MANAGE_MARKET_EVENTS, MANAGE_LINE_INTEGRATION,
     MANAGE_DELIVERY_INTEGRATIONS, MANAGE_PAYMENT_INTEGRATIONS, REFUND_PROVIDER_PAYMENTS, USE_ATTENDANCE,
     MANAGE_ATTENDANCE, Permission.PLATFORM_ADMIN]"
| "rolePermissions UserRole.MERCHANT_OWNER = []"
| "rolePermissions UserRole.MERCHANT_MANAGER = []"
| "rolePermissions UserRole.ORGANIZATION_OWNER =
    [VIEW_ORDERS, CREATE_ORDERS, UPDATE_ORDERS, CHECKOUT_ORDERS,
     MANAGE_PRINT_QUEUE, VIEW_CASH_SHIFT, MANAGE_CASH_SHIFT, REVIEW_CASH_SHIFT,
     APPROVE_DISCOUNT, VIEW_DINING_FLOOR, MANAGE_PRODUCTS, MANAGE_ORDERING,
     VIEW_REPORTS, MANAGE_STAFF, MANAGE_STALL, MANAGE_ORGANIZATION,
     MANAGE_SUBSCRIPTION, VIEW_BILLING, MANAGE_SHARED_PRODUCTS, VIEW_AUDIT_LOGS,
     MANAGE_OPERATIONAL_ALERTS, MANAGE_REPORT_SCHEDULES, VIEW_KDS, UPDATE_PRODUCTION_TASKS,
     MANAGE_KDS, MANAGE_CDS, MANAGE_CAPACITY, OPERATE_CAPACITY,
     MANAGE_STALL_LOCATIONS, MANAGE_STALL_SCHEDULES, MANAGE_MARKET_EVENTS, MANAGE_LINE_INTEGRATION,
     MANAGE_DELIVERY_INTEGRATIONS, MANAGE_PAYMENT_INTEGRATIONS, REFUND_PROVIDER_PAYMENTS, USE_ATTENDANCE,
     MANAGE_ATTENDANCE]"
| "rolePermissions UserRole.ORGANIZATION_ADMIN =
    [VIEW_ORDERS, CREATE_ORDERS, UPDATE_ORDERS, CHECKOUT_ORDERS,
     MANAGE_PRINT_QUEUE, VIEW_CASH_SHIFT, MANAGE_CASH_SHIFT, REVIEW_CASH_SHIFT,
     APPROVE_DISCOUNT, VIEW_DINING_FLOOR, MANAGE_PRODUCTS, MANAGE_ORDERING,
     VIEW_REPORTS, MANAGE_STAFF, MANAGE_STALL, MANAGE_SHARED_PRODUCTS,
     VIEW_AUDIT_LOGS, MANAGE_OPERATIONAL_ALERTS, MANAGE_REPORT_SCHEDULES, VIEW_BILLING,
     VIEW_KDS, UPDATE_PRODUCTION_TASKS, MANAGE_KDS, MANAGE_CDS,
     MANAGE_CAPACITY, OPERATE_CAPACITY, MANAGE_STALL_LOCATIONS, MANAGE_STALL_SCHEDULES,
     MANAGE_MARKET_EVENTS, MANAGE_LINE_INTEGRATION, MANAGE_DELIVERY_INTEGRATIONS, MANAGE_PAYMENT_INTEGRATIONS,
     REFUND_PROVIDER_PAYMENTS, USE_ATTENDANCE, MANAGE_ATTENDANCE]"
| "rolePermissions UserRole.FINANCE_VIEWER =
    [VIEW_REPORTS, VIEW_BILLING, VIEW_CASH_SHIFT]"
| "rolePermissions UserRole.STALL_MANAGER =
    [VIEW_ORDERS, CREATE_ORDERS, UPDATE_ORDERS, CHECKOUT_ORDERS,
     MANAGE_PRINT_QUEUE, VIEW_CASH_SHIFT, MANAGE_CASH_SHIFT, REVIEW_CASH_SHIFT,
     APPROVE_DISCOUNT, VIEW_DINING_FLOOR, MANAGE_PRODUCTS, MANAGE_ORDERING,
     VIEW_REPORTS, MANAGE_STAFF, MANAGE_STALL, MANAGE_OPERATIONAL_ALERTS,
     VIEW_KDS, UPDATE_PRODUCTION_TASKS, MANAGE_KDS, MANAGE_CDS,
     MANAGE_CAPACITY, OPERATE_CAPACITY, MANAGE_STALL_LOCATIONS, MANAGE_STALL_SCHEDULES,
     MANAGE_LINE_INTEGRATION, MANAGE_DELIVERY_INTEGRATIONS, USE_ATTENDANCE, MANAGE_ATTENDANCE]"
| "rolePermissions UserRole.STAFF =
    [VIEW_ORDERS, CREATE_ORDERS, UPDATE_ORDERS, CHECKOUT_ORDERS,
     MANAGE_PRINT_QUEUE, VIEW_CASH_SHIFT, MANAGE_CASH_SHIFT, VIEW_DINING_FLOOR,
     OPERATE_CAPACITY, USE_ATTENDANCE]"
| "rolePermissions UserRole.KITCHEN =
    [VIEW_KDS, UPDATE_PRODUCTION_TASKS, USE_ATTENDANCE]"

definition primaryRoleOrder :: "UserRole list" where
  "primaryRoleOrder =
    [UserRole.PLATFORM_ADMIN, ORGANIZATION_OWNER, ORGANIZATION_ADMIN, STALL_MANAGER,
     STAFF, KITCHEN, FINANCE_VIEWER, MERCHANT_OWNER,
     MERCHANT_MANAGER]"

fun allowedOrderTransitions :: "OrderStatus \<Rightarrow> OrderStatus list" where
  "allowedOrderTransitions OrderStatus.WAITING_CONFIRMATION =
    [OrderStatus.CONFIRMED, OrderStatus.CANCELLED]"
| "allowedOrderTransitions OrderStatus.CONFIRMED =
    [OrderStatus.PREPARING, OrderStatus.PACKING, OrderStatus.READY, OrderStatus.CANCELLED]"
| "allowedOrderTransitions OrderStatus.PREPARING =
    [OrderStatus.PACKING, OrderStatus.READY, OrderStatus.CANCELLED]"
| "allowedOrderTransitions OrderStatus.PACKING =
    [OrderStatus.READY, OrderStatus.CANCELLED]"
| "allowedOrderTransitions OrderStatus.READY =
    [OrderStatus.COMPLETED, OrderStatus.CANCELLED]"
| "allowedOrderTransitions OrderStatus.COMPLETED =
    []"
| "allowedOrderTransitions OrderStatus.CANCELLED =
    []"
| "allowedOrderTransitions OrderStatus.EXPIRED =
    []"

definition hasPermission :: "UserRole \<Rightarrow> Permission \<Rightarrow> bool" where
  "hasPermission role permission \<longleftrightarrow> permission \<in> set (rolePermissions role)"

record stall_roles =
  sr_id :: uid
  sr_roles :: "UserRole list"

definition authorizedStallIdsForPermission :: "stall_roles list \<Rightarrow> Permission \<Rightarrow> uid list" where
  "authorizedStallIdsForPermission stalls permission =
     map sr_id (filter (\<lambda>stall. \<exists>role \<in> set (sr_roles stall). hasPermission role permission) stalls)"

definition resolvePrimaryRole :: "UserRole list \<Rightarrow> UserRole option" where
  "resolvePrimaryRole roles = List.find (\<lambda>role. role \<in> set roles) primaryRoleOrder"

definition canTransitionOrder :: "OrderStatus \<Rightarrow> OrderStatus \<Rightarrow> UserRole \<Rightarrow> bool" where
  "canTransitionOrder current next_status role =
     (if \<not> hasPermission role UPDATE_ORDERS then False
      else if next_status \<notin> set (allowedOrderTransitions current) then False
      else True)"

section \<open>Permissions\<close>

text \<open>The set of permissions of a role, and the hierarchy the table implements.\<close>

lemma hasPermission_simps [simp]:
  "hasPermission UserRole.PLATFORM_ADMIN p"
  "\<not> hasPermission MERCHANT_OWNER p" "\<not> hasPermission MERCHANT_MANAGER p"
  by (cases p; simp add: hasPermission_def)+

lemma hasPermission_platform: "hasPermission r Permission.PLATFORM_ADMIN \<longleftrightarrow> r = UserRole.PLATFORM_ADMIN"
  by (cases r) (simp_all add: hasPermission_def)

lemma update_orders_iff:
  "hasPermission r UPDATE_ORDERS \<longleftrightarrow>
     r \<in> {UserRole.PLATFORM_ADMIN, ORGANIZATION_OWNER, ORGANIZATION_ADMIN, STALL_MANAGER, STAFF}"
  by (cases r) (simp_all add: hasPermission_def)

lemma rolePermissions_chain:
  "set (rolePermissions STAFF) \<subseteq> set (rolePermissions STALL_MANAGER)"
  "set (rolePermissions KITCHEN) \<subseteq> set (rolePermissions STALL_MANAGER)"
  "set (rolePermissions STALL_MANAGER) \<subseteq> set (rolePermissions ORGANIZATION_ADMIN)"
  "set (rolePermissions FINANCE_VIEWER) \<subseteq> set (rolePermissions ORGANIZATION_ADMIN)"
  "set (rolePermissions ORGANIZATION_ADMIN) \<subseteq> set (rolePermissions ORGANIZATION_OWNER)"
  by simp_all

section \<open>The primary role\<close>

text \<open>The roles in the code's order of precedence.\<close>

fun role_rank :: "UserRole \<Rightarrow> nat" where
  "role_rank UserRole.PLATFORM_ADMIN = 0"
| "role_rank UserRole.ORGANIZATION_OWNER = 1"
| "role_rank UserRole.ORGANIZATION_ADMIN = 2"
| "role_rank UserRole.STALL_MANAGER = 3"
| "role_rank UserRole.STAFF = 4"
| "role_rank UserRole.KITCHEN = 5"
| "role_rank UserRole.FINANCE_VIEWER = 6"
| "role_rank UserRole.MERCHANT_OWNER = 7"
| "role_rank UserRole.MERCHANT_MANAGER = 8"

instantiation UserRole :: linorder
begin

definition less_eq_UserRole :: "UserRole \<Rightarrow> UserRole \<Rightarrow> bool" where
  "less_eq_UserRole a b \<longleftrightarrow> role_rank a \<le> role_rank b"

definition less_UserRole :: "UserRole \<Rightarrow> UserRole \<Rightarrow> bool" where
  "less_UserRole a b \<longleftrightarrow> role_rank a < role_rank b"

instance
proof
  fix a b c :: UserRole
  show "a < b \<longleftrightarrow> a \<le> b \<and> \<not> b \<le> a" by (auto simp: less_eq_UserRole_def less_UserRole_def)
  show "a \<le> a" by (simp add: less_eq_UserRole_def)
  show "a \<le> b \<Longrightarrow> b \<le> c \<Longrightarrow> a \<le> c" by (simp add: less_eq_UserRole_def)
  show "a \<le> b \<Longrightarrow> b \<le> a \<Longrightarrow> a = b"
    by (cases a; cases b) (simp_all add: less_eq_UserRole_def)
  show "a \<le> b \<or> b \<le> a" by (auto simp: less_eq_UserRole_def)
qed

end

lemma primaryRoleOrder_sorted: "sorted primaryRoleOrder"
  by (simp add: primaryRoleOrder_def less_eq_UserRole_def)

lemma primaryRoleOrder_all: "r \<in> set primaryRoleOrder"
  by (cases r) (simp_all add: primaryRoleOrder_def)

lemma find_sorted_least:
  assumes "sorted xs" and "List.find p xs = Some x" and "y \<in> set xs" and "p y"
  shows "x \<le> y"
  using assms
proof (induction xs)
  case Nil
  then show ?case by simp
next
  case (Cons z xs)
  then show ?case by (cases "p z") auto
qed

section \<open>The order status machine\<close>

definition order_advance :: "OrderStatus \<Rightarrow> OrderStatus \<Rightarrow> bool" where
  "order_advance s t \<longleftrightarrow> t \<in> set (allowedOrderTransitions s)"

definition order_closed :: "OrderStatus \<Rightarrow> bool" where
  "order_closed s \<longleftrightarrow> s \<in> {COMPLETED, CANCELLED, EXPIRED}"

fun order_rank :: "OrderStatus \<Rightarrow> nat" where
  "order_rank WAITING_CONFIRMATION = 0"
| "order_rank CONFIRMED = 1"
| "order_rank PREPARING = 2"
| "order_rank PACKING = 3"
| "order_rank READY = 4"
| "order_rank COMPLETED = 5"
| "order_rank CANCELLED = 5"
| "order_rank EXPIRED = 5"

interpretation order_machine: ranked_lifecycle order_advance order_closed order_rank 5
proof unfold_locales
  show "\<not> order_advance s t" if "order_closed s" for s t
    using that by (auto simp: order_closed_def order_advance_def)
  show "order_rank s < order_rank t" if "order_advance s t" for s t
    using that by (cases s) (auto simp: order_advance_def)
  show "order_rank s \<le> 5" for s by (cases s) simp_all
qed

lemma canTransitionOrder_iff:
  "canTransitionOrder s t r \<longleftrightarrow> hasPermission r UPDATE_ORDERS \<and> order_advance s t"
  by (simp add: canTransitionOrder_def order_advance_def)

lemma order_advance_completed [simp]: "order_advance s COMPLETED \<longleftrightarrow> s = READY"
  by (cases s) (simp_all add: order_advance_def)

section \<open>Properties\<close>

text \<open>C28. Every sequence of status changes that \<open>canTransitionOrder\<close> accepts, whoever makes
  each of them, visits no status twice, has at most five changes, and contains
  \<open>COMPLETED\<close> only as its last status, right after \<open>READY\<close>.\<close>

theorem order_history_shape:
  assumes "history (\<lambda>s t. \<exists>role. canTransitionOrder s t role) s ts"
  shows "distinct (s # ts) \<and> length ts \<le> 5 \<and>
    (COMPLETED \<in> set ts \<longrightarrow> (\<exists>us. s # ts = us @ [READY, COMPLETED]))"
proof -
  have h: "history order_advance s ts"
    using assms by (rule history_mono [rotated]) (auto simp: canTransitionOrder_iff)
  have "\<exists>us. s # ts = us @ [READY, COMPLETED]" if "COMPLETED \<in> set ts"
  proof -
    from that obtain pre post where ts: "ts = pre @ COMPLETED # post" by (meson split_list)
    with h have "post = []" using order_machine.closed_only_last [of s pre COMPLETED post]
      by (simp add: order_closed_def)
    moreover from h ts have "last (s # pre) = READY"
      by (simp only: history_append history.simps(2) order_advance_completed)
    then have "s # pre = butlast (s # pre) @ [READY]" by (metis append_butlast_last_id list.distinct(1))
    ultimately show ?thesis using ts by (metis append.assoc append_Cons append_Nil)
  qed
  then show ?thesis
    using order_machine.history_no_repeat [OF h] order_machine.history_length [OF h] by auto
qed

theorem order_history_shape_witness:
  "distinct [WAITING_CONFIRMATION, CONFIRMED, READY, COMPLETED]"
  using order_history_shape [of WAITING_CONFIRMATION "[CONFIRMED, READY, COMPLETED]"]
  by (simp add: canTransitionOrder_iff order_advance_def update_orders_iff)

text \<open>The primary role of a member is the least of the member's roles in the order of
  precedence, and there is none exactly for a member without roles.\<close>

theorem primary_role_least:
  "resolvePrimaryRole roles = (if roles = [] then None else Some (Min (set roles)))"
proof (cases "roles = []")
  case True
  then show ?thesis by (simp add: resolvePrimaryRole_def primaryRoleOrder_def)
next
  case False
  then obtain r where "r \<in> set roles" by (cases roles) auto
  then obtain m where m: "resolvePrimaryRole roles = Some m"
    using primaryRoleOrder_all find_None_D [of "\<lambda>r. r \<in> set roles" primaryRoleOrder]
    by (cases "resolvePrimaryRole roles") (auto simp: resolvePrimaryRole_def)
  then have "m \<in> set roles" by (auto simp: resolvePrimaryRole_def dest: find_Some_D)
  moreover have "m \<le> y" if "y \<in> set roles" for y
    using find_sorted_least [OF primaryRoleOrder_sorted, of "\<lambda>r. r \<in> set roles" m y]
      m that primaryRoleOrder_all by (simp add: resolvePrimaryRole_def)
  ultimately have "Min (set roles) = m" by (intro Min_eqI) auto
  with m False show ?thesis by simp
qed

text \<open>The permission table is a hierarchy: what a staff member or the kitchen may do a
  stall manager may do, and so on up to the platform administrator, who alone holds
  \<open>PLATFORM_ADMIN\<close>; promoting a member along it, on any stalls, loses no authorised stall.\<close>

theorem permission_hierarchy:
  assumes "(low, high) \<in> {(STAFF, STALL_MANAGER), (KITCHEN, STALL_MANAGER),
      (STALL_MANAGER, ORGANIZATION_ADMIN), (FINANCE_VIEWER, ORGANIZATION_ADMIN),
      (ORGANIZATION_ADMIN, ORGANIZATION_OWNER), (ORGANIZATION_OWNER, UserRole.PLATFORM_ADMIN)}"
  shows "set (rolePermissions low) \<subseteq> set (rolePermissions high) - {Permission.PLATFORM_ADMIN}
    \<and> set (authorizedStallIdsForPermission stalls p)
        \<subseteq> set (authorizedStallIdsForPermission
             (map (\<lambda>s. s\<lparr>sr_roles := map (\<lambda>r. if r = low then high else r) (sr_roles s)\<rparr>) stalls) p)"
proof -
  have low: "low \<noteq> UserRole.PLATFORM_ADMIN" using assms by auto
  have up: "hasPermission low r \<Longrightarrow> hasPermission high r" for r
    using assms rolePermissions_chain hasPermission_simps(1) unfolding hasPermission_def by blast
  have "set (rolePermissions low) \<subseteq> set (rolePermissions high) - {Permission.PLATFORM_ADMIN}"
    using up hasPermission_platform [of low] low unfolding hasPermission_def by blast
  moreover have "set (authorizedStallIdsForPermission stalls p)
        \<subseteq> set (authorizedStallIdsForPermission
             (map (\<lambda>s. s\<lparr>sr_roles := map (\<lambda>r. if r = low then high else r) (sr_roles s)\<rparr>) stalls) p)"
  proof
    fix x
    assume "x \<in> set (authorizedStallIdsForPermission stalls p)"
    then obtain s r where "s \<in> set stalls" "r \<in> set (sr_roles s)" "hasPermission r p" "x = sr_id s"
      by (auto simp: authorizedStallIdsForPermission_def)
    moreover from this(3) have "hasPermission (if r = low then high else r) p" using up by auto
    ultimately show "x \<in> set (authorizedStallIdsForPermission
             (map (\<lambda>s. s\<lparr>sr_roles := map (\<lambda>r. if r = low then high else r) (sr_roles s)\<rparr>) stalls) p)"
      by (auto simp: authorizedStallIdsForPermission_def image_iff
          intro!: exI [of _ "s\<lparr>sr_roles := map (\<lambda>r. if r = low then high else r) (sr_roles s)\<rparr>"])
  qed
  ultimately show ?thesis by blast
qed

theorem permission_hierarchy_witness:
  "set (rolePermissions STAFF) \<subseteq> set (rolePermissions STALL_MANAGER) - {Permission.PLATFORM_ADMIN}"
  using permission_hierarchy [of STAFF STALL_MANAGER "[]"] by simp

end
