(* ===== verification/StatusMachines.thy ===== *)
theory StatusMachines
  imports Rbac
begin

text \<open>
  The other status machines of the platform, each as the code's table and its guard, and
  each an interpretation of the lifecycle interface: provider payments
  (\<open>server/payment-providers/state-machine.ts\<close>), electronic invoices with the refund
  decision (\<open>server/e-invoice\<close>), merchant applications, catalogue versions, stall schedules,
  order items, kitchen tasks and offline orders with the validation of an uploaded
  offline event chain.
\<close>

section \<open>Provider payments\<close>

datatype CanonicalPaymentStatus =
  CREATED | PENDING | REQUIRES_CUSTOMER_ACTION | AUTHORIZED
| PAID | FAILED | CANCELLED | EXPIRED
| PARTIALLY_REFUNDED | REFUNDED | RECONCILIATION_REQUIRED

datatype PaymentTransitionEvidence =
  SIGNED_WEBHOOK | VERIFIED_PROVIDER_QUERY | VERIFIED_PROVIDER_CONFIRMATION
| PRIVILEGED_RECONCILIATION | BROWSER_RETURN

datatype PaymentProviderError =
  PAYMENT_STATUS_TRANSITION_INVALID | PAYMENT_TRUSTED_EVIDENCE_REQUIRED

fun paymentTransitions :: "CanonicalPaymentStatus \<Rightarrow> CanonicalPaymentStatus list" where
  "paymentTransitions CanonicalPaymentStatus.CREATED =
     [CanonicalPaymentStatus.PENDING, CanonicalPaymentStatus.REQUIRES_CUSTOMER_ACTION, CanonicalPaymentStatus.FAILED,
      CanonicalPaymentStatus.CANCELLED, CanonicalPaymentStatus.EXPIRED]"
| "paymentTransitions CanonicalPaymentStatus.PENDING =
     [CanonicalPaymentStatus.REQUIRES_CUSTOMER_ACTION, CanonicalPaymentStatus.AUTHORIZED, CanonicalPaymentStatus.PAID,
      CanonicalPaymentStatus.FAILED, CanonicalPaymentStatus.CANCELLED, CanonicalPaymentStatus.EXPIRED,
      CanonicalPaymentStatus.RECONCILIATION_REQUIRED]"
| "paymentTransitions CanonicalPaymentStatus.REQUIRES_CUSTOMER_ACTION =
     [CanonicalPaymentStatus.PENDING, CanonicalPaymentStatus.AUTHORIZED, CanonicalPaymentStatus.PAID,
      CanonicalPaymentStatus.FAILED, CanonicalPaymentStatus.CANCELLED, CanonicalPaymentStatus.EXPIRED,
      CanonicalPaymentStatus.RECONCILIATION_REQUIRED]"
| "paymentTransitions CanonicalPaymentStatus.AUTHORIZED =
     [CanonicalPaymentStatus.PAID, CanonicalPaymentStatus.FAILED, CanonicalPaymentStatus.CANCELLED,
      CanonicalPaymentStatus.EXPIRED, CanonicalPaymentStatus.RECONCILIATION_REQUIRED]"
| "paymentTransitions CanonicalPaymentStatus.PAID =
     [CanonicalPaymentStatus.PARTIALLY_REFUNDED, CanonicalPaymentStatus.REFUNDED, CanonicalPaymentStatus.RECONCILIATION_REQUIRED]"
| "paymentTransitions CanonicalPaymentStatus.FAILED =
     [CanonicalPaymentStatus.RECONCILIATION_REQUIRED]"
| "paymentTransitions CanonicalPaymentStatus.CANCELLED =
     [CanonicalPaymentStatus.RECONCILIATION_REQUIRED]"
| "paymentTransitions CanonicalPaymentStatus.EXPIRED =
     [CanonicalPaymentStatus.RECONCILIATION_REQUIRED]"
| "paymentTransitions CanonicalPaymentStatus.PARTIALLY_REFUNDED =
     [CanonicalPaymentStatus.PARTIALLY_REFUNDED, CanonicalPaymentStatus.REFUNDED, CanonicalPaymentStatus.RECONCILIATION_REQUIRED]"
| "paymentTransitions CanonicalPaymentStatus.REFUNDED =
     [CanonicalPaymentStatus.RECONCILIATION_REQUIRED]"
| "paymentTransitions CanonicalPaymentStatus.RECONCILIATION_REQUIRED =
     [CanonicalPaymentStatus.PAID, CanonicalPaymentStatus.FAILED, CanonicalPaymentStatus.CANCELLED,
      CanonicalPaymentStatus.EXPIRED, CanonicalPaymentStatus.PARTIALLY_REFUNDED, CanonicalPaymentStatus.REFUNDED]"

definition paidEvidence :: "PaymentTransitionEvidence list" where
  "paidEvidence =
     [SIGNED_WEBHOOK, VERIFIED_PROVIDER_QUERY, VERIFIED_PROVIDER_CONFIRMATION,
      PRIVILEGED_RECONCILIATION]"

definition assertPaymentTransition ::
  "CanonicalPaymentStatus \<Rightarrow> CanonicalPaymentStatus \<Rightarrow> PaymentTransitionEvidence
     \<Rightarrow> PaymentProviderError + unit" where
  "assertPaymentTransition current next_status evidence =
     (if current = next_status then Inr ()
      else if next_status \<notin> set (paymentTransitions current)
        then Inl PAYMENT_STATUS_TRANSITION_INVALID
      else if (next_status = CanonicalPaymentStatus.PAID \<or> next_status = CanonicalPaymentStatus.AUTHORIZED)
           \<and> evidence \<notin> set paidEvidence
        then Inl PAYMENT_TRUSTED_EVIDENCE_REQUIRED
      else Inr ())"

definition isTerminalPaymentStatus :: "CanonicalPaymentStatus \<Rightarrow> bool" where
  "isTerminalPaymentStatus status \<longleftrightarrow>
     status = CanonicalPaymentStatus.FAILED \<or> status = CanonicalPaymentStatus.CANCELLED
     \<or> status = CanonicalPaymentStatus.EXPIRED \<or> status = CanonicalPaymentStatus.REFUNDED"

text \<open>A payment row under a sequence of accepted updates.\<close>

fun payment_run ::
  "CanonicalPaymentStatus \<Rightarrow> (CanonicalPaymentStatus \<times> PaymentTransitionEvidence) list
     \<Rightarrow> PaymentProviderError + CanonicalPaymentStatus" where
  "payment_run s [] = Inr s"
| "payment_run s ((t, e) # us) =
     (case assertPaymentTransition s t e of Inl err \<Rightarrow> Inl err | Inr _ \<Rightarrow> payment_run t us)"

definition payment_settled :: "CanonicalPaymentStatus set" where
  "payment_settled =
     {CanonicalPaymentStatus.AUTHORIZED, CanonicalPaymentStatus.PAID,
      CanonicalPaymentStatus.PARTIALLY_REFUNDED, CanonicalPaymentStatus.REFUNDED,
      CanonicalPaymentStatus.RECONCILIATION_REQUIRED}"

lemma payment_enters_settled:
  "assertPaymentTransition s t e = Inr () \<Longrightarrow> s \<notin> payment_settled \<Longrightarrow> t \<in> payment_settled \<Longrightarrow>
     e \<in> set paidEvidence \<or> t = CanonicalPaymentStatus.RECONCILIATION_REQUIRED"
  by (cases s; cases t)
    (auto simp: assertPaymentTransition_def payment_settled_def split: if_splits)

lemma payment_run_untrusted:
  assumes "payment_run s us = Inr t"
    and "\<And>u. u \<in> set us \<Longrightarrow> snd u \<notin> set paidEvidence"
    and "s \<noteq> CanonicalPaymentStatus.PAID" and "s \<noteq> CanonicalPaymentStatus.AUTHORIZED"
  shows "t \<noteq> CanonicalPaymentStatus.PAID \<and> t \<noteq> CanonicalPaymentStatus.AUTHORIZED"
  using assms
proof (induction us arbitrary: s)
  case Nil
  then show ?case by simp
next
  case (Cons u us)
  obtain t' e where u: "u = (t', e)" by (cases u)
  from u Cons.prems(2) [of u] have e: "e \<notin> set paidEvidence" by simp
  from u Cons.prems(1) have step: "assertPaymentTransition s t' e = Inr ()"
    and rest: "payment_run t' us = Inr t"
    by (auto split: sum.splits)
  from step e Cons.prems(3,4)
  have "t' \<noteq> CanonicalPaymentStatus.PAID" and "t' \<noteq> CanonicalPaymentStatus.AUTHORIZED"
    by (auto simp: assertPaymentTransition_def split: if_splits)
  with Cons.IH [OF rest] Cons.prems(2) show ?case by auto
qed

section \<open>Electronic invoices\<close>

datatype InvoiceLifecycleStatus =
  NOT_REQUIRED | PENDING | ISSUING | ISSUED
| ISSUE_FAILED | VOID_PENDING | VOIDED | VOID_FAILED
| ALLOWANCE_PENDING | PARTIALLY_ALLOWED | FULLY_ALLOWED | ALLOWANCE_FAILED
| ALLOWANCE_VOID_PENDING | ALLOWANCE_VOIDED | ALLOWANCE_VOID_FAILED | RECONCILIATION_REQUIRED
| MANUAL_REVIEW

fun invoiceTransitions :: "InvoiceLifecycleStatus \<Rightarrow> InvoiceLifecycleStatus list" where
  "invoiceTransitions InvoiceLifecycleStatus.NOT_REQUIRED = []"
| "invoiceTransitions InvoiceLifecycleStatus.PENDING =
     [InvoiceLifecycleStatus.ISSUING, InvoiceLifecycleStatus.NOT_REQUIRED, InvoiceLifecycleStatus.MANUAL_REVIEW]"
| "invoiceTransitions InvoiceLifecycleStatus.ISSUING =
     [InvoiceLifecycleStatus.ISSUED, InvoiceLifecycleStatus.ISSUE_FAILED, InvoiceLifecycleStatus.RECONCILIATION_REQUIRED]"
| "invoiceTransitions InvoiceLifecycleStatus.ISSUED =
     [InvoiceLifecycleStatus.VOID_PENDING, InvoiceLifecycleStatus.ALLOWANCE_PENDING, InvoiceLifecycleStatus.RECONCILIATION_REQUIRED,
      InvoiceLifecycleStatus.MANUAL_REVIEW]"
| "invoiceTransitions InvoiceLifecycleStatus.ISSUE_FAILED =
     [InvoiceLifecycleStatus.ISSUING, InvoiceLifecycleStatus.MANUAL_REVIEW]"
| "invoiceTransitions InvoiceLifecycleStatus.VOID_PENDING =
     [InvoiceLifecycleStatus.VOIDED, InvoiceLifecycleStatus.VOID_FAILED, InvoiceLifecycleStatus.RECONCILIATION_REQUIRED]"
| "invoiceTransitions InvoiceLifecycleStatus.VOIDED =
     [InvoiceLifecycleStatus.RECONCILIATION_REQUIRED, InvoiceLifecycleStatus.MANUAL_REVIEW]"
| "invoiceTransitions InvoiceLifecycleStatus.VOID_FAILED =
     [InvoiceLifecycleStatus.VOID_PENDING, InvoiceLifecycleStatus.MANUAL_REVIEW]"
| "invoiceTransitions InvoiceLifecycleStatus.ALLOWANCE_PENDING =
     [InvoiceLifecycleStatus.PARTIALLY_ALLOWED, InvoiceLifecycleStatus.FULLY_ALLOWED, InvoiceLifecycleStatus.ALLOWANCE_FAILED,
      InvoiceLifecycleStatus.RECONCILIATION_REQUIRED]"
| "invoiceTransitions InvoiceLifecycleStatus.PARTIALLY_ALLOWED =
     [InvoiceLifecycleStatus.ALLOWANCE_PENDING, InvoiceLifecycleStatus.ALLOWANCE_VOID_PENDING, InvoiceLifecycleStatus.VOID_PENDING,
      InvoiceLifecycleStatus.RECONCILIATION_REQUIRED, InvoiceLifecycleStatus.MANUAL_REVIEW]"
| "invoiceTransitions InvoiceLifecycleStatus.FULLY_ALLOWED =
     [InvoiceLifecycleStatus.ALLOWANCE_VOID_PENDING, InvoiceLifecycleStatus.VOID_PENDING, InvoiceLifecycleStatus.RECONCILIATION_REQUIRED,
      InvoiceLifecycleStatus.MANUAL_REVIEW]"
| "invoiceTransitions InvoiceLifecycleStatus.ALLOWANCE_FAILED =
     [InvoiceLifecycleStatus.ALLOWANCE_PENDING, InvoiceLifecycleStatus.MANUAL_REVIEW]"
| "invoiceTransitions InvoiceLifecycleStatus.ALLOWANCE_VOID_PENDING =
     [InvoiceLifecycleStatus.ALLOWANCE_VOIDED, InvoiceLifecycleStatus.ALLOWANCE_VOID_FAILED, InvoiceLifecycleStatus.RECONCILIATION_REQUIRED]"
| "invoiceTransitions InvoiceLifecycleStatus.ALLOWANCE_VOIDED =
     [InvoiceLifecycleStatus.ISSUED, InvoiceLifecycleStatus.RECONCILIATION_REQUIRED, InvoiceLifecycleStatus.MANUAL_REVIEW]"
| "invoiceTransitions InvoiceLifecycleStatus.ALLOWANCE_VOID_FAILED =
     [InvoiceLifecycleStatus.ALLOWANCE_VOID_PENDING, InvoiceLifecycleStatus.MANUAL_REVIEW]"
| "invoiceTransitions InvoiceLifecycleStatus.RECONCILIATION_REQUIRED =
     [InvoiceLifecycleStatus.MANUAL_REVIEW, InvoiceLifecycleStatus.ISSUED, InvoiceLifecycleStatus.VOIDED,
      InvoiceLifecycleStatus.PARTIALLY_ALLOWED, InvoiceLifecycleStatus.FULLY_ALLOWED]"
| "invoiceTransitions InvoiceLifecycleStatus.MANUAL_REVIEW =
     [InvoiceLifecycleStatus.ISSUED, InvoiceLifecycleStatus.VOIDED, InvoiceLifecycleStatus.PARTIALLY_ALLOWED,
      InvoiceLifecycleStatus.FULLY_ALLOWED, InvoiceLifecycleStatus.RECONCILIATION_REQUIRED]"

definition canTransitionInvoice ::
  "InvoiceLifecycleStatus \<Rightarrow> InvoiceLifecycleStatus \<Rightarrow> bool" where
  "canTransitionInvoice from_status to_status \<longleftrightarrow>
     from_status = to_status \<or> to_status \<in> set (invoiceTransitions from_status)"

datatype InvoiceProviderError = INVOICE_STATE_TRANSITION_INVALID

definition assertInvoiceTransition ::
  "InvoiceLifecycleStatus \<Rightarrow> InvoiceLifecycleStatus \<Rightarrow> InvoiceProviderError + unit" where
  "assertInvoiceTransition from_status to_status =
     (if \<not> canTransitionInvoice from_status to_status then Inl INVOICE_STATE_TRANSITION_INVALID
      else Inr ())"

definition invoice_advance :: "InvoiceLifecycleStatus \<Rightarrow> InvoiceLifecycleStatus \<Rightarrow> bool" where
  "invoice_advance s t \<longleftrightarrow> t \<in> set (invoiceTransitions s)"

interpretation invoice_machine:
  lifecycle invoice_advance "\<lambda>s. s = InvoiceLifecycleStatus.NOT_REQUIRED"
  by unfold_locales (simp add: invoice_advance_def)

definition issue_phase :: "InvoiceLifecycleStatus set" where
  "issue_phase =
     {InvoiceLifecycleStatus.NOT_REQUIRED, InvoiceLifecycleStatus.PENDING,
      InvoiceLifecycleStatus.ISSUING, InvoiceLifecycleStatus.ISSUE_FAILED}"

lemma canTransitionInvoice_out_of_issue:
  "canTransitionInvoice s t \<Longrightarrow> s \<notin> issue_phase \<Longrightarrow> t \<notin> issue_phase"
  by (cases s) (auto simp: canTransitionInvoice_def issue_phase_def)

datatype RefundInvoiceReason =
  REFUND_AMOUNT_NOT_POSITIVE | INVOICE_STATE_REQUIRES_REVIEW | REFUND_EXCEEDS_UNADJUSTED_INVOICE
| FULL_REFUND_POLICY_VOID | FULL_ALLOWANCE_REQUIRED | PARTIAL_REFUND_POLICY_ALLOWANCE
| NO_APPROVED_AUTOMATIC_ADJUSTMENT

datatype RefundInvoiceDecision =
  NONE RefundInvoiceReason | VOID RefundInvoiceReason | ALLOWANCE int RefundInvoiceReason
| REVIEW RefundInvoiceReason

record refund_decision_input =
  rd_invoiceStatus :: InvoiceLifecycleStatus
  rd_invoiceTotalAmount :: int
  rd_alreadyAllowedAmount :: int
  rd_refundAmount :: int
  rd_providerSupportsVoid :: bool
  rd_providerSupportsAllowance :: bool
  rd_autoVoidOnFullRefund :: bool
  rd_allowanceOnPartialRefund :: bool

definition decideRefundInvoiceAction :: "refund_decision_input \<Rightarrow> RefundInvoiceDecision" where
  "decideRefundInvoiceAction i =
     (if \<not> isSafeInteger (rd_refundAmount i) \<or> rd_refundAmount i \<le> 0
        then NONE REFUND_AMOUNT_NOT_POSITIVE
      else if rd_invoiceStatus i \<notin>
          {InvoiceLifecycleStatus.ISSUED, InvoiceLifecycleStatus.PARTIALLY_ALLOWED,
           InvoiceLifecycleStatus.FULLY_ALLOWED}
        then REVIEW INVOICE_STATE_REQUIRES_REVIEW
      else
        let remainingAmount = rd_invoiceTotalAmount i - rd_alreadyAllowedAmount i in
        if rd_refundAmount i > remainingAmount then REVIEW REFUND_EXCEEDS_UNADJUSTED_INVOICE
        else
          let fullRemainingRefund = (rd_refundAmount i = remainingAmount) in
          if fullRemainingRefund \<and> rd_alreadyAllowedAmount i = 0 \<and> rd_autoVoidOnFullRefund i
             \<and> rd_providerSupportsVoid i
            then VOID FULL_REFUND_POLICY_VOID
          else if rd_providerSupportsAllowance i
             \<and> (fullRemainingRefund \<or> rd_allowanceOnPartialRefund i)
            then ALLOWANCE (rd_refundAmount i)
                   (if fullRemainingRefund then FULL_ALLOWANCE_REQUIRED
                    else PARTIAL_REFUND_POLICY_ALLOWANCE)
          else REVIEW NO_APPROVED_AUTOMATIC_ADJUSTMENT)"

section \<open>Merchant applications\<close>

datatype MerchantApplicationStatus =
  DRAFT | SUBMITTED | PENDING_REVIEW | NEEDS_INFO | APPROVED | REJECTED | WITHDRAWN | EXPIRED

datatype application_actor = APPLICANT | PLATFORM_ADMIN

fun applicantTransitions :: "MerchantApplicationStatus \<Rightarrow> MerchantApplicationStatus list" where
  "applicantTransitions MerchantApplicationStatus.DRAFT =
     [MerchantApplicationStatus.SUBMITTED]"
| "applicantTransitions MerchantApplicationStatus.NEEDS_INFO =
     [MerchantApplicationStatus.SUBMITTED, MerchantApplicationStatus.WITHDRAWN]"
| "applicantTransitions MerchantApplicationStatus.PENDING_REVIEW =
     [MerchantApplicationStatus.WITHDRAWN]"
| "applicantTransitions _ = []"

fun reviewerTransitions :: "MerchantApplicationStatus \<Rightarrow> MerchantApplicationStatus list" where
  "reviewerTransitions MerchantApplicationStatus.SUBMITTED =
     [MerchantApplicationStatus.PENDING_REVIEW]"
| "reviewerTransitions MerchantApplicationStatus.PENDING_REVIEW =
     [MerchantApplicationStatus.NEEDS_INFO, MerchantApplicationStatus.APPROVED, MerchantApplicationStatus.REJECTED,
      MerchantApplicationStatus.WITHDRAWN]"
| "reviewerTransitions MerchantApplicationStatus.NEEDS_INFO =
     [MerchantApplicationStatus.PENDING_REVIEW, MerchantApplicationStatus.WITHDRAWN]"
| "reviewerTransitions _ = []"

definition canTransitionMerchantApplication ::
  "MerchantApplicationStatus \<Rightarrow> MerchantApplicationStatus \<Rightarrow> application_actor \<Rightarrow> bool" where
  "canTransitionMerchantApplication current next_status actor =
     (let transitions = (if actor = APPLICANT then applicantTransitions else reviewerTransitions)
      in next_status \<in> set (transitions current))"

definition assertMerchantApplicationTransition ::
  "MerchantApplicationStatus \<Rightarrow> MerchantApplicationStatus \<Rightarrow> application_actor \<Rightarrow> string + unit" where
  "assertMerchantApplicationTransition current next_status actor =
     (if \<not> canTransitionMerchantApplication current next_status actor
      then Inl ''MERCHANT_APPLICATION_TRANSITION_INVALID'' else Inr ())"

definition canStartMerchantReapplication :: "MerchantApplicationStatus \<Rightarrow> bool \<Rightarrow> bool" where
  "canStartMerchantReapplication status reapplicationAllowed \<longleftrightarrow>
     status = MerchantApplicationStatus.WITHDRAWN
     \<or> (status = MerchantApplicationStatus.REJECTED \<and> reapplicationAllowed)"

definition application_advance ::
  "MerchantApplicationStatus \<Rightarrow> MerchantApplicationStatus \<Rightarrow> bool" where
  "application_advance s t \<longleftrightarrow> (\<exists>actor. canTransitionMerchantApplication s t actor)"

definition application_closed :: "MerchantApplicationStatus \<Rightarrow> bool" where
  "application_closed s \<longleftrightarrow>
     s \<in> {MerchantApplicationStatus.APPROVED, MerchantApplicationStatus.REJECTED,
          MerchantApplicationStatus.WITHDRAWN, MerchantApplicationStatus.EXPIRED}"

interpretation application_machine: lifecycle application_advance application_closed
  by unfold_locales
    (auto simp: application_advance_def application_closed_def
       canTransitionMerchantApplication_def Let_def split: if_splits)

text \<open>The actor of every accepted change, with the status it leads to.\<close>

fun application_run ::
  "MerchantApplicationStatus \<Rightarrow> (MerchantApplicationStatus \<times> application_actor) list
     \<Rightarrow> string + MerchantApplicationStatus" where
  "application_run s [] = Inr s"
| "application_run s ((t, actor) # us) =
     (case assertMerchantApplicationTransition s t actor of
        Inl err \<Rightarrow> Inl err | Inr _ \<Rightarrow> application_run t us)"

section \<open>Catalogue versions and schedules\<close>

datatype CatalogVersionStatus =
  DRAFT | IN_REVIEW | APPROVED | SCHEDULED | PUBLISHING
| ACTIVE | SUPERSEDED | ROLLED_BACK | FAILED | ARCHIVED

fun catalogTransitions :: "CatalogVersionStatus \<Rightarrow> CatalogVersionStatus list" where
  "catalogTransitions CatalogVersionStatus.DRAFT =
     [CatalogVersionStatus.IN_REVIEW, CatalogVersionStatus.ARCHIVED]"
| "catalogTransitions CatalogVersionStatus.IN_REVIEW =
     [CatalogVersionStatus.APPROVED, CatalogVersionStatus.DRAFT, CatalogVersionStatus.ARCHIVED]"
| "catalogTransitions CatalogVersionStatus.APPROVED =
     [CatalogVersionStatus.SCHEDULED, CatalogVersionStatus.PUBLISHING, CatalogVersionStatus.DRAFT,
      CatalogVersionStatus.ARCHIVED]"
| "catalogTransitions CatalogVersionStatus.SCHEDULED =
     [CatalogVersionStatus.PUBLISHING, CatalogVersionStatus.APPROVED, CatalogVersionStatus.ARCHIVED]"
| "catalogTransitions CatalogVersionStatus.PUBLISHING =
     [CatalogVersionStatus.ACTIVE, CatalogVersionStatus.FAILED]"
| "catalogTransitions CatalogVersionStatus.ACTIVE =
     [CatalogVersionStatus.SUPERSEDED, CatalogVersionStatus.ROLLED_BACK]"
| "catalogTransitions CatalogVersionStatus.SUPERSEDED =
     [CatalogVersionStatus.ROLLED_BACK, CatalogVersionStatus.ARCHIVED]"
| "catalogTransitions CatalogVersionStatus.ROLLED_BACK =
     [CatalogVersionStatus.ARCHIVED]"
| "catalogTransitions CatalogVersionStatus.FAILED =
     [CatalogVersionStatus.DRAFT, CatalogVersionStatus.ARCHIVED]"
| "catalogTransitions CatalogVersionStatus.ARCHIVED = []"

definition assertCatalogVersionTransition ::
  "CatalogVersionStatus \<Rightarrow> CatalogVersionStatus \<Rightarrow> string + unit" where
  "assertCatalogVersionTransition current next_status =
     (if current = next_status \<or> next_status \<notin> set (catalogTransitions current)
      then Inl ''CATALOG_VERSION_TRANSITION_INVALID'' else Inr ())"

definition catalog_advance :: "CatalogVersionStatus \<Rightarrow> CatalogVersionStatus \<Rightarrow> bool" where
  "catalog_advance s t \<longleftrightarrow> assertCatalogVersionTransition s t = Inr ()"

interpretation catalog_machine: lifecycle catalog_advance "\<lambda>s. s = CatalogVersionStatus.ARCHIVED"
  by unfold_locales (simp add: catalog_advance_def assertCatalogVersionTransition_def)

datatype StallScheduleStatus =
  SCHEDULED | OPEN | DELAYED | CANCELLED | COMPLETED

fun allowedScheduleTransitions :: "StallScheduleStatus \<Rightarrow> StallScheduleStatus list" where
  "allowedScheduleTransitions StallScheduleStatus.SCHEDULED =
     [StallScheduleStatus.OPEN, StallScheduleStatus.DELAYED, StallScheduleStatus.CANCELLED]"
| "allowedScheduleTransitions StallScheduleStatus.OPEN =
     [StallScheduleStatus.COMPLETED, StallScheduleStatus.CANCELLED]"
| "allowedScheduleTransitions StallScheduleStatus.DELAYED =
     [StallScheduleStatus.OPEN, StallScheduleStatus.CANCELLED]"
| "allowedScheduleTransitions StallScheduleStatus.CANCELLED = []"
| "allowedScheduleTransitions StallScheduleStatus.COMPLETED = []"

definition canTransitionSchedule :: "StallScheduleStatus \<Rightarrow> StallScheduleStatus \<Rightarrow> bool" where
  "canTransitionSchedule current next_status \<longleftrightarrow> next_status \<in> set (allowedScheduleTransitions current)"

fun schedule_rank :: "StallScheduleStatus \<Rightarrow> nat" where
  "schedule_rank StallScheduleStatus.SCHEDULED = 0"
| "schedule_rank StallScheduleStatus.DELAYED = 1"
| "schedule_rank StallScheduleStatus.OPEN = 2"
| "schedule_rank StallScheduleStatus.CANCELLED = 3"
| "schedule_rank StallScheduleStatus.COMPLETED = 3"

interpretation schedule_machine:
  ranked_lifecycle canTransitionSchedule
    "\<lambda>s. s = StallScheduleStatus.CANCELLED \<or> s = StallScheduleStatus.COMPLETED" schedule_rank 3
proof unfold_locales
  show "\<not> canTransitionSchedule s t"
    if "s = StallScheduleStatus.CANCELLED \<or> s = StallScheduleStatus.COMPLETED" for s t
    using that by (auto simp: canTransitionSchedule_def)
  show "schedule_rank s < schedule_rank t" if "canTransitionSchedule s t" for s t
    using that by (cases s) (auto simp: canTransitionSchedule_def)
  show "schedule_rank s \<le> 3" for s by (cases s) simp_all
qed

section \<open>Order items and kitchen tasks\<close>

datatype OrderItemStatus = PENDING | PREPARING | READY | SERVED

fun nextItemStatus :: "OrderItemStatus \<Rightarrow> OrderItemStatus option" where
  "nextItemStatus OrderItemStatus.PENDING = Some OrderItemStatus.PREPARING"
| "nextItemStatus OrderItemStatus.PREPARING = Some OrderItemStatus.READY"
| "nextItemStatus OrderItemStatus.READY = Some OrderItemStatus.SERVED"
| "nextItemStatus OrderItemStatus.SERVED = None"

definition canTransitionOrderItem :: "OrderItemStatus \<Rightarrow> OrderItemStatus \<Rightarrow> UserRole \<Rightarrow> bool" where
  "canTransitionOrderItem current next_status role =
     (if role = KITCHEN then False
      else if nextItemStatus current \<noteq> Some next_status then False
      else True)"

definition deriveOrderStatusFromItems :: "OrderStatus \<Rightarrow> OrderItemStatus list \<Rightarrow> OrderStatus" where
  "deriveOrderStatusFromItems current itemStatuses =
     (if length itemStatuses = 0 \<or> current = OrderStatus.WAITING_CONFIRMATION then current
      else if list_all (\<lambda>status. status = OrderItemStatus.READY \<or> status = OrderItemStatus.SERVED) itemStatuses
        then OrderStatus.READY
      else if current = OrderStatus.PACKING then OrderStatus.PACKING
      else if list_ex (\<lambda>status. status \<noteq> OrderItemStatus.PENDING) itemStatuses
        then OrderStatus.PREPARING
      else OrderStatus.CONFIRMED)"

fun item_rank :: "OrderItemStatus \<Rightarrow> nat" where
  "item_rank OrderItemStatus.PENDING = 0"
| "item_rank OrderItemStatus.PREPARING = 1"
| "item_rank OrderItemStatus.READY = 2"
| "item_rank OrderItemStatus.SERVED = 3"

interpretation item_machine:
  ranked_lifecycle "\<lambda>s t. nextItemStatus s = Some t" "\<lambda>s. s = OrderItemStatus.SERVED" item_rank 3
proof unfold_locales
  show "nextItemStatus s \<noteq> Some t" if "s = OrderItemStatus.SERVED" for s t
    using that by simp
  show "item_rank s < item_rank t" if "nextItemStatus s = Some t" for s t
    using that by (cases s) auto
  show "item_rank s \<le> 3" for s by (cases s) simp_all
qed

datatype KitchenTaskState = PENDING | PREPARING | COMPLETED | CANCELLED

definition canTransitionKitchenTask :: "KitchenTaskState \<Rightarrow> KitchenTaskState \<Rightarrow> bool" where
  "canTransitionKitchenTask current next_state =
     (if current = KitchenTaskState.CANCELLED \<or> next_state = KitchenTaskState.CANCELLED
         \<or> current = next_state then False
      else if next_state = KitchenTaskState.PENDING
        then current = KitchenTaskState.PREPARING \<or> current = KitchenTaskState.COMPLETED
      else if next_state = KitchenTaskState.PREPARING then current = KitchenTaskState.PENDING
      else current = KitchenTaskState.PREPARING)"

interpretation kitchen_machine:
  lifecycle canTransitionKitchenTask "\<lambda>s. s = KitchenTaskState.CANCELLED"
  by unfold_locales (simp add: canTransitionKitchenTask_def)

section \<open>Offline orders\<close>

datatype OfflineOrderState =
  LOCAL_NEW | LOCAL_CONFIRMED | LOCAL_PREPARING
| LOCAL_READY | LOCAL_COMPLETED | LOCAL_CANCELLED

fun offlineOrderStateTransitions :: "OfflineOrderState \<Rightarrow> OfflineOrderState list" where
  "offlineOrderStateTransitions OfflineOrderState.LOCAL_NEW =
     [OfflineOrderState.LOCAL_CONFIRMED, OfflineOrderState.LOCAL_CANCELLED]"
| "offlineOrderStateTransitions OfflineOrderState.LOCAL_CONFIRMED =
     [OfflineOrderState.LOCAL_PREPARING, OfflineOrderState.LOCAL_READY, OfflineOrderState.LOCAL_CANCELLED]"
| "offlineOrderStateTransitions OfflineOrderState.LOCAL_PREPARING =
     [OfflineOrderState.LOCAL_READY, OfflineOrderState.LOCAL_CANCELLED]"
| "offlineOrderStateTransitions OfflineOrderState.LOCAL_READY =
     [OfflineOrderState.LOCAL_COMPLETED, OfflineOrderState.LOCAL_CANCELLED]"
| "offlineOrderStateTransitions OfflineOrderState.LOCAL_COMPLETED = []"
| "offlineOrderStateTransitions OfflineOrderState.LOCAL_CANCELLED = []"

definition canTransitionOfflineOrder :: "OfflineOrderState \<Rightarrow> OfflineOrderState \<Rightarrow> bool" where
  "canTransitionOfflineOrder current next_state \<longleftrightarrow>
     next_state \<in> set (offlineOrderStateTransitions current)"

fun offline_rank :: "OfflineOrderState \<Rightarrow> nat" where
  "offline_rank LOCAL_NEW = 0"
| "offline_rank LOCAL_CONFIRMED = 1"
| "offline_rank LOCAL_PREPARING = 2"
| "offline_rank LOCAL_READY = 3"
| "offline_rank LOCAL_COMPLETED = 4"
| "offline_rank LOCAL_CANCELLED = 4"

definition offline_closed :: "OfflineOrderState \<Rightarrow> bool" where
  "offline_closed s \<longleftrightarrow> s = LOCAL_COMPLETED \<or> s = LOCAL_CANCELLED"

interpretation offline_machine:
  ranked_lifecycle canTransitionOfflineOrder offline_closed offline_rank 4
proof unfold_locales
  show "\<not> canTransitionOfflineOrder s t" if "offline_closed s" for s t
    using that by (auto simp: offline_closed_def canTransitionOfflineOrder_def)
  show "offline_rank s < offline_rank t" if "canTransitionOfflineOrder s t" for s t
    using that by (cases s) (auto simp: canTransitionOfflineOrder_def)
  show "offline_rank s \<le> 4" for s by (cases s) simp_all
qed

section \<open>Properties\<close>



text \<open>Once an electronic invoice has left the issuing phase it never returns to it: no
  accepted sequence of changes leads from \<open>ISSUED\<close> back to \<open>PENDING\<close>, \<open>ISSUING\<close> or
  \<open>ISSUE_FAILED\<close>, so an invoice number is requested for an order at most once.\<close>

theorem invoice_issued_once:
  assumes "history canTransitionInvoice InvoiceLifecycleStatus.ISSUED ts"
    and "t \<in> set ts"
  shows "t \<notin> {InvoiceLifecycleStatus.PENDING, InvoiceLifecycleStatus.ISSUING,
              InvoiceLifecycleStatus.ISSUE_FAILED}"
proof -
  have "\<forall>t \<in> set ts. t \<notin> issue_phase"
    if "history canTransitionInvoice s ts" "s \<notin> issue_phase" for s
    using that
  proof (induction ts arbitrary: s)
    case (Cons u us)
    then have "u \<notin> issue_phase" using canTransitionInvoice_out_of_issue by auto
    with Cons show ?case by auto
  qed simp
  from this [OF assms(1)] assms(2) show ?thesis by (auto simp: issue_phase_def)
qed

theorem invoice_issued_once_witness:
  "InvoiceLifecycleStatus.VOIDED \<notin> {InvoiceLifecycleStatus.PENDING, InvoiceLifecycleStatus.ISSUING,
              InvoiceLifecycleStatus.ISSUE_FAILED}"
  by (rule invoice_issued_once [of "[InvoiceLifecycleStatus.VOID_PENDING, InvoiceLifecycleStatus.VOIDED]"])
    (simp_all add: canTransitionInvoice_def)

text \<open>What a refund does to the invoice: an allowance is issued for exactly the refunded
  amount, within what is left of the invoice; a voided invoice had no earlier allowance
  and is refunded in full; nothing automatic happens for an invoice that is not issued.\<close>

theorem refund_invoice_decision_sound:
  "(case decideRefundInvoiceAction i of
      ALLOWANCE amount _ \<Rightarrow>
        amount = rd_refundAmount i \<and> 0 < amount
        \<and> rd_alreadyAllowedAmount i + amount \<le> rd_invoiceTotalAmount i
        \<and> rd_providerSupportsAllowance i
        \<and> rd_invoiceStatus i \<in> {InvoiceLifecycleStatus.ISSUED,
             InvoiceLifecycleStatus.PARTIALLY_ALLOWED, InvoiceLifecycleStatus.FULLY_ALLOWED}
    | VOID _ \<Rightarrow>
        rd_alreadyAllowedAmount i = 0 \<and> rd_refundAmount i = rd_invoiceTotalAmount i
        \<and> rd_providerSupportsVoid i \<and> rd_autoVoidOnFullRefund i
        \<and> rd_invoiceStatus i \<in> {InvoiceLifecycleStatus.ISSUED,
             InvoiceLifecycleStatus.PARTIALLY_ALLOWED, InvoiceLifecycleStatus.FULLY_ALLOWED}
    | NONE _ \<Rightarrow> rd_refundAmount i \<le> 0 \<or> MAX_SAFE_INTEGER < rd_refundAmount i
    | REVIEW _ \<Rightarrow> 0 < rd_refundAmount i)"
  by (auto simp: decideRefundInvoiceAction_def Let_def isSafeInteger_def)

text \<open>A merchant application becomes \<open>APPROVED\<close> only by a platform administrator's
  decision on an application under review, and an applicant's own changes only submit or
  withdraw it; nothing happens to it afterwards.\<close>

theorem application_approved_by_reviewer:
  assumes "application_run s (us @ (MerchantApplicationStatus.APPROVED, actor) # vs) = Inr t"
  shows "actor = application_actor.PLATFORM_ADMIN \<and> vs = []
    \<and> application_run s us = Inr MerchantApplicationStatus.PENDING_REVIEW"
proof -
  have split: "application_run s (us @ ws) =
      (case application_run s us of Inl e \<Rightarrow> Inl e | Inr u \<Rightarrow> application_run u ws)" for s us ws
    by (induction us arbitrary: s) (auto split: sum.split)
  from assms obtain u where u: "application_run s us = Inr u"
      "canTransitionMerchantApplication u MerchantApplicationStatus.APPROVED actor"
      "application_run MerchantApplicationStatus.APPROVED vs = Inr t"
    by (auto simp: split assertMerchantApplicationTransition_def split: sum.splits if_splits)
  moreover have "u = MerchantApplicationStatus.PENDING_REVIEW \<and> actor = application_actor.PLATFORM_ADMIN"
    using u(2) by (cases u; cases actor) (auto simp: canTransitionMerchantApplication_def)
  moreover have "vs = []"
    using u(3) application_machine.closed_stuck [of MerchantApplicationStatus.APPROVED]
    by (cases vs) (auto simp: assertMerchantApplicationTransition_def application_advance_def
        application_closed_def split: if_splits)
  ultimately show ?thesis by simp
qed

theorem application_approved_by_reviewer_witness:
  "application_actor.PLATFORM_ADMIN = application_actor.PLATFORM_ADMIN \<and>
   application_run MerchantApplicationStatus.DRAFT
     [(MerchantApplicationStatus.SUBMITTED, APPLICANT),
      (MerchantApplicationStatus.PENDING_REVIEW, application_actor.PLATFORM_ADMIN)]
     = Inr MerchantApplicationStatus.PENDING_REVIEW"
  using application_approved_by_reviewer [of MerchantApplicationStatus.DRAFT
     "[(MerchantApplicationStatus.SUBMITTED, APPLICANT),
      (MerchantApplicationStatus.PENDING_REVIEW, application_actor.PLATFORM_ADMIN)]"
     application_actor.PLATFORM_ADMIN "[]" MerchantApplicationStatus.APPROVED]
  by (simp add: assertMerchantApplicationTransition_def canTransitionMerchantApplication_def)



end
