(* ===== verification/StallData.thy ===== *)
theory StallData
  imports StatusMachines
begin

text \<open>
  The tables of \<open>src/prisma/schema.prisma\<close> that the order, checkout, cash and print
  components read and write, each as a record with the columns those components use, and
  the database as the record of the tables. Nullable columns are options; a table is the
  list of its rows.
\<close>

datatype PaymentStatus = UNPAID | PAID | REFUNDED | PENDING_RECONCILIATION
datatype PaymentMethod = CASH | MANUAL_TRANSFER | OTHER
datatype FulfillmentType = TAKEOUT | DINE_IN | DELIVERY
datatype PaymentOptionKind = CASH | LINE_PAY | JKO_PAY | CUSTOM
datatype CancellationReason = SOLD_OUT | CUSTOMER_CANCELLED | WAIT_TOO_LONG | DUPLICATE_ORDER | OTHER
datatype PrintJobStatus = PENDING | PRINTING | SUCCEEDED | FAILED | CANCELLED
datatype PrintDocumentType = KITCHEN_TICKET | CUSTOMER_RECEIPT
datatype CashShiftStatus = OPEN | CLOSING | REVIEW_REQUIRED | CLOSED
datatype CashMovementType = OPENING_FLOAT | CASH_SALE | CASH_REFUND | CASH_IN | CASH_OUT | CORRECTION
datatype CashShiftReviewDecision = APPROVED | REJECTED | ADJUSTMENT_REQUIRED
datatype AuditOutcome = SUCCESS | DENIED | FAILURE

record order_row =
  o_id :: uid
  o_organizationId :: uid
  o_stallId :: uid
  o_orderNo :: string
  o_source :: string
  o_externalProvider :: "string option"
  o_fulfillmentType :: FulfillmentType
  o_scheduledPickupAt :: "instant option"
  o_requestedFulfillmentAt :: "instant option"
  o_committedFulfillmentAt :: "instant option"
  o_fulfillmentTimeState :: string
  o_status :: OrderStatus
  o_paymentStatus :: PaymentStatus
  o_subtotal :: int
  o_discountAmount :: int
  o_discountOptionId :: "uid option"
  o_discountSource :: string
  o_discountLabel :: "string option"
  o_discountRateBps :: "int option"
  o_discountAppliedById :: "uid option"
  o_discountApprovedById :: "uid option"
  o_discountApprovalReason :: "string option"
  o_total :: int
  o_pickupVerifiedAt :: "instant option"
  o_confirmationExpiresAt :: instant
  o_confirmedAt :: "instant option"
  o_completedAt :: "instant option"
  o_paidAt :: "instant option"
  o_cancellationReason :: "CancellationReason option"
  o_cancellationDetail :: "string option"
  o_cancelledAt :: "instant option"
  o_cancelledById :: "uid option"

record order_item_row =
  oi_id :: uid
  oi_stallId :: uid
  oi_orderId :: uid
  oi_unitPrice :: int
  oi_quantity :: int
  oi_isOrderDiscountEligible :: bool
  oi_status :: OrderItemStatus
  oi_preparingAt :: "instant option"
  oi_readyAt :: "instant option"
  oi_servedAt :: "instant option"

record payment_row =
  p_id :: uid
  p_organizationId :: uid
  p_stallId :: uid
  p_orderId :: uid
  p_paymentOptionId :: "uid option"
  p_cashShiftId :: "uid option"
  p_amount :: int
  p_method :: PaymentMethod
  p_status :: PaymentStatus
  p_methodLabel :: string
  p_cashReceived :: "int option"
  p_changeAmount :: "int option"
  p_recordedById :: "uid option"
  p_paidAt :: instant

record printer_row =
  pr_id :: uid
  pr_organizationId :: uid
  pr_stallId :: uid
  pr_isEnabled :: bool
  pr_lastSeenAt :: "instant option"
  pr_createdAt :: instant

record print_job_row =
  pj_id :: uid
  pj_organizationId :: uid
  pj_stallId :: uid
  pj_orderId :: uid
  pj_printerId :: "uid option"
  pj_requestedById :: "uid option"
  pj_reprintOfId :: "uid option"
  pj_amendmentId :: "uid option"
  pj_isRoutingCopy :: bool
  pj_documentType :: PrintDocumentType
  pj_status :: PrintJobStatus
  pj_createdAt :: instant

record cash_shift_row =
  cs_id :: uid
  cs_organizationId :: uid
  cs_stallId :: uid
  cs_status :: CashShiftStatus
  cs_openingAmount :: int
  cs_systemExpectedAmount :: "int option"
  cs_countedAmount :: "int option"
  cs_varianceAmount :: "int option"
  cs_note :: "string option"
  cs_openedById :: uid
  cs_closedById :: "uid option"
  cs_openedAt :: instant
  cs_closedAt :: "instant option"

record cash_movement_row =
  cm_id :: uid
  cm_organizationId :: uid
  cm_stallId :: uid
  cm_cashShiftId :: uid
  cm_type :: CashMovementType
  cm_amount :: int
  cm_reason :: string
  cm_referenceType :: "string option"
  cm_referenceId :: "uid option"
  cm_recordedById :: uid
  cm_createdAt :: instant

record cash_shift_review_row =
  cr_id :: uid
  cr_organizationId :: uid
  cr_stallId :: uid
  cr_cashShiftId :: uid
  cr_reviewedByProfileId :: uid
  cr_decision :: CashShiftReviewDecision
  cr_comment :: "string option"
  cr_reviewedAt :: instant

record order_event_row =
  oe_organizationId :: uid
  oe_stallId :: uid
  oe_orderId :: uid
  oe_eventType :: string
  oe_previousStatus :: "OrderStatus option"
  oe_newStatus :: "OrderStatus option"
  oe_createdBy :: "uid option"

record audit_row =
  au_action :: string
  au_entityType :: string
  au_entityId :: uid
  au_outcome :: AuditOutcome
  au_stallId :: uid
  au_actorProfileId :: uid

record payment_option_row =
  po_id :: uid
  po_organizationId :: uid
  po_stallId :: uid
  po_name :: string
  po_kind :: PaymentOptionKind
  po_isEnabled :: bool
  po_sortOrder :: int
  po_createdAt :: instant

record discount_option_row =
  do_id :: uid
  do_organizationId :: uid
  do_stallId :: uid
  do_name :: string
  do_rateBps :: int
  do_isEnabled :: bool

record ordering_settings_row =
  se_stallId :: uid
  se_paymentModuleEnabled :: bool
  se_discountModuleEnabled :: bool
  se_discountApprovalThresholdBps :: int
  se_kdsModuleEnabled :: bool
  se_printModuleEnabled :: bool
  se_businessDayCutoffHour :: int
  se_managerAuthorizationCodeHash :: "string option"
  se_managerAuthorizationCodeUpdatedAt :: "instant option"

record stall_row =
  st_id :: uid
  st_timezone :: string

record org_membership_row =
  om_profileId :: uid
  om_organizationId :: uid
  om_role :: UserRole
  om_allStalls :: bool
  om_isActive :: bool

record stall_membership_row =
  sm_profileId :: uid
  sm_organizationId :: uid
  sm_stallId :: uid
  sm_role :: UserRole
  sm_isActive :: bool

record profile_row =
  pf_id :: uid
  pf_email :: string
  pf_passwordHash :: "string option"
  pf_isActive :: bool
  pf_platformRole :: "UserRole option"

record rate_bucket_row =
  rb_key :: string
  rb_scope :: string
  rb_count :: int
  rb_expiresAt :: instant
  rb_updatedAt :: instant

record db =
  orders :: "order_row list"
  order_items :: "order_item_row list"
  payments :: "payment_row list"
  printers :: "printer_row list"
  print_jobs :: "print_job_row list"
  cash_shifts :: "cash_shift_row list"
  cash_movements :: "cash_movement_row list"
  cash_shift_reviews :: "cash_shift_review_row list"
  order_events :: "order_event_row list"
  audit_events :: "audit_row list"
  payment_options :: "payment_option_row list"
  discount_options :: "discount_option_row list"
  ordering_settings :: "ordering_settings_row list"
  stalls :: "stall_row list"
  org_memberships :: "org_membership_row list"
  stall_memberships :: "stall_membership_row list"
  profiles :: "profile_row list"
  rate_limit_buckets :: "rate_bucket_row list"

definition settings_of :: "db \<Rightarrow> uid \<Rightarrow> ordering_settings_row option" where
  "settings_of d stall = List.find (\<lambda>s. se_stallId s = stall) (ordering_settings d)"

definition empty_db :: db where
  "empty_db =
     \<lparr>orders = [], order_items = [], payments = [], printers = [], print_jobs = [],
      cash_shifts = [], cash_movements = [], cash_shift_reviews = [], order_events = [],
      audit_events = [], payment_options = [], discount_options = [],
      ordering_settings = [], stalls = [], org_memberships = [], stall_memberships = [],
      profiles = [], rate_limit_buckets = []\<rparr>"

end
