(* ===== verification/PrintStatus.thy ===== *)
theory PrintStatus
  imports StallData
begin

text \<open>
  The print status of an order (\<open>src/src/lib/primary-print-status.ts\<close>) and the streamlined
  completion of an order without a kitchen display
  (\<open>src/src/server/printing/streamlined-order-completion.ts\<close>). The loop over \<open>pending\<close> is a
  worklist: its measure is the queue plus the jobs not yet in the family, and the lemma
  \<open>family_reachable\<close> states what it computes, the reprints reachable from the document.
\<close>

text \<open>\<open>children.get(id)\<close>, in the order of the jobs.\<close>

definition reprints_of :: "print_job_row \<Rightarrow> print_job_row list \<Rightarrow> uid \<Rightarrow> uid list" where
  "reprints_of primary jobs k =
     map pj_id (filter (\<lambda>job. pj_reprintOfId job = Some k \<and> \<not> pj_isRoutingCopy job
        \<and> pj_documentType job = pj_documentType primary
        \<and> pj_amendmentId job = pj_amendmentId primary) jobs)"

text \<open>The inner loop: the children not yet in the family, each once.\<close>

fun new_members :: "uid list \<Rightarrow> uid list \<Rightarrow> uid list" where
  "new_members [] family = []"
| "new_members (c # cs) family =
     (if c \<in> set family then new_members cs family else c # new_members cs (family @ [c]))"

lemma new_members_props:
  "distinct (new_members cs family) \<and> set (new_members cs family) = set cs - set family"
  by (induction cs family rule: new_members.induct) auto

function family_loop ::
  "print_job_row \<Rightarrow> print_job_row list \<Rightarrow> uid list \<Rightarrow> uid list \<Rightarrow> uid list" where
  "family_loop primary jobs [] family = family"
| "family_loop primary jobs (k # pending) family =
     (let new = new_members (reprints_of primary jobs k) family
      in family_loop primary jobs (pending @ new) (family @ new))"
  by pat_completeness auto
termination
proof (relation "measure (\<lambda>(primary, jobs, pending, family).
          length pending + card (set (map pj_id jobs) - set family))", simp)
  fix primary :: print_job_row and jobs :: "print_job_row list" and k :: uid
    and pending family new :: "uid list"
  assume new: "new = new_members (reprints_of primary jobs k) family"
  note N = new_members_props [of "reprints_of primary jobs k" family, folded new]
  have sub: "set new \<subseteq> set (map pj_id jobs) - set family"
    using N by (auto simp: reprints_of_def)
  have len: "card (set new) = length new" using N distinct_card by blast
  have "card (set (map pj_id jobs) - set (family @ new)) =
      card ((set (map pj_id jobs) - set family) - set new)"
    by (simp add: Diff_Un set_diff_eq Int_def conj_ac)
  also have "\<dots> = card (set (map pj_id jobs) - set family) - length new"
    unfolding len [symmetric] using sub by (intro card_Diff_subset) simp_all
  finally have c: "card (set (map pj_id jobs) - set (family @ new)) =
      card (set (map pj_id jobs) - set family) - length new" .
  have "length new \<le> card (set (map pj_id jobs) - set family)"
    unfolding len [symmetric] using sub by (intro card_mono) simp_all
  with c show "((primary, jobs, pending @ new, family @ new), primary, jobs, k # pending, family)
      \<in> measure (\<lambda>(primary, jobs, pending, family).
          length pending + card (set (map pj_id jobs) - set family))"
    by simp
qed

text \<open>The last loop: the first success, else the status of the last job of the family.\<close>

fun scan_family :: "uid list \<Rightarrow> print_job_row list \<Rightarrow> PrintJobStatus \<Rightarrow> PrintJobStatus" where
  "scan_family family [] status = status"
| "scan_family family (job # jobs) status =
     (if pj_id job \<notin> set family then scan_family family jobs status
      else if pj_status job = SUCCEEDED then SUCCEEDED
      else scan_family family jobs (pj_status job))"

definition resolveDocumentStatus :: "print_job_row list \<Rightarrow> print_job_row \<Rightarrow> PrintJobStatus" where
  "resolveDocumentStatus jobs primary =
     scan_family (family_loop primary jobs [pj_id primary] [pj_id primary]) jobs (pj_status primary)"

definition resolvePrimaryPrintStatus :: "print_job_row list \<Rightarrow> PrintJobStatus option" where
  "resolvePrimaryPrintStatus jobs =
     (case List.find (\<lambda>job. pj_reprintOfId job = None \<and> \<not> pj_isRoutingCopy job
                        \<and> pj_amendmentId job = None) jobs of
        None \<Rightarrow> None
      | Some primary \<Rightarrow>
          let initialStatus = resolveDocumentStatus jobs primary in
          if initialStatus \<noteq> SUCCEEDED then Some initialStatus
          else
            let amendments = filter (\<lambda>job. pj_reprintOfId job = None \<and> pj_amendmentId job \<noteq> None) jobs;
                amendmentStatuses = map (resolveDocumentStatus jobs) amendments
            in (case List.find (\<lambda>s. s = FAILED \<or> s = CANCELLED) amendmentStatuses of
                  Some s \<Rightarrow> Some s
                | None \<Rightarrow>
                    (case List.find (\<lambda>s. s \<noteq> SUCCEEDED) amendmentStatuses of
                       Some s \<Rightarrow> Some s | None \<Rightarrow> Some SUCCEEDED)))"

section \<open>The worklist computes the reprints of the document\<close>

definition reprint_edge :: "print_job_row \<Rightarrow> print_job_row list \<Rightarrow> (uid \<times> uid) set" where
  "reprint_edge primary jobs = {(k, c). c \<in> set (reprints_of primary jobs k)}"

lemma family_loop_sound:
  assumes "set family \<subseteq> (reprint_edge primary jobs)\<^sup>* `` {r}" and "set pending \<subseteq> set family"
  shows "set (family_loop primary jobs pending family) \<subseteq> (reprint_edge primary jobs)\<^sup>* `` {r}"
  using assms
proof (induction primary jobs pending family rule: family_loop.induct)
  case (2 primary jobs k pending family)
  let ?new = "new_members (reprints_of primary jobs k) family"
  have "set ?new \<subseteq> (reprint_edge primary jobs)\<^sup>* `` {r}"
  proof
    fix c
    assume "c \<in> set ?new"
    then have "(k, c) \<in> reprint_edge primary jobs"
      using new_members_props [of "reprints_of primary jobs k" family] by (auto simp: reprint_edge_def)
    moreover have "(r, k) \<in> (reprint_edge primary jobs)\<^sup>*" using 2(2,3) by auto
    ultimately show "c \<in> (reprint_edge primary jobs)\<^sup>* `` {r}" by (auto intro: rtrancl_into_rtrancl)
  qed
  with 2 show ?case by (auto simp: Let_def)
qed simp

lemma family_loop_closed:
  assumes "set pending \<subseteq> set family"
    and "\<And>k c. k \<in> set family \<Longrightarrow> k \<notin> set pending \<Longrightarrow> (k, c) \<in> reprint_edge primary jobs \<Longrightarrow> c \<in> set family"
  shows "set family \<subseteq> set (family_loop primary jobs pending family) \<and>
    (\<forall>k c. k \<in> set (family_loop primary jobs pending family) \<longrightarrow> (k, c) \<in> reprint_edge primary jobs
       \<longrightarrow> c \<in> set (family_loop primary jobs pending family))"
  using assms
proof (induction primary jobs pending family rule: family_loop.induct)
  case (2 primary jobs k pending family)
  let ?new = "new_members (reprints_of primary jobs k) family"
  have new: "set ?new = set (reprints_of primary jobs k) - set family"
    using new_members_props by blast
  have "set family \<union> set ?new \<subseteq> set (family_loop primary jobs (pending @ ?new) (family @ ?new)) \<and>
    (\<forall>k c. k \<in> set (family_loop primary jobs (pending @ ?new) (family @ ?new)) \<longrightarrow>
       (k, c) \<in> reprint_edge primary jobs \<longrightarrow>
       c \<in> set (family_loop primary jobs (pending @ ?new) (family @ ?new)))"
  proof (rule 2(1) [OF refl, simplified set_append])
    show "set pending \<union> set ?new \<subseteq> set family \<union> set ?new" using 2(2) by auto
  next
    fix j c
    assume j: "j \<in> set family \<union> set ?new" "j \<notin> set pending \<union> set ?new" "(j, c) \<in> reprint_edge primary jobs"
    show "c \<in> set family \<union> set ?new"
    proof (cases "j = k")
      case True
      with j(3) new show ?thesis by (auto simp: reprint_edge_def)
    next
      case False
      with j 2(3) [of j c] show ?thesis by auto
    qed
  qed
  then show ?case by (simp add: Let_def)
qed simp

lemma family_reachable:
  "set (family_loop primary jobs [r] [r]) = (reprint_edge primary jobs)\<^sup>* `` {r}"
proof
  show "set (family_loop primary jobs [r] [r]) \<subseteq> (reprint_edge primary jobs)\<^sup>* `` {r}"
    by (rule family_loop_sound) auto
  have c: "set [r] \<subseteq> set (family_loop primary jobs [r] [r]) \<and>
    (\<forall>k c. k \<in> set (family_loop primary jobs [r] [r]) \<longrightarrow> (k, c) \<in> reprint_edge primary jobs
       \<longrightarrow> c \<in> set (family_loop primary jobs [r] [r]))"
    by (rule family_loop_closed) auto
  show "(reprint_edge primary jobs)\<^sup>* `` {r} \<subseteq> set (family_loop primary jobs [r] [r])"
  proof
    fix x
    assume "x \<in> (reprint_edge primary jobs)\<^sup>* `` {r}"
    then have "(r, x) \<in> (reprint_edge primary jobs)\<^sup>*" by simp
    then show "x \<in> set (family_loop primary jobs [r] [r])"
      by (induction rule: rtrancl_induct) (use c in auto)
  qed
qed

lemma scan_family_succeeded:
  "scan_family family jobs status = SUCCEEDED \<longleftrightarrow>
     (\<exists>job \<in> set jobs. pj_id job \<in> set family \<and> pj_status job = SUCCEEDED)
     \<or> status = SUCCEEDED \<and> (\<forall>job \<in> set jobs. pj_id job \<notin> set family)"
  by (induction jobs arbitrary: status) auto

text \<open>C31. A document counts as printed exactly when a physical copy of it succeeded: the
  original job, or a job reached from it by any chain of reprints of the same kind of
  document and amendment. The search terminates on every table, cyclic reprint references
  included.\<close>

theorem document_printed_iff:
  assumes "primary \<in> set jobs"
  shows "resolveDocumentStatus jobs primary = SUCCEEDED \<longleftrightarrow>
    (\<exists>job \<in> set jobs. (pj_id primary, pj_id job) \<in> (reprint_edge primary jobs)\<^sup>*
       \<and> pj_status job = SUCCEEDED)"
proof -
  have "pj_id primary \<in> (reprint_edge primary jobs)\<^sup>* `` {pj_id primary}" by simp
  with assms show ?thesis
    unfolding resolveDocumentStatus_def scan_family_succeeded family_reachable by fastforce
qed

definition sample_job :: "string \<Rightarrow> string option \<Rightarrow> PrintJobStatus \<Rightarrow> print_job_row" where
  "sample_job i r s =
     \<lparr>pj_id = i, pj_organizationId = ''org'', pj_stallId = ''stall'', pj_orderId = ''order'',
      pj_printerId = None, pj_requestedById = None, pj_reprintOfId = r, pj_amendmentId = None,
      pj_isRoutingCopy = False, pj_documentType = KITCHEN_TICKET, pj_status = s, pj_createdAt = 0\<rparr>"

theorem document_printed_iff_witness:
  "let jobs = [sample_job ''a'' None FAILED, sample_job ''b'' (Some ''a'') FAILED,
               sample_job ''c'' (Some ''b'') SUCCEEDED]
   in \<exists>job \<in> set jobs. (''a'', pj_id job) \<in> (reprint_edge (sample_job ''a'' None FAILED) jobs)\<^sup>*
        \<and> pj_status job = SUCCEEDED"
proof -
  let ?jobs = "[sample_job ''a'' None FAILED, sample_job ''b'' (Some ''a'') FAILED,
               sample_job ''c'' (Some ''b'') SUCCEEDED]"
  have "resolveDocumentStatus ?jobs (sample_job ''a'' None FAILED) = SUCCEEDED" by code_simp
  with document_printed_iff [of "sample_job ''a'' None FAILED" ?jobs] show ?thesis
    by (simp add: sample_job_def)
qed

end
