(* ===== verification/JsText.thy ===== *)
theory JsText
  imports StallPrelude "HOL-Library.Sublist" "HOL-Library.Product_Lexorder"
    "HOL-Library.List_Lexorder" "HOL-Library.Char_ord"
begin

text \<open>
  The string operations the code takes from JavaScript. A string is the list of its UTF-8
  bytes, so \<open>trim\<close> strips the encodings of the white-space code points, and
  \<open>toLowerCase\<close> acts on the ASCII letters (the accented ones are left alone, the one place
  where the model of a string is coarser than the code's). Decimal printing is the
  interpolation of an integer in a template string.
\<close>

text \<open>Tab to carriage return, space, U+00A0, U+1680, U+2000 to U+200A, U+2028, U+2029,
  U+202F, U+205F, U+3000 and U+FEFF.\<close>

definition js_whitespace :: "string list" where
  "js_whitespace =
    [[CHR 0x20], [CHR 0x09], [CHR 0x0A], [CHR 0x0B], [CHR 0x0C], [CHR 0x0D],
     [CHR 0xC2, CHR 0xA0], [CHR 0xE1, CHR 0x9A, CHR 0x80],
     [CHR 0xE2, CHR 0x80, CHR 0x80], [CHR 0xE2, CHR 0x80, CHR 0x81],
     [CHR 0xE2, CHR 0x80, CHR 0x82], [CHR 0xE2, CHR 0x80, CHR 0x83],
     [CHR 0xE2, CHR 0x80, CHR 0x84], [CHR 0xE2, CHR 0x80, CHR 0x85],
     [CHR 0xE2, CHR 0x80, CHR 0x86], [CHR 0xE2, CHR 0x80, CHR 0x87],
     [CHR 0xE2, CHR 0x80, CHR 0x88], [CHR 0xE2, CHR 0x80, CHR 0x89],
     [CHR 0xE2, CHR 0x80, CHR 0x8A], [CHR 0xE2, CHR 0x80, CHR 0xA8],
     [CHR 0xE2, CHR 0x80, CHR 0xA9], [CHR 0xE2, CHR 0x80, CHR 0xAF],
     [CHR 0xE2, CHR 0x81, CHR 0x9F], [CHR 0xE3, CHR 0x80, CHR 0x80],
     [CHR 0xEF, CHR 0xBB, CHR 0xBF]]"

text \<open>Strips the words of \<open>ws\<close> from the front, as long as one is a prefix.\<close>

function strip_with :: "string list \<Rightarrow> string \<Rightarrow> string" where
  "strip_with ws s =
     (case List.find (\<lambda>w. w \<noteq> [] \<and> prefix w s) ws of
        None \<Rightarrow> s
      | Some w \<Rightarrow> strip_with ws (drop (length w) s))"
  by pat_completeness auto
termination
proof (relation "measure (\<lambda>(ws, s). length s)", simp)
  fix ws :: "string list" and s w :: string
  assume "List.find (\<lambda>w. w \<noteq> [] \<and> prefix w s) ws = Some w"
  then have "w \<noteq> []" and "prefix w s" by (auto dest!: find_Some_D)
  then have "0 < length w" and "length w \<le> length s" by (auto dest: prefix_length_le)
  then have "length s - length w < length s" by linarith
  then show "((ws, drop (length w) s), ws, s) \<in> measure (\<lambda>(ws, s). length s)" by simp
qed

declare strip_with.simps [simp del]

definition js_trim :: "string \<Rightarrow> string" where
  "js_trim s =
     rev (strip_with (map rev js_whitespace) (rev (strip_with js_whitespace s)))"

lemma length_strip_with: "length (strip_with ws s) \<le> length s"
proof (induction ws s rule: strip_with.induct)
  case (1 ws s)
  then show ?case
    by (subst strip_with.simps) (auto split: option.split dest: le_trans)
qed

lemma strip_with_clean:
  "w \<in> set ws \<Longrightarrow> w \<noteq> [] \<Longrightarrow> \<not> prefix w (strip_with ws s)"
proof (induction ws s rule: strip_with.induct)
  case (1 ws s)
  show ?case
  proof (cases "List.find (\<lambda>w. w \<noteq> [] \<and> prefix w s) ws")
    case None
    then have "strip_with ws s = s" by (subst strip_with.simps) simp
    with None 1(2,3) show ?thesis by (auto simp: find_None_D)
  next
    case (Some v)
    then have "strip_with ws s = strip_with ws (drop (length v) s)" by (subst strip_with.simps) simp
    with 1(1) [OF Some 1(2,3)] show ?thesis by simp
  qed
qed

lemma js_trim_Nil [simp]: "js_trim [] = []"
  using length_strip_with [of js_whitespace "[]"]
    length_strip_with [of "map rev js_whitespace" "[]"]
  by (simp add: js_trim_def)

definition ascii_lower :: "char \<Rightarrow> char" where
  "ascii_lower c =
     (let n = of_char c :: nat in if 65 \<le> n \<and> n \<le> 90 then char_of (n + 32) else c)"

definition js_toLowerCase :: "string \<Rightarrow> string" where
  "js_toLowerCase s = map ascii_lower s"

definition is_digit :: "char \<Rightarrow> bool" where
  "is_digit c = (let n = of_char c :: nat in 48 \<le> n \<and> n \<le> 57)"

text \<open>A nullable string in a condition: the empty string is false.\<close>

definition truthy :: "string option \<Rightarrow> bool" where
  "truthy s \<longleftrightarrow> s \<noteq> None \<and> s \<noteq> Some []"

definition or_empty :: "string option \<Rightarrow> string" where
  "or_empty s = (case s of None \<Rightarrow> [] | Some t \<Rightarrow> t)"

fun string_of_nat :: "nat \<Rightarrow> string" where
  "string_of_nat n =
     (if n < 10 then [char_of (48 + n)] else string_of_nat (n div 10) @ [char_of (48 + n mod 10)])"

declare string_of_nat.simps [simp del]

definition string_of_int :: "int \<Rightarrow> string" where
  "string_of_int i = (if i < 0 then ''-'' @ string_of_nat (nat (- i)) else string_of_nat (nat i))"

text \<open>\<open>s.length\<close>: the UTF-16 code units of the characters whose first bytes occur in \<open>s\<close>.\<close>

definition js_length :: "string \<Rightarrow> nat" where
  "js_length s =
     sum_list (map (\<lambda>c. let n = of_char c :: nat in
                          if 128 \<le> n \<and> n < 192 then 0 else if 240 \<le> n then 2 else 1) s)"

text \<open>\<open>z.string().trim().min(lo).max(hi)\<close>, with the trimmed text as its value.\<close>

definition parse_text :: "nat \<Rightarrow> nat \<Rightarrow> string \<Rightarrow> string option" where
  "parse_text lo hi s =
     (let t = js_trim s in if lo \<le> js_length t \<and> js_length t \<le> hi then Some t else None)"

definition parse_optional_text :: "nat \<Rightarrow> nat \<Rightarrow> string option \<Rightarrow> string option option" where
  "parse_optional_text lo hi s =
     (case s of None \<Rightarrow> Some None | Some t \<Rightarrow> map_option Some (parse_text lo hi t))"

text \<open>\<open>xs.sort((l, r) => key(l).localeCompare(key(r)))\<close>: a stable sort by the collation order
  of the runtime, given as \<open>le\<close>.\<close>

fun insort_by :: "('a \<Rightarrow> 'a \<Rightarrow> bool) \<Rightarrow> 'a \<Rightarrow> 'a list \<Rightarrow> 'a list" where
  "insort_by le x [] = [x]"
| "insort_by le x (y # ys) = (if le x y then x # y # ys else y # insort_by le x ys)"

definition sort_by :: "('a \<Rightarrow> 'a \<Rightarrow> bool) \<Rightarrow> 'a list \<Rightarrow> 'a list" where
  "sort_by le xs = foldr (insort_by le) xs []"

lemma set_insort_by [simp]: "set (insort_by le x ys) = insert x (set ys)"
  by (induction ys) auto

lemma set_sort_by [simp]: "set (sort_by le xs) = set xs"
  by (induction xs) (auto simp: sort_by_def)

lemma length_sort_by [simp]: "length (sort_by le xs) = length xs"
proof -
  have "length (insort_by le x ys) = Suc (length ys)" for x ys by (induction ys) auto
  then show ?thesis by (induction xs) (auto simp: sort_by_def)
qed

end
