(* ===== verification/OrderFlow.thy ===== *)
theory OrderFlow
  imports PrintStatus JsText
begin

text \<open>
  The decisions around the completion of an order: the streamlined checkout of a stall
  without a kitchen display (\<open>src/src/server/printing/streamlined-order-completion.ts\<close>), the
  fulfilment time that may block production (\<open>src/src/lib/fulfillment-time-client.ts\<close>) and
  the request schema (\<open>src/src/lib/order-status-update.ts\<close>). The time zone data base of the
  runtime is the parameter \<open>tz_offset\<close> (the offset from UTC in milliseconds at an instant);
  a business date is the number of the day, ordered as the code's ISO dates are.
\<close>

section \<open>Streamlined checkout\<close>

datatype CompletionIntent = COLLECT_PAYMENT | FINALIZE

definition streamlinedSourceStatuses :: "OrderStatus list" where
  "streamlinedSourceStatuses =
     [OrderStatus.CONFIRMED, OrderStatus.PREPARING, OrderStatus.PACKING, OrderStatus.READY]"

record streamlined_input =
  sl_requestedStatus :: OrderStatus
  sl_currentStatus :: OrderStatus
  sl_fulfillmentType :: FulfillmentType
  sl_kdsModuleEnabled :: bool
  sl_printModuleEnabled :: bool
  sl_externalProvider :: "string option"
  sl_primaryPrintStatus :: "PrintJobStatus option"
  sl_source :: string
  sl_paymentStatus :: PaymentStatus
  sl_completionIntent :: "CompletionIntent option"

record checkout_plan =
  cp_targetStatus :: OrderStatus
  cp_itemStatus :: OrderItemStatus
  cp_queuePrint :: bool
  cp_completionPendingPrint :: bool

definition shouldKeepQrOrderOpenAfterPayment :: "streamlined_input \<Rightarrow> bool" where
  "shouldKeepQrOrderOpenAfterPayment i \<longleftrightarrow>
     sl_requestedStatus i = OrderStatus.COMPLETED
     \<and> sl_completionIntent i = Some COLLECT_PAYMENT
     \<and> sl_source i = ''QR_MENU''
     \<and> sl_paymentStatus i = UNPAID
     \<and> sl_externalProvider i = None
     \<and> sl_currentStatus i \<in> set streamlinedSourceStatuses"

definition getStreamlinedCheckoutPlan :: "streamlined_input \<Rightarrow> checkout_plan option" where
  "getStreamlinedCheckoutPlan i =
     (if sl_requestedStatus i \<noteq> OrderStatus.COMPLETED \<or> sl_kdsModuleEnabled i
         \<or> sl_externalProvider i \<noteq> None \<or> sl_currentStatus i \<notin> set streamlinedSourceStatuses
      then None
      else
        let printed = (sl_primaryPrintStatus i = Some SUCCEEDED);
            printCompletesOrder = (sl_source i \<noteq> ''QR_MENU'');
            waitForPrint = (printCompletesOrder \<and> sl_printModuleEnabled i \<and> \<not> printed)
        in Some \<lparr>cp_targetStatus = (if waitForPrint then OrderStatus.READY else OrderStatus.COMPLETED),
                 cp_itemStatus = (if sl_fulfillmentType i = DINE_IN then OrderItemStatus.SERVED
                                  else OrderItemStatus.READY),
                 cp_queuePrint = (printCompletesOrder \<and> sl_printModuleEnabled i
                                  \<and> sl_primaryPrintStatus i = None),
                 cp_completionPendingPrint = waitForPrint\<rparr>)"

text \<open>\<open>primaryPrintJobsQuery\<close>: the jobs of an order, by creation and identifier.\<close>

definition jobs_of_order :: "db \<Rightarrow> uid \<Rightarrow> print_job_row list" where
  "jobs_of_order d orderId =
     sort_key (\<lambda>j. (pj_createdAt j, pj_id j)) (filter (\<lambda>j. pj_orderId j = orderId) (print_jobs d))"

definition ready_and_paid :: "order_row \<Rightarrow> order_row \<Rightarrow> bool" where
  "ready_and_paid order r \<longleftrightarrow>
     o_id r = o_id order \<and> o_stallId r = o_stallId order
     \<and> o_status r = OrderStatus.READY \<and> o_paymentStatus r = PaymentStatus.PAID"

definition complete_order :: "order_row \<Rightarrow> instant \<Rightarrow> db \<Rightarrow> db" where
  "complete_order order now d =
     d\<lparr>orders := update_where (ready_and_paid order)
         (\<lambda>r. r\<lparr>o_status := OrderStatus.COMPLETED, o_completedAt := Some now\<rparr>) (orders d),
       order_events := order_events d @
         [\<lparr>oe_organizationId = o_organizationId order, oe_stallId = o_stallId order,
           oe_orderId = o_id order, oe_eventType = ''ORDER_AUTO_COMPLETED_AFTER_PRINT'',
           oe_previousStatus = Some OrderStatus.READY, oe_newStatus = Some OrderStatus.COMPLETED,
           oe_createdBy = None\<rparr>]\<rparr>"

text \<open>The order is found by its primary key, so the update changes one row or none; a count
  other than one returns \<open>false\<close>.\<close>

definition completeStreamlinedOrderAfterPrint :: "uid \<Rightarrow> instant \<Rightarrow> db \<Rightarrow> db \<times> bool" where
  "completeStreamlinedOrderAfterPrint printJobId now d =
     (case List.find (\<lambda>j. pj_id j = printJobId \<and> pj_status j = SUCCEEDED) (print_jobs d) of
        None \<Rightarrow> (d, False)
      | Some job \<Rightarrow>
          (case List.find (\<lambda>r. o_id r = pj_orderId job) (orders d) of
             None \<Rightarrow> (d, False)
           | Some order \<Rightarrow>
               (case settings_of d (o_stallId order) of
                  None \<Rightarrow> (d, False)
                | Some settings \<Rightarrow>
                    if se_kdsModuleEnabled settings \<or> \<not> se_printModuleEnabled settings
                       \<or> o_externalProvider order \<noteq> None \<or> o_source order = ''QR_MENU''
                       \<or> o_status order \<noteq> OrderStatus.READY \<or> o_paymentStatus order \<noteq> PaymentStatus.PAID
                       \<or> resolvePrimaryPrintStatus (jobs_of_order d (o_id order)) \<noteq> Some SUCCEEDED
                    then (d, False)
                    else if count_where (ready_and_paid order) (orders d) \<noteq> 1 then (d, False)
                    else (complete_order order now d, True))))"

section \<open>Fulfilment time\<close>

definition isUninitializedLegacyQrTakeout ::
  "string \<Rightarrow> FulfillmentType \<Rightarrow> instant option \<Rightarrow> instant option \<Rightarrow> instant option \<Rightarrow> instant option
     \<Rightarrow> string \<Rightarrow> int \<Rightarrow> bool" where
  "isUninitializedLegacyQrTakeout source type scheduledPickupAt requestedAt committedAt pendingAt
     state version \<longleftrightarrow>
     source = ''QR_MENU'' \<and> type = TAKEOUT \<and> scheduledPickupAt \<noteq> None \<and> requestedAt = None
     \<and> committedAt = None \<and> pendingAt = None \<and> state = ''NOT_REQUESTED'' \<and> version = 0"

record fulfillment_read_model =
  fr_requestedFulfillmentAt :: "instant option"
  fr_committedFulfillmentAt :: "instant option"
  fr_fulfillmentTimeState :: string

definition resolveFulfillmentTimeReadModel ::
  "string \<Rightarrow> FulfillmentType \<Rightarrow> instant option \<Rightarrow> instant option \<Rightarrow> instant option \<Rightarrow> instant option
     \<Rightarrow> string \<Rightarrow> int \<Rightarrow> fulfillment_read_model" where
  "resolveFulfillmentTimeReadModel source type scheduledPickupAt requestedAt committedAt pendingAt
     state version =
     (let hasLegacyScheduledFallback = (source = ''QR_MENU'' \<and> type = TAKEOUT
            \<and> scheduledPickupAt \<noteq> None \<and> requestedAt = None);
          isUninitializedLegacy = isUninitializedLegacyQrTakeout source type scheduledPickupAt
            requestedAt committedAt pendingAt state version
      in \<lparr>fr_requestedFulfillmentAt =
            (if hasLegacyScheduledFallback then scheduledPickupAt else requestedAt),
          fr_committedFulfillmentAt =
            (if hasLegacyScheduledFallback \<and> committedAt = None then scheduledPickupAt else committedAt),
          fr_fulfillmentTimeState = (if isUninitializedLegacy then ''CONFIRMED'' else state)\<rparr>)"

definition fulfillmentTimeBlocksProduction :: "string \<Rightarrow> bool" where
  "fulfillmentTimeBlocksProduction state \<longleftrightarrow>
     state = ''REQUESTED'' \<or> state = ''CUSTOMER_ACTION_REQUIRED''"

datatype FulfillmentProductionReadiness = BLOCKED | ASAP | OVERDUE | DUE | FUTURE

record production_timing =
  pt_readiness :: FulfillmentProductionReadiness
  pt_effectiveFulfillmentAt :: "instant option"
  pt_fulfillmentBusinessDate :: "int option"
  pt_currentBusinessDate :: int
  pt_productionBlocked :: bool

fun resolveEffectiveFulfillmentAt :: "instant option list \<Rightarrow> instant option" where
  "resolveEffectiveFulfillmentAt [] = None"
| "resolveEffectiveFulfillmentAt (Some t # _) = Some t"
| "resolveEffectiveFulfillmentAt (None # ts) = resolveEffectiveFulfillmentAt ts"

text \<open>The wall clock's hour, moved back by the cut-off, and its day.\<close>

definition stallBusinessDateKey ::
  "(string \<Rightarrow> instant \<Rightarrow> int) \<Rightarrow> instant \<Rightarrow> string \<Rightarrow> int \<Rightarrow> string + int" where
  "stallBusinessDateKey tz_offset value timeZone businessDayCutoffHour =
     (if businessDayCutoffHour < 0 \<or> businessDayCutoffHour > 23
      then Inl ''INVALID_BUSINESS_DAY_CUTOFF_HOUR''
      else Inr (((value + tz_offset timeZone value) div 3600000 - businessDayCutoffHour) div 24))"

record schedule_input =
  sh_fulfillmentTimeState :: string
  sh_committedFulfillmentAt :: "instant option"
  sh_requestedFulfillmentAt :: "instant option"
  sh_scheduledPickupAt :: "instant option"

definition classifyFulfillmentForProduction ::
  "(string \<Rightarrow> instant \<Rightarrow> int) \<Rightarrow> schedule_input \<Rightarrow> string \<Rightarrow> int \<Rightarrow> instant
     \<Rightarrow> string + production_timing" where
  "classifyFulfillmentForProduction tz_offset i timeZone cutoff now =
     andThen (stallBusinessDateKey tz_offset now timeZone cutoff) (\<lambda>currentBusinessDate.
       let effective = resolveEffectiveFulfillmentAt
             [sh_committedFulfillmentAt i, sh_requestedFulfillmentAt i, sh_scheduledPickupAt i]
       in andThen
            (case effective of
               None \<Rightarrow> Inr None
             | Some t \<Rightarrow> andThen (stallBusinessDateKey tz_offset t timeZone cutoff) (\<lambda>x. Inr (Some x)))
            (\<lambda>fulfillmentBusinessDate.
              let timing = (\<lambda>readiness blocked.
                    \<lparr>pt_readiness = readiness, pt_effectiveFulfillmentAt = effective,
                     pt_fulfillmentBusinessDate = fulfillmentBusinessDate,
                     pt_currentBusinessDate = currentBusinessDate, pt_productionBlocked = blocked\<rparr>)
              in if fulfillmentTimeBlocksProduction (sh_fulfillmentTimeState i)
                 then Inr (timing BLOCKED True)
                 else case fulfillmentBusinessDate of
                   None \<Rightarrow> Inr (timing ASAP False)
                 | Some date \<Rightarrow>
                     if date > currentBusinessDate then Inr (timing FUTURE True)
                     else if date < currentBusinessDate then Inr (timing OVERDUE False)
                     else Inr (timing DUE False)))"

definition classifyStallOrderForProduction ::
  "(string \<Rightarrow> instant \<Rightarrow> int) \<Rightarrow> order_row \<Rightarrow> string \<Rightarrow> ordering_settings_row option \<Rightarrow> instant
     \<Rightarrow> string + production_timing" where
  "classifyStallOrderForProduction tz_offset order timezone settings now =
     classifyFulfillmentForProduction tz_offset
       \<lparr>sh_fulfillmentTimeState = o_fulfillmentTimeState order,
        sh_committedFulfillmentAt = o_committedFulfillmentAt order,
        sh_requestedFulfillmentAt = o_requestedFulfillmentAt order,
        sh_scheduledPickupAt = o_scheduledPickupAt order\<rparr>
       timezone (case settings of None \<Rightarrow> 0 | Some s \<Rightarrow> se_businessDayCutoffHour s) now"

section \<open>The request\<close>

record completion_request =
  cq_completionIntent :: "CompletionIntent option"
  cq_paymentOptionId :: "uid option"
  cq_discountOptionId :: "uid option"
  cq_cashReceived :: "int option"
  cq_discountApprovalReason :: "string option"
  cq_managerEmail :: "string option"
  cq_managerPassword :: "string option"
  cq_managerAuthorizationCode :: "string option"

record cancellation_request =
  cc_confirmationOrderNo :: string
  cc_cancellationReason :: CancellationReason
  cc_cancellationDetail :: "string option"
  cc_managerAuthorizationCode :: "string option"

datatype order_status_update =
  Advance OrderStatus | Complete completion_request | Cancel cancellation_request

text \<open>\<open>orderStatusUpdateSchema\<close> on decoded values: an e-mail is checked by the parameter.\<close>

definition code_ok :: "string option \<Rightarrow> bool" where
  "code_ok c = (case c of None \<Rightarrow> True | Some t \<Rightarrow>
     let u = js_trim t in 6 \<le> length u \<and> length u \<le> 8 \<and> list_all is_digit u)"

definition parseOrderStatusUpdate ::
  "(string \<Rightarrow> bool) \<Rightarrow> order_status_update \<Rightarrow> order_status_update option" where
  "parseOrderStatusUpdate is_email u =
     (case u of
        Advance s \<Rightarrow> if s \<in> set streamlinedSourceStatuses then Some u else None
      | Complete c \<Rightarrow>
          (case (parse_optional_text 1 200 (cq_discountApprovalReason c),
                 parse_optional_text 0 254 (cq_managerEmail c)) of
             (Some reason, Some email) \<Rightarrow>
               if (case cq_cashReceived c of None \<Rightarrow> True | Some n \<Rightarrow> 0 \<le> n \<and> n \<le> 100000000)
                  \<and> (case email of None \<Rightarrow> True | Some e \<Rightarrow> is_email e)
                  \<and> (case cq_managerPassword c of None \<Rightarrow> True | Some p \<Rightarrow>
                       1 \<le> js_length p \<and> js_length p \<le> 128)
                  \<and> code_ok (cq_managerAuthorizationCode c)
               then Some (Complete (c\<lparr>cq_discountApprovalReason := reason, cq_managerEmail := email,
                      cq_managerAuthorizationCode := map_option js_trim (cq_managerAuthorizationCode c)\<rparr>))
               else None
           | _ \<Rightarrow> None)
      | Cancel c \<Rightarrow>
          (case parse_optional_text 1 200 (cc_cancellationDetail c) of
             None \<Rightarrow> None
           | Some detail \<Rightarrow>
               if 1 \<le> js_length (cc_confirmationOrderNo c) \<and> js_length (cc_confirmationOrderNo c) \<le> 32
                  \<and> code_ok (cc_managerAuthorizationCode c)
                  \<and> (cc_cancellationReason c = CancellationReason.OTHER \<longrightarrow> truthy detail)
               then Some (Cancel (c\<lparr>cc_cancellationDetail := detail,
                      cc_managerAuthorizationCode := map_option js_trim (cc_managerAuthorizationCode c)\<rparr>))
               else None))"

definition next_status :: "order_status_update \<Rightarrow> OrderStatus" where
  "next_status u = (case u of Advance s \<Rightarrow> s | Complete _ \<Rightarrow> OrderStatus.COMPLETED
                     | Cancel _ \<Rightarrow> OrderStatus.CANCELLED)"

definition cancellationMatchesOrder :: "string \<Rightarrow> string \<Rightarrow> bool" where
  "cancellationMatchesOrder confirmationOrderNo actualOrderNo \<longleftrightarrow> confirmationOrderNo = actualOrderNo"

section \<open>Properties\<close>

lemma complete_order_updates:
  assumes "completeStreamlinedOrderAfterPrint jobId now d = (d', True)"
  obtains job order settings where
    "List.find (\<lambda>j. pj_id j = jobId \<and> pj_status j = SUCCEEDED) (print_jobs d) = Some job"
    "order \<in> set (orders d)" "o_id order = pj_orderId job"
    "List.find (\<lambda>r. o_id r = pj_orderId job) (orders d) = Some order"
    "settings_of d (o_stallId order) = Some settings"
    "\<not> se_kdsModuleEnabled settings" "se_printModuleEnabled settings"
    "o_status order = OrderStatus.READY" "o_paymentStatus order = PaymentStatus.PAID"
    "o_source order \<noteq> ''QR_MENU''" "o_externalProvider order = None"
    "resolvePrimaryPrintStatus (jobs_of_order d (o_id order)) = Some SUCCEEDED"
    "d' = complete_order order now d"
proof -
  from assms obtain job where job: "List.find (\<lambda>j. pj_id j = jobId \<and> pj_status j = SUCCEEDED) (print_jobs d) = Some job"
    by (auto simp: completeStreamlinedOrderAfterPrint_def split: option.splits)
  with assms obtain order where order: "List.find (\<lambda>r. o_id r = pj_orderId job) (orders d) = Some order"
    by (auto simp: completeStreamlinedOrderAfterPrint_def split: option.splits)
  with assms job obtain settings where settings: "settings_of d (o_stallId order) = Some settings"
    by (auto simp: completeStreamlinedOrderAfterPrint_def split: option.splits)
  from assms job order settings find_Some_D [OF job] find_Some_D [OF order] show thesis
    by (intro that [of job order settings])
      (simp_all add: completeStreamlinedOrderAfterPrint_def split: if_split_asm)
qed

text \<open>A finished print job completes an order automatically only when the order is ready
  and paid, was not placed through the QR menu or a delivery platform, the stall prints
  without a kitchen display, and the order's document is physically printed. Exactly the
  order's row changes, along a permitted transition, and the event log gains one entry; when
  the call returns \<open>false\<close> nothing changes, and a second call always returns \<open>false\<close>.\<close>

theorem auto_completion_after_print:
  assumes "distinct (map o_id (orders d))"
    and "completeStreamlinedOrderAfterPrint jobId now d = (d', done)"
  shows "if done then
      \<exists>order \<in> set (orders d). o_status order = OrderStatus.READY \<and> o_paymentStatus order = PaymentStatus.PAID
        \<and> o_source order \<noteq> ''QR_MENU'' \<and> o_externalProvider order = None
        \<and> resolvePrimaryPrintStatus (jobs_of_order d (o_id order)) = Some SUCCEEDED
        \<and> order_advance (o_status order) OrderStatus.COMPLETED
        \<and> orders d' = update_where (\<lambda>r. o_id r = o_id order)
             (\<lambda>r. r\<lparr>o_status := OrderStatus.COMPLETED, o_completedAt := Some now\<rparr>) (orders d)
        \<and> length (order_events d') = Suc (length (order_events d))
        \<and> snd (completeStreamlinedOrderAfterPrint jobId later d') = False
    else d' = d"
proof (cases "done")
  case False
  with assms(2) show ?thesis
    by (auto simp: completeStreamlinedOrderAfterPrint_def Let_def split: option.splits if_splits)
next
  case True
  with assms(2) have "completeStreamlinedOrderAfterPrint jobId now d = (d', True)" by simp
  then obtain job order settings where
    job: "List.find (\<lambda>j. pj_id j = jobId \<and> pj_status j = SUCCEEDED) (print_jobs d) = Some job"
    and order: "order \<in> set (orders d)" "o_id order = pj_orderId job"
    and found: "List.find (\<lambda>r. o_id r = pj_orderId job) (orders d) = Some order"
    and st: "o_status order = OrderStatus.READY" "o_paymentStatus order = PaymentStatus.PAID"
      "o_source order \<noteq> ''QR_MENU''" "o_externalProvider order = None"
      "resolvePrimaryPrintStatus (jobs_of_order d (o_id order)) = Some SUCCEEDED"
    and d': "d' = complete_order order now d"
    by (rule complete_order_updates)
  have only: "ready_and_paid order r \<longleftrightarrow> o_id r = o_id order" if "r \<in> set (orders d)" for r
    using that order(1) st assms(1) by (auto simp: ready_and_paid_def distinct_map inj_on_def)
  have rows: "orders d' = update_where (\<lambda>r. o_id r = o_id order)
      (\<lambda>r. r\<lparr>o_status := OrderStatus.COMPLETED, o_completedAt := Some now\<rparr>) (orders d)"
    using only by (simp add: d' complete_order_def update_where_def)
  have again: "snd (completeStreamlinedOrderAfterPrint jobId later d') = False"
  proof (rule ccontr)
    assume "snd (completeStreamlinedOrderAfterPrint jobId later d') \<noteq> False"
    then obtain d2 where "completeStreamlinedOrderAfterPrint jobId later d' = (d2, True)"
      by (cases "completeStreamlinedOrderAfterPrint jobId later d'") auto
    then obtain job2 order2 where j2: "List.find (\<lambda>j. pj_id j = jobId \<and> pj_status j = SUCCEEDED) (print_jobs d') = Some job2"
      "order2 \<in> set (orders d')" "o_id order2 = pj_orderId job2" "o_status order2 = OrderStatus.READY"
      by (auto simp: completeStreamlinedOrderAfterPrint_def split: option.splits if_splits dest!: find_Some_D)
    have "print_jobs d' = print_jobs d" by (simp add: d' complete_order_def)
    with j2(1,3) job order(2) have "o_id order2 = o_id order" by simp
    moreover from j2(2) rows obtain r where
      "order2 = (if o_id r = o_id order
         then r\<lparr>o_status := OrderStatus.COMPLETED, o_completedAt := Some now\<rparr> else r)"
      by (auto simp: in_update_where)
    ultimately have "o_status order2 = OrderStatus.COMPLETED" by (cases "o_id r = o_id order") simp_all
    with j2(4) show False by simp
  qed
  have "length (order_events d') = Suc (length (order_events d))" by (simp add: d' complete_order_def)
  with True order(1) st rows again show ?thesis by auto
qed


text \<open>Production is blocked exactly while the customer's or the stall's answer about the
  time is outstanding, or when the effective fulfilment time (the committed one, else the
  requested, else the scheduled) falls on a later business day than the current one.\<close>

theorem production_blocked_iff:
  assumes "classifyFulfillmentForProduction tz_offset i timeZone cutoff now = Inr t"
  shows "pt_productionBlocked t \<longleftrightarrow>
    sh_fulfillmentTimeState i \<in> {''REQUESTED'', ''CUSTOMER_ACTION_REQUIRED''}
    \<or> (\<exists>at today day.
         resolveEffectiveFulfillmentAt
           [sh_committedFulfillmentAt i, sh_requestedFulfillmentAt i, sh_scheduledPickupAt i] = Some at
         \<and> stallBusinessDateKey tz_offset now timeZone cutoff = Inr today
         \<and> stallBusinessDateKey tz_offset at timeZone cutoff = Inr day \<and> today < day)"
proof -
  let ?at = "resolveEffectiveFulfillmentAt
     [sh_committedFulfillmentAt i, sh_requestedFulfillmentAt i, sh_scheduledPickupAt i]"
  from assms obtain today where today: "stallBusinessDateKey tz_offset now timeZone cutoff = Inr today"
    unfolding classifyFulfillmentForProduction_def andThen_Inr_iff by blast
  show ?thesis
  proof (cases ?at)
    case None
    with assms today show ?thesis
      by (simp add: classifyFulfillmentForProduction_def fulfillmentTimeBlocksProduction_def Let_def
          split: if_split_asm) auto
  next
    case (Some at)
    from today obtain day where "stallBusinessDateKey tz_offset at timeZone cutoff = Inr day"
      by (simp add: stallBusinessDateKey_def split: if_split_asm)
    with assms today Some show ?thesis
      by (simp add: classifyFulfillmentForProduction_def fulfillmentTimeBlocksProduction_def Let_def
          split: if_split_asm) auto
  qed
qed

text \<open>At 03:30 with a cut-off of 4 o'clock the business day is still the previous one.\<close>

theorem production_blocked_iff_witness:
  "(\<exists>at today day.
      resolveEffectiveFulfillmentAt [None, Some (86400000 + 14400000), None] = Some at
      \<and> stallBusinessDateKey (\<lambda>_ _. 0) (86400000 + 12600000) ''UTC'' 4 = Inr today
      \<and> stallBusinessDateKey (\<lambda>_ _. 0) at ''UTC'' 4 = Inr day \<and> today < day)"
proof -
  let ?i = "\<lparr>sh_fulfillmentTimeState = ''NOT_REQUESTED'', sh_committedFulfillmentAt = None,
     sh_requestedFulfillmentAt = Some (86400000 + 14400000), sh_scheduledPickupAt = None\<rparr>"
  obtain t where t: "classifyFulfillmentForProduction (\<lambda>_ _. 0) ?i ''UTC'' 4 (86400000 + 12600000) = Inr t"
      "pt_productionBlocked t"
  proof -
    have "case classifyFulfillmentForProduction (\<lambda>_ _. 0) ?i ''UTC'' 4 (86400000 + 12600000) of
      Inr t \<Rightarrow> pt_productionBlocked t | _ \<Rightarrow> False" by code_simp
    then show thesis using that by (auto split: sum.splits)
  qed
  from production_blocked_iff [OF t(1)] t(2) show ?thesis by simp
qed

definition sample_order :: order_row where
  "sample_order =
     \<lparr>o_id = ''order'', o_organizationId = ''org'', o_stallId = ''stall'', o_orderNo = ''A1'',
      o_source = ''STAFF'', o_externalProvider = None, o_fulfillmentType = TAKEOUT,
      o_scheduledPickupAt = None, o_requestedFulfillmentAt = None, o_committedFulfillmentAt = None,
      o_fulfillmentTimeState = ''NOT_REQUESTED'', o_status = OrderStatus.READY,
      o_paymentStatus = PaymentStatus.PAID, o_subtotal = 100, o_discountAmount = 0,
      o_discountOptionId = None, o_discountSource = ''NONE'', o_discountLabel = None,
      o_discountRateBps = None, o_discountAppliedById = None, o_discountApprovedById = None,
      o_discountApprovalReason = None, o_total = 100, o_pickupVerifiedAt = None,
      o_confirmationExpiresAt = 0, o_confirmedAt = Some 1, o_completedAt = None, o_paidAt = Some 2,
      o_cancellationReason = None, o_cancellationDetail = None, o_cancelledAt = None,
      o_cancelledById = None\<rparr>"

definition print_settings :: ordering_settings_row where
  "print_settings =
     \<lparr>se_stallId = ''stall'', se_paymentModuleEnabled = True, se_discountModuleEnabled = False,
      se_discountApprovalThresholdBps = 8000, se_kdsModuleEnabled = False, se_printModuleEnabled = True,
      se_businessDayCutoffHour = 0, se_managerAuthorizationCodeHash = None,
      se_managerAuthorizationCodeUpdatedAt = None\<rparr>"

definition sample_print_db :: db where
  "sample_print_db =
     empty_db\<lparr>orders := [sample_order], print_jobs := [sample_job ''job'' None SUCCEEDED],
       ordering_settings := [print_settings]\<rparr>"

theorem auto_completion_after_print_witness:
  "\<exists>d'. completeStreamlinedOrderAfterPrint ''job'' 5 sample_print_db = (d', True)
     \<and> snd (completeStreamlinedOrderAfterPrint ''job'' 6 d') = False"
proof -
  have "snd (completeStreamlinedOrderAfterPrint ''job'' 5 sample_print_db)" by code_simp
  then obtain d' where d': "completeStreamlinedOrderAfterPrint ''job'' 5 sample_print_db = (d', True)"
    by (cases "completeStreamlinedOrderAfterPrint ''job'' 5 sample_print_db") auto
  have "distinct (map o_id (orders sample_print_db))" by (simp add: sample_print_db_def)
  from auto_completion_after_print [OF this d', of 6] d' show ?thesis by auto
qed

end
