(* ===== verification/RateLimit.thy ===== *)
theory RateLimit
  imports StallData
begin

text \<open>
  The fixed-window limiter of \<open>src/src/lib/rate-limit.ts\<close> over the table
  \<open>rate_limit_buckets\<close>. Every statement of the code is one SQL statement: its common table
  expressions read the rows as they were before the statement, the upsert runs first, and
  the clean-up deletes the (at most 100) oldest expired rows it selected, except the row the
  upsert has just rewritten. The hash of \<open>scope:identifier\<close> is the parameter \<open>sha256\<close>.
\<close>

definition MAX_BUCKETS_PER_SCOPE :: nat where
  "MAX_BUCKETS_PER_SCOPE = 10000"

record rate_options =
  ro_scope :: string
  ro_identifier :: string
  ro_limit :: int
  ro_windowMs :: int

record rate_result =
  rr_allowed :: bool
  rr_remaining :: int
  rr_retryAfterSeconds :: int

type_synonym buckets = "rate_bucket_row list"

definition rate_key :: "(string \<Rightarrow> string) \<Rightarrow> string \<Rightarrow> string \<Rightarrow> string" where
  "rate_key sha256 scope identifier = sha256 (scope @ '':'' @ identifier)"

definition find_bucket :: "string \<Rightarrow> buckets \<Rightarrow> rate_bucket_row option" where
  "find_bucket key bs = List.find (\<lambda>b. rb_key b = key) bs"

text \<open>The common table expressions \<open>expired\<close>, \<open>cardinality\<close> and \<open>admitted\<close>.\<close>

definition expired_keys :: "instant \<Rightarrow> buckets \<Rightarrow> string list" where
  "expired_keys now bs =
     map rb_key (take 100 (sort_key rb_expiresAt (filter (\<lambda>b. rb_expiresAt b \<le> now) bs)))"

definition admitted :: "string \<Rightarrow> string \<Rightarrow> instant \<Rightarrow> buckets \<Rightarrow> bool" where
  "admitted key scope now bs \<longleftrightarrow>
     length (filter (\<lambda>b. rb_scope b = scope \<and> rb_expiresAt b > now) bs) < MAX_BUCKETS_PER_SCOPE
     \<or> (\<exists>b \<in> set bs. rb_key b = key)"

definition upsert_bucket :: "rate_bucket_row \<Rightarrow> buckets \<Rightarrow> buckets" where
  "upsert_bucket b bs =
     (if \<exists>c \<in> set bs. rb_key c = rb_key b
      then map (\<lambda>c. if rb_key c = rb_key b then b else c) bs else bs @ [b])"

definition cleanup_buckets :: "string list \<Rightarrow> string option \<Rightarrow> buckets \<Rightarrow> buckets" where
  "cleanup_buckets expired written bs =
     filter (\<lambda>b. rb_key b \<notin> set expired \<or> written = Some (rb_key b)) bs"

definition seconds_until :: "instant \<Rightarrow> instant \<Rightarrow> int" where
  "seconds_until later now = max 1 (math_ceil_div (later - now) 1000)"

definition checkRateLimit ::
  "(string \<Rightarrow> string) \<Rightarrow> rate_options \<Rightarrow> instant \<Rightarrow> buckets \<Rightarrow> buckets \<times> rate_result" where
  "checkRateLimit sha256 options now bs =
     (let key = rate_key sha256 (ro_scope options) (ro_identifier options);
          expiresAt = now + ro_windowMs options;
          expired = expired_keys now bs
      in if \<not> admitted key (ro_scope options) now bs
         then (cleanup_buckets expired None bs,
               \<lparr>rr_allowed = False, rr_remaining = 0,
                rr_retryAfterSeconds = max 1 (math_ceil_div (ro_windowMs options) 1000)\<rparr>)
         else
           let bucket =
             (case find_bucket key bs of
                None \<Rightarrow> \<lparr>rb_key = key, rb_scope = ro_scope options, rb_count = 1,
                         rb_expiresAt = expiresAt, rb_updatedAt = now\<rparr>
              | Some b \<Rightarrow>
                  b\<lparr>rb_scope := ro_scope options,
                    rb_count := (if rb_expiresAt b \<le> now then 1 else rb_count b + 1),
                    rb_expiresAt := (if rb_expiresAt b \<le> now then expiresAt else rb_expiresAt b),
                    rb_updatedAt := now\<rparr>)
           in (cleanup_buckets expired (Some key) (upsert_bucket bucket bs),
               \<lparr>rr_allowed = (rb_count bucket \<le> ro_limit options),
                rr_remaining = max 0 (ro_limit options - rb_count bucket),
                rr_retryAfterSeconds = seconds_until (rb_expiresAt bucket) now\<rparr>))"

definition releaseRateLimitToken ::
  "(string \<Rightarrow> string) \<Rightarrow> string \<Rightarrow> string \<Rightarrow> instant \<Rightarrow> buckets \<Rightarrow> buckets" where
  "releaseRateLimitToken sha256 scope identifier now bs =
     update_where
       (\<lambda>b. rb_key b = rate_key sha256 scope identifier \<and> rb_expiresAt b > now)
       (\<lambda>b. b\<lparr>rb_count := max (rb_count b - 1) 0, rb_updatedAt := now\<rparr>) bs"

definition resetRateLimitBucket ::
  "(string \<Rightarrow> string) \<Rightarrow> string \<Rightarrow> string \<Rightarrow> buckets \<Rightarrow> buckets" where
  "resetRateLimitBucket sha256 scope identifier bs =
     filter (\<lambda>b. \<not> (rb_key b = rate_key sha256 scope identifier \<and> rb_scope b = scope)) bs"

text \<open>
  A lease only counts when it is acquired: the conflict update carries a \<open>where\<close>. The
  result says whether the returned release function is the live one.
\<close>

record lease_result =
  lr_allowed :: bool
  lr_remaining :: int
  lr_retryAfterSeconds :: int

definition acquireRateLimitLease ::
  "(string \<Rightarrow> string) \<Rightarrow> rate_options \<Rightarrow> instant \<Rightarrow> buckets \<Rightarrow> buckets \<times> lease_result" where
  "acquireRateLimitLease sha256 options now bs =
     (let key = rate_key sha256 (ro_scope options) (ro_identifier options);
          expiresAt = now + ro_windowMs options;
          expired = expired_keys now bs;
          acquired =
            (if \<not> admitted key (ro_scope options) now bs then None
             else case find_bucket key bs of
               None \<Rightarrow> Some \<lparr>rb_key = key, rb_scope = ro_scope options, rb_count = 1,
                             rb_expiresAt = expiresAt, rb_updatedAt = now\<rparr>
             | Some b \<Rightarrow>
                 if rb_expiresAt b \<le> now \<or> rb_count b < ro_limit options
                 then Some (b\<lparr>rb_scope := ro_scope options,
                              rb_count := (if rb_expiresAt b \<le> now then 1 else rb_count b + 1),
                              rb_expiresAt := expiresAt, rb_updatedAt := now\<rparr>)
                 else None)
      in case acquired of
           Some bucket \<Rightarrow>
             (cleanup_buckets expired (Some key) (upsert_bucket bucket bs),
              \<lparr>lr_allowed = True, lr_remaining = max 0 (ro_limit options - rb_count bucket),
               lr_retryAfterSeconds = seconds_until (rb_expiresAt bucket) now\<rparr>)
         | None \<Rightarrow>
             (cleanup_buckets expired None bs,
              \<lparr>lr_allowed = False, lr_remaining = 0,
               lr_retryAfterSeconds =
                 (case find_bucket key bs of
                    Some b \<Rightarrow> seconds_until (rb_expiresAt b) now
                  | None \<Rightarrow> max 1 (math_ceil_div (ro_windowMs options) 1000))\<rparr>))"

record public_rate_options =
  pro_scope :: string
  pro_sourceIdentifier :: string
  pro_resourceIdentifier :: string
  pro_sourceLimit :: int
  pro_resourceLimit :: int
  pro_windowMs :: int

definition checkPublicRateLimit ::
  "(string \<Rightarrow> string) \<Rightarrow> public_rate_options \<Rightarrow> instant \<Rightarrow> buckets \<Rightarrow> buckets \<times> rate_result" where
  "checkPublicRateLimit sha256 options now bs =
     (case checkRateLimit sha256
             \<lparr>ro_scope = pro_scope options @ '':source'',
              ro_identifier = pro_sourceIdentifier options,
              ro_limit = pro_sourceLimit options, ro_windowMs = pro_windowMs options\<rparr> now bs of
        (bs', source) \<Rightarrow>
          if \<not> rr_allowed source then (bs', source)
          else checkRateLimit sha256
                 \<lparr>ro_scope = pro_scope options @ '':resource'',
                  ro_identifier = pro_resourceIdentifier options,
                  ro_limit = pro_resourceLimit options, ro_windowMs = pro_windowMs options\<rparr> now bs')"

section \<open>The table\<close>

definition buckets_ok :: "buckets \<Rightarrow> bool" where
  "buckets_ok bs \<longleftrightarrow> distinct (map rb_key bs)"

lemma find_bucket_Some: "find_bucket k bs = Some b \<Longrightarrow> b \<in> set bs \<and> rb_key b = k"
  by (auto simp: find_bucket_def dest: find_Some_D)

lemma find_bucket_None: "find_bucket k bs = None \<longleftrightarrow> (\<forall>b \<in> set bs. rb_key b \<noteq> k)"
  by (auto simp: find_bucket_def find_None_D)

lemma find_bucket_in: "buckets_ok bs \<Longrightarrow> b \<in> set bs \<Longrightarrow> find_bucket (rb_key b) bs = Some b"
  by (induction bs) (auto simp: find_bucket_def buckets_ok_def)

lemma keys_upsert:
  "map rb_key (upsert_bucket b bs) =
     (if rb_key b \<in> set (map rb_key bs) then map rb_key bs else map rb_key bs @ [rb_key b])"
  by (auto simp: upsert_bucket_def image_iff dest: sym)

lemma buckets_ok_upsert: "buckets_ok bs \<Longrightarrow> buckets_ok (upsert_bucket b bs)"
  unfolding buckets_ok_def by (subst keys_upsert) auto

lemma buckets_ok_cleanup: "buckets_ok bs \<Longrightarrow> buckets_ok (cleanup_buckets e w bs)"
  by (simp add: buckets_ok_def cleanup_buckets_def distinct_map_filter)

lemma find_bucket_Nil [simp]: "find_bucket k [] = None"
  by (simp add: find_bucket_def)

lemma find_bucket_Cons [simp]:
  "find_bucket k (b # bs) = (if rb_key b = k then Some b else find_bucket k bs)"
  by (simp add: find_bucket_def)

lemma find_bucket_append:
  "find_bucket k (xs @ ys) =
     (case find_bucket k xs of None \<Rightarrow> find_bucket k ys | Some b \<Rightarrow> Some b)"
  by (induction xs) auto

lemma find_bucket_replace:
  "find_bucket k (map (\<lambda>c. if rb_key c = rb_key b then b else c) bs) =
     (if k = rb_key b then (if \<exists>c \<in> set bs. rb_key c = k then Some b else None)
      else find_bucket k bs)"
  by (induction bs) auto

lemma find_bucket_upsert:
  "find_bucket k (upsert_bucket b bs) = (if k = rb_key b then Some b else find_bucket k bs)"
proof -
  have "find_bucket k (bs @ [b]) = (if k = rb_key b then Some b else find_bucket k bs)"
    if "\<forall>c \<in> set bs. rb_key c \<noteq> rb_key b"
    using that by (induction bs) auto
  then show ?thesis by (auto simp: upsert_bucket_def find_bucket_replace)
qed

lemma find_bucket_filter:
  "(\<And>b. find_bucket k bs = Some b \<Longrightarrow> P b) \<Longrightarrow> (\<And>b. rb_key b = k \<Longrightarrow> P b = P' k) \<Longrightarrow>
     find_bucket k (filter P bs) = find_bucket k bs"
  by (induction bs) auto

lemma find_bucket_cleanup:
  assumes "k \<notin> set e \<or> w = Some k"
  shows "find_bucket k (cleanup_buckets e w bs) = find_bucket k bs"
  using assms by (induction bs) (auto simp: cleanup_buckets_def)

lemma expired_keys_expired:
  assumes "buckets_ok bs" and "find_bucket k bs = Some b" and "rb_expiresAt b > now"
  shows "k \<notin> set (expired_keys now bs)"
proof
  assume "k \<in> set (expired_keys now bs)"
  then obtain c where "c \<in> set bs" "rb_expiresAt c \<le> now" "rb_key c = k"
    by (auto simp: expired_keys_def dest!: in_set_takeD)
  with find_bucket_in [OF assms(1), of c] assms(2,3) show False by simp
qed

section \<open>Counting hits inside a window\<close>

text \<open>
  The interface a client of the limiter relies on: a live counter is incremented by the
  requests of its own key, left alone by the others, and keeps its deadline. \<open>get k s\<close> is
  the number of hits counted for \<open>k\<close>, with the deadline.
\<close>

locale window_counter =
  fixes get :: "'k \<Rightarrow> 's \<Rightarrow> (int \<times> int) option"
    and hit :: "'h \<Rightarrow> int \<Rightarrow> 's \<Rightarrow> 's"
    and key_of :: "'h \<Rightarrow> 'k"
    and ok :: "'s \<Rightarrow> bool"
  assumes ok_hit: "ok s \<Longrightarrow> ok (hit h now s)"
    and get_hit_same: "ok s \<Longrightarrow> get (key_of h) s = Some (c, e) \<Longrightarrow> now < e \<Longrightarrow>
          get (key_of h) (hit h now s) = Some (c + 1, e)"
    and get_hit_other: "ok s \<Longrightarrow> get k s = Some (c, e) \<Longrightarrow> now < e \<Longrightarrow> key_of h \<noteq> k \<Longrightarrow>
          get k (hit h now s) = Some (c, e)"
begin

lemma get_fold_hits:
  assumes "ok s" and "get k s = Some (c, e)" and "\<forall>(h, now) \<in> set hs. now < e"
  shows "ok (fold (\<lambda>(h, now). hit h now) hs s)
    \<and> get k (fold (\<lambda>(h, now). hit h now) hs s) =
        Some (c + int (count_where (\<lambda>(h, _). key_of h = k) hs), e)"
  using assms
proof (induction hs arbitrary: s c)
  case Nil
  then show ?case by simp
next
  case (Cons x hs)
  obtain h now where x: "x = (h, now)" by (cases x)
  show ?case
  proof (cases "key_of h = k")
    case True
    with x Cons.prems have "get k (hit h now s) = Some (c + 1, e)" by (auto simp: get_hit_same)
    with Cons.IH [of "hit h now s" "c + 1"] Cons.prems x True show ?thesis
      by (simp add: ok_hit)
  next
    case False
    with x Cons.prems have "get k (hit h now s) = Some (c, e)" by (auto simp: get_hit_other)
    with Cons.IH [of "hit h now s" c] Cons.prems x False show ?thesis
      by (simp add: ok_hit)
  qed
qed

end

definition bucket_state :: "string \<Rightarrow> buckets \<Rightarrow> (int \<times> int) option" where
  "bucket_state k bs = map_option (\<lambda>b. (rb_count b, rb_expiresAt b)) (find_bucket k bs)"

definition request_key :: "(string \<Rightarrow> string) \<Rightarrow> rate_options \<Rightarrow> string" where
  "request_key sha256 options = rate_key sha256 (ro_scope options) (ro_identifier options)"

lemma buckets_ok_check: "buckets_ok bs \<Longrightarrow> buckets_ok (fst (checkRateLimit sha256 options now bs))"
  by (simp add: checkRateLimit_def Let_def buckets_ok_cleanup buckets_ok_upsert)

lemma checkRateLimit_live:
  assumes "find_bucket (request_key sha256 options) bs = Some b" and "now < rb_expiresAt b"
  shows "find_bucket (request_key sha256 options) (fst (checkRateLimit sha256 options now bs)) =
           Some (b\<lparr>rb_scope := ro_scope options, rb_count := rb_count b + 1, rb_updatedAt := now\<rparr>)"
    and "snd (checkRateLimit sha256 options now bs) =
           \<lparr>rr_allowed = (rb_count b + 1 \<le> ro_limit options),
            rr_remaining = max 0 (ro_limit options - (rb_count b + 1)),
            rr_retryAfterSeconds = seconds_until (rb_expiresAt b) now\<rparr>"
  using assms find_bucket_Some [OF assms(1)]
  by (auto simp: request_key_def checkRateLimit_def Let_def admitted_def find_bucket_cleanup
      find_bucket_upsert)

lemma checkRateLimit_other:
  assumes "buckets_ok bs" and "find_bucket k bs = Some b" and "now < rb_expiresAt b"
    and "request_key sha256 options \<noteq> k"
  shows "find_bucket k (fst (checkRateLimit sha256 options now bs)) = Some b"
proof -
  let ?key = "rate_key sha256 (ro_scope options) (ro_identifier options)"
  have e: "k \<notin> set (expired_keys now bs)" by (rule expired_keys_expired [OF assms(1,2,3)])
  have u: "find_bucket k (upsert_bucket c bs) = Some b" if "rb_key c = ?key" for c
    using that assms(2,4) by (simp add: find_bucket_upsert request_key_def)
  show ?thesis
    using e assms(2) find_bucket_Some [of ?key bs]
    by (auto simp: checkRateLimit_def Let_def find_bucket_cleanup u split: option.split)
qed

interpretation limiter:
  window_counter bucket_state "\<lambda>options now bs. fst (checkRateLimit sha256 options now bs)"
    "request_key sha256" buckets_ok
  for sha256
proof unfold_locales
  fix s k now c e h
  show "buckets_ok s \<Longrightarrow> buckets_ok (fst (checkRateLimit sha256 h now s))"
    by (rule buckets_ok_check)
  show "bucket_state (request_key sha256 h) (fst (checkRateLimit sha256 h now s)) = Some (c + 1, e)"
    if "bucket_state (request_key sha256 h) s = Some (c, e)" and "now < e"
    using that checkRateLimit_live(1) [of sha256 h s _ now] by (auto simp: bucket_state_def)
  show "bucket_state k (fst (checkRateLimit sha256 h now s)) = Some (c, e)"
    if "buckets_ok s" and "bucket_state k s = Some (c, e)" and "now < e"
      and "request_key sha256 h \<noteq> k"
    using that checkRateLimit_other [of s k _ now sha256 h] by (auto simp: bucket_state_def)
qed

section \<open>Returning a token\<close>

lemma buckets_ok_release [simp]:
  "buckets_ok (releaseRateLimitToken sha256 scope identifier now bs) = buckets_ok bs"
  by (simp add: buckets_ok_def releaseRateLimitToken_def map_update_where_same)

lemma bucket_state_release:
  "bucket_state k (releaseRateLimitToken sha256 scope identifier now bs) =
     (case bucket_state k bs of
        Some (c, e) \<Rightarrow>
          if k = rate_key sha256 scope identifier \<and> now < e then Some (max (c - 1) 0, e) else Some (c, e)
      | None \<Rightarrow> None)"
  by (induction bs) (auto simp: bucket_state_def releaseRateLimitToken_def)

end
