(* ===== verification/Checkout.thy ===== *)
theory Checkout
  imports StallData
begin

text \<open>
  The money arithmetic of a checkout: \<open>src/src/lib/checkout.ts\<close> and
  \<open>src/src/lib/operational-calculations.ts\<close>. Amounts are integers of the smallest unit; a
  discount rate is in basis points (10000 is the full price). The code's
  \<open>Number.isInteger\<close> tests hold of every model value, since amounts are integers.
\<close>

datatype CheckoutError =
  INVALID_SUBTOTAL | INVALID_DISCOUNT_ELIGIBLE_SUBTOTAL | INVALID_DISCOUNT_RATE
| INSUFFICIENT_CASH_AMOUNT

record discount_amounts =
  da_subtotal :: int
  da_discountEligibleSubtotal :: int
  da_discountAmount :: int
  da_total :: int

record checkout_amounts =
  ca_subtotal :: int
  ca_discountAmount :: int
  ca_total :: int
  ca_cashReceived :: int
  ca_changeAmount :: int

definition calculateOrderDiscount :: "int \<Rightarrow> int \<Rightarrow> int \<Rightarrow> CheckoutError + discount_amounts" where
  "calculateOrderDiscount subtotal discountEligibleSubtotal rateBps =
     (if subtotal < 0 then Inl INVALID_SUBTOTAL
      else if discountEligibleSubtotal < 0 \<or> discountEligibleSubtotal > subtotal
        then Inl INVALID_DISCOUNT_ELIGIBLE_SUBTOTAL
      else if rateBps < 1 \<or> rateBps > 10000 then Inl INVALID_DISCOUNT_RATE
      else
        let discountedEligible = math_round_div (discountEligibleSubtotal * rateBps) 10000;
            discountAmount = discountEligibleSubtotal - discountedEligible
        in Inr \<lparr>da_subtotal = subtotal, da_discountEligibleSubtotal = discountEligibleSubtotal,
                da_discountAmount = discountAmount, da_total = subtotal - discountAmount\<rparr>)"

definition calculateCheckout :: "int \<Rightarrow> int \<Rightarrow> int option \<Rightarrow> CheckoutError + checkout_amounts" where
  "calculateCheckout subtotal rateBps cashReceived =
     andThen (calculateOrderDiscount subtotal subtotal rateBps) (\<lambda>amounts.
       let total = da_total amounts;
           received = (case cashReceived of None \<Rightarrow> total | Some c \<Rightarrow> c)
       in if received < total then Inl INSUFFICIENT_CASH_AMOUNT
          else Inr \<lparr>ca_subtotal = subtotal, ca_discountAmount = da_discountAmount amounts,
                    ca_total = total, ca_cashReceived = received,
                    ca_changeAmount = received - total\<rparr>)"

definition paymentMethodForKind :: "PaymentOptionKind \<Rightarrow> PaymentMethod" where
  "paymentMethodForKind kind =
     (if kind = PaymentOptionKind.CASH then PaymentMethod.CASH else PaymentMethod.OTHER)"

definition discountRequiresApproval :: "int \<Rightarrow> int \<Rightarrow> bool" where
  "discountRequiresApproval rateBps thresholdBps \<longleftrightarrow> rateBps < thresholdBps"

record cash_expected_input =
  ce_openingAmount :: int
  ce_cashSales :: int
  ce_cashIn :: int
  ce_cashOut :: int
  ce_cashRefund :: "int option"
  ce_correction :: "int option"

definition calculateCashExpected :: "cash_expected_input \<Rightarrow> int" where
  "calculateCashExpected i =
     ce_openingAmount i + ce_cashSales i + ce_cashIn i - ce_cashOut i
     - (case ce_cashRefund i of None \<Rightarrow> 0 | Some r \<Rightarrow> r)
     + (case ce_correction i of None \<Rightarrow> 0 | Some c \<Rightarrow> c)"

section \<open>Bounds and shape of a discount\<close>

lemma discounted_bounds:
  assumes "0 \<le> e" and "1 \<le> r" and "r \<le> 10000"
  shows "0 \<le> math_round_div (e * r) 10000" and "math_round_div (e * r) 10000 \<le> e"
  using assms
  by (auto intro!: math_round_div_nonneg math_round_div_le mult_nonneg_nonneg mult_left_mono)

lemma calculateOrderDiscount_InrD:
  assumes "calculateOrderDiscount s e r = Inr a"
  shows "0 \<le> s" "0 \<le> e" "e \<le> s" "1 \<le> r" "r \<le> 10000"
    "da_subtotal a = s" "da_discountEligibleSubtotal a = e"
    "da_discountAmount a = e - math_round_div (e * r) 10000"
    "da_total a = s - da_discountAmount a"
  using assms by (auto simp: calculateOrderDiscount_def Let_def split: if_splits)

lemma calculateOrderDiscount_bounds:
  assumes "calculateOrderDiscount s e r = Inr a"
  shows "0 \<le> da_discountAmount a" "da_discountAmount a \<le> e" "s - e \<le> da_total a" "da_total a \<le> s"
    "0 \<le> da_total a"
proof -
  note d = calculateOrderDiscount_InrD [OF assms]
  note b = discounted_bounds [OF d(2) d(4) d(5)]
  from d(8) b show "0 \<le> da_discountAmount a" "da_discountAmount a \<le> e" by linarith+
  with d(3,9) show "s - e \<le> da_total a" "da_total a \<le> s" "0 \<le> da_total a" by linarith+
qed

lemma calculateOrderDiscount_ok:
  "calculateOrderDiscount s e r \<noteq> Inl err \<or>
     s < 0 \<or> e < 0 \<or> s < e \<or> r < 1 \<or> 10000 < r"
  by (auto simp: calculateOrderDiscount_def Let_def)

lemma calculateOrderDiscount_full_price:
  "0 \<le> e \<Longrightarrow> e \<le> s \<Longrightarrow>
     calculateOrderDiscount s e 10000 =
       Inr \<lparr>da_subtotal = s, da_discountEligibleSubtotal = e, da_discountAmount = 0, da_total = s\<rparr>"
  by (simp add: calculateOrderDiscount_def)

end
