(* ===== verification/StaffCheckout.thy ===== *)
theory StaffCheckout
  imports RateLimit Checkout JsText
begin

text \<open>
  What a staff member's checkout resolves to: the shared manager code
  (\<open>src/src/lib/manager-authorization.ts\<close>), the approval of a high discount
  (\<open>src/src/lib/discount-approval.ts\<close>) and the payment option, discount and amounts of the
  orders paid together (\<open>src/src/lib/staff-checkout.ts\<close>). The password hash comparison of
  \<open>bcryptjs\<close> and the hash of the rate limiter are the parameters \<open>compare\<close> and \<open>sha256\<close>,
  and \<open>now\<close> is the instant of the request. The result of an operation is paired with the
  database, because the limiter's buckets change on the failing branches too.
\<close>

datatype SensitiveOperation =
  HIGH_DISCOUNT | CANCEL_ORDER | CANCEL_COMPLETED_ORDER | CHANGE_COMPLETED_PAYMENT
| CASH_REFUND | CASH_OUT | OPEN_CASH_DRAWER

datatype ManagerAuthorizationError =
  CODE_REQUIRED | CODE_NOT_CONFIGURED | INVALID_CODE | RATE_LIMITED

datatype approval_method = ROLE | SHARED_CODE

record manager_approval =
  ma_method :: approval_method
  ma_approvedById :: uid

definition validManagerCode :: "string \<Rightarrow> bool" where
  "validManagerCode code \<longleftrightarrow> 6 \<le> length code \<and> length code \<le> 8 \<and> list_all is_digit code"

definition canApprove :: "UserRole list \<Rightarrow> bool" where
  "canApprove roles \<longleftrightarrow> list_ex (\<lambda>role. hasPermission role APPROVE_DISCOUNT) roles"

definition actor_limit :: "uid \<Rightarrow> int \<Rightarrow> uid \<Rightarrow> rate_options" where
  "actor_limit stallId codeVersion actor =
     \<lparr>ro_scope = ''manager-authorization-code:actor'',
      ro_identifier = stallId @ '':'' @ string_of_int codeVersion @ '':'' @ actor,
      ro_limit = 3, ro_windowMs = 15 * 60000\<rparr>"

definition stall_limit :: "uid \<Rightarrow> int \<Rightarrow> rate_options" where
  "stall_limit stallId codeVersion =
     \<lparr>ro_scope = ''manager-authorization-code:stall'',
      ro_identifier = stallId @ '':'' @ string_of_int codeVersion,
      ro_limit = 8, ro_windowMs = 15 * 60000\<rparr>"

text \<open>The code's version is the instant the hash was last set, 0 when it has none.\<close>

definition code_version :: "ordering_settings_row \<Rightarrow> int" where
  "code_version se =
     (case se_managerAuthorizationCodeUpdatedAt se of None \<Rightarrow> 0 | Some t \<Rightarrow> t)"

definition code_settings :: "db \<Rightarrow> uid \<Rightarrow> (ordering_settings_row \<times> string) option" where
  "code_settings d stallId =
     (case settings_of d stallId of
        None \<Rightarrow> None
      | Some se \<Rightarrow>
          if truthy (se_managerAuthorizationCodeHash se)
          then Some (se, or_empty (se_managerAuthorizationCodeHash se)) else None)"

definition release_token ::
  "(string \<Rightarrow> string) \<Rightarrow> rate_options \<Rightarrow> instant \<Rightarrow> buckets \<Rightarrow> buckets" where
  "release_token sha256 options now bs =
     releaseRateLimitToken sha256 (ro_scope options) (ro_identifier options) now bs"

text \<open>The part after the settings are read: two counters, the comparison, the releases.\<close>

definition check_shared_code ::
  "(string \<Rightarrow> string) \<Rightarrow> (string \<Rightarrow> string \<Rightarrow> bool) \<Rightarrow> instant \<Rightarrow> uid \<Rightarrow> int \<Rightarrow> uid \<Rightarrow> string \<Rightarrow> string
     \<Rightarrow> buckets \<Rightarrow> buckets \<times> (ManagerAuthorizationError + manager_approval)" where
  "check_shared_code sha256 compare now stallId codeVersion actor code hash bs =
     (let ka = actor_limit stallId codeVersion actor; ks = stall_limit stallId codeVersion;
          (bs1, limit) = checkRateLimit sha256 ka now bs
      in if \<not> rr_allowed limit then (bs1, Inl RATE_LIMITED)
         else
           let (bs2, stallLimit) = checkRateLimit sha256 ks now bs1
           in if \<not> rr_allowed stallLimit then (release_token sha256 ka now bs2, Inl RATE_LIMITED)
              else if \<not> compare code hash then (bs2, Inl INVALID_CODE)
              else (release_token sha256 ks now (release_token sha256 ka now bs2),
                    Inr \<lparr>ma_method = SHARED_CODE, ma_approvedById = actor\<rparr>))"

record manager_input =
  mi_stallId :: uid
  mi_actorProfileId :: uid
  mi_actorRoles :: "UserRole list"
  mi_operation :: SensitiveOperation
  mi_authorizationCode :: "string option"

definition verifyManagerAuthorization ::
  "(string \<Rightarrow> string) \<Rightarrow> (string \<Rightarrow> string \<Rightarrow> bool) \<Rightarrow> instant \<Rightarrow> manager_input \<Rightarrow> db
     \<Rightarrow> db \<times> (ManagerAuthorizationError + manager_approval)" where
  "verifyManagerAuthorization sha256 compare now i d =
     (if canApprove (mi_actorRoles i)
      then (d, Inr \<lparr>ma_method = ROLE, ma_approvedById = mi_actorProfileId i\<rparr>)
      else
        let authorizationCode = js_trim (or_empty (mi_authorizationCode i)) in
        if authorizationCode = [] then (d, Inl CODE_REQUIRED)
        else if \<not> validManagerCode authorizationCode then (d, Inl INVALID_CODE)
        else case code_settings d (mi_stallId i) of
          None \<Rightarrow> (d, Inl CODE_NOT_CONFIGURED)
        | Some (settings, hash) \<Rightarrow>
            (case check_shared_code sha256 compare now (mi_stallId i) (code_version settings)
                    (mi_actorProfileId i) authorizationCode hash (rate_limit_buckets d) of
               (bs, r) \<Rightarrow> (d\<lparr>rate_limit_buckets := bs\<rparr>, r)))"

section \<open>Approval of a high discount\<close>

datatype DiscountApprovalError =
  REASON_REQUIRED | CREDENTIALS_REQUIRED | INVALID_MANAGER | RATE_LIMITED

record approval =
  ap_approvedById :: "uid option"
  ap_reason :: "string option"

record approval_input =
  ai_organizationId :: uid
  ai_stallId :: uid
  ai_actorProfileId :: uid
  ai_actorRoles :: "UserRole list"
  ai_discountRateBps :: int
  ai_thresholdBps :: int
  ai_reason :: "string option"
  ai_managerEmail :: "string option"
  ai_managerPassword :: "string option"
  ai_managerAuthorizationCode :: "string option"

definition manager_roles :: "db \<Rightarrow> uid \<Rightarrow> uid \<Rightarrow> profile_row \<Rightarrow> UserRole list" where
  "manager_roles d organizationId stallId manager =
     (let oms = filter (\<lambda>m. om_profileId m = pf_id manager \<and> om_organizationId m = organizationId
                          \<and> om_isActive m) (org_memberships d);
          sms = filter (\<lambda>m. sm_profileId m = pf_id manager \<and> sm_organizationId m = organizationId
                          \<and> sm_stallId m = stallId \<and> sm_isActive m) (stall_memberships d);
          hasDirectStallAccess = length sms > 0
      in (case pf_platformRole manager of None \<Rightarrow> [] | Some r \<Rightarrow> [r])
         @ map om_role (filter (\<lambda>m. om_role m = ORGANIZATION_OWNER \<or> om_allStalls m
                                     \<or> hasDirectStallAccess) oms)
         @ map sm_role sms)"

definition authenticate_manager ::
  "(string \<Rightarrow> string \<Rightarrow> bool) \<Rightarrow> string \<Rightarrow> string \<Rightarrow> db \<Rightarrow> profile_row option" where
  "authenticate_manager compare email password d =
     (case List.find (\<lambda>p. pf_email p = email) (profiles d) of
        None \<Rightarrow> None
      | Some p \<Rightarrow>
          if \<not> pf_isActive p \<or> \<not> truthy (pf_passwordHash p)
             \<or> \<not> compare password (or_empty (pf_passwordHash p)) then None else Some p)"

definition approve_by_credentials ::
  "(string \<Rightarrow> string) \<Rightarrow> (string \<Rightarrow> string \<Rightarrow> bool) \<Rightarrow> instant \<Rightarrow> approval_input \<Rightarrow> string \<Rightarrow> db
     \<Rightarrow> db \<times> (DiscountApprovalError + approval)" where
  "approve_by_credentials sha256 compare now i reason d =
     (let email = js_toLowerCase (js_trim (or_empty (ai_managerEmail i)));
          password = or_empty (ai_managerPassword i)
      in if email = [] \<or> password = [] then (d, Inl CREDENTIALS_REQUIRED)
         else
           let (bs, limit) = checkRateLimit sha256
                  \<lparr>ro_scope = ''discount-manager-approval'',
                   ro_identifier = ai_stallId i @ '':'' @ ai_actorProfileId i,
                   ro_limit = 10, ro_windowMs = 5 * 60000\<rparr> now (rate_limit_buckets d);
               d1 = d\<lparr>rate_limit_buckets := bs\<rparr>
           in if \<not> rr_allowed limit then (d1, Inl DiscountApprovalError.RATE_LIMITED)
              else case authenticate_manager compare email password d1 of
                None \<Rightarrow> (d1, Inl INVALID_MANAGER)
              | Some manager \<Rightarrow>
                  if \<not> canApprove (manager_roles d1 (ai_organizationId i) (ai_stallId i) manager)
                  then (d1, Inl INVALID_MANAGER)
                  else (d1, Inr \<lparr>ap_approvedById = Some (pf_id manager), ap_reason = Some reason\<rparr>))"

definition resolveDiscountApproval ::
  "(string \<Rightarrow> string) \<Rightarrow> (string \<Rightarrow> string \<Rightarrow> bool) \<Rightarrow> instant \<Rightarrow> approval_input \<Rightarrow> db
     \<Rightarrow> db \<times> (DiscountApprovalError + approval)" where
  "resolveDiscountApproval sha256 compare now i d =
     (if \<not> discountRequiresApproval (ai_discountRateBps i) (ai_thresholdBps i)
      then (d, Inr \<lparr>ap_approvedById = None, ap_reason = None\<rparr>)
      else
        let reason = js_trim (or_empty (ai_reason i)) in
        if reason = [] then (d, Inl REASON_REQUIRED)
        else if canApprove (ai_actorRoles i)
          then (d, Inr \<lparr>ap_approvedById = Some (ai_actorProfileId i), ap_reason = Some reason\<rparr>)
        else if truthy (ai_managerAuthorizationCode i) then
          (case verifyManagerAuthorization sha256 compare now
                  \<lparr>mi_stallId = ai_stallId i, mi_actorProfileId = ai_actorProfileId i,
                   mi_actorRoles = ai_actorRoles i, mi_operation = HIGH_DISCOUNT,
                   mi_authorizationCode = ai_managerAuthorizationCode i\<rparr> d of
             (d1, Inr approval) \<Rightarrow>
               (d1, Inr \<lparr>ap_approvedById = Some (ma_approvedById approval), ap_reason = Some reason\<rparr>)
           | (d1, Inl error) \<Rightarrow>
               (d1, Inl (if error = ManagerAuthorizationError.RATE_LIMITED
                         then DiscountApprovalError.RATE_LIMITED else INVALID_MANAGER)))
        else approve_by_credentials sha256 compare now i reason d)"

section \<open>Resolving the checkout\<close>

datatype StaffCheckoutError =
  PAYMENT_REQUIRED | PAYMENT_INVALID | DISCOUNT_DISABLED | DISCOUNT_INVALID
| DISCOUNT_NOT_APPLICABLE | INSUFFICIENT_CASH
| DISCOUNT_APPROVAL DiscountApprovalError

record staff_checkout_request =
  rq_paymentOptionId :: "uid option"
  rq_discountOptionId :: "uid option"
  rq_cashReceived :: "int option"
  rq_discountApprovalReason :: "string option"
  rq_managerEmail :: "string option"
  rq_managerPassword :: "string option"
  rq_managerAuthorizationCode :: "string option"

record staff_checkout_input =
  si_organizationId :: uid
  si_stallId :: uid
  si_subtotals :: "int list"
  si_discountEligibleSubtotals :: "int list"
  si_currentTotals :: "int list option"
  si_actorProfileId :: uid
  si_actorRoles :: "UserRole list"
  si_request :: staff_checkout_request

record staff_checkout =
  sc_paymentOptionId :: "uid option"
  sc_method :: PaymentMethod
  sc_methodLabel :: string
  sc_discountOptionId :: "uid option"
  sc_discountLabel :: "string option"
  sc_discountRateBps :: "int option"
  sc_discountAmount :: int
  sc_discountEligibleSubtotal :: int
  sc_subtotal :: int
  sc_total :: int
  sc_cashReceived :: "int option"
  sc_changeAmount :: "int option"
  sc_discountAppliedById :: "uid option"
  sc_discountApprovedById :: "uid option"
  sc_discountApprovalReason :: "string option"
  sc_perOrderAmounts :: "discount_amounts list"

text \<open>The label of a cash payment without an option, the two characters of \<open>cash\<close>.\<close>

definition cash_label :: string where
  "cash_label = [CHR 0xE7, CHR 0x8F, CHR 0xBE, CHR 0xE9, CHR 0x87, CHR 0x91]"

definition find_payment_option ::
  "staff_checkout_input \<Rightarrow> db \<Rightarrow> payment_option_row option" where
  "find_payment_option i d =
     (let of_stall = (\<lambda>p. po_stallId p = si_stallId i \<and> po_organizationId p = si_organizationId i
                          \<and> po_isEnabled p);
          requested = rq_paymentOptionId (si_request i)
      in if truthy requested
         then List.find (\<lambda>p. Some (po_id p) = requested \<and> of_stall p) (payment_options d)
         else List.find (\<lambda>p. of_stall p \<and> po_kind p = PaymentOptionKind.CASH)
                (sort_key (\<lambda>p. (po_sortOrder p, po_createdAt p)) (payment_options d)))"

definition find_discount_option ::
  "staff_checkout_input \<Rightarrow> db \<Rightarrow> discount_option_row option" where
  "find_discount_option i d =
     (let requested = rq_discountOptionId (si_request i)
      in if truthy requested
         then List.find (\<lambda>p. Some (do_id p) = requested \<and> do_stallId p = si_stallId i
                            \<and> do_organizationId p = si_organizationId i \<and> do_isEnabled p)
                (discount_options d)
         else None)"

text \<open>
  The amounts of the orders, in the order of the request: with a discount, or when no
  current totals are given, the discounted amounts; otherwise the current total stands.
\<close>

fun per_order_amounts ::
  "int \<Rightarrow> bool \<Rightarrow> int list \<Rightarrow> int list \<Rightarrow> int list option
     \<Rightarrow> StaffCheckoutError + discount_amounts list" where
  "per_order_amounts rateBps discounted (subtotal # ss) (eligible # es) currents =
     (case calculateOrderDiscount subtotal eligible rateBps of
        Inl _ \<Rightarrow> Inl DISCOUNT_INVALID
      | Inr amounts \<Rightarrow>
          andThen
            (case currents of
               Some (currentTotal # _) \<Rightarrow>
                 if discounted then Inr amounts
                 else if currentTotal < 0 \<or> currentTotal > subtotal then Inl DISCOUNT_INVALID
                 else Inr \<lparr>da_subtotal = subtotal, da_discountEligibleSubtotal = eligible,
                           da_discountAmount = subtotal - currentTotal, da_total = currentTotal\<rparr>
             | _ \<Rightarrow> Inr amounts)
            (\<lambda>a. andThen (per_order_amounts rateBps discounted ss es (map_option tl currents))
                   (\<lambda>as. Inr (a # as))))"
| "per_order_amounts rateBps discounted _ _ _ = Inr []"

text \<open>Everything up to the approval: the option, the discount, the amounts, the cash.\<close>

record checkout_draft =
  cd_paymentOption :: "payment_option_row option"
  cd_discount :: "discount_option_row option"
  cd_eligible :: int
  cd_amounts :: "discount_amounts list"
  cd_subtotal :: int
  cd_total :: int
  cd_kind :: PaymentOptionKind
  cd_cashReceived :: "int option"

definition checkout_options ::
  "staff_checkout_input \<Rightarrow> db
     \<Rightarrow> StaffCheckoutError + payment_option_row option \<times> discount_option_row option" where
  "checkout_options i d =
     (let settings = settings_of d (si_stallId i);
          paymentModuleEnabled = (case settings of None \<Rightarrow> False | Some s \<Rightarrow> se_paymentModuleEnabled s);
          discountModuleEnabled =
            (case settings of None \<Rightarrow> False | Some s \<Rightarrow> se_discountModuleEnabled s);
          paymentOption = find_payment_option i d;
          discount = find_discount_option i d
      in if paymentModuleEnabled \<and> \<not> truthy (rq_paymentOptionId (si_request i))
           then Inl PAYMENT_REQUIRED
         else if truthy (rq_paymentOptionId (si_request i)) \<and> paymentOption = None
           then Inl PAYMENT_INVALID
         else if \<not> discountModuleEnabled \<and> truthy (rq_discountOptionId (si_request i))
           then Inl DISCOUNT_DISABLED
         else if truthy (rq_discountOptionId (si_request i)) \<and> discount = None
           then Inl DISCOUNT_INVALID
         else Inr (paymentOption, discount))"

definition draftStaffCheckout ::
  "staff_checkout_input \<Rightarrow> db \<Rightarrow> StaffCheckoutError + checkout_draft" where
  "draftStaffCheckout i d =
     andThen (checkout_options i d) (\<lambda>(paymentOption, discount).
       let subtotals = si_subtotals i; eligibles = si_discountEligibleSubtotals i in
       if length eligibles \<noteq> length subtotals
          \<or> (case si_currentTotals i of None \<Rightarrow> False | Some ts \<Rightarrow> length ts \<noteq> length subtotals)
         then Inl DISCOUNT_INVALID
       else if discount \<noteq> None \<and> sum_of id eligibles = 0 then Inl DISCOUNT_NOT_APPLICABLE
       else
         let rateBps = (case discount of None \<Rightarrow> 10000 | Some o' \<Rightarrow> do_rateBps o') in
         andThen (per_order_amounts rateBps (discount \<noteq> None) subtotals eligibles (si_currentTotals i))
           (\<lambda>amounts.
             let total = sum_of da_total amounts;
                 kind = (case paymentOption of None \<Rightarrow> PaymentOptionKind.CASH | Some p \<Rightarrow> po_kind p);
                 cashReceived =
                   (if kind = PaymentOptionKind.CASH
                    then Some (case rq_cashReceived (si_request i) of None \<Rightarrow> total | Some c \<Rightarrow> c)
                    else None)
             in if (case cashReceived of None \<Rightarrow> False | Some c \<Rightarrow> c < total)
                then Inl INSUFFICIENT_CASH
                else Inr \<lparr>cd_paymentOption = paymentOption, cd_discount = discount,
                          cd_eligible = sum_of id eligibles, cd_amounts = amounts,
                          cd_subtotal = sum_of id subtotals, cd_total = total, cd_kind = kind,
                          cd_cashReceived = cashReceived\<rparr>))"

definition resolved_checkout :: "uid \<Rightarrow> checkout_draft \<Rightarrow> approval \<Rightarrow> staff_checkout" where
  "resolved_checkout actor c a =
     \<lparr>sc_paymentOptionId = map_option po_id (cd_paymentOption c),
      sc_method = paymentMethodForKind (cd_kind c),
      sc_methodLabel = (case cd_paymentOption c of None \<Rightarrow> cash_label | Some p \<Rightarrow> po_name p),
      sc_discountOptionId = map_option do_id (cd_discount c),
      sc_discountLabel = map_option do_name (cd_discount c),
      sc_discountRateBps = map_option do_rateBps (cd_discount c),
      sc_discountAmount = cd_subtotal c - cd_total c,
      sc_discountEligibleSubtotal = cd_eligible c,
      sc_subtotal = cd_subtotal c, sc_total = cd_total c,
      sc_cashReceived = cd_cashReceived c,
      sc_changeAmount = map_option (\<lambda>r. r - cd_total c) (cd_cashReceived c),
      sc_discountAppliedById = (if cd_discount c = None then None else Some actor),
      sc_discountApprovedById = ap_approvedById a, sc_discountApprovalReason = ap_reason a,
      sc_perOrderAmounts = cd_amounts c\<rparr>"

definition approval_request :: "staff_checkout_input \<Rightarrow> db \<Rightarrow> int \<Rightarrow> approval_input" where
  "approval_request i d rateBps =
     \<lparr>ai_organizationId = si_organizationId i, ai_stallId = si_stallId i,
      ai_actorProfileId = si_actorProfileId i, ai_actorRoles = si_actorRoles i,
      ai_discountRateBps = rateBps,
      ai_thresholdBps =
        (case settings_of d (si_stallId i) of
           None \<Rightarrow> 8000 | Some s \<Rightarrow> se_discountApprovalThresholdBps s),
      ai_reason = rq_discountApprovalReason (si_request i),
      ai_managerEmail = rq_managerEmail (si_request i),
      ai_managerPassword = rq_managerPassword (si_request i),
      ai_managerAuthorizationCode = rq_managerAuthorizationCode (si_request i)\<rparr>"

definition resolveStaffCheckout ::
  "(string \<Rightarrow> string) \<Rightarrow> (string \<Rightarrow> string \<Rightarrow> bool) \<Rightarrow> instant \<Rightarrow> staff_checkout_input \<Rightarrow> db
     \<Rightarrow> db \<times> (StaffCheckoutError + staff_checkout)" where
  "resolveStaffCheckout sha256 compare now i d =
     (case draftStaffCheckout i d of
        Inl e \<Rightarrow> (d, Inl e)
      | Inr c \<Rightarrow>
          (case cd_discount c of
             None \<Rightarrow>
               (d, Inr (resolved_checkout (si_actorProfileId i) c \<lparr>ap_approvedById = None, ap_reason = None\<rparr>))
           | Some discount \<Rightarrow>
               (case resolveDiscountApproval sha256 compare now
                       (approval_request i d (do_rateBps discount)) d of
                  (d1, Inl e) \<Rightarrow> (d1, Inl (DISCOUNT_APPROVAL e))
                | (d1, Inr a) \<Rightarrow> (d1, Inr (resolved_checkout (si_actorProfileId i) c a)))))"

section \<open>Guessing the shared code\<close>

text \<open>
  The counter of one actor, while its window is open: a refused attempt never lowers it, a
  compared wrong code raises it by one, a right code gives its token back.
\<close>

definition actor_key :: "(string \<Rightarrow> string) \<Rightarrow> uid \<Rightarrow> int \<Rightarrow> uid \<Rightarrow> string" where
  "actor_key sha256 stallId codeVersion actor = request_key sha256 (actor_limit stallId codeVersion actor)"

text \<open>No other key of the limiter has the actor's hash.\<close>

definition hash_unshared :: "(string \<Rightarrow> string) \<Rightarrow> uid \<Rightarrow> int \<Rightarrow> uid \<Rightarrow> bool" where
  "hash_unshared sha256 stallId codeVersion actor \<longleftrightarrow>
     (\<forall>x. sha256 x = actor_key sha256 stallId codeVersion actor \<longrightarrow>
        x = ''manager-authorization-code:actor'' @ '':'' @ stallId @ '':''
              @ string_of_int codeVersion @ '':'' @ actor)"

lemma stall_key_distinct:
  "hash_unshared sha256 s v a \<Longrightarrow> request_key sha256 (stall_limit s' v') \<noteq> actor_key sha256 s v a"
  by (auto simp: hash_unshared_def request_key_def rate_key_def stall_limit_def)

lemma bucket_state_release_token:
  "bucket_state k (release_token sha256 options now bs) =
     (case bucket_state k bs of
        Some (c, e) \<Rightarrow>
          if k = request_key sha256 options \<and> now < e then Some (max (c - 1) 0, e) else Some (c, e)
      | None \<Rightarrow> None)"
  by (simp add: release_token_def bucket_state_release request_key_def split: option.split)

lemma buckets_ok_release_token [simp]:
  "buckets_ok (release_token sha256 options now bs) = buckets_ok bs"
  by (simp add: release_token_def)

lemma checkRateLimit_allowed:
  assumes "bucket_state (request_key sha256 options) bs = Some (c, e)" and "now < e"
  shows "rr_allowed (snd (checkRateLimit sha256 options now bs)) \<longleftrightarrow> c + 1 \<le> ro_limit options"
  using assms checkRateLimit_live(2) [of sha256 options bs _ now] by (auto simp: bucket_state_def)

lemma buckets_ok_check_shared_code:
  "buckets_ok bs \<Longrightarrow> buckets_ok (fst (check_shared_code sha256 compare now s v a code hash bs))"
  using limiter.ok_hit [of bs sha256 "actor_limit s v a" now]
    limiter.ok_hit [of "fst (checkRateLimit sha256 (actor_limit s v a) now bs)" sha256 "stall_limit s v" now]
  by (auto simp: check_shared_code_def Let_def split: prod.split)

lemma check_shared_code_counter:
  assumes ok: "buckets_ok bs" and live: "bucket_state k bs = Some (c, e)" and "now < e" and "0 \<le> c"
    and stall: "request_key sha256 (stall_limit s v) \<noteq> k"
    and res: "check_shared_code sha256 compare now s v a code hash bs = (bs', r)"
  shows "\<exists>c'. bucket_state k bs' = Some (c', e) \<and> c \<le> c' \<and>
           (actor_key sha256 s v a = k \<and> r = Inl INVALID_CODE \<longrightarrow> c' = c + 1 \<and> c < 3)"
proof -
  let ?ka = "actor_limit s v a" and ?ks = "stall_limit s v"
  obtain bs1 l1 where c1: "checkRateLimit sha256 ?ka now bs = (bs1, l1)" by fastforce
  obtain bs2 l2 where c2: "checkRateLimit sha256 ?ks now bs1 = (bs2, l2)" by fastforce
  have ok1: "buckets_ok bs1" using limiter.ok_hit [OF ok, of sha256 ?ka now] c1 by simp
  have lim: "ro_limit ?ka = 3" by (simp add: actor_limit_def)
  show ?thesis
  proof (cases "actor_key sha256 s v a = k")
    case True
    then have key: "request_key sha256 ?ka = k" by (simp add: actor_key_def)
    have b1: "bucket_state k bs1 = Some (c + 1, e)"
      using limiter.get_hit_same [OF ok, of sha256 ?ka c e now] live \<open>now < e\<close> c1 key by simp
    have b2: "bucket_state k bs2 = Some (c + 1, e)"
      using limiter.get_hit_other [OF ok1 b1 \<open>now < e\<close> stall] c2 by simp
    have al: "rr_allowed l1 \<longleftrightarrow> c < 3"
      using checkRateLimit_allowed [of sha256 ?ka bs c e now] live \<open>now < e\<close> c1 key lim by force
    show ?thesis
      using res \<open>0 \<le> c\<close> \<open>now < e\<close> stall b1 b2 al key
      by (auto simp: check_shared_code_def Let_def c1 c2 bucket_state_release_token split: if_splits)
  next
    case False
    then have key: "request_key sha256 ?ka \<noteq> k" by (simp add: actor_key_def)
    have b1: "bucket_state k bs1 = Some (c, e)"
      using limiter.get_hit_other [OF ok live \<open>now < e\<close> key] c1 by simp
    have b2: "bucket_state k bs2 = Some (c, e)"
      using limiter.get_hit_other [OF ok1 b1 \<open>now < e\<close> stall] c2 by simp
    show ?thesis
      using res stall b1 b2 key False
      by (auto simp: check_shared_code_def Let_def c1 c2 bucket_state_release_token split: if_splits)
  qed
qed

text \<open>A sequence of verifications, by anyone for any stall, with the answers given.\<close>

fun manager_attempts ::
  "(string \<Rightarrow> string) \<Rightarrow> (string \<Rightarrow> string \<Rightarrow> bool) \<Rightarrow> (manager_input \<times> instant) list \<Rightarrow> db
     \<Rightarrow> (manager_input \<times> (ManagerAuthorizationError + manager_approval)) list" where
  "manager_attempts sha256 compare [] d = []"
| "manager_attempts sha256 compare ((i, now) # xs) d =
     (case verifyManagerAuthorization sha256 compare now i d of
        (d', r) \<Rightarrow> (i, r) # manager_attempts sha256 compare xs d')"

text \<open>A well-formed code of this actor for this stall, compared with the hash and found wrong.\<close>

definition wrong_guess ::
  "uid \<Rightarrow> uid \<Rightarrow> manager_input \<times> (ManagerAuthorizationError + manager_approval) \<Rightarrow> bool" where
  "wrong_guess stallId actor = (\<lambda>(i, r).
     mi_stallId i = stallId \<and> mi_actorProfileId i = actor
     \<and> validManagerCode (js_trim (or_empty (mi_authorizationCode i)))
     \<and> r = Inl INVALID_CODE)"

lemma verify_settings:
  "ordering_settings (fst (verifyManagerAuthorization sha256 compare now i d)) = ordering_settings d"
  by (simp add: verifyManagerAuthorization_def Let_def split: option.split prod.split)

lemma code_settings_verify [simp]:
  "code_settings (fst (verifyManagerAuthorization sha256 compare now i d)) s = code_settings d s"
  by (simp add: code_settings_def settings_of_def verify_settings)

lemma verify_branch:
  assumes "verifyManagerAuthorization sha256 compare now i d = (d', r)"
  shows "(\<exists>se hash bs. code_settings d (mi_stallId i) = Some (se, hash)
       \<and> check_shared_code sha256 compare now (mi_stallId i) (code_version se) (mi_actorProfileId i)
           (js_trim (or_empty (mi_authorizationCode i))) hash (rate_limit_buckets d) = (bs, r)
       \<and> d' = d\<lparr>rate_limit_buckets := bs\<rparr>)
    \<or> d' = d \<and> \<not> wrong_guess stallId actor (i, r)"
proof (cases "code_settings d (mi_stallId i)")
  case None
  then show ?thesis
    using assms by (simp add: verifyManagerAuthorization_def Let_def wrong_guess_def split: if_splits; force)
next
  case (Some sh)
  obtain se hash where sh: "sh = (se, hash)" by (cases sh)
  obtain bs q where chk: "check_shared_code sha256 compare now (mi_stallId i) (code_version se)
      (mi_actorProfileId i) (js_trim (or_empty (mi_authorizationCode i))) hash
      (rate_limit_buckets d) = (bs, q)" by fastforce
  show ?thesis
  proof (cases "canApprove (mi_actorRoles i) \<or> js_trim (or_empty (mi_authorizationCode i)) = []
      \<or> \<not> validManagerCode (js_trim (or_empty (mi_authorizationCode i)))")
    case True
    then have "d' = d \<and> \<not> wrong_guess stallId actor (i, r)"
      using assms by (auto simp only: verifyManagerAuthorization_def Let_def wrong_guess_def prod.case
          if_True if_False prod.inject sum.distinct simp_thms split: if_split_asm)
    then show ?thesis by blast
  next
    case False
    then have "d' = d\<lparr>rate_limit_buckets := bs\<rparr> \<and> r = q"
      using assms Some sh chk by (simp add: verifyManagerAuthorization_def Let_def)
    with Some sh chk show ?thesis by blast
  qed
qed

lemma verify_counter:
  assumes ok: "buckets_ok (rate_limit_buckets d)"
    and settings: "code_settings d stallId = Some (se, hash)"
    and k: "k = actor_key sha256 stallId (code_version se) actor"
    and live: "bucket_state k (rate_limit_buckets d) = Some (c, e)" and now: "now < e" and "0 \<le> c"
    and unshared: "hash_unshared sha256 stallId (code_version se) actor"
    and res: "verifyManagerAuthorization sha256 compare now i d = (d', r)"
  shows "buckets_ok (rate_limit_buckets d')"
    and "\<exists>c'. bucket_state k (rate_limit_buckets d') = Some (c', e) \<and> c \<le> c' \<and>
           (wrong_guess stallId actor (i, r) \<longrightarrow> c' = c + 1 \<and> c < 3)"
proof -
  from res verify_branch consider (shared) se' hash' bs
    where "code_settings d (mi_stallId i) = Some (se', hash')"
      "check_shared_code sha256 compare now (mi_stallId i) (code_version se') (mi_actorProfileId i)
         (js_trim (or_empty (mi_authorizationCode i))) hash' (rate_limit_buckets d) = (bs, r)"
      "d' = d\<lparr>rate_limit_buckets := bs\<rparr>"
    | (other) "d' = d" "\<not> wrong_guess stallId actor (i, r)"
    by metis
  then have "buckets_ok (rate_limit_buckets d') \<and>
    (\<exists>c'. bucket_state k (rate_limit_buckets d') = Some (c', e) \<and> c \<le> c' \<and>
           (wrong_guess stallId actor (i, r) \<longrightarrow> c' = c + 1 \<and> c < 3))"
  proof cases
    case shared
    have "request_key sha256 (stall_limit (mi_stallId i) (code_version se')) \<noteq> k"
      using stall_key_distinct [OF unshared] k by simp
    from check_shared_code_counter [OF ok live now \<open>0 \<le> c\<close> this shared(2)]
    obtain c' where c': "bucket_state k bs = Some (c', e)" "c \<le> c'"
      "actor_key sha256 (mi_stallId i) (code_version se') (mi_actorProfileId i) = k \<and> r = Inl INVALID_CODE
         \<longrightarrow> c' = c + 1 \<and> c < 3" by blast
    have "wrong_guess stallId actor (i, r) \<Longrightarrow>
        actor_key sha256 (mi_stallId i) (code_version se') (mi_actorProfileId i) = k \<and> r = Inl INVALID_CODE"
      using shared(1) settings k by (auto simp: wrong_guess_def)
    moreover have "buckets_ok bs"
      using buckets_ok_check_shared_code [OF ok] shared(2) by (metis fst_conv)
    ultimately show ?thesis using c' shared(3) by auto
  next
    case other
    then show ?thesis using ok live by auto
  qed
  then show "buckets_ok (rate_limit_buckets d')"
    and "\<exists>c'. bucket_state k (rate_limit_buckets d') = Some (c', e) \<and> c \<le> c' \<and>
           (wrong_guess stallId actor (i, r) \<longrightarrow> c' = c + 1 \<and> c < 3)" by auto
qed

text \<open>C16. While the window of an actor's counter for a stall's manager code is open, at most
  three of the actor's wrong codes are ever compared with the stored hash, less those already
  counted, whatever other staff members, other stalls and right codes are verified in
  between; every further guess is refused before the hash is read.\<close>

theorem manager_code_guess_bound:
  assumes "buckets_ok (rate_limit_buckets d)"
    and "code_settings d stallId = Some (se, hash)"
    and "bucket_state (actor_key sha256 stallId (code_version se) actor) (rate_limit_buckets d) = Some (c, e)"
    and "0 \<le> c"
    and "hash_unshared sha256 stallId (code_version se) actor"
    and "\<forall>(i, now) \<in> set xs. now < e"
  shows "int (count_where (wrong_guess stallId actor) (manager_attempts sha256 compare xs d)) \<le> max 0 (3 - c)"
  using assms
proof (induction xs arbitrary: d c)
  case Nil
  then show ?case by simp
next
  case (Cons x xs)
  obtain i now where x: "x = (i, now)" by (cases x)
  obtain d' r where v: "verifyManagerAuthorization sha256 compare now i d = (d', r)" by fastforce
  from Cons.prems x have "now < e" by simp
  note vc = verify_counter [OF Cons.prems(1,2) refl Cons.prems(3) this Cons.prems(4,5) v]
  from vc(2) obtain c' where c': "bucket_state (actor_key sha256 stallId (code_version se) actor)
      (rate_limit_buckets d') = Some (c', e)" "c \<le> c'"
    "wrong_guess stallId actor (i, r) \<longrightarrow> c' = c + 1 \<and> c < 3" by blast
  have "code_settings d' stallId = Some (se, hash)"
    using Cons.prems(2) code_settings_verify [of sha256 compare now i d stallId] v by simp
  from Cons.IH [OF vc(1) this c'(1) _ Cons.prems(5)] Cons.prems(4,6) c'(2)
  have "int (count_where (wrong_guess stallId actor) (manager_attempts sha256 compare xs d')) \<le> max 0 (3 - c')"
    by simp
  then show ?case using c' x v by (auto split: if_splits)
qed

section \<open>Sample data\<close>

definition sample_settings :: ordering_settings_row where
  "sample_settings =
     \<lparr>se_stallId = ''stall'', se_paymentModuleEnabled = True, se_discountModuleEnabled = True,
      se_discountApprovalThresholdBps = 8000, se_kdsModuleEnabled = False,
      se_printModuleEnabled = False, se_businessDayCutoffHour = 0,
      se_managerAuthorizationCodeHash = Some ''654321'',
      se_managerAuthorizationCodeUpdatedAt = Some 7\<rparr>"

definition sample_bucket :: rate_bucket_row where
  "sample_bucket =
     \<lparr>rb_key = ''manager-authorization-code:actor:stall:7:staff'',
      rb_scope = ''manager-authorization-code:actor'', rb_count = 1,
      rb_expiresAt = 900000, rb_updatedAt = 0\<rparr>"

definition sample_checkout_db :: db where
  "sample_checkout_db =
     empty_db\<lparr>ordering_settings := [sample_settings], rate_limit_buckets := [sample_bucket],
       payment_options :=
         [\<lparr>po_id = ''cash'', po_organizationId = ''org'', po_stallId = ''stall'', po_name = ''Cash'',
           po_kind = PaymentOptionKind.CASH, po_isEnabled = True, po_sortOrder = 0, po_createdAt = 0\<rparr>],
       discount_options :=
         [\<lparr>do_id = ''half'', do_organizationId = ''org'', do_stallId = ''stall'', do_name = ''Half'',
           do_rateBps = 5000, do_isEnabled = True\<rparr>]\<rparr>"

definition sample_guess :: manager_input where
  "sample_guess =
     \<lparr>mi_stallId = ''stall'', mi_actorProfileId = ''staff'', mi_actorRoles = [STAFF],
      mi_operation = HIGH_DISCOUNT, mi_authorizationCode = Some ''123456''\<rparr>"

theorem manager_code_guess_bound_witness:
  "int (count_where (wrong_guess ''stall'' ''staff'')
     (manager_attempts (\<lambda>s. s) (=) (map (\<lambda>t. (sample_guess, t)) [1, 2, 3, 4, 5]) sample_checkout_db)) \<le> 2"
proof -
  have key: "string_of_int 7 = ''7''" by code_simp
  have "int (count_where (wrong_guess ''stall'' ''staff'')
     (manager_attempts (\<lambda>s. s) (=) (map (\<lambda>t. (sample_guess, t)) [1, 2, 3, 4, 5]) sample_checkout_db))
     \<le> max 0 (3 - 1)"
  proof (rule manager_code_guess_bound)
    show "buckets_ok (rate_limit_buckets sample_checkout_db)"
      by (simp add: sample_checkout_db_def buckets_ok_def)
    show "code_settings sample_checkout_db ''stall'' = Some (sample_settings, ''654321'')"
      by (simp add: code_settings_def settings_of_def sample_checkout_db_def sample_settings_def
          truthy_def or_empty_def)
    show "bucket_state (actor_key (\<lambda>s. s) ''stall'' (code_version sample_settings) ''staff'')
        (rate_limit_buckets sample_checkout_db) = Some (1, 900000)"
      by (simp add: bucket_state_def find_bucket_def actor_key_def request_key_def rate_key_def
          actor_limit_def code_version_def sample_settings_def sample_checkout_db_def sample_bucket_def key)
    show "hash_unshared (\<lambda>s. s) ''stall'' (code_version sample_settings) ''staff''"
      by (simp add: hash_unshared_def actor_key_def request_key_def rate_key_def actor_limit_def)
  qed simp_all
  then show ?thesis by simp
qed

section \<open>Who authorised a high discount, and what is charged\<close>

definition discount_authority ::
  "(string \<Rightarrow> string \<Rightarrow> bool) \<Rightarrow> approval_input \<Rightarrow> db \<Rightarrow> uid \<Rightarrow> bool" where
  "discount_authority compare i d approver \<longleftrightarrow>
     approver = ai_actorProfileId i \<and> canApprove (ai_actorRoles i)
   \<or> approver = ai_actorProfileId i \<and>
       (\<exists>se hash. code_settings d (ai_stallId i) = Some (se, hash)
          \<and> compare (js_trim (or_empty (ai_managerAuthorizationCode i))) hash)
   \<or> (\<exists>p \<in> set (profiles d). pf_id p = approver \<and> pf_isActive p
        \<and> pf_email p = js_toLowerCase (js_trim (or_empty (ai_managerEmail i)))
        \<and> compare (or_empty (ai_managerPassword i)) (or_empty (pf_passwordHash p))
        \<and> canApprove (manager_roles d (ai_organizationId i) (ai_stallId i) p))"

lemma check_shared_code_granted:
  "check_shared_code sha256 compare now s v a code hash bs = (bs', Inr r) \<Longrightarrow>
     compare code hash \<and> ma_approvedById r = a"
  by (auto simp: check_shared_code_def Let_def split: prod.splits if_splits)

lemma verify_granted:
  assumes "verifyManagerAuthorization sha256 compare now i d = (d', Inr r)"
  shows "ma_approvedById r = mi_actorProfileId i \<and>
    (canApprove (mi_actorRoles i) \<or>
     (\<exists>se hash. code_settings d (mi_stallId i) = Some (se, hash)
        \<and> compare (js_trim (or_empty (mi_authorizationCode i))) hash))"
proof (cases "canApprove (mi_actorRoles i)")
  case True
  with assms show ?thesis by (auto simp: verifyManagerAuthorization_def)
next
  case False
  have "\<not> wrong_guess x y (i, Inr r)" for x y by (simp add: wrong_guess_def)
  from False assms obtain se hash bs where "code_settings d (mi_stallId i) = Some (se, hash)"
    "check_shared_code sha256 compare now (mi_stallId i) (code_version se) (mi_actorProfileId i)
       (js_trim (or_empty (mi_authorizationCode i))) hash (rate_limit_buckets d) = (bs, Inr r)"
    by (simp add: verifyManagerAuthorization_def Let_def split: if_split_asm option.split_asm prod.split_asm)
  with check_shared_code_granted [OF this(2)] show ?thesis by blast
qed

lemma manager_roles_buckets [simp]:
  "manager_roles (d\<lparr>rate_limit_buckets := bs\<rparr>) o' s p = manager_roles d o' s p"
  by (simp add: manager_roles_def)

lemma authenticate_manager_buckets [simp]:
  "authenticate_manager compare em pw (d\<lparr>rate_limit_buckets := bs\<rparr>) = authenticate_manager compare em pw d"
  by (simp add: authenticate_manager_def)

lemma authenticate_manager_SomeD:
  "authenticate_manager compare em pw d = Some p \<Longrightarrow>
     p \<in> set (profiles d) \<and> pf_email p = em \<and> pf_isActive p \<and> compare pw (or_empty (pf_passwordHash p))"
  by (auto simp: authenticate_manager_def split: option.splits if_splits dest: find_Some_D)

lemma approve_by_credentials_granted:
  assumes "approve_by_credentials sha256 compare now i reason d = (d', Inr a)"
  shows "ap_reason a = Some reason \<and> (\<exists>m. ap_approvedById a = Some m \<and> discount_authority compare i d m)"
proof -
  from assms obtain p where p: "authenticate_manager compare
        (js_toLowerCase (js_trim (or_empty (ai_managerEmail i)))) (or_empty (ai_managerPassword i)) d = Some p"
      "canApprove (manager_roles d (ai_organizationId i) (ai_stallId i) p)"
      "a = \<lparr>ap_approvedById = Some (pf_id p), ap_reason = Some reason\<rparr>"
    by (simp add: approve_by_credentials_def Let_def
        split: if_split_asm option.split_asm prod.split_asm)
  with authenticate_manager_SomeD [OF p(1)] show ?thesis
    by (auto simp: discount_authority_def)
qed

lemma resolveDiscountApproval_granted:
  assumes "resolveDiscountApproval sha256 compare now i d = (d', Inr a)"
  shows "(\<not> discountRequiresApproval (ai_discountRateBps i) (ai_thresholdBps i) \<longrightarrow> ap_approvedById a = None)
    \<and> (discountRequiresApproval (ai_discountRateBps i) (ai_thresholdBps i) \<longrightarrow>
         ap_reason a = Some (js_trim (or_empty (ai_reason i))) \<and> js_trim (or_empty (ai_reason i)) \<noteq> []
         \<and> (\<exists>m. ap_approvedById a = Some m \<and> discount_authority compare i d m))"
proof (cases "discountRequiresApproval (ai_discountRateBps i) (ai_thresholdBps i)")
  case False
  with assms show ?thesis by (auto simp: resolveDiscountApproval_def)
next
  case req: True
  let ?reason = "js_trim (or_empty (ai_reason i))"
  let ?mi = "\<lparr>mi_stallId = ai_stallId i, mi_actorProfileId = ai_actorProfileId i,
                   mi_actorRoles = ai_actorRoles i, mi_operation = HIGH_DISCOUNT,
                   mi_authorizationCode = ai_managerAuthorizationCode i\<rparr>"
  from req assms have ne: "?reason \<noteq> []"
    by (simp add: resolveDiscountApproval_def Let_def split: if_split_asm)
  consider "canApprove (ai_actorRoles i)"
    | (code) "\<not> canApprove (ai_actorRoles i)" "truthy (ai_managerAuthorizationCode i)"
    | (cred) "\<not> canApprove (ai_actorRoles i)" "\<not> truthy (ai_managerAuthorizationCode i)" by blast
  then show ?thesis
  proof cases
    case 1
    with req ne assms show ?thesis
      by (auto simp: resolveDiscountApproval_def Let_def discount_authority_def)
  next
    case code
    with req ne assms obtain m where "verifyManagerAuthorization sha256 compare now ?mi d = (d', Inr m)"
        and a: "a = \<lparr>ap_approvedById = Some (ma_approvedById m), ap_reason = Some ?reason\<rparr>"
      by (simp add: resolveDiscountApproval_def Let_def split: prod.split_asm sum.split_asm)
    from verify_granted [OF this(1)] code a req ne show ?thesis
      by (auto simp: discount_authority_def)
  next
    case cred
    with req ne assms have "approve_by_credentials sha256 compare now i ?reason d = (d', Inr a)"
      by (simp add: resolveDiscountApproval_def Let_def)
    from approve_by_credentials_granted [OF this] req ne show ?thesis by simp
  qed
qed

lemma per_order_amounts_bounds:
  assumes "per_order_amounts rateBps discounted ss es currents = Inr as" and "length es = length ss"
  shows "0 \<le> sum_of da_total as" "sum_of da_total as \<le> sum_of id ss" "length as = length ss"
    "discounted \<Longrightarrow> sum_of id ss - sum_of id es \<le> sum_of da_total as"
proof -
  have "0 \<le> sum_of da_total as \<and> sum_of da_total as \<le> sum_of id ss \<and> length as = length ss
    \<and> (discounted \<longrightarrow> sum_of id ss - sum_of id es \<le> sum_of da_total as)"
    using assms
  proof (induction rateBps discounted ss es currents arbitrary: as rule: per_order_amounts.induct)
    case (1 rateBps discounted s ss e es currents)
    from 1(2) obtain a where a: "calculateOrderDiscount s e rateBps = Inr a"
      by (auto split: sum.splits)
    note b = calculateOrderDiscount_bounds [OF a]
    from 1(2) a obtain x xs where x: "as = x # xs"
        "per_order_amounts rateBps discounted ss es (map_option tl currents) = Inr xs"
        "x = a \<or> \<not> discounted \<and> 0 \<le> da_total x \<and> da_total x \<le> s"
      by (auto simp: andThen_Inr_iff split: option.splits list.splits if_splits)
    have "0 \<le> sum_of da_total xs \<and> sum_of da_total xs \<le> sum_of id ss \<and> length xs = length ss
      \<and> (discounted \<longrightarrow> sum_of id ss - sum_of id es \<le> sum_of da_total xs)"
      using x(2,3) 1(1,3) a by (cases currents) (auto split: list.splits if_splits)
    then show ?case using x b by auto
  qed auto
  then show "0 \<le> sum_of da_total as" "sum_of da_total as \<le> sum_of id ss" "length as = length ss"
    "discounted \<Longrightarrow> sum_of id ss - sum_of id es \<le> sum_of da_total as" by auto
qed

lemma draftStaffCheckout_InrD:
  assumes "draftStaffCheckout i d = Inr c"
  shows "0 \<le> cd_total c" "cd_total c \<le> cd_subtotal c"
    "cd_subtotal c = sum_of id (si_subtotals i)" "cd_total c = sum_of da_total (cd_amounts c)"
    "cd_eligible c = sum_of id (si_discountEligibleSubtotals i)"
    "length (cd_amounts c) = length (si_subtotals i)"
    "cd_discount c \<noteq> None \<Longrightarrow> cd_subtotal c - cd_eligible c \<le> cd_total c"
    "cd_kind c = PaymentOptionKind.CASH \<Longrightarrow> \<exists>r. cd_cashReceived c = Some r \<and> cd_total c \<le> r"
    "cd_kind c \<noteq> PaymentOptionKind.CASH \<Longrightarrow> cd_cashReceived c = None"
proof -
  from assms obtain po dis where "checkout_options i d = Inr (po, dis)"
    by (auto simp: draftStaffCheckout_def andThen_Inr_iff)
  with assms obtain as where len: "length (si_discountEligibleSubtotals i) = length (si_subtotals i)"
    and as: "per_order_amounts (case dis of None \<Rightarrow> 10000 | Some o' \<Rightarrow> do_rateBps o') (dis \<noteq> None)
        (si_subtotals i) (si_discountEligibleSubtotals i) (si_currentTotals i) = Inr as"
    and c: "cd_amounts c = as" "cd_total c = sum_of da_total as" "cd_subtotal c = sum_of id (si_subtotals i)"
      "cd_eligible c = sum_of id (si_discountEligibleSubtotals i)" "cd_discount c = dis"
      "cd_kind c = PaymentOptionKind.CASH \<Longrightarrow> \<exists>r. cd_cashReceived c = Some r \<and> cd_total c \<le> r"
      "cd_kind c \<noteq> PaymentOptionKind.CASH \<Longrightarrow> cd_cashReceived c = None"
    by (auto simp: draftStaffCheckout_def andThen_Inr_iff Let_def split: if_splits option.splits)
  note b = per_order_amounts_bounds [OF as len]
  from b c show "0 \<le> cd_total c" "cd_total c \<le> cd_subtotal c"
    "cd_subtotal c = sum_of id (si_subtotals i)" "cd_total c = sum_of da_total (cd_amounts c)"
    "cd_eligible c = sum_of id (si_discountEligibleSubtotals i)"
    "length (cd_amounts c) = length (si_subtotals i)"
    "cd_discount c \<noteq> None \<Longrightarrow> cd_subtotal c - cd_eligible c \<le> cd_total c"
    "cd_kind c = PaymentOptionKind.CASH \<Longrightarrow> \<exists>r. cd_cashReceived c = Some r \<and> cd_total c \<le> r"
    "cd_kind c \<noteq> PaymentOptionKind.CASH \<Longrightarrow> cd_cashReceived c = None" by auto
qed

lemma resolveStaffCheckout_InrD:
  assumes "resolveStaffCheckout sha256 compare now i d = (d', Inr sc)"
  obtains c a where "draftStaffCheckout i d = Inr c" "sc = resolved_checkout (si_actorProfileId i) c a"
    "\<forall>o'. cd_discount c = Some o' \<longrightarrow>
       resolveDiscountApproval sha256 compare now (approval_request i d (do_rateBps o')) d = (d', Inr a)"
proof -
  from assms obtain c where c: "draftStaffCheckout i d = Inr c"
    by (auto simp: resolveStaffCheckout_def split: sum.splits)
  show thesis
  proof (cases "cd_discount c")
    case None
    with assms c show ?thesis
      by (intro that [of c "\<lparr>ap_approvedById = None, ap_reason = None\<rparr>"]) (simp_all add: resolveStaffCheckout_def)
  next
    case (Some o')
    with assms c obtain a where "resolveDiscountApproval sha256 compare now
        (approval_request i d (do_rateBps o')) d = (d', Inr a)"
      "sc = resolved_checkout (si_actorProfileId i) c a"
      by (auto simp: resolveStaffCheckout_def split: prod.splits sum.splits)
    with Some c show ?thesis by (intro that [of c a]) simp_all
  qed
qed

lemma staff_checkout_amounts_facts:
  assumes "resolveStaffCheckout sha256 compare now i d = (d', Inr sc)"
  shows "0 \<le> sc_total sc \<and> sc_total sc \<le> sc_subtotal sc
    \<and> sc_subtotal sc = sum_of id (si_subtotals i)
    \<and> sc_total sc = sum_of da_total (sc_perOrderAmounts sc)
    \<and> length (sc_perOrderAmounts sc) = length (si_subtotals i)
    \<and> sc_discountAmount sc = sc_subtotal sc - sc_total sc
    \<and> (sc_discountOptionId sc \<noteq> None \<longrightarrow> sc_discountAmount sc \<le> sc_discountEligibleSubtotal sc)
    \<and> (if sc_method sc = PaymentMethod.CASH
       then \<exists>r. sc_cashReceived sc = Some r \<and> sc_total sc \<le> r \<and> sc_changeAmount sc = Some (r - sc_total sc)
       else sc_cashReceived sc = None \<and> sc_changeAmount sc = None)"
proof -
  from assms obtain c a where c: "draftStaffCheckout i d = Inr c"
      and sc: "sc = resolved_checkout (si_actorProfileId i) c a"
    by (rule resolveStaffCheckout_InrD)
  have by_cash: "sc_method sc = PaymentMethod.CASH \<longleftrightarrow> cd_kind c = PaymentOptionKind.CASH"
    by (simp add: sc resolved_checkout_def paymentMethodForKind_def)
  note b = draftStaffCheckout_InrD [OF c]
  from b(1-7) have "sc_discountOptionId sc \<noteq> None \<longrightarrow> sc_discountAmount sc \<le> sc_discountEligibleSubtotal sc"
    by (auto simp: sc resolved_checkout_def)
  moreover have "if sc_method sc = PaymentMethod.CASH
       then \<exists>r. sc_cashReceived sc = Some r \<and> sc_total sc \<le> r \<and> sc_changeAmount sc = Some (r - sc_total sc)
       else sc_cashReceived sc = None \<and> sc_changeAmount sc = None"
    using b(8,9) by_cash by (auto simp: sc resolved_checkout_def)
  ultimately show ?thesis using b(1-6) by (simp add: sc resolved_checkout_def)
qed

text \<open>C15. Whatever a staff checkout charges lies between zero and the sum of the subtotals of
  the orders it pays, is the sum of the totals of the single orders, and never discounts
  more than the eligible part; a cash payment receives at least the total and gives back
  exactly the difference, and no other payment method records cash.\<close>

theorem staff_checkout_amounts:
  assumes "resolveStaffCheckout sha256 compare now i d = (d', Inr sc)"
  shows "0 \<le> sc_total sc \<and> sc_total sc \<le> sc_subtotal sc
    \<and> sc_subtotal sc = sum_of id (si_subtotals i)
    \<and> sc_total sc = sum_of da_total (sc_perOrderAmounts sc)
    \<and> length (sc_perOrderAmounts sc) = length (si_subtotals i)
    \<and> sc_discountAmount sc = sc_subtotal sc - sc_total sc
    \<and> (sc_discountOptionId sc \<noteq> None \<longrightarrow> sc_discountAmount sc \<le> sc_discountEligibleSubtotal sc)
    \<and> (if sc_method sc = PaymentMethod.CASH
       then \<exists>r. sc_cashReceived sc = Some r \<and> sc_total sc \<le> r \<and> sc_changeAmount sc = Some (r - sc_total sc)
       else sc_cashReceived sc = None \<and> sc_changeAmount sc = None)"
  by (rule staff_checkout_amounts_facts [OF assms])

text \<open>C33. A discount below the stall's approval threshold is never granted without a
  non-empty reason and an approver with the authority for it: the actor's own role, the
  stall's manager code, or the verified password of an active manager of the stall who may
  approve discounts.\<close>

theorem staff_checkout_discount_authority:
  assumes "resolveStaffCheckout sha256 compare now i d = (d', Inr sc)"
    and "sc_discountRateBps sc = Some rate"
    and "rate < (case settings_of d (si_stallId i) of
                   None \<Rightarrow> 8000 | Some s \<Rightarrow> se_discountApprovalThresholdBps s)"
  shows "\<exists>approver reason. sc_discountApprovedById sc = Some approver
    \<and> sc_discountApprovalReason sc = Some reason \<and> reason \<noteq> []
    \<and> discount_authority compare (approval_request i d rate) d approver"
proof -
  from assms(1) obtain c a where c: "draftStaffCheckout i d = Inr c"
      and sc: "sc = resolved_checkout (si_actorProfileId i) c a"
      and ap: "\<forall>o'. cd_discount c = Some o' \<longrightarrow>
       resolveDiscountApproval sha256 compare now (approval_request i d (do_rateBps o')) d = (d', Inr a)"
    by (rule resolveStaffCheckout_InrD)
  from assms(2) obtain o' where o': "cd_discount c = Some o'" "do_rateBps o' = rate"
    by (auto simp: sc resolved_checkout_def)
  have "discountRequiresApproval (ai_discountRateBps (approval_request i d rate))
      (ai_thresholdBps (approval_request i d rate))"
    using assms(3) by (simp add: approval_request_def discountRequiresApproval_def)
  with resolveDiscountApproval_granted [OF ap [rule_format, OF o'(1)]] o'(2)
  show ?thesis by (auto simp: sc resolved_checkout_def)
qed

definition sample_checkout :: staff_checkout_input where
  "sample_checkout =
     \<lparr>si_organizationId = ''org'', si_stallId = ''stall'', si_subtotals = [100, 51],
      si_discountEligibleSubtotals = [80, 51], si_currentTotals = None,
      si_actorProfileId = ''staff'', si_actorRoles = [STAFF],
      si_request =
        \<lparr>rq_paymentOptionId = Some ''cash'', rq_discountOptionId = Some ''half'',
         rq_cashReceived = Some 100, rq_discountApprovalReason = Some '' regular '',
         rq_managerEmail = None, rq_managerPassword = None,
         rq_managerAuthorizationCode = Some ''654321''\<rparr>\<rparr>"

theorem staff_checkout_amounts_witness:
  "(case snd (resolveStaffCheckout (\<lambda>s. s) (=) 1 sample_checkout sample_checkout_db) of
      Inl _ \<Rightarrow> False
    | Inr sc \<Rightarrow> sc_total sc = 86 \<and> sc_total sc \<le> sc_subtotal sc \<and> sc_changeAmount sc = Some 14)"
proof -
  obtain d' sc where r: "resolveStaffCheckout (\<lambda>s. s) (=) 1 sample_checkout sample_checkout_db = (d', Inr sc)"
    and v: "sc_total sc = 86" "sc_changeAmount sc = Some 14"
  proof -
    have "case resolveStaffCheckout (\<lambda>s. s) (=) 1 sample_checkout sample_checkout_db of
        (d', Inr sc) \<Rightarrow> sc_total sc = 86 \<and> sc_changeAmount sc = Some 14 | _ \<Rightarrow> False"
      by code_simp
    then show thesis using that by (auto split: prod.splits sum.splits)
  qed
  from staff_checkout_amounts [OF r] have "sc_total sc \<le> sc_subtotal sc" by blast
  with r v show ?thesis by simp
qed

theorem staff_checkout_discount_authority_witness:
  "\<exists>approver reason.
     discount_authority (=) (approval_request sample_checkout sample_checkout_db 5000) sample_checkout_db approver
     \<and> (reason::string) \<noteq> []"
proof -
  obtain d' sc where r: "resolveStaffCheckout (\<lambda>s. s) (=) 1 sample_checkout sample_checkout_db = (d', Inr sc)"
    and v: "sc_discountRateBps sc = Some 5000"
  proof -
    have "case resolveStaffCheckout (\<lambda>s. s) (=) 1 sample_checkout sample_checkout_db of
        (d', Inr sc) \<Rightarrow> sc_discountRateBps sc = Some 5000 | _ \<Rightarrow> False"
      by code_simp
    then show thesis using that by (auto split: prod.splits sum.splits)
  qed
  have "(5000::int) < (case settings_of sample_checkout_db (si_stallId sample_checkout) of
                   None \<Rightarrow> 8000 | Some s \<Rightarrow> se_discountApprovalThresholdBps s)"
    by code_simp
  from staff_checkout_discount_authority [OF r v this] show ?thesis by blast
qed

end
