(* ===== verification/Ledger.thy ===== *)
theory Ledger
  imports StallPrelude
begin

text \<open>
  The interface of an append-only ledger: \<open>post\<close> either refuses an entry or appends exactly
  it, and an entry with a reference is refused when the reference was used before. The cash
  movements of a shift and the stock movements of the supply module are its
  interpretations.
\<close>

lemma in_map_filter: "y \<in> set (List.map_filter f xs) \<longleftrightarrow> (\<exists>x \<in> set xs. f x = Some y)"
  by (force simp: List.map_filter_def)

locale ledger =
  fixes entries :: "'s \<Rightarrow> 'e list"
    and post :: "'e \<Rightarrow> 's \<Rightarrow> 'err + 's"
    and reference :: "'e \<Rightarrow> 'r option"
  assumes post_appends: "post e s = Inr s' \<Longrightarrow> entries s' = entries s @ [e]"
    and post_fresh: "post e s = Inr s' \<Longrightarrow> reference e = Some r \<Longrightarrow>
          r \<notin> set (List.map_filter reference (entries s))"
begin

definition references :: "'s \<Rightarrow> 'r list" where
  "references s = List.map_filter reference (entries s)"

lemma post_references:
  "post e s = Inr s' \<Longrightarrow>
     references s' = references s @ (case reference e of None \<Rightarrow> [] | Some r \<Rightarrow> [r])"
  by (simp add: references_def post_appends List.map_filter_def split: option.split)

lemma post_keeps_unique: "distinct (references s) \<Longrightarrow> post e s = Inr s' \<Longrightarrow> distinct (references s')"
  using post_fresh [of e s s'] by (simp only: post_references) (auto simp: references_def split: option.split)

lemma post_total:
  "post e s = Inr s' \<Longrightarrow>
     sum_of f (filter p (entries s')) = sum_of f (filter p (entries s)) + (if p e then f e else 0)"
  by (simp add: post_appends)

lemma post_other: "post e s = Inr s' \<Longrightarrow> \<not> p e \<Longrightarrow> filter p (entries s') = filter p (entries s)"
  by (simp add: post_appends)

end

end
