(* ===== verification/CashShift.thy ===== *)
theory CashShift
  imports StallData Ledger Checkout JsText
begin

text \<open>
  Cash shifts: \<open>src/src/lib/cash-shifts.ts\<close> with the constraints and triggers of
  \<open>src/supabase/migrations/20260720154957_cash_shift_reconciliation_core.sql\<close> (and the later
  version of the payment trigger, 20260828110000) that its writes run into. A command is
  one serializable transaction, so an error leaves the database as it was. The identifiers
  of new rows and the instant are arguments.
\<close>

datatype CashShiftCommand =
  OPEN int "string option"
| MOVE uid CashMovementType int string "string option"
| CLOSE uid int "string option"
| REFUND uid uid string "string option"
| REVIEW uid CashShiftReviewDecision "string option"
| ADJUST uid int string

datatype cash_database_error =
  CASH_SHIFT_NOT_FOUND | CASH_MOVEMENT_SCOPE_MISMATCH | CASH_MOVEMENT_NOT_ALLOWED_FOR_OPEN_SHIFT
| ONLY_CORRECTION_ALLOWED_DURING_REVIEW | CASH_SHIFT_LEDGER_LOCKED | CLOSED_CASH_SHIFT_IMMUTABLE
| AMOUNT_CHECK | REFERENCE_CHECK | UNIQUE_VIOLATION | CASH_SHIFT_REVIEW_SCOPE_MISMATCH
| COMMENT_REQUIRED | ACTIVE_CASH_SHIFT_REQUIRED | NON_CASH_PAYMENT_CANNOT_HAVE_CASH_SHIFT

datatype CashShiftOperationError =
  SHIFT_NOT_FOUND | SHIFT_NOT_OPEN | SHIFT_NOT_REVIEWABLE | PAYMENT_NOT_FOUND
| PAYMENT_NOT_REFUNDABLE | ACTIVE_SHIFT_REQUIRED | DATABASE cash_database_error

text \<open>\<open>cashShiftCommandSchema\<close>: the bounds of the amounts, and the trimmed texts.\<close>

definition valid_code :: "string option \<Rightarrow> bool" where
  "valid_code c =
     (case c of None \<Rightarrow> True
      | Some t \<Rightarrow> let u = js_trim t in 6 \<le> length u \<and> length u \<le> 8 \<and> list_all is_digit u)"

fun parseCashShiftCommand :: "CashShiftCommand \<Rightarrow> CashShiftCommand option" where
  "parseCashShiftCommand (OPEN openingAmount note) =
     (if 0 \<le> openingAmount \<and> openingAmount \<le> 100000000
      then map_option (OPEN openingAmount) (parse_optional_text 1 500 note) else None)"
| "parseCashShiftCommand (MOVE shiftId type amount reason code) =
     (if (type = CASH_IN \<or> type = CASH_OUT) \<and> 1 \<le> amount \<and> amount \<le> 100000000 \<and> valid_code code
      then map_option (\<lambda>r. MOVE shiftId type amount r (map_option js_trim code)) (parse_text 1 200 reason)
      else None)"
| "parseCashShiftCommand (CLOSE shiftId countedAmount note) =
     (if 0 \<le> countedAmount \<and> countedAmount \<le> 100000000
      then map_option (CLOSE shiftId countedAmount) (parse_optional_text 1 500 note) else None)"
| "parseCashShiftCommand (REFUND shiftId paymentId reason code) =
     (if valid_code code
      then map_option (\<lambda>r. REFUND shiftId paymentId r (map_option js_trim code)) (parse_text 1 200 reason)
      else None)"
| "parseCashShiftCommand (REVIEW shiftId decision comment) =
     (case parse_optional_text 1 500 comment of
        None \<Rightarrow> None
      | Some c \<Rightarrow>
          if decision \<noteq> CashShiftReviewDecision.APPROVED \<and> \<not> truthy c then None
          else Some (REVIEW shiftId decision c))"
| "parseCashShiftCommand (ADJUST shiftId amount reason) =
     (if - 100000000 \<le> amount \<and> amount \<le> 100000000 \<and> amount \<noteq> 0
      then map_option (ADJUST shiftId amount) (parse_text 1 200 reason) else None)"

section \<open>The ledger of cash movements\<close>

definition find_shift :: "uid \<Rightarrow> db \<Rightarrow> cash_shift_row option" where
  "find_shift shiftId d = List.find (\<lambda>s. cs_id s = shiftId) (cash_shifts d)"

text \<open>The partial unique index: a movement with a reference, by its kind.\<close>

definition movement_reference ::
  "cash_movement_row \<Rightarrow> (string option \<times> uid \<times> CashMovementType) option" where
  "movement_reference m =
     map_option (\<lambda>r. (cm_referenceType m, r, cm_type m)) (cm_referenceId m)"

definition movement_amount_check :: "cash_movement_row \<Rightarrow> bool" where
  "movement_amount_check m \<longleftrightarrow>
     - 100000000 \<le> cm_amount m \<and> cm_amount m \<le> 100000000 \<and> cm_amount m \<noteq> 0
     \<and> (cm_type m = CORRECTION \<or> 0 < cm_amount m)"

definition movement_reference_check :: "cash_movement_row \<Rightarrow> bool" where
  "movement_reference_check m \<longleftrightarrow>
     (cm_type m \<in> {OPENING_FLOAT, CASH_SALE, CASH_REFUND}
        \<and> cm_referenceType m \<noteq> None \<and> cm_referenceId m \<noteq> None)
     \<or> (cm_type m \<in> {CASH_IN, CASH_OUT, CORRECTION}
        \<and> (cm_referenceType m = None \<longleftrightarrow> cm_referenceId m = None))"

definition enforce_cash_movement_ledger :: "cash_movement_row \<Rightarrow> db \<Rightarrow> cash_database_error option" where
  "enforce_cash_movement_ledger m d =
     (case find_shift (cm_cashShiftId m) d of
        None \<Rightarrow> Some CASH_SHIFT_NOT_FOUND
      | Some v_shift \<Rightarrow>
          if cm_organizationId m \<noteq> cs_organizationId v_shift \<or> cm_stallId m \<noteq> cs_stallId v_shift
            then Some CASH_MOVEMENT_SCOPE_MISMATCH
          else if cs_status v_shift = CashShiftStatus.OPEN then
            (if cm_type m \<notin> {OPENING_FLOAT, CASH_SALE, CASH_REFUND, CASH_IN, CASH_OUT}
             then Some CASH_MOVEMENT_NOT_ALLOWED_FOR_OPEN_SHIFT else None)
          else if cs_status v_shift = REVIEW_REQUIRED then
            (if cm_type m \<noteq> CORRECTION then Some ONLY_CORRECTION_ALLOWED_DURING_REVIEW else None)
          else Some CASH_SHIFT_LEDGER_LOCKED)"

definition insert_cash_movement :: "cash_movement_row \<Rightarrow> db \<Rightarrow> cash_database_error + db" where
  "insert_cash_movement m d =
     (case enforce_cash_movement_ledger m d of
        Some e \<Rightarrow> Inl e
      | None \<Rightarrow>
          if \<not> movement_amount_check m then Inl AMOUNT_CHECK
          else if \<not> movement_reference_check m then Inl REFERENCE_CHECK
          else if cm_id m \<in> set (map cm_id (cash_movements d))
              \<or> (case movement_reference m of
                   None \<Rightarrow> False
                 | Some r \<Rightarrow> r \<in> set (List.map_filter movement_reference (cash_movements d)))
            then Inl UNIQUE_VIOLATION
          else Inr (d\<lparr>cash_movements := cash_movements d @ [m]\<rparr>))"

text \<open>Updates of shifts, guarded by the trigger on closed rows.\<close>

definition update_shift ::
  "uid \<Rightarrow> (cash_shift_row \<Rightarrow> cash_shift_row) \<Rightarrow> db \<Rightarrow> cash_database_error + db" where
  "update_shift shiftId f d =
     (if \<exists>s \<in> set (cash_shifts d). cs_id s = shiftId \<and> cs_status s = CashShiftStatus.CLOSED
      then Inl CLOSED_CASH_SHIFT_IMMUTABLE
      else Inr (d\<lparr>cash_shifts := update_where (\<lambda>s. cs_id s = shiftId) f (cash_shifts d)\<rparr>))"

definition database :: "cash_database_error + 'a \<Rightarrow> CashShiftOperationError + 'a" where
  "database r = (case r of Inl e \<Rightarrow> Inl (DATABASE e) | Inr a \<Rightarrow> Inr a)"

section \<open>Totals\<close>

record cash_totals =
  ct_cashSales :: int
  ct_cashIn :: int
  ct_cashOut :: int
  ct_cashRefund :: int
  ct_correction :: int
  ct_expectedAmount :: int

definition movement_sum :: "db \<Rightarrow> uid \<Rightarrow> CashMovementType \<Rightarrow> int" where
  "movement_sum d shiftId type =
     sum_of cm_amount (filter (\<lambda>m. cm_cashShiftId m = shiftId \<and> cm_type m = type) (cash_movements d))"

definition getCashShiftRuntimeTotals :: "db \<Rightarrow> cash_shift_row \<Rightarrow> cash_totals" where
  "getCashShiftRuntimeTotals d shift =
     (let amountFor = movement_sum d (cs_id shift);
          cashSales = amountFor CASH_SALE; cashIn = amountFor CASH_IN; cashOut = amountFor CASH_OUT;
          cashRefund = amountFor CASH_REFUND; correction = amountFor CORRECTION
      in \<lparr>ct_cashSales = cashSales, ct_cashIn = cashIn, ct_cashOut = cashOut,
          ct_cashRefund = cashRefund, ct_correction = correction,
          ct_expectedAmount = calculateCashExpected
            \<lparr>ce_openingAmount = cs_openingAmount shift, ce_cashSales = cashSales, ce_cashIn = cashIn,
             ce_cashOut = cashOut, ce_cashRefund = Some cashRefund, ce_correction = Some correction\<rparr>\<rparr>)"

definition requireOpenCashShift :: "db \<Rightarrow> uid \<Rightarrow> uid \<Rightarrow> CashShiftOperationError + uid" where
  "requireOpenCashShift d organizationId stallId =
     (case rev (sort_key cs_openedAt
              (filter (\<lambda>s. cs_organizationId s = organizationId \<and> cs_stallId s = stallId
                         \<and> cs_status s = CashShiftStatus.OPEN) (cash_shifts d))) of
        [] \<Rightarrow> Inl ACTIVE_SHIFT_REQUIRED
      | s # _ \<Rightarrow> Inr (cs_id s))"

section \<open>Commands\<close>

datatype cash_meta = MetaInt int | MetaText string | MetaBool bool | MetaDecision CashShiftReviewDecision
| MetaMove CashMovementType

record cash_result =
  rs_entityId :: uid
  rs_shiftId :: uid
  rs_action :: string
  rs_entityType :: string
  rs_metadata :: "(string \<times> cash_meta) list"

fun operation_name :: "CashShiftCommand \<Rightarrow> string" where
  "operation_name (OPEN _ _) = ''OPEN''"
| "operation_name (MOVE _ _ _ _ _) = ''MOVE''"
| "operation_name (CLOSE _ _ _) = ''CLOSE''"
| "operation_name (REFUND _ _ _ _) = ''REFUND''"
| "operation_name (REVIEW _ _ _) = ''REVIEW''"
| "operation_name (ADJUST _ _ _) = ''ADJUST''"

fun command_metadata :: "CashShiftCommand \<Rightarrow> (string \<times> cash_meta) list" where
  "command_metadata (MOVE _ type amount reason _) =
     [(''type'', MetaMove type), (''amount'', MetaInt amount), (''reason'', MetaText reason)]"
| "command_metadata (REFUND _ _ reason _) = [(''reason'', MetaText reason)]"
| "command_metadata (ADJUST _ _ reason) = [(''reason'', MetaText reason)]"
| "command_metadata _ = []"

definition resultFor ::
  "CashShiftCommand \<Rightarrow> uid \<Rightarrow> uid \<Rightarrow> (string \<times> cash_meta) list \<Rightarrow> cash_result" where
  "resultFor command entityId shiftId metadata =
     \<lparr>rs_entityId = entityId, rs_shiftId = shiftId,
      rs_action = ''CASH_SHIFT_'' @ operation_name command,
      rs_entityType =
        (case command of
           MOVE _ _ _ _ _ \<Rightarrow> ''CASH_MOVEMENT'' | REFUND _ _ _ _ \<Rightarrow> ''CASH_MOVEMENT''
         | ADJUST _ _ _ \<Rightarrow> ''CASH_MOVEMENT'' | REVIEW _ _ _ \<Rightarrow> ''CASH_SHIFT_REVIEW''
         | _ \<Rightarrow> ''CASH_SHIFT''),
      rs_metadata = (''operation'', MetaText (operation_name command))
                    # command_metadata command @ metadata\<rparr>"

record cash_input =
  ci_organizationId :: uid
  ci_stallId :: uid
  ci_actorProfileId :: uid
  ci_reconciliationEnabled :: bool
  ci_command :: CashShiftCommand
  ci_newId :: uid
  ci_floatId :: uid
  ci_now :: instant

definition new_movement ::
  "cash_input \<Rightarrow> uid \<Rightarrow> uid \<Rightarrow> CashMovementType \<Rightarrow> int \<Rightarrow> string \<Rightarrow> (string \<times> uid) option
     \<Rightarrow> cash_movement_row" where
  "new_movement i newId shiftId type amount reason ref =
     \<lparr>cm_id = newId, cm_organizationId = ci_organizationId i, cm_stallId = ci_stallId i,
      cm_cashShiftId = shiftId, cm_type = type, cm_amount = amount, cm_reason = reason,
      cm_referenceType = map_option fst ref, cm_referenceId = map_option snd ref,
      cm_recordedById = ci_actorProfileId i, cm_createdAt = ci_now i\<rparr>"

text \<open>The reason of an opening float, five characters of Chinese text.\<close>

definition opening_reason :: string where
  "opening_reason =
    [CHR 0xE9, CHR 0x96, CHR 0x8B, CHR 0xE7, CHR 0x8F, CHR 0xAD, CHR 0xE9, CHR 0xA0,
     CHR 0x90, CHR 0xE5, CHR 0x82, CHR 0x99, CHR 0xE9, CHR 0x87, CHR 0x91]"

text \<open>Creating a shift: one open shift per stall, and the bounds of the opening amount.\<close>

definition insert_shift :: "cash_shift_row \<Rightarrow> db \<Rightarrow> cash_database_error + db" where
  "insert_shift s d =
     (if cs_openingAmount s < 0 \<or> cs_openingAmount s > 100000000 then Inl AMOUNT_CHECK
      else if cs_id s \<in> set (map cs_id (cash_shifts d))
        \<or> (\<exists>t \<in> set (cash_shifts d). cs_stallId t = cs_stallId s
              \<and> cs_status t = CashShiftStatus.OPEN \<and> cs_status s = CashShiftStatus.OPEN)
        then Inl UNIQUE_VIOLATION
      else Inr (d\<lparr>cash_shifts := cash_shifts d @ [s]\<rparr>))"

definition opened_shift :: "cash_input \<Rightarrow> int \<Rightarrow> string option \<Rightarrow> cash_shift_row" where
  "opened_shift i openingAmount note =
     \<lparr>cs_id = ci_newId i, cs_organizationId = ci_organizationId i, cs_stallId = ci_stallId i,
      cs_status = CashShiftStatus.OPEN, cs_openingAmount = openingAmount,
      cs_systemExpectedAmount = None, cs_countedAmount = None, cs_varianceAmount = None,
      cs_note = note, cs_openedById = ci_actorProfileId i, cs_closedById = None,
      cs_openedAt = ci_now i, cs_closedAt = None\<rparr>"

definition openCashShift ::
  "cash_input \<Rightarrow> int \<Rightarrow> string option \<Rightarrow> db \<Rightarrow> CashShiftOperationError + (db \<times> cash_result)" where
  "openCashShift i openingAmount note d =
     (let result = resultFor (ci_command i) (ci_newId i) (ci_newId i) []
      in andThen (database (insert_shift (opened_shift i openingAmount note) d)) (\<lambda>d1.
           if openingAmount > 0
           then andThen (database (insert_cash_movement
                  (new_movement i (ci_floatId i) (ci_newId i) OPENING_FLOAT openingAmount opening_reason
                     (Some (''CASH_SHIFT'', ci_newId i))) d1))
                  (\<lambda>d2. Inr (d2, result))
           else Inr (d1, result)))"

definition lockCashShift :: "cash_input \<Rightarrow> uid \<Rightarrow> db \<Rightarrow> CashShiftOperationError + cash_shift_row" where
  "lockCashShift i shiftId d =
     (case List.find (\<lambda>s. cs_id s = shiftId \<and> cs_organizationId s = ci_organizationId i
                        \<and> cs_stallId s = ci_stallId i) (cash_shifts d) of
        None \<Rightarrow> Inl SHIFT_NOT_FOUND | Some s \<Rightarrow> Inr s)"

definition assertShiftStatus :: "cash_shift_row \<Rightarrow> CashShiftOperationError + unit" where
  "assertShiftStatus shift =
     (if cs_status shift \<noteq> CashShiftStatus.OPEN then Inl SHIFT_NOT_OPEN else Inr ())"

definition moveCash ::
  "cash_input \<Rightarrow> cash_shift_row \<Rightarrow> CashMovementType \<Rightarrow> int \<Rightarrow> string \<Rightarrow> db
     \<Rightarrow> CashShiftOperationError + (db \<times> cash_result)" where
  "moveCash i shift type amount reason d =
     andThen (assertShiftStatus shift) (\<lambda>_.
       andThen (database (insert_cash_movement
           (new_movement i (ci_newId i) (cs_id shift) type amount reason None) d))
         (\<lambda>d1. Inr (d1, resultFor (ci_command i) (ci_newId i) (cs_id shift) [])))"

text \<open>The payment and its order, both marked refunded.\<close>

definition refund_target :: "payment_row \<Rightarrow> payment_row \<Rightarrow> bool" where
  "refund_target payment p \<longleftrightarrow> p_id p = p_id payment \<and> p_status p = PaymentStatus.PAID"

definition mark_refunded :: "cash_input \<Rightarrow> payment_row \<Rightarrow> db \<Rightarrow> db" where
  "mark_refunded i payment d =
     d\<lparr>payments := update_where (refund_target payment) (\<lambda>p. p\<lparr>p_status := PaymentStatus.REFUNDED\<rparr>)
                    (payments d),
       orders := update_where
                   (\<lambda>o'. o_id o' = p_orderId payment \<and> o_stallId o' = ci_stallId i
                         \<and> o_paymentStatus o' = PaymentStatus.PAID)
                   (\<lambda>o'. o'\<lparr>o_paymentStatus := PaymentStatus.REFUNDED\<rparr>) (orders d)\<rparr>"

definition refundCashPayment ::
  "cash_input \<Rightarrow> cash_shift_row \<Rightarrow> uid \<Rightarrow> string \<Rightarrow> db
     \<Rightarrow> CashShiftOperationError + (db \<times> cash_result)" where
  "refundCashPayment i shift paymentId reason d =
     andThen (assertShiftStatus shift) (\<lambda>_.
       case List.find (\<lambda>p. p_id p = paymentId \<and> p_organizationId p = ci_organizationId i
                         \<and> p_stallId p = ci_stallId i \<and> p_method p = PaymentMethod.CASH) (payments d) of
         None \<Rightarrow> Inl PAYMENT_NOT_FOUND
       | Some payment \<Rightarrow>
           if p_status payment \<noteq> PaymentStatus.PAID \<or> p_amount payment \<le> 0 then Inl PAYMENT_NOT_REFUNDABLE
           else if count_where (refund_target payment) (payments d) \<noteq> 1 then Inl PAYMENT_NOT_REFUNDABLE
           else andThen (database (insert_cash_movement
                      (new_movement i (ci_newId i) (cs_id shift) CASH_REFUND (p_amount payment) reason
                         (Some (''PAYMENT'', p_id payment))) (mark_refunded i payment d)))
                    (\<lambda>d2. Inr (d2, resultFor (ci_command i) (ci_newId i) (cs_id shift)
                       [(''paymentId'', MetaText (p_id payment)), (''amount'', MetaInt (p_amount payment))])))"

definition open_row :: "cash_shift_row \<Rightarrow> cash_shift_row \<Rightarrow> bool" where
  "open_row shift s \<longleftrightarrow> cs_id s = cs_id shift \<and> cs_status s = CashShiftStatus.OPEN"

definition counted_row ::
  "cash_input \<Rightarrow> cash_shift_row \<Rightarrow> int \<Rightarrow> int \<Rightarrow> string option \<Rightarrow> cash_shift_row \<Rightarrow> cash_shift_row" where
  "counted_row i shift expectedAmount countedAmount note s =
     s\<lparr>cs_status := (if ci_reconciliationEnabled i then CLOSING else CLOSED),
       cs_systemExpectedAmount := Some expectedAmount,
       cs_countedAmount := Some countedAmount,
       cs_varianceAmount := Some (countedAmount - expectedAmount),
       cs_note := (case note of None \<Rightarrow> cs_note shift | Some n \<Rightarrow> Some n),
       cs_closedById := Some (ci_actorProfileId i), cs_closedAt := Some (ci_now i)\<rparr>"

definition closeCashShift ::
  "cash_input \<Rightarrow> cash_shift_row \<Rightarrow> int \<Rightarrow> string option \<Rightarrow> db
     \<Rightarrow> CashShiftOperationError + (db \<times> cash_result)" where
  "closeCashShift i shift countedAmount note d =
     andThen (assertShiftStatus shift) (\<lambda>_.
       let expected = ct_expectedAmount (getCashShiftRuntimeTotals d shift)
       in if count_where (open_row shift) (cash_shifts d) \<noteq> 1 then Inl SHIFT_NOT_OPEN
          else if countedAmount < 0 \<or> countedAmount > 100000000 then Inl (DATABASE AMOUNT_CHECK)
          else Inr (d\<lparr>cash_shifts := update_where (open_row shift)
                       (counted_row i shift expected countedAmount note) (cash_shifts d)\<rparr>,
             resultFor (ci_command i) (cs_id shift) (cs_id shift)
               [(''expectedAmount'', MetaInt expected),
                (''actualAmount'', MetaInt countedAmount),
                (''differenceAmount'', MetaInt (countedAmount - expected)),
                (''reviewRequired'', MetaBool (ci_reconciliationEnabled i))]))"

definition corrected :: "cash_shift_row \<Rightarrow> int \<Rightarrow> cash_shift_row \<Rightarrow> cash_shift_row" where
  "corrected shift expectedAmount s =
     s\<lparr>cs_status := CLOSING, cs_systemExpectedAmount := Some expectedAmount,
       cs_varianceAmount :=
         Some ((case cs_countedAmount shift of None \<Rightarrow> 0 | Some c \<Rightarrow> c) - expectedAmount)\<rparr>"

definition adjustCashShift ::
  "cash_input \<Rightarrow> cash_shift_row \<Rightarrow> int \<Rightarrow> string \<Rightarrow> db
     \<Rightarrow> CashShiftOperationError + (db \<times> cash_result)" where
  "adjustCashShift i shift amount reason d =
     (if cs_status shift \<noteq> REVIEW_REQUIRED then Inl SHIFT_NOT_REVIEWABLE
      else andThen (database (insert_cash_movement
             (new_movement i (ci_newId i) (cs_id shift) CORRECTION amount reason None) d)) (\<lambda>d1.
        let expected = ct_expectedAmount (getCashShiftRuntimeTotals d1 shift)
        in andThen (database (update_shift (cs_id shift) (corrected shift expected) d1)) (\<lambda>d2.
             Inr (d2, resultFor (ci_command i) (ci_newId i) (cs_id shift)
               [(''amount'', MetaInt amount),
                (''differenceAmount'',
                 MetaInt ((case cs_countedAmount shift of None \<Rightarrow> 0 | Some c \<Rightarrow> c) - expected))]))))"

definition insert_cash_shift_review :: "cash_shift_review_row \<Rightarrow> db \<Rightarrow> cash_database_error + db" where
  "insert_cash_shift_review r d =
     (case find_shift (cr_cashShiftId r) d of
        None \<Rightarrow> Inl CASH_SHIFT_NOT_FOUND
      | Some v_shift \<Rightarrow>
          if cr_organizationId r \<noteq> cs_organizationId v_shift \<or> cr_stallId r \<noteq> cs_stallId v_shift
            then Inl CASH_SHIFT_REVIEW_SCOPE_MISMATCH
          else if cr_decision r \<noteq> CashShiftReviewDecision.APPROVED \<and> cr_comment r = None
            then Inl COMMENT_REQUIRED
          else Inr (d\<lparr>cash_shift_reviews := cash_shift_reviews d @ [r]\<rparr>))"

definition reviewCashShift ::
  "cash_input \<Rightarrow> cash_shift_row \<Rightarrow> CashShiftReviewDecision \<Rightarrow> string option \<Rightarrow> db
     \<Rightarrow> CashShiftOperationError + (db \<times> cash_result)" where
  "reviewCashShift i shift decision comment d =
     (if \<not> ci_reconciliationEnabled i \<or> cs_status shift \<notin> {CLOSING, REVIEW_REQUIRED}
      then Inl SHIFT_NOT_REVIEWABLE
      else andThen (database (insert_cash_shift_review
             \<lparr>cr_id = ci_newId i, cr_organizationId = ci_organizationId i, cr_stallId = ci_stallId i,
              cr_cashShiftId = cs_id shift, cr_reviewedByProfileId = ci_actorProfileId i,
              cr_decision = decision, cr_comment = comment, cr_reviewedAt = ci_now i\<rparr> d)) (\<lambda>d1.
        andThen (database (update_shift (cs_id shift)
            (\<lambda>s. s\<lparr>cs_status := (if decision = CashShiftReviewDecision.APPROVED then CLOSED
                                else REVIEW_REQUIRED)\<rparr>) d1)) (\<lambda>d2.
          Inr (d2, resultFor (ci_command i) (ci_newId i) (cs_id shift)
                 [(''decision'', MetaDecision decision)]))))"

definition executeCashShiftCommand ::
  "cash_input \<Rightarrow> db \<Rightarrow> CashShiftOperationError + (db \<times> cash_result)" where
  "executeCashShiftCommand i d =
     (case ci_command i of
        OPEN openingAmount note \<Rightarrow> openCashShift i openingAmount note d
      | MOVE shiftId type amount reason _ \<Rightarrow>
          andThen (lockCashShift i shiftId d) (\<lambda>shift. moveCash i shift type amount reason d)
      | REFUND shiftId paymentId reason _ \<Rightarrow>
          andThen (lockCashShift i shiftId d) (\<lambda>shift. refundCashPayment i shift paymentId reason d)
      | CLOSE shiftId countedAmount note \<Rightarrow>
          andThen (lockCashShift i shiftId d) (\<lambda>shift. closeCashShift i shift countedAmount note d)
      | ADJUST shiftId amount reason \<Rightarrow>
          andThen (lockCashShift i shiftId d) (\<lambda>shift. adjustCashShift i shift amount reason d)
      | REVIEW shiftId decision comment \<Rightarrow>
          andThen (lockCashShift i shiftId d) (\<lambda>shift. reviewCashShift i shift decision comment d))"

section \<open>Payments and their cash sale\<close>

text \<open>\<open>enforce_payment_cash_shift\<close> on insertion, then \<open>record_cash_sale_movement\<close>.\<close>

definition enforce_payment_cash_shift :: "payment_row \<Rightarrow> db \<Rightarrow> cash_database_error option" where
  "enforce_payment_cash_shift p d =
     (if p_method p \<noteq> PaymentMethod.CASH
      then (if p_cashShiftId p \<noteq> None then Some NON_CASH_PAYMENT_CANNOT_HAVE_CASH_SHIFT else None)
      else if p_status p = PaymentStatus.PAID then
        (case p_cashShiftId p of
           None \<Rightarrow> Some ACTIVE_CASH_SHIFT_REQUIRED
         | Some sid \<Rightarrow>
             (case find_shift sid d of
                None \<Rightarrow> Some ACTIVE_CASH_SHIFT_REQUIRED
              | Some v_shift \<Rightarrow>
                  if cs_organizationId v_shift \<noteq> p_organizationId p \<or> cs_stallId v_shift \<noteq> p_stallId p
                     \<or> cs_status v_shift \<noteq> CashShiftStatus.OPEN
                  then Some ACTIVE_CASH_SHIFT_REQUIRED else None))
      else None)"

text \<open>The reason of a cash sale, six characters of Chinese text.\<close>

definition sale_reason :: string where
  "sale_reason =
    [CHR 0xE7, CHR 0x8F, CHR 0xBE, CHR 0xE9, CHR 0x87, CHR 0x91, CHR 0xE8, CHR 0xA8,
     CHR 0x82, CHR 0xE5, CHR 0x96, CHR 0xAE, CHR 0xE6, CHR 0x94, CHR 0xB6, CHR 0xE6,
     CHR 0xAC, CHR 0xBE]"

definition cash_sale_movement :: "uid \<Rightarrow> payment_row \<Rightarrow> uid \<Rightarrow> db \<Rightarrow> cash_movement_row" where
  "cash_sale_movement newId p shiftId d =
     \<lparr>cm_id = newId, cm_organizationId = p_organizationId p, cm_stallId = p_stallId p,
      cm_cashShiftId = shiftId, cm_type = CASH_SALE, cm_amount = p_amount p,
      cm_reason = sale_reason, cm_referenceType = Some ''PAYMENT'', cm_referenceId = Some (p_id p),
      cm_recordedById =
        (case p_recordedById p of
           Some r \<Rightarrow> r
         | None \<Rightarrow> (case find_shift shiftId d of None \<Rightarrow> [] | Some s \<Rightarrow> cs_openedById s)),
      cm_createdAt = p_paidAt p\<rparr>"

text \<open>\<open>on conflict do nothing\<close>: the trigger and the checks of the movement still run.\<close>

definition record_cash_sale_movement :: "uid \<Rightarrow> payment_row \<Rightarrow> db \<Rightarrow> cash_database_error + db" where
  "record_cash_sale_movement newId p d =
     (case p_cashShiftId p of
        None \<Rightarrow> Inr d
      | Some shiftId \<Rightarrow>
          if p_method p \<noteq> PaymentMethod.CASH \<or> p_status p \<noteq> PaymentStatus.PAID then Inr d
          else
            let m = cash_sale_movement newId p shiftId d in
            if (Some ''PAYMENT'', p_id p, CASH_SALE)
                 \<in> set (List.map_filter movement_reference (cash_movements d))
               \<and> enforce_cash_movement_ledger m d = None \<and> movement_amount_check m
            then Inr d
            else insert_cash_movement m d)"

definition insert_payment :: "uid \<Rightarrow> payment_row \<Rightarrow> db \<Rightarrow> cash_database_error + db" where
  "insert_payment movementId p d =
     (case enforce_payment_cash_shift p d of
        Some e \<Rightarrow> Inl e
      | None \<Rightarrow>
          if p_id p \<in> set (map p_id (payments d)) \<or> p_orderId p \<in> set (map p_orderId (payments d))
          then Inl UNIQUE_VIOLATION
          else record_cash_sale_movement movementId p (d\<lparr>payments := payments d @ [p]\<rparr>))"

section \<open>The movements as a ledger\<close>

lemma insert_cash_movement_InrD:
  assumes "insert_cash_movement m d = Inr d'"
  shows "d' = d\<lparr>cash_movements := cash_movements d @ [m]\<rparr>"
    "enforce_cash_movement_ledger m d = None" "movement_amount_check m"
    "\<And>r. movement_reference m = Some r \<Longrightarrow> r \<notin> set (List.map_filter movement_reference (cash_movements d))"
  using assms by (auto simp: insert_cash_movement_def split: option.splits if_splits)

interpretation cash_ledger: ledger cash_movements insert_cash_movement movement_reference
proof unfold_locales
  fix m d d'
  assume "insert_cash_movement m d = Inr d'"
  note I = insert_cash_movement_InrD [OF this]
  from I(1) show "cash_movements d' = cash_movements d @ [m]" by simp
  fix r
  assume "movement_reference m = Some r"
  then show "r \<notin> set (List.map_filter movement_reference (cash_movements d))" by (rule I(4))
qed

lemma enforce_ledger_shift:
  assumes "enforce_cash_movement_ledger m d = None"
  obtains s where "find_shift (cm_cashShiftId m) d = Some s"
    "cs_status s = CashShiftStatus.OPEN \<and> cm_type m \<noteq> CORRECTION
     \<or> cs_status s = REVIEW_REQUIRED \<and> cm_type m = CORRECTION"
  using assms by (auto simp: enforce_cash_movement_ledger_def split: option.splits if_splits)

section \<open>The invariant of the cash tables\<close>

definition reconciled :: "db \<Rightarrow> cash_shift_row \<Rightarrow> bool" where
  "reconciled d s \<longleftrightarrow>
     (if cs_status s = CashShiftStatus.OPEN
      then cs_systemExpectedAmount s = None \<and> cs_countedAmount s = None \<and> cs_varianceAmount s = None
      else \<exists>c. cs_countedAmount s = Some c
         \<and> cs_systemExpectedAmount s = Some (ct_expectedAmount (getCashShiftRuntimeTotals d s))
         \<and> cs_varianceAmount s = Some (c - ct_expectedAmount (getCashShiftRuntimeTotals d s)))"

definition cash_ok :: "db \<Rightarrow> bool" where
  "cash_ok d \<longleftrightarrow>
     distinct (map cs_id (cash_shifts d))
     \<and> (\<forall>stall. count_where (\<lambda>s. cs_stallId s = stall \<and> cs_status s = CashShiftStatus.OPEN)
                  (cash_shifts d) \<le> 1)
     \<and> distinct (cash_ledger.references d)
     \<and> (\<forall>s \<in> set (cash_shifts d). reconciled d s)"

lemma find_shift_in:
  "distinct (map cs_id (cash_shifts d)) \<Longrightarrow> s \<in> set (cash_shifts d) \<Longrightarrow> find_shift (cs_id s) d = Some s"
proof (unfold find_shift_def, induction "cash_shifts d" arbitrary: d)
  case (Cons t ts)
  from Cons(1) [of "d\<lparr>cash_shifts := ts\<rparr>"] Cons(2-) show ?case
    by (simp flip: Cons(2)) (use Cons(2-) in \<open>auto simp flip: Cons(2)\<close>)
qed simp

lemma totals_expected:
  "ct_expectedAmount (getCashShiftRuntimeTotals d s) =
     cs_openingAmount s + movement_sum d (cs_id s) CASH_SALE + movement_sum d (cs_id s) CASH_IN
     - movement_sum d (cs_id s) CASH_OUT - movement_sum d (cs_id s) CASH_REFUND
     + movement_sum d (cs_id s) CORRECTION"
  by (simp add: getCashShiftRuntimeTotals_def calculateCashExpected_def Let_def)

lemma movement_sum_cong:
  "cash_movements d' = cash_movements d \<Longrightarrow> movement_sum d' = movement_sum d"
  by (auto simp: movement_sum_def fun_eq_iff)

lemma movement_sum_insert:
  assumes "insert_cash_movement m d = Inr d'"
  shows "movement_sum d' i ty =
     movement_sum d i ty + (if cm_cashShiftId m = i \<and> cm_type m = ty then cm_amount m else 0)"
  using cash_ledger.post_total [OF assms] by (simp add: movement_sum_def)

lemma reconciled_cong:
  "movement_sum d' (cs_id s) = movement_sum d (cs_id s) \<Longrightarrow> reconciled d' s = reconciled d s"
  by (simp add: reconciled_def totals_expected)

lemma cash_ok_insert_movement:
  assumes ok: "cash_ok d" and ins: "insert_cash_movement m d = Inr d'" and ty: "cm_type m \<noteq> CORRECTION"
  shows "cash_ok d'"
proof -
  note I = insert_cash_movement_InrD [OF ins]
  obtain t where t: "find_shift (cm_cashShiftId m) d = Some t" "cs_status t = CashShiftStatus.OPEN"
    using enforce_ledger_shift [OF I(2)] ty by metis
  have shifts: "cash_shifts d' = cash_shifts d" by (simp add: I(1))
  have rec: "reconciled d' s" if s: "s \<in> set (cash_shifts d)" for s
  proof (cases "cm_cashShiftId m = cs_id s")
    case True
    with t find_shift_in [of d s] ok s have "t = s" by (simp add: cash_ok_def)
    with ok s t(2) show ?thesis by (auto simp: cash_ok_def reconciled_def)
  next
    case False
    then have "movement_sum d' (cs_id s) = movement_sum d (cs_id s)"
      by (simp add: movement_sum_insert [OF ins] fun_eq_iff)
    then have "reconciled d' s = reconciled d s" by (rule reconciled_cong)
    with ok s show ?thesis by (simp add: cash_ok_def)
  qed
  have "distinct (cash_ledger.references d')"
    using cash_ledger.post_keeps_unique [OF _ ins] ok by (simp add: cash_ok_def)
  with rec ok show ?thesis unfolding cash_ok_def shifts by blast
qed

lemma references_cong:
  "cash_movements d' = cash_movements d \<Longrightarrow> cash_ledger.references d' = cash_ledger.references d"
  by (simp add: cash_ledger.references_def)

text \<open>An update of one shift that does not reopen it and leaves it reconciled.\<close>

lemma cash_ok_update_shift:
  assumes ids: "distinct (map cs_id (cash_shifts d))"
    and open1: "\<And>stall. count_where (\<lambda>s. cs_stallId s = stall \<and> cs_status s = CashShiftStatus.OPEN)
                  (cash_shifts d) \<le> 1"
    and refs: "distinct (cash_ledger.references d)"
    and others: "\<And>s. s \<in> set (cash_shifts d) \<Longrightarrow> \<not> p s \<Longrightarrow> reconciled d s"
    and f: "\<And>s. s \<in> set (cash_shifts d) \<Longrightarrow> p s \<Longrightarrow>
              cs_id (f s) = cs_id s \<and> cs_stallId (f s) = cs_stallId s
              \<and> cs_status (f s) \<noteq> CashShiftStatus.OPEN \<and> reconciled d (f s)"
    and d': "d' = d\<lparr>cash_shifts := update_where p f (cash_shifts d)\<rparr>"
  shows "cash_ok d'"
proof -
  have sums: "movement_sum d' = movement_sum d" by (rule movement_sum_cong) (simp add: d')
  have shifts: "cash_shifts d' = update_where p f (cash_shifts d)" by (simp add: d')
  have refs': "cash_ledger.references d' = cash_ledger.references d"
    by (rule references_cong) (simp add: d')
  have keys: "map cs_id (update_where p f (cash_shifts d)) = map cs_id (cash_shifts d)"
    using f by (auto simp: update_where_def)
  have mono: "count_where q (update_where p f xs) \<le> count_where q xs"
    if "\<And>s. s \<in> set xs \<Longrightarrow> p s \<Longrightarrow> \<not> q (f s)" for q xs
    using that by (induction xs) auto
  have one: "count_where (\<lambda>s. cs_stallId s = stall \<and> cs_status s = CashShiftStatus.OPEN)
      (update_where p f (cash_shifts d)) \<le> 1" for stall
    by (rule le_trans [OF mono open1 [of stall]]) (use f in simp)
  have rec: "reconciled d' s" if s: "s \<in> set (update_where p f (cash_shifts d))" for s
  proof -
    from s obtain t where t: "t \<in> set (cash_shifts d)" "s = (if p t then f t else t)"
      by (auto simp: in_update_where)
    then have "reconciled d s" using f [of t] others [of t] by (cases "p t") simp_all
    then show ?thesis using reconciled_cong [of d' s d] sums by simp
  qed
  show ?thesis
    unfolding cash_ok_def shifts refs' keys using ids one refs rec by blast
qed

lemma cash_okD:
  assumes "cash_ok d"
  shows "distinct (map cs_id (cash_shifts d))"
    "count_where (\<lambda>s. cs_stallId s = stall \<and> cs_status s = CashShiftStatus.OPEN) (cash_shifts d) \<le> 1"
    "distinct (cash_ledger.references d)" "s \<in> set (cash_shifts d) \<Longrightarrow> reconciled d s"
  using assms unfolding cash_ok_def by blast+

text \<open>A change of other tables only.\<close>

lemma cash_ok_cong:
  assumes "cash_ok d" and "cash_shifts d' = cash_shifts d" and "cash_movements d' = cash_movements d"
  shows "cash_ok d'"
proof -
  have "reconciled d' s = reconciled d s" for s
    by (rule reconciled_cong) (simp add: movement_sum_cong [OF assms(3)])
  with assms(1,2) references_cong [OF assms(3)] show ?thesis unfolding cash_ok_def by simp
qed

lemma database_Inr [simp]: "database r = Inr a \<longleftrightarrow> r = Inr a"
  by (auto simp: database_def split: sum.split)

lemma insert_shift_InrD:
  assumes "insert_shift s d = Inr d'"
  shows "d' = d\<lparr>cash_shifts := cash_shifts d @ [s]\<rparr>" "cs_id s \<notin> set (map cs_id (cash_shifts d))"
    "\<And>t. t \<in> set (cash_shifts d) \<Longrightarrow> cs_status s = CashShiftStatus.OPEN \<Longrightarrow>
       cs_status t = CashShiftStatus.OPEN \<Longrightarrow> cs_stallId t \<noteq> cs_stallId s"
  using assms by (auto simp: insert_shift_def split: if_splits)

lemma cash_ok_insert_shift:
  assumes ok: "cash_ok d" and ins: "insert_shift s d = Inr d'" and op: "cs_status s = CashShiftStatus.OPEN"
    and none: "cs_systemExpectedAmount s = None" "cs_countedAmount s = None" "cs_varianceAmount s = None"
  shows "cash_ok d'"
proof -
  note I = insert_shift_InrD [OF ins]
  have shifts: "cash_shifts d' = cash_shifts d @ [s]" by (simp add: I(1))
  have refs: "cash_ledger.references d' = cash_ledger.references d"
    by (rule references_cong) (simp add: I(1))
  have rec: "reconciled d' t" if t: "t \<in> set (cash_shifts d @ [s])" for t
  proof (cases "t = s")
    case True
    then show ?thesis using op none by (simp add: reconciled_def)
  next
    case False
    have "reconciled d' t = reconciled d t"
      by (rule reconciled_cong, rule fun_cong [OF movement_sum_cong]) (simp add: I(1))
    with False t cash_okD(4) [OF ok, of t] show ?thesis by simp
  qed
  have one: "count_where (\<lambda>s. cs_stallId s = stall \<and> cs_status s = CashShiftStatus.OPEN)
      (cash_shifts d @ [s]) \<le> 1" for stall
  proof (cases "cs_stallId s = stall")
    case True
    have "count_where (\<lambda>s. cs_stallId s = stall \<and> cs_status s = CashShiftStatus.OPEN) (cash_shifts d) = 0"
      using I(3) op True count_where_pos [of _ "cash_shifts d"] by (metis (mono_tags, lifting) gr0I)
    then show ?thesis by simp
  next
    case False
    then show ?thesis using cash_okD(2) [OF ok, of stall] by simp
  qed
  have "distinct (map cs_id (cash_shifts d @ [s]))" using I(2) cash_okD(1) [OF ok] by simp
  with cash_okD(3) [OF ok] one rec show ?thesis unfolding cash_ok_def shifts refs by blast
qed

lemma cash_ok_open:
  assumes "cash_ok d" and "openCashShift i amount note d = Inr (d', r)"
  shows "cash_ok d'"
proof -
  from assms(2) obtain d1 where s: "insert_shift (opened_shift i amount note) d = Inr d1"
      and d': "d' = d1 \<or> insert_cash_movement (new_movement i (ci_floatId i) (ci_newId i) OPENING_FLOAT
          amount opening_reason (Some (''CASH_SHIFT'', ci_newId i))) d1 = Inr d'"
    by (auto simp: openCashShift_def Let_def andThen_Inr_iff split: if_splits)
  have "cash_ok d1" by (rule cash_ok_insert_shift [OF assms(1) s]) (simp_all add: opened_shift_def)
  with d' show ?thesis by (auto simp: new_movement_def dest: cash_ok_insert_movement)
qed

lemma lockCashShift_InrD:
  "lockCashShift i shiftId d = Inr s \<Longrightarrow> s \<in> set (cash_shifts d) \<and> cs_id s = shiftId
     \<and> cs_organizationId s = ci_organizationId i \<and> cs_stallId s = ci_stallId i"
  by (auto simp: lockCashShift_def split: option.splits dest: find_Some_D)

lemma same_shift:
  "cash_ok d \<Longrightarrow> s \<in> set (cash_shifts d) \<Longrightarrow> t \<in> set (cash_shifts d) \<Longrightarrow> cs_id s = cs_id t \<Longrightarrow> s = t"
  using find_shift_in [OF cash_okD(1)] by (metis option.inject)

lemma cash_ok_move:
  assumes "cash_ok d" and "moveCash i s ty amount reason d = Inr (d', r)" and "ty \<noteq> CORRECTION"
  shows "cash_ok d'"
proof -
  from assms(2) have "insert_cash_movement (new_movement i (ci_newId i) (cs_id s) ty amount reason None) d = Inr d'"
    by (auto simp: moveCash_def andThen_Inr_iff)
  from cash_ok_insert_movement [OF assms(1) this] assms(3) show ?thesis by (simp add: new_movement_def)
qed

lemma refund_InrD:
  assumes "refundCashPayment i s paymentId reason d = Inr (d', r)"
  obtains p where "p \<in> set (payments d)" "p_id p = paymentId" "p_stallId p = ci_stallId i"
    "p_organizationId p = ci_organizationId i" "p_method p = PaymentMethod.CASH"
    "p_status p = PaymentStatus.PAID" "0 < p_amount p"
    "cs_status s = CashShiftStatus.OPEN"
    "insert_cash_movement (new_movement i (ci_newId i) (cs_id s) CASH_REFUND (p_amount p) reason
       (Some (''PAYMENT'', paymentId))) (mark_refunded i p d) = Inr d'"
proof -
  from assms obtain p where p: "List.find (\<lambda>p. p_id p = paymentId \<and> p_organizationId p = ci_organizationId i
        \<and> p_stallId p = ci_stallId i \<and> p_method p = PaymentMethod.CASH) (payments d) = Some p"
    by (auto simp: refundCashPayment_def andThen_Inr_iff split: option.splits)
  note P = find_Some_D [OF p]
  from assms p P have "p_status p = PaymentStatus.PAID" "0 < p_amount p" "cs_status s = CashShiftStatus.OPEN"
    "insert_cash_movement (new_movement i (ci_newId i) (cs_id s) CASH_REFUND (p_amount p) reason
       (Some (''PAYMENT'', paymentId))) (mark_refunded i p d) = Inr d'"
    by (auto simp: refundCashPayment_def andThen_Inr_iff assertShiftStatus_def split: if_splits)
  with P show thesis by (intro that [of p]) auto
qed

lemma cash_ok_refund:
  assumes "cash_ok d" and "refundCashPayment i s paymentId reason d = Inr (d', r)"
  shows "cash_ok d'"
  using assms(2)
proof (rule refund_InrD)
  fix p
  assume ins: "insert_cash_movement (new_movement i (ci_newId i) (cs_id s) CASH_REFUND (p_amount p) reason
       (Some (''PAYMENT'', paymentId))) (mark_refunded i p d) = Inr d'"
  have "cash_ok (mark_refunded i p d)"
    by (rule cash_ok_cong [OF assms(1)]) (simp_all add: mark_refunded_def)
  from cash_ok_insert_movement [OF this ins] show "cash_ok d'" by (simp add: new_movement_def)
qed

lemma cash_ok_close:
  assumes ok: "cash_ok d" and s: "s \<in> set (cash_shifts d)"
    and r: "closeCashShift i s counted note d = Inr (d', r)"
  shows "cash_ok d'"
proof (rule cash_ok_update_shift [OF cash_okD(1,2,3) [OF ok]])
  let ?f = "counted_row i s (ct_expectedAmount (getCashShiftRuntimeTotals d s)) counted note"
  show "d' = d\<lparr>cash_shifts := update_where (open_row s) ?f (cash_shifts d)\<rparr>"
    using r by (auto simp: closeCashShift_def andThen_Inr_iff Let_def split: if_split_asm)
  show "cs_id (?f t) = cs_id t \<and> cs_stallId (?f t) = cs_stallId t
      \<and> cs_status (?f t) \<noteq> CashShiftStatus.OPEN \<and> reconciled d (?f t)"
    if "t \<in> set (cash_shifts d)" "open_row s t" for t
    using that same_shift [OF ok that(1) s] by (simp add: reconciled_def totals_expected counted_row_def open_row_def)
qed (rule cash_okD(4) [OF ok])

lemma update_shift_InrD:
  assumes "update_shift k f d = Inr d'"
  shows "d' = d\<lparr>cash_shifts := update_where (\<lambda>s. cs_id s = k) f (cash_shifts d)\<rparr>"
    "\<And>s. s \<in> set (cash_shifts d) \<Longrightarrow> cs_id s = k \<Longrightarrow> cs_status s \<noteq> CashShiftStatus.CLOSED"
  using assms by (auto simp: update_shift_def split: if_splits)

lemma adjust_InrD:
  "adjustCashShift i s amount reason d = Inr (d', r) \<Longrightarrow>
     cs_status s = REVIEW_REQUIRED \<and>
     (\<exists>d1. insert_cash_movement (new_movement i (ci_newId i) (cs_id s) CORRECTION amount reason None) d = Inr d1
        \<and> update_shift (cs_id s) (corrected s (ct_expectedAmount (getCashShiftRuntimeTotals d1 s))) d1 = Inr d')"
  by (auto simp: adjustCashShift_def andThen_Inr_iff Let_def split: if_splits)

lemma review_InrD:
  "reviewCashShift i s decision comment d = Inr (d', r) \<Longrightarrow>
     cs_status s \<in> {CLOSING, REVIEW_REQUIRED} \<and>
     (\<exists>rv d1. insert_cash_shift_review rv d = Inr d1
        \<and> update_shift (cs_id s) (\<lambda>t. t\<lparr>cs_status :=
              (if decision = CashShiftReviewDecision.APPROVED then CLOSED else REVIEW_REQUIRED)\<rparr>) d1 = Inr d')"
  by (auto simp: reviewCashShift_def andThen_Inr_iff split: if_split_asm)

lemma cash_ok_adjust:
  assumes ok: "cash_ok d" and s: "s \<in> set (cash_shifts d)"
    and r: "adjustCashShift i s amount reason d = Inr (d', r)"
  shows "cash_ok d'"
proof -
  from r obtain d1 where st: "cs_status s = REVIEW_REQUIRED"
      and ins: "insert_cash_movement (new_movement i (ci_newId i) (cs_id s) CORRECTION amount reason None) d = Inr d1"
      and d': "d' = d1\<lparr>cash_shifts := update_where (\<lambda>t. cs_id t = cs_id s)
         (corrected s (ct_expectedAmount (getCashShiftRuntimeTotals d1 s))) (cash_shifts d1)\<rparr>"
    using adjust_InrD [OF r] update_shift_InrD(1) by blast
  from insert_cash_movement_InrD(1) [OF ins] have shifts: "cash_shifts d1 = cash_shifts d" by simp
  from cash_okD(4) [OF ok s] st obtain c where c: "cs_countedAmount s = Some c"
    by (auto simp: reconciled_def)
  show ?thesis
  proof (rule cash_ok_update_shift [OF _ _ _ _ _ d'])
    show "distinct (map cs_id (cash_shifts d1))" using cash_okD(1) [OF ok] shifts by simp
    show "count_where (\<lambda>s. cs_stallId s = stall \<and> cs_status s = CashShiftStatus.OPEN) (cash_shifts d1) \<le> 1"
      for stall using cash_okD(2) [OF ok] shifts by simp
    show "distinct (cash_ledger.references d1)"
      using cash_ledger.post_keeps_unique [OF _ ins] cash_okD(3) [OF ok] by simp
    show "reconciled d1 t" if "t \<in> set (cash_shifts d1)" "cs_id t \<noteq> cs_id s" for t
    proof -
      have "reconciled d1 t = reconciled d t"
        by (rule reconciled_cong) (use that(2) in \<open>simp add: movement_sum_insert [OF ins] new_movement_def fun_eq_iff\<close>)
      with that shifts cash_okD(4) [OF ok] show ?thesis by simp
    qed
  next
    fix t
    assume "t \<in> set (cash_shifts d1)" "cs_id t = cs_id s"
    then have "t = s" using same_shift [OF ok _ s] shifts by simp
    with c show "cs_id (corrected s (ct_expectedAmount (getCashShiftRuntimeTotals d1 s)) t) = cs_id t
      \<and> cs_stallId (corrected s (ct_expectedAmount (getCashShiftRuntimeTotals d1 s)) t) = cs_stallId t
      \<and> cs_status (corrected s (ct_expectedAmount (getCashShiftRuntimeTotals d1 s)) t) \<noteq> CashShiftStatus.OPEN
      \<and> reconciled d1 (corrected s (ct_expectedAmount (getCashShiftRuntimeTotals d1 s)) t)"
      by (simp add: reconciled_def totals_expected corrected_def)
  qed
qed

lemma cash_ok_review:
  assumes ok: "cash_ok d" and s: "s \<in> set (cash_shifts d)"
    and r: "reviewCashShift i s decision comment d = Inr (d', r)"
  shows "cash_ok d'"
proof -
  let ?st = "if decision = CashShiftReviewDecision.APPROVED then CLOSED else REVIEW_REQUIRED"
  from r obtain rv d1 where st: "cs_status s \<in> {CLOSING, REVIEW_REQUIRED}"
      and rv: "insert_cash_shift_review rv d = Inr d1"
      and d': "d' = d1\<lparr>cash_shifts := update_where (\<lambda>t. cs_id t = cs_id s)
         (\<lambda>t. t\<lparr>cs_status := ?st\<rparr>) (cash_shifts d1)\<rparr>"
    using review_InrD [OF r] update_shift_InrD(1) by blast
  from rv have shifts: "cash_shifts d1 = cash_shifts d" and "cash_movements d1 = cash_movements d"
    by (auto simp: insert_cash_shift_review_def split: option.splits if_splits)
  then have ok1: "cash_ok d1" using cash_ok_cong [OF ok] by blast
  have s1: "s \<in> set (cash_shifts d1)" using s shifts by simp
  show ?thesis
  proof (rule cash_ok_update_shift [OF cash_okD(1,2,3) [OF ok1] _ _ d'])
    show "cs_id (t\<lparr>cs_status := ?st\<rparr>) = cs_id t \<and> cs_stallId (t\<lparr>cs_status := ?st\<rparr>) = cs_stallId t
      \<and> cs_status (t\<lparr>cs_status := ?st\<rparr>) \<noteq> CashShiftStatus.OPEN \<and> reconciled d1 (t\<lparr>cs_status := ?st\<rparr>)"
      if "t \<in> set (cash_shifts d1)" "cs_id t = cs_id s" for t
      using same_shift [OF ok1 that(1) s1 that(2)] cash_okD(4) [OF ok1 s1] st
      by (auto simp: reconciled_def totals_expected)
  qed (rule cash_okD(4) [OF ok1])
qed

lemma cash_ok_execute:
  assumes ok: "cash_ok d" and r: "executeCashShiftCommand i d = Inr (d', r)"
    and parsed: "parseCashShiftCommand c = Some (ci_command i)"
  shows "cash_ok d'"
proof (cases "ci_command i")
  case (OPEN amount nt)
  then show ?thesis using cash_ok_open [OF ok] r by (simp add: executeCashShiftCommand_def)
next
  case (MOVE shiftId ty amount reason code)
  have "ty \<noteq> CORRECTION" using parsed MOVE by (cases c) (auto split: if_splits option.splits)
  with MOVE show ?thesis using cash_ok_move [OF ok] r
    by (auto simp: executeCashShiftCommand_def andThen_Inr_iff)
next
  case (CLOSE shiftId counted nt)
  then show ?thesis using r
    by (auto simp: executeCashShiftCommand_def andThen_Inr_iff
        dest!: lockCashShift_InrD intro: cash_ok_close [OF ok])
next
  case (REFUND shiftId paymentId reason code)
  then show ?thesis using r
    by (auto simp: executeCashShiftCommand_def andThen_Inr_iff intro: cash_ok_refund [OF ok])
next
  case (REVIEW shiftId decision comment)
  then show ?thesis using r
    by (auto simp: executeCashShiftCommand_def andThen_Inr_iff
        dest!: lockCashShift_InrD intro: cash_ok_review [OF ok])
next
  case (ADJUST shiftId amount reason)
  then show ?thesis using r
    by (auto simp: executeCashShiftCommand_def andThen_Inr_iff
        dest!: lockCashShift_InrD intro: cash_ok_adjust [OF ok])
qed

lemma insert_payment_InrD:
  assumes "insert_payment newId p d = Inr d'"
  shows "payments d' = payments d @ [p] \<and> cash_shifts d' = cash_shifts d \<and>
     (cash_movements d' = cash_movements d
      \<or> (\<exists>m. cm_type m = CASH_SALE \<and> insert_cash_movement m (d\<lparr>payments := payments d @ [p]\<rparr>) = Inr d'))"
proof -
  from assms have r: "record_cash_sale_movement newId p (d\<lparr>payments := payments d @ [p]\<rparr>) = Inr d'"
    by (auto simp: insert_payment_def split: option.splits if_splits)
  show ?thesis
  proof (cases "\<exists>m. cm_type m = CASH_SALE \<and> insert_cash_movement m (d\<lparr>payments := payments d @ [p]\<rparr>) = Inr d'")
    case True
    then show ?thesis using insert_cash_movement_InrD(1) by fastforce
  next
    case False
    with r have "d' = d\<lparr>payments := payments d @ [p]\<rparr>"
      by (auto simp: record_cash_sale_movement_def Let_def cash_sale_movement_def
          split: option.splits if_splits)
    then show ?thesis by simp
  qed
qed

lemma cash_ok_insert_payment:
  assumes "cash_ok d" and "insert_payment newId p d = Inr d'"
  shows "cash_ok d'"
proof -
  have ok: "cash_ok (d\<lparr>payments := payments d @ [p]\<rparr>)" by (rule cash_ok_cong [OF assms(1)]) simp_all
  from insert_payment_InrD [OF assms(2)] show ?thesis
  proof (elim conjE disjE exE)
    assume "cash_shifts d' = cash_shifts d" "cash_movements d' = cash_movements d"
    then show ?thesis by (rule cash_ok_cong [OF assms(1)])
  next
    fix m
    assume "cm_type m = CASH_SALE" "insert_cash_movement m (d\<lparr>payments := payments d @ [p]\<rparr>) = Inr d'"
    then show ?thesis using cash_ok_insert_movement [OF ok] by simp
  qed
qed

section \<open>Runs\<close>

text \<open>
  The operations that touch the cash tables, in any order: a request carrying a cash shift
  command, as the route parses and executes it, and the payment of an order. A refused
  step leaves the database as it was.
\<close>

datatype cash_event = Command cash_input | Payment uid payment_row

fun cash_step :: "cash_event \<Rightarrow> db \<Rightarrow> db" where
  "cash_step (Command i) d =
     (case parseCashShiftCommand (ci_command i) of
        None \<Rightarrow> d
      | Some c \<Rightarrow>
          (case executeCashShiftCommand (i\<lparr>ci_command := c\<rparr>) d of Inl _ \<Rightarrow> d | Inr (d', _) \<Rightarrow> d'))"
| "cash_step (Payment movementId p) d =
     (case insert_payment movementId p d of Inl _ \<Rightarrow> d | Inr d' \<Rightarrow> d')"

definition cash_run :: "cash_event list \<Rightarrow> db \<Rightarrow> db" where
  "cash_run steps d = fold cash_step steps d"

lemma cash_ok_step: "cash_ok d \<Longrightarrow> cash_ok (cash_step st d)"
proof (cases st)
  case (Command i)
  then show "cash_ok d \<Longrightarrow> ?thesis"
    using cash_ok_execute [of d "i\<lparr>ci_command := c\<rparr>" _ _ "ci_command i" for c]
    by (auto split: option.splits sum.splits)
next
  case (Payment movementId p)
  then show "cash_ok d \<Longrightarrow> ?thesis" using cash_ok_insert_payment by (auto split: sum.splits)
qed

lemma cash_run_induct:
  assumes "P d" and "\<And>st d. P d \<Longrightarrow> P (cash_step st d)"
  shows "P (cash_run steps d)"
  unfolding cash_run_def using assms by (induction steps arbitrary: d) auto

text \<open>C2. From a database whose cash tables are in order, no sequence of shift commands and
  order payments leads out of it: shift identifiers stay unique, each stall has at most one
  open shift, no float, sale or refund is booked twice for the same reference, and every
  shift that is no longer open carries the expected amount that its movements add up to
  (opening amount plus sales and deposits, less withdrawals and refunds, plus corrections),
  with the variance of the counted amount.\<close>

theorem cash_tables_stay_reconciled:
  assumes "cash_ok d"
  shows "cash_ok (cash_run steps d)"
  using assms by (rule cash_run_induct) (rule cash_ok_step)

section \<open>What the commands leave alone\<close>

text \<open>A row that is closed, with the movements booked on it.\<close>

definition kept :: "cash_shift_row \<Rightarrow> db \<Rightarrow> db \<Rightarrow> bool" where
  "kept s d d' \<longleftrightarrow> s \<in> set (cash_shifts d') \<and>
     filter (\<lambda>m. cm_cashShiftId m = cs_id s) (cash_movements d') =
     filter (\<lambda>m. cm_cashShiftId m = cs_id s) (cash_movements d)"

lemma kept_same:
  "s \<in> set (cash_shifts d') \<Longrightarrow> cash_movements d' = cash_movements d \<Longrightarrow> kept s d d'"
  by (simp add: kept_def)

lemma kept_trans: "kept s d d1 \<Longrightarrow> kept s d1 d2 \<Longrightarrow> kept s d d2"
  by (simp add: kept_def)

lemma kept_update_where:
  "s \<in> set (cash_shifts d) \<Longrightarrow> \<not> p s \<Longrightarrow> kept s d (d\<lparr>cash_shifts := update_where p f (cash_shifts d)\<rparr>)"
  by (auto simp: kept_def in_update_where intro!: bexI [of _ s])

lemma kept_insert_movement:
  assumes "cash_ok d" and "s \<in> set (cash_shifts d)" and "cs_status s = CashShiftStatus.CLOSED"
    and ins: "insert_cash_movement m d = Inr d'"
  shows "kept s d d'"
proof -
  note I = insert_cash_movement_InrD [OF ins]
  have "cm_cashShiftId m \<noteq> cs_id s"
  proof
    assume eq: "cm_cashShiftId m = cs_id s"
    obtain t where t: "find_shift (cm_cashShiftId m) d = Some t" "cs_status t \<noteq> CashShiftStatus.CLOSED"
      using enforce_ledger_shift [OF I(2)] by (metis CashShiftStatus.distinct)
    with eq find_shift_in [OF cash_okD(1) [OF assms(1)] assms(2)] assms(3) show False by simp
  qed
  then show ?thesis using assms(2) I(1) by (simp add: kept_def)
qed

lemma kept_execute:
  assumes ok: "cash_ok d" and s: "s \<in> set (cash_shifts d)" and cl: "cs_status s = CashShiftStatus.CLOSED"
    and r: "executeCashShiftCommand i d = Inr (d', r)"
  shows "kept s d d'"
proof (cases "ci_command i")
  case (OPEN amount nt)
  with r obtain d1 where d1: "insert_shift (opened_shift i amount nt) d = Inr d1"
      and d': "d' = d1 \<or> insert_cash_movement (new_movement i (ci_floatId i) (ci_newId i) OPENING_FLOAT
          amount opening_reason (Some (''CASH_SHIFT'', ci_newId i))) d1 = Inr d'"
    by (auto simp: executeCashShiftCommand_def openCashShift_def Let_def andThen_Inr_iff split: if_splits)
  have s1: "s \<in> set (cash_shifts d1)" "kept s d d1"
    using s insert_shift_InrD(1) [OF d1] by (simp_all add: kept_def)
  have "cash_ok d1" by (rule cash_ok_insert_shift [OF ok d1]) (simp_all add: opened_shift_def)
  with d' s1 cl show ?thesis using kept_insert_movement kept_trans by blast
next
  case (MOVE shiftId ty amount reason code)
  with r obtain m where "insert_cash_movement m d = Inr d'"
    by (auto simp: executeCashShiftCommand_def moveCash_def andThen_Inr_iff)
  then show ?thesis by (rule kept_insert_movement [OF ok s cl])
next
  case (REFUND shiftId paymentId reason code)
  with r obtain t where "refundCashPayment i t paymentId reason d = Inr (d', r)"
    by (auto simp: executeCashShiftCommand_def andThen_Inr_iff)
  then show ?thesis
  proof (rule refund_InrD)
    fix p
    assume ins: "insert_cash_movement (new_movement i (ci_newId i) (cs_id t) CASH_REFUND (p_amount p) reason
       (Some (''PAYMENT'', paymentId))) (mark_refunded i p d) = Inr d'"
    have "cash_ok (mark_refunded i p d)"
      by (rule cash_ok_cong [OF ok]) (simp_all add: mark_refunded_def)
    from kept_insert_movement [OF this _ cl ins] s
    show ?thesis by (simp add: kept_def mark_refunded_def)
  qed
next
  case (CLOSE shiftId counted nt)
  with r obtain t f where "d' = d\<lparr>cash_shifts := update_where (open_row t) f (cash_shifts d)\<rparr>"
    by (auto simp: executeCashShiftCommand_def closeCashShift_def andThen_Inr_iff Let_def split: if_split_asm)
  then show ?thesis using kept_update_where [OF s] cl by (simp add: open_row_def)
next
  case (ADJUST shiftId amount reason)
  with r obtain t where "adjustCashShift i t amount reason d = Inr (d', r)"
    by (auto simp: executeCashShiftCommand_def andThen_Inr_iff)
  from adjust_InrD [OF this] obtain m f d1
    where "insert_cash_movement m d = Inr d1" "update_shift (cs_id t) f d1 = Inr d'" by blast
  moreover from kept_insert_movement [OF ok s cl this(1)] have "kept s d d1" .
  moreover from this have s1: "s \<in> set (cash_shifts d1)" by (simp add: kept_def)
  ultimately show ?thesis
    using update_shift_InrD [of "cs_id t" f d1 d'] kept_update_where [OF s1, of "\<lambda>u. cs_id u = cs_id t" f] cl
    by (metis kept_trans)
next
  case (REVIEW shiftId decision comment)
  with r obtain t where "reviewCashShift i t decision comment d = Inr (d', r)"
    by (auto simp: executeCashShiftCommand_def andThen_Inr_iff)
  from review_InrD [OF this] obtain rv f d1
    where rv: "insert_cash_shift_review rv d = Inr d1" "update_shift (cs_id t) f d1 = Inr d'" by blast
  then have "kept s d d1" and s1: "s \<in> set (cash_shifts d1)"
    using s by (auto simp: kept_def insert_cash_shift_review_def split: option.splits if_splits)
  then show ?thesis
    using update_shift_InrD [OF rv(2)] kept_update_where [OF s1, of "\<lambda>u. cs_id u = cs_id t" f] cl
    by (metis kept_trans)
qed

lemma kept_step:
  assumes "cash_ok d" and "s \<in> set (cash_shifts d)" and "cs_status s = CashShiftStatus.CLOSED"
  shows "kept s d (cash_step st d)"
proof (cases st)
  case (Command i)
  then show ?thesis using kept_execute [OF assms] kept_same [OF assms(2)]
    by (auto split: option.splits sum.splits)
next
  case (Payment movementId p)
  show ?thesis
  proof (cases "insert_payment movementId p d")
    case (Inl e)
    with Payment assms show ?thesis by (simp add: kept_same)
  next
    case (Inr d')
    have ok: "cash_ok (d\<lparr>payments := payments d @ [p]\<rparr>)" by (rule cash_ok_cong [OF assms(1)]) simp_all
    from insert_payment_InrD [OF Inr] have "kept s d d'"
      using kept_insert_movement [OF ok _ assms(3)] assms(2) by (auto simp: kept_def)
    with Payment Inr show ?thesis by simp
  qed
qed

text \<open>C21. A closed shift is final: no sequence of commands and payments changes a column of it
  or books another movement on it.\<close>

theorem closed_shift_is_final:
  assumes "cash_ok d" and "s \<in> set (cash_shifts d)" and "cs_status s = CashShiftStatus.CLOSED"
  shows "s \<in> set (cash_shifts (cash_run steps d))
    \<and> filter (\<lambda>m. cm_cashShiftId m = cs_id s) (cash_movements (cash_run steps d)) =
      filter (\<lambda>m. cm_cashShiftId m = cs_id s) (cash_movements d)"
proof -
  have "cash_ok (cash_run steps d) \<and> kept s d (cash_run steps d)"
  proof (rule cash_run_induct)
    fix st and d' :: db
    assume "cash_ok d' \<and> kept s d d'"
    then have "cash_ok d'" "kept s d d'" "s \<in> set (cash_shifts d')" by (simp_all add: kept_def)
    then show "cash_ok (cash_step st d') \<and> kept s d (cash_step st d')"
      using cash_ok_step kept_step assms(3) kept_trans by blast
  qed (use assms in \<open>simp add: kept_def\<close>)
  then show ?thesis by (simp add: kept_def)
qed

section \<open>Refunds happen once\<close>

lemma movements_execute:
  assumes "executeCashShiftCommand i d = Inr (d', r)"
  shows "\<exists>ms. cash_movements d' = cash_movements d @ ms"
proof (cases "ci_command i")
  case (REFUND shiftId paymentId reason code)
  with assms obtain t where "refundCashPayment i t paymentId reason d = Inr (d', r)"
    by (auto simp: executeCashShiftCommand_def andThen_Inr_iff)
  then show ?thesis
    by (rule refund_InrD) (auto simp: mark_refunded_def dest!: insert_cash_movement_InrD(1))
qed (use assms in \<open>auto simp: executeCashShiftCommand_def openCashShift_def moveCash_def closeCashShift_def
    adjustCashShift_def reviewCashShift_def insert_cash_shift_review_def andThen_Inr_iff Let_def
    split: if_splits option.splits
    dest!: insert_cash_movement_InrD(1) insert_shift_InrD(1) update_shift_InrD(1)\<close>)

lemma movements_step: "\<exists>ms. cash_movements (cash_step st d) = cash_movements d @ ms"
proof (cases st)
  case (Command i)
  then show ?thesis using movements_execute by (fastforce split: option.splits sum.splits)
next
  case (Payment movementId p)
  then show ?thesis
    by (auto split: sum.splits dest!: insert_payment_InrD insert_cash_movement_InrD(1))
qed

lemma movements_run: "\<exists>ms. cash_movements (cash_run steps d) = cash_movements d @ ms"
proof (rule cash_run_induct [of "\<lambda>d'. \<exists>ms. cash_movements d' = cash_movements d @ ms"])
  fix st and d' :: db
  assume "\<exists>ms. cash_movements d' = cash_movements d @ ms"
  then show "\<exists>ms. cash_movements (cash_step st d') = cash_movements d @ ms"
    using movements_step [of st d'] by auto
qed simp

text \<open>C22. A cash payment is paid back at most once: after a refund of it has succeeded, every
  later refund command for the same payment fails, on whatever shift and by whomever it is
  issued, after any sequence of other commands and payments; the one refund books exactly
  the amount that was paid.\<close>

theorem cash_refund_once:
  assumes "executeCashShiftCommand i d = Inr (d1, r)"
    and "ci_command i = REFUND shiftId paymentId reason code"
    and "ci_command j = REFUND shiftId' paymentId reason' code'"
  shows "(\<exists>e. executeCashShiftCommand j (cash_run steps d1) = Inl e) \<and>
    (\<exists>p \<in> set (payments d). p_id p = paymentId \<and>
       filter (\<lambda>m. cm_type m = CASH_REFUND) (cash_movements d1) =
       filter (\<lambda>m. cm_type m = CASH_REFUND) (cash_movements d)
         @ [new_movement i (ci_newId i) shiftId CASH_REFUND (p_amount p) reason (Some (''PAYMENT'', paymentId))])"
proof -
  from assms(1,2) obtain t where t: "refundCashPayment i t paymentId reason d = Inr (d1, r)" "cs_id t = shiftId"
    by (auto simp: executeCashShiftCommand_def andThen_Inr_iff dest!: lockCashShift_InrD)
  from t(1) obtain p where p: "p \<in> set (payments d)" "p_id p = paymentId"
    and ins: "insert_cash_movement (new_movement i (ci_newId i) (cs_id t) CASH_REFUND (p_amount p) reason
       (Some (''PAYMENT'', paymentId))) (mark_refunded i p d) = Inr d1"
    by (rule refund_InrD)
  from insert_cash_movement_InrD(1) [OF ins]
  have ms: "cash_movements d1 = cash_movements d @
      [new_movement i (ci_newId i) shiftId CASH_REFUND (p_amount p) reason (Some (''PAYMENT'', paymentId))]"
    by (simp add: mark_refunded_def t(2))
  with p have booked: "\<exists>p \<in> set (payments d). p_id p = paymentId \<and>
       filter (\<lambda>m. cm_type m = CASH_REFUND) (cash_movements d1) =
       filter (\<lambda>m. cm_type m = CASH_REFUND) (cash_movements d)
         @ [new_movement i (ci_newId i) shiftId CASH_REFUND (p_amount p) reason (Some (''PAYMENT'', paymentId))]"
    by (auto simp: new_movement_def)
  let ?ref = "(Some ''PAYMENT'', paymentId, CASH_REFUND)"
  have "?ref \<in> set (List.map_filter movement_reference (cash_movements (cash_run steps d1)))"
    using movements_run [of steps d1] ms
    by (auto simp: in_map_filter movement_reference_def new_movement_def)
  moreover have False if "executeCashShiftCommand j (cash_run steps d1) = Inr (d3, r3)"
    and used: "?ref \<in> set (List.map_filter movement_reference (cash_movements (cash_run steps d1)))" for d3 r3
  proof -
    from that(1) assms(3) obtain u where "refundCashPayment j u paymentId reason' (cash_run steps d1) = Inr (d3, r3)"
      by (auto simp: executeCashShiftCommand_def andThen_Inr_iff)
    then obtain q where "insert_cash_movement (new_movement j (ci_newId j) (cs_id u) CASH_REFUND (p_amount q)
         reason' (Some (''PAYMENT'', paymentId))) (mark_refunded j q (cash_run steps d1)) = Inr d3"
      by (rule refund_InrD)
    from insert_cash_movement_InrD(4) [OF this, of ?ref] used show False
      by (simp add: movement_reference_def new_movement_def mark_refunded_def)
  qed
  ultimately have "\<exists>e. executeCashShiftCommand j (cash_run steps d1) = Inl e"
    by (cases "executeCashShiftCommand j (cash_run steps d1)") auto
  with booked show ?thesis by blast
qed

section \<open>A worked shift\<close>

definition sample_command :: "CashShiftCommand \<Rightarrow> string \<Rightarrow> cash_event" where
  "sample_command c newId =
     Command \<lparr>ci_organizationId = ''org'', ci_stallId = ''stall'', ci_actorProfileId = ''staff'',
              ci_reconciliationEnabled = False, ci_command = c, ci_newId = newId,
              ci_floatId = newId @ ''f'', ci_now = 1000\<rparr>"

definition sample_payment :: payment_row where
  "sample_payment =
     \<lparr>p_id = ''pay'', p_organizationId = ''org'', p_stallId = ''stall'', p_orderId = ''order'',
      p_paymentOptionId = None, p_cashShiftId = Some ''shift'', p_amount = 250,
      p_method = PaymentMethod.CASH, p_status = PaymentStatus.PAID,  p_methodLabel = ''cash'',
      p_cashReceived = Some 300, p_changeAmount = Some 50, p_recordedById = Some ''staff'',
      p_paidAt = 1500\<rparr>"

definition sample_day :: "cash_event list" where
  "sample_day =
     [sample_command (OPEN 1000 None) ''shift'',
      Payment ''sale'' sample_payment,
      sample_command (MOVE ''shift'' CASH_OUT 200 ''ice'' None) ''out'',
      sample_command (REFUND ''shift'' ''pay'' ''spilt'' None) ''ref'',
      sample_command (CLOSE ''shift'' 790 None) ''c'']"

lemma cash_ok_empty: "cash_ok empty_db"
  by (simp add: cash_ok_def empty_db_def cash_ledger.references_def List.map_filter_def)

theorem cash_tables_stay_reconciled_witness:
  "cash_ok (cash_run sample_day empty_db)
   \<and> map (\<lambda>s. (cs_status s, cs_systemExpectedAmount s, cs_varianceAmount s))
       (cash_shifts (cash_run sample_day empty_db)) = [(CashShiftStatus.CLOSED, Some 800, Some (- 10))]"
proof
  show "cash_ok (cash_run sample_day empty_db)"
    by (rule cash_tables_stay_reconciled [OF cash_ok_empty])
  show "map (\<lambda>s. (cs_status s, cs_systemExpectedAmount s, cs_varianceAmount s))
       (cash_shifts (cash_run sample_day empty_db)) = [(CashShiftStatus.CLOSED, Some 800, Some (- 10))]"
    by code_simp
qed

theorem closed_shift_is_final_witness:
  "hd (cash_shifts (cash_run sample_day empty_db))
     \<in> set (cash_shifts (cash_run [sample_command (MOVE ''shift'' CASH_IN 5 ''late'' None) ''late'']
           (cash_run sample_day empty_db)))"
proof -
  have "cash_ok (cash_run sample_day empty_db)"
    by (rule cash_run_induct) (rule cash_ok_empty, rule cash_ok_step)
  moreover have "cash_shifts (cash_run sample_day empty_db) \<noteq> []
      \<and> cs_status (hd (cash_shifts (cash_run sample_day empty_db))) = CashShiftStatus.CLOSED"
    by code_simp
  ultimately show ?thesis
    using closed_shift_is_final [of "cash_run sample_day empty_db"
        "hd (cash_shifts (cash_run sample_day empty_db))"] by auto
qed

definition sample_refund :: "uid \<Rightarrow> cash_input" where
  "sample_refund newId =
     \<lparr>ci_organizationId = ''org'', ci_stallId = ''stall'', ci_actorProfileId = ''staff'',
      ci_reconciliationEnabled = False, ci_command = REFUND ''shift'' ''pay'' ''spilt'' None,
      ci_newId = newId, ci_floatId = newId, ci_now = 2000\<rparr>"

theorem cash_refund_once_witness:
  "\<exists>d1 r e. executeCashShiftCommand (sample_refund ''a'') (cash_run (take 3 sample_day) empty_db) = Inr (d1, r)
     \<and> executeCashShiftCommand (sample_refund ''b'') (cash_run [] d1) = Inl e"
proof -
  obtain d1 r where r: "executeCashShiftCommand (sample_refund ''a'') (cash_run (take 3 sample_day) empty_db) = Inr (d1, r)"
  proof -
    have "case executeCashShiftCommand (sample_refund ''a'') (cash_run (take 3 sample_day) empty_db) of
        Inr _ \<Rightarrow> True | Inl _ \<Rightarrow> False" by code_simp
    then show thesis using that by (auto split: sum.splits)
  qed
  have cmd: "ci_command (sample_refund x) = REFUND ''shift'' ''pay'' ''spilt'' None" for x
    by (simp add: sample_refund_def)
  from cash_refund_once [OF r cmd cmd [of "''b''"], where steps = "[]"] r
  show ?thesis by blast
qed

end
