(* ===== verification/JsDate.thy ===== *)
theory JsDate
  imports StallPrelude
begin

text \<open>
  The calendar of JavaScript's \<open>Date\<close>: days since 1970-01-01 in the proleptic Gregorian
  calendar, \<open>Date.UTC\<close> (whose month and day may overflow into the neighbours) and the UTC
  getters. The lemma \<open>civil_round_trip\<close> states that taking a day apart and putting it
  together again is the identity.
\<close>

definition DAY_MS :: int where
  "DAY_MS = 86400000"

definition days_from_civil :: "int \<Rightarrow> int \<Rightarrow> int \<Rightarrow> int" where
  "days_from_civil y m d =
     (let y' = (if m \<le> 2 then y - 1 else y);
          era = y' div 400; yoe = y' mod 400;
          mp = (if m > 2 then m - 3 else m + 9);
          doy = (153 * mp + 2) div 5 + d - 1;
          doe = yoe * 365 + yoe div 4 - yoe div 100 + doy
      in era * 146097 + doe - 719468)"

definition year_of_era :: "int \<Rightarrow> int" where
  "year_of_era doe = (doe - doe div 1460 + doe div 36524 - doe div 146096) div 365"

definition civil_from_days :: "int \<Rightarrow> int \<times> int \<times> int" where
  "civil_from_days z =
     (let z' = z + 719468; era = z' div 146097; doe = z' mod 146097;
          yoe = year_of_era doe;
          doy = doe - (365 * yoe + yoe div 4 - yoe div 100);
          mp = (5 * doy + 2) div 153;
          d = doy - (153 * mp + 2) div 5 + 1;
          m = (if mp < 10 then mp + 3 else mp - 9);
          y = yoe + era * 400
      in (if m \<le> 2 then y + 1 else y, m, d))"

text \<open>The leap days already passed, from the three quotients of the algorithm.\<close>

lemma era_quotients:
  assumes "0 \<le> doe" and "doe < 146097" and "yoe = year_of_era doe"
  defines "a \<equiv> doe div 1460" and "b \<equiv> doe div 36524" and "c \<equiv> doe div 146096"
  shows "365 * yoe \<le> doe - a + b - c" "doe - a + b - c < 365 * yoe + 365"
    "b - c = yoe div 100" "yoe div 4 \<le> a" "a - 1 \<le> yoe div 4" "0 \<le> yoe" "yoe < 400"
proof -
  have y: "365 * yoe \<le> doe - a + b - c" "doe - a + b - c < 365 * yoe + 365"
    unfolding assms(3) year_of_era_def a_def b_def c_def by linarith+
  then show "365 * yoe \<le> doe - a + b - c" "doe - a + b - c < 365 * yoe + 365" by auto
  have a: "1460 * a \<le> doe" "doe < 1460 * a + 1460" unfolding a_def by linarith+
  have b: "36524 * b \<le> doe" "doe < 36524 * b + 36524" unfolding b_def by linarith+
  have c: "146096 * c \<le> doe" "doe < 146096 * c + 146096" unfolding c_def by linarith+
  have c01: "c = 0 \<or> c = 1" using c assms(1,2) by linarith
  have b04: "b = 0 \<or> b = 1 \<or> b = 2 \<or> b = 3 \<or> b = 4" using b assms(1,2) by linarith
  have bc: "b = 0 \<and> c = 0 \<or> b = 1 \<and> c = 0 \<or> b = 2 \<and> c = 0 \<or> b = 3 \<and> c = 0 \<or> b = 4 \<and> c = 1"
    using b04 c01 b c assms(1,2) by (elim disjE) simp_all
  have lo: "100 * (b - c) \<le> yoe" and hi: "yoe < 100 * (b - c) + 100"
    using bc y a b assms(1,2) by (elim disjE; simp)+
  then have "yoe div 100 = b - c" by (intro int_div_pos_eq [of yoe 100 "b - c" "yoe - 100 * (b - c)"]) simp_all
  then show "b - c = yoe div 100" by simp
  show "0 \<le> yoe" "yoe < 400" using lo hi bc by (elim disjE; simp)+
  have "4 * a - 1 \<le> yoe" using bc y a b assms(1,2) by linarith
  then show "a - 1 \<le> yoe div 4" by linarith
  have "yoe < 4 * a + 4" using bc y a b assms(1,2) by linarith
  then show "yoe div 4 \<le> a" by linarith
qed

lemma day_of_year_bounds:
  assumes "0 \<le> doe" and "doe < 146097"
  shows "0 \<le> doe - (365 * year_of_era doe + year_of_era doe div 4 - year_of_era doe div 100)"
    and "doe - (365 * year_of_era doe + year_of_era doe div 4 - year_of_era doe div 100) \<le> 365"
  using era_quotients [OF assms refl] by linarith+

lemma civil_round_trip: "case civil_from_days z of (y, m, d) \<Rightarrow> days_from_civil y m d = z"
proof -
  define doe where "doe = (z + 719468) mod 146097"
  define era where "era = (z + 719468) div 146097"
  define yoe where "yoe = year_of_era doe"
  define doy where "doy = doe - (365 * yoe + yoe div 4 - yoe div 100)"
  define mp where "mp = (5 * doy + 2) div 153"
  have doe: "0 \<le> doe" "doe < 146097" by (simp_all add: doe_def)
  note yoe = era_quotients(6,7) [OF doe yoe_def]
  have doy: "0 \<le> doy" "doy \<le> 365"
    using day_of_year_bounds [OF doe] by (simp_all add: doy_def yoe_def)
  then have mp: "0 \<le> mp" "mp < 12" unfolding mp_def by linarith+
  have z: "z = era * 146097 + doe - 719468" by (simp add: era_def doe_def)
  have civil: "civil_from_days z =
      (let d = doy - (153 * mp + 2) div 5 + 1; m = (if mp < 10 then mp + 3 else mp - 9); y = yoe + era * 400
       in (if m \<le> 2 then y + 1 else y, m, d))"
    by (simp only: civil_from_days_def doe_def era_def yoe_def doy_def mp_def Let_def)
  have era': "(yoe + era * 400) div 400 = era" "(yoe + era * 400) mod 400 = yoe" using yoe by simp_all
  have "days_from_civil (if m \<le> 2 then yoe + era * 400 + 1 else yoe + era * 400) m
      (doy - (153 * mp + 2) div 5 + 1) = era * 146097 + doe - 719468"
    if "m = (if mp < 10 then mp + 3 else mp - 9)" for m
    using that era' mp by (cases "mp < 10") (simp_all add: days_from_civil_def Let_def doy_def)
  then show ?thesis unfolding civil Let_def using z by simp
qed

lemma civil_month: "case civil_from_days z of (y, m, d) \<Rightarrow> 1 \<le> m \<and> m \<le> 12 \<and> 1 \<le> d \<and> d \<le> 31"
proof -
  define doe where "doe = (z + 719468) mod 146097"
  define yoe where "yoe = year_of_era doe"
  define doy where "doy = doe - (365 * yoe + yoe div 4 - yoe div 100)"
  define mp where "mp = (5 * doy + 2) div 153"
  have doe: "0 \<le> doe" "doe < 146097" by (simp_all add: doe_def)
  have doy: "0 \<le> doy" "doy \<le> 365"
    using day_of_year_bounds [OF doe] by (simp_all add: doy_def yoe_def)
  then have mp: "0 \<le> mp" "mp < 12" unfolding mp_def by linarith+
  have q: "153 * mp \<le> 5 * doy + 2" "5 * doy + 2 < 153 * mp + 153" unfolding mp_def by linarith+
  have div_bounds: "5 * ((153 * mp + 2) div 5) \<le> 153 * mp + 2" "153 * mp + 2 < 5 * ((153 * mp + 2) div 5) + 5"
    by linarith+
  have d: "1 \<le> doy - (153 * mp + 2) div 5 + 1" "doy - (153 * mp + 2) div 5 + 1 \<le> 31"
    using q mp div_bounds by linarith+
  have civil: "civil_from_days z =
      (let d = doy - (153 * mp + 2) div 5 + 1; m = (if mp < 10 then mp + 3 else mp - 9);
           y = yoe + (z + 719468) div 146097 * 400
       in (if m \<le> 2 then y + 1 else y, m, d))"
    by (simp only: civil_from_days_def doe_def yoe_def doy_def mp_def Let_def)
  show ?thesis using mp d by (simp add: civil Let_def)
qed

section \<open>\<open>Date.UTC\<close> and the UTC getters\<close>

text \<open>The month is counted from 0, as in the code, and may lie outside the year.\<close>

definition date_utc :: "int \<Rightarrow> int \<Rightarrow> int \<Rightarrow> instant" where
  "date_utc year month day =
     (days_from_civil (year + month div 12) (month mod 12 + 1) 1 + (day - 1)) * DAY_MS"

definition utc_year :: "instant \<Rightarrow> int" where
  "utc_year t = fst (civil_from_days (t div DAY_MS))"

definition utc_month :: "instant \<Rightarrow> int" where
  "utc_month t = fst (snd (civil_from_days (t div DAY_MS))) - 1"

definition utc_day :: "instant \<Rightarrow> int" where
  "utc_day t = snd (snd (civil_from_days (t div DAY_MS)))"

lemma days_from_civil_day: "days_from_civil y m d = days_from_civil y m 1 + (d - 1)"
  by (simp add: days_from_civil_def Let_def)

lemma date_utc_parts: "date_utc (utc_year t) (utc_month t) (utc_day t) = t - t mod DAY_MS"
proof -
  obtain y m d where c: "civil_from_days (t div DAY_MS) = (y, m, d)" by (metis prod_cases3)
  have m: "1 \<le> m" "m \<le> 12" using civil_month [of "t div DAY_MS"] c by auto
  then have "(m - 1) div 12 = 0" "(m - 1) mod 12 = m - 1" by simp_all
  then have "date_utc (utc_year t) (utc_month t) (utc_day t) = days_from_civil y m d * DAY_MS"
    using c days_from_civil_day [of y m d] by (simp add: date_utc_def utc_year_def utc_month_def utc_day_def)
  also have "\<dots> = (t div DAY_MS) * DAY_MS" using civil_round_trip [of "t div DAY_MS"] c by simp
  finally show ?thesis by (simp add: minus_mod_eq_div_mult)
qed

end
