(* ===== verification/Entitlement.thy ===== *)
theory Entitlement
  imports StallData JsDate JsText
begin

text \<open>
  What an organization's subscription lets it do:
  \<open>src/src/server/billing/entitlement-service.ts\<close> with the billing feature flags of
  \<open>billing-feature-flags.ts\<close>. The billing tables are the record \<open>billing_db\<close>; JSON
  configuration values are opaque strings, the collation order of \<open>localeCompare\<close> is the
  parameter \<open>collate\<close>, and \<open>now\<close> is the instant of the call.
\<close>

datatype EntitlementErrorCode =
  FEATURE_NOT_INCLUDED | PLAN_LIMIT_REACHED | SUBSCRIPTION_NOT_ACTIVE | SUBSCRIPTION_SUSPENDED
| TRIAL_EXPIRED | TRIAL_ORDER_LIMIT_REACHED | ADDITIONAL_STALL_APPROVAL_REQUIRED
| ORDER_PACKAGE_REQUIRED | UPGRADE_REQUIRED

datatype entitlement_failure = EntitlementError EntitlementErrorCode | TypeError

datatype BillingMetricCode = STALLS | STAFF | PRODUCTS | QR_CODES | ORDERS

datatype EntitlementSource = PLAN | ADD_ON | OPEN_BETA

fun errorStatus :: "EntitlementErrorCode \<Rightarrow> nat" where
  "errorStatus FEATURE_NOT_INCLUDED = 403"
| "errorStatus PLAN_LIMIT_REACHED = 409"
| "errorStatus SUBSCRIPTION_NOT_ACTIVE = 403"
| "errorStatus SUBSCRIPTION_SUSPENDED = 403"
| "errorStatus TRIAL_EXPIRED = 403"
| "errorStatus TRIAL_ORDER_LIMIT_REACHED = 409"
| "errorStatus ADDITIONAL_STALL_APPROVAL_REQUIRED = 409"
| "errorStatus ORDER_PACKAGE_REQUIRED = 409"
| "errorStatus UPGRADE_REQUIRED = 403"

record entitlement_row =
  en_featureCode :: string
  en_isEnabled :: bool
  en_limitValue :: "int option"
  en_configuration :: "string option"

record effective_entitlement =
  ee_featureCode :: string
  ee_isEnabled :: bool
  ee_limitValue :: "int option"
  ee_configuration :: "string option"
  ee_source :: EntitlementSource

record plan_version_row =
  pv_version :: int
  pv_planCode :: string
  pv_entitlements :: "entitlement_row list"
  pv_pricingMode :: string
  pv_usageScope :: "string option"
  pv_includedStalls :: int
  pv_maxStalls :: "int option"
  pv_maxStaff :: "int option"
  pv_maxProducts :: "int option"
  pv_maxQrCodes :: "int option"
  pv_includedOrders :: "int option"
  pv_emergencyHardCapEnabled :: bool
  pv_emergencyHardCapOrders :: "int option"

record subscription_item_row =
  it_itemType :: string
  it_code :: string
  it_quantity :: int
  it_status :: string
  it_startsAt :: instant
  it_endsAt :: "instant option"
  it_createdAt :: instant

record stall_approval_row =
  sa_quantity :: int
  sa_status :: string
  sa_effectiveAt :: instant
  sa_expiresAt :: "instant option"

record subscription_row =
  sb_organizationId :: uid
  sb_status :: string
  sb_trialEndsAt :: "instant option"
  sb_billingPeriodStart :: instant
  sb_planVersion :: plan_version_row
  sb_items :: "subscription_item_row list"
  sb_additionalApprovals :: "stall_approval_row list"

record add_on_row =
  ad_code :: string
  ad_featureCode :: "string option"
  ad_isActive :: bool
  ad_availabilityStatus :: string

record usage_event_row =
  ue_organizationId :: uid
  ue_billingPeriod :: instant
  ue_eventType :: string
  ue_quantity :: int

record billing_db =
  subscriptions :: "subscription_row list"
  add_on_catalog :: "add_on_row list"
  usage_events :: "usage_event_row list"
  active_flags :: "(string \<times> bool) list"
  billing_stalls :: "(uid \<times> bool) list"
  billing_products :: "(uid \<times> bool) list"
  billing_qr_codes :: "(uid \<times> string) list"
  member_organizations :: "org_membership_row list"
  member_stalls :: "stall_membership_row list"

section \<open>Billing feature flags\<close>

definition billingFeatureFlagDefault :: "string \<Rightarrow> bool" where
  "billingFeatureFlagDefault code \<longleftrightarrow>
     code = ''OPEN_BETA_FREE_ACCESS_ENABLED'' \<or> code = ''MANUAL_BILLING_ENABLED''"

text \<open>\<open>new Map(rows)\<close> keeps the last row of a code; the codes are unique in the table.\<close>

definition resolveBillingFeatureFlags :: "string list \<Rightarrow> billing_db \<Rightarrow> (string \<times> bool) list" where
  "resolveBillingFeatureFlags codes b =
     map (\<lambda>code. (code, case map_of (rev (filter (\<lambda>(c, _). c \<in> set codes) (active_flags b))) code of
            Some v \<Rightarrow> v | None \<Rightarrow> billingFeatureFlagDefault code)) codes"

definition isBillingFeatureEnabled :: "string \<Rightarrow> billing_db \<Rightarrow> bool" where
  "isBillingFeatureEnabled code b = (map_of (resolveBillingFeatureFlags [code] b) code = Some True)"

definition isOpenBetaFreeAccessEnabled :: "billing_db \<Rightarrow> bool" where
  "isOpenBetaFreeAccessEnabled b = isBillingFeatureEnabled ''OPEN_BETA_FREE_ACCESS_ENABLED'' b"

section \<open>The subscription\<close>

definition usable_statuses :: "string list" where
  "usable_statuses = [''TRIALING'', ''ACTIVE'', ''PAST_DUE'', ''GRACE_PERIOD'']"

definition evaluateSubscriptionUsability ::
  "string \<Rightarrow> instant option \<Rightarrow> instant \<Rightarrow> EntitlementErrorCode option" where
  "evaluateSubscriptionUsability status trialEndsAt now =
     (if status = ''SUSPENDED'' then Some SUBSCRIPTION_SUSPENDED
      else if status = ''CANCELLED'' then Some SUBSCRIPTION_NOT_ACTIVE
      else if status \<notin> set usable_statuses then Some SUBSCRIPTION_NOT_ACTIVE
      else if status = ''TRIALING'' \<and> (case trialEndsAt of None \<Rightarrow> True | Some t \<Rightarrow> t \<le> now)
        then Some TRIAL_EXPIRED
      else None)"

definition evaluateCountLimit :: "int \<Rightarrow> int option \<Rightarrow> EntitlementErrorCode option" where
  "evaluateCountLimit nextValue limit =
     (case limit of None \<Rightarrow> None | Some l \<Rightarrow> if nextValue > l then Some PLAN_LIMIT_REACHED else None)"

definition calculateUsageWarningLevels :: "int \<Rightarrow> int \<Rightarrow> int list" where
  "calculateUsageWarningLevels used limit =
     (if limit \<le> 0 then (if used > 0 then [80, 90, 100, 110] else [])
      else filter (\<lambda>threshold. used * 100 \<ge> limit * threshold) [80, 90, 100, 110])"

definition canContinueOrderDuringSuspension :: "OrderStatus \<Rightarrow> OrderStatus \<Rightarrow> bool" where
  "canContinueOrderDuringSuspension current next_status \<longleftrightarrow>
     current \<in> {OrderStatus.CONFIRMED, OrderStatus.PREPARING, OrderStatus.PACKING, OrderStatus.READY}
     \<and> next_status \<in> {OrderStatus.PREPARING, OrderStatus.PACKING, OrderStatus.READY,
          OrderStatus.COMPLETED, OrderStatus.CANCELLED}"

definition orderPackageSize :: "string \<Rightarrow> int" where
  "orderPackageSize code =
     (if code = ''ORDER_PACKAGE_LITE_100'' then 100
      else if code = ''ORDER_PACKAGE_STANDARD_500'' then 500
      else if code = ''ORDER_PACKAGE_PRO_1000'' then 1000
      else 0)"

definition live :: "instant \<Rightarrow> instant \<Rightarrow> instant option \<Rightarrow> bool" where
  "live now startsAt endsAt \<longleftrightarrow> startsAt \<le> now \<and> (case endsAt of None \<Rightarrow> True | Some e \<Rightarrow> e > now)"

definition getSubscriptionContext :: "billing_db \<Rightarrow> instant \<Rightarrow> uid \<Rightarrow> subscription_row option" where
  "getSubscriptionContext b now organizationId =
     map_option
       (\<lambda>s. s\<lparr>sb_items := sort_key it_createdAt
                (filter (\<lambda>i. it_status i = ''ACTIVE'' \<and> live now (it_startsAt i) (it_endsAt i)) (sb_items s)),
              sb_additionalApprovals :=
                filter (\<lambda>a. sa_status a = ''APPROVED'' \<and> live now (sa_effectiveAt a) (sa_expiresAt a))
                  (sb_additionalApprovals s)\<rparr>)
       (List.find (\<lambda>s. sb_organizationId s = organizationId) (subscriptions b))"

definition requireContext :: "billing_db \<Rightarrow> instant \<Rightarrow> uid \<Rightarrow> entitlement_failure + subscription_row" where
  "requireContext b now organizationId =
     (case getSubscriptionContext b now organizationId of
        None \<Rightarrow> Inl (EntitlementError SUBSCRIPTION_NOT_ACTIVE) | Some c \<Rightarrow> Inr c)"

definition ensureSubscriptionUsable :: "subscription_row \<Rightarrow> instant \<Rightarrow> entitlement_failure + unit" where
  "ensureSubscriptionUsable c now =
     (case evaluateSubscriptionUsability (sb_status c) (sb_trialEndsAt c) now of
        Some code \<Rightarrow> Inl (EntitlementError code) | None \<Rightarrow> Inr ())"

definition ensureOpenBetaSubscriptionUsable :: "subscription_row \<Rightarrow> entitlement_failure + unit" where
  "ensureOpenBetaSubscriptionUsable c =
     (if sb_status c = ''SUSPENDED'' then Inl (EntitlementError SUBSCRIPTION_SUSPENDED)
      else if sb_status c \<notin> set usable_statuses then Inl (EntitlementError SUBSCRIPTION_NOT_ACTIVE)
      else Inr ())"

definition assertSubscriptionUsable ::
  "billing_db \<Rightarrow> instant \<Rightarrow> uid \<Rightarrow> entitlement_failure + subscription_row" where
  "assertSubscriptionUsable b now organizationId =
     andThen (requireContext b now organizationId) (\<lambda>c.
       andThen (if isOpenBetaFreeAccessEnabled b then ensureOpenBetaSubscriptionUsable c
                else ensureSubscriptionUsable c now) (\<lambda>_. Inr c))"

section \<open>Features\<close>

definition resolvePlanEntitlements ::
  "(string \<Rightarrow> string \<Rightarrow> bool) \<Rightarrow> plan_version_row \<Rightarrow> effective_entitlement list" where
  "resolvePlanEntitlements collate v =
     (let resolved = map (\<lambda>e. \<lparr>ee_featureCode = en_featureCode e, ee_isEnabled = en_isEnabled e,
             ee_limitValue = en_limitValue e, ee_configuration = en_configuration e,
             ee_source = PLAN\<rparr>) (pv_entitlements v);
          hasStoredPrinterEntitlement =
            list_ex (\<lambda>e. ee_featureCode e = ''PRINTER_INTEGRATION'') resolved;
          withPrinter =
            (if \<not> hasStoredPrinterEntitlement \<and> pv_version v = 1
                \<and> (pv_planCode v = ''PRO'' \<or> pv_planCode v = ''ENTERPRISE'')
             then resolved @ [\<lparr>ee_featureCode = ''PRINTER_INTEGRATION'', ee_isEnabled = True,
               ee_limitValue = None, ee_configuration = Some ''{merchantModuleOptIn:true}'',
               ee_source = PLAN\<rparr>]
             else resolved)
      in sort_by (\<lambda>l r. collate (ee_featureCode l) (ee_featureCode r)) withPrinter)"

definition add_on_available :: "add_on_row \<Rightarrow> bool" where
  "add_on_available a \<longleftrightarrow> ad_isActive a
     \<and> (ad_availabilityStatus a = ''ENABLED'' \<or> ad_availabilityStatus a = ''MANUAL_APPROVAL_REQUIRED'')"

definition set_entitlement ::
  "effective_entitlement \<Rightarrow> effective_entitlement list \<Rightarrow> effective_entitlement list" where
  "set_entitlement e es =
     (if \<exists>f \<in> set es. ee_featureCode f = ee_featureCode e
      then map (\<lambda>f. if ee_featureCode f = ee_featureCode e then e else f) es
      else es @ [e])"

definition add_on_entitlement :: "string \<Rightarrow> effective_entitlement" where
  "add_on_entitlement featureCode =
     \<lparr>ee_featureCode = featureCode, ee_isEnabled = True, ee_limitValue = None,
      ee_configuration = None, ee_source = ADD_ON\<rparr>"

definition getEffectiveEntitlementsForContext ::
  "(string \<Rightarrow> string \<Rightarrow> bool) \<Rightarrow> billing_db \<Rightarrow> subscription_row \<Rightarrow> effective_entitlement list" where
  "getEffectiveEntitlementsForContext collate b c =
     (let fromPlan = fold set_entitlement (resolvePlanEntitlements collate (sb_planVersion c)) [];
          itemCodes = map it_code (filter (\<lambda>i. it_itemType i = ''ADD_ON'') (sb_items c));
          addOns = filter (\<lambda>a. ad_code a \<in> set itemCodes \<and> ad_featureCode a \<noteq> None \<and> add_on_available a)
                     (add_on_catalog b);
          effective = fold (\<lambda>a es. if truthy (ad_featureCode a)
                              then set_entitlement (add_on_entitlement (or_empty (ad_featureCode a))) es
                              else es) addOns fromPlan
      in sort_by (\<lambda>l r. collate (ee_featureCode l) (ee_featureCode r)) effective)"

definition getEffectiveEntitlements ::
  "(string \<Rightarrow> string \<Rightarrow> bool) \<Rightarrow> billing_db \<Rightarrow> instant \<Rightarrow> uid
     \<Rightarrow> entitlement_failure + effective_entitlement list" where
  "getEffectiveEntitlements collate b now organizationId =
     andThen (requireContext b now organizationId)
       (\<lambda>c. Inr (getEffectiveEntitlementsForContext collate b c))"

definition getUsableEntitlements ::
  "(string \<Rightarrow> string \<Rightarrow> bool) \<Rightarrow> billing_db \<Rightarrow> instant \<Rightarrow> uid
     \<Rightarrow> entitlement_failure + effective_entitlement list" where
  "getUsableEntitlements collate b now organizationId =
     andThen (assertSubscriptionUsable b now organizationId)
       (\<lambda>c. Inr (getEffectiveEntitlementsForContext collate b c))"

definition feature_from_add_on ::
  "billing_db \<Rightarrow> subscription_row \<Rightarrow> string \<Rightarrow> entitlement_failure + effective_entitlement" where
  "feature_from_add_on b c featureCode =
     (let itemCodes = map it_code (filter (\<lambda>i. it_itemType i = ''ADD_ON'') (sb_items c))
      in case List.find (\<lambda>a. ad_code a \<in> set itemCodes \<and> ad_featureCode a = Some featureCode
                          \<and> add_on_available a) (add_on_catalog b) of
           Some a \<Rightarrow>
             if truthy (ad_featureCode a) then Inr (add_on_entitlement featureCode)
             else Inl (EntitlementError FEATURE_NOT_INCLUDED)
         | None \<Rightarrow> Inl (EntitlementError FEATURE_NOT_INCLUDED))"

definition requireFeatureEntitlement ::
  "(string \<Rightarrow> string \<Rightarrow> bool) \<Rightarrow> billing_db \<Rightarrow> instant \<Rightarrow> uid \<Rightarrow> string \<Rightarrow> bool
     \<Rightarrow> entitlement_failure + effective_entitlement" where
  "requireFeatureEntitlement collate b now organizationId featureCode requireUsable =
     andThen (requireContext b now organizationId) (\<lambda>c.
       let planRows = filter (\<lambda>e. en_featureCode e = featureCode) (pv_entitlements (sb_planVersion c)) in
       if isOpenBetaFreeAccessEnabled b then
         andThen (ensureOpenBetaSubscriptionUsable c) (\<lambda>_.
           Inr \<lparr>ee_featureCode = featureCode, ee_isEnabled = True, ee_limitValue = None,
                ee_configuration = (case planRows of [] \<Rightarrow> None | e # _ \<Rightarrow> en_configuration e),
                ee_source = OPEN_BETA\<rparr>)
       else
         andThen (if requireUsable then ensureSubscriptionUsable c now else Inr ()) (\<lambda>_.
           case List.find (\<lambda>e. ee_featureCode e = featureCode)
                  (resolvePlanEntitlements collate
                     ((sb_planVersion c)\<lparr>pv_entitlements := take 1 planRows\<rparr>)) of
             Some e \<Rightarrow>
               if ee_isEnabled e then Inr (e\<lparr>ee_source := PLAN\<rparr>)
               else feature_from_add_on b c featureCode
           | None \<Rightarrow> feature_from_add_on b c featureCode))"

definition assertFeatureEnabled ::
  "(string \<Rightarrow> string \<Rightarrow> bool) \<Rightarrow> billing_db \<Rightarrow> instant \<Rightarrow> uid \<Rightarrow> string
     \<Rightarrow> entitlement_failure + effective_entitlement" where
  "assertFeatureEnabled collate b now organizationId featureCode =
     requireFeatureEntitlement collate b now organizationId featureCode True"

definition assertFeatureIncluded ::
  "(string \<Rightarrow> string \<Rightarrow> bool) \<Rightarrow> billing_db \<Rightarrow> instant \<Rightarrow> uid \<Rightarrow> string
     \<Rightarrow> entitlement_failure + effective_entitlement" where
  "assertFeatureIncluded collate b now organizationId featureCode =
     requireFeatureEntitlement collate b now organizationId featureCode False"

definition getFeatureAccess ::
  "(string \<Rightarrow> string \<Rightarrow> bool) \<Rightarrow> billing_db \<Rightarrow> instant \<Rightarrow> uid \<Rightarrow> string \<Rightarrow> bool option
     \<Rightarrow> entitlement_failure option" where
  "getFeatureAccess collate b now organizationId featureCode requireUsableSubscription =
     (case (if requireUsableSubscription = Some False
            then assertFeatureIncluded collate b now organizationId featureCode
            else assertFeatureEnabled collate b now organizationId featureCode) of
        Inr _ \<Rightarrow> None | Inl e \<Rightarrow> Some e)"

section \<open>Usage and limits\<close>

record period_usage =
  pu_billingPeriod :: instant
  pu_billableOrders :: int
  pu_activeStalls :: int
  pu_activeStaff :: int
  pu_activeProducts :: int
  pu_activeQrCodes :: int
  pu_csvExports :: int
  pu_orderPackageQuantity :: int

definition monthStart :: "instant \<Rightarrow> instant" where
  "monthStart value = date_utc (utc_year value) (utc_month value) 1"

definition usage_sum :: "billing_db \<Rightarrow> uid \<Rightarrow> instant \<Rightarrow> string \<Rightarrow> int" where
  "usage_sum b organizationId period eventType =
     sum_of ue_quantity (filter (\<lambda>u. ue_organizationId u = organizationId
        \<and> ue_billingPeriod u = period \<and> ue_eventType u = eventType) (usage_events b))"

definition staff_members :: "billing_db \<Rightarrow> uid \<Rightarrow> uid list" where
  "staff_members b organizationId =
     js_set (map om_profileId (filter (\<lambda>m. om_organizationId m = organizationId \<and> om_isActive m
                \<and> om_role m \<noteq> ORGANIZATION_OWNER) (member_organizations b))
             @ map sm_profileId (filter (\<lambda>m. sm_organizationId m = organizationId \<and> sm_isActive m)
                (member_stalls b)))"

definition order_package_quantity :: "subscription_row \<Rightarrow> instant \<Rightarrow> instant \<Rightarrow> int" where
  "order_package_quantity c periodStart periodEnd =
     sum_of (\<lambda>i. orderPackageSize (it_code i) * it_quantity i)
       (filter (\<lambda>i. it_itemType i = ''ORDER_PACKAGE'' \<and> it_startsAt i < periodEnd
          \<and> (case it_endsAt i of None \<Rightarrow> True | Some e \<Rightarrow> e \<ge> periodStart)) (sb_items c))"

definition getBillingPeriodUsage ::
  "billing_db \<Rightarrow> instant \<Rightarrow> uid \<Rightarrow> instant \<Rightarrow> entitlement_failure + period_usage" where
  "getBillingPeriodUsage b now organizationId billingPeriod =
     (let periodStart = monthStart billingPeriod;
          periodEnd = date_utc (utc_year periodStart) (utc_month periodStart + 1) 1
      in andThen (requireContext b now organizationId) (\<lambda>c.
           Inr \<lparr>pu_billingPeriod = periodStart,
                pu_billableOrders = usage_sum b organizationId periodStart ''BILLABLE_ORDER_COMPLETED'',
                pu_activeStalls =
                  int (count_where (\<lambda>(o', a). o' = organizationId \<and> a) (billing_stalls b)),
                pu_activeStaff = int (length (staff_members b organizationId)),
                pu_activeProducts =
                  int (count_where (\<lambda>(o', a). o' = organizationId \<and> a) (billing_products b)),
                pu_activeQrCodes =
                  int (count_where (\<lambda>(o', st). o' = organizationId \<and> (st = ''ACTIVE'' \<or> st = ''PAUSED''))
                         (billing_qr_codes b)),
                pu_csvExports = usage_sum b organizationId periodStart ''CSV_EXPORTED'',
                pu_orderPackageQuantity = order_package_quantity c periodStart periodEnd\<rparr>))"

definition limit_or :: "EntitlementErrorCode option \<Rightarrow> entitlement_failure + unit" where
  "limit_or code = (case code of Some e \<Rightarrow> Inl (EntitlementError e) | None \<Rightarrow> Inr ())"

text \<open>The branches of \<open>assertLimitAvailable\<close> by metric.\<close>

definition check_stalls :: "subscription_row \<Rightarrow> period_usage \<Rightarrow> int \<Rightarrow> entitlement_failure + unit" where
  "check_stalls c u delta =
     (let v = sb_planVersion c;
          approvedAdditional = sum_of sa_quantity (sb_additionalApprovals c);
          nextValue = pu_activeStalls u + delta
      in andThen (limit_or (evaluateCountLimit nextValue (pv_maxStalls v))) (\<lambda>_.
           let uncapped = (pv_pricingMode v = ''USAGE_PER_STALL_CAPPED''
                 \<and> pv_usageScope v = Some ''STALL'' \<and> pv_maxStalls v = None)
           in if \<not> uncapped \<and> nextValue > pv_includedStalls v + approvedAdditional
              then Inl (EntitlementError ADDITIONAL_STALL_APPROVAL_REQUIRED) else Inr ()))"

definition check_orders :: "subscription_row \<Rightarrow> period_usage \<Rightarrow> int \<Rightarrow> entitlement_failure + unit" where
  "check_orders c u delta =
     (let v = sb_planVersion c in
      case (if sb_status c = ''TRIALING'' then pv_includedOrders v else None) of
        Some included \<Rightarrow>
          if pu_billableOrders u + delta > included
          then Inl (EntitlementError TRIAL_ORDER_LIMIT_REACHED) else Inr ()
      | None \<Rightarrow>
          (case (if pv_emergencyHardCapEnabled v then pv_emergencyHardCapOrders v else None) of
             Some cap \<Rightarrow>
               if pu_billableOrders u + delta > cap + pu_orderPackageQuantity u
               then Inl (EntitlementError ORDER_PACKAGE_REQUIRED) else Inr ()
           | None \<Rightarrow> Inr ()))"

definition check_limit ::
  "BillingMetricCode \<Rightarrow> subscription_row \<Rightarrow> period_usage \<Rightarrow> int \<Rightarrow> entitlement_failure + unit" where
  "check_limit metric c u delta =
     (case metric of
        STALLS \<Rightarrow> check_stalls c u delta
      | BillingMetricCode.STAFF \<Rightarrow>
          limit_or (evaluateCountLimit (pu_activeStaff u + delta) (pv_maxStaff (sb_planVersion c)))
      | PRODUCTS \<Rightarrow>
          limit_or (evaluateCountLimit (pu_activeProducts u + delta) (pv_maxProducts (sb_planVersion c)))
      | QR_CODES \<Rightarrow>
          limit_or (evaluateCountLimit (pu_activeQrCodes u + delta) (pv_maxQrCodes (sb_planVersion c)))
      | ORDERS \<Rightarrow> check_orders c u delta)"

definition assertLimitAvailable ::
  "billing_db \<Rightarrow> instant \<Rightarrow> uid \<Rightarrow> BillingMetricCode \<Rightarrow> int
     \<Rightarrow> entitlement_failure + subscription_row \<times> period_usage option" where
  "assertLimitAvailable b now organizationId metric requestedDelta =
     (if \<not> isSafeInteger requestedDelta \<or> requestedDelta < 0 then Inl TypeError
      else andThen (assertSubscriptionUsable b now organizationId) (\<lambda>c.
        if isOpenBetaFreeAccessEnabled b then Inr (c, None)
        else andThen (getBillingPeriodUsage b now organizationId (sb_billingPeriodStart c)) (\<lambda>u.
          andThen (check_limit metric c u requestedDelta) (\<lambda>_. Inr (c, Some u)))))"

record usage_warning =
  uw_threshold :: int
  uw_used :: int
  uw_limit :: int
  uw_percentage :: int
  uw_severity :: string

definition getUsageWarnings ::
  "billing_db \<Rightarrow> instant \<Rightarrow> uid \<Rightarrow> entitlement_failure + usage_warning list" where
  "getUsageWarnings b now organizationId =
     andThen (requireContext b now organizationId) (\<lambda>c.
       andThen (getBillingPeriodUsage b now organizationId (sb_billingPeriodStart c)) (\<lambda>u.
         case pv_includedOrders (sb_planVersion c) of
           None \<Rightarrow> Inr []
         | Some includedOrders \<Rightarrow>
             let limit = includedOrders
                   + (if sb_status c = ''TRIALING'' then 0 else pu_orderPackageQuantity u)
             in Inr (map (\<lambda>threshold.
                  \<lparr>uw_threshold = threshold, uw_used = pu_billableOrders u, uw_limit = limit,
                   uw_percentage = (if limit = 0 then 100 else (pu_billableOrders u * 100) div limit),
                   uw_severity = (if threshold \<ge> 100 then ''CRITICAL''
                                  else if threshold \<ge> 90 then ''WARNING'' else ''INFO'')\<rparr>)
                  (calculateUsageWarningLevels (pu_billableOrders u) limit))))"

section \<open>Properties\<close>


lemma resolvePlanEntitlements_member:
  assumes "p \<in> set (resolvePlanEntitlements collate v)"
  shows "(\<exists>q \<in> set (pv_entitlements v). en_featureCode q = ee_featureCode p \<and> en_isEnabled q = ee_isEnabled p)
    \<or> ee_featureCode p = ''PRINTER_INTEGRATION'' \<and> pv_version v = 1
       \<and> pv_planCode v \<in> {''PRO'', ''ENTERPRISE''}"
  using assms by (fastforce simp: resolvePlanEntitlements_def Let_def split: if_split_asm)

lemma first_or_else:
  "(case r of Some e \<Rightarrow> if P e then Inr (f e) else q | None \<Rightarrow> q) = Inr x \<Longrightarrow>
     (\<exists>p. r = Some p \<and> P p \<and> x = f p) \<or> q = Inr x"
  by (auto split: option.splits if_splits)

text \<open>C39. A feature is enabled for an organization only if its subscription is usable, and
  then it comes from the open beta, from an enabled entitlement of the plan (the printer
  integration of a first-version PRO or ENTERPRISE plan included), or from an available
  add-on that an active item of the subscription pays for.\<close>

theorem enabled_feature_is_paid_for:
  assumes "assertFeatureEnabled collate b now organizationId featureCode = Inr e"
  shows "ee_featureCode e = featureCode \<and> ee_isEnabled e \<and>
    (\<exists>c. getSubscriptionContext b now organizationId = Some c
       \<and> (if isOpenBetaFreeAccessEnabled b then sb_status c \<in> set usable_statuses
          else evaluateSubscriptionUsability (sb_status c) (sb_trialEndsAt c) now = None
            \<and> ((\<exists>p \<in> set (pv_entitlements (sb_planVersion c)). en_featureCode p = featureCode \<and> en_isEnabled p)
               \<or> featureCode = ''PRINTER_INTEGRATION'' \<and> pv_version (sb_planVersion c) = 1
                  \<and> pv_planCode (sb_planVersion c) \<in> {''PRO'', ''ENTERPRISE''}
               \<or> (\<exists>a \<in> set (add_on_catalog b). ad_featureCode a = Some featureCode \<and> add_on_available a
                    \<and> (\<exists>i \<in> set (sb_items c). it_itemType i = ''ADD_ON'' \<and> it_code i = ad_code a)))))"
proof -
  from assms obtain c where c: "getSubscriptionContext b now organizationId = Some c"
    by (auto simp: assertFeatureEnabled_def requireFeatureEntitlement_def requireContext_def
        andThen_Inr_iff split: option.splits)
  let ?rows = "filter (\<lambda>e. en_featureCode e = featureCode) (pv_entitlements (sb_planVersion c))"
  have add_on_source: "ee_featureCode e = featureCode \<and> ee_isEnabled e
      \<and> (\<exists>a \<in> set (add_on_catalog b). ad_featureCode a = Some featureCode \<and> add_on_available a
           \<and> (\<exists>i \<in> set (sb_items c). it_itemType i = ''ADD_ON'' \<and> it_code i = ad_code a))"
    if "feature_from_add_on b c featureCode = Inr e"
    using that by (fastforce simp: feature_from_add_on_def Let_def add_on_entitlement_def
        split: option.splits if_splits dest!: find_Some_D)
  have printer: "en_featureCode p = featureCode \<and> p \<in> set (pv_entitlements (sb_planVersion c))"
    if "p \<in> set (take 1 ?rows)" for p using that by (auto dest: in_set_takeD)
  show ?thesis
  proof (cases "isOpenBetaFreeAccessEnabled b")
    case True
    with assms c show ?thesis
      by (auto simp: assertFeatureEnabled_def requireFeatureEntitlement_def requireContext_def
          andThen_Inr_iff ensureOpenBetaSubscriptionUsable_def Let_def split: if_splits)
  next
    case False
    from assms c False have use: "evaluateSubscriptionUsability (sb_status c) (sb_trialEndsAt c) now = None"
      by (auto simp: assertFeatureEnabled_def requireFeatureEntitlement_def requireContext_def
          andThen_Inr_iff ensureSubscriptionUsable_def Let_def split: option.splits)
    let ?v = "(sb_planVersion c)\<lparr>pv_entitlements := take 1 ?rows\<rparr>"
    from assms c False use have inner: "(case List.find (\<lambda>e. ee_featureCode e = featureCode)
          (resolvePlanEntitlements collate ?v) of
        Some e \<Rightarrow> if ee_isEnabled e then Inr (e\<lparr>ee_source := PLAN\<rparr>) else feature_from_add_on b c featureCode
      | None \<Rightarrow> feature_from_add_on b c featureCode) = Inr e"
      by (simp add: assertFeatureEnabled_def requireFeatureEntitlement_def requireContext_def
          ensureSubscriptionUsable_def Let_def)
    from first_or_else [OF inner] consider (plan) p where
        "List.find (\<lambda>e. ee_featureCode e = featureCode) (resolvePlanEntitlements collate ?v) = Some p"
        "ee_isEnabled p" "e = p\<lparr>ee_source := PLAN\<rparr>"
      | (addon) "feature_from_add_on b c featureCode = Inr e"
      by blast
    then show ?thesis
    proof cases
      case plan
      note P = find_Some_D [OF plan(1)]
      from P plan(2,3) have e: "ee_featureCode e = featureCode" "ee_isEnabled e" by simp_all
      from resolvePlanEntitlements_member [OF conjunct1 [OF P]] P plan(2)
      have "(\<exists>q \<in> set (take 1 ?rows). en_isEnabled q)
          \<or> featureCode = ''PRINTER_INTEGRATION'' \<and> pv_version (sb_planVersion c) = 1
             \<and> pv_planCode (sb_planVersion c) \<in> {''PRO'', ''ENTERPRISE''}"
        by force
      then have "(\<exists>q \<in> set (pv_entitlements (sb_planVersion c)). en_featureCode q = featureCode \<and> en_isEnabled q)
          \<or> featureCode = ''PRINTER_INTEGRATION'' \<and> pv_version (sb_planVersion c) = 1
             \<and> pv_planCode (sb_planVersion c) \<in> {''PRO'', ''ENTERPRISE''}"
        using printer by blast
      with e use c False show ?thesis by (intro conjI exI [of _ c]) (simp_all, blast)
    next
      case addon
      with add_on_source use c False show ?thesis by simp
    qed
  qed
qed

section \<open>A worked subscription\<close>

definition sample_plan :: plan_version_row where
  "sample_plan =
     \<lparr>pv_version = 2, pv_planCode = ''LITE'',
      pv_entitlements = [\<lparr>en_featureCode = ''REPORTS'', en_isEnabled = False, en_limitValue = None,
                          en_configuration = None\<rparr>],
      pv_pricingMode = ''FLAT'', pv_usageScope = None, pv_includedStalls = 1, pv_maxStalls = Some 3,
      pv_maxStaff = Some 5, pv_maxProducts = None, pv_maxQrCodes = None, pv_includedOrders = Some 100,
      pv_emergencyHardCapEnabled = True, pv_emergencyHardCapOrders = Some 500\<rparr>"

definition sample_billing :: billing_db where
  "sample_billing =
     \<lparr>subscriptions = [\<lparr>sb_organizationId = ''org'', sb_status = ''ACTIVE'', sb_trialEndsAt = None,
         sb_billingPeriodStart = 0, sb_planVersion = sample_plan,
         sb_items = [\<lparr>it_itemType = ''ADD_ON'', it_code = ''ADDON_REPORTS'', it_quantity = 1,
                      it_status = ''ACTIVE'', it_startsAt = 0, it_endsAt = None, it_createdAt = 0\<rparr>],
         sb_additionalApprovals = [\<lparr>sa_quantity = 1, sa_status = ''APPROVED'', sa_effectiveAt = 0,
                                    sa_expiresAt = None\<rparr>]\<rparr>],
      add_on_catalog = [\<lparr>ad_code = ''ADDON_REPORTS'', ad_featureCode = Some ''REPORTS'',
                         ad_isActive = True, ad_availabilityStatus = ''ENABLED''\<rparr>],
      usage_events = [], active_flags = [(''OPEN_BETA_FREE_ACCESS_ENABLED'', False)],
      billing_stalls = [(''org'', True)], billing_products = [], billing_qr_codes = [],
      member_organizations = [], member_stalls = []\<rparr>"

lemma sample_usable:
  "assertSubscriptionUsable sample_billing 10 ''org'' = Inr (hd (subscriptions sample_billing))"
  by code_simp

definition sample_usage :: period_usage where
  "sample_usage = (case getBillingPeriodUsage sample_billing 10 ''org'' 0 of Inr u \<Rightarrow> u | Inl _ \<Rightarrow> undefined)"

lemma sample_usage_read: "getBillingPeriodUsage sample_billing 10 ''org'' 0 = Inr sample_usage"
proof -
  have "case getBillingPeriodUsage sample_billing 10 ''org'' 0 of Inr u \<Rightarrow> True | Inl _ \<Rightarrow> False" by code_simp
  then show ?thesis by (auto simp: sample_usage_def split: sum.splits)
qed

lemma sample_stalls_fit: "check_limit STALLS (hd (subscriptions sample_billing)) sample_usage 1 = Inr ()"
  by code_simp


theorem enabled_feature_is_paid_for_witness:
  "\<exists>e. assertFeatureEnabled (\<lambda>_ _. True) sample_billing 10 ''org'' ''REPORTS'' = Inr e \<and> ee_featureCode e = ''REPORTS''"
proof -
  obtain e where g: "assertFeatureEnabled (\<lambda>_ _. True) sample_billing 10 ''org'' ''REPORTS'' = Inr e"
  proof -
    have "case assertFeatureEnabled (\<lambda>_ _. True) sample_billing 10 ''org'' ''REPORTS'' of Inr _ \<Rightarrow> True | _ \<Rightarrow> False"
      by code_simp
    then show thesis using that by (auto split: sum.splits)
  qed
  from enabled_feature_is_paid_for [OF g] g show ?thesis by blast
qed

end
