(* ===== verification/DeliveryJobs.thy ===== *)
theory DeliveryJobs
  imports JsText Entitlement
begin

text \<open>
  The queue of delivery-platform jobs (\<open>src/src/server/delivery-platforms/sync-job-service.ts\<close>)
  with the feature switches of the providers (\<open>delivery-feature-flags.ts\<close>) and their errors
  (\<open>delivery-platform-errors.ts\<close>): enqueueing under a deduplication key, claiming under a
  lease, the outcome of a claimed job, retries with growing delays, dead letters with their
  alert, and the manual retry. What lies outside the database is in the environment record:
  the provider adapters, the import and the staging of an external order, the stored
  feature flags, and whether this backend may write.
\<close>

section \<open>Values\<close>

datatype json =
  JNull | JBool bool | JNumber int | JString string | JArray "json list"
| JObject "(string \<times> json) list"

datatype DeliveryProvider = UBER_EATS | FOODPANDA | MOCK

datatype DeliveryPlatformErrorCode =
  BACKEND_NOT_WRITABLE | CONNECTION_NOT_FOUND | CONNECTION_STATE_CONFLICT | DUPLICATE_EVENT
| INVALID_CREDENTIALS | INVALID_WEBHOOK | MAPPING_REQUIRED | PERMISSION_DENIED | PROVIDER_DISABLED
| PROVIDER_CONTRACT_ERROR | PROVIDER_NOT_APPROVED | PROVIDER_RESOURCE_NOT_FOUND | PROVIDER_TIMEOUT
| PROVIDER_UNAVAILABLE | RETRYABLE_PROVIDER_ERROR | STORE_NOT_FOUND | UNSUPPORTED_MAPPING

definition permanentErrorCodes :: "DeliveryPlatformErrorCode list" where
  "permanentErrorCodes =
     [CONNECTION_NOT_FOUND, CONNECTION_STATE_CONFLICT, INVALID_CREDENTIALS, INVALID_WEBHOOK,
      MAPPING_REQUIRED, PERMISSION_DENIED, PROVIDER_DISABLED, PROVIDER_CONTRACT_ERROR,
      PROVIDER_NOT_APPROVED, PROVIDER_RESOURCE_NOT_FOUND, STORE_NOT_FOUND, UNSUPPORTED_MAPPING]"

text \<open>A job fails with an error of the platform layer or with any other thrown value.\<close>

datatype delivery_failure = DeliveryPlatformError DeliveryPlatformErrorCode bool | OtherError

definition platform_error :: "DeliveryPlatformErrorCode \<Rightarrow> bool option \<Rightarrow> delivery_failure" where
  "platform_error code retryable =
     DeliveryPlatformError code
       (case retryable of Some r \<Rightarrow> r | None \<Rightarrow> code \<notin> set permanentErrorCodes)"

definition safeDeliveryErrorCode :: "delivery_failure \<Rightarrow> DeliveryPlatformErrorCode" where
  "safeDeliveryErrorCode e =
     (case e of DeliveryPlatformError code _ \<Rightarrow> code | OtherError \<Rightarrow> PROVIDER_UNAVAILABLE)"

section \<open>Tables\<close>

datatype JobStatus =
  PENDING | PROCESSING | SUCCEEDED | RETRY_PENDING | FAILED | DEAD_LETTER | CANCELLED

record sync_job_row =
  sj_id :: uid
  sj_organizationId :: uid
  sj_stallId :: uid
  sj_connectionId :: uid
  sj_provider :: DeliveryProvider
  sj_jobType :: string
  sj_status :: JobStatus
  sj_priority :: int
  sj_deduplicationKey :: string
  sj_requestedViaCircuit :: string
  sj_claimedByWorker :: "string option"
  sj_attemptCount :: int
  sj_maxAttempts :: int
  sj_scheduledAt :: instant
  sj_startedAt :: "instant option"
  sj_completedAt :: "instant option"
  sj_nextAttemptAt :: "instant option"
  sj_lastErrorCode :: "string option"
  sj_inputJson :: json
  sj_resultJson :: "json option"
  sj_createdAt :: instant
  sj_updatedAt :: instant

record connection_row =
  dc_id :: uid
  dc_organizationId :: uid
  dc_stallId :: uid
  dc_provider :: DeliveryProvider
  dc_status :: string
  dc_lastSuccessfulSyncAt :: "instant option"
  dc_lastErrorCode :: "string option"
  dc_lastErrorAt :: "instant option"

record external_order_row =
  eo_id :: uid
  eo_organizationId :: uid
  eo_stallId :: uid
  eo_connectionId :: uid
  eo_provider :: DeliveryProvider
  eo_externalOrderId :: string
  eo_internalOrderId :: "uid option"
  eo_externalStatus :: string
  eo_processingStatus :: string
  eo_acceptedAt :: "instant option"
  eo_rejectedAt :: "instant option"
  eo_completedAt :: "instant option"
  eo_lastSyncedAt :: "instant option"

record alert_row =
  al_organizationId :: uid
  al_stallId :: uid
  al_alertType :: string
  al_status :: string
  al_detectedAt :: instant

record delivery_db =
  sync_jobs :: "sync_job_row list"
  connections :: "connection_row list"
  external_orders :: "external_order_row list"
  alerts :: "alert_row list"

record action_input =
  ac_externalOrderId :: string
  ac_idempotencyKey :: string
  ac_reasonCode :: "string option"

record enqueue_input =
  ei_organizationId :: uid
  ei_stallId :: uid
  ei_connectionId :: uid
  ei_provider :: DeliveryProvider
  ei_jobType :: string
  ei_deduplicationKey :: string
  ei_requestedViaCircuit :: string
  ei_inputJson :: json
  ei_priority :: "int option"
  ei_maxAttempts :: "int option"

record delivery_env =
  de_flags :: "uid \<Rightarrow> uid \<Rightarrow> (string \<Rightarrow> bool) option"
  de_production :: bool
  de_writable :: bool
  de_capabilities :: "DeliveryProvider \<Rightarrow> string list"
  de_action :: "string \<Rightarrow> connection_row \<Rightarrow> action_input \<Rightarrow> delivery_failure option"
  de_import :: "sync_job_row \<Rightarrow> delivery_failure + json"
  de_fetch :: "sync_job_row \<Rightarrow> connection_row \<Rightarrow> delivery_failure + json \<times> enqueue_input option"
  de_collate :: "string \<Rightarrow> string \<Rightarrow> bool"

section \<open>Feature switches\<close>

record delivery_features =
  df_foundation :: bool
  df_ui :: bool
  df_importOrders :: bool
  df_providerActions :: bool
  df_menuSync :: bool
  df_providerEnabled :: bool
  df_orders :: bool
  df_oauth :: bool
  df_api :: bool
  df_webhook :: bool
  df_catalogRead :: bool
  df_catalogWrite :: bool
  df_itemWrite :: bool
  df_outlet :: bool
  df_storeRead :: bool
  df_storeActivation :: bool
  df_holidayHours :: bool
  df_reports :: bool
  df_orderReady :: bool
  df_orderReadyTime :: bool
  df_fulfillmentIssues :: bool
  df_productCreateBeta :: bool

definition all_features_off :: delivery_features where
  "all_features_off =
     \<lparr>df_foundation = False, df_ui = False, df_importOrders = False, df_providerActions = False,
      df_menuSync = False, df_providerEnabled = False, df_orders = False, df_oauth = False,
      df_api = False, df_webhook = False, df_catalogRead = False, df_catalogWrite = False,
      df_itemWrite = False, df_outlet = False, df_storeRead = False, df_storeActivation = False,
      df_holidayHours = False, df_reports = False, df_orderReady = False,
      df_orderReadyTime = False, df_fulfillmentIssues = False, df_productCreateBeta = False\<rparr>"

text \<open>A choice by provider, Uber Eats first.\<close>

definition by_provider :: "DeliveryProvider \<Rightarrow> bool \<Rightarrow> bool \<Rightarrow> bool \<Rightarrow> bool" where
  "by_provider p uber panda other =
     (case p of UBER_EATS \<Rightarrow> uber | FOODPANDA \<Rightarrow> panda | MOCK \<Rightarrow> other)"

definition resolveDeliveryFeatureState ::
  "delivery_env \<Rightarrow> DeliveryProvider \<Rightarrow> uid \<Rightarrow> uid \<Rightarrow> delivery_features" where
  "resolveDeliveryFeatureState env provider organizationId stallId =
     (case de_flags env organizationId stallId of
        None \<Rightarrow> all_features_off
      | Some flag \<Rightarrow>
          let mock = (flag ''DELIVERY_MOCK_PROVIDER_ENABLED'' \<and> \<not> de_production env);
              mockEnabled = (provider = MOCK \<and> mock);
              uber = (provider = UBER_EATS); panda = (provider = FOODPANDA);
              orders = by_provider provider (flag ''UBER_EATS_ORDERS_ENABLED'')
                (flag ''FOODPANDA_ORDERS_ENABLED'') mockEnabled
          in \<lparr>df_foundation = flag ''DELIVERY_PLATFORM_FOUNDATION_ENABLED'',
              df_ui = flag ''DELIVERY_PLATFORM_UI_ENABLED'',
              df_importOrders = flag ''DELIVERY_EXTERNAL_ORDER_IMPORT_ENABLED'',
              df_providerActions = flag ''DELIVERY_PROVIDER_ACTIONS_ENABLED'',
              df_menuSync = flag ''DELIVERY_MENU_SYNC_ENABLED'',
              df_providerEnabled = by_provider provider (flag ''UBER_EATS_INTEGRATION_ENABLED'')
                (flag ''FOODPANDA_INTEGRATION_ENABLED'') mock,
              df_orders = orders,
              df_oauth = (uber \<and> flag ''UBER_EATS_OAUTH_ENABLED''),
              df_api = by_provider provider (flag ''UBER_EATS_API_ENABLED'')
                (flag ''FOODPANDA_PARTNER_API_ENABLED'') mock,
              df_webhook = by_provider provider (flag ''UBER_EATS_API_ENABLED'' \<and> orders)
                (flag ''FOODPANDA_WEBHOOK_ENABLED'' \<and> orders) mockEnabled,
              df_catalogRead = by_provider provider (flag ''UBER_EATS_MENU_READ_ENABLED'')
                (flag ''FOODPANDA_CATALOG_READ_ENABLED'') mockEnabled,
              df_catalogWrite = by_provider provider (flag ''UBER_EATS_MENU_FULL_WRITE_ENABLED'')
                (flag ''FOODPANDA_CATALOG_WRITE_ENABLED'') mockEnabled,
              df_itemWrite = by_provider provider (flag ''UBER_EATS_MENU_ITEM_WRITE_ENABLED'')
                (flag ''FOODPANDA_CATALOG_WRITE_ENABLED'') mockEnabled,
              df_outlet = by_provider provider (flag ''UBER_EATS_STORE_STATUS_WRITE_ENABLED'')
                (flag ''FOODPANDA_OUTLET_ENABLED'') mockEnabled,
              df_storeRead = by_provider provider (flag ''UBER_EATS_STORE_READ_ENABLED'')
                (flag ''FOODPANDA_PARTNER_API_ENABLED'') mockEnabled,
              df_storeActivation = (uber \<and> flag ''UBER_EATS_STORE_ACTIVATION_ENABLED''),
              df_holidayHours = (uber \<and> flag ''UBER_EATS_HOLIDAY_HOURS_WRITE_ENABLED''),
              df_reports = (uber \<and> flag ''UBER_EATS_REPORTS_READ_ENABLED''),
              df_orderReady = by_provider provider (flag ''UBER_EATS_ORDER_READY_ENABLED'') orders False,
              df_orderReadyTime = (uber \<and> flag ''UBER_EATS_ORDER_READY_TIME_ENABLED''),
              df_fulfillmentIssues = (uber \<and> flag ''UBER_EATS_FULFILLMENT_ISSUES_ENABLED''),
              df_productCreateBeta = (panda \<and> flag ''FOODPANDA_PRODUCT_CREATE_BETA_ENABLED'')\<rparr>)"

definition assertDeliveryProviderEnabled ::
  "delivery_env \<Rightarrow> DeliveryProvider \<Rightarrow> uid \<Rightarrow> uid \<Rightarrow> delivery_failure + delivery_features" where
  "assertDeliveryProviderEnabled env provider organizationId stallId =
     (let state = resolveDeliveryFeatureState env provider organizationId stallId
      in if \<not> df_foundation state \<or> \<not> df_providerEnabled state
         then Inl (platform_error PROVIDER_DISABLED (Some False)) else Inr state)"

section \<open>Enqueueing\<close>

definition job_checks :: "sync_job_row \<Rightarrow> bool" where
  "job_checks j \<longleftrightarrow>
     0 \<le> sj_priority j \<and> sj_priority j \<le> 1000
     \<and> 8 \<le> js_length (sj_deduplicationKey j) \<and> js_length (sj_deduplicationKey j) \<le> 240
     \<and> 1 \<le> sj_maxAttempts j \<and> sj_maxAttempts j \<le> 20"

definition connection_of :: "sync_job_row \<Rightarrow> connection_row \<Rightarrow> bool" where
  "connection_of j c \<longleftrightarrow>
     dc_id c = sj_connectionId j \<and> dc_organizationId c = sj_organizationId j
     \<and> dc_stallId c = sj_stallId j \<and> dc_provider c = sj_provider j"

definition deduplication :: "sync_job_row \<Rightarrow> uid \<times> DeliveryProvider \<times> string" where
  "deduplication j = (sj_connectionId j, sj_provider j, sj_deduplicationKey j)"

definition new_job :: "enqueue_input \<Rightarrow> uid \<Rightarrow> instant \<Rightarrow> sync_job_row" where
  "new_job i newId now =
     \<lparr>sj_id = newId, sj_organizationId = ei_organizationId i, sj_stallId = ei_stallId i,
      sj_connectionId = ei_connectionId i, sj_provider = ei_provider i, sj_jobType = ei_jobType i,
      sj_status = JobStatus.PENDING,
      sj_priority = (case ei_priority i of None \<Rightarrow> 100 | Some p \<Rightarrow> p),
      sj_deduplicationKey = ei_deduplicationKey i,
      sj_requestedViaCircuit = ei_requestedViaCircuit i, sj_claimedByWorker = None,
      sj_attemptCount = 0,
      sj_maxAttempts = (case ei_maxAttempts i of None \<Rightarrow> 5 | Some n \<Rightarrow> n),
      sj_scheduledAt = now, sj_startedAt = None, sj_completedAt = None, sj_nextAttemptAt = None,
      sj_lastErrorCode = None, sj_inputJson = ei_inputJson i, sj_resultJson = None,
      sj_createdAt = now, sj_updatedAt = now\<rparr>"

text \<open>The row is created, or the row that already has the deduplication key is returned.\<close>

definition enqueueDeliverySyncJob ::
  "delivery_env \<Rightarrow> enqueue_input \<Rightarrow> uid \<Rightarrow> instant \<Rightarrow> delivery_db
     \<Rightarrow> delivery_failure + delivery_db \<times> sync_job_row" where
  "enqueueDeliverySyncJob env i newId now d =
     (let j = new_job i newId now in
      if \<not> de_writable env then Inl (platform_error BACKEND_NOT_WRITABLE (Some True))
      else if \<not> job_checks j \<or> newId \<in> set (map sj_id (sync_jobs d)) then Inl OtherError
      else case List.find (\<lambda>r. deduplication r = deduplication j) (sync_jobs d) of
        Some existing \<Rightarrow> Inr (d, existing)
      | None \<Rightarrow>
          if \<not> list_ex (connection_of j) (connections d) then Inl OtherError
          else Inr (d\<lparr>sync_jobs := sync_jobs d @ [j]\<rparr>, j))"

section \<open>Claiming\<close>

definition lease_expired :: "instant \<Rightarrow> sync_job_row \<Rightarrow> bool" where
  "lease_expired now j \<longleftrightarrow> sj_status j = PROCESSING \<and> sj_updatedAt j < now - 10 * 60000"

definition expire_lease :: "instant \<Rightarrow> sync_job_row \<Rightarrow> sync_job_row" where
  "expire_lease now j =
     j\<lparr>sj_status := (if sj_attemptCount j \<ge> sj_maxAttempts j then DEAD_LETTER else RETRY_PENDING),
       sj_nextAttemptAt := (if sj_attemptCount j \<ge> sj_maxAttempts j then None else Some now),
       sj_lastErrorCode := Some ''WORKER_LEASE_EXPIRED'', sj_claimedByWorker := None,
       sj_updatedAt := now\<rparr>"

definition claimable :: "instant \<Rightarrow> sync_job_row \<Rightarrow> bool" where
  "claimable now j \<longleftrightarrow>
     sj_attemptCount j < sj_maxAttempts j
     \<and> (sj_status j = JobStatus.PENDING \<and> sj_scheduledAt j \<le> now
        \<or> sj_status j = RETRY_PENDING
          \<and> (case sj_nextAttemptAt j of None \<Rightarrow> False | Some t \<Rightarrow> t \<le> now))"

definition claim_row :: "string \<Rightarrow> instant \<Rightarrow> sync_job_row \<Rightarrow> sync_job_row" where
  "claim_row workerId now j =
     j\<lparr>sj_status := PROCESSING, sj_claimedByWorker := Some workerId,
       sj_attemptCount := sj_attemptCount j + 1, sj_startedAt := Some now,
       sj_nextAttemptAt := None, sj_updatedAt := now\<rparr>"

definition candidates :: "instant \<Rightarrow> int \<Rightarrow> sync_job_row list \<Rightarrow> sync_job_row list" where
  "candidates now limit js =
     take (nat (min (max limit 1) 50))
       (sort_key (\<lambda>j. (sj_priority j, sj_scheduledAt j, sj_createdAt j)) (filter (claimable now) js))"

definition claimDeliverySyncJobs ::
  "delivery_env \<Rightarrow> string \<Rightarrow> instant \<Rightarrow> int \<Rightarrow> delivery_db
     \<Rightarrow> delivery_failure + delivery_db \<times> sync_job_row list" where
  "claimDeliverySyncJobs env workerId now limit d =
     (if \<not> de_writable env then Inl (platform_error BACKEND_NOT_WRITABLE (Some True))
      else
        let js = update_where (lease_expired now) (expire_lease now) (sync_jobs d);
            ids = map sj_id (candidates now limit js);
            js' = update_where (\<lambda>j. sj_id j \<in> set ids) (claim_row workerId now) js
        in Inr (d\<lparr>sync_jobs := js'\<rparr>,
                sort_key (\<lambda>j. (sj_priority j, sj_createdAt j))
                  (filter (\<lambda>j. sj_id j \<in> set ids) js')))"

section \<open>The body of a job\<close>

definition obj_field :: "string \<Rightarrow> json \<Rightarrow> json option" where
  "obj_field name v = (case v of JObject kvs \<Rightarrow> map_of kvs name | _ \<Rightarrow> None)"

text \<open>\<open>s.slice(0, n)\<close>, by code units of whole characters.\<close>

fun js_take :: "nat \<Rightarrow> string \<Rightarrow> string" where
  "js_take n [] = []"
| "js_take n (c # s) =
     (if js_length [c] \<le> n then c # js_take (n - js_length [c]) s else [])"

definition unsupported :: delivery_failure where
  "unsupported = platform_error UNSUPPORTED_MAPPING (Some False)"

definition parseProviderActionInput :: "json \<Rightarrow> delivery_failure + action_input" where
  "parseProviderActionInput v =
     (case (obj_field ''externalOrderId'' v, obj_field ''idempotencyKey'' v) of
        (Some (JString e), Some (JString k)) \<Rightarrow>
          if e = [] \<or> js_length e > 200 \<or> js_length k < 8 \<or> js_length k > 240 then Inl unsupported
          else
            (case obj_field ''reasonCode'' v of
               None \<Rightarrow> Inr \<lparr>ac_externalOrderId = e, ac_idempotencyKey = k, ac_reasonCode = None\<rparr>
             | Some JNull \<Rightarrow> Inr \<lparr>ac_externalOrderId = e, ac_idempotencyKey = k, ac_reasonCode = None\<rparr>
             | Some (JString r) \<Rightarrow>
                 Inr \<lparr>ac_externalOrderId = e, ac_idempotencyKey = k, ac_reasonCode = Some (js_take 80 r)\<rparr>
             | _ \<Rightarrow> Inl unsupported)
      | _ \<Rightarrow> Inl unsupported)"

definition adapter_available :: "delivery_env \<Rightarrow> DeliveryProvider \<Rightarrow> bool" where
  "adapter_available env provider \<longleftrightarrow> \<not> (provider = MOCK \<and> de_production env)"

definition provider_actions :: "string list" where
  "provider_actions = [''ORDER_ACCEPT'', ''ORDER_REJECT'', ''ORDER_PREPARING'', ''ORDER_READY'']"

definition executeProviderJob ::
  "delivery_env \<Rightarrow> sync_job_row \<Rightarrow> connection_row \<Rightarrow> delivery_failure + json" where
  "executeProviderJob env job connection =
     (if \<not> adapter_available env (sj_provider job)
      then Inl (platform_error PROVIDER_DISABLED (Some False))
      else andThen (parseProviderActionInput (sj_inputJson job)) (\<lambda>input.
        if sj_jobType job \<notin> set provider_actions
        then Inl (platform_error PROVIDER_DISABLED (Some False))
        else case de_action env (sj_jobType job) connection input of
          Some e \<Rightarrow> Inl e
        | None \<Rightarrow> Inr (JObject [(''providerAcknowledged'', JBool True),
                                (''jobType'', JString (sj_jobType job))])))"

definition require_feature ::
  "delivery_env \<Rightarrow> billing_db \<Rightarrow> instant \<Rightarrow> uid \<Rightarrow> string \<Rightarrow> delivery_failure + unit" where
  "require_feature env b now organizationId featureCode =
     (case assertFeatureEnabled (de_collate env) b now organizationId featureCode of
        Inl _ \<Rightarrow> Inl OtherError | Inr _ \<Rightarrow> Inr ())"

definition assertJobFeatureAccess ::
  "delivery_env \<Rightarrow> billing_db \<Rightarrow> instant \<Rightarrow> sync_job_row \<Rightarrow> delivery_features \<Rightarrow> delivery_failure + unit" where
  "assertJobFeatureAccess env b now job state =
     (let disabled = platform_error PROVIDER_DISABLED (Some False);
          feature = require_feature env b now (sj_organizationId job)
      in if sj_jobType job = ''ORDER_FETCH'' \<or> sj_jobType job = ''ORDER_IMPORT''
         then (if \<not> df_importOrders state \<or> \<not> df_webhook state \<or> \<not> df_orders state
               then Inl disabled else feature ''DELIVERY_ORDER_IMPORT'')
         else if prefix ''MENU_'' (sj_jobType job) \<or> sj_jobType job = ''AVAILABILITY_SYNC''
         then (if \<not> df_menuSync state then Inl disabled else feature ''DELIVERY_MENU_SYNC'')
         else if prefix ''ORDER_'' (sj_jobType job)
         then (if \<not> df_providerActions state then Inl disabled
               else feature ''DELIVERY_PLATFORM_INTEGRATIONS'')
         else Inr ())"

definition job_body ::
  "delivery_env \<Rightarrow> billing_db \<Rightarrow> instant \<Rightarrow> delivery_db \<Rightarrow> sync_job_row
     \<Rightarrow> delivery_failure + json \<times> enqueue_input option" where
  "job_body env b now d job =
     andThen (assertDeliveryProviderEnabled env (sj_provider job) (sj_organizationId job) (sj_stallId job))
       (\<lambda>featureState. andThen (assertJobFeatureAccess env b now job featureState) (\<lambda>_.
          case List.find (connection_of job) (connections d) of
            None \<Rightarrow> Inl (platform_error CONNECTION_NOT_FOUND (Some False))
          | Some connection \<Rightarrow>
              if dc_status connection \<noteq> ''ACTIVE''
              then Inl (platform_error CONNECTION_STATE_CONFLICT (Some False))
              else if sj_jobType job = ''ORDER_IMPORT''
                then andThen (de_import env job) (\<lambda>result. Inr (result, None))
              else if sj_jobType job = ''ORDER_FETCH'' then de_fetch env job connection
              else andThen (executeProviderJob env job connection) (\<lambda>result. Inr (result, None))))"

section \<open>The outcome of a job\<close>

definition deliveryRetryAt :: "int \<Rightarrow> bool \<Rightarrow> instant \<Rightarrow> instant option" where
  "deliveryRetryAt attemptCount retryable now =
     (if \<not> retryable then None
      else
        let delaysMinutes = [1, 5, 15, 60, 360 :: int];
            delay = delaysMinutes ! nat (min (max (attemptCount - 1) 0) (int (length delaysMinutes) - 1))
        in Some (now + delay * 60000))"

fun error_code_text :: "DeliveryPlatformErrorCode \<Rightarrow> string" where
  "error_code_text BACKEND_NOT_WRITABLE = ''BACKEND_NOT_WRITABLE''"
| "error_code_text CONNECTION_NOT_FOUND = ''CONNECTION_NOT_FOUND''"
| "error_code_text CONNECTION_STATE_CONFLICT = ''CONNECTION_STATE_CONFLICT''"
| "error_code_text DUPLICATE_EVENT = ''DUPLICATE_EVENT''"
| "error_code_text INVALID_CREDENTIALS = ''INVALID_CREDENTIALS''"
| "error_code_text INVALID_WEBHOOK = ''INVALID_WEBHOOK''"
| "error_code_text MAPPING_REQUIRED = ''MAPPING_REQUIRED''"
| "error_code_text PERMISSION_DENIED = ''PERMISSION_DENIED''"
| "error_code_text PROVIDER_DISABLED = ''PROVIDER_DISABLED''"
| "error_code_text PROVIDER_CONTRACT_ERROR = ''PROVIDER_CONTRACT_ERROR''"
| "error_code_text PROVIDER_NOT_APPROVED = ''PROVIDER_NOT_APPROVED''"
| "error_code_text PROVIDER_RESOURCE_NOT_FOUND = ''PROVIDER_RESOURCE_NOT_FOUND''"
| "error_code_text PROVIDER_TIMEOUT = ''PROVIDER_TIMEOUT''"
| "error_code_text PROVIDER_UNAVAILABLE = ''PROVIDER_UNAVAILABLE''"
| "error_code_text RETRYABLE_PROVIDER_ERROR = ''RETRYABLE_PROVIDER_ERROR''"
| "error_code_text STORE_NOT_FOUND = ''STORE_NOT_FOUND''"
| "error_code_text UNSUPPORTED_MAPPING = ''UNSUPPORTED_MAPPING''"

definition createDeliveryAlert ::
  "sync_job_row \<Rightarrow> string \<Rightarrow> instant \<Rightarrow> delivery_db \<Rightarrow> delivery_db" where
  "createDeliveryAlert job alertType now d =
     (if list_ex (\<lambda>a. al_organizationId a = sj_organizationId job \<and> al_stallId a = sj_stallId job
                    \<and> al_alertType a = alertType \<and> al_status a = ''ACTIVE'') (alerts d)
      then d
      else d\<lparr>alerts := alerts d @
             [\<lparr>al_organizationId = sj_organizationId job, al_stallId = sj_stallId job,
               al_alertType = alertType, al_status = ''ACTIVE'', al_detectedAt = now\<rparr>]\<rparr>)"

definition retry_time :: "sync_job_row \<Rightarrow> delivery_failure \<Rightarrow> instant \<Rightarrow> instant option" where
  "retry_time job e now =
     (if sj_attemptCount job < sj_maxAttempts job
      then deliveryRetryAt (sj_attemptCount job)
             (case e of DeliveryPlatformError _ retryable \<Rightarrow> retryable | OtherError \<Rightarrow> True) now
      else None)"

definition failed_row ::
  "DeliveryPlatformErrorCode \<Rightarrow> instant option \<Rightarrow> instant \<Rightarrow> sync_job_row \<Rightarrow> sync_job_row" where
  "failed_row code nextAttemptAt now j =
     j\<lparr>sj_status := (if nextAttemptAt = None then DEAD_LETTER else RETRY_PENDING),
       sj_claimedByWorker := None,
       sj_completedAt := (if nextAttemptAt = None then Some now else None),
       sj_nextAttemptAt := nextAttemptAt,
       sj_lastErrorCode := Some (error_code_text code), sj_updatedAt := now\<rparr>"

text \<open>The failure is recorded in a transaction of its own; its own failure is thrown.\<close>

definition failDeliveryJob ::
  "delivery_env \<Rightarrow> sync_job_row \<Rightarrow> delivery_failure \<Rightarrow> instant \<Rightarrow> delivery_db
     \<Rightarrow> delivery_db \<times> (delivery_failure + JobStatus)" where
  "failDeliveryJob env job e now d =
     (if \<not> de_writable env then (d, Inl (platform_error BACKEND_NOT_WRITABLE (Some True)))
      else
        let code = safeDeliveryErrorCode e; nextAttemptAt = retry_time job e now;
            d1 = d\<lparr>sync_jobs := update_where (\<lambda>j. sj_id j = sj_id job)
                     (failed_row code nextAttemptAt now) (sync_jobs d),
                   connections := update_where (\<lambda>c. dc_id c = sj_connectionId job)
                     (\<lambda>c. c\<lparr>dc_lastErrorCode := Some (error_code_text code), dc_lastErrorAt := Some now\<rparr>)
                     (connections d)\<rparr>
        in if nextAttemptAt = None
           then (createDeliveryAlert job ''DELIVERY_JOB_DEAD_LETTER'' now d1, Inr DEAD_LETTER)
           else (d1, Inr RETRY_PENDING))"

definition succeeded_row :: "json \<Rightarrow> instant \<Rightarrow> sync_job_row \<Rightarrow> sync_job_row" where
  "succeeded_row result now j =
     j\<lparr>sj_status := JobStatus.SUCCEEDED, sj_completedAt := Some now, sj_claimedByWorker := None,
       sj_lastErrorCode := None, sj_resultJson := Some result, sj_updatedAt := now\<rparr>"

definition succeed_job :: "sync_job_row \<Rightarrow> json \<Rightarrow> instant \<Rightarrow> delivery_db \<Rightarrow> delivery_db" where
  "succeed_job job result now d =
     d\<lparr>sync_jobs := update_where (\<lambda>j. sj_id j = sj_id job) (succeeded_row result now) (sync_jobs d),
       connections := update_where (\<lambda>c. dc_id c = sj_connectionId job)
         (\<lambda>c. c\<lparr>dc_lastSuccessfulSyncAt := Some now, dc_lastErrorCode := None, dc_lastErrorAt := None\<rparr>)
         (connections d)\<rparr>"

text \<open>A job that is not \<open>PROCESSING\<close> is skipped (\<open>None\<close>). A staged order enqueues its import
  before the job succeeds.\<close>

definition processClaimedDeliverySyncJob ::
  "delivery_env \<Rightarrow> billing_db \<Rightarrow> uid \<Rightarrow> sync_job_row \<Rightarrow> instant \<Rightarrow> delivery_db
     \<Rightarrow> delivery_db \<times> (delivery_failure + JobStatus option)" where
  "processClaimedDeliverySyncJob env b newId job now d =
     (if sj_status job \<noteq> PROCESSING then (d, Inr None)
      else
        let failing = (\<lambda>e. let (d', r) = failDeliveryJob env job e now d
                           in (d', andThen r (\<lambda>s. Inr (Some s))))
        in case job_body env b now d job of
             Inl e \<Rightarrow> failing e
           | Inr (result, staged) \<Rightarrow>
               if \<not> de_writable env then failing (platform_error BACKEND_NOT_WRITABLE (Some True))
               else
                 (case staged of
                    None \<Rightarrow> (succeed_job job result now d, Inr (Some JobStatus.SUCCEEDED))
                  | Some i \<Rightarrow>
                      (case enqueueDeliverySyncJob env i newId now d of
                         Inl e \<Rightarrow> failing e
                       | Inr (d1, _) \<Rightarrow>
                           (succeed_job job result now d1, Inr (Some JobStatus.SUCCEEDED)))))"

fun process_all ::
  "delivery_env \<Rightarrow> billing_db \<Rightarrow> (sync_job_row \<times> uid) list \<Rightarrow> instant \<Rightarrow> delivery_db
     \<Rightarrow> delivery_db \<times> (delivery_failure + JobStatus option) list" where
  "process_all env b [] now d = (d, [])"
| "process_all env b ((job, newId) # js) now d =
     (let (d1, r) = processClaimedDeliverySyncJob env b newId job now d;
          (d2, rs) = process_all env b js now d1
      in (d2, r # rs))"

text \<open>\<open>Promise.all\<close> over the claimed jobs, run in their order; \<open>newIds\<close> supplies the identifiers
  of the rows that staging creates.\<close>

definition processDueDeliverySyncJobs ::
  "delivery_env \<Rightarrow> billing_db \<Rightarrow> (sync_job_row \<Rightarrow> uid) \<Rightarrow> string \<Rightarrow> instant \<Rightarrow> int \<Rightarrow> delivery_db
     \<Rightarrow> delivery_db \<times> (delivery_failure + (delivery_failure + JobStatus option) list)" where
  "processDueDeliverySyncJobs env b newIds workerId now limit d =
     (case claimDeliverySyncJobs env workerId now limit d of
        Inl e \<Rightarrow> (d, Inl e)
      | Inr (d1, js) \<Rightarrow>
          let (d2, rs) = process_all env b (map (\<lambda>j. (j, newIds j)) js) now d1 in (d2, Inr rs))"

definition retried_row :: "instant \<Rightarrow> sync_job_row \<Rightarrow> sync_job_row" where
  "retried_row now j =
     j\<lparr>sj_status := RETRY_PENDING, sj_attemptCount := 0, sj_nextAttemptAt := Some now,
       sj_completedAt := None, sj_claimedByWorker := None, sj_lastErrorCode := None,
       sj_updatedAt := now\<rparr>"

definition retryDeliverySyncJob ::
  "delivery_env \<Rightarrow> uid \<Rightarrow> instant \<Rightarrow> delivery_db \<Rightarrow> delivery_failure + delivery_db \<times> sync_job_row" where
  "retryDeliverySyncJob env jobId now d =
     (if \<not> de_writable env then Inl (platform_error BACKEND_NOT_WRITABLE (Some True))
      else case List.find (\<lambda>j. sj_id j = jobId) (sync_jobs d) of
        None \<Rightarrow> Inl (platform_error CONNECTION_NOT_FOUND (Some False))
      | Some job \<Rightarrow>
          if sj_status job \<notin> {JobStatus.FAILED, DEAD_LETTER, JobStatus.CANCELLED}
          then Inl (platform_error CONNECTION_STATE_CONFLICT (Some False))
          else Inr (d\<lparr>sync_jobs := update_where (\<lambda>j. sj_id j = jobId) (retried_row now) (sync_jobs d)\<rparr>,
                    retried_row now job))"

end
