(* ===== verification/DeliveryQueue.thy ===== *)
theory DeliveryQueue
  imports DeliveryJobs "HOL-Library.Multiset"
begin

text \<open>
  What the queue of \<open>DeliveryJobs\<close> guarantees: its well-formedness, the exclusive lease of a
  claimed job, the bound on the attempts, and that repeated runs of the worker close every
  job.
\<close>

section \<open>Well-formed queues\<close>

definition job_ok :: "sync_job_row \<Rightarrow> bool" where
  "job_ok j \<longleftrightarrow>
     0 \<le> sj_attemptCount j \<and> sj_attemptCount j \<le> sj_maxAttempts j
     \<and> (sj_status j = PROCESSING \<longrightarrow> 1 \<le> sj_attemptCount j \<and> sj_startedAt j \<noteq> None)
     \<and> (sj_status j = PROCESSING \<longleftrightarrow> sj_claimedByWorker j \<noteq> None)
     \<and> (sj_status j = RETRY_PENDING \<longrightarrow> sj_nextAttemptAt j \<noteq> None)"

definition jobs_ok :: "sync_job_row list \<Rightarrow> bool" where
  "jobs_ok js \<longleftrightarrow> list_all job_ok js \<and> distinct (map sj_id js) \<and> distinct (map deduplication js)"

text \<open>An update of rows that leaves the keys of the table alone.\<close>

definition keeps_keys :: "(sync_job_row \<Rightarrow> sync_job_row) \<Rightarrow> bool" where
  "keeps_keys f \<longleftrightarrow> (\<forall>j. sj_id (f j) = sj_id j \<and> deduplication (f j) = deduplication j)"

lemma keeps_keysD: "keeps_keys f \<Longrightarrow> sj_id (f j) = sj_id j" "keeps_keys f \<Longrightarrow> deduplication (f j) = deduplication j"
  by (simp_all add: keeps_keys_def)

lemma row_updates_keep_keys [simp]:
  "keeps_keys (expire_lease now)" "keeps_keys (claim_row w now)" "keeps_keys (retried_row now)"
  "keeps_keys (failed_row c n now)" "keeps_keys (succeeded_row r now)"
  by (simp_all add: keeps_keys_def deduplication_def expire_lease_def claim_row_def retried_row_def
      failed_row_def succeeded_row_def)

lemma jobs_ok_update:
  assumes "jobs_ok js" and "keeps_keys f" and "\<And>j. j \<in> set js \<Longrightarrow> job_ok j \<Longrightarrow> p j \<Longrightarrow> job_ok (f j)"
  shows "jobs_ok (update_where p f js)"
proof -
  have "map sj_id (update_where p f js) = map sj_id js"
    "map deduplication (update_where p f js) = map deduplication js"
    using assms(2) by (auto intro!: map_update_where_same simp: keeps_keysD)
  with assms(1,3) show ?thesis
    by (auto simp: jobs_ok_def list_all_iff in_update_where)
qed

lemma row_updates_ok [simp]:
  "job_ok j \<Longrightarrow> lease_expired now j \<Longrightarrow> job_ok (expire_lease now j)"
  "job_ok j \<Longrightarrow> claimable now j \<Longrightarrow> job_ok (claim_row w now j)"
  "job_ok j \<Longrightarrow> job_ok (retried_row now j)"
  "job_ok j \<Longrightarrow> job_ok (failed_row c n now j)"
  "job_ok j \<Longrightarrow> job_ok (succeeded_row r now j)"
  by (auto simp: job_ok_def expire_lease_def lease_expired_def claim_row_def claimable_def
      retried_row_def failed_row_def succeeded_row_def)

lemma in_candidates:
  "j \<in> set (candidates now limit js) \<Longrightarrow> j \<in> set js \<and> claimable now j"
  by (auto simp: candidates_def dest: in_set_takeD)

lemma same_id: "distinct (map sj_id js) \<Longrightarrow> i \<in> set js \<Longrightarrow> j \<in> set js \<Longrightarrow> sj_id i = sj_id j \<Longrightarrow> i = j"
  by (metis distinct_map inj_onD)

lemma candidate_by_id:
  assumes "distinct (map sj_id js)" and "j \<in> set js"
    and "sj_id j \<in> set (map sj_id (candidates now limit js))"
  shows "claimable now j"
proof -
  from assms(3) obtain c where c: "c \<in> set (candidates now limit js)" "sj_id c = sj_id j" by auto
  with in_candidates [OF c(1)] same_id [OF assms(1) _ assms(2)] show ?thesis by blast
qed

text \<open>The claim as two row updates.\<close>

definition claimed_ids :: "instant \<Rightarrow> int \<Rightarrow> sync_job_row list \<Rightarrow> uid set" where
  "claimed_ids now limit js =
     set (map sj_id (candidates now limit (update_where (lease_expired now) (expire_lease now) js)))"

lemma claim_InrD:
  assumes "claimDeliverySyncJobs env w now limit d = Inr (d', js)"
  shows "d' = d\<lparr>sync_jobs := update_where (\<lambda>j. sj_id j \<in> claimed_ids now limit (sync_jobs d)) (claim_row w now)
             (update_where (lease_expired now) (expire_lease now) (sync_jobs d))\<rparr>"
    "set js = {j \<in> set (sync_jobs d'). sj_id j \<in> claimed_ids now limit (sync_jobs d)}"
    "js = sort_key (\<lambda>j. (sj_priority j, sj_createdAt j))
            (filter (\<lambda>j. sj_id j \<in> claimed_ids now limit (sync_jobs d)) (sync_jobs d'))"
    "de_writable env"
  using assms by (auto simp: claimDeliverySyncJobs_def claimed_ids_def Let_def split: if_splits)

lemma claim_ok:
  assumes "jobs_ok (sync_jobs d)" and "claimDeliverySyncJobs env w now limit d = Inr (d', js)"
  shows "jobs_ok (sync_jobs d')"
proof -
  let ?js = "update_where (lease_expired now) (expire_lease now) (sync_jobs d)"
  have ok: "jobs_ok ?js" by (rule jobs_ok_update [OF assms(1)]) simp_all
  then have "distinct (map sj_id ?js)" by (simp add: jobs_ok_def)
  from candidate_by_id [OF this] have "jobs_ok (update_where (\<lambda>j. sj_id j \<in> claimed_ids now limit (sync_jobs d)) (claim_row w now) ?js)"
    by (intro jobs_ok_update [OF ok]) (auto simp: claimed_ids_def)
  with claim_InrD(1) [OF assms(2)] show ?thesis by simp
qed

lemma enqueue_jobs:
  assumes "enqueueDeliverySyncJob env i newId now d = Inr (d', j)"
  shows "sync_jobs d' = sync_jobs d
    \<or> sync_jobs d' = sync_jobs d @ [new_job i newId now] \<and> newId \<notin> set (map sj_id (sync_jobs d))
       \<and> deduplication (new_job i newId now) \<notin> set (map deduplication (sync_jobs d))
       \<and> job_checks (new_job i newId now)"
  using assms
  by (auto simp: enqueueDeliverySyncJob_def Let_def find_None_D split: if_splits option.splits)

lemma enqueue_ok:
  assumes "jobs_ok (sync_jobs d)" and "enqueueDeliverySyncJob env i newId now d = Inr (d', j)"
  shows "jobs_ok (sync_jobs d')"
proof -
  have "job_checks (new_job i newId now) \<Longrightarrow> job_ok (new_job i newId now)"
    by (simp add: job_checks_def job_ok_def new_job_def)
  moreover have "sj_id (new_job i newId now) = newId" by (simp add: new_job_def)
  ultimately show ?thesis using enqueue_jobs [OF assms(2)] assms(1) by (auto simp: jobs_ok_def)
qed

text \<open>The outcome of a job is one row update after what its staging enqueued.\<close>

lemma fail_jobs:
  "de_writable env \<Longrightarrow> sync_jobs (fst (failDeliveryJob env job e now d))
     = update_where (\<lambda>j. sj_id j = sj_id job)
         (failed_row (safeDeliveryErrorCode e) (retry_time job e now) now) (sync_jobs d)"
  by (simp add: failDeliveryJob_def createDeliveryAlert_def Let_def)

lemma fail_not_writable: "\<not> de_writable env \<Longrightarrow> fst (failDeliveryJob env job e now d) = d"
  by (simp add: failDeliveryJob_def)

lemma fail_ok: "jobs_ok (sync_jobs d) \<Longrightarrow> jobs_ok (sync_jobs (fst (failDeliveryJob env job e now d)))"
  by (cases "de_writable env") (auto simp: fail_jobs fail_not_writable intro!: jobs_ok_update)

lemma succeed_ok: "jobs_ok (sync_jobs d) \<Longrightarrow> jobs_ok (sync_jobs (succeed_job job r now d))"
  by (auto simp: succeed_job_def intro!: jobs_ok_update)

lemma process_ok:
  assumes "jobs_ok (sync_jobs d)"
  shows "jobs_ok (sync_jobs (fst (processClaimedDeliverySyncJob env b newId job now d)))"
  using assms fail_ok [OF assms] enqueue_ok [OF assms]
  by (auto simp: processClaimedDeliverySyncJob_def Let_def succeed_ok split: sum.split option.split prod.split)
    (metis fst_conv)+

section \<open>Runs of the queue\<close>

datatype queue_event =
  Enqueue enqueue_input uid instant
| Claim string instant int
| Process sync_job_row uid instant
| ManualRetry uid instant

type_synonym queue_step = "delivery_env \<times> billing_db \<times> queue_event"

fun queue_step :: "queue_step \<Rightarrow> delivery_db \<Rightarrow> delivery_db" where
  "queue_step (env, b, Enqueue i newId now) d =
     (case enqueueDeliverySyncJob env i newId now d of Inl _ \<Rightarrow> d | Inr (d', _) \<Rightarrow> d')"
| "queue_step (env, b, Claim w now limit) d =
     (case claimDeliverySyncJobs env w now limit d of Inl _ \<Rightarrow> d | Inr (d', _) \<Rightarrow> d')"
| "queue_step (env, b, Process job newId now) d = fst (processClaimedDeliverySyncJob env b newId job now d)"
| "queue_step (env, b, ManualRetry jobId now) d =
     (case retryDeliverySyncJob env jobId now d of Inl _ \<Rightarrow> d | Inr (d', _) \<Rightarrow> d')"

definition queue_run :: "queue_step list \<Rightarrow> delivery_db \<Rightarrow> delivery_db" where
  "queue_run steps d = fold queue_step steps d"

lemma queue_step_ok:
  assumes "jobs_ok (sync_jobs d)"
  shows "jobs_ok (sync_jobs (queue_step s d))"
proof -
  obtain env b ev where s: "s = (env, b, ev)" by (cases s)
  show ?thesis
  proof (cases ev)
    case (Enqueue i newId now)
    with s assms show ?thesis by (auto split: sum.split dest: enqueue_ok)
  next
    case (Claim w now limit)
    with s assms show ?thesis by (auto split: sum.split dest: claim_ok)
  next
    case (Process job newId now)
    with s assms show ?thesis by (simp add: process_ok)
  next
    case (ManualRetry jobId now)
    with s assms show ?thesis
      by (auto simp: retryDeliverySyncJob_def intro!: jobs_ok_update split: sum.split if_splits option.splits)
  qed
qed

text \<open>C18. Under any interleaving of enqueueing, claims by any worker, outcomes of any claimed
  snapshot and manual retries, the queue stays well-formed: identifiers and deduplication
  keys are unique, no job exceeds its attempts, exactly the jobs in processing have a worker
  and they have been started, and a job that waits for a retry has a time for it.\<close>

theorem queue_stays_well_formed:
  assumes "jobs_ok (sync_jobs d)"
  shows "jobs_ok (sync_jobs (queue_run steps d))"
  using assms unfolding queue_run_def by (induction steps arbitrary: d) (simp_all add: queue_step_ok)

section \<open>The lease\<close>

definition respects_lease :: "instant \<Rightarrow> uid \<Rightarrow> queue_step \<Rightarrow> bool" where
  "respects_lease until jobId s =
     (case s of (_, _, Claim _ now _) \<Rightarrow> now \<le> until
      | (_, _, Process job _ _) \<Rightarrow> sj_id job \<noteq> jobId
      | _ \<Rightarrow> True)"

lemma update_where_other: "j \<in> set js \<Longrightarrow> \<not> p j \<Longrightarrow> j \<in> set (update_where p f js)"
  by (auto simp: in_update_where)

lemma process_other:
  assumes "j \<in> set (sync_jobs d)" and "sj_id job \<noteq> sj_id j"
  shows "j \<in> set (sync_jobs (fst (processClaimedDeliverySyncJob env b newId job now d)))"
proof -
  have fail: "j \<in> set (sync_jobs (fst (failDeliveryJob env job e now d')))" if "j \<in> set (sync_jobs d')" for e d'
    using that assms(2) by (cases "de_writable env") (auto simp: fail_jobs fail_not_writable intro: update_where_other)
  have succeed: "j \<in> set (sync_jobs (succeed_job job r now d'))" if "j \<in> set (sync_jobs d')" for r d'
    using that assms(2) by (auto simp: succeed_job_def intro: update_where_other)
  have enqueue: "j \<in> set (sync_jobs d1)" if "enqueueDeliverySyncJob env i newId now d = Inr (d1, x)" for i d1 x
    using enqueue_jobs [OF that] assms(1) by auto
  show ?thesis
    using assms(1) fail [OF assms(1)] succeed [OF assms(1)] succeed [OF enqueue]
    by (auto simp: processClaimedDeliverySyncJob_def case_prod_beta Let_def split: sum.split option.split)
qed

text \<open>The rows a claim returns.\<close>

lemma claimed_row:
  assumes "jobs_ok (sync_jobs d)" and "claimDeliverySyncJobs env w now limit d = Inr (d', js)"
    and "j \<in> set js"
  shows "j \<in> set (sync_jobs d')"
    "\<exists>j0. j = claim_row w now j0 \<and> claimable now j0
       \<and> j0 \<in> set (update_where (lease_expired now) (expire_lease now) (sync_jobs d))"
proof -
  let ?js = "update_where (lease_expired now) (expire_lease now) (sync_jobs d)"
  let ?ids = "claimed_ids now limit (sync_jobs d)"
  from claim_InrD(1,2) [OF assms(2)] assms(3)
  have j: "j \<in> set (sync_jobs d')" "sj_id j \<in> ?ids"
    "j \<in> set (update_where (\<lambda>j. sj_id j \<in> ?ids) (claim_row w now) ?js)" by auto
  from j(3) obtain j0 where j0: "j0 \<in> set ?js" "j = (if sj_id j0 \<in> ?ids then claim_row w now j0 else j0)"
    by (auto simp only: in_update_where)
  with j(2) have row: "j = claim_row w now j0" "sj_id j0 \<in> ?ids"
    by (auto simp: keeps_keysD split: if_splits)
  have "jobs_ok ?js" by (rule jobs_ok_update [OF assms(1)]) simp_all
  then have "distinct (map sj_id ?js)" by (simp add: jobs_ok_def)
  from candidate_by_id [OF this j0(1)] row(2) have "claimable now j0" by (simp add: claimed_ids_def)
  with row(1) j0(1) show "\<exists>j0. j = claim_row w now j0 \<and> claimable now j0 \<and> j0 \<in> set ?js" by blast
  from j(1) show "j \<in> set (sync_jobs d')" .
qed

lemma claim_keeps_held:
  assumes ok: "jobs_ok (sync_jobs d)" and j: "j \<in> set (sync_jobs d)" "sj_status j = PROCESSING"
    and lease: "now \<le> sj_updatedAt j + 10 * 60000"
    and claim: "claimDeliverySyncJobs env w now limit d = Inr (d', js)"
  shows "j \<in> set (sync_jobs d')" "sj_id j \<notin> sj_id ` set js"
proof -
  let ?js = "update_where (lease_expired now) (expire_lease now) (sync_jobs d)"
  have "\<not> lease_expired now j" using lease by (simp add: lease_expired_def)
  then have j1: "j \<in> set ?js" using j(1) by (rule update_where_other [rotated])
  have "jobs_ok ?js" by (rule jobs_ok_update [OF ok]) simp_all
  then have keys: "distinct (map sj_id ?js)" by (simp add: jobs_ok_def)
  have free: "sj_id j \<notin> claimed_ids now limit (sync_jobs d)"
  proof
    assume "sj_id j \<in> claimed_ids now limit (sync_jobs d)"
    then have "claimable now j" unfolding claimed_ids_def by (rule candidate_by_id [OF keys j1])
    with j(2) show False by (simp add: claimable_def)
  qed
  then show "sj_id j \<notin> sj_id ` set js" by (simp add: claim_InrD(2) [OF claim] image_iff) metis
  from update_where_other [OF j1, of "\<lambda>j. sj_id j \<in> claimed_ids now limit (sync_jobs d)"] free
    claim_InrD(1) [OF claim]
  show "j \<in> set (sync_jobs d')" by simp
qed

lemma respected_step:
  assumes "jobs_ok (sync_jobs d)" and "j \<in> set (sync_jobs d)" and "sj_status j = PROCESSING"
    and "respects_lease (sj_updatedAt j + 10 * 60000) (sj_id j) s"
  shows "j \<in> set (sync_jobs (queue_step s d))"
proof -
  obtain env b ev where s: "s = (env, b, ev)" by (cases s)
  show ?thesis
  proof (cases ev)
    case (Enqueue i newId now)
    have "j \<in> set (sync_jobs d1)" if "enqueueDeliverySyncJob env i newId now d = Inr (d1, x)" for d1 x
      using enqueue_jobs [OF that] assms(2) by auto
    with s Enqueue assms(2) show ?thesis by (auto split: sum.split)
  next
    case (Claim w now limit)
    with s assms(4) have "now \<le> sj_updatedAt j + 10 * 60000" by (simp add: respects_lease_def)
    from claim_keeps_held(1) [OF assms(1-3) this] s Claim assms(2) show ?thesis by (auto split: sum.split)
  next
    case (Process job newId now)
    with s assms(2,4) show ?thesis by (simp add: respects_lease_def process_other)
  next
    case (ManualRetry jobId now)
    have "sj_id j \<noteq> jobId" if "List.find (\<lambda>j. sj_id j = jobId) (sync_jobs d) = Some job"
        "sj_status job \<in> {JobStatus.FAILED, DEAD_LETTER, JobStatus.CANCELLED}" for job
      using find_Some_D [OF that(1)] that(2) same_id [of "sync_jobs d" j job] assms(1-3) by (auto simp: jobs_ok_def)
    with s ManualRetry assms(2) show ?thesis
      by (auto simp: retryDeliverySyncJob_def intro!: update_where_other split: sum.split if_splits option.splits)
  qed
qed

text \<open>C17. A claimed job is leased exclusively: the row its claim wrote stays as it is, in
  processing by that worker, through every later step within ten minutes that is not the
  outcome of this job; in particular no other claim returns it.\<close>

theorem claimed_job_is_leased:
  assumes "jobs_ok (sync_jobs d)" and "claimDeliverySyncJobs env w now limit d = Inr (d', js)"
    and "j \<in> set js" and "list_all (respects_lease (now + 10 * 60000) (sj_id j)) steps"
  shows "j \<in> set (sync_jobs (queue_run steps d')) \<and> sj_status j = PROCESSING \<and> sj_claimedByWorker j = Some w"
proof -
  have row: "j \<in> set (sync_jobs d')" "sj_status j = PROCESSING" "sj_claimedByWorker j = Some w"
      "sj_updatedAt j = now"
    using claimed_row [OF assms(1-3)] by (auto simp: claim_row_def)
  have "jobs_ok (sync_jobs e) \<Longrightarrow> j \<in> set (sync_jobs e) \<Longrightarrow> j \<in> set (sync_jobs (queue_run steps e))" for e
    using assms(4) row(2,4)
    by (induction steps arbitrary: e) (simp_all add: queue_run_def queue_step_ok respected_step)
  from this [OF claim_ok [OF assms(1,2)] row(1)] row(2,3) show ?thesis by blast
qed

section \<open>The attempts of a job\<close>

definition claimed_by_step :: "uid \<Rightarrow> queue_step \<Rightarrow> delivery_db \<Rightarrow> bool" where
  "claimed_by_step jobId s d =
     (case s of
        (env, _, Claim w now limit) \<Rightarrow>
          (case claimDeliverySyncJobs env w now limit d of
             Inl _ \<Rightarrow> False | Inr (_, js) \<Rightarrow> jobId \<in> sj_id ` set js)
      | _ \<Rightarrow> False)"

fun claims_of :: "uid \<Rightarrow> queue_step list \<Rightarrow> delivery_db \<Rightarrow> int" where
  "claims_of jobId [] d = 0"
| "claims_of jobId (s # ss) d =
     (if claimed_by_step jobId s d then 1 else 0) + claims_of jobId ss (queue_step s d)"

definition manual :: "queue_step \<Rightarrow> bool" where
  "manual s = (case s of (_, _, ManualRetry _ _) \<Rightarrow> True | _ \<Rightarrow> False)"

text \<open>The row of a job, followed through a step, with \<open>n\<close> more attempts.\<close>

definition follows :: "int \<Rightarrow> sync_job_row \<Rightarrow> sync_job_row \<Rightarrow> bool" where
  "follows n j j' \<longleftrightarrow>
     sj_id j' = sj_id j \<and> sj_maxAttempts j' = sj_maxAttempts j
     \<and> sj_attemptCount j' = sj_attemptCount j + n"

lemma follows_rows [simp]:
  "follows 0 j j" "follows 0 j (expire_lease now j)" "follows 1 j (claim_row w now j)"
  "follows 0 j (failed_row c n now j)" "follows 0 j (succeeded_row r now j)"
  by (simp_all add: follows_def expire_lease_def claim_row_def failed_row_def succeeded_row_def)

lemma follows_trans: "follows m i j \<Longrightarrow> follows n j k \<Longrightarrow> follows (m + n) i k"
  by (simp add: follows_def)

lemma follow_update:
  assumes "j \<in> set js" and "\<And>j. follows n j (f j)"
  shows "\<exists>j' \<in> set (update_where p f js). follows (if p j then n else 0) j j'"
proof -
  from assms(1) have "(if p j then f j else j) \<in> set (update_where p f js)" by (auto simp: in_update_where)
  with assms(2) show ?thesis by (intro bexI) auto
qed

lemma process_follows:
  assumes "j \<in> set (sync_jobs d)"
  shows "\<exists>j' \<in> set (sync_jobs (fst (processClaimedDeliverySyncJob env b newId job now d))). follows 0 j j'"
proof -
  have fail: "\<exists>j' \<in> set (sync_jobs (fst (failDeliveryJob env job e now d))). follows 0 j j'" for e
  proof (cases "de_writable env")
    case True
    with follow_update [OF assms, of 0] show ?thesis by (simp add: fail_jobs)
  qed (use assms in \<open>auto simp: fail_not_writable intro: follows_rows\<close>)
  have succeed: "\<exists>j' \<in> set (sync_jobs (succeed_job job r now d1)). follows 0 j j'"
    if "j \<in> set (sync_jobs d1)" for r d1
    using follow_update [OF that, of 0] by (simp add: succeed_job_def)
  have enqueue: "j \<in> set (sync_jobs d1)" if "enqueueDeliverySyncJob env i newId now d = Inr (d1, x)" for i d1 x
    using enqueue_jobs [OF that] assms by auto
  have same: "\<exists>j' \<in> set (sync_jobs d). follows 0 j j'" using assms follows_rows(1) by blast
  show ?thesis
    using same fail succeed [OF assms] succeed [OF enqueue]
    by (simp add: processClaimedDeliverySyncJob_def case_prod_beta Let_def split: sum.split option.split)
qed

lemma claim_follows:
  assumes "j \<in> set (sync_jobs d)" and "claimDeliverySyncJobs env w now limit d = Inr (d', js)"
  shows "\<exists>j' \<in> set (sync_jobs d'). follows (if sj_id j \<in> sj_id ` set js then 1 else 0) j j'"
proof -
  let ?js = "update_where (lease_expired now) (expire_lease now) (sync_jobs d)"
  let ?ids = "claimed_ids now limit (sync_jobs d)"
  from follow_update [OF assms(1) follows_rows(2) [where now = now], of "lease_expired now"] obtain j1 where j1: "j1 \<in> set ?js" "follows 0 j j1"
    by (auto split: if_splits)
  from follow_update [OF j1(1) follows_rows(3) [where w = w and now = now], of "\<lambda>j. sj_id j \<in> ?ids"] obtain j2 where j2:
      "j2 \<in> set (sync_jobs d')" "follows (if sj_id j1 \<in> ?ids then 1 else 0) j1 j2"
    using claim_InrD(1) [OF assms(2)] by auto
  have "sj_id j1 \<in> ?ids \<longleftrightarrow> sj_id j \<in> sj_id ` set js"
    using j1(2) j2 by (auto simp: claim_InrD(2) [OF assms(2)] follows_def image_iff)
  with follows_trans [OF j1(2) j2(2)] j2(1) show ?thesis by auto
qed

lemma step_follows:
  assumes "j \<in> set (sync_jobs d)" and "\<not> manual s"
  shows "\<exists>j' \<in> set (sync_jobs (queue_step s d)).
           follows (if claimed_by_step (sj_id j) s d then 1 else 0) j j'"
proof -
  obtain env b ev where s: "s = (env, b, ev)" by (cases s)
  have same: "\<exists>j' \<in> set (sync_jobs d). follows 0 j j'" using assms(1) follows_rows(1) by blast
  show ?thesis
  proof (cases ev)
    case (Enqueue i newId now)
    have "j \<in> set (sync_jobs d1)" if "enqueueDeliverySyncJob env i newId now d = Inr (d1, x)" for d1 x
      using enqueue_jobs [OF that] assms(1) by auto
    with s Enqueue same show ?thesis
      by (auto simp: claimed_by_step_def split: sum.split intro!: bexI [of _ j])
  next
    case (Claim w now limit)
    show ?thesis
    proof (cases "claimDeliverySyncJobs env w now limit d")
      case (Inl e)
      with s Claim same show ?thesis by (simp add: claimed_by_step_def)
    next
      case (Inr r)
      with s Claim claim_follows [OF assms(1), of env w now limit "fst r" "snd r"] show ?thesis
        by (simp add: claimed_by_step_def case_prod_beta)
    qed
  next
    case (Process job newId now)
    with s process_follows [OF assms(1)] show ?thesis by (simp add: claimed_by_step_def)
  next
    case (ManualRetry jobId now)
    with s assms(2) show ?thesis by (simp add: manual_def)
  qed
qed

text \<open>C34. Without a manual retry, a job is claimed at most as often as it has attempts left,
  however the claims, outcomes and enqueueings of all workers interleave.\<close>

theorem attempts_are_bounded:
  assumes "jobs_ok (sync_jobs d)" and "j \<in> set (sync_jobs d)" and "list_all (\<lambda>s. \<not> manual s) steps"
  shows "claims_of (sj_id j) steps d \<le> sj_maxAttempts j - sj_attemptCount j"
  using assms
proof (induction steps arbitrary: d j)
  case Nil
  then show ?case by (auto simp: jobs_ok_def list_all_iff job_ok_def)
next
  case (Cons s steps)
  from step_follows [of j d s] Cons.prems(2,3) obtain j' where j': "j' \<in> set (sync_jobs (queue_step s d))"
      "follows (if claimed_by_step (sj_id j) s d then 1 else 0) j j'" by auto
  from Cons.IH [OF queue_step_ok [OF Cons.prems(1)] j'(1)] Cons.prems(3) j'(2) show ?case
    by (auto simp: follows_def split: if_splits)
qed

section \<open>The worker closes every job\<close>

text \<open>A round is one call of the worker: environment, subscription tables, identifiers, worker
  name, time and limit.\<close>

type_synonym worker_round =
  "delivery_env \<times> billing_db \<times> (sync_job_row \<Rightarrow> uid) \<times> string \<times> instant \<times> int"

fun worker_round :: "worker_round \<Rightarrow> delivery_db \<Rightarrow> delivery_db" where
  "worker_round (env, b, newIds, w, now, limit) d =
     fst (processDueDeliverySyncJobs env b newIds w now limit d)"

definition open_job :: "sync_job_row \<Rightarrow> bool" where
  "open_job j \<longleftrightarrow> sj_status j \<in> {JobStatus.PENDING, PROCESSING, RETRY_PENDING}"

text \<open>Open jobs with attempts left; a job in processing counts its running attempt.\<close>

definition attempts_left :: "sync_job_row \<Rightarrow> nat" where
  "attempts_left j =
     (if sj_status j = PROCESSING then Suc (nat (sj_maxAttempts j - sj_attemptCount j))
      else if open_job j then nat (sj_maxAttempts j - sj_attemptCount j) else 0)"

definition due :: "instant \<Rightarrow> sync_job_row \<Rightarrow> bool" where
  "due now j \<longleftrightarrow>
     (sj_status j = JobStatus.PENDING \<longrightarrow> sj_scheduledAt j \<le> now)
     \<and> (sj_status j = RETRY_PENDING \<longrightarrow> (\<exists>t \<le> now. sj_nextAttemptAt j = Some t))
     \<and> (sj_status j = PROCESSING \<longrightarrow> sj_updatedAt j < now - 10 * 60000)"

definition retriable :: "sync_job_row \<Rightarrow> bool" where
  "retriable j \<longleftrightarrow>
     (sj_status j \<in> {JobStatus.PENDING, RETRY_PENDING} \<longrightarrow> sj_attemptCount j < sj_maxAttempts j)
     \<and> sj_jobType j \<noteq> ''ORDER_FETCH''"

lemma due_mono: "due now j \<Longrightarrow> now \<le> later \<Longrightarrow> due later j"
  by (fastforce simp: due_def)

definition outcome_update :: "sync_job_row \<Rightarrow> instant \<Rightarrow> (sync_job_row \<Rightarrow> sync_job_row) \<Rightarrow> bool" where
  "outcome_update job now f \<longleftrightarrow>
     (\<exists>r. f = succeeded_row r now) \<or> (\<exists>c e. f = failed_row c (retry_time job e now) now)"

lemma outcome_keys: "outcome_update job now f \<Longrightarrow> sj_id (f j) = sj_id j"
  by (auto simp: outcome_update_def keeps_keysD)

lemma job_body_not_staged:
  "sj_jobType job \<noteq> ''ORDER_FETCH'' \<Longrightarrow> job_body env b now d job = Inr (r, staged) \<Longrightarrow> staged = None"
  by (auto simp: job_body_def andThen_Inr_iff split: option.splits if_splits)

lemma process_one:
  assumes "de_writable env" and "sj_status job = PROCESSING" and "sj_jobType job \<noteq> ''ORDER_FETCH''"
  shows "\<exists>f. outcome_update job now f
    \<and> sync_jobs (fst (processClaimedDeliverySyncJob env b newId job now d))
        = update_where (\<lambda>j. sj_id j = sj_id job) f (sync_jobs d)"
proof (cases "job_body env b now d job")
  case (Inl e)
  then have "sync_jobs (fst (processClaimedDeliverySyncJob env b newId job now d))
      = update_where (\<lambda>j. sj_id j = sj_id job)
          (failed_row (safeDeliveryErrorCode e) (retry_time job e now) now) (sync_jobs d)"
    using assms by (simp add: processClaimedDeliverySyncJob_def case_prod_beta fail_jobs)
  then show ?thesis unfolding outcome_update_def by blast
next
  case (Inr x)
  then have "processClaimedDeliverySyncJob env b newId job now d
      = (succeed_job job (fst x) now d, Inr (Some JobStatus.SUCCEEDED))"
    using assms job_body_not_staged [OF assms(3), of env b now d "fst x" "snd x"]
    by (simp add: processClaimedDeliverySyncJob_def case_prod_beta)
  then have "sync_jobs (fst (processClaimedDeliverySyncJob env b newId job now d))
      = update_where (\<lambda>j. sj_id j = sj_id job) (succeeded_row (fst x) now) (sync_jobs d)"
    by (simp add: succeed_job_def)
  then show ?thesis unfolding outcome_update_def by blast
qed

definition resolves :: "sync_job_row list \<Rightarrow> instant \<Rightarrow> sync_job_row \<Rightarrow> sync_job_row \<Rightarrow> bool" where
  "resolves js now j j' \<longleftrightarrow>
     (if \<exists>job \<in> set js. sj_id job = sj_id j
      then \<exists>job \<in> set js. \<exists>f. sj_id job = sj_id j \<and> outcome_update job now f \<and> j' = f j
      else j' = j)"

lemma resolves_Cons: "sj_id j \<noteq> sj_id job \<Longrightarrow> resolves (job # js) now j j' = resolves js now j j'"
  by (auto simp: resolves_def)

lemma process_all_rows:
  assumes "de_writable env" and "distinct (map (sj_id \<circ> fst) js)"
    and "\<forall>x \<in> set js. sj_status (fst x) = PROCESSING \<and> sj_jobType (fst x) \<noteq> ''ORDER_FETCH''"
  shows "\<exists>h. sync_jobs (fst (process_all env b js now d)) = map h (sync_jobs d)
    \<and> (\<forall>j. resolves (map fst js) now j (h j))"
  using assms(2,3)
proof (induction js arbitrary: d)
  case Nil
  then show ?case by (intro exI [of _ id]) (simp add: resolves_def)
next
  case (Cons x js)
  obtain job newId where x: "x = (job, newId)" by (cases x)
  let ?d = "fst (processClaimedDeliverySyncJob env b newId job now d)"
  from process_one [OF assms(1)] Cons.prems(2) x obtain f where f: "outcome_update job now f"
      "sync_jobs ?d = update_where (\<lambda>j. sj_id j = sj_id job) f (sync_jobs d)" by fastforce
  from Cons.IH [of ?d] Cons.prems obtain h where h: "sync_jobs (fst (process_all env b js now ?d)) = map h (sync_jobs ?d)"
      "\<forall>j. resolves (map fst js) now j (h j)" by auto
  let ?g = "\<lambda>j. if sj_id j = sj_id job then f j else j"
  have id: "sj_id (?g j) = sj_id j" for j using outcome_keys [OF f(1)] by simp
  have "resolves (map fst (x # js)) now j (h (?g j))" for j
  proof (cases "sj_id j = sj_id job")
    case True
    then have "\<not> (\<exists>i \<in> set (map fst js). sj_id i = sj_id (?g j))"
      using Cons.prems(1) id [of j] x by (auto simp: image_iff)
    with h(2) True have "h (?g j) = f j" by (simp add: resolves_def)
    with True f(1) x show ?thesis by (auto simp: resolves_def)
  next
    case False
    with h(2) x show ?thesis by (simp add: resolves_Cons)
  qed
  moreover have "sync_jobs (fst (process_all env b (x # js) now d)) = map (\<lambda>j. h (?g j)) (sync_jobs d)"
    using h(1) f(2) x by (simp add: case_prod_beta update_where_def)
  ultimately show ?case by blast
qed

lemma sum_list_strict:
  assumes "\<And>x. x \<in> set xs \<Longrightarrow> f x \<le> (g x :: nat)" and "x \<in> set xs" and "f x < g x"
  shows "sum_list (map f xs) < sum_list (map g xs)"
  using assms
proof (induction xs)
  case (Cons y ys)
  have "sum_list (map f ys) \<le> sum_list (map g ys)" using Cons.prems(1) by (intro sum_list_mono) simp
  with Cons show ?case by (auto intro: add_less_le_mono add_le_less_mono)
qed simp

text \<open>One round, row by row.\<close>

definition round_row ::
  "instant \<Rightarrow> uid set \<Rightarrow> sync_job_row \<Rightarrow> sync_job_row \<Rightarrow> bool" where
  "round_row now ids j j' \<longleftrightarrow>
     (\<exists>j1 w f. j1 = (if lease_expired now j then expire_lease now j else j)
        \<and> (if sj_id j \<in> ids
            then claimable now j1 \<and> outcome_update (claim_row w now j1) now f
                 \<and> j' = f (claim_row w now j1)
            else j' = j1))"

lemma worker_round_rows:
  assumes ok: "jobs_ok (sync_jobs d)" and retriable: "\<forall>j \<in> set (sync_jobs d). retriable j"
    and writable: "de_writable env"
  shows "\<exists>h. sync_jobs (worker_round (env, b, newIds, w, now, limit) d) = map h (sync_jobs d)
    \<and> (\<forall>j \<in> set (sync_jobs d). round_row now (claimed_ids now limit (sync_jobs d)) j (h j))"
proof -
  let ?ids = "claimed_ids now limit (sync_jobs d)"
  let ?expire = "\<lambda>j. if lease_expired now j then expire_lease now j else j"
  let ?claim = "\<lambda>j. if sj_id j \<in> ?ids then claim_row w now j else j"
  obtain d1 js where claim: "claimDeliverySyncJobs env w now limit d = Inr (d1, js)"
    using writable by (simp add: claimDeliverySyncJobs_def Let_def)
  have d1: "sync_jobs d1 = map (\<lambda>j. ?claim (?expire j)) (sync_jobs d)"
    using claim_InrD(1) [OF claim] by (simp add: update_where_def)
  have ok1: "jobs_ok (sync_jobs d1)" by (rule claim_ok [OF ok claim])
  then have keys1: "distinct (map sj_id (sync_jobs d1))" by (simp add: jobs_ok_def)
  have js: "set js = {j \<in> set (sync_jobs d1). sj_id j \<in> ?ids}" by (rule claim_InrD(2) [OF claim])
  have body: "sj_status j = PROCESSING \<and> sj_jobType j \<noteq> ''ORDER_FETCH''" if "j \<in> set js" for j
  proof -
    from claimed_row(2) [OF ok claim that] obtain j0 where j0: "j = claim_row w now j0"
        "j0 \<in> set (update_where (lease_expired now) (expire_lease now) (sync_jobs d))" by blast
    then obtain i where i: "i \<in> set (sync_jobs d)" "j0 = (if lease_expired now i then expire_lease now i else i)"
      unfolding in_update_where by blast
    from retriable i(1) have "sj_jobType i \<noteq> ''ORDER_FETCH''" by (simp add: retriable_def)
    with j0(1) i(2) show ?thesis by (simp add: claim_row_def expire_lease_def)
  qed
  have "mset js = mset (filter (\<lambda>j. sj_id j \<in> ?ids) (sync_jobs d1))"
    by (rule arg_cong [where f = mset, OF claim_InrD(3) [OF claim], unfolded mset_sort])
  then have "mset (map sj_id js) = mset (map sj_id (filter (\<lambda>j. sj_id j \<in> ?ids) (sync_jobs d1)))" by simp
  moreover have "distinct (map sj_id (filter (\<lambda>j. sj_id j \<in> ?ids) (sync_jobs d1)))"
    using keys1 by (simp add: distinct_map_filter)
  ultimately have dist: "distinct (map sj_id js)" by (metis mset_eq_imp_distinct_iff)
  have "distinct (map (sj_id \<circ> fst) (map (\<lambda>j. (j, newIds j)) js))" using dist by (simp add: comp_def)
  from process_all_rows [OF writable this, of b now d1] body
  obtain h where h: "sync_jobs (fst (process_all env b (map (\<lambda>j. (j, newIds j)) js) now d1)) = map h (sync_jobs d1)"
      "\<forall>j. resolves (map fst (map (\<lambda>j. (j, newIds j)) js)) now j (h j)" by fastforce
  have fst_js: "map fst (map (\<lambda>j. (j, newIds j)) js) = js" by (induction js) simp_all
  let ?h = "\<lambda>j. h (?claim (?expire j))"
  have "round_row now ?ids j (?h j)" if j: "j \<in> set (sync_jobs d)" for j
  proof -
    define j1 where "j1 = ?expire j"
    have id: "sj_id j1 = sj_id j" by (simp add: j1_def keeps_keysD)
    have in1: "?claim j1 \<in> set (sync_jobs d1)" using j d1 by (auto simp: j1_def)
    have here: "j1 \<in> set (update_where (lease_expired now) (expire_lease now) (sync_jobs d))"
      using j by (auto simp: in_update_where j1_def)
    show ?thesis
    proof (cases "sj_id j \<in> ?ids")
      case True
      then have row: "claim_row w now j1 \<in> set js" using in1 id by (simp add: js keeps_keysD)
      have "claimable now j1"
      proof (rule candidate_by_id [OF _ here])
        show "distinct (map sj_id (update_where (lease_expired now) (expire_lease now) (sync_jobs d)))"
          using jobs_ok_update [OF ok, of "expire_lease now" "lease_expired now"] by (simp add: jobs_ok_def)
        show "sj_id j1 \<in> set (map sj_id (candidates now limit
            (update_where (lease_expired now) (expire_lease now) (sync_jobs d))))"
          using True id by (simp add: claimed_ids_def)
      qed
      moreover from h(2) row fst_js obtain job f where job: "job \<in> set js"
          "sj_id job = sj_id (claim_row w now j1)" "outcome_update job now f"
          "h (claim_row w now j1) = f (claim_row w now j1)"
        unfolding resolves_def by (metis (no_types, lifting))
      moreover have "job = claim_row w now j1"
        using same_id [OF keys1, of job "claim_row w now j1"] job(1,2) row js by auto
      ultimately show ?thesis using True id unfolding round_row_def j1_def [symmetric]
        by (intro exI [of _ j1] exI [of _ w] exI [of _ f]) simp
    next
      case False
      have "sj_id job \<noteq> sj_id j1" if "job \<in> set js" for job
      proof
        assume "sj_id job = sj_id j1"
        moreover from that have "sj_id job \<in> ?ids" unfolding js by blast
        ultimately show False using False id by simp
      qed
      then have "\<not> (\<exists>job \<in> set js. sj_id job = sj_id j1)" by blast
      moreover have "resolves js now j1 (h j1)" using h(2) fst_js by metis
      ultimately have "h j1 = j1" unfolding resolves_def by presburger
      with False id show ?thesis unfolding round_row_def j1_def [symmetric] by simp
    qed
  qed
  moreover have "sync_jobs (worker_round (env, b, newIds, w, now, limit) d) = map ?h (sync_jobs d)"
    using h(1) d1 claim by (simp add: processDueDeliverySyncJobs_def case_prod_beta)
  ultimately show ?thesis by blast
qed

definition longest_delay :: int where
  "longest_delay = 360 * 60000"

lemma retry_time_bound:
  assumes "retry_time job e now = Some t"
  shows "t \<le> now + longest_delay" and "sj_attemptCount job < sj_maxAttempts job"
proof -
  have "[1, 5, 15, 60, 360 :: int] ! i \<le> 360" if "i < 5" for i
  proof -
    from that have "i = 0 \<or> i = 1 \<or> i = 2 \<or> i = 3 \<or> i = 4" by linarith
    then show ?thesis by (elim disjE) simp_all
  qed
  then have "[1, 5, 15, 60, 360 :: int] ! nat (min (max (sj_attemptCount job - 1) 0) 4) \<le> 360"
    by simp
  with assms show "t \<le> now + longest_delay" "sj_attemptCount job < sj_maxAttempts job"
    by (auto simp: retry_time_def deliveryRetryAt_def Let_def longest_delay_def split: if_splits)
qed

lemma outcome_row:
  assumes "outcome_update job now f" and "claimable now j1" and "job = claim_row w now j1"
    and "sj_jobType j1 \<noteq> ''ORDER_FETCH''"
  shows "retriable (f job) \<and> due (now + longest_delay) (f job)
    \<and> attempts_left (f job) < nat (sj_maxAttempts j1 - sj_attemptCount j1)"
proof -
  from assms(1) consider (succeeded) r where "f = succeeded_row r now"
    | (dead) c where "f = failed_row c None now"
    | (retry) c e t where "f = failed_row c (Some t) now" "retry_time job e now = Some t"
    unfolding outcome_update_def by (metis option.exhaust)
  then show ?thesis
  proof cases
    case succeeded
    with assms show ?thesis
      by (auto simp: succeeded_row_def claim_row_def retriable_def due_def attempts_left_def open_job_def claimable_def)
  next
    case dead
    with assms show ?thesis
      by (auto simp: failed_row_def claim_row_def retriable_def due_def attempts_left_def open_job_def claimable_def)
  next
    case retry
    from retry_time_bound [OF retry(2)] retry(1) assms show ?thesis
      by (auto simp: failed_row_def claim_row_def retriable_def due_def attempts_left_def open_job_def claimable_def)
  qed
qed

lemma round_row_progress:
  assumes row: "round_row now ids j j'" and j: "job_ok j" "retriable j" "due now j"
  shows "retriable j' \<and> due (now + longest_delay) j' \<and> attempts_left j' \<le> attempts_left j
    \<and> (sj_status j = PROCESSING \<or> sj_id j \<in> ids \<longrightarrow> attempts_left j' < attempts_left j)"
proof -
  let ?j1 = "if lease_expired now j then expire_lease now j else j"
  have expired: "sj_status j = PROCESSING \<longleftrightarrow> lease_expired now j"
    using j(3) by (auto simp: due_def lease_expired_def)
  have one: "retriable ?j1" "due now ?j1" "attempts_left ?j1 \<le> attempts_left j"
    "sj_status j = PROCESSING \<longrightarrow> attempts_left ?j1 < attempts_left j"
    by (cases "lease_expired now j";
        use j expired in \<open>simp add: retriable_def due_def attempts_left_def open_job_def expire_lease_def\<close>)+
  show ?thesis
  proof (cases "sj_id j \<in> ids")
    case True
    with row obtain w f where f: "claimable now ?j1" "outcome_update (claim_row w now ?j1) now f"
        "j' = f (claim_row w now ?j1)" by (auto simp: round_row_def)
    have "attempts_left ?j1 = nat (sj_maxAttempts ?j1 - sj_attemptCount ?j1)"
      using f(1) by (auto simp: claimable_def attempts_left_def open_job_def)
    with outcome_row [OF f(2,1) refl] f(3) one show ?thesis by (auto simp: retriable_def)
  next
    case False
    then have "j' = ?j1" using row by (auto simp: round_row_def)
    with one False show ?thesis using due_mono [of now ?j1 "now + longest_delay"]
      by (auto simp: longest_delay_def)
  qed
qed

definition total_left :: "delivery_db \<Rightarrow> nat" where
  "total_left d = sum_list (map attempts_left (sync_jobs d))"

definition round_ready :: "instant \<Rightarrow> delivery_db \<Rightarrow> bool" where
  "round_ready now d \<longleftrightarrow>
     jobs_ok (sync_jobs d) \<and> (\<forall>j \<in> set (sync_jobs d). retriable j \<and> due now j)"

lemma process_all_ok: "jobs_ok (sync_jobs d) \<Longrightarrow> jobs_ok (sync_jobs (fst (process_all env b js now d)))"
proof (induction js arbitrary: d)
  case (Cons x js)
  then show ?case by (cases x) (simp add: case_prod_beta process_ok)
qed simp

lemma worker_round_ok: "jobs_ok (sync_jobs d) \<Longrightarrow> jobs_ok (sync_jobs (worker_round r d))"
  by (cases r) (auto simp: processDueDeliverySyncJobs_def case_prod_beta process_all_ok split: sum.split
      dest: claim_ok)

text \<open>While a job is open, a round with all open jobs due uses up an attempt.\<close>

lemma worker_round_progress:
  assumes "round_ready now d" and "de_writable env"
    and d': "d' = worker_round (env, b, newIds, w, now, limit) d"
  shows "round_ready (now + longest_delay) d' \<and> total_left d' \<le> total_left d
    \<and> (list_ex open_job (sync_jobs d) \<longrightarrow> total_left d' < total_left d)"
proof -
  let ?ids = "claimed_ids now limit (sync_jobs d)"
  let ?js = "update_where (lease_expired now) (expire_lease now) (sync_jobs d)"
  from assms(1) have ok: "jobs_ok (sync_jobs d)"
    and all: "\<forall>j \<in> set (sync_jobs d). job_ok j \<and> retriable j \<and> due now j"
    by (auto simp: round_ready_def jobs_ok_def list_all_iff)
  from worker_round_rows [OF ok _ assms(2), of b newIds w now limit] all
  obtain h where h: "sync_jobs d' = map h (sync_jobs d)"
      "\<forall>j \<in> set (sync_jobs d). round_row now ?ids j (h j)" unfolding d' by blast
  have row: "retriable (h j) \<and> due (now + longest_delay) (h j) \<and> attempts_left (h j) \<le> attempts_left j
      \<and> (sj_status j = PROCESSING \<or> sj_id j \<in> ?ids \<longrightarrow> attempts_left (h j) < attempts_left j)"
    if "j \<in> set (sync_jobs d)" for j
    using that h(2) all by (intro round_row_progress) auto
  have ready: "round_ready (now + longest_delay) d'"
    using worker_round_ok [OF ok, of "(env, b, newIds, w, now, limit)"] row
    unfolding round_ready_def d' [symmetric] h(1) by auto
  have le: "total_left d' \<le> total_left d"
    unfolding total_left_def h(1) map_map comp_def by (intro sum_list_mono) (use row in auto)
  have less: "total_left d' < total_left d"
    if "j \<in> set (sync_jobs d)" "sj_status j = PROCESSING \<or> sj_id j \<in> ?ids" for j
    unfolding total_left_def h(1) map_map comp_def
    by (rule sum_list_strict [OF _ that(1)]) (use row that in auto)
  have "\<exists>j \<in> set (sync_jobs d). sj_status j = PROCESSING \<or> sj_id j \<in> ?ids"
    if "list_ex open_job (sync_jobs d)"
  proof (rule ccontr)
    assume none: "\<not> ?thesis"
    from that obtain j where j: "j \<in> set (sync_jobs d)" "open_job j" by (auto simp: list_ex_iff)
    with none have status: "sj_status j \<noteq> PROCESSING" by blast
    with j(2) all j(1) have "claimable now j"
      by (auto simp: open_job_def claimable_def retriable_def due_def)
    moreover have "j \<in> set ?js"
      using j(1) status by (intro update_where_other) (simp_all add: lease_expired_def)
    ultimately have "0 < length (filter (claimable now) ?js)" by (auto simp: filter_empty_conv)
    then have "0 < length (candidates now limit ?js)" by (simp add: candidates_def)
    then obtain c where c: "c \<in> set (candidates now limit ?js)" by (cases "candidates now limit ?js") auto
    from in_candidates [OF c] obtain i where i: "i \<in> set (sync_jobs d)" "sj_id i = sj_id c"
      by (auto simp: in_update_where keeps_keysD split: if_splits)
    with c have "sj_id i \<in> ?ids" by (auto simp: claimed_ids_def)
    with i(1) none show False by blast
  qed
  with ready le less show ?thesis by blast
qed

fun spaced :: "instant \<Rightarrow> worker_round list \<Rightarrow> bool" where
  "spaced from [] \<longleftrightarrow> True"
| "spaced from ((env, b, newIds, w, now, limit) # rs) \<longleftrightarrow>
     de_writable env \<and> from \<le> now \<and> spaced (now + longest_delay) rs"

lemma round_ready_mono: "round_ready now d \<Longrightarrow> now \<le> later \<Longrightarrow> round_ready later d"
  by (auto simp: round_ready_def intro: due_mono)

lemma open_left: "open_job j \<Longrightarrow> retriable j \<Longrightarrow> 0 < attempts_left j"
  by (auto simp: open_job_def attempts_left_def retriable_def)

lemma no_open_jobs: "round_ready now d \<Longrightarrow> total_left d = 0 \<Longrightarrow> \<not> list_ex open_job (sync_jobs d)"
  using open_left by (fastforce simp: round_ready_def total_left_def list_ex_iff)


section \<open>A worked queue\<close>

definition sample_env :: "(sync_job_row \<Rightarrow> delivery_failure + json) \<Rightarrow> delivery_env" where
  "sample_env import_order =
     \<lparr>de_flags = \<lambda>_ _. Some (\<lambda>_. True), de_production = False, de_writable = True,
      de_capabilities = \<lambda>_. [''ORDER_READY''], de_action = \<lambda>_ _ _. None,
      de_import = import_order, de_fetch = \<lambda>_ _. Inl OtherError, de_collate = \<lambda>_ _. True\<rparr>"

definition failing_env :: delivery_env where
  "failing_env = sample_env (\<lambda>_. Inl OtherError)"

definition importing_env :: delivery_env where
  "importing_env = sample_env (\<lambda>_. Inr JNull)"

definition beta_billing :: billing_db where
  "beta_billing = sample_billing\<lparr>active_flags := [(''OPEN_BETA_FREE_ACCESS_ENABLED'', True)]\<rparr>"

definition sample_import :: sync_job_row where
  "sample_import =
     new_job \<lparr>ei_organizationId = ''org'', ei_stallId = ''stall'', ei_connectionId = ''con'',
              ei_provider = MOCK, ei_jobType = ''ORDER_IMPORT'',
              ei_deduplicationKey = ''order-import:con:1'', ei_requestedViaCircuit = ''UNKNOWN'',
              ei_inputJson = JNull, ei_priority = Some 1, ei_maxAttempts = Some 2\<rparr> ''job'' 0"

definition sample_queue :: delivery_db where
  "sample_queue =
     \<lparr>sync_jobs = [sample_import],
      connections = [\<lparr>dc_id = ''con'', dc_organizationId = ''org'', dc_stallId = ''stall'',
                      dc_provider = MOCK, dc_status = ''ACTIVE'', dc_lastSuccessfulSyncAt = None,
                      dc_lastErrorCode = None, dc_lastErrorAt = None\<rparr>],
      external_orders = [], alerts = []\<rparr>"

lemma sample_jobs_ok: "jobs_ok (sync_jobs sample_queue)"
  by code_simp

definition first_claim :: sync_job_row where
  "first_claim = claim_row ''a'' 10 sample_import"

definition second_claim :: sync_job_row where
  "second_claim = claim_row ''b'' 700000 (expire_lease 700000 first_claim)"

text \<open>Two workers: the first loses its lease, the second imports the order.\<close>

definition two_workers :: "queue_step list" where
  "two_workers =
     [(failing_env, beta_billing, Claim ''a'' 10 5),
      (importing_env, beta_billing, Claim ''b'' 700000 5),
      (importing_env, beta_billing, Process second_claim ''new'' 700001)]"

theorem queue_stays_well_formed_witness:
  "jobs_ok (sync_jobs (queue_run two_workers sample_queue))"
  by (rule queue_stays_well_formed [OF sample_jobs_ok])

theorem claimed_job_is_leased_witness:
  "\<exists>d js. claimDeliverySyncJobs failing_env ''a'' 10 5 sample_queue = Inr (d, js)
     \<and> first_claim \<in> set (sync_jobs (queue_run [(importing_env, beta_billing, Claim ''b'' 500000 5)] d))"
proof -
  have claim: "claimDeliverySyncJobs failing_env ''a'' 10 5 sample_queue
      = Inr (sample_queue\<lparr>sync_jobs := [first_claim]\<rparr>, [first_claim])" by code_simp
  have lease: "list_all (respects_lease (10 + 10 * 60000) (sj_id first_claim))
      [(importing_env, beta_billing, Claim ''b'' 500000 5)]" by (simp add: respects_lease_def)
  from claim claimed_job_is_leased [OF sample_jobs_ok claim _ lease] show ?thesis by auto
qed

theorem attempts_are_bounded_witness:
  "claims_of ''job'' two_workers sample_queue \<le> 2"
proof -
  have "sample_import \<in> set (sync_jobs sample_queue)" by (simp add: sample_queue_def)
  moreover have "list_all (\<lambda>s. \<not> manual s) two_workers" by (simp add: two_workers_def manual_def)
  ultimately show ?thesis using attempts_are_bounded [OF sample_jobs_ok, of sample_import two_workers]
    by (simp add: sample_import_def new_job_def)
qed

definition failing_rounds :: "worker_round list" where
  "failing_rounds =
     [(failing_env, beta_billing, \<lambda>_. ''new'', ''a'', 10, 5),
      (failing_env, beta_billing, \<lambda>_. ''new'', ''a'', 10 + longest_delay, 5)]"


text \<open>The outcome of a job is written by its identifier alone: the failure of a worker that
  lost its lease re-opens a job that another worker has already completed.\<close>

lemma stale_failure_reopens_job:
  "map sj_status (sync_jobs (queue_run two_workers sample_queue)) = [JobStatus.SUCCEEDED]"
  "map sj_status (sync_jobs (queue_run
     (two_workers @ [(failing_env, beta_billing, Process first_claim ''new'' 700002)]) sample_queue))
     = [RETRY_PENDING]"
  by code_simp+

end
