(* ===== verification/ExternalOrders.thy ===== *)
theory ExternalOrders
  imports DeliveryQueue
begin

text \<open>
  The orders of a delivery platform (\<open>external-order-status-service.ts\<close> under
  \<open>src/src/server/delivery-platforms/\<close>): the acknowledgement by the provider that precedes a
  status change of the internal order, and the change of the external order that is part of
  its transaction. The SHA-256 of an external identifier is the parameter \<open>sha256\<close>.
\<close>

fun provider_text :: "DeliveryProvider \<Rightarrow> string" where
  "provider_text UBER_EATS = ''UBER_EATS''"
| "provider_text FOODPANDA = ''FOODPANDA''"
| "provider_text MOCK = ''MOCK''"

fun status_text :: "OrderStatus \<Rightarrow> string" where
  "status_text OrderStatus.WAITING_CONFIRMATION = ''WAITING_CONFIRMATION''"
| "status_text OrderStatus.CONFIRMED = ''CONFIRMED''"
| "status_text OrderStatus.PREPARING = ''PREPARING''"
| "status_text OrderStatus.PACKING = ''PACKING''"
| "status_text OrderStatus.READY = ''READY''"
| "status_text OrderStatus.COMPLETED = ''COMPLETED''"
| "status_text OrderStatus.CANCELLED = ''CANCELLED''"
| "status_text OrderStatus.EXPIRED = ''EXPIRED''"

text \<open>A string join of the source's templates.\<close>

fun join_colon :: "string list \<Rightarrow> string" where
  "join_colon [] = []"
| "join_colon [s] = s"
| "join_colon (s # t # ss) = s @ '':'' @ join_colon (t # ss)"

definition deliveryActionIdempotencyKey ::
  "(string \<Rightarrow> string) \<Rightarrow> DeliveryProvider \<Rightarrow> uid \<Rightarrow> string \<Rightarrow> OrderStatus \<Rightarrow> string" where
  "deliveryActionIdempotencyKey sha256 provider connectionId externalOrderId action =
     join_colon [''stallorder'', provider_text provider, connectionId, sha256 externalOrderId,
                 status_text action]"

definition deliveryActionDeduplicationKey ::
  "(string \<Rightarrow> string) \<Rightarrow> DeliveryProvider \<Rightarrow> uid \<Rightarrow> string \<Rightarrow> OrderStatus \<Rightarrow> string" where
  "deliveryActionDeduplicationKey sha256 provider connectionId externalOrderId action =
     join_colon [''order-action'', provider_text provider, connectionId, sha256 externalOrderId,
                 status_text action]"

text \<open>The context of the acknowledgement is the external order it found.\<close>

definition external_connection :: "external_order_row \<Rightarrow> connection_row \<Rightarrow> bool" where
  "external_connection e c \<longleftrightarrow>
     dc_id c = eo_connectionId e \<and> dc_organizationId c = eo_organizationId e
     \<and> dc_stallId c = eo_stallId e \<and> dc_provider c = eo_provider e \<and> dc_status c = ''ACTIVE''"

definition action_of :: "(string \<Rightarrow> string) \<Rightarrow> external_order_row \<Rightarrow> connection_row \<Rightarrow> OrderStatus \<Rightarrow> action_input" where
  "action_of sha256 e c nextStatus =
     \<lparr>ac_externalOrderId = eo_externalOrderId e,
      ac_idempotencyKey = deliveryActionIdempotencyKey sha256 (eo_provider e) (dc_id c)
        (eo_externalOrderId e) nextStatus,
      ac_reasonCode = (if nextStatus = OrderStatus.CANCELLED then Some ''MERCHANT_REJECTED'' else None)\<rparr>"

definition acknowledgeExternalOrderBeforeTransition ::
  "(string \<Rightarrow> string) \<Rightarrow> delivery_env \<Rightarrow> billing_db \<Rightarrow> instant \<Rightarrow> delivery_db \<Rightarrow> uid \<Rightarrow> OrderStatus
     \<Rightarrow> delivery_failure + external_order_row option" where
  "acknowledgeExternalOrderBeforeTransition sha256 env b now d orderId nextStatus =
     (case List.find (\<lambda>e. eo_internalOrderId e = Some orderId) (external_orders d) of
        None \<Rightarrow> Inr None
      | Some e \<Rightarrow>
          if nextStatus \<noteq> OrderStatus.CONFIRMED \<and> nextStatus \<noteq> OrderStatus.CANCELLED then Inr (Some e)
          else
            andThen (assertDeliveryProviderEnabled env (eo_provider e) (eo_organizationId e) (eo_stallId e))
              (\<lambda>state.
                if \<not> df_providerActions state then Inl (platform_error PROVIDER_DISABLED (Some False))
                else
                  andThen (require_feature env b now (eo_organizationId e) ''DELIVERY_PLATFORM_INTEGRATIONS'')
                    (\<lambda>_. case List.find (external_connection e) (connections d) of
                       None \<Rightarrow> Inl (platform_error CONNECTION_STATE_CONFLICT (Some False))
                     | Some c \<Rightarrow>
                         if \<not> adapter_available env (eo_provider e)
                         then Inl (platform_error PROVIDER_DISABLED (Some False))
                         else
                           (case de_action env
                                   (if nextStatus = OrderStatus.CONFIRMED then ''ORDER_ACCEPT'' else ''ORDER_REJECT'')
                                   c (action_of sha256 e c nextStatus) of
                              Some failure \<Rightarrow> Inl failure
                            | None \<Rightarrow> Inr (Some e)))))"

definition external_update :: "OrderStatus \<Rightarrow> instant \<Rightarrow> external_order_row \<Rightarrow> external_order_row" where
  "external_update nextStatus now e =
     e\<lparr>eo_externalStatus := status_text nextStatus,
       eo_processingStatus :=
         (if nextStatus = OrderStatus.CANCELLED then ''REJECTED''
          else if nextStatus = OrderStatus.CONFIRMED then ''CONFIRMED'' else eo_processingStatus e),
       eo_acceptedAt := (if nextStatus = OrderStatus.CONFIRMED then Some now else eo_acceptedAt e),
       eo_rejectedAt := (if nextStatus = OrderStatus.CANCELLED then Some now else eo_rejectedAt e),
       eo_completedAt := (if nextStatus = OrderStatus.COMPLETED then Some now else eo_completedAt e),
       eo_lastSyncedAt := Some now\<rparr>"

definition action_job_type :: "OrderStatus \<Rightarrow> string option" where
  "action_job_type nextStatus =
     (if nextStatus = OrderStatus.PREPARING then Some ''ORDER_PREPARING''
      else if nextStatus = OrderStatus.READY then Some ''ORDER_READY'' else None)"

definition action_job ::
  "(string \<Rightarrow> string) \<Rightarrow> external_order_row \<Rightarrow> OrderStatus \<Rightarrow> string \<Rightarrow> string \<Rightarrow> enqueue_input" where
  "action_job sha256 e nextStatus jobType circuit =
     \<lparr>ei_organizationId = eo_organizationId e, ei_stallId = eo_stallId e,
      ei_connectionId = eo_connectionId e, ei_provider = eo_provider e, ei_jobType = jobType,
      ei_deduplicationKey = deliveryActionDeduplicationKey sha256 (eo_provider e) (eo_connectionId e)
        (eo_externalOrderId e) nextStatus,
      ei_requestedViaCircuit = circuit,
      ei_inputJson = JObject
        [(''externalOrderId'', JString (eo_externalOrderId e)),
         (''idempotencyKey'', JString (deliveryActionIdempotencyKey sha256 (eo_provider e)
            (eo_connectionId e) (eo_externalOrderId e) nextStatus))],
      ei_priority = Some 20, ei_maxAttempts = None\<rparr>"

definition persistExternalOrderTransition ::
  "(string \<Rightarrow> string) \<Rightarrow> delivery_env \<Rightarrow> string \<Rightarrow> uid \<Rightarrow> instant \<Rightarrow> external_order_row option
     \<Rightarrow> OrderStatus \<Rightarrow> delivery_db \<Rightarrow> delivery_failure + delivery_db" where
  "persistExternalOrderTransition sha256 env circuit newJobId now external nextStatus d =
     (case external of
        None \<Rightarrow> Inr d
      | Some e \<Rightarrow>
          let d1 = d\<lparr>external_orders := update_where (\<lambda>r. eo_id r = eo_id e)
                (external_update nextStatus now) (external_orders d)\<rparr>
          in case action_job_type nextStatus of
               None \<Rightarrow> Inr d1
             | Some jobType \<Rightarrow>
                 if \<not> adapter_available env (eo_provider e)
                 then Inl (platform_error PROVIDER_DISABLED (Some False))
                 else if jobType \<notin> set (de_capabilities env (eo_provider e)) then Inr d1
                 else andThen (enqueueDeliverySyncJob env (action_job sha256 e nextStatus jobType circuit)
                        newJobId now d1) (\<lambda>r. Inr (fst r)))"

definition persistExternalOrderTransitionForOrder ::
  "(string \<Rightarrow> string) \<Rightarrow> delivery_env \<Rightarrow> string \<Rightarrow> uid \<Rightarrow> instant \<Rightarrow> uid \<Rightarrow> OrderStatus \<Rightarrow> delivery_db
     \<Rightarrow> delivery_failure + delivery_db" where
  "persistExternalOrderTransitionForOrder sha256 env circuit newJobId now orderId nextStatus d =
     persistExternalOrderTransition sha256 env circuit newJobId now
       (List.find (\<lambda>e. eo_internalOrderId e = Some orderId) (external_orders d)) nextStatus d"

section \<open>Properties\<close>

text \<open>What a persisted transition leaves alone: connections, alerts, the other external
  orders, and every job already queued.\<close>

lemma persist_frame:
  assumes "persistExternalOrderTransition sha256 env circuit newJobId now external nextStatus d = Inr d'"
  shows "connections d' = connections d \<and> alerts d' = alerts d
    \<and> set (sync_jobs d) \<subseteq> set (sync_jobs d')
    \<and> (\<forall>r \<in> set (external_orders d). (\<forall>e. external = Some e \<longrightarrow> eo_id r \<noteq> eo_id e) \<longrightarrow> r \<in> set (external_orders d'))"
proof (cases external)
  case None
  with assms show ?thesis by (simp add: persistExternalOrderTransition_def)
next
  case (Some e)
  let ?d1 = "d\<lparr>external_orders := update_where (\<lambda>r. eo_id r = eo_id e)
      (external_update nextStatus now) (external_orders d)\<rparr>"
  have queue: "connections d2 = connections d \<and> alerts d2 = alerts d
      \<and> external_orders d2 = external_orders ?d1 \<and> set (sync_jobs d) \<subseteq> set (sync_jobs d2)"
    if "enqueueDeliverySyncJob env i newJobId now ?d1 = Inr (d2, j)" for i d2 j
    using that by (auto simp: enqueueDeliverySyncJob_def Let_def split: if_splits option.splits)
  have "\<forall>r \<in> set (external_orders d). eo_id r \<noteq> eo_id e \<longrightarrow> r \<in> set (external_orders ?d1)"
    by (auto simp: in_update_where)
  with assms Some queue show ?thesis
    by (auto simp: persistExternalOrderTransition_def Let_def andThen_Inr_iff split: option.splits if_splits)
qed


definition sample_external :: external_order_row where
  "sample_external =
     \<lparr>eo_id = ''ext'', eo_organizationId = ''org'', eo_stallId = ''stall'', eo_connectionId = ''con'',
      eo_provider = MOCK, eo_externalOrderId = ''42'', eo_internalOrderId = Some ''order'',
      eo_externalStatus = ''NEW'', eo_processingStatus = ''IMPORTED'', eo_acceptedAt = None,
      eo_rejectedAt = None, eo_completedAt = None, eo_lastSyncedAt = None\<rparr>"

definition sample_delivery :: delivery_db where
  "sample_delivery = sample_queue\<lparr>external_orders := [sample_external]\<rparr>"


end
