(* ===== verification/OrderPatch.thy ===== *)
theory OrderPatch
  imports OrderFlow StaffCheckout CashShift ExternalOrders
begin

text \<open>
  The handler that moves an order along (\<open>PATCH\<close> of
  \<open>src/src/app/api/stalls/[stallSlug]/orders/[orderId]/route.ts\<close>): confirmation, preparation,
  cancellation with the manager's authorization, and completion with the checkout, its
  payment, the cash movement of the payment and the streamlined printing. The handler reads
  and checks first (\<open>prepare_patch\<close>, whose effects are the counters of the rate limiter and
  the audit log), then writes in one transaction (\<open>commit_patch\<close>); between the two, other
  requests may change the tables, which is why they are two functions. A transaction that
  throws has no effect. The clock is one instant per request, new identifiers are given, and
  the principal of the request is what \<open>authorizeApiRequest\<close> returned.
\<close>

section \<open>Request, principal and result\<close>

record patch_env =
  pe_sha256 :: "string \<Rightarrow> string"
  pe_compare :: "string \<Rightarrow> string \<Rightarrow> bool"
  pe_is_email :: "string \<Rightarrow> bool"
  pe_tz_offset :: "string \<Rightarrow> instant \<Rightarrow> int"
  pe_delivery :: delivery_env

record principal =
  pa_userId :: uid
  pa_role :: UserRole
  pa_roles :: "UserRole list"
  pa_stallId :: uid

record patch_ids =
  pi_payment :: uid
  pi_movement :: uid
  pi_printJob :: uid
  pi_syncJob :: uid

record world =
  w_db :: db
  w_billing :: billing_db
  w_delivery :: delivery_db

datatype patch_error =
  CsrfRejected
| MalformedRequest
| OrderNotFound
| PrepaymentUnsupported
| PaymentAlreadyRecorded
| Subscription entitlement_failure
| ConfirmationMismatch
| CancellationUnauthorized ManagerAuthorizationError
| TransitionNotAllowed
| ProductionNotDue
| CheckoutForbidden
| PickupUnverified
| ItemsIncomplete
| PrinterRequired
| Checkout StaffCheckoutError
| Delivery delivery_failure
| TransitionConflict
| CashShiftFailure CashShiftOperationError
| Unexpected string

text \<open>The HTTP status of a refusal; an unexpected throw is the framework's 500.\<close>

fun patch_status :: "patch_error \<Rightarrow> nat" where
  "patch_status CsrfRejected = 403"
| "patch_status MalformedRequest = 400"
| "patch_status OrderNotFound = 404"
| "patch_status PrepaymentUnsupported = 409"
| "patch_status PaymentAlreadyRecorded = 409"
| "patch_status (Subscription (EntitlementError c)) = errorStatus c"
| "patch_status (Subscription TypeError) = 500"
| "patch_status ConfirmationMismatch = 400"
| "patch_status (CancellationUnauthorized e) =
     (if e = ManagerAuthorizationError.RATE_LIMITED then 429 else 403)"
| "patch_status TransitionNotAllowed = 409"
| "patch_status ProductionNotDue = 409"
| "patch_status CheckoutForbidden = 403"
| "patch_status PickupUnverified = 409"
| "patch_status ItemsIncomplete = 409"
| "patch_status PrinterRequired = 409"
| "patch_status (Checkout (DISCOUNT_APPROVAL e)) =
     (if e = DiscountApprovalError.RATE_LIMITED then 429
      else if e = INVALID_MANAGER then 403 else 400)"
| "patch_status (Checkout e) =
     (if e \<in> {PAYMENT_INVALID, DISCOUNT_DISABLED, DISCOUNT_INVALID, DISCOUNT_NOT_APPLICABLE}
      then 409 else 400)"
| "patch_status (Delivery (DeliveryPlatformError _ retryable)) = (if retryable then 503 else 409)"
| "patch_status (Delivery OtherError) = 500"
| "patch_status TransitionConflict = 409"
| "patch_status (CashShiftFailure e) = (if e = ACTIVE_SHIFT_REQUIRED then 409 else 500)"
| "patch_status (Unexpected _) = 500"

definition audit ::
  "string \<Rightarrow> uid \<Rightarrow> AuditOutcome \<Rightarrow> principal \<Rightarrow> db \<Rightarrow> db" where
  "audit action orderId outcome a d =
     d\<lparr>audit_events := audit_events d @
        [\<lparr>au_action = action, au_entityType = ''ORDER'', au_entityId = orderId, au_outcome = outcome,
          au_stallId = pa_stallId a, au_actorProfileId = pa_userId a\<rparr>]\<rparr>"

section \<open>Reading and deciding\<close>

record patch_plan =
  pp_order :: order_row
  pp_next :: OrderStatus
  pp_cancellation :: "cancellation_request option"
  pp_qrPaymentOnly :: bool
  pp_streamlined :: "checkout_plan option"
  pp_printer :: "uid option"
  pp_checkout :: "staff_checkout option"
  pp_external :: "external_order_row option"
  pp_kds :: bool

definition find_order :: "uid \<Rightarrow> uid \<Rightarrow> db \<Rightarrow> order_row option" where
  "find_order orderId stallId d =
     List.find (\<lambda>r. o_id r = orderId \<and> o_stallId r = stallId) (orders d)"

definition completion_intent :: "order_status_update \<Rightarrow> CompletionIntent option" where
  "completion_intent u = (case u of Complete c \<Rightarrow> cq_completionIntent c | _ \<Rightarrow> None)"

definition cancellation_of :: "order_status_update \<Rightarrow> cancellation_request option" where
  "cancellation_of u = (case u of Cancel c \<Rightarrow> Some c | _ \<Rightarrow> None)"

definition prepayment_guard :: "order_row \<Rightarrow> order_status_update \<Rightarrow> patch_error + unit" where
  "prepayment_guard order u =
     (if completion_intent u = Some COLLECT_PAYMENT
         \<and> (o_source order \<noteq> ''QR_MENU'' \<or> o_externalProvider order \<noteq> None)
      then Inl PrepaymentUnsupported
      else if completion_intent u = Some COLLECT_PAYMENT \<and> o_paymentStatus order \<noteq> UNPAID
      then Inl PaymentAlreadyRecorded
      else Inr ())"

definition kds_enabled :: "ordering_settings_row option \<Rightarrow> bool \<Rightarrow> bool" where
  "kds_enabled settings unset = (case settings of None \<Rightarrow> unset | Some s \<Rightarrow> se_kdsModuleEnabled s)"

definition print_enabled :: "ordering_settings_row option \<Rightarrow> bool" where
  "print_enabled settings = (case settings of None \<Rightarrow> False | Some s \<Rightarrow> se_printModuleEnabled s)"

definition streamlined_of ::
  "order_row \<Rightarrow> OrderStatus \<Rightarrow> ordering_settings_row option \<Rightarrow> PrintJobStatus option
     \<Rightarrow> CompletionIntent option \<Rightarrow> streamlined_input" where
  "streamlined_of order nextStatus settings printed intent =
     \<lparr>sl_requestedStatus = nextStatus, sl_currentStatus = o_status order,
      sl_fulfillmentType = o_fulfillmentType order, sl_kdsModuleEnabled = kds_enabled settings True,
      sl_printModuleEnabled = print_enabled settings, sl_externalProvider = o_externalProvider order,
      sl_primaryPrintStatus = printed, sl_source = o_source order,
      sl_paymentStatus = o_paymentStatus order, sl_completionIntent = intent\<rparr>"

definition qr_payment_only :: "order_row \<Rightarrow> order_status_update \<Rightarrow> bool" where
  "qr_payment_only order u =
     shouldKeepQrOrderOpenAfterPayment
       (streamlined_of order (next_status u) None None (completion_intent u))"

definition primary_print_status ::
  "order_row \<Rightarrow> order_status_update \<Rightarrow> ordering_settings_row option \<Rightarrow> db \<Rightarrow> PrintJobStatus option" where
  "primary_print_status order u settings d =
     (if next_status u = OrderStatus.COMPLETED \<and> \<not> qr_payment_only order u
         \<and> \<not> kds_enabled settings False \<and> print_enabled settings \<and> o_externalProvider order = None
      then resolvePrimaryPrintStatus
             (filter (\<lambda>j. pj_organizationId j = o_organizationId order \<and> pj_stallId j = o_stallId order)
               (jobs_of_order d (o_id order)))
      else None)"

definition streamlined_checkout ::
  "order_row \<Rightarrow> order_status_update \<Rightarrow> ordering_settings_row option \<Rightarrow> db \<Rightarrow> checkout_plan option" where
  "streamlined_checkout order u settings d =
     (if qr_payment_only order u then None
      else getStreamlinedCheckoutPlan
             (streamlined_of order (next_status u) settings (primary_print_status order u settings d) None))"

definition queues_print :: "checkout_plan option \<Rightarrow> bool" where
  "queues_print plan = (case plan of None \<Rightarrow> False | Some s \<Rightarrow> cp_queuePrint s)"

definition subscription_guard ::
  "patch_env \<Rightarrow> billing_db \<Rightarrow> instant \<Rightarrow> order_row \<Rightarrow> OrderStatus \<Rightarrow> checkout_plan option
     \<Rightarrow> patch_error + unit" where
  "subscription_guard env b now order nextStatus plan =
     (case getSubscriptionContext b now (o_organizationId order) of
        None \<Rightarrow> Inl (Subscription (EntitlementError SUBSCRIPTION_NOT_ACTIVE))
      | Some s \<Rightarrow>
          if sb_status s = ''CANCELLED''
            then Inl (Subscription (EntitlementError SUBSCRIPTION_NOT_ACTIVE))
          else if sb_status s = ''SUSPENDED''
              \<and> \<not> canContinueOrderDuringSuspension (o_status order) nextStatus
            then Inl (Subscription (EntitlementError SUBSCRIPTION_SUSPENDED))
          else if queues_print plan then
            (case assertFeatureEnabled (de_collate (pe_delivery env)) b now (o_organizationId order)
                    ''PRINTER_INTEGRATION'' of
               Inl e \<Rightarrow> Inl (Subscription e) | Inr _ \<Rightarrow> Inr ())
          else Inr ())"

text \<open>The cancellation's confirmation and authorization; both failures are audited.\<close>

definition cancellation_guard ::
  "patch_env \<Rightarrow> principal \<Rightarrow> instant \<Rightarrow> order_row \<Rightarrow> order_status_update \<Rightarrow> db \<Rightarrow> db \<times> (patch_error + unit)" where
  "cancellation_guard env a now order u d =
     (case cancellation_of u of
        None \<Rightarrow> (d, Inr ())
      | Some c \<Rightarrow>
          if \<not> cancellationMatchesOrder (cc_confirmationOrderNo c) (o_orderNo order)
          then (audit ''ORDER_CANCELLATION_CONFIRMATION_FAILED'' (o_id order) DENIED a d,
                Inl ConfirmationMismatch)
          else
            (case verifyManagerAuthorization (pe_sha256 env) (pe_compare env) now
                    \<lparr>mi_stallId = o_stallId order, mi_actorProfileId = pa_userId a,
                     mi_actorRoles = pa_roles a, mi_operation = CANCEL_ORDER,
                     mi_authorizationCode = cc_managerAuthorizationCode c\<rparr> d of
               (d1, Inr _) \<Rightarrow> (d1, Inr ())
             | (d1, Inl e) \<Rightarrow>
                 (audit ''ORDER_CANCELLATION_AUTHORIZATION_FAILED'' (o_id order) DENIED a d1,
                  Inl (CancellationUnauthorized e))))"

definition production_guard ::
  "patch_env \<Rightarrow> instant \<Rightarrow> order_row \<Rightarrow> ordering_settings_row option \<Rightarrow> db \<Rightarrow> patch_error + unit" where
  "production_guard env now order settings d =
     (case classifyStallOrderForProduction (pe_tz_offset env) order
             (case List.find (\<lambda>s. st_id s = o_stallId order) (stalls d) of
                None \<Rightarrow> [] | Some s \<Rightarrow> st_timezone s)
             settings now of
        Inl e \<Rightarrow> Inl (Unexpected e)
      | Inr t \<Rightarrow> if pt_productionBlocked t then Inl ProductionNotDue else Inr ())"

definition transition_guard ::
  "patch_env \<Rightarrow> principal \<Rightarrow> instant \<Rightarrow> order_row \<Rightarrow> order_status_update \<Rightarrow> ordering_settings_row option
     \<Rightarrow> checkout_plan option \<Rightarrow> db \<Rightarrow> patch_error + unit" where
  "transition_guard env a now order u settings plan d =
     (let nextStatus = next_status u; qr = qr_payment_only order u;
          completing = (nextStatus = OrderStatus.COMPLETED);
          production = production_guard env now order settings d
      in if plan = None \<and> \<not> qr \<and> \<not> canTransitionOrder (o_status order) nextStatus (pa_role a)
         then Inl TransitionNotAllowed
         else andThen (if completing \<and> (plan \<noteq> None \<or> qr) then production else Inr ()) (\<lambda>_.
           andThen (if nextStatus = OrderStatus.PREPARING \<and> o_status order = OrderStatus.CONFIRMED
                    then production else Inr ()) (\<lambda>_.
             if completing \<and> \<not> hasPermission (pa_role a) CHECKOUT_ORDERS then Inl CheckoutForbidden
             else if completing \<and> o_fulfillmentType order = TAKEOUT \<and> o_source order = ''QR_MENU''
                 \<and> \<not> qr \<and> o_pickupVerifiedAt order = None
               then Inl PickupUnverified
             else Inr ())))"

definition item_done :: "order_row \<Rightarrow> order_item_row \<Rightarrow> bool" where
  "item_done order i \<longleftrightarrow>
     (if o_fulfillmentType order = DINE_IN then oi_status i = OrderItemStatus.SERVED
      else oi_status i \<in> {OrderItemStatus.READY, OrderItemStatus.SERVED})"

definition items_guard ::
  "order_row \<Rightarrow> order_status_update \<Rightarrow> checkout_plan option \<Rightarrow> db \<Rightarrow> patch_error + unit" where
  "items_guard order u plan d =
     (if next_status u = OrderStatus.COMPLETED \<and> plan = None \<and> \<not> qr_payment_only order u
         \<and> 0 < count_where (\<lambda>i. oi_orderId i = o_id order \<and> oi_stallId i = o_stallId order
                                \<and> \<not> item_done order i) (order_items d)
      then Inl ItemsIncomplete else Inr ())"

definition find_printer :: "order_row \<Rightarrow> instant \<Rightarrow> db \<Rightarrow> uid option" where
  "find_printer order now d =
     (case sort_key (\<lambda>p. (- (case pr_lastSeenAt p of None \<Rightarrow> 0 | Some t \<Rightarrow> t), pr_createdAt p))
             (filter (\<lambda>p. pr_organizationId p = o_organizationId order \<and> pr_stallId p = o_stallId order
                        \<and> pr_isEnabled p
                        \<and> (case pr_lastSeenAt p of None \<Rightarrow> False | Some t \<Rightarrow> now - 90000 \<le> t))
               (printers d)) of
        [] \<Rightarrow> None | p # _ \<Rightarrow> Some (pr_id p))"

definition printer_guard :: "order_row \<Rightarrow> checkout_plan option \<Rightarrow> instant \<Rightarrow> db \<Rightarrow> patch_error + uid option" where
  "printer_guard order plan now d =
     (if queues_print plan
      then (case find_printer order now d of None \<Rightarrow> Inl PrinterRequired | Some p \<Rightarrow> Inr (Some p))
      else Inr None)"

definition eligible_subtotal :: "order_row \<Rightarrow> db \<Rightarrow> int" where
  "eligible_subtotal order d =
     sum_of (\<lambda>i. if oi_isOrderDiscountEligible i then oi_unitPrice i * oi_quantity i else 0)
       (filter (\<lambda>i. oi_orderId i = o_id order) (order_items d))"

definition checkout_input :: "principal \<Rightarrow> order_row \<Rightarrow> completion_request \<Rightarrow> db \<Rightarrow> staff_checkout_input" where
  "checkout_input a order c d =
     \<lparr>si_organizationId = o_organizationId order, si_stallId = o_stallId order,
      si_subtotals = [o_subtotal order],
      si_discountEligibleSubtotals = [eligible_subtotal order d],
      si_currentTotals = Some [o_total order],
      si_actorProfileId = pa_userId a, si_actorRoles = pa_roles a,
      si_request = \<lparr>rq_paymentOptionId = cq_paymentOptionId c, rq_discountOptionId = cq_discountOptionId c,
        rq_cashReceived = cq_cashReceived c, rq_discountApprovalReason = cq_discountApprovalReason c,
        rq_managerEmail = cq_managerEmail c, rq_managerPassword = cq_managerPassword c,
        rq_managerAuthorizationCode = cq_managerAuthorizationCode c\<rparr>\<rparr>"

definition checkout_step ::
  "patch_env \<Rightarrow> principal \<Rightarrow> instant \<Rightarrow> order_row \<Rightarrow> order_status_update \<Rightarrow> db
     \<Rightarrow> db \<times> (patch_error + staff_checkout option)" where
  "checkout_step env a now order u d =
     (case u of
        Complete c \<Rightarrow>
          if o_paymentStatus order \<noteq> UNPAID then (d, Inr None)
          else
            (case resolveStaffCheckout (pe_sha256 env) (pe_compare env) now (checkout_input a order c d) d of
               (d1, Inr s) \<Rightarrow> (d1, Inr (Some s))
             | (d1, Inl (DISCOUNT_APPROVAL e)) \<Rightarrow>
                 (audit ''DISCOUNT_APPROVAL_FAILED'' (o_id order) DENIED a d1,
                  Inl (Checkout (DISCOUNT_APPROVAL e)))
             | (d1, Inl e) \<Rightarrow> (d1, Inl (Checkout e)))
      | _ \<Rightarrow> (d, Inr None))"

text \<open>Everything before the transaction, in the handler's order.\<close>

definition prepare_patch ::
  "patch_env \<Rightarrow> principal \<Rightarrow> uid \<Rightarrow> order_status_update \<Rightarrow> instant \<Rightarrow> world \<Rightarrow> db \<times> (patch_error + patch_plan)" where
  "prepare_patch env a orderId u now w =
     (let d = w_db w in
      case find_order orderId (pa_stallId a) d of
        None \<Rightarrow> (d, Inl OrderNotFound)
      | Some order \<Rightarrow>
          let settings = settings_of d (o_stallId order);
              plan = streamlined_checkout order u settings d
          in case andThen (prepayment_guard order u)
                    (\<lambda>_. subscription_guard env (w_billing w) now order (next_status u) plan) of
            Inl e \<Rightarrow> (d, Inl e)
          | Inr _ \<Rightarrow>
              (case cancellation_guard env a now order u d of
                 (d1, Inl e) \<Rightarrow> (d1, Inl e)
               | (d1, Inr _) \<Rightarrow>
                   (case andThen (transition_guard env a now order u settings plan d1) (\<lambda>_.
                           andThen (items_guard order u plan d1) (\<lambda>_. printer_guard order plan now d1)) of
                      Inl e \<Rightarrow> (d1, Inl e)
                    | Inr printer \<Rightarrow>
                        (case checkout_step env a now order u d1 of
                           (d2, Inl e) \<Rightarrow> (d2, Inl e)
                         | (d2, Inr checkout) \<Rightarrow>
                             (case acknowledgeExternalOrderBeforeTransition (pe_sha256 env) (pe_delivery env)
                                     (w_billing w) now (w_delivery w) (o_id order) (next_status u) of
                                Inl e \<Rightarrow> (d2, Inl (Delivery e))
                              | Inr external \<Rightarrow>
                                  (d2, Inr \<lparr>pp_order = order, pp_next = next_status u,
                                     pp_cancellation = cancellation_of u,
                                     pp_qrPaymentOnly = qr_payment_only order u, pp_streamlined = plan,
                                     pp_printer = printer, pp_checkout = checkout, pp_external = external,
                                     pp_kds = kds_enabled settings False\<rparr>))))))"

section \<open>The transaction\<close>

definition persisted_status :: "patch_plan \<Rightarrow> OrderStatus" where
  "persisted_status p =
     (if pp_qrPaymentOnly p
      then (if o_status (pp_order p) \<in> set streamlinedSourceStatuses then o_status (pp_order p)
            else pp_next p)
      else (case pp_streamlined p of None \<Rightarrow> pp_next p | Some s \<Rightarrow> cp_targetStatus s))"

definition manual_public_ready :: "patch_plan \<Rightarrow> bool" where
  "manual_public_ready p \<longleftrightarrow>
     persisted_status p = OrderStatus.READY \<and> \<not> pp_kds p
     \<and> o_source (pp_order p) = ''QR_MENU'' \<and> o_fulfillmentType (pp_order p) \<noteq> DINE_IN"

definition charges :: "patch_plan \<Rightarrow> bool" where
  "charges p \<longleftrightarrow> pp_next p = OrderStatus.COMPLETED \<and> o_paymentStatus (pp_order p) = UNPAID"

text \<open>The condition of the update: the order still has the status that was read.\<close>

definition order_unchanged :: "principal \<Rightarrow> patch_plan \<Rightarrow> instant \<Rightarrow> order_row \<Rightarrow> bool" where
  "order_unchanged a p now r \<longleftrightarrow>
     o_id r = o_id (pp_order p) \<and> o_stallId r = pa_stallId a \<and> o_status r = o_status (pp_order p)
     \<and> (o_status (pp_order p) = OrderStatus.WAITING_CONFIRMATION \<longrightarrow> now < o_confirmationExpiresAt r)
     \<and> (charges p \<longrightarrow> o_paymentStatus r = UNPAID)"

definition discounted :: "patch_plan \<Rightarrow> order_row \<Rightarrow> order_row" where
  "discounted p r =
     (case pp_checkout p of
        None \<Rightarrow> r
      | Some c \<Rightarrow>
          if truthy (sc_discountOptionId c)
          then r\<lparr>o_discountOptionId := sc_discountOptionId c, o_discountSource := ''STAFF'',
                 o_discountLabel := sc_discountLabel c, o_discountRateBps := sc_discountRateBps c,
                 o_discountAppliedById := sc_discountAppliedById c,
                 o_discountApprovedById := sc_discountApprovedById c,
                 o_discountApprovalReason := sc_discountApprovalReason c,
                 o_discountAmount := sc_discountAmount c, o_total := sc_total c\<rparr>
          else r)"

text \<open>Fields that the request does not set are written back as they were read.\<close>

definition order_update :: "principal \<Rightarrow> patch_plan \<Rightarrow> instant \<Rightarrow> order_row \<Rightarrow> order_row" where
  "order_update a p now r =
     (let order = pp_order p; cancelled = (pp_next p = OrderStatus.CANCELLED) in
      (discounted p r)
       \<lparr>o_status := persisted_status p,
        o_confirmedAt := (if persisted_status p = OrderStatus.CONFIRMED \<and> \<not> pp_qrPaymentOnly p
                          then Some now else o_confirmedAt order),
        o_completedAt := (if persisted_status p = OrderStatus.COMPLETED then Some now
                          else o_completedAt order),
        o_paymentStatus := (if pp_next p = OrderStatus.COMPLETED then PaymentStatus.PAID
                            else o_paymentStatus order),
        o_paidAt := (if charges p then Some now else o_paidAt order),
        o_cancellationReason := (case pp_cancellation p of None \<Rightarrow> o_cancellationReason order
                                 | Some c \<Rightarrow> Some (cc_cancellationReason c)),
        o_cancellationDetail := (case pp_cancellation p of None \<Rightarrow> o_cancellationDetail order
                                 | Some c \<Rightarrow> cc_cancellationDetail c),
        o_cancelledAt := (if cancelled then Some now else o_cancelledAt order),
        o_cancelledById := (if cancelled then Some (pa_userId a) else o_cancelledById order)\<rparr>)"

definition of_order :: "patch_plan \<Rightarrow> order_item_row \<Rightarrow> bool" where
  "of_order p i \<longleftrightarrow> oi_orderId i = o_id (pp_order p) \<and> oi_stallId i = o_stallId (pp_order p)"

definition streamlined_items :: "patch_plan \<Rightarrow> instant \<Rightarrow> order_item_row list \<Rightarrow> order_item_row list" where
  "streamlined_items p now items =
     (case pp_streamlined p of
        None \<Rightarrow> items
      | Some s \<Rightarrow>
          update_where (of_order p)
            (\<lambda>i. i\<lparr>oi_status := cp_itemStatus s, oi_readyAt := Some now,
                  oi_servedAt := (if cp_itemStatus s = OrderItemStatus.SERVED then Some now
                                  else oi_servedAt i)\<rparr>) items)"

definition manual_ready_items :: "patch_plan \<Rightarrow> instant \<Rightarrow> order_item_row list \<Rightarrow> order_item_row list" where
  "manual_ready_items p now items =
     (if manual_public_ready p
      then update_where (\<lambda>i. of_order p i \<and> oi_status i \<noteq> OrderItemStatus.SERVED)
             (\<lambda>i. i\<lparr>oi_status := OrderItemStatus.READY, oi_readyAt := Some now\<rparr>) items
      else items)"

text \<open>\<open>createMany\<close> with \<open>skipDuplicates\<close>: one initial job per order.\<close>

definition initial_job :: "uid \<Rightarrow> print_job_row \<Rightarrow> bool" where
  "initial_job orderId j \<longleftrightarrow> pj_orderId j = orderId \<and> pj_reprintOfId j = None \<and> pj_amendmentId j = None"

definition queue_print :: "principal \<Rightarrow> uid \<Rightarrow> patch_plan \<Rightarrow> instant \<Rightarrow> print_job_row list \<Rightarrow> print_job_row list" where
  "queue_print a newId p now jobs =
     (if queues_print (pp_streamlined p) \<and> \<not> list_ex (initial_job (o_id (pp_order p))) jobs
      then jobs @ [\<lparr>pj_id = newId, pj_organizationId = o_organizationId (pp_order p),
             pj_stallId = o_stallId (pp_order p), pj_orderId = o_id (pp_order p),
             pj_printerId = pp_printer p, pj_requestedById = Some (pa_userId a), pj_reprintOfId = None,
             pj_amendmentId = None, pj_isRoutingCopy = False, pj_documentType = KITCHEN_TICKET,
             pj_status = PrintJobStatus.PENDING, pj_createdAt = now\<rparr>]
      else jobs)"

definition payment_of :: "principal \<Rightarrow> patch_plan \<Rightarrow> staff_checkout \<Rightarrow> uid option \<Rightarrow> uid \<Rightarrow> instant \<Rightarrow> payment_row" where
  "payment_of a p c cashShiftId newId now =
     \<lparr>p_id = newId, p_organizationId = o_organizationId (pp_order p),
      p_stallId = o_stallId (pp_order p), p_orderId = o_id (pp_order p),
      p_paymentOptionId = sc_paymentOptionId c, p_cashShiftId = cashShiftId, p_amount = sc_total c,
      p_method = sc_method c, p_status = PaymentStatus.PAID, p_methodLabel = sc_methodLabel c,
      p_cashReceived = sc_cashReceived c, p_changeAmount = sc_changeAmount c,
      p_recordedById = Some (pa_userId a), p_paidAt = now\<rparr>"

definition patch_event_type :: "patch_plan \<Rightarrow> string" where
  "patch_event_type p =
     (if pp_next p = OrderStatus.COMPLETED then
        (if pp_qrPaymentOnly p then ''QR_PAYMENT_COMPLETED_PENDING_FULFILLMENT''
         else if (case pp_streamlined p of None \<Rightarrow> False | Some s \<Rightarrow> cp_completionPendingPrint s)
           then ''CHECKOUT_PENDING_PRINT''
         else if o_paymentStatus (pp_order p) = PaymentStatus.PAID then ''ORDER_COMPLETED_AFTER_PREPAYMENT''
         else ''CHECKOUT_COMPLETED'')
      else ''STAFF_STATUS_CHANGED'')"

definition patch_event :: "principal \<Rightarrow> patch_plan \<Rightarrow> order_event_row" where
  "patch_event a p =
     \<lparr>oe_organizationId = o_organizationId (pp_order p), oe_stallId = o_stallId (pp_order p),
      oe_orderId = o_id (pp_order p), oe_eventType = patch_event_type p,
      oe_previousStatus = Some (o_status (pp_order p)), oe_newStatus = Some (persisted_status p),
      oe_createdBy = Some (pa_userId a)\<rparr>"

definition cash_shift_for :: "patch_plan \<Rightarrow> db \<Rightarrow> patch_error + uid option" where
  "cash_shift_for p d =
     (if (case pp_checkout p of None \<Rightarrow> False | Some c \<Rightarrow> sc_method c = PaymentMethod.CASH)
      then (case requireOpenCashShift d (o_organizationId (pp_order p)) (o_stallId (pp_order p)) of
              Inl e \<Rightarrow> Inl (CashShiftFailure e) | Inr s \<Rightarrow> Inr (Some s))
      else Inr None)"

definition record_payment ::
  "principal \<Rightarrow> patch_ids \<Rightarrow> patch_plan \<Rightarrow> uid option \<Rightarrow> instant \<Rightarrow> db \<Rightarrow> patch_error + db" where
  "record_payment a ids p cashShiftId now d =
     (if charges p then
        (case pp_checkout p of
           None \<Rightarrow> Inl (Unexpected ''CHECKOUT_NOT_RESOLVED'')
         | Some c \<Rightarrow>
             (case insert_payment (pi_movement ids) (payment_of a p c cashShiftId (pi_payment ids) now) d of
                Inl e \<Rightarrow> Inl (CashShiftFailure (DATABASE e)) | Inr d' \<Rightarrow> Inr d'))
      else Inr d)"

text \<open>\<open>TransitionConflict\<close> when the condition selects no row.\<close>

definition commit_patch ::
  "patch_env \<Rightarrow> principal \<Rightarrow> patch_ids \<Rightarrow> patch_plan \<Rightarrow> instant \<Rightarrow> db \<times> delivery_db
     \<Rightarrow> patch_error + db \<times> delivery_db" where
  "commit_patch env a ids p now = (\<lambda>(d, dd).
     andThen (cash_shift_for p d) (\<lambda>cashShiftId.
       if count_where (order_unchanged a p now) (orders d) \<noteq> 1 then Inl TransitionConflict
       else
         let d1 = d\<lparr>orders := update_where (order_unchanged a p now) (order_update a p now) (orders d),
                    order_items := manual_ready_items p now (streamlined_items p now (order_items d)),
                    print_jobs := queue_print a (pi_printJob ids) p now (print_jobs d)\<rparr>
         in andThen (record_payment a ids p cashShiftId now d1) (\<lambda>d2.
              let d3 = d2\<lparr>order_events := order_events d2 @ [patch_event a p]\<rparr>
              in case persistExternalOrderTransition (pe_sha256 env) (pe_delivery env) ''CIRCUIT_B_VERCEL''
                        (pi_syncJob ids) now (pp_external p) (persisted_status p) dd of
                   Inl _ \<Rightarrow> Inl (Unexpected ''DELIVERY_PLATFORM_ERROR'')
                 | Inr dd' \<Rightarrow> Inr (d3, dd'))))"

section \<open>The handler\<close>

record patch_result =
  ps_order :: order_row
  ps_completionPendingPrint :: bool
  ps_completionPendingFulfillment :: bool

definition patch_audit_action :: "patch_plan \<Rightarrow> string" where
  "patch_audit_action p =
     (if pp_next p = OrderStatus.COMPLETED then
        (if pp_qrPaymentOnly p then ''QR_PAYMENT_COMPLETED_PENDING_FULFILLMENT''
         else if o_paymentStatus (pp_order p) = PaymentStatus.PAID then ''ORDER_COMPLETED_AFTER_PREPAYMENT''
         else ''CHECKOUT_COMPLETED'')
      else ''ORDER_STATUS_CHANGED'')"

definition finish_patch ::
  "patch_env \<Rightarrow> principal \<Rightarrow> patch_ids \<Rightarrow> patch_plan \<Rightarrow> instant \<Rightarrow> world \<Rightarrow> world \<times> (patch_error + patch_result)" where
  "finish_patch env a ids p now w =
     (case commit_patch env a ids p now (w_db w, w_delivery w) of
        Inl e \<Rightarrow> (w, Inl e)
      | Inr (d, dd) \<Rightarrow>
          (case List.find (\<lambda>r. o_id r = o_id (pp_order p)) (orders d) of
             None \<Rightarrow> (w, Inl (Unexpected ''P2025''))
           | Some r \<Rightarrow>
               (w\<lparr>w_db := audit (patch_audit_action p) (o_id (pp_order p)) SUCCESS a d, w_delivery := dd\<rparr>,
                Inr \<lparr>ps_order = r,
                     ps_completionPendingPrint =
                       (case pp_streamlined p of None \<Rightarrow> False | Some s \<Rightarrow> cp_completionPendingPrint s),
                     ps_completionPendingFulfillment = pp_qrPaymentOnly p\<rparr>)))"

text \<open>\<open>csrf\<close> says that the request's token is valid; \<open>body\<close> is the decoded body, \<open>None\<close> when
  it cannot be read.\<close>

definition handlePatch ::
  "patch_env \<Rightarrow> principal \<Rightarrow> patch_ids \<Rightarrow> uid \<Rightarrow> bool \<Rightarrow> order_status_update option \<Rightarrow> instant \<Rightarrow> world
     \<Rightarrow> world \<times> (patch_error + patch_result)" where
  "handlePatch env a ids orderId csrf body now w =
     (if \<not> csrf
      then (w\<lparr>w_db := audit ''CSRF_VALIDATION_FAILED'' orderId DENIED a (w_db w)\<rparr>, Inl CsrfRejected)
      else
        case (case body of None \<Rightarrow> None | Some b \<Rightarrow> parseOrderStatusUpdate (pe_is_email env) b) of
          None \<Rightarrow> (w, Inl MalformedRequest)
        | Some u \<Rightarrow>
            (case prepare_patch env a orderId u now w of
               (d, Inl e) \<Rightarrow> (w\<lparr>w_db := d\<rparr>, Inl e)
             | (d, Inr p) \<Rightarrow> finish_patch env a ids p now (w\<lparr>w_db := d\<rparr>)))"

end
