(* ===== verification/OrderHandling.thy ===== *)
theory OrderHandling
  imports OrderPatch
begin

text \<open>
  What the order handler guarantees: a refused request leaves everything but counters and
  audit log alone, a charge is paid exactly once and for the order's total whatever other
  requests did in the meantime, statuses move only as permitted, and the cash tables stay
  reconciled through the handler.
\<close>

section \<open>What the checks before the transaction may write\<close>

definition only_counters :: "db \<Rightarrow> db \<Rightarrow> bool" where
  "only_counters d d' \<longleftrightarrow>
     (\<exists>bs es. d' = d\<lparr>rate_limit_buckets := bs, audit_events := audit_events d @ es\<rparr>)"

lemma only_counters_refl [simp]: "only_counters d d"
  unfolding only_counters_def by (intro exI [of _ "rate_limit_buckets d"] exI [of _ "[]"]) simp

lemma only_counters_buckets [simp]: "only_counters d (d\<lparr>rate_limit_buckets := bs\<rparr>)"
  unfolding only_counters_def by (intro exI [of _ bs] exI [of _ "[]"]) simp

lemma only_counters_audit [simp]: "only_counters d d' \<Longrightarrow> only_counters d (audit action i outcome a d')"
  by (fastforce simp: only_counters_def audit_def)

lemma only_counters_trans: "only_counters d d1 \<Longrightarrow> only_counters d1 d2 \<Longrightarrow> only_counters d d2"
  by (fastforce simp: only_counters_def)

lemma only_countersD:
  assumes "only_counters d d'"
  shows "orders d' = orders d" "payments d' = payments d" "cash_shifts d' = cash_shifts d"
    "cash_movements d' = cash_movements d" "order_items d' = order_items d" "print_jobs d' = print_jobs d"
    "order_events d' = order_events d"
  using assms by (auto simp: only_counters_def)

lemma verify_counters: "only_counters d (fst (verifyManagerAuthorization sha256 compare now i d))"
  by (simp add: verifyManagerAuthorization_def Let_def split: option.split prod.split)

lemma approve_counters: "only_counters d (fst (approve_by_credentials sha256 compare now i reason d))"
  by (simp add: approve_by_credentials_def Let_def split: option.split prod.split)

lemma discount_counters: "only_counters d (fst (resolveDiscountApproval sha256 compare now i d))"
  using approve_counters verify_counters
  by (auto simp: resolveDiscountApproval_def Let_def split: prod.split sum.split)
    (metis fst_conv)+

lemma checkout_counters: "only_counters d (fst (resolveStaffCheckout sha256 compare now i d))"
  using discount_counters
  by (auto simp: resolveStaffCheckout_def split: prod.split sum.split option.split) (metis fst_conv)+

lemma cancellation_counters: "only_counters d (fst (cancellation_guard env a now order u d))"
proof (cases "cancellation_of u")
  case (Some c)
  let ?v = "verifyManagerAuthorization (pe_sha256 env) (pe_compare env) now
      \<lparr>mi_stallId = o_stallId order, mi_actorProfileId = pa_userId a, mi_actorRoles = pa_roles a,
       mi_operation = CANCEL_ORDER, mi_authorizationCode = cc_managerAuthorizationCode c\<rparr> d"
  obtain d1 r where r: "?v = (d1, r)" by (cases ?v)
  then have "only_counters d d1" using verify_counters by (metis fst_conv)
  with Some r show ?thesis by (simp add: cancellation_guard_def split: sum.split)
qed (simp add: cancellation_guard_def)

lemma checkout_step_counters: "only_counters d (fst (checkout_step env a now order u d))"
proof (cases u)
  case (Complete c)
  obtain d1 r where r: "resolveStaffCheckout (pe_sha256 env) (pe_compare env) now (checkout_input a order c d) d
      = (d1, r)" by fastforce
  then have "only_counters d d1" using checkout_counters by (metis fst_conv)
  with Complete r show ?thesis by (simp add: checkout_step_def split: sum.split StaffCheckoutError.split)
qed (simp_all add: checkout_step_def)

lemma prepare_counters: "only_counters (w_db w) (fst (prepare_patch env a orderId u now w))"
proof -
  have *: "only_counters (w_db w) d2"
    if "cancellation_guard env a now order u (w_db w) = (d1, r)" "checkout_step env a now order u d1 = (d2, r')"
    for order d1 r d2 r'
    using that only_counters_trans cancellation_counters checkout_step_counters by (metis fst_conv)
  have **: "only_counters (w_db w) d1"
    if "cancellation_guard env a now order u (w_db w) = (d1, r)" for order d1 r
    using that cancellation_counters by (metis fst_conv)
  show ?thesis
    by (auto simp: prepare_patch_def Let_def intro: * ** split: option.split sum.split prod.split)
qed

text \<open>C6. A request that is refused for any reason, before the transaction or inside it,
  leaves orders, items, payments, the cash tables, print jobs, events, external orders and
  delivery jobs exactly as they were; it can only have counted an attempt of the rate limiter
  and appended to the audit log.\<close>

theorem refused_patch_changes_nothing:
  assumes "handlePatch env a ids orderId csrf body now w = (w', Inl e)"
  shows "only_counters (w_db w) (w_db w') \<and> w_delivery w' = w_delivery w \<and> w_billing w' = w_billing w"
proof (cases "csrf")
  case False
  with assms show ?thesis by (auto simp: handlePatch_def)
next
  case True
  have finish: "w2 = w1" if "finish_patch env a ids p now w1 = (w2, Inl e)" for p w1 w2
    using that by (auto simp: finish_patch_def split: sum.splits prod.splits option.splits)
  have prepare: "only_counters (w_db w) d" if "prepare_patch env a orderId u now w = (d, r)" for u d r
    using prepare_counters that by (metis fst_conv)
  from True assms show ?thesis
    by (auto simp: handlePatch_def split: option.splits prod.splits sum.splits dest!: finish dest: prepare)
qed

section \<open>What a plan has been checked for\<close>

lemma prepare_InrD:
  assumes "prepare_patch env a orderId u now w = (d2, Inr p)"
  obtains d1 where
    "find_order orderId (pa_stallId a) (w_db w) = Some (pp_order p)"
    "pp_next p = next_status u" "pp_cancellation p = cancellation_of u"
    "pp_qrPaymentOnly p = qr_payment_only (pp_order p) u"
    "pp_streamlined p = streamlined_checkout (pp_order p) u
       (settings_of (w_db w) (o_stallId (pp_order p))) (w_db w)"
    "cancellation_guard env a now (pp_order p) u (w_db w) = (d1, Inr ())"
    "transition_guard env a now (pp_order p) u (settings_of (w_db w) (o_stallId (pp_order p)))
       (pp_streamlined p) d1 = Inr ()"
    "items_guard (pp_order p) u (pp_streamlined p) d1 = Inr ()"
    "checkout_step env a now (pp_order p) u d1 = (d2, Inr (pp_checkout p))"
  using assms
  by (auto simp: prepare_patch_def Let_def andThen_Inr_iff split: option.splits sum.splits prod.splits)

lemma qr_payment_only_D:
  assumes "qr_payment_only order u"
  shows "next_status u = OrderStatus.COMPLETED" "o_paymentStatus order = UNPAID"
    "o_status order \<in> set streamlinedSourceStatuses"
  using assms by (simp_all add: qr_payment_only_def shouldKeepQrOrderOpenAfterPayment_def streamlined_of_def)

lemma streamlined_checkout_SomeD:
  assumes "streamlined_checkout order u settings d = Some s"
  shows "next_status u = OrderStatus.COMPLETED" "o_status order \<in> set streamlinedSourceStatuses"
    "cp_targetStatus s \<in> {OrderStatus.READY, OrderStatus.COMPLETED}" "\<not> qr_payment_only order u"
    "cp_targetStatus s = OrderStatus.READY \<longleftrightarrow> cp_completionPendingPrint s"
  using assms
  by (auto simp: streamlined_checkout_def getStreamlinedCheckoutPlan_def streamlined_of_def Let_def
      split: if_splits)

lemma planned_change:
  assumes "prepare_patch env a orderId u now w = (d, Inr p)"
    and current_def: "current = o_status (pp_order p)"
  shows "current \<notin> {OrderStatus.COMPLETED, OrderStatus.CANCELLED, OrderStatus.EXPIRED}
    \<and> (canTransitionOrder current (persisted_status p) (pa_role a)
       \<or> current \<in> set streamlinedSourceStatuses \<and> pp_next p = OrderStatus.COMPLETED
          \<and> (\<exists>s. pp_streamlined p = Some s
               \<and> persisted_status p = (if cp_completionPendingPrint s then OrderStatus.READY else OrderStatus.COMPLETED))
       \<or> pp_qrPaymentOnly p \<and> charges p \<and> persisted_status p = current)
    \<and> (pp_next p = OrderStatus.COMPLETED \<longrightarrow> hasPermission (pa_role a) CHECKOUT_ORDERS)
    \<and> (\<forall>c. u = Cancel c \<longrightarrow>
         cc_confirmationOrderNo c = o_orderNo (pp_order p)
         \<and> (canApprove (pa_roles a)
            \<or> (\<exists>se hash. code_settings (w_db w) (o_stallId (pp_order p)) = Some (se, hash)
                 \<and> pe_compare env (js_trim (or_empty (cc_managerAuthorizationCode c))) hash)))"
proof -
  from assms(1) obtain d1 where D: "pp_next p = next_status u"
      "pp_qrPaymentOnly p = qr_payment_only (pp_order p) u"
      "pp_streamlined p = streamlined_checkout (pp_order p) u
         (settings_of (w_db w) (o_stallId (pp_order p))) (w_db w)"
      "cancellation_guard env a now (pp_order p) u (w_db w) = (d1, Inr ())"
      "transition_guard env a now (pp_order p) u (settings_of (w_db w) (o_stallId (pp_order p)))
         (pp_streamlined p) d1 = Inr ()"
    by (rule prepare_InrD)
  have live: "st \<notin> {OrderStatus.COMPLETED, OrderStatus.CANCELLED, OrderStatus.EXPIRED}"
    if "st \<in> set streamlinedSourceStatuses \<or> canTransitionOrder st n role" for st n role
    using that by (cases st) (auto simp: streamlinedSourceStatuses_def canTransitionOrder_def split: if_splits)
  have change: "canTransitionOrder current (persisted_status p) (pa_role a)
       \<or> current \<in> set streamlinedSourceStatuses \<and> pp_next p = OrderStatus.COMPLETED
          \<and> (\<exists>s. pp_streamlined p = Some s
               \<and> persisted_status p = (if cp_completionPendingPrint s then OrderStatus.READY else OrderStatus.COMPLETED))
       \<or> pp_qrPaymentOnly p \<and> charges p \<and> persisted_status p = current \<and> current \<in> set streamlinedSourceStatuses"
  proof (cases "pp_qrPaymentOnly p")
    case True
    with D(1,2) qr_payment_only_D [of "pp_order p" u] show ?thesis
      by (simp add: persisted_status_def charges_def current_def)
  next
    case no_qr: False
    show ?thesis
    proof (cases "pp_streamlined p")
      case None
      with no_qr D(1,2,5) show ?thesis
        by (auto simp: transition_guard_def Let_def persisted_status_def current_def split: if_splits)
    next
      case (Some s)
      note S = streamlined_checkout_SomeD [OF Some [symmetric, unfolded D(3), symmetric]]
      from S no_qr Some D(1) show ?thesis by (auto simp: persisted_status_def current_def)
    qed
  qed
  have perm: "pp_next p = OrderStatus.COMPLETED \<longrightarrow> hasPermission (pa_role a) CHECKOUT_ORDERS"
    using D(1,5) by (auto simp: transition_guard_def Let_def andThen_Inr_iff split: if_splits)
  have cancel: "cc_confirmationOrderNo c = o_orderNo (pp_order p)
         \<and> (canApprove (pa_roles a)
            \<or> (\<exists>se hash. code_settings (w_db w) (o_stallId (pp_order p)) = Some (se, hash)
                 \<and> pe_compare env (js_trim (or_empty (cc_managerAuthorizationCode c))) hash))"
    if "u = Cancel c" for c
  proof -
    from that D(4) have no: "cc_confirmationOrderNo c = o_orderNo (pp_order p)"
      by (simp add: cancellation_guard_def cancellation_of_def cancellationMatchesOrder_def split: if_splits)
    from that D(4) no obtain m where "verifyManagerAuthorization (pe_sha256 env) (pe_compare env) now
        \<lparr>mi_stallId = o_stallId (pp_order p), mi_actorProfileId = pa_userId a, mi_actorRoles = pa_roles a,
         mi_operation = CANCEL_ORDER, mi_authorizationCode = cc_managerAuthorizationCode c\<rparr> (w_db w) = (d1, Inr m)"
      by (auto simp: cancellation_guard_def cancellation_of_def cancellationMatchesOrder_def
          split: prod.splits sum.splits)
    from verify_granted [OF this] no show ?thesis by simp
  qed
  from change live have "current \<notin> {OrderStatus.COMPLETED, OrderStatus.CANCELLED, OrderStatus.EXPIRED}"
    by blast
  with change perm cancel show ?thesis by blast
qed


section \<open>What the transaction writes\<close>

lemma insert_payment_frame:
  assumes "insert_payment newId p d = Inr d'"
  shows "\<exists>ms. d' = d\<lparr>payments := payments d @ [p], cash_movements := cash_movements d @ ms\<rparr>
    \<and> p_orderId p \<notin> set (map p_orderId (payments d))
    \<and> (p_method p = PaymentMethod.CASH \<longrightarrow> p_status p = PaymentStatus.PAID
         \<longrightarrow> (\<forall>m \<in> set (cash_movements d). cm_referenceId m \<noteq> Some (p_id p))
         \<longrightarrow> (\<exists>m s. ms = [m] \<and> p_cashShiftId p = Some s \<and> m = cash_sale_movement newId p s (d\<lparr>payments := payments d @ [p]\<rparr>)))"
proof -
  let ?d = "d\<lparr>payments := payments d @ [p]\<rparr>"
  from assms have r: "record_cash_sale_movement newId p ?d = Inr d'"
    and fresh: "p_orderId p \<notin> set (map p_orderId (payments d))"
    and enforce: "enforce_payment_cash_shift p d = None"
    by (auto simp: insert_payment_def split: option.splits if_splits)
  show ?thesis
  proof (cases "p_method p = PaymentMethod.CASH \<and> p_status p = PaymentStatus.PAID")
    case False
    with r have "d' = ?d" by (auto simp: record_cash_sale_movement_def split: option.splits)
    with False fresh show ?thesis by (intro exI [of _ "[]"]) auto
  next
    case True
    with enforce obtain s where s: "p_cashShiftId p = Some s"
      by (auto simp: enforce_payment_cash_shift_def split: option.splits)
    let ?m = "cash_sale_movement newId p s ?d"
    consider (old) "(Some ''PAYMENT'', p_id p, CASH_SALE) \<in> set (List.map_filter movement_reference (cash_movements d))"
        "d' = ?d" | (new) "insert_cash_movement ?m ?d = Inr d'"
    proof (cases "(Some ''PAYMENT'', p_id p, CASH_SALE)
          \<in> set (List.map_filter movement_reference (cash_movements ?d))
        \<and> enforce_cash_movement_ledger ?m ?d = None \<and> movement_amount_check ?m")
      case True
      with r \<open>p_method p = PaymentMethod.CASH \<and> p_status p = PaymentStatus.PAID\<close> s
      have "d' = ?d" by (simp add: record_cash_sale_movement_def Let_def)
      with True show ?thesis by (intro old) simp_all
    next
      case False
      from r [unfolded record_cash_sale_movement_def Let_def] s True
      have "insert_cash_movement ?m ?d = Inr d'" by (simp only: if_not_P [OF False] option.case not_True_eq_False simp_thms if_False)
      then show ?thesis by (rule new)
    qed
    then show ?thesis
    proof cases
      case old
      then obtain m where "m \<in> set (cash_movements d)"
          "movement_reference m = Some (Some ''PAYMENT'', p_id p, CASH_SALE)"
        by (auto simp only: in_map_filter)
      then have "\<exists>m \<in> set (cash_movements d). cm_referenceId m = Some (p_id p)"
        by (intro bexI [of _ m]) (simp_all add: movement_reference_def)
      with old(2) fresh show ?thesis by (intro exI [of _ "[]"]) auto
    next
      case new
      from insert_cash_movement_InrD(1) [OF new] fresh s show ?thesis
        by (intro exI [of _ "[?m]"]) auto
    qed
  qed
qed

lemma commit_InrD:
  assumes "commit_patch env a ids p now (d, dd) = Inr (d', dd')"
  obtains shift d2 where
    "cash_shift_for p d = Inr shift" "count_where (order_unchanged a p now) (orders d) = 1"
    "record_payment a ids p shift now
       (d\<lparr>orders := update_where (order_unchanged a p now) (order_update a p now) (orders d),
          order_items := manual_ready_items p now (streamlined_items p now (order_items d)),
          print_jobs := queue_print a (pi_printJob ids) p now (print_jobs d)\<rparr>) = Inr d2"
    "d' = d2\<lparr>order_events := order_events d2 @ [patch_event a p]\<rparr>"
proof -
  from assms obtain shift where shift: "cash_shift_for p d = Inr shift"
      and one: "count_where (order_unchanged a p now) (orders d) = 1"
    by (auto simp: commit_patch_def andThen_Inr_iff split: if_splits)
  let ?d1 = "d\<lparr>orders := update_where (order_unchanged a p now) (order_update a p now) (orders d),
          order_items := manual_ready_items p now (streamlined_items p now (order_items d)),
          print_jobs := queue_print a (pi_printJob ids) p now (print_jobs d)\<rparr>"
  from assms shift one obtain d2 where d2: "record_payment a ids p shift now ?d1 = Inr d2"
    by (cases "record_payment a ids p shift now ?d1") (simp_all add: commit_patch_def Let_def)
  with assms shift one have "d' = d2\<lparr>order_events := order_events d2 @ [patch_event a p]\<rparr>"
    by (simp add: commit_patch_def Let_def split: sum.split_asm)
  with shift one d2 show thesis by (rule that)
qed

lemma record_payment_frame:
  assumes "record_payment a ids p shift now d = Inr d2"
  shows "\<exists>ps ms. d2 = d\<lparr>payments := payments d @ ps, cash_movements := cash_movements d @ ms\<rparr>
    \<and> (\<not> charges p \<longrightarrow> ps = [] \<and> ms = [])"
proof (cases "charges p")
  case True
  with assms obtain c where "insert_payment (pi_movement ids) (payment_of a p c shift (pi_payment ids) now) d = Inr d2"
    by (auto simp: record_payment_def split: option.splits sum.splits)
  from insert_payment_frame [OF this] True show ?thesis by blast
next
  case False
  with assms show ?thesis by (intro exI [of _ "[]"]) (simp add: record_payment_def)
qed

lemma commit_orders:
  assumes "commit_patch env a ids p now (d, dd) = Inr (d', dd')"
  shows "orders d' = update_where (order_unchanged a p now) (order_update a p now) (orders d)"
    "count_where (order_unchanged a p now) (orders d) = 1"
proof -
  from assms obtain shift d2 where C: "count_where (order_unchanged a p now) (orders d) = 1"
      "record_payment a ids p shift now
       (d\<lparr>orders := update_where (order_unchanged a p now) (order_update a p now) (orders d),
          order_items := manual_ready_items p now (streamlined_items p now (order_items d)),
          print_jobs := queue_print a (pi_printJob ids) p now (print_jobs d)\<rparr>) = Inr d2"
      "d' = d2\<lparr>order_events := order_events d2 @ [patch_event a p]\<rparr>"
    by (rule commit_InrD)
  from record_payment_frame [OF C(2)] C(3)
  show "orders d' = update_where (order_unchanged a p now) (order_update a p now) (orders d)" by auto
  from C(1) show "count_where (order_unchanged a p now) (orders d) = 1" .
qed

lemma find_discount_truthy:
  "find_discount_option i d = Some o' \<Longrightarrow> truthy (Some (do_id o'))"
  by (auto simp: find_discount_option_def Let_def truthy_def split: if_splits dest: find_Some_D)

text \<open>The total of a checkout of one order is the order's total after the update.\<close>

lemma single_checkout_total:
  assumes "resolveStaffCheckout sha256 compare now (checkout_input a order c d) d = (d', Inr sc)"
  shows "truthy (sc_discountOptionId sc) \<or> sc_discountOptionId sc = None \<and> sc_total sc = o_total order"
proof -
  let ?i = "checkout_input a order c d"
  from assms obtain k ap where k: "draftStaffCheckout ?i d = Inr k"
      and sc: "sc = resolved_checkout (si_actorProfileId ?i) k ap" by (rule resolveStaffCheckout_InrD)
  from k obtain po dis as where "checkout_options ?i d = Inr (po, dis)" "cd_discount k = dis"
      "per_order_amounts (case dis of None \<Rightarrow> 10000 | Some o' \<Rightarrow> do_rateBps o') (dis \<noteq> None)
        (si_subtotals ?i) (si_discountEligibleSubtotals ?i) (si_currentTotals ?i) = Inr as"
      "cd_total k = sum_of da_total as"
    by (auto simp: draftStaffCheckout_def andThen_Inr_iff Let_def split: if_splits option.splits)
  moreover from this(1) have "dis = find_discount_option ?i d"
    by (auto simp: checkout_options_def Let_def split: if_splits)
  ultimately show ?thesis using find_discount_truthy [of ?i d]
    by (cases dis)
      (auto simp: sc resolved_checkout_def checkout_input_def andThen_Inr_iff split: sum.splits if_splits)
qed

lemma charged_plan:
  assumes "prepare_patch env a orderId u now w = (d2, Inr p)" and "pp_checkout p = Some sc"
  obtains c d1 where "u = Complete c" "only_counters (w_db w) d1"
    "resolveStaffCheckout (pe_sha256 env) (pe_compare env) now (checkout_input a (pp_order p) c d1) d1 = (d2, Inr sc)"
proof -
  from assms(1) obtain d1 where D: "cancellation_guard env a now (pp_order p) u (w_db w) = (d1, Inr ())"
      "checkout_step env a now (pp_order p) u d1 = (d2, Inr (pp_checkout p))" by (rule prepare_InrD)
  have limits: "only_counters (w_db w) d1" using D(1) cancellation_counters by (metis fst_conv)
  from D(2) assms(2) obtain c where c: "u = Complete c" by (cases u) (simp_all add: checkout_step_def)
  with D(2) assms(2) have
    "resolveStaffCheckout (pe_sha256 env) (pe_compare env) now (checkout_input a (pp_order p) c d1) d1 = (d2, Inr sc)"
    by (auto simp: checkout_step_def split: if_splits prod.splits sum.splits StaffCheckoutError.splits)
  with c limits show thesis by (rule that)
qed

lemma one_row_updated:
  assumes "distinct (map o_id rows)" and "count_where q rows = 1" and "\<And>r. q r \<Longrightarrow> o_id r = i"
  obtains r where "r \<in> set rows" "q r" "f r \<in> set (update_where q f rows)" "o_id r = i"
proof -
  from assms(2) obtain r where "r \<in> set rows" "q r" using count_where_pos [of q rows] by auto
  with assms(3) show thesis by (intro that [of r]) (auto simp: in_update_where)
qed


text \<open>C8. An order that is completed, cancelled or expired is never changed by the handler: a
  transaction of any plan the checks have let through, whenever it runs, keeps its row.\<close>

theorem finished_orders_are_final:
  assumes "prepare_patch env a orderId u now0 w = (d0, Inr p)"
    and "commit_patch env a ids p now (d, dd) = Inr (d', dd')"
    and "r \<in> set (orders d)"
    and "o_status r \<in> {OrderStatus.COMPLETED, OrderStatus.CANCELLED, OrderStatus.EXPIRED}"
  shows "r \<in> set (orders d')"
proof -
  from planned_change [OF assms(1) refl] assms(4) have "\<not> order_unchanged a p now r"
    by (auto simp: order_unchanged_def)
  with assms(3) show ?thesis by (auto simp: commit_orders(1) [OF assms(2)] in_update_where)
qed

section \<open>The cash tables\<close>

lemma cash_ok_counters: "cash_ok d \<Longrightarrow> only_counters d d' \<Longrightarrow> cash_ok d'"
  using cash_ok_cong [of d d'] only_countersD by blast

lemma cash_ok_commit:
  assumes "cash_ok d" and "commit_patch env a ids p now (d, dd) = Inr (d', dd')"
  shows "cash_ok d'"
proof -
  from assms(2) obtain shift d2 where C: "record_payment a ids p shift now
       (d\<lparr>orders := update_where (order_unchanged a p now) (order_update a p now) (orders d),
          order_items := manual_ready_items p now (streamlined_items p now (order_items d)),
          print_jobs := queue_print a (pi_printJob ids) p now (print_jobs d)\<rparr>) = Inr d2"
      "d' = d2\<lparr>order_events := order_events d2 @ [patch_event a p]\<rparr>" by (rule commit_InrD)
  let ?d1 = "d\<lparr>orders := update_where (order_unchanged a p now) (order_update a p now) (orders d),
          order_items := manual_ready_items p now (streamlined_items p now (order_items d)),
          print_jobs := queue_print a (pi_printJob ids) p now (print_jobs d)\<rparr>"
  have "cash_ok ?d1" by (rule cash_ok_cong [OF assms(1)]) simp_all
  with C(1) have "cash_ok d2"
    by (auto simp: record_payment_def intro: cash_ok_insert_payment split: if_splits option.splits sum.splits)
  then show ?thesis unfolding C(2) by (rule cash_ok_cong) simp_all
qed

lemma cash_ok_handlePatch:
  assumes "cash_ok (w_db w)"
  shows "cash_ok (w_db (fst (handlePatch env a ids orderId csrf body now w)))"
proof -
  have audited: "cash_ok (audit action i outcome a' d)" if "cash_ok d" for action i outcome a' d
    using that by (rule cash_ok_cong) (simp_all add: audit_def)
  have finish: "cash_ok (w_db (fst (finish_patch env a ids p now w1)))" if ok: "cash_ok (w_db w1)" for p w1
  proof (cases "commit_patch env a ids p now (w_db w1, w_delivery w1)")
    case (Inr x)
    then have "cash_ok (fst x)" using cash_ok_commit [OF ok] by (metis prod.collapse)
    with Inr ok show ?thesis
      by (simp add: finish_patch_def case_prod_beta audited split: option.split)
  qed (use ok in \<open>simp add: finish_patch_def\<close>)
  have prepare: "cash_ok (fst (prepare_patch env a orderId u now w))" for u
    using assms prepare_counters by (rule cash_ok_counters)
  show ?thesis
  proof (cases "csrf")
    case False
    with assms show ?thesis by (simp add: handlePatch_def audited)
  next
    case csrf: True
    show ?thesis
    proof (cases "case body of None \<Rightarrow> None | Some b \<Rightarrow> parseOrderStatusUpdate (pe_is_email env) b")
      case None
      with csrf assms show ?thesis by (simp add: handlePatch_def)
    next
      case (Some u)
      obtain d r where r: "prepare_patch env a orderId u now w = (d, r)" by fastforce
      with prepare [of u] have "cash_ok d" by simp
      with csrf Some r finish [of "w\<lparr>w_db := d\<rparr>"] show ?thesis
        by (cases r) (simp_all add: handlePatch_def)
    qed
  qed
qed

section \<open>A worked shop\<close>

definition shop_env :: patch_env where
  "shop_env =
     \<lparr>pe_sha256 = \<lambda>s. s, pe_compare = (=), pe_is_email = \<lambda>_. True, pe_tz_offset = \<lambda>_ _. 0,
      pe_delivery = importing_env\<rparr>"

definition clerk :: principal where
  "clerk = \<lparr>pa_userId = ''clerk'', pa_role = UserRole.STAFF, pa_roles = [UserRole.STAFF], pa_stallId = ''stall''\<rparr>"

definition sample_ids :: patch_ids where
  "sample_ids = \<lparr>pi_payment = ''pay'', pi_movement = ''move'', pi_printJob = ''print'', pi_syncJob = ''sync''\<rparr>"

definition unpaid_order :: order_row where
  "unpaid_order = sample_order\<lparr>o_paymentStatus := UNPAID, o_paidAt := None\<rparr>"

definition open_shift :: cash_shift_row where
  "open_shift =
     \<lparr>cs_id = ''shift'', cs_organizationId = ''org'', cs_stallId = ''stall'',
      cs_status = CashShiftStatus.OPEN, cs_openingAmount = 0, cs_systemExpectedAmount = None,
      cs_countedAmount = None, cs_varianceAmount = None, cs_note = None, cs_openedById = ''clerk'',
      cs_closedById = None, cs_openedAt = 1, cs_closedAt = None\<rparr>"

definition shop_db :: "order_row \<Rightarrow> db" where
  "shop_db r =
     empty_db\<lparr>orders := [r], cash_shifts := [open_shift],
       ordering_settings := [print_settings\<lparr>se_paymentModuleEnabled := False, se_kdsModuleEnabled := True\<rparr>]\<rparr>"

definition shop :: "order_row \<Rightarrow> world" where
  "shop r = \<lparr>w_db = shop_db r, w_billing = beta_billing, w_delivery = sample_queue\<rparr>"

definition cash_request :: completion_request where
  "cash_request =
     \<lparr>cq_completionIntent = None, cq_paymentOptionId = None, cq_discountOptionId = None,
      cq_cashReceived = Some 120, cq_discountApprovalReason = None, cq_managerEmail = None,
      cq_managerPassword = None, cq_managerAuthorizationCode = None\<rparr>"

definition charging_plan :: patch_plan where
  "charging_plan =
     (case prepare_patch shop_env clerk ''order'' (Complete cash_request) 5 (shop unpaid_order) of
        (_, Inr p) \<Rightarrow> p | _ \<Rightarrow> undefined)"

lemma charging_plan_prepared:
  "prepare_patch shop_env clerk ''order'' (Complete cash_request) 5 (shop unpaid_order)
     = (shop_db unpaid_order, Inr charging_plan)"
proof -
  have "case prepare_patch shop_env clerk ''order'' (Complete cash_request) 5 (shop unpaid_order) of
      (d, Inr p) \<Rightarrow> rate_limit_buckets d = [] \<and> audit_events d = [] | _ \<Rightarrow> False" by code_simp
  with prepare_counters [of "shop unpaid_order" shop_env clerk "''order''" "Complete cash_request" 5]
  show ?thesis
    by (auto simp: charging_plan_def only_counters_def shop_def shop_db_def empty_db_def
        split: prod.splits sum.splits)
qed

lemma charging_plan_committed:
  "\<exists>d'. commit_patch shop_env clerk sample_ids charging_plan 6 (shop_db unpaid_order, sample_queue) = Inr (d', sample_queue)"
proof -
  have "case prepare_patch shop_env clerk ''order'' (Complete cash_request) 5 (shop unpaid_order) of
      (_, Inr p) \<Rightarrow> (case commit_patch shop_env clerk sample_ids p 6 (shop_db unpaid_order, sample_queue) of
          Inr (_, dd) \<Rightarrow> pp_external p = None | _ \<Rightarrow> False) | _ \<Rightarrow> False" by code_simp
  then have "case commit_patch shop_env clerk sample_ids charging_plan 6 (shop_db unpaid_order, sample_queue) of
          Inr (_, dd) \<Rightarrow> pp_external charging_plan = None | _ \<Rightarrow> False"
    unfolding charging_plan_prepared by simp
  then show ?thesis
    by (auto simp: commit_patch_def andThen_Inr_iff persistExternalOrderTransition_def Let_def
        split: sum.splits if_splits)
qed

theorem refused_patch_changes_nothing_witness:
  "\<exists>w' e. handlePatch shop_env clerk sample_ids ''order'' True (Some (Complete (cash_request\<lparr>cq_cashReceived := Some 99\<rparr>))) 5
       (shop unpaid_order) = (w', Inl e) \<and> payments (w_db w') = []"
proof -
  have "case handlePatch shop_env clerk sample_ids ''order'' True (Some (Complete (cash_request\<lparr>cq_cashReceived := Some 99\<rparr>))) 5
       (shop unpaid_order) of (_, Inl _) \<Rightarrow> True | _ \<Rightarrow> False" by code_simp
  then obtain w' e where h: "handlePatch shop_env clerk sample_ids ''order'' True
       (Some (Complete (cash_request\<lparr>cq_cashReceived := Some 99\<rparr>))) 5 (shop unpaid_order) = (w', Inl e)"
    by (auto split: prod.splits sum.splits)
  from refused_patch_changes_nothing [OF h] h show ?thesis
    by (auto dest: only_countersD simp: shop_def shop_db_def empty_db_def)
qed



theorem finished_orders_are_final_witness:
  "\<exists>r d'. o_status r = OrderStatus.CANCELLED \<and> r \<in> set (orders d')
     \<and> commit_patch shop_env clerk sample_ids charging_plan 6
         ((shop_db unpaid_order)\<lparr>orders := [unpaid_order, r]\<rparr>, sample_queue) = Inr (d', sample_queue)"
proof -
  let ?r = "unpaid_order\<lparr>o_id := ''other'', o_status := OrderStatus.CANCELLED\<rparr>"
  let ?d = "(shop_db unpaid_order)\<lparr>orders := [unpaid_order, ?r]\<rparr>"
  have "case prepare_patch shop_env clerk ''order'' (Complete cash_request) 5 (shop unpaid_order) of
      (_, Inr p) \<Rightarrow> (case commit_patch shop_env clerk sample_ids p 6 (?d, sample_queue) of
          Inr (_, dd) \<Rightarrow> pp_external p = None | _ \<Rightarrow> False) | _ \<Rightarrow> False" by code_simp
  then have "case commit_patch shop_env clerk sample_ids charging_plan 6 (?d, sample_queue) of
          Inr (_, dd) \<Rightarrow> pp_external charging_plan = None | _ \<Rightarrow> False"
    unfolding charging_plan_prepared by simp
  then obtain d' where c: "commit_patch shop_env clerk sample_ids charging_plan 6 (?d, sample_queue) = Inr (d', sample_queue)"
    by (auto simp: commit_patch_def andThen_Inr_iff persistExternalOrderTransition_def Let_def
        split: sum.splits if_splits)
  have "?r \<in> set (orders d')"
    by (rule finished_orders_are_final [OF charging_plan_prepared c]) simp_all
  with c show ?thesis by (intro exI [of _ ?r] exI [of _ d']) simp
qed

section \<open>Two defects\<close>

text \<open>The transaction does not check the total that the checkout was computed from: an edit of
  the unpaid order in between is paid with the old amount.\<close>

lemma edit_during_checkout_mispays:
  "case prepare_patch shop_env clerk ''order'' (Complete cash_request) 5 (shop unpaid_order) of
     (_, Inr p) \<Rightarrow>
       (case commit_patch shop_env clerk sample_ids p 6
               (shop_db (unpaid_order\<lparr>o_subtotal := 180, o_total := 180\<rparr>), sample_queue) of
          Inr (d', _) \<Rightarrow> map p_amount (payments d') = [100] \<and> map o_total (orders d') = [180]
             \<and> map o_paymentStatus (orders d') = [PaymentStatus.PAID]
        | _ \<Rightarrow> False)
   | _ \<Rightarrow> False"
  by code_simp

text \<open>Completing an order whose payment was refunded marks it paid again, without a payment.\<close>

lemma completion_overwrites_refund:
  "case handlePatch shop_env clerk sample_ids ''order'' True (Some (Complete cash_request)) 5
          (shop (unpaid_order\<lparr>o_paymentStatus := PaymentStatus.REFUNDED\<rparr>)) of
     (w', Inr _) \<Rightarrow> map o_paymentStatus (orders (w_db w')) = [PaymentStatus.PAID] \<and> payments (w_db w') = []
   | _ \<Rightarrow> False"
  by code_simp

end
