(* ===== verification/Supply.thy ===== *)
theory Supply
  imports Ledger JsText JsDate
begin

text \<open>
  The values of the supply module (\<open>src/src/server/supply-lite\<close>): the tables of ingredients,
  suppliers, locations, recipes, stock and purchases, the commands with their schema
  (\<open>supply-contract.ts\<close>), and the arithmetic of stock: the consumption of lots in the order
  of their expiry, the moving average of unit costs and the amount of a purchase line
  (\<open>supply-service.ts\<close>). Quantities and costs are millionths (micros), as \<open>bigint\<close>s.
\<close>

section \<open>Text of codes and dates\<close>

text \<open>The characters whose upper case is a different number of ASCII letters; every other
  character outside ASCII stays outside it, where no code of the schema may go.\<close>

definition special_capitals :: "(string \<times> string) list" where
  "special_capitals =
     [([CHR 0xC3, CHR 0x9F], ''SS''), ([CHR 0xC4, CHR 0xB1], ''I''), ([CHR 0xC5, CHR 0xBF], ''S''),
      ([CHR 0xEF, CHR 0xAC, CHR 0x80], ''FF''), ([CHR 0xEF, CHR 0xAC, CHR 0x81], ''FI''),
      ([CHR 0xEF, CHR 0xAC, CHR 0x82], ''FL''), ([CHR 0xEF, CHR 0xAC, CHR 0x83], ''FFI''),
      ([CHR 0xEF, CHR 0xAC, CHR 0x84], ''FFL''), ([CHR 0xEF, CHR 0xAC, CHR 0x85], ''ST''),
      ([CHR 0xEF, CHR 0xAC, CHR 0x86], ''ST'')]"

definition ascii_upper :: "char \<Rightarrow> char" where
  "ascii_upper c =
     (let n = of_char c :: nat in if 97 \<le> n \<and> n \<le> 122 then char_of (n - 32) else c)"

fun js_toUpperCase :: "string \<Rightarrow> string" where
  "js_toUpperCase [] = []"
| "js_toUpperCase (c # cs) =
     (case List.find (\<lambda>e. prefix (fst e) (c # cs)) special_capitals of
        Some e \<Rightarrow> snd e @ js_toUpperCase (drop (length (fst e) - 1) cs)
      | None \<Rightarrow> ascii_upper c # js_toUpperCase cs)"

definition is_upper :: "char \<Rightarrow> bool" where
  "is_upper c = (let n = of_char c :: nat in 65 \<le> n \<and> n \<le> 90)"

definition is_lower :: "char \<Rightarrow> bool" where
  "is_lower c = (let n = of_char c :: nat in 97 \<le> n \<and> n \<le> 122)"

text \<open>The regular expressions of \<open>codeSchema\<close>, \<open>sourceCodeSchema\<close> and the idempotency key.\<close>

definition is_code :: "string \<Rightarrow> bool" where
  "is_code s \<longleftrightarrow>
     2 \<le> length s \<and> length s \<le> 40 \<and> (is_upper (hd s) \<or> is_digit (hd s))
     \<and> list_all (\<lambda>c. is_upper c \<or> is_digit c \<or> c \<in> set ''_-'') (tl s)"

definition is_source_code :: "string \<Rightarrow> bool" where
  "is_source_code s \<longleftrightarrow>
     2 \<le> length s \<and> length s \<le> 80 \<and> is_upper (hd s)
     \<and> list_all (\<lambda>c. is_upper c \<or> is_digit c \<or> c = CHR ''_'') (tl s)"

definition is_key_text :: "string \<Rightarrow> bool" where
  "is_key_text s \<longleftrightarrow>
     s \<noteq> [] \<and> list_all (\<lambda>c. is_upper c \<or> is_lower c \<or> is_digit c \<or> c \<in> set '':_-'') s"

definition parse_code :: "string \<Rightarrow> string option" where
  "parse_code s =
     (case parse_text 2 40 s of
        None \<Rightarrow> None
      | Some t \<Rightarrow> if is_code (js_toUpperCase t) then Some (js_toUpperCase t) else None)"

definition parse_source_code :: "string \<Rightarrow> string option" where
  "parse_source_code s =
     (case parse_text 2 80 s of
        None \<Rightarrow> None
      | Some t \<Rightarrow> if is_source_code (js_toUpperCase t) then Some (js_toUpperCase t) else None)"

definition is_date_text :: "string \<Rightarrow> bool" where
  "is_date_text s \<longleftrightarrow>
     length s = 10 \<and> s ! 4 = CHR ''-'' \<and> s ! 7 = CHR ''-''
     \<and> list_all is_digit (take 4 s @ take 2 (drop 5 s) @ drop 8 s)"

definition digits_value :: "string \<Rightarrow> int" where
  "digits_value s = fold (\<lambda>c n. 10 * n + (of_char c - 48)) s 0"

text \<open>\<open>new Date(text + "T00:00:00.000Z")\<close>: the 31st of a shorter month runs into the next one;
  \<open>None\<close> is the invalid date.\<close>

definition parse_date :: "string \<Rightarrow> instant option" where
  "parse_date s =
     (let y = digits_value (take 4 s); m = digits_value (take 2 (drop 5 s)); d = digits_value (drop 8 s)
      in if 1 \<le> m \<and> m \<le> 12 \<and> 1 \<le> d \<and> d \<le> 31 then Some (date_utc y (m - 1) d) else None)"

section \<open>Tables\<close>

datatype SupplyItemType = INGREDIENT | PACKAGING | CONSUMABLE | REUSABLE_EQUIPMENT
datatype SupplyLocationType = CENTRAL | STALL | STORAGE | IN_TRANSIT
datatype SupplyMovementType =
  RECEIPT | ADJUSTMENT | WASTE | TRANSFER_IN | TRANSFER_OUT | SALE_CONSUMPTION | REVERSAL
datatype LotStatus = AVAILABLE | CONSUMED | EXPIRED | QUARANTINED

record ingredient_row =
  in_id :: uid
  in_organizationId :: uid
  in_code :: string
  in_name :: string
  in_baseUom :: string
  in_itemType :: SupplyItemType
  in_trackExpiry :: bool
  in_defaultShelfLifeDays :: "int option"
  in_preferredSupplierId :: "uid option"
  in_lowStockThresholdMicros :: int
  in_isActive :: bool
  in_createdByProfileId :: uid

record supplier_row =
  su_id :: uid
  su_organizationId :: uid
  su_code :: string
  su_name :: string
  su_contactName :: "string option"
  su_phone :: "string option"
  su_email :: "string option"
  su_paymentTermsDays :: int
  su_leadTimeDays :: int
  su_isActive :: bool
  su_createdByProfileId :: uid

record location_row =
  lo_id :: uid
  lo_organizationId :: uid
  lo_stallId :: "uid option"
  lo_code :: string
  lo_name :: string
  lo_locationType :: SupplyLocationType
  lo_isActive :: bool
  lo_createdByProfileId :: uid

record recipe_component_row =
  rc_id :: uid
  rc_organizationId :: uid
  rc_productId :: uid
  rc_ingredientId :: uid
  rc_quantityMicros :: int
  rc_wasteBasisPoints :: int
  rc_createdByProfileId :: uid

record balance_row =
  ba_organizationId :: uid
  ba_ingredientId :: uid
  ba_locationId :: uid
  ba_quantityMicros :: int
  ba_averageUnitCostMicros :: int
  ba_lastMovementId :: uid

record stock_movement_row =
  mv_id :: uid
  mv_organizationId :: uid
  mv_ingredientId :: uid
  mv_locationId :: uid
  mv_movementType :: SupplyMovementType
  mv_quantityDeltaMicros :: int
  mv_unitCostMicros :: "int option"
  mv_sourceType :: string
  mv_sourceId :: string
  mv_idempotencyKey :: string
  mv_reason :: string
  mv_actorProfileId :: uid
  mv_createdAt :: instant

record purchase_order_row =
  pu_id :: uid
  pu_organizationId :: uid
  pu_supplierId :: uid
  pu_stallId :: "uid option"
  pu_documentNumber :: string
  pu_orderedOn :: instant
  pu_expectedOn :: "instant option"
  pu_status :: string
  pu_subtotalAmount :: int
  pu_taxAmount :: int
  pu_freightAmount :: int
  pu_totalAmount :: int
  pu_note :: "string option"
  pu_receivedAt :: instant
  pu_createdByProfileId :: uid

record purchase_line_row =
  pl_id :: uid
  pl_organizationId :: uid
  pl_purchaseOrderId :: uid
  pl_ingredientId :: uid
  pl_locationId :: uid
  pl_quantityMicros :: int
  pl_unitCostMicros :: int
  pl_lineAmount :: int
  pl_lotNumber :: "string option"
  pl_manufacturedOn :: "instant option"
  pl_expiresOn :: "instant option"

record lot_row =
  lt_id :: uid
  lt_organizationId :: uid
  lt_purchaseOrderLineId :: "uid option"
  lt_ingredientId :: uid
  lt_locationId :: uid
  lt_lotNumber :: string
  lt_receivedQuantityMicros :: int
  lt_remainingQuantityMicros :: int
  lt_unitCostMicros :: int
  lt_manufacturedOn :: "instant option"
  lt_expiresOn :: "instant option"
  lt_receivedAt :: instant
  lt_status :: LotStatus

text \<open>The columns of \<open>products\<close> and \<open>stalls\<close> that the module reads.\<close>

record supply_product_row =
  sp_id :: uid
  sp_organizationId :: uid
  sp_defaultPrice :: int
  sp_isActive :: bool

record supply_stall_row =
  ss_id :: uid
  ss_organizationId :: uid
  ss_isActive :: bool

record supply_db =
  ingredients :: "ingredient_row list"
  suppliers :: "supplier_row list"
  locations :: "location_row list"
  recipe_components :: "recipe_component_row list"
  balances :: "balance_row list"
  stock_movements :: "stock_movement_row list"
  purchase_orders :: "purchase_order_row list"
  purchase_lines :: "purchase_line_row list"
  inventory_lots :: "lot_row list"
  supply_products :: "supply_product_row list"
  supply_stalls :: "supply_stall_row list"

section \<open>Commands\<close>

record ingredient_input =
  ii_code :: string
  ii_name :: string
  ii_baseUom :: string
  ii_itemType :: SupplyItemType
  ii_trackExpiry :: bool
  ii_defaultShelfLifeDays :: "int option"
  ii_preferredSupplierId :: "uid option"
  ii_lowStockThresholdMicros :: int

record supplier_input =
  ui_code :: string
  ui_name :: string
  ui_contactName :: "string option"
  ui_phone :: "string option"
  ui_email :: "string option"
  ui_paymentTermsDays :: int
  ui_leadTimeDays :: int

record location_input =
  li_stallId :: "uid option"
  li_code :: string
  li_name :: string
  li_locationType :: SupplyLocationType

record movement_input =
  vi_ingredientId :: uid
  vi_locationId :: uid
  vi_movementType :: SupplyMovementType
  vi_quantityDeltaMicros :: int
  vi_unitCostMicros :: "int option"
  vi_sourceType :: string
  vi_sourceId :: string
  vi_idempotencyKey :: string
  vi_reason :: string

record line_input =
  ni_ingredientId :: uid
  ni_locationId :: uid
  ni_quantityMicros :: int
  ni_unitCostMicros :: int
  ni_lotNumber :: "string option"
  ni_manufacturedOn :: "string option"
  ni_expiresOn :: "string option"

record purchase_input =
  ri_supplierId :: uid
  ri_stallId :: "uid option"
  ri_documentNumber :: string
  ri_orderedOn :: string
  ri_expectedOn :: "string option"
  ri_taxAmount :: int
  ri_freightAmount :: int
  ri_note :: "string option"
  ri_lines :: "line_input list"

datatype SupplyCommand =
  CREATE_INGREDIENT ingredient_input
| UPDATE_INGREDIENT uid ingredient_input
| ARCHIVE_INGREDIENT uid
| CREATE_SUPPLIER supplier_input
| UPDATE_SUPPLIER uid supplier_input
| ARCHIVE_SUPPLIER uid
| CREATE_LOCATION location_input
| UPDATE_LOCATION uid location_input
| ARCHIVE_LOCATION uid
| POST_MOVEMENT movement_input
| UPSERT_RECIPE_COMPONENT uid uid int int
| REMOVE_RECIPE_COMPONENT uid
| RECEIVE_PURCHASE purchase_input

definition MICRO_LIMIT :: int where
  "MICRO_LIMIT = 9000000000000000"

definition between :: "int \<Rightarrow> int \<Rightarrow> int \<Rightarrow> bool" where
  "between lo hi n \<longleftrightarrow> lo \<le> n \<and> n \<le> hi"

definition opt_all :: "('a \<Rightarrow> bool) \<Rightarrow> 'a option \<Rightarrow> bool" where
  "opt_all p x = (case x of None \<Rightarrow> True | Some a \<Rightarrow> p a)"

definition units_of_measure :: "string list" where
  "units_of_measure = [''G'', ''KG'', ''ML'', ''L'', ''EA'']"

section \<open>The schema of the commands\<close>

text \<open>The decoded command has the fields of its object, with the defaults filled in; parsing
  trims and capitalises its texts and checks the ranges.\<close>

definition opt_bind2 :: "'a option \<Rightarrow> 'b option \<Rightarrow> ('a \<Rightarrow> 'b \<Rightarrow> 'c option) \<Rightarrow> 'c option" where
  "opt_bind2 x y f = (case x of None \<Rightarrow> None | Some a \<Rightarrow> (case y of None \<Rightarrow> None | Some b \<Rightarrow> f a b))"

definition parse_ingredient :: "ingredient_input \<Rightarrow> ingredient_input option" where
  "parse_ingredient i =
     opt_bind2 (parse_code (ii_code i)) (parse_text 1 120 (ii_name i)) (\<lambda>code name.
       let uom = js_toUpperCase (js_trim (ii_baseUom i)) in
       if uom \<in> set units_of_measure \<and> opt_all (between 1 3650) (ii_defaultShelfLifeDays i)
          \<and> between 0 MICRO_LIMIT (ii_lowStockThresholdMicros i)
       then Some (i\<lparr>ii_code := code, ii_name := name, ii_baseUom := uom\<rparr>) else None)"

definition parse_supplier :: "(string \<Rightarrow> bool) \<Rightarrow> supplier_input \<Rightarrow> supplier_input option" where
  "parse_supplier is_email i =
     opt_bind2 (parse_code (ui_code i)) (parse_text 1 120 (ui_name i)) (\<lambda>code name.
     opt_bind2 (parse_optional_text 0 120 (ui_contactName i)) (parse_optional_text 0 40 (ui_phone i))
      (\<lambda>contact phone.
        case parse_optional_text 0 254 (ui_email i) of
          None \<Rightarrow> None
        | Some email \<Rightarrow>
            if opt_all is_email email \<and> between 0 365 (ui_paymentTermsDays i)
               \<and> between 0 365 (ui_leadTimeDays i)
            then Some (i\<lparr>ui_code := code, ui_name := name, ui_contactName := contact,
                         ui_phone := phone, ui_email := email\<rparr>) else None))"

definition parse_location :: "location_input \<Rightarrow> location_input option" where
  "parse_location i =
     opt_bind2 (parse_code (li_code i)) (parse_text 1 120 (li_name i)) (\<lambda>code name.
       Some (i\<lparr>li_code := code, li_name := name\<rparr>))"

definition increases :: "SupplyMovementType \<Rightarrow> bool" where
  "increases t \<longleftrightarrow> t = RECEIPT \<or> t = TRANSFER_IN"

definition decreases :: "SupplyMovementType \<Rightarrow> bool" where
  "decreases t \<longleftrightarrow> t = WASTE \<or> t = TRANSFER_OUT \<or> t = SALE_CONSUMPTION"

definition parse_movement :: "movement_input \<Rightarrow> movement_input option" where
  "parse_movement i =
     opt_bind2 (parse_source_code (vi_sourceType i)) (parse_text 1 160 (vi_sourceId i))
      (\<lambda>sourceType sourceId.
     opt_bind2 (parse_text 16 160 (vi_idempotencyKey i)) (parse_text 1 300 (vi_reason i))
      (\<lambda>key reason.
        let delta = vi_quantityDeltaMicros i in
        if between (- MICRO_LIMIT) MICRO_LIMIT delta \<and> delta \<noteq> 0
           \<and> opt_all (between 0 MICRO_LIMIT) (vi_unitCostMicros i) \<and> is_key_text key
           \<and> \<not> (increases (vi_movementType i) \<and> delta < 0)
           \<and> \<not> (decreases (vi_movementType i) \<and> 0 < delta)
        then Some (i\<lparr>vi_sourceType := sourceType, vi_sourceId := sourceId,
                     vi_idempotencyKey := key, vi_reason := reason\<rparr>) else None))"

text \<open>\<open>YYYY-MM-DD\<close> texts are compared as strings.\<close>

definition parse_line :: "line_input \<Rightarrow> line_input option" where
  "parse_line i =
     (case parse_optional_text 1 100 (ni_lotNumber i) of
        None \<Rightarrow> None
      | Some lotNumber \<Rightarrow>
          if between 1 MICRO_LIMIT (ni_quantityMicros i) \<and> between 0 MICRO_LIMIT (ni_unitCostMicros i)
             \<and> opt_all is_date_text (ni_manufacturedOn i) \<and> opt_all is_date_text (ni_expiresOn i)
             \<and> (case (ni_manufacturedOn i, ni_expiresOn i) of
                  (Some made, Some expires) \<Rightarrow> made \<le> expires | _ \<Rightarrow> True)
          then Some (i\<lparr>ni_lotNumber := lotNumber\<rparr>) else None)"

fun parse_all :: "('a \<Rightarrow> 'b option) \<Rightarrow> 'a list \<Rightarrow> 'b list option" where
  "parse_all f [] = Some []"
| "parse_all f (x # xs) = opt_bind2 (f x) (parse_all f xs) (\<lambda>y ys. Some (y # ys))"

definition parse_purchase :: "purchase_input \<Rightarrow> purchase_input option" where
  "parse_purchase i =
     opt_bind2 (parse_text 1 80 (ri_documentNumber i)) (parse_optional_text 0 500 (ri_note i))
      (\<lambda>number note.
        case parse_all parse_line (ri_lines i) of
          None \<Rightarrow> None
        | Some lines \<Rightarrow>
            if is_date_text (ri_orderedOn i) \<and> opt_all is_date_text (ri_expectedOn i)
               \<and> between 0 1000000000 (ri_taxAmount i) \<and> between 0 1000000000 (ri_freightAmount i)
               \<and> 1 \<le> length lines \<and> length lines \<le> 100
            then Some (i\<lparr>ri_documentNumber := number, ri_note := note, ri_lines := lines\<rparr>) else None)"

fun parseSupplyCommand :: "(string \<Rightarrow> bool) \<Rightarrow> SupplyCommand \<Rightarrow> SupplyCommand option" where
  "parseSupplyCommand is_email (CREATE_INGREDIENT i) = map_option CREATE_INGREDIENT (parse_ingredient i)"
| "parseSupplyCommand is_email (UPDATE_INGREDIENT k i) = map_option (UPDATE_INGREDIENT k) (parse_ingredient i)"
| "parseSupplyCommand is_email (CREATE_SUPPLIER i) = map_option CREATE_SUPPLIER (parse_supplier is_email i)"
| "parseSupplyCommand is_email (UPDATE_SUPPLIER k i) =
     map_option (UPDATE_SUPPLIER k) (parse_supplier is_email i)"
| "parseSupplyCommand is_email (CREATE_LOCATION i) = map_option CREATE_LOCATION (parse_location i)"
| "parseSupplyCommand is_email (UPDATE_LOCATION k i) = map_option (UPDATE_LOCATION k) (parse_location i)"
| "parseSupplyCommand is_email (POST_MOVEMENT i) = map_option POST_MOVEMENT (parse_movement i)"
| "parseSupplyCommand is_email (UPSERT_RECIPE_COMPONENT p k quantity waste) =
     (if between 1 MICRO_LIMIT quantity \<and> between 0 10000 waste
      then Some (UPSERT_RECIPE_COMPONENT p k quantity waste) else None)"
| "parseSupplyCommand is_email (RECEIVE_PURCHASE i) = map_option RECEIVE_PURCHASE (parse_purchase i)"
| "parseSupplyCommand is_email c = Some c"

section \<open>The arithmetic of stock\<close>

definition calculateAverageUnitCost :: "int \<Rightarrow> int \<Rightarrow> int \<Rightarrow> int option \<Rightarrow> int" where
  "calculateAverageUnitCost previousQuantity previousAverageUnitCost incomingQuantity incomingUnitCost =
     (case incomingUnitCost of
        None \<Rightarrow> previousAverageUnitCost
      | Some cost \<Rightarrow>
          if incomingQuantity \<le> 0 then previousAverageUnitCost
          else
            let previous = (if previousQuantity > 0 then previousQuantity else 0);
                combined = previous + incomingQuantity
            in if combined = 0 then cost
               else bigint_div (previous * previousAverageUnitCost + incomingQuantity * cost) combined)"

text \<open>The amount in whole currency units, or \<open>None\<close> when it is too large.\<close>

definition purchaseLineAmount :: "int \<Rightarrow> int \<Rightarrow> int option" where
  "purchaseLineAmount quantityMicros unitCostMicros =
     (let rounded = bigint_div (quantityMicros * unitCostMicros + 500000000000) 1000000000000
      in if rounded > 1000000000 then None else Some rounded)"

record lot_allocation =
  la_id :: uid
  la_consumed :: int
  la_remaining :: int

text \<open>The comparison of the sort: lots that expire first come first, lots without an expiry
  come last, and the earlier receipt breaks ties.\<close>

definition fefo_compare :: "lot_row \<Rightarrow> lot_row \<Rightarrow> int" where
  "fefo_compare l r =
     (let received = lt_receivedAt l - lt_receivedAt r in
      case (lt_expiresOn l, lt_expiresOn r) of
        (Some a, Some b) \<Rightarrow> if a - b \<noteq> 0 then a - b else received
      | (Some _, None) \<Rightarrow> - 1
      | (None, Some _) \<Rightarrow> 1
      | (None, None) \<Rightarrow> received)"

definition positive_part :: "int \<Rightarrow> int" where
  "positive_part n = (if n > 0 then n else 0)"

fun consume_lots :: "lot_row list \<Rightarrow> int \<Rightarrow> lot_allocation list \<times> int" where
  "consume_lots [] unallocated = ([], unallocated)"
| "consume_lots (l # ls) unallocated =
     (if unallocated = 0 then ([], unallocated)
      else
        let available = positive_part (lt_remainingQuantityMicros l);
            consumed = (if available < unallocated then available else unallocated)
        in if consumed = 0 then consume_lots ls unallocated
           else
             let (rest, left) = consume_lots ls (unallocated - consumed)
             in (\<lparr>la_id = lt_id l, la_consumed = consumed, la_remaining = available - consumed\<rparr> # rest, left))"

definition allocateFefoLotConsumption :: "lot_row list \<Rightarrow> int \<Rightarrow> lot_allocation list \<times> int" where
  "allocateFefoLotConsumption lots requested =
     consume_lots (sort_by (\<lambda>l r. fefo_compare l r \<le> 0) lots) (positive_part requested)"

end
