(* ===== verification/SupplyService.thy ===== *)
theory SupplyService
  imports Supply
begin

text \<open>
  The commands of the supply module (\<open>applySupplyCommand\<close> of
  \<open>src/src/server/supply-lite/supply-service.ts\<close>) over its tables, with the constraints of the
  database that can refuse a command the schema has accepted
  (\<open>20260826133000_supply_lite_foundation.sql\<close>, \<open>20260829120000_workforce_supply_profit_foundation.sql\<close>):
  unique keys, ranges, the direction of a movement and the kinds of an item. A command runs
  in one serializable transaction, so a failure leaves the tables as they were; the
  advisory lock of a movement has no other effect. Whether the module is enabled for an
  organization is a parameter.
\<close>

datatype SupplyOperationError =
  SUPPLY_MODULE_DISABLED | SUPPLY_SUPPLIER_NOT_FOUND | SUPPLY_INGREDIENT_NOT_FOUND
| SUPPLY_INGREDIENT_UNIT_LOCKED | SUPPLY_INGREDIENT_TRACKING_LOCKED | SUPPLY_RECIPE_ITEM_TYPE_INVALID
| SUPPLY_INGREDIENT_IN_USE | SUPPLY_SCOPE_DENIED | SUPPLY_STALL_NOT_FOUND
| SUPPLY_LOCATION_SCOPE_INVALID | SUPPLY_LOCATION_NOT_FOUND | SUPPLY_LOCATION_SCOPE_LOCKED
| SUPPLY_LOCATION_HAS_STOCK | SUPPLY_PRODUCT_NOT_FOUND | SUPPLY_RECIPE_NOT_FOUND
| SUPPLY_IDEMPOTENCY_CONFLICT | SUPPLY_LOT_REQUIRED | SUPPLY_PURCHASE_AMOUNT_TOO_LARGE
| SUPPLY_DUPLICATE_RECORD

text \<open>A violated unique key is Prisma's \<open>P2002\<close>; every other failure is thrown on.\<close>

datatype supply_failure = SupplyError SupplyOperationError | UniqueViolation | OtherFailure

datatype supply_result =
  IngredientResult ingredient_row | SupplierResult supplier_row | LocationResult location_row
| RecipeResult recipe_component_row | MovementResult stock_movement_row | PurchaseResult purchase_order_row

record access_scope =
  as_canUseAllStalls :: bool
  as_authorizedStallIds :: "uid list"

record supply_ids =
  fr_main :: uid
  fr_line :: "nat \<Rightarrow> uid"
  fr_movement :: "nat \<Rightarrow> uid"
  fr_lot :: "nat \<Rightarrow> uid"

record supply_call =
  cl_organizationId :: uid
  cl_actorProfileId :: uid
  cl_scope :: access_scope
  cl_ids :: supply_ids
  cl_now :: instant

section \<open>Lookups and guards\<close>

definition require_row :: "'a option \<Rightarrow> SupplyOperationError \<Rightarrow> supply_failure + 'a" where
  "require_row x e = (case x of None \<Rightarrow> Inl (SupplyError e) | Some r \<Rightarrow> Inr r)"

definition refuse_if :: "bool \<Rightarrow> SupplyOperationError \<Rightarrow> supply_failure + unit" where
  "refuse_if b e = (if b then Inl (SupplyError e) else Inr ())"

definition active_ingredient :: "uid \<Rightarrow> uid \<Rightarrow> supply_db \<Rightarrow> ingredient_row option" where
  "active_ingredient org k d =
     List.find (\<lambda>r. in_id r = k \<and> in_organizationId r = org \<and> in_isActive r) (ingredients d)"

definition active_supplier :: "uid \<Rightarrow> uid \<Rightarrow> supply_db \<Rightarrow> supplier_row option" where
  "active_supplier org k d =
     List.find (\<lambda>r. su_id r = k \<and> su_organizationId r = org \<and> su_isActive r) (suppliers d)"

definition active_location :: "uid \<Rightarrow> uid \<Rightarrow> supply_db \<Rightarrow> location_row option" where
  "active_location org k d =
     List.find (\<lambda>r. lo_id r = k \<and> lo_organizationId r = org \<and> lo_isActive r) (locations d)"

definition active_stall :: "uid \<Rightarrow> uid \<Rightarrow> supply_db \<Rightarrow> supply_stall_row option" where
  "active_stall org k d =
     List.find (\<lambda>r. ss_id r = k \<and> ss_organizationId r = org \<and> ss_isActive r) (supply_stalls d)"

definition isAuthorizedStall :: "access_scope \<Rightarrow> uid option \<Rightarrow> bool" where
  "isAuthorizedStall scope stallId \<longleftrightarrow>
     truthy stallId \<and> the stallId \<in> set (as_authorizedStallIds scope)"

definition assertLocationAccess :: "access_scope \<Rightarrow> uid option \<Rightarrow> supply_failure + unit" where
  "assertLocationAccess scope stallId =
     refuse_if (\<not> as_canUseAllStalls scope \<and> \<not> isAuthorizedStall scope stallId) SUPPLY_SCOPE_DENIED"

text \<open>The preferred supplier of an ingredient, when one is named.\<close>

definition assert_supplier :: "uid \<Rightarrow> uid option \<Rightarrow> supply_db \<Rightarrow> supply_failure + unit" where
  "assert_supplier org supplierId d =
     refuse_if (truthy supplierId \<and> active_supplier org (the supplierId) d = None)
       SUPPLY_SUPPLIER_NOT_FOUND"

definition stock_count :: "(balance_row \<Rightarrow> bool) \<Rightarrow> supply_db \<Rightarrow> nat" where
  "stock_count p d = count_where (\<lambda>b. p b \<and> ba_quantityMicros b \<noteq> 0) (balances d)"

definition remaining_lot_count :: "(lot_row \<Rightarrow> bool) \<Rightarrow> supply_db \<Rightarrow> nat" where
  "remaining_lot_count p d = count_where (\<lambda>l. p l \<and> 0 < lt_remainingQuantityMicros l) (inventory_lots d)"

section \<open>Ingredients\<close>

text \<open>The \<open>item_type\<close> constraint names three kinds.\<close>

definition ingredient_checks :: "ingredient_row \<Rightarrow> bool" where
  "ingredient_checks r \<longleftrightarrow>
     in_itemType r \<in> {INGREDIENT, PACKAGING, CONSUMABLE} \<and> is_code (in_code r)
     \<and> in_baseUom r \<in> set units_of_measure \<and> between 0 MICRO_LIMIT (in_lowStockThresholdMicros r)
     \<and> opt_all (between 1 3650) (in_defaultShelfLifeDays r)"

definition ingredient_of :: "ingredient_input \<Rightarrow> ingredient_row \<Rightarrow> ingredient_row" where
  "ingredient_of i r =
     r\<lparr>in_code := ii_code i, in_name := ii_name i, in_baseUom := ii_baseUom i,
       in_itemType := ii_itemType i, in_trackExpiry := ii_trackExpiry i,
       in_defaultShelfLifeDays := ii_defaultShelfLifeDays i,
       in_preferredSupplierId := ii_preferredSupplierId i,
       in_lowStockThresholdMicros := ii_lowStockThresholdMicros i\<rparr>"

definition new_ingredient :: "supply_call \<Rightarrow> ingredient_input \<Rightarrow> ingredient_row" where
  "new_ingredient c i =
     \<lparr>in_id = fr_main (cl_ids c), in_organizationId = cl_organizationId c, in_code = ii_code i,
      in_name = ii_name i, in_baseUom = ii_baseUom i, in_itemType = ii_itemType i,
      in_trackExpiry = ii_trackExpiry i, in_defaultShelfLifeDays = ii_defaultShelfLifeDays i,
      in_preferredSupplierId = ii_preferredSupplierId i,
      in_lowStockThresholdMicros = ii_lowStockThresholdMicros i, in_isActive = True,
      in_createdByProfileId = cl_actorProfileId c\<rparr>"

definition same_ingredient_code :: "ingredient_row \<Rightarrow> ingredient_row \<Rightarrow> bool" where
  "same_ingredient_code r s \<longleftrightarrow>
     in_organizationId s = in_organizationId r \<and> in_code s = in_code r"

definition createIngredient ::
  "supply_call \<Rightarrow> ingredient_input \<Rightarrow> supply_db \<Rightarrow> supply_failure + supply_db \<times> supply_result" where
  "createIngredient c i d =
     andThen (assert_supplier (cl_organizationId c) (ii_preferredSupplierId i) d) (\<lambda>_.
       let r = new_ingredient c i in
       if \<not> ingredient_checks r then Inl OtherFailure
       else if list_ex (\<lambda>s. same_ingredient_code r s \<or> in_id s = in_id r) (ingredients d)
         then Inl UniqueViolation
       else Inr (d\<lparr>ingredients := ingredients d @ [r]\<rparr>, IngredientResult r))"

definition updateIngredient ::
  "supply_call \<Rightarrow> uid \<Rightarrow> ingredient_input \<Rightarrow> supply_db \<Rightarrow> supply_failure + supply_db \<times> supply_result" where
  "updateIngredient c k i d =
     (let org = cl_organizationId c in
      andThen (require_row (active_ingredient org k d) SUPPLY_INGREDIENT_NOT_FOUND) (\<lambda>old.
      andThen (assert_supplier org (ii_preferredSupplierId i) d) (\<lambda>_.
      andThen (refuse_if (in_baseUom old \<noteq> ii_baseUom i
          \<and> 0 < count_where (\<lambda>m. mv_organizationId m = org \<and> mv_ingredientId m = in_id old) (stock_movements d))
        SUPPLY_INGREDIENT_UNIT_LOCKED) (\<lambda>_.
      andThen (refuse_if (in_trackExpiry old \<noteq> ii_trackExpiry i
          \<and> (0 < stock_count (\<lambda>b. ba_organizationId b = org \<and> ba_ingredientId b = in_id old) d
             \<or> 0 < remaining_lot_count (\<lambda>l. lt_organizationId l = org \<and> lt_ingredientId l = in_id old) d))
        SUPPLY_INGREDIENT_TRACKING_LOCKED) (\<lambda>_.
      andThen (refuse_if (in_itemType old \<noteq> ii_itemType i \<and> ii_itemType i \<noteq> INGREDIENT \<and> ii_itemType i \<noteq> PACKAGING
          \<and> 0 < count_where (\<lambda>r. rc_organizationId r = org \<and> rc_ingredientId r = in_id old) (recipe_components d))
        SUPPLY_RECIPE_ITEM_TYPE_INVALID) (\<lambda>_.
        let r = ingredient_of i old in
        if \<not> ingredient_checks r then Inl OtherFailure
        else if list_ex (\<lambda>s. same_ingredient_code r s \<and> in_id s \<noteq> in_id r) (ingredients d)
          then Inl UniqueViolation
        else Inr (d\<lparr>ingredients := update_where (\<lambda>s. in_id s = in_id old) (ingredient_of i) (ingredients d)\<rparr>,
                  IngredientResult r)))))))"

definition archiveIngredient ::
  "supply_call \<Rightarrow> uid \<Rightarrow> supply_db \<Rightarrow> supply_failure + supply_db \<times> supply_result" where
  "archiveIngredient c k d =
     (let org = cl_organizationId c in
      andThen (require_row (active_ingredient org k d) SUPPLY_INGREDIENT_NOT_FOUND) (\<lambda>old.
      andThen (refuse_if
          (0 < count_where (\<lambda>r. rc_organizationId r = org \<and> rc_ingredientId r = in_id old) (recipe_components d)
           \<or> 0 < stock_count (\<lambda>b. ba_organizationId b = org \<and> ba_ingredientId b = in_id old) d
           \<or> 0 < remaining_lot_count (\<lambda>l. lt_organizationId l = org \<and> lt_ingredientId l = in_id old) d)
        SUPPLY_INGREDIENT_IN_USE) (\<lambda>_.
        Inr (d\<lparr>ingredients := update_where (\<lambda>s. in_id s = in_id old) (\<lambda>s. s\<lparr>in_isActive := False\<rparr>) (ingredients d)\<rparr>,
             IngredientResult (old\<lparr>in_isActive := False\<rparr>)))))"

section \<open>Suppliers\<close>

definition supplier_of :: "supplier_input \<Rightarrow> supplier_row \<Rightarrow> supplier_row" where
  "supplier_of i r =
     r\<lparr>su_code := ui_code i, su_name := ui_name i, su_contactName := ui_contactName i,
       su_phone := ui_phone i, su_email := ui_email i, su_paymentTermsDays := ui_paymentTermsDays i,
       su_leadTimeDays := ui_leadTimeDays i\<rparr>"

definition new_supplier :: "supply_call \<Rightarrow> supplier_input \<Rightarrow> supplier_row" where
  "new_supplier c i =
     \<lparr>su_id = fr_main (cl_ids c), su_organizationId = cl_organizationId c, su_code = ui_code i,
      su_name = ui_name i, su_contactName = ui_contactName i, su_phone = ui_phone i,
      su_email = ui_email i, su_paymentTermsDays = ui_paymentTermsDays i,
      su_leadTimeDays = ui_leadTimeDays i, su_isActive = True,
      su_createdByProfileId = cl_actorProfileId c\<rparr>"

definition supplier_checks :: "supplier_row \<Rightarrow> bool" where
  "supplier_checks r \<longleftrightarrow>
     is_code (su_code r) \<and> between 0 365 (su_paymentTermsDays r) \<and> between 0 365 (su_leadTimeDays r)"

definition createSupplier ::
  "supply_call \<Rightarrow> supplier_input \<Rightarrow> supply_db \<Rightarrow> supply_failure + supply_db \<times> supply_result" where
  "createSupplier c i d =
     (let r = new_supplier c i in
      if \<not> supplier_checks r then Inl OtherFailure
      else if list_ex (\<lambda>s. su_organizationId s = su_organizationId r \<and> su_code s = su_code r
                          \<or> su_id s = su_id r) (suppliers d)
        then Inl UniqueViolation
      else Inr (d\<lparr>suppliers := suppliers d @ [r]\<rparr>, SupplierResult r))"

definition updateSupplier ::
  "supply_call \<Rightarrow> uid \<Rightarrow> supplier_input \<Rightarrow> supply_db \<Rightarrow> supply_failure + supply_db \<times> supply_result" where
  "updateSupplier c k i d =
     andThen (require_row (active_supplier (cl_organizationId c) k d) SUPPLY_SUPPLIER_NOT_FOUND) (\<lambda>old.
       let r = supplier_of i old in
       if \<not> supplier_checks r then Inl OtherFailure
       else if list_ex (\<lambda>s. su_organizationId s = su_organizationId r \<and> su_code s = su_code r
                           \<and> su_id s \<noteq> su_id r) (suppliers d)
         then Inl UniqueViolation
       else Inr (d\<lparr>suppliers := update_where (\<lambda>s. su_id s = su_id old) (supplier_of i) (suppliers d)\<rparr>,
                 SupplierResult r))"

definition archiveSupplier ::
  "supply_call \<Rightarrow> uid \<Rightarrow> supply_db \<Rightarrow> supply_failure + supply_db \<times> supply_result" where
  "archiveSupplier c k d =
     (let org = cl_organizationId c in
      andThen (require_row (active_supplier org k d) SUPPLY_SUPPLIER_NOT_FOUND) (\<lambda>old.
        Inr (d\<lparr>ingredients := update_where
                 (\<lambda>r. in_organizationId r = org \<and> in_preferredSupplierId r = Some (su_id old) \<and> in_isActive r)
                 (\<lambda>r. r\<lparr>in_preferredSupplierId := None\<rparr>) (ingredients d),
               suppliers := update_where (\<lambda>s. su_id s = su_id old) (\<lambda>s. s\<lparr>su_isActive := False\<rparr>) (suppliers d)\<rparr>,
             SupplierResult (old\<lparr>su_isActive := False\<rparr>))))"

section \<open>Locations\<close>

text \<open>What creating and updating a location check of its new scope.\<close>

definition location_scope_guard ::
  "supply_call \<Rightarrow> location_input \<Rightarrow> supply_db \<Rightarrow> supply_failure + unit" where
  "location_scope_guard c i d =
     andThen (refuse_if (\<not> as_canUseAllStalls (cl_scope c)
         \<and> (li_locationType i \<noteq> STALL \<or> \<not> isAuthorizedStall (cl_scope c) (li_stallId i)))
       SUPPLY_SCOPE_DENIED) (\<lambda>_.
     if li_locationType i = STALL
     then refuse_if (active_stall (cl_organizationId c) (or_empty (li_stallId i)) d = None) SUPPLY_STALL_NOT_FOUND
     else refuse_if (truthy (li_stallId i)) SUPPLY_LOCATION_SCOPE_INVALID)"

definition location_checks :: "location_row \<Rightarrow> bool" where
  "location_checks r \<longleftrightarrow>
     is_code (lo_code r) \<and> (lo_locationType r = STALL \<longleftrightarrow> lo_stallId r \<noteq> None)"

definition location_of :: "location_input \<Rightarrow> location_row \<Rightarrow> location_row" where
  "location_of i r =
     r\<lparr>lo_stallId := li_stallId i, lo_code := li_code i, lo_name := li_name i,
       lo_locationType := li_locationType i\<rparr>"

definition new_location :: "supply_call \<Rightarrow> location_input \<Rightarrow> location_row" where
  "new_location c i =
     \<lparr>lo_id = fr_main (cl_ids c), lo_organizationId = cl_organizationId c, lo_stallId = li_stallId i,
      lo_code = li_code i, lo_name = li_name i, lo_locationType = li_locationType i,
      lo_isActive = True, lo_createdByProfileId = cl_actorProfileId c\<rparr>"

definition same_location_code :: "location_row \<Rightarrow> location_row \<Rightarrow> bool" where
  "same_location_code r s \<longleftrightarrow>
     lo_organizationId s = lo_organizationId r \<and> lo_code s = lo_code r"

definition createLocation ::
  "supply_call \<Rightarrow> location_input \<Rightarrow> supply_db \<Rightarrow> supply_failure + supply_db \<times> supply_result" where
  "createLocation c i d =
     andThen (location_scope_guard c i d) (\<lambda>_.
       let r = new_location c i in
       if \<not> location_checks r then Inl OtherFailure
       else if list_ex (\<lambda>s. same_location_code r s \<or> lo_id s = lo_id r) (locations d)
         then Inl UniqueViolation
       else Inr (d\<lparr>locations := locations d @ [r]\<rparr>, LocationResult r))"

definition updateLocation ::
  "supply_call \<Rightarrow> uid \<Rightarrow> location_input \<Rightarrow> supply_db \<Rightarrow> supply_failure + supply_db \<times> supply_result" where
  "updateLocation c k i d =
     (let org = cl_organizationId c in
      andThen (require_row (active_location org k d) SUPPLY_LOCATION_NOT_FOUND) (\<lambda>old.
      andThen (assertLocationAccess (cl_scope c) (lo_stallId old)) (\<lambda>_.
      andThen (location_scope_guard c i d) (\<lambda>_.
      andThen (refuse_if ((lo_locationType old \<noteq> li_locationType i \<or> lo_stallId old \<noteq> li_stallId i)
          \<and> (0 < count_where (\<lambda>m. mv_organizationId m = org \<and> mv_locationId m = lo_id old) (stock_movements d)
             \<or> 0 < count_where (\<lambda>b. ba_organizationId b = org \<and> ba_locationId b = lo_id old) (balances d)))
        SUPPLY_LOCATION_SCOPE_LOCKED) (\<lambda>_.
        let r = location_of i old in
        if \<not> location_checks r then Inl OtherFailure
        else if list_ex (\<lambda>s. same_location_code r s \<and> lo_id s \<noteq> lo_id r) (locations d)
          then Inl UniqueViolation
        else Inr (d\<lparr>locations := update_where (\<lambda>s. lo_id s = lo_id old) (location_of i) (locations d)\<rparr>,
                  LocationResult r))))))"

definition archiveLocation ::
  "supply_call \<Rightarrow> uid \<Rightarrow> supply_db \<Rightarrow> supply_failure + supply_db \<times> supply_result" where
  "archiveLocation c k d =
     (let org = cl_organizationId c in
      andThen (require_row (active_location org k d) SUPPLY_LOCATION_NOT_FOUND) (\<lambda>old.
      andThen (assertLocationAccess (cl_scope c) (lo_stallId old)) (\<lambda>_.
      andThen (refuse_if
          (0 < stock_count (\<lambda>b. ba_organizationId b = org \<and> ba_locationId b = lo_id old) d
           \<or> 0 < remaining_lot_count (\<lambda>l. lt_organizationId l = org \<and> lt_locationId l = lo_id old) d)
        SUPPLY_LOCATION_HAS_STOCK) (\<lambda>_.
        Inr (d\<lparr>locations := update_where (\<lambda>s. lo_id s = lo_id old) (\<lambda>s. s\<lparr>lo_isActive := False\<rparr>) (locations d)\<rparr>,
             LocationResult (old\<lparr>lo_isActive := False\<rparr>))))))"

section \<open>Recipes\<close>

definition recipe_checks :: "recipe_component_row \<Rightarrow> bool" where
  "recipe_checks r \<longleftrightarrow>
     between 1 MICRO_LIMIT (rc_quantityMicros r) \<and> between 0 10000 (rc_wasteBasisPoints r)"

definition same_component :: "uid \<Rightarrow> uid \<Rightarrow> uid \<Rightarrow> recipe_component_row \<Rightarrow> bool" where
  "same_component org productId ingredientId r \<longleftrightarrow>
     rc_organizationId r = org \<and> rc_productId r = productId \<and> rc_ingredientId r = ingredientId"

definition upsertRecipeComponent ::
  "supply_call \<Rightarrow> uid \<Rightarrow> uid \<Rightarrow> int \<Rightarrow> int \<Rightarrow> supply_db \<Rightarrow> supply_failure + supply_db \<times> supply_result" where
  "upsertRecipeComponent c productId ingredientId quantity waste d =
     (let org = cl_organizationId c in
      andThen (refuse_if (List.find (\<lambda>p. sp_id p = productId \<and> sp_organizationId p = org \<and> sp_isActive p)
          (supply_products d) = None) SUPPLY_PRODUCT_NOT_FOUND) (\<lambda>_.
      andThen (require_row (active_ingredient org ingredientId d) SUPPLY_INGREDIENT_NOT_FOUND) (\<lambda>ingredient.
      andThen (refuse_if (in_itemType ingredient \<noteq> INGREDIENT \<and> in_itemType ingredient \<noteq> PACKAGING)
        SUPPLY_RECIPE_ITEM_TYPE_INVALID) (\<lambda>_.
        let change = (\<lambda>r. r\<lparr>rc_quantityMicros := quantity, rc_wasteBasisPoints := waste\<rparr>);
            created = \<lparr>rc_id = fr_main (cl_ids c), rc_organizationId = org, rc_productId = productId,
                       rc_ingredientId = ingredientId, rc_quantityMicros = quantity,
                       rc_wasteBasisPoints = waste, rc_createdByProfileId = cl_actorProfileId c\<rparr>
        in if \<not> recipe_checks created then Inl OtherFailure
           else case List.find (same_component org productId ingredientId) (recipe_components d) of
             Some r \<Rightarrow>
               Inr (d\<lparr>recipe_components := update_where (same_component org productId ingredientId) change
                        (recipe_components d)\<rparr>, RecipeResult (change r))
           | None \<Rightarrow>
               if list_ex (\<lambda>r. rc_id r = rc_id created) (recipe_components d) then Inl UniqueViolation
               else Inr (d\<lparr>recipe_components := recipe_components d @ [created]\<rparr>, RecipeResult created)))))"

definition removeRecipeComponent ::
  "supply_call \<Rightarrow> uid \<Rightarrow> supply_db \<Rightarrow> supply_failure + supply_db \<times> supply_result" where
  "removeRecipeComponent c k d =
     andThen (require_row
         (List.find (\<lambda>r. rc_id r = k \<and> rc_organizationId r = cl_organizationId c) (recipe_components d))
         SUPPLY_RECIPE_NOT_FOUND) (\<lambda>r.
       Inr (d\<lparr>recipe_components := filter (\<lambda>s. rc_id s \<noteq> rc_id r) (recipe_components d)\<rparr>, RecipeResult r))"

section \<open>Stock\<close>

text \<open>The idempotency key of a movement is unique in its organization.\<close>

definition movement_key :: "stock_movement_row \<Rightarrow> (uid \<times> string) option" where
  "movement_key m = Some (mv_organizationId m, mv_idempotencyKey m)"

definition movement_checks :: "stock_movement_row \<Rightarrow> bool" where
  "movement_checks m \<longleftrightarrow>
     mv_quantityDeltaMicros m \<noteq> 0 \<and> between (- MICRO_LIMIT) MICRO_LIMIT (mv_quantityDeltaMicros m)
     \<and> (increases (mv_movementType m) \<longrightarrow> 0 < mv_quantityDeltaMicros m)
     \<and> (decreases (mv_movementType m) \<longrightarrow> mv_quantityDeltaMicros m < 0)
     \<and> opt_all (between 0 MICRO_LIMIT) (mv_unitCostMicros m)"

definition insert_movement :: "stock_movement_row \<Rightarrow> supply_db \<Rightarrow> supply_failure + supply_db" where
  "insert_movement m d =
     (if \<not> movement_checks m then Inl OtherFailure
      else if mv_id m \<in> set (map mv_id (stock_movements d))
          \<or> movement_key m \<in> set (map movement_key (stock_movements d))
        then Inl UniqueViolation
      else Inr (d\<lparr>stock_movements := stock_movements d @ [m]\<rparr>))"

definition balance_key :: "balance_row \<Rightarrow> uid \<times> uid \<times> uid" where
  "balance_key b = (ba_organizationId b, ba_ingredientId b, ba_locationId b)"

definition stock_key :: "stock_movement_row \<Rightarrow> uid \<times> uid \<times> uid" where
  "stock_key m = (mv_organizationId m, mv_ingredientId m, mv_locationId m)"

definition find_balance :: "uid \<times> uid \<times> uid \<Rightarrow> supply_db \<Rightarrow> balance_row option" where
  "find_balance k d = List.find (\<lambda>b. balance_key b = k) (balances d)"

definition balance_checks :: "balance_row \<Rightarrow> bool" where
  "balance_checks b \<longleftrightarrow>
     between (- MICRO_LIMIT) MICRO_LIMIT (ba_quantityMicros b)
     \<and> between 0 MICRO_LIMIT (ba_averageUnitCostMicros b)"

text \<open>The balance after a movement: its quantity, its average cost and the movement.\<close>

definition next_balance :: "balance_row option \<Rightarrow> stock_movement_row \<Rightarrow> balance_row" where
  "next_balance current m =
     (let quantity = (case current of None \<Rightarrow> 0 | Some b \<Rightarrow> ba_quantityMicros b);
          cost = (case current of None \<Rightarrow> 0 | Some b \<Rightarrow> ba_averageUnitCostMicros b)
      in \<lparr>ba_organizationId = mv_organizationId m, ba_ingredientId = mv_ingredientId m,
          ba_locationId = mv_locationId m, ba_quantityMicros = quantity + mv_quantityDeltaMicros m,
          ba_averageUnitCostMicros =
            calculateAverageUnitCost quantity cost (mv_quantityDeltaMicros m) (mv_unitCostMicros m),
          ba_lastMovementId = mv_id m\<rparr>)"

definition upsert_balance :: "stock_movement_row \<Rightarrow> supply_db \<Rightarrow> supply_failure + supply_db" where
  "upsert_balance m d =
     (let current = find_balance (stock_key m) d; b = next_balance current m in
      if \<not> balance_checks b then Inl OtherFailure
      else case current of
        None \<Rightarrow> Inr (d\<lparr>balances := balances d @ [b]\<rparr>)
      | Some _ \<Rightarrow> Inr (d\<lparr>balances := update_where (\<lambda>r. balance_key r = stock_key m) (\<lambda>_. b) (balances d)\<rparr>))"

definition post_stock :: "stock_movement_row \<Rightarrow> supply_db \<Rightarrow> supply_failure + supply_db" where
  "post_stock m d = andThen (insert_movement m d) (upsert_balance m)"

definition movementPayloadMatches :: "stock_movement_row \<Rightarrow> movement_input \<Rightarrow> bool" where
  "movementPayloadMatches m i \<longleftrightarrow>
     mv_ingredientId m = vi_ingredientId i \<and> mv_locationId m = vi_locationId i
     \<and> mv_movementType m = vi_movementType i \<and> mv_quantityDeltaMicros m = vi_quantityDeltaMicros i
     \<and> mv_unitCostMicros m = vi_unitCostMicros i \<and> mv_sourceType m = vi_sourceType i
     \<and> mv_sourceId m = vi_sourceId i \<and> mv_reason m = vi_reason i"

definition new_movement :: "supply_call \<Rightarrow> movement_input \<Rightarrow> stock_movement_row" where
  "new_movement c i =
     \<lparr>mv_id = fr_main (cl_ids c), mv_organizationId = cl_organizationId c,
      mv_ingredientId = vi_ingredientId i, mv_locationId = vi_locationId i,
      mv_movementType = vi_movementType i, mv_quantityDeltaMicros = vi_quantityDeltaMicros i,
      mv_unitCostMicros = vi_unitCostMicros i, mv_sourceType = vi_sourceType i,
      mv_sourceId = vi_sourceId i, mv_idempotencyKey = vi_idempotencyKey i, mv_reason = vi_reason i,
      mv_actorProfileId = cl_actorProfileId c, mv_createdAt = cl_now c\<rparr>"

definition consumable_lot :: "stock_movement_row \<Rightarrow> lot_row \<Rightarrow> bool" where
  "consumable_lot m l \<longleftrightarrow>
     lt_organizationId l = mv_organizationId m \<and> lt_ingredientId l = mv_ingredientId m
     \<and> lt_locationId l = mv_locationId m \<and> 0 < lt_remainingQuantityMicros l
     \<and> lt_status l \<in> (if mv_movementType m = WASTE then {AVAILABLE, QUARANTINED} else {AVAILABLE})"

definition apply_allocation :: "lot_allocation \<Rightarrow> lot_row list \<Rightarrow> lot_row list" where
  "apply_allocation a =
     update_where (\<lambda>l. lt_id l = la_id a)
       (\<lambda>l. l\<lparr>lt_remainingQuantityMicros := la_remaining a,
             lt_status := (if la_remaining a = 0 then CONSUMED else lt_status l)\<rparr>)"

text \<open>What the lots do not cover is not an error.\<close>

definition consume_for :: "stock_movement_row \<Rightarrow> lot_row list \<Rightarrow> lot_row list" where
  "consume_for m ls =
     fold apply_allocation
       (fst (allocateFefoLotConsumption (filter (consumable_lot m) ls) (- mv_quantityDeltaMicros m))) ls"

definition postMovement ::
  "supply_call \<Rightarrow> movement_input \<Rightarrow> supply_db \<Rightarrow> supply_failure + supply_db \<times> supply_result" where
  "postMovement c i d =
     (let org = cl_organizationId c in
      andThen (require_row (active_location org (vi_locationId i) d) SUPPLY_LOCATION_NOT_FOUND) (\<lambda>location.
      andThen (assertLocationAccess (cl_scope c) (lo_stallId location)) (\<lambda>_.
        case List.find (\<lambda>m. movement_key m = Some (org, vi_idempotencyKey i)) (stock_movements d) of
          Some existing \<Rightarrow>
            if movementPayloadMatches existing i then Inr (d, MovementResult existing)
            else Inl (SupplyError SUPPLY_IDEMPOTENCY_CONFLICT)
        | None \<Rightarrow>
            andThen (require_row (active_ingredient org (vi_ingredientId i) d) SUPPLY_INGREDIENT_NOT_FOUND)
              (\<lambda>ingredient.
            andThen (refuse_if (in_trackExpiry ingredient \<and> vi_movementType i = RECEIPT) SUPPLY_LOT_REQUIRED)
              (\<lambda>_.
            let m = new_movement c i in
            andThen (post_stock m d) (\<lambda>d1.
              Inr (if in_trackExpiry ingredient \<and> vi_quantityDeltaMicros i < 0
                   then d1\<lparr>inventory_lots := consume_for m (inventory_lots d1)\<rparr> else d1,
                   MovementResult m)))))))"

section \<open>Purchases\<close>

definition date_of :: "string option \<Rightarrow> supply_failure + instant option" where
  "date_of t =
     (if truthy t then (case parse_date (the t) of None \<Rightarrow> Inl OtherFailure | Some n \<Rightarrow> Inr (Some n))
      else Inr None)"

definition int8 :: "int \<Rightarrow> bool" where
  "int8 n \<longleftrightarrow> - 9223372036854775808 \<le> n \<and> n \<le> 9223372036854775807"

definition dates_check :: "instant option \<Rightarrow> instant option \<Rightarrow> bool" where
  "dates_check made expires \<longleftrightarrow>
     (case (made, expires) of (Some a, Some b) \<Rightarrow> a \<le> b | _ \<Rightarrow> True)"

fun line_amounts :: "line_input list \<Rightarrow> supply_failure + int list" where
  "line_amounts [] = Inr []"
| "line_amounts (l # ls) =
     (case purchaseLineAmount (ni_quantityMicros l) (ni_unitCostMicros l) of
        None \<Rightarrow> Inl (SupplyError SUPPLY_PURCHASE_AMOUNT_TOO_LARGE)
      | Some a \<Rightarrow> andThen (line_amounts ls) (\<lambda>as. Inr (a # as)))"

definition insert_purchase_order :: "purchase_order_row \<Rightarrow> supply_db \<Rightarrow> supply_failure + supply_db" where
  "insert_purchase_order p d =
     (if \<not> (list_all (\<lambda>n. int4 n \<and> 0 \<le> n)
               [pu_subtotalAmount p, pu_taxAmount p, pu_freightAmount p, pu_totalAmount p])
      then Inl OtherFailure
      else if list_ex (\<lambda>q. pu_id q = pu_id p
              \<or> pu_organizationId q = pu_organizationId p \<and> pu_documentNumber q = pu_documentNumber p)
            (purchase_orders d)
        then Inl UniqueViolation
      else Inr (d\<lparr>purchase_orders := purchase_orders d @ [p]\<rparr>))"

definition lot_checks :: "lot_row \<Rightarrow> bool" where
  "lot_checks l \<longleftrightarrow>
     0 < lt_receivedQuantityMicros l \<and> int8 (lt_receivedQuantityMicros l)
     \<and> 0 \<le> lt_remainingQuantityMicros l \<and> lt_remainingQuantityMicros l \<le> lt_receivedQuantityMicros l
     \<and> 0 \<le> lt_unitCostMicros l \<and> int8 (lt_unitCostMicros l)
     \<and> dates_check (lt_manufacturedOn l) (lt_expiresOn l)"

definition lot_key :: "lot_row \<Rightarrow> uid \<times> uid \<times> uid \<times> string" where
  "lot_key l = (lt_organizationId l, lt_ingredientId l, lt_locationId l, lt_lotNumber l)"

text \<open>A lot that is received again: the quantities add up, its cost is averaged, and it
  becomes available.\<close>

definition enlarged_lot :: "int \<Rightarrow> int \<Rightarrow> instant option \<Rightarrow> lot_row \<Rightarrow> lot_row" where
  "enlarged_lot quantity cost expires l =
     (let combined = lt_receivedQuantityMicros l + quantity in
      l\<lparr>lt_receivedQuantityMicros := combined,
        lt_remainingQuantityMicros := lt_remainingQuantityMicros l + quantity,
        lt_unitCostMicros :=
          bigint_div (lt_receivedQuantityMicros l * lt_unitCostMicros l + quantity * cost) combined,
        lt_expiresOn := (case expires of None \<Rightarrow> lt_expiresOn l | Some t \<Rightarrow> Some t),
        lt_status := AVAILABLE\<rparr>)"

definition store_lot :: "lot_row \<Rightarrow> supply_db \<Rightarrow> supply_failure + supply_db" where
  "store_lot l d =
     (case List.find (\<lambda>r. lot_key r = lot_key l) (inventory_lots d) of
        Some old \<Rightarrow>
          let new = enlarged_lot (lt_receivedQuantityMicros l) (lt_unitCostMicros l) (lt_expiresOn l) old
          in if \<not> lot_checks new then Inl OtherFailure
             else Inr (d\<lparr>inventory_lots := update_where (\<lambda>r. lt_id r = lt_id old) (\<lambda>_. new) (inventory_lots d)\<rparr>)
      | None \<Rightarrow>
          if \<not> lot_checks l then Inl OtherFailure
          else if list_ex (\<lambda>r. lt_id r = lt_id l) (inventory_lots d) then Inl UniqueViolation
          else Inr (d\<lparr>inventory_lots := inventory_lots d @ [l]\<rparr>))"

text \<open>The reason of a receipt: three Chinese characters and the document number.\<close>

definition receipt_reason :: "string \<Rightarrow> string" where
  "receipt_reason documentNumber =
     [CHR 0xE9, CHR 0x80, CHR 0xB2, CHR 0xE8, CHR 0xB2, CHR 0xA8, CHR 0xE5, CHR 0x96, CHR 0xAE]
     @ '' '' @ documentNumber"

definition receipt_movement ::
  "supply_call \<Rightarrow> purchase_order_row \<Rightarrow> nat \<Rightarrow> line_input \<Rightarrow> stock_movement_row" where
  "receipt_movement c p index l =
     \<lparr>mv_id = fr_movement (cl_ids c) index, mv_organizationId = cl_organizationId c,
      mv_ingredientId = ni_ingredientId l, mv_locationId = ni_locationId l, mv_movementType = RECEIPT,
      mv_quantityDeltaMicros = ni_quantityMicros l, mv_unitCostMicros = Some (ni_unitCostMicros l),
      mv_sourceType = ''PURCHASE_ORDER'', mv_sourceId = pu_id p,
      mv_idempotencyKey = ''supply:purchase:'' @ pu_id p @ '':'' @ string_of_nat index,
      mv_reason = receipt_reason (pu_documentNumber p), mv_actorProfileId = cl_actorProfileId c,
      mv_createdAt = cl_now c\<rparr>"

definition purchase_line ::
  "supply_call \<Rightarrow> purchase_order_row \<Rightarrow> nat \<Rightarrow> line_input \<Rightarrow> int \<Rightarrow> instant option \<Rightarrow> instant option
     \<Rightarrow> purchase_line_row" where
  "purchase_line c p index l amount made expires =
     \<lparr>pl_id = fr_line (cl_ids c) index, pl_organizationId = cl_organizationId c,
      pl_purchaseOrderId = pu_id p, pl_ingredientId = ni_ingredientId l,
      pl_locationId = ni_locationId l, pl_quantityMicros = ni_quantityMicros l,
      pl_unitCostMicros = ni_unitCostMicros l, pl_lineAmount = amount,
      pl_lotNumber = ni_lotNumber l, pl_manufacturedOn = made, pl_expiresOn = expires\<rparr>"

definition received_lot ::
  "supply_call \<Rightarrow> nat \<Rightarrow> line_input \<Rightarrow> instant option \<Rightarrow> instant option \<Rightarrow> lot_row" where
  "received_lot c index l made expires =
     \<lparr>lt_id = fr_lot (cl_ids c) index, lt_organizationId = cl_organizationId c,
      lt_purchaseOrderLineId = Some (fr_line (cl_ids c) index), lt_ingredientId = ni_ingredientId l,
      lt_locationId = ni_locationId l, lt_lotNumber = the (ni_lotNumber l),
      lt_receivedQuantityMicros = ni_quantityMicros l,
      lt_remainingQuantityMicros = ni_quantityMicros l, lt_unitCostMicros = ni_unitCostMicros l,
      lt_manufacturedOn = made, lt_expiresOn = expires, lt_receivedAt = cl_now c,
      lt_status = AVAILABLE\<rparr>"

definition insert_purchase_line :: "purchase_line_row \<Rightarrow> supply_db \<Rightarrow> supply_failure + supply_db" where
  "insert_purchase_line row d =
     (if \<not> (0 < pl_quantityMicros row \<and> 0 \<le> pl_unitCostMicros row \<and> 0 \<le> pl_lineAmount row
            \<and> dates_check (pl_manufacturedOn row) (pl_expiresOn row))
      then Inl OtherFailure
      else if list_ex (\<lambda>q. pl_id q = pl_id row) (purchase_lines d) then Inl UniqueViolation
      else Inr (d\<lparr>purchase_lines := purchase_lines d @ [row]\<rparr>))"

definition receive_line ::
  "supply_call \<Rightarrow> purchase_order_row \<Rightarrow> nat \<Rightarrow> line_input \<Rightarrow> int \<Rightarrow> supply_db \<Rightarrow> supply_failure + supply_db" where
  "receive_line c p index l amount d =
     andThen (date_of (ni_manufacturedOn l)) (\<lambda>made.
     andThen (date_of (ni_expiresOn l)) (\<lambda>expires.
     andThen (insert_purchase_line (purchase_line c p index l amount made expires) d) (\<lambda>d1.
     andThen (post_stock (receipt_movement c p index l) d1) (\<lambda>d2.
       if truthy (ni_lotNumber l) then store_lot (received_lot c index l made expires) d2 else Inr d2))))"

fun receive_lines ::
  "supply_call \<Rightarrow> purchase_order_row \<Rightarrow> nat \<Rightarrow> (line_input \<times> int) list \<Rightarrow> supply_db \<Rightarrow> supply_failure + supply_db" where
  "receive_lines c p index [] d = Inr d"
| "receive_lines c p index ((l, amount) # ls) d =
     andThen (receive_line c p index l amount d) (receive_lines c p (Suc index) ls)"

definition new_purchase ::
  "supply_call \<Rightarrow> purchase_input \<Rightarrow> int \<Rightarrow> instant \<Rightarrow> instant option \<Rightarrow> purchase_order_row" where
  "new_purchase c i subtotal ordered expected =
     \<lparr>pu_id = fr_main (cl_ids c), pu_organizationId = cl_organizationId c,
      pu_supplierId = ri_supplierId i, pu_stallId = ri_stallId i,
      pu_documentNumber = ri_documentNumber i, pu_orderedOn = ordered, pu_expectedOn = expected,
      pu_status = ''RECEIVED'', pu_subtotalAmount = subtotal, pu_taxAmount = ri_taxAmount i,
      pu_freightAmount = ri_freightAmount i,
      pu_totalAmount = subtotal + ri_taxAmount i + ri_freightAmount i, pu_note = ri_note i,
      pu_receivedAt = cl_now c, pu_createdByProfileId = cl_actorProfileId c\<rparr>"

text \<open>What is checked before the purchase order is written.\<close>

definition purchase_guard :: "supply_call \<Rightarrow> purchase_input \<Rightarrow> supply_db \<Rightarrow> supply_failure + unit" where
  "purchase_guard c i d =
     (let org = cl_organizationId c; ls = ri_lines i;
          ingredientIds = js_set (map ni_ingredientId ls); locationIds = js_set (map ni_locationId ls);
          found = filter (\<lambda>r. in_organizationId r = org \<and> in_id r \<in> set ingredientIds \<and> in_isActive r)
            (ingredients d);
          places = filter (\<lambda>r. lo_organizationId r = org \<and> lo_id r \<in> set locationIds \<and> lo_isActive r)
            (locations d)
      in andThen (refuse_if (\<not> as_canUseAllStalls (cl_scope c)
             \<and> \<not> isAuthorizedStall (cl_scope c) (ri_stallId i)) SUPPLY_SCOPE_DENIED) (\<lambda>_.
         andThen (refuse_if (active_supplier org (ri_supplierId i) d = None) SUPPLY_SUPPLIER_NOT_FOUND) (\<lambda>_.
         andThen (refuse_if (truthy (ri_stallId i) \<and> active_stall org (the (ri_stallId i)) d = None)
           SUPPLY_STALL_NOT_FOUND) (\<lambda>_.
         andThen (refuse_if (length found \<noteq> length ingredientIds) SUPPLY_INGREDIENT_NOT_FOUND) (\<lambda>_.
         andThen (refuse_if (length places \<noteq> length locationIds) SUPPLY_LOCATION_NOT_FOUND) (\<lambda>_.
         andThen (refuse_if (list_ex (\<lambda>r. \<not> as_canUseAllStalls (cl_scope c)
             \<and> \<not> isAuthorizedStall (cl_scope c) (lo_stallId r)) places) SUPPLY_SCOPE_DENIED) (\<lambda>_.
           refuse_if (list_ex (\<lambda>l. \<not> truthy (ni_lotNumber l)
               \<and> list_ex (\<lambda>r. in_id r = ni_ingredientId l \<and> in_trackExpiry r) found) ls)
             SUPPLY_LOT_REQUIRED)))))))"

definition receivePurchase ::
  "supply_call \<Rightarrow> purchase_input \<Rightarrow> supply_db \<Rightarrow> supply_failure + supply_db \<times> supply_result" where
  "receivePurchase c i d =
     andThen (purchase_guard c i d) (\<lambda>_.
     andThen (line_amounts (ri_lines i)) (\<lambda>amounts.
     andThen (date_of (Some (ri_orderedOn i))) (\<lambda>ordered.
     andThen (date_of (ri_expectedOn i)) (\<lambda>expected.
       case ordered of
         None \<Rightarrow> Inl OtherFailure
       | Some orderedOn \<Rightarrow>
           let p = new_purchase c i (sum_list amounts) orderedOn expected in
           andThen (insert_purchase_order p d) (\<lambda>d1.
           andThen (receive_lines c p 0 (zip (ri_lines i) amounts) d1) (\<lambda>d2. Inr (d2, PurchaseResult p)))))))"

section \<open>The entry point\<close>

fun dispatch ::
  "supply_call \<Rightarrow> SupplyCommand \<Rightarrow> supply_db \<Rightarrow> supply_failure + supply_db \<times> supply_result" where
  "dispatch c (CREATE_INGREDIENT i) = createIngredient c i"
| "dispatch c (UPDATE_INGREDIENT k i) = updateIngredient c k i"
| "dispatch c (ARCHIVE_INGREDIENT k) = archiveIngredient c k"
| "dispatch c (CREATE_SUPPLIER i) = createSupplier c i"
| "dispatch c (UPDATE_SUPPLIER k i) = updateSupplier c k i"
| "dispatch c (ARCHIVE_SUPPLIER k) = archiveSupplier c k"
| "dispatch c (CREATE_LOCATION i) = createLocation c i"
| "dispatch c (UPDATE_LOCATION k i) = updateLocation c k i"
| "dispatch c (ARCHIVE_LOCATION k) = archiveLocation c k"
| "dispatch c (POST_MOVEMENT i) = postMovement c i"
| "dispatch c (UPSERT_RECIPE_COMPONENT p k q w) = upsertRecipeComponent c p k q w"
| "dispatch c (REMOVE_RECIPE_COMPONENT k) = removeRecipeComponent c k"
| "dispatch c (RECEIVE_PURCHASE i) = receivePurchase c i"

definition applySupplyCommand ::
  "(uid \<Rightarrow> bool) \<Rightarrow> supply_call \<Rightarrow> SupplyCommand \<Rightarrow> supply_db \<Rightarrow> supply_failure + supply_db \<times> supply_result" where
  "applySupplyCommand module_enabled c command d =
     (if \<not> module_enabled (cl_organizationId c) then Inl (SupplyError SUPPLY_MODULE_DISABLED)
      else case dispatch c command d of
        Inl UniqueViolation \<Rightarrow> Inl (SupplyError SUPPLY_DUPLICATE_RECORD)
      | r \<Rightarrow> r)"

end
