(* ===== verification/SupplyLots.thy ===== *)
theory SupplyLots
  imports Supply "HOL-Library.Multiset"
begin

text \<open>
  What the arithmetic of stock guarantees: the order of the lots is a stable sort by expiry
  and receipt, the loop that consumes them computes the share of every lot in closed form,
  and the moving average stays between the costs it averages.
\<close>

section \<open>Sorting by a comparison\<close>

lemma mset_insort_by [simp]: "mset (insort_by le x ys) = add_mset x (mset ys)"
  by (induction ys) auto

lemma mset_sort_by [simp]: "mset (sort_by le xs) = mset xs"
  by (induction xs) (auto simp: sort_by_def)

lemma sorted_insort_by:
  assumes total: "\<And>x y. le x y \<or> le y x" and trans: "\<And>x y z. le x y \<Longrightarrow> le y z \<Longrightarrow> le x z"
    and "sorted_wrt le ys"
  shows "sorted_wrt le (insort_by le x ys)"
  using assms(3)
proof (induction ys)
  case Nil
  then show ?case by simp
next
  case (Cons y ys)
  show ?case
  proof (cases "le x y")
    case True
    then show ?thesis using Cons.prems trans by auto
  next
    case False
    then have "le y x" using total by blast
    then show ?thesis using Cons False by auto
  qed
qed

lemma sorted_sort_by:
  assumes "\<And>x y. le x y \<or> le y x" and "\<And>x y z. le x y \<Longrightarrow> le y z \<Longrightarrow> le x z"
  shows "sorted_wrt le (sort_by le xs)"
proof (induction xs)
  case Nil
  then show ?case by (simp add: sort_by_def)
next
  case (Cons x xs)
  have "sort_by le (x # xs) = insort_by le x (sort_by le xs)" by (simp add: sort_by_def)
  then show ?case using sorted_insort_by [OF assms Cons] by simp
qed

abbreviation fefo_before :: "lot_row \<Rightarrow> lot_row \<Rightarrow> bool" where
  "fefo_before l r \<equiv> fefo_compare l r \<le> 0"

lemma fefo_total: "fefo_before l r \<or> fefo_before r l"
  by (auto simp: fefo_compare_def Let_def split: option.split)

lemma fefo_trans: "fefo_before l m \<Longrightarrow> fefo_before m r \<Longrightarrow> fefo_before l r"
  by (auto simp: fefo_compare_def Let_def split: option.splits if_splits)

abbreviation fefo_order :: "lot_row list \<Rightarrow> lot_row list" where
  "fefo_order ls \<equiv> sort_by (\<lambda>l r. fefo_compare l r \<le> 0) ls"

lemma fefo_sorted: "sorted_wrt fefo_before (fefo_order ls)"
  by (rule sorted_sort_by) (rule fefo_total, erule fefo_trans)

section \<open>The shares of the lots\<close>

abbreviation available :: "lot_row \<Rightarrow> int" where
  "available l \<equiv> positive_part (lt_remainingQuantityMicros l)"

lemma available_nonneg [simp]: "0 \<le> available l"
  by (simp add: positive_part_def)

text \<open>The reference: the \<open>i\<close>th lot gives what it has of what its predecessors left over.\<close>

definition lot_share :: "lot_row list \<Rightarrow> int \<Rightarrow> nat \<Rightarrow> int" where
  "lot_share ls requested i =
     min (available (ls ! i)) (max 0 (requested - sum_of available (take i ls)))"

definition share_entry :: "lot_row list \<Rightarrow> int \<Rightarrow> nat \<Rightarrow> lot_allocation" where
  "share_entry ls requested i =
     \<lparr>la_id = lt_id (ls ! i), la_consumed = lot_share ls requested i,
      la_remaining = available (ls ! i) - lot_share ls requested i\<rparr>"

definition lot_shares :: "lot_row list \<Rightarrow> int \<Rightarrow> lot_allocation list" where
  "lot_shares ls requested =
     map (share_entry ls requested) (filter (\<lambda>i. 0 < lot_share ls requested i) [0..<length ls])"

lemma lot_share_Cons_0: "0 \<le> u \<Longrightarrow> lot_share (l # ls) u 0 = min (available l) u"
  by (simp add: lot_share_def)

lemma lot_share_Cons_Suc:
  "0 \<le> u \<Longrightarrow> lot_share (l # ls) u (Suc i) = lot_share ls (u - min (available l) u) i"
proof -
  assume "0 \<le> u"
  let ?s = "sum_of available (take i ls)"
  have s: "0 \<le> ?s" by (rule sum_of_nonneg) simp
  have "max 0 (u - (available l + ?s)) = max 0 (u - min (available l) u - ?s)"
    using s \<open>0 \<le> u\<close> by (cases "available l \<le> u") (simp_all add: min_def max_def)
  then show ?thesis by (simp add: lot_share_def)
qed

lemma upt_Suc_map: "[0..<Suc n] = 0 # map Suc [0..<n]"
  by (simp add: map_Suc_upt upt_conv_Cons del: upt_Suc)

lemma lot_shares_Cons:
  assumes "0 \<le> u" and c: "c = min (available l) u"
  shows "lot_shares (l # ls) u =
     (if 0 < c then [\<lparr>la_id = lt_id l, la_consumed = c, la_remaining = available l - c\<rparr>] else [])
     @ lot_shares ls (u - c)"
proof -
  have first: "lot_share (l # ls) u 0 = c" using lot_share_Cons_0 [OF assms(1)] c by simp
  have later: "lot_share (l # ls) u (Suc i) = lot_share ls (u - c) i" for i
    using lot_share_Cons_Suc [OF assms(1)] c by simp
  have entries: "share_entry (l # ls) u (Suc i) = share_entry ls (u - c) i" for i
    by (simp add: share_entry_def later)
  have "filter (\<lambda>i. 0 < lot_share (l # ls) u i) (map Suc [0..<length ls]) =
      map Suc (filter (\<lambda>i. 0 < lot_share ls (u - c) i) [0..<length ls])"
    by (simp add: filter_map comp_def later)
  moreover have "[0..<length (l # ls)] = 0 # map Suc [0..<length ls]"
    by (simp add: upt_Suc_map del: upt_Suc)
  ultimately have "lot_shares (l # ls) u =
      (if 0 < c then [share_entry (l # ls) u 0] else [])
      @ map (\<lambda>i. share_entry (l # ls) u (Suc i)) (filter (\<lambda>i. 0 < lot_share ls (u - c) i) [0..<length ls])"
    by (simp only: lot_shares_def filter.simps first list.map map_append append.simps split: if_split)
      (simp add: comp_def)
  then show ?thesis by (simp add: entries lot_shares_def) (simp add: share_entry_def first)
qed

lemma lot_shares_none: "lot_shares ls 0 = []"
proof -
  have "\<not> 0 < lot_share ls 0 i" for i
  proof -
    have "0 \<le> sum_of available (take i ls)" by (rule sum_of_nonneg) simp
    then show ?thesis by (simp add: lot_share_def)
  qed
  then show ?thesis by (simp add: lot_shares_def)
qed

lemma lot_shares_Nil [simp]: "lot_shares [] u = []"
  by (simp add: lot_shares_def)

lemma consume_lots_shares:
  "0 \<le> u \<Longrightarrow> consume_lots ls u = (lot_shares ls u, max 0 (u - sum_of available ls))"
proof (induction ls arbitrary: u)
  case Nil
  then show ?case by simp
next
  case (Cons l ls)
  have s: "0 \<le> sum_of available ls" by (rule sum_of_nonneg) simp
  define a where "a = available l"
  define c where "c = min a u"
  have a: "0 \<le> a" by (simp add: a_def)
  have c: "0 \<le> c" "c \<le> u" using a Cons.prems by (simp_all add: c_def)
  have rest: "consume_lots ls (u - c) = (lot_shares ls (u - c), max 0 (u - c - sum_of available ls))"
    by (rule Cons.IH) (use c in simp)
  have left: "max 0 (u - c - sum_of available ls) = max 0 (u - (a + sum_of available ls))"
    using s a Cons.prems unfolding c_def by (cases "a \<le> u") (simp_all add: min_def max_def)
  have shares: "lot_shares (l # ls) u =
     (if 0 < c then [\<lparr>la_id = lt_id l, la_consumed = c, la_remaining = a - c\<rparr>] else [])
     @ lot_shares ls (u - c)"
    unfolding a_def by (rule lot_shares_Cons [OF Cons.prems]) (simp add: c_def a_def)
  have step: "consume_lots (l # ls) u =
     (if u = 0 then ([], u)
      else if c = 0 then consume_lots ls u
      else let (rest, left) = consume_lots ls (u - c)
           in (\<lparr>la_id = lt_id l, la_consumed = c, la_remaining = a - c\<rparr> # rest, left))"
    by (simp add: Let_def min_def c_def a_def not_less split: prod.split)
  show ?case
  proof (cases "u = 0")
    case True
    then show ?thesis using s a by (simp add: lot_shares_none max_def flip: a_def)
  next
    case False
    then show ?thesis
    proof (cases "c = 0")
      case True
      then show ?thesis using False rest left shares by (simp add: step flip: a_def del: consume_lots.simps)
    next
      case nonzero: False
      then have "0 < c" using c by simp
      then show ?thesis using False nonzero rest left shares
        by (simp add: step flip: a_def del: consume_lots.simps)
    qed
  qed
qed

lemma sum_of_mset: "mset xs = mset ys \<Longrightarrow> sum_of f xs = sum_of f ys" for f :: "'a \<Rightarrow> int"
proof -
  assume "mset xs = mset ys"
  then have "mset (map f xs) = mset (map f ys)" by simp
  then have "sum_mset (mset (map f xs)) = sum_mset (mset (map f ys))" by (rule arg_cong)
  then show ?thesis by (simp only: sum_mset_sum_list)
qed

lemma available_fefo_order: "sum_of available (fefo_order ls) = sum_of available ls"
  by (rule sum_of_mset) simp

lemma allocate_shares:
  "allocateFefoLotConsumption ls q =
     (lot_shares (fefo_order ls) (positive_part q), max 0 (positive_part q - sum_of available ls))"
proof -
  have "0 \<le> positive_part q" by (simp add: positive_part_def)
  then show ?thesis
    by (simp add: allocateFefoLotConsumption_def consume_lots_shares available_fefo_order)
qed

lemma in_lot_shares:
  assumes "a \<in> set (lot_shares ls u)"
  obtains l where "l \<in> set ls" "la_id a = lt_id l" "0 < la_consumed a"
    "la_remaining a = available l - la_consumed a" "0 \<le> la_remaining a"
proof -
  from assms obtain i where i: "i < length ls" "0 < lot_share ls u i" and a: "a = share_entry ls u i"
    by (auto simp: lot_shares_def)
  show thesis
  proof (rule that [of "ls ! i"])
    show "0 \<le> la_remaining a" by (simp add: a share_entry_def lot_share_def)
  qed (use i in \<open>simp_all add: a share_entry_def\<close>)
qed

lemma sum_lot_shares: "0 \<le> u \<Longrightarrow> sum_of la_consumed (lot_shares ls u) = min u (sum_of available ls)"
proof (induction ls arbitrary: u)
  case Nil
  then show ?case by simp
next
  case (Cons l ls)
  define a c where "a = available l" and "c = min a u"
  have s: "0 \<le> sum_of available ls" by (rule sum_of_nonneg) simp
  have c: "0 \<le> c" "c \<le> u" using Cons.prems by (simp_all add: c_def a_def)
  have "sum_of la_consumed (lot_shares (l # ls) u) = c + min (u - c) (sum_of available ls)"
  proof -
    have "0 \<le> u - c" using c by simp
    then have "sum_of la_consumed (lot_shares ls (u - c)) = min (u - c) (sum_of available ls)"
      by (rule Cons.IH)
    moreover have "lot_shares (l # ls) u =
       (if 0 < c then [\<lparr>la_id = lt_id l, la_consumed = c, la_remaining = available l - c\<rparr>] else [])
       @ lot_shares ls (u - c)"
      by (rule lot_shares_Cons [OF Cons.prems]) (simp add: c_def a_def)
    ultimately show ?thesis using c by simp
  qed
  also have "\<dots> = min u (a + sum_of available ls)"
    using s by (cases "a \<le> u") (simp_all add: c_def min_def)
  finally show ?case by (simp add: a_def)
qed

lemma ids_lot_shares: "set (map la_id (lot_shares ls u)) \<subseteq> set (map lt_id ls)"
  by (auto elim!: in_lot_shares)

lemma distinct_lot_shares: "distinct (map lt_id ls) \<Longrightarrow> distinct (map la_id (lot_shares ls u))"
proof -
  assume d: "distinct (map lt_id ls)"
  have "map la_id (lot_shares ls u) = map (\<lambda>i. map lt_id ls ! i) (filter (\<lambda>i. 0 < lot_share ls u i) [0..<length ls])"
    by (auto simp: lot_shares_def share_entry_def)
  moreover have "inj_on (\<lambda>i. map lt_id ls ! i) {0..<length ls}"
    using d by (auto intro!: inj_onI simp del: nth_map simp: nth_eq_iff_index_eq)
  ultimately show ?thesis by (auto simp: distinct_map intro: inj_on_subset)
qed

text \<open>A lot that is not used up is reached only by lots that go before it.\<close>

lemma lot_share_positive:
  assumes "i < length ls" and "0 < lot_share ls u i" and "j < i"
  shows "lot_share ls u j = available (ls ! j)"
proof -
  let ?s = "\<lambda>k. sum_of available (take k ls)"
  have "?s (Suc j) \<le> ?s i"
  proof -
    have "take i ls = take (Suc j) ls @ drop (Suc j) (take i ls)"
      using assms(3) by (metis append_take_drop_id min.absorb1 Suc_leI take_take)
    moreover have "0 \<le> sum_of available (drop (Suc j) (take i ls))" by (rule sum_of_nonneg) simp
    ultimately have "?s i = ?s (Suc j) + sum_of available (drop (Suc j) (take i ls))"
      by (metis map_append sum_list_append)
    with \<open>0 \<le> sum_of available (drop (Suc j) (take i ls))\<close> show ?thesis by simp
  qed
  moreover have "?s (Suc j) = ?s j + available (ls ! j)"
    using assms by (simp add: take_Suc_conv_app_nth)
  moreover have "?s i < u"
  proof -
    have "0 < max 0 (u - ?s i)" using assms(2) by (simp add: lot_share_def)
    then show ?thesis by (simp add: max_def split: if_splits)
  qed
  ultimately show ?thesis by (simp add: lot_share_def)
qed


definition two_lots :: "lot_row list" where
  "two_lots = map (\<lambda>(k, n, t). \<lparr>lt_id = k, lt_organizationId = ''org'', lt_purchaseOrderLineId = None,
     lt_ingredientId = ''tea'', lt_locationId = ''shelf'', lt_lotNumber = k, lt_receivedQuantityMicros = n,
     lt_remainingQuantityMicros = n, lt_unitCostMicros = 1, lt_manufacturedOn = None, lt_expiresOn = t,
     lt_receivedAt = 0, lt_status = AVAILABLE\<rparr>) [(''later'', 4, None), (''sooner'', 3, Some 9)]"

lemma two_lots_consumed:
  "allocateFefoLotConsumption two_lots 5 =
     ([\<lparr>la_id = ''sooner'', la_consumed = 3, la_remaining = 0\<rparr>,
       \<lparr>la_id = ''later'', la_consumed = 2, la_remaining = 2\<rparr>], 0)"
  by code_simp


section \<open>The moving average\<close>

lemma calculateAverage_facts:
  fixes previousQuantity previousAverage incoming cost :: int
  assumes "0 \<le> previousAverage" and "0 \<le> cost" and "0 < incoming"
  defines "p \<equiv> positive_part previousQuantity"
    and "avg \<equiv> calculateAverageUnitCost previousQuantity previousAverage incoming (Some cost)"
  shows "(p + incoming) * avg \<le> p * previousAverage + incoming * cost"
    and "p * previousAverage + incoming * cost < (p + incoming) * (avg + 1)"
    and "0 < p \<Longrightarrow> min previousAverage cost \<le> avg"
    and "avg \<le> max previousAverage cost"
    and "p = 0 \<Longrightarrow> avg = cost"
    and "0 \<le> avg"
proof -
  let ?v = "p * previousAverage + incoming * cost"
  have p: "0 \<le> p" by (simp add: p_def positive_part_def)
  have n: "0 < p + incoming" using p assms(3) by simp
  have v: "0 \<le> ?v" using p assms(1-3) by simp
  have avg: "avg = ?v div (p + incoming)"
    using n assms(3) v by (simp add: avg_def p_def calculateAverageUnitCost_def Let_def positive_part_def)
  have e: "?v = (p + incoming) * avg + ?v mod (p + incoming)" by (simp add: avg)
  have m: "0 \<le> ?v mod (p + incoming)" "?v mod (p + incoming) < p + incoming" using n by simp_all
  show "(p + incoming) * avg \<le> ?v" using e m by linarith
  show "?v < (p + incoming) * (avg + 1)" using e m by (simp add: algebra_simps)
  have lo: "(p + incoming) * min previousAverage cost \<le> ?v"
    using p assms(3) by (simp add: distrib_right add_mono mult_left_mono)
  have hi: "?v \<le> (p + incoming) * max previousAverage cost"
    using p assms(3) by (simp add: distrib_right add_mono mult_left_mono)
  show "min previousAverage cost \<le> avg"
  proof -
    have "((p + incoming) * min previousAverage cost) div (p + incoming) \<le> ?v div (p + incoming)"
      using lo n by (rule zdiv_mono1)
    then show ?thesis using n by (simp add: avg)
  qed
  show "avg \<le> max previousAverage cost"
  proof -
    have "?v div (p + incoming) \<le> ((p + incoming) * max previousAverage cost) div (p + incoming)"
      using hi n by (rule zdiv_mono1)
    then show ?thesis using n by (simp add: avg)
  qed
  show "avg = cost" if "p = 0" using that n by (simp add: avg)
  show "0 \<le> avg" using v n by (simp add: avg pos_imp_zdiv_nonneg_iff)
qed

text \<open>(bounds) The moving average cost of stock: after a receipt it lies between the old
  average and the cost of the receipt, is the cost of the receipt when nothing was on hand,
  and values the stock at most one unit per item below its exact value; a movement without a
  cost, or out of stock, keeps the average.\<close>
theorem average_cost_bounds:
  assumes "0 \<le> previousAverage" and "0 \<le> cost"
  shows "let average = calculateAverageUnitCost q previousAverage incoming in
    average None = previousAverage
    \<and> (if incoming \<le> 0 then average (Some cost) = previousAverage
       else if q \<le> 0 then average (Some cost) = cost
       else min previousAverage cost \<le> average (Some cost)
            \<and> average (Some cost) \<le> max previousAverage cost
            \<and> (q + incoming) * average (Some cost) \<le> q * previousAverage + incoming * cost
            \<and> q * previousAverage + incoming * cost < (q + incoming) * (average (Some cost) + 1))"
proof -
  have none: "calculateAverageUnitCost q previousAverage incoming None = previousAverage"
    by (simp add: calculateAverageUnitCost_def)
  show ?thesis
  proof (cases "incoming \<le> 0")
    case True
    then show ?thesis using none by (simp add: Let_def calculateAverageUnitCost_def)
  next
    case False
    then have "0 < incoming" by simp
    note facts = calculateAverage_facts [OF assms(1,2) this, of q]
    show ?thesis
    proof (cases "q \<le> 0")
      case True
      then show ?thesis using False none facts(5) by (simp add: Let_def positive_part_def)
    next
      case positive: False
      then have "positive_part q = q" by (simp add: positive_part_def)
      then show ?thesis using False positive none facts(1-4) by (simp add: Let_def)
    qed
  qed
qed

theorem average_cost_bounds_witness:
  "calculateAverageUnitCost 2000000 30 1000000 (Some 61) = 40
   \<and> min 30 61 \<le> calculateAverageUnitCost 2000000 30 1000000 (Some 61)
   \<and> calculateAverageUnitCost 2000000 30 1000000 (Some 61) \<le> max 30 61"
  using average_cost_bounds [of 30 61 2000000 1000000] by (simp add: Let_def)

end
