(* ===== verification/SupplyStock.thy ===== *)
theory SupplyStock
  imports SupplyService SupplyLots
begin

text \<open>
  The stock that the supply commands keep: the movements are a ledger in the sense of the
  interface \<open>ledger\<close>, every balance is the total of its movements, lots stay within what was
  received, and the commands implement an abstract stock that only movements and purchases
  change. A retried movement is recognised by its idempotency key, and a manager with
  restricted stalls posts only at their locations.
\<close>

section \<open>The movements as a ledger\<close>

lemma insert_movement_InrD:
  assumes "insert_movement m d = Inr d'"
  shows "d' = d\<lparr>stock_movements := stock_movements d @ [m]\<rparr>" and "movement_checks m"
    and "movement_key m \<notin> set (map movement_key (stock_movements d))"
  using assms by (auto simp: insert_movement_def split: if_splits)

lemma map_filter_movement_key:
  "List.map_filter movement_key ms = map (the \<circ> movement_key) ms"
  by (induction ms) (simp_all add: List.map_filter_def movement_key_def)

interpretation stock_ledger: ledger stock_movements insert_movement movement_key
proof unfold_locales
  fix m d d'
  assume "insert_movement m d = Inr d'"
  note I = insert_movement_InrD [OF this]
  from I(1) show "stock_movements d' = stock_movements d @ [m]" by simp
  fix r
  assume "movement_key m = Some r"
  with I(3) show "r \<notin> set (List.map_filter movement_key (stock_movements d))"
    by (auto simp: in_map_filter image_iff)
qed

section \<open>Well-formed tables\<close>

definition movement_total :: "uid \<times> uid \<times> uid \<Rightarrow> supply_db \<Rightarrow> int" where
  "movement_total k d = sum_of mv_quantityDeltaMicros (filter (\<lambda>m. stock_key m = k) (stock_movements d))"

definition balances_ok :: "supply_db \<Rightarrow> bool" where
  "balances_ok d \<longleftrightarrow>
     distinct (map balance_key (balances d))
     \<and> (\<forall>b \<in> set (balances d). balance_checks b \<and> ba_quantityMicros b = movement_total (balance_key b) d)
     \<and> stock_key ` set (stock_movements d) \<subseteq> balance_key ` set (balances d)"

definition lot_state_ok :: "lot_row \<Rightarrow> bool" where
  "lot_state_ok l \<longleftrightarrow>
     lot_checks l \<and> (lt_status l = CONSUMED \<longrightarrow> lt_remainingQuantityMicros l = 0)
     \<and> (lt_status l = AVAILABLE \<longrightarrow> 0 < lt_remainingQuantityMicros l)"

definition lots_ok :: "lot_row list \<Rightarrow> bool" where
  "lots_ok ls \<longleftrightarrow>
     distinct (map lt_id ls) \<and> distinct (map lot_key ls) \<and> (\<forall>l \<in> set ls. lot_state_ok l)"

definition supply_ok :: "supply_db \<Rightarrow> bool" where
  "supply_ok d \<longleftrightarrow>
     distinct (stock_ledger.references d) \<and> balances_ok d \<and> lots_ok (inventory_lots d)
     \<and> distinct (map lo_id (locations d))"

definition on_hand :: "supply_db \<Rightarrow> uid \<times> uid \<times> uid \<Rightarrow> int" where
  "on_hand d k = (case find_balance k d of None \<Rightarrow> 0 | Some b \<Rightarrow> ba_quantityMicros b)"

text \<open>What a movement leaves alone.\<close>

definition other_tables :: "supply_db \<Rightarrow> supply_db \<Rightarrow> bool" where
  "other_tables d d' \<longleftrightarrow>
     ingredients d' = ingredients d \<and> suppliers d' = suppliers d \<and> locations d' = locations d
     \<and> recipe_components d' = recipe_components d \<and> supply_products d' = supply_products d
     \<and> supply_stalls d' = supply_stalls d"

definition same_stock :: "supply_db \<Rightarrow> supply_db \<Rightarrow> bool" where
  "same_stock d d' \<longleftrightarrow>
     stock_movements d' = stock_movements d \<and> balances d' = balances d
     \<and> inventory_lots d' = inventory_lots d \<and> purchase_orders d' = purchase_orders d
     \<and> purchase_lines d' = purchase_lines d"

lemma refuse_if_Inr [simp]: "refuse_if b e = Inr u \<longleftrightarrow> \<not> b"
  by (simp add: refuse_if_def)

lemma require_row_Inr [simp]: "require_row x e = Inr r \<longleftrightarrow> x = Some r"
  by (simp add: require_row_def split: option.split)

section \<open>Posting a movement\<close>

lemma update_balance_key:
  "map balance_key (update_where (\<lambda>r. balance_key r = k) (\<lambda>_. b) bs) =
     map (\<lambda>r. if balance_key r = k then balance_key b else balance_key r) bs"
  by (induction bs) auto

lemma next_balance_key [simp]: "balance_key (next_balance current m) = stock_key m"
  by (simp add: next_balance_def balance_key_def stock_key_def Let_def)

lemma post_stock_InrD:
  assumes "post_stock m d = Inr d'"
  shows "stock_movements d' = stock_movements d @ [m]" and "other_tables d d'"
    and "inventory_lots d' = inventory_lots d" and "purchase_orders d' = purchase_orders d"
    and "purchase_lines d' = purchase_lines d" and "movement_checks m"
    and "balance_checks (next_balance (find_balance (stock_key m) d) m)"
    and "balances d' =
      (case find_balance (stock_key m) d of
         None \<Rightarrow> balances d @ [next_balance None m]
       | Some b \<Rightarrow> update_where (\<lambda>r. balance_key r = stock_key m) (\<lambda>_. next_balance (Some b) m) (balances d))"
    and "insert_movement m d = Inr (d\<lparr>stock_movements := stock_movements d @ [m]\<rparr>)"
proof -
  obtain d1 where i: "insert_movement m d = Inr d1" and u: "upsert_balance m d1 = Inr d'"
    using assms by (auto simp: post_stock_def andThen_Inr_iff)
  note I = insert_movement_InrD [OF i]
  have f: "find_balance k (d\<lparr>stock_movements := ms\<rparr>) = find_balance k d" for k ms
    by (simp add: find_balance_def)
  show "movement_checks m" by (rule I(2))
  show "insert_movement m d = Inr (d\<lparr>stock_movements := stock_movements d @ [m]\<rparr>)" using i I(1) by simp
  show "balance_checks (next_balance (find_balance (stock_key m) d) m)"
    using u by (auto simp: upsert_balance_def Let_def f I(1) split: if_splits)
  show "stock_movements d' = stock_movements d @ [m]" "other_tables d d'"
    "inventory_lots d' = inventory_lots d" "purchase_orders d' = purchase_orders d"
    "purchase_lines d' = purchase_lines d"
    "balances d' =
      (case find_balance (stock_key m) d of
         None \<Rightarrow> balances d @ [next_balance None m]
       | Some b \<Rightarrow> update_where (\<lambda>r. balance_key r = stock_key m) (\<lambda>_. next_balance (Some b) m) (balances d))"
    using u
    by (cases "find_balance (stock_key m) d";
        auto simp: upsert_balance_def Let_def f I(1) other_tables_def split: if_splits)+
qed

lemma find_update_where:
  "List.find (\<lambda>r. key r = k) (update_where (\<lambda>r. key r = k') (\<lambda>_. b) rs) =
     (if k = k' then (if List.find (\<lambda>r. key r = k) rs = None then None else Some b)
      else List.find (\<lambda>r. key r = k) rs)" if "key b = k'"
  using that by (induction rs) auto

lemma find_append: "List.find p (xs @ ys) = (case List.find p xs of None \<Rightarrow> List.find p ys | Some x \<Rightarrow> Some x)"
  by (induction xs) auto

lemma post_stock_on_hand:
  assumes "post_stock m d = Inr d'"
  shows "on_hand d' = (on_hand d)(stock_key m := on_hand d (stock_key m) + mv_quantityDeltaMicros m)"
proof
  fix k
  note P = post_stock_InrD [OF assms]
  have q: "ba_quantityMicros (next_balance current m) =
      (case current of None \<Rightarrow> 0 | Some b \<Rightarrow> ba_quantityMicros b) + mv_quantityDeltaMicros m" for current
    by (simp add: next_balance_def Let_def)
  show "on_hand d' k = ((on_hand d)(stock_key m := on_hand d (stock_key m) + mv_quantityDeltaMicros m)) k"
  proof (cases "find_balance (stock_key m) d")
    case None
    then have b: "balances d' = balances d @ [next_balance None m]" using P(8) by simp
    show ?thesis using None
      by (auto simp: on_hand_def find_balance_def b find_append q split: option.splits)
  next
    case (Some r)
    then have b: "balances d' = update_where (\<lambda>r. balance_key r = stock_key m)
        (\<lambda>_. next_balance (Some r) m) (balances d)" using P(8) by simp
    show ?thesis using Some
      by (auto simp: on_hand_def find_balance_def b find_update_where q split: option.splits)
  qed
qed

lemma find_balance_None: "find_balance k d = None \<longleftrightarrow> k \<notin> balance_key ` set (balances d)"
  by (auto simp: find_balance_def find_None_D)

lemma find_balance_Some: "find_balance k d = Some b \<Longrightarrow> b \<in> set (balances d) \<and> balance_key b = k"
  using find_Some_D [of "\<lambda>b. balance_key b = k" "balances d" b] by (simp add: find_balance_def)

lemma movement_total_post:
  assumes "stock_movements d' = stock_movements d @ [m]"
  shows "movement_total k d' = movement_total k d + (if stock_key m = k then mv_quantityDeltaMicros m else 0)"
  using assms by (simp add: movement_total_def)

lemma movement_total_none:
  assumes "balances_ok d" and "find_balance k d = None"
  shows "movement_total k d = 0"
proof -
  have "filter (\<lambda>m. stock_key m = k) (stock_movements d) = []"
    using assms by (auto simp: balances_ok_def find_balance_None filter_empty_conv)
  then show ?thesis by (simp add: movement_total_def)
qed

lemma post_stock_balances_ok:
  assumes "balances_ok d" and "post_stock m d = Inr d'"
  shows "balances_ok d'"
proof -
  note P = post_stock_InrD [OF assms(2)]
  let ?k = "stock_key m" let ?current = "find_balance (stock_key m) d"
  let ?b = "next_balance ?current m"
  have total: "movement_total ?k d = (case ?current of None \<Rightarrow> 0 | Some b \<Rightarrow> ba_quantityMicros b)"
  proof (cases ?current)
    case None
    then show ?thesis using movement_total_none [OF assms(1)] by simp
  next
    case (Some b)
    then show ?thesis using assms(1) find_balance_Some [OF Some] by (simp add: balances_ok_def)
  qed
  have new: "ba_quantityMicros ?b = movement_total ?k d'"
    using total by (simp add: movement_total_post [OF P(1)] next_balance_def Let_def)
  have rows: "\<forall>b \<in> set (balances d'). b = ?b \<or> b \<in> set (balances d) \<and> balance_key b \<noteq> ?k"
  proof (cases ?current)
    case None
    then have "?k \<notin> balance_key ` set (balances d)" by (simp add: find_balance_None)
    then have "\<forall>b \<in> set (balances d). balance_key b \<noteq> ?k" by (metis image_eqI)
    then show ?thesis using P(8) None by auto
  next
    case (Some b)
    then have "b' = next_balance (Some b) m \<or> b' \<in> set (balances d) \<and> balance_key b' \<noteq> ?k"
      if "b' \<in> set (balances d')" for b'
      using P(8) that by (cases "balance_key b' = ?k") (auto simp: in_update_where split: if_splits)
    then show ?thesis using Some by simp
  qed
  have keys: "balance_key ` set (balances d') = insert ?k (balance_key ` set (balances d))"
  proof (cases ?current)
    case None
    then show ?thesis using P(8) by auto
  next
    case (Some b)
    then have k: "?k \<in> balance_key ` set (balances d)" using find_balance_Some [OF Some] by (metis imageI)
    have "map balance_key (balances d') = map balance_key (balances d)"
      using P(8) Some by (auto simp: update_balance_key)
    then have "balance_key ` set (balances d') = balance_key ` set (balances d)" by (metis set_map)
    then show ?thesis using k by (simp add: insert_absorb)
  qed
  have "distinct (map balance_key (balances d'))"
  proof (cases ?current)
    case None
    then have "?k \<notin> balance_key ` set (balances d)" by (simp add: find_balance_None)
    then show ?thesis using P(8) None assms(1) by (simp add: balances_ok_def)
  next
    case (Some b)
    have "map balance_key (balances d') = map balance_key (balances d)"
      using P(8) Some by (auto simp: update_balance_key)
    then show ?thesis using assms(1) by (simp add: balances_ok_def)
  qed
  moreover have "balance_checks b \<and> ba_quantityMicros b = movement_total (balance_key b) d'"
    if "b \<in> set (balances d')" for b
    using rows that new P(7) assms(1)
    by (auto simp: movement_total_post [OF P(1)] balances_ok_def)
  moreover have "stock_key ` set (stock_movements d') \<subseteq> balance_key ` set (balances d')"
    using assms(1) keys P(1) by (auto simp: balances_ok_def)
  ultimately show ?thesis by (simp add: balances_ok_def)
qed

lemma references_eq: "stock_movements d' = stock_movements d \<Longrightarrow> stock_ledger.references d' = stock_ledger.references d"
  by (simp add: stock_ledger.references_def)

lemma post_stock_references:
  assumes "distinct (stock_ledger.references d)" and "post_stock m d = Inr d'"
  shows "distinct (stock_ledger.references d')"
proof -
  note P = post_stock_InrD [OF assms(2)]
  have "distinct (stock_ledger.references (d\<lparr>stock_movements := stock_movements d @ [m]\<rparr>))"
    by (rule stock_ledger.post_keeps_unique [OF assms(1) P(9)])
  then show ?thesis using P(1) by (simp add: stock_ledger.references_def)
qed

section \<open>Lots\<close>

lemma allocation_lot:
  assumes "a \<in> set (fst (allocateFefoLotConsumption ls q))"
  obtains l where "l \<in> set ls" "la_id a = lt_id l" "0 < la_consumed a"
    "la_remaining a = available l - la_consumed a" "0 \<le> la_remaining a"
proof -
  have "a \<in> set (lot_shares (fefo_order ls) (positive_part q))" using assms by (simp add: allocate_shares)
  then show thesis by (rule in_lot_shares) (use that in auto)
qed

lemma apply_allocation_ids [simp]: "map lt_id (apply_allocation a ls) = map lt_id ls"
  by (simp add: apply_allocation_def map_update_where_same)

lemma apply_allocation_keys [simp]: "map lot_key (apply_allocation a ls) = map lot_key ls"
  by (simp add: apply_allocation_def map_update_where_same lot_key_def)

definition fits :: "lot_allocation \<Rightarrow> lot_row list \<Rightarrow> bool" where
  "fits a ls \<longleftrightarrow> 0 \<le> la_remaining a
     \<and> (\<forall>l \<in> set ls. lt_id l = la_id a \<longrightarrow> la_remaining a \<le> lt_remainingQuantityMicros l)"

lemma in_apply_allocation:
  "l \<in> set (apply_allocation a ls) \<longleftrightarrow>
     (\<exists>s \<in> set ls. l = (if lt_id s = la_id a
        then s\<lparr>lt_remainingQuantityMicros := la_remaining a,
               lt_status := (if la_remaining a = 0 then CONSUMED else lt_status s)\<rparr> else s))"
  by (simp add: apply_allocation_def in_update_where)

lemma allocated_lot_ok:
  "lot_state_ok s \<Longrightarrow> 0 \<le> n \<Longrightarrow> n \<le> lt_remainingQuantityMicros s \<Longrightarrow>
     lot_state_ok (s\<lparr>lt_remainingQuantityMicros := n, lt_status := (if n = 0 then CONSUMED else lt_status s)\<rparr>)"
  by (cases "n = 0") (auto simp: lot_state_ok_def lot_checks_def)

lemma apply_allocation_ok:
  assumes "lots_ok ls" and "fits a ls"
  shows "lots_ok (apply_allocation a ls)"
proof -
  have "lot_state_ok l" if "l \<in> set (apply_allocation a ls)" for l
  proof -
    from that obtain s where s: "s \<in> set ls" and l: "l = (if lt_id s = la_id a
        then s\<lparr>lt_remainingQuantityMicros := la_remaining a,
               lt_status := (if la_remaining a = 0 then CONSUMED else lt_status s)\<rparr> else s)"
      unfolding in_apply_allocation by blast
    show ?thesis
    proof (cases "lt_id s = la_id a")
      case True
      then have "0 \<le> la_remaining a" "la_remaining a \<le> lt_remainingQuantityMicros s" "lot_state_ok s"
        using assms s by (auto simp: fits_def lots_ok_def)
      then show ?thesis unfolding l if_P [OF True] by (intro allocated_lot_ok)
    next
      case False
      then show ?thesis using assms(1) s by (simp add: l lots_ok_def)
    qed
  qed
  then show ?thesis using assms(1) by (simp add: lots_ok_def)
qed

lemma fits_apply:
  assumes "fits b ls" and "la_id b \<noteq> la_id a"
  shows "fits b (apply_allocation a ls)"
  unfolding fits_def
proof (intro conjI ballI impI)
  show "0 \<le> la_remaining b" using assms(1) by (simp add: fits_def)
  fix l
  assume "l \<in> set (apply_allocation a ls)" and id: "lt_id l = la_id b"
  then obtain s where "s \<in> set ls" "l = s \<or> lt_id l = la_id a"
    unfolding in_apply_allocation by (auto split: if_splits)
  then show "la_remaining b \<le> lt_remainingQuantityMicros l"
    using assms id by (auto simp: fits_def)
qed

lemma fold_allocations_ok:
  "lots_ok ls \<Longrightarrow> distinct (map la_id as) \<Longrightarrow> \<forall>a \<in> set as. fits a ls \<Longrightarrow>
     lots_ok (fold apply_allocation as ls)"
proof (induction as arbitrary: ls)
  case Nil
  then show ?case by simp
next
  case (Cons a as)
  have "\<forall>b \<in> set as. fits b (apply_allocation a ls)"
    using Cons.prems(2,3) fits_apply by (auto simp: image_iff)
  moreover have "lots_ok (apply_allocation a ls)" using Cons.prems apply_allocation_ok by simp
  ultimately show ?case using Cons.IH [of "apply_allocation a ls"] Cons.prems(2) by simp
qed

lemma distinct_allocations:
  assumes "distinct (map lt_id ls)"
  shows "distinct (map la_id (fst (allocateFefoLotConsumption ls q)))"
proof -
  have "mset (map lt_id (fefo_order ls)) = mset (map lt_id ls)" by simp
  then have "distinct (map lt_id (fefo_order ls))" using assms mset_eq_imp_distinct_iff by blast
  then show ?thesis by (simp add: allocate_shares distinct_lot_shares)
qed

lemma distinct_map_same: "distinct (map f xs) \<Longrightarrow> x \<in> set xs \<Longrightarrow> y \<in> set xs \<Longrightarrow> f x = f y \<Longrightarrow> x = y"
  by (auto simp: distinct_map inj_on_def)

lemma consume_for_ok:
  assumes "lots_ok ls"
  shows "lots_ok (consume_for m ls)"
  unfolding consume_for_def
proof (rule fold_allocations_ok [OF assms])
  have "distinct (map lt_id (filter (consumable_lot m) ls))"
    using assms by (simp add: lots_ok_def distinct_map_filter)
  then show "distinct (map la_id (fst (allocateFefoLotConsumption (filter (consumable_lot m) ls)
      (- mv_quantityDeltaMicros m))))" by (rule distinct_allocations)
  show "\<forall>a \<in> set (fst (allocateFefoLotConsumption (filter (consumable_lot m) ls)
      (- mv_quantityDeltaMicros m))). fits a ls"
  proof
  fix a
  assume "a \<in> set (fst (allocateFefoLotConsumption (filter (consumable_lot m) ls) (- mv_quantityDeltaMicros m)))"
  then show "fits a ls"
  proof (rule allocation_lot)
    fix l
    assume l: "l \<in> set (filter (consumable_lot m) ls)" "la_id a = lt_id l" "0 < la_consumed a"
      "la_remaining a = available l - la_consumed a" "0 \<le> la_remaining a"
    have ok: "lot_state_ok l" using l(1) assms by (auto simp: lots_ok_def)
    show "fits a ls" unfolding fits_def
    proof (intro conjI ballI impI)
      show "0 \<le> la_remaining a" by (rule l(5))
      fix l'
      assume "l' \<in> set ls" "lt_id l' = la_id a"
      then have "l' = l"
        using assms l distinct_map_same [of lt_id ls l' l] by (auto simp: lots_ok_def)
      moreover have "la_remaining a \<le> lt_remainingQuantityMicros l"
        using ok l(3,4) by (auto simp: lot_state_ok_def lot_checks_def positive_part_def split: if_splits)
      ultimately show "la_remaining a \<le> lt_remainingQuantityMicros l'" by simp
    qed
  qed
  qed
qed

lemma enlarged_lot_key [simp]: "lot_key (enlarged_lot q c e l) = lot_key l" "lt_id (enlarged_lot q c e l) = lt_id l"
  by (simp_all add: enlarged_lot_def lot_key_def Let_def)

lemma store_lot_InrD:
  assumes "store_lot l d = Inr d'"
  shows "stock_movements d' = stock_movements d" "balances d' = balances d" "other_tables d d'"
    "purchase_orders d' = purchase_orders d" "purchase_lines d' = purchase_lines d"
  using assms by (auto simp: store_lot_def other_tables_def Let_def split: option.splits if_splits)

lemma enlarged_lot_state:
  "lot_state_ok l \<Longrightarrow> lot_checks (enlarged_lot q c e l) \<Longrightarrow> 0 < q \<Longrightarrow> lot_state_ok (enlarged_lot q c e l)"
  by (auto simp: lot_state_ok_def enlarged_lot_def lot_checks_def Let_def)

lemma store_lot_ok:
  assumes "lots_ok (inventory_lots d)" and "store_lot l d = Inr d'"
    and "lt_status l = AVAILABLE" and "0 < lt_receivedQuantityMicros l"
    and "lt_remainingQuantityMicros l = lt_receivedQuantityMicros l"
  shows "lots_ok (inventory_lots d')"
proof (cases "List.find (\<lambda>r. lot_key r = lot_key l) (inventory_lots d)")
  case None
  then have ls: "inventory_lots d' = inventory_lots d @ [l]" and c: "lot_checks l"
    and new: "\<forall>r \<in> set (inventory_lots d). lt_id r \<noteq> lt_id l"
    using assms(2) by (auto simp: store_lot_def list_ex_iff split: if_splits)
  have "\<forall>r \<in> set (inventory_lots d). lot_key r \<noteq> lot_key l" using None by (simp add: find_None_D)
  moreover have "lot_state_ok l" using c assms(3-5) by (simp add: lot_state_ok_def)
  ultimately show ?thesis using assms(1) new by (force simp: lots_ok_def ls)
next
  case (Some old)
  let ?new = "enlarged_lot (lt_receivedQuantityMicros l) (lt_unitCostMicros l) (lt_expiresOn l) old"
  have old: "old \<in> set (inventory_lots d)" using Some by (auto dest: find_Some_D)
  have ls: "inventory_lots d' = update_where (\<lambda>r. lt_id r = lt_id old) (\<lambda>_. ?new) (inventory_lots d)"
    and c: "lot_checks ?new"
    using assms(2) Some by (auto simp: store_lot_def Let_def split: if_splits)
  have same: "r = old" if "r \<in> set (inventory_lots d)" "lt_id r = lt_id old" for r
    using assms(1) old that distinct_map_same [of lt_id "inventory_lots d" r old] by (simp add: lots_ok_def)
  have ids: "map lt_id (inventory_lots d') = map lt_id (inventory_lots d)"
    by (auto simp: ls update_where_def)
  have keys: "map lot_key (inventory_lots d') = map lot_key (inventory_lots d)"
    using same by (auto simp: ls update_where_def)
  have "lot_state_ok ?new"
    by (rule enlarged_lot_state) (use assms(1,4) old c in \<open>auto simp: lots_ok_def\<close>)
  then show ?thesis using assms(1) ids keys by (auto simp: lots_ok_def ls in_update_where)
qed

section \<open>Commands that leave the stock alone\<close>

definition stable_places :: "supply_db \<Rightarrow> supply_db \<Rightarrow> bool" where
  "stable_places d d' \<longleftrightarrow> (distinct (map lo_id (locations d)) \<longrightarrow> distinct (map lo_id (locations d')))"

lemmas guard_defs = andThen_Inr_iff Let_def same_stock_def stable_places_def

lemma createIngredient_frame: "createIngredient c i d = Inr (d', r) \<Longrightarrow> same_stock d d' \<and> stable_places d d'"
  by (auto simp: createIngredient_def guard_defs split: if_splits)

lemma updateIngredient_frame: "updateIngredient c k i d = Inr (d', r) \<Longrightarrow> same_stock d d' \<and> stable_places d d'"
  by (auto simp: updateIngredient_def guard_defs split: if_splits)

lemma archiveIngredient_frame: "archiveIngredient c k d = Inr (d', r) \<Longrightarrow> same_stock d d' \<and> stable_places d d'"
  by (auto simp: archiveIngredient_def guard_defs)

lemma createSupplier_frame: "createSupplier c i d = Inr (d', r) \<Longrightarrow> same_stock d d' \<and> stable_places d d'"
  by (auto simp: createSupplier_def guard_defs split: if_splits)

lemma updateSupplier_frame: "updateSupplier c k i d = Inr (d', r) \<Longrightarrow> same_stock d d' \<and> stable_places d d'"
  by (auto simp: updateSupplier_def guard_defs split: if_splits)

lemma archiveSupplier_frame: "archiveSupplier c k d = Inr (d', r) \<Longrightarrow> same_stock d d' \<and> stable_places d d'"
  by (auto simp: archiveSupplier_def guard_defs)

lemma createLocation_frame: "createLocation c i d = Inr (d', r) \<Longrightarrow> same_stock d d' \<and> stable_places d d'"
  by (fastforce simp: createLocation_def guard_defs list_ex_iff split: if_splits)

lemma updateLocation_frame: "updateLocation c k i d = Inr (d', r) \<Longrightarrow> same_stock d d' \<and> stable_places d d'"
  by (auto simp: updateLocation_def guard_defs map_update_where_same location_of_def split: if_splits)

lemma archiveLocation_frame: "archiveLocation c k d = Inr (d', r) \<Longrightarrow> same_stock d d' \<and> stable_places d d'"
  by (auto simp: archiveLocation_def guard_defs map_update_where_same)

lemma upsertRecipeComponent_frame:
  "upsertRecipeComponent c p k q w d = Inr (d', r) \<Longrightarrow> same_stock d d' \<and> stable_places d d'"
  by (auto simp: upsertRecipeComponent_def guard_defs split: if_splits option.splits)

lemma removeRecipeComponent_frame:
  "removeRecipeComponent c k d = Inr (d', r) \<Longrightarrow> same_stock d d' \<and> stable_places d d'"
  by (auto simp: removeRecipeComponent_def guard_defs)

fun moves_stock :: "SupplyCommand \<Rightarrow> bool" where
  "moves_stock (POST_MOVEMENT i) = True"
| "moves_stock (RECEIVE_PURCHASE i) = True"
| "moves_stock _ = False"

lemma master_data_frame:
  "dispatch c cmd d = Inr (d', r) \<Longrightarrow> \<not> moves_stock cmd \<Longrightarrow> same_stock d d' \<and> stable_places d d'"
  by (cases cmd)
    (auto dest: createIngredient_frame updateIngredient_frame archiveIngredient_frame
      createSupplier_frame updateSupplier_frame archiveSupplier_frame createLocation_frame
      updateLocation_frame archiveLocation_frame upsertRecipeComponent_frame removeRecipeComponent_frame)

lemma same_stock_ok:
  assumes "supply_ok d" and "same_stock d d'" and "stable_places d d'"
  shows "supply_ok d'"
proof -
  have "movement_total k d' = movement_total k d" for k
    using assms(2) by (simp add: movement_total_def same_stock_def)
  then show ?thesis
    using assms by (simp add: supply_ok_def same_stock_def stable_places_def balances_ok_def
        stock_ledger.references_def)
qed

lemma same_stock_on_hand: "same_stock d d' \<Longrightarrow> on_hand d' = on_hand d"
  by (simp add: same_stock_def on_hand_def find_balance_def fun_eq_iff)

section \<open>Posting and receiving\<close>

text \<open>What a successful \<open>postMovement\<close> did: it found the movement, or posted it.\<close>

lemma postMovement_InrD:
  assumes "postMovement c i d = Inr (d', r)"
  obtains location where "active_location (cl_organizationId c) (vi_locationId i) d = Some location"
    "assertLocationAccess (cl_scope c) (lo_stallId location) = Inr ()"
    "(\<exists>m. List.find (\<lambda>m. movement_key m = Some (cl_organizationId c, vi_idempotencyKey i)) (stock_movements d) = Some m
        \<and> movementPayloadMatches m i \<and> d' = d \<and> r = MovementResult m)
     \<or> (\<exists>ingredient d1.
        List.find (\<lambda>m. movement_key m = Some (cl_organizationId c, vi_idempotencyKey i)) (stock_movements d) = None
        \<and> active_ingredient (cl_organizationId c) (vi_ingredientId i) d = Some ingredient
        \<and> post_stock (new_movement c i) d = Inr d1 \<and> r = MovementResult (new_movement c i)
        \<and> d' = (if in_trackExpiry ingredient \<and> vi_quantityDeltaMicros i < 0
                then d1\<lparr>inventory_lots := consume_for (new_movement c i) (inventory_lots d1)\<rparr> else d1))"
proof -
  from assms obtain location where l: "active_location (cl_organizationId c) (vi_locationId i) d = Some location"
    and a: "assertLocationAccess (cl_scope c) (lo_stallId location) = Inr ()"
    by (auto simp: postMovement_def andThen_Inr_iff Let_def)
  let ?found = "List.find (\<lambda>m. movement_key m = Some (cl_organizationId c, vi_idempotencyKey i)) (stock_movements d)"
  show thesis
  proof (rule that [OF l a], cases ?found)
    case None
    from assms show "(\<exists>m. ?found = Some m
        \<and> movementPayloadMatches m i \<and> d' = d \<and> r = MovementResult m)
     \<or> (\<exists>ingredient d1. ?found = None
        \<and> active_ingredient (cl_organizationId c) (vi_ingredientId i) d = Some ingredient
        \<and> post_stock (new_movement c i) d = Inr d1 \<and> r = MovementResult (new_movement c i)
        \<and> d' = (if in_trackExpiry ingredient \<and> vi_quantityDeltaMicros i < 0
                then d1\<lparr>inventory_lots := consume_for (new_movement c i) (inventory_lots d1)\<rparr> else d1))"
      by (auto simp: postMovement_def andThen_Inr_iff assertLocationAccess_def Let_def None)
  next
    case (Some m)
    from assms show "(\<exists>m. ?found = Some m
        \<and> movementPayloadMatches m i \<and> d' = d \<and> r = MovementResult m)
     \<or> (\<exists>ingredient d1. ?found = None
        \<and> active_ingredient (cl_organizationId c) (vi_ingredientId i) d = Some ingredient
        \<and> post_stock (new_movement c i) d = Inr d1 \<and> r = MovementResult (new_movement c i)
        \<and> d' = (if in_trackExpiry ingredient \<and> vi_quantityDeltaMicros i < 0
                then d1\<lparr>inventory_lots := consume_for (new_movement c i) (inventory_lots d1)\<rparr> else d1))"
      by (auto simp: postMovement_def andThen_Inr_iff assertLocationAccess_def Let_def Some split: if_splits)
  qed
qed

lemma receive_line_InrD:
  assumes "receive_line c p n l amount d = Inr d'"
  obtains d2 made expires where
    "post_stock (receipt_movement c p n l)
       (d\<lparr>purchase_lines := purchase_lines d @ [purchase_line c p n l amount made expires]\<rparr>) = Inr d2"
    "0 < ni_quantityMicros l" "0 \<le> ni_unitCostMicros l" "d' = d2 \<or> store_lot (received_lot c n l made expires) d2 = Inr d'"
proof -
  obtain made expires d1 d2 where
    i: "insert_purchase_line (purchase_line c p n l amount made expires) d = Inr d1"
    and p: "post_stock (receipt_movement c p n l) d1 = Inr d2"
    and s: "(if truthy (ni_lotNumber l) then store_lot (received_lot c n l made expires) d2 else Inr d2) = Inr d'"
    using assms by (auto simp: receive_line_def andThen_Inr_iff)
  have d1: "d1 = d\<lparr>purchase_lines := purchase_lines d @ [purchase_line c p n l amount made expires]\<rparr>"
    and q: "0 < ni_quantityMicros l" "0 \<le> ni_unitCostMicros l"
    using i by (auto simp: insert_purchase_line_def purchase_line_def split: if_splits)
  show thesis by (rule that [OF p [unfolded d1] q]) (use s in \<open>auto split: if_splits\<close>)
qed

lemma references_lines [simp]:
  "stock_ledger.references (d\<lparr>purchase_lines := x\<rparr>) = stock_ledger.references d"
  "stock_ledger.references (d\<lparr>inventory_lots := y\<rparr>) = stock_ledger.references d"
  "stock_ledger.references (d\<lparr>purchase_orders := z\<rparr>) = stock_ledger.references d"
  by (simp_all add: stock_ledger.references_def)

lemma balances_ok_tables [simp]:
  "balances_ok (d\<lparr>purchase_lines := x\<rparr>) = balances_ok d"
  "balances_ok (d\<lparr>inventory_lots := y\<rparr>) = balances_ok d"
  "balances_ok (d\<lparr>purchase_orders := z\<rparr>) = balances_ok d"
  by (simp_all add: balances_ok_def movement_total_def)

lemma supply_ok_lines [simp]:
  "supply_ok (d\<lparr>purchase_lines := x\<rparr>) = supply_ok d" "supply_ok (d\<lparr>purchase_orders := z\<rparr>) = supply_ok d"
  by (simp_all add: supply_ok_def)

lemma on_hand_tables [simp]:
  "on_hand (d\<lparr>purchase_lines := x\<rparr>) = on_hand d" "on_hand (d\<lparr>inventory_lots := y\<rparr>) = on_hand d"
  "on_hand (d\<lparr>purchase_orders := z\<rparr>) = on_hand d"
  by (simp_all add: on_hand_def find_balance_def fun_eq_iff)

lemma post_stock_supply_ok:
  assumes "supply_ok d" and "post_stock m d = Inr d'"
  shows "supply_ok d'"
  using assms post_stock_InrD [OF assms(2)] post_stock_balances_ok [OF _ assms(2)]
    post_stock_references [OF _ assms(2)]
  by (simp add: supply_ok_def other_tables_def)

lemma supply_ok_lots: "supply_ok d \<Longrightarrow> lots_ok ls \<Longrightarrow> supply_ok (d\<lparr>inventory_lots := ls\<rparr>)"
  by (simp add: supply_ok_def)

lemma postMovement_ok:
  assumes "supply_ok d" and "postMovement c i d = Inr (d', r)"
  shows "supply_ok d'"
  using assms(2)
proof (rule postMovement_InrD)
  fix location
  assume "(\<exists>m. List.find (\<lambda>m. movement_key m = Some (cl_organizationId c, vi_idempotencyKey i)) (stock_movements d) = Some m
        \<and> movementPayloadMatches m i \<and> d' = d \<and> r = MovementResult m)
     \<or> (\<exists>ingredient d1.
        List.find (\<lambda>m. movement_key m = Some (cl_organizationId c, vi_idempotencyKey i)) (stock_movements d) = None
        \<and> active_ingredient (cl_organizationId c) (vi_ingredientId i) d = Some ingredient
        \<and> post_stock (new_movement c i) d = Inr d1 \<and> r = MovementResult (new_movement c i)
        \<and> d' = (if in_trackExpiry ingredient \<and> vi_quantityDeltaMicros i < 0
                then d1\<lparr>inventory_lots := consume_for (new_movement c i) (inventory_lots d1)\<rparr> else d1))"
  then show ?thesis
  proof (elim disjE exE conjE)
    fix ingredient d1
    assume p: "post_stock (new_movement c i) d = Inr d1"
      and d': "d' = (if in_trackExpiry ingredient \<and> vi_quantityDeltaMicros i < 0
                then d1\<lparr>inventory_lots := consume_for (new_movement c i) (inventory_lots d1)\<rparr> else d1)"
    have ok: "supply_ok d1" by (rule post_stock_supply_ok [OF assms(1) p])
    then have "lots_ok (inventory_lots d1)" by (simp add: supply_ok_def)
    then show ?thesis using ok supply_ok_lots [OF ok consume_for_ok] by (simp add: d')
  qed (use assms(1) in simp)
qed

lemma store_lot_supply_ok:
  assumes "supply_ok d" and "store_lot l d = Inr d'" and "lt_status l = AVAILABLE"
    and "0 < lt_receivedQuantityMicros l" and "lt_remainingQuantityMicros l = lt_receivedQuantityMicros l"
  shows "supply_ok d'"
proof -
  note S = store_lot_InrD [OF assms(2)]
  have "lots_ok (inventory_lots d')"
    by (rule store_lot_ok [OF _ assms(2-5)]) (use assms(1) in \<open>simp add: supply_ok_def\<close>)
  then show ?thesis using assms(1) S
    by (simp add: supply_ok_def balances_ok_def movement_total_def stock_ledger.references_def other_tables_def)
qed

lemma receive_line_ok:
  assumes "supply_ok d" and "receive_line c p n l amount d = Inr d'"
  shows "supply_ok d'"
  using assms(2)
proof (rule receive_line_InrD)
  fix d2 made expires
  assume p: "post_stock (receipt_movement c p n l)
       (d\<lparr>purchase_lines := purchase_lines d @ [purchase_line c p n l amount made expires]\<rparr>) = Inr d2"
    and q: "0 < ni_quantityMicros l"
    and s: "d' = d2 \<or> store_lot (received_lot c n l made expires) d2 = Inr d'"
  have ok: "supply_ok d2" by (rule post_stock_supply_ok [OF _ p]) (use assms(1) in simp)
  from s show ?thesis
  proof
    assume "d' = d2"
    then show ?thesis using ok by simp
  next
    assume "store_lot (received_lot c n l made expires) d2 = Inr d'"
    then show ?thesis by (rule store_lot_supply_ok [OF ok]) (simp_all add: received_lot_def q)
  qed
qed

lemma receive_lines_ok:
  "supply_ok d \<Longrightarrow> receive_lines c p n ls d = Inr d' \<Longrightarrow> supply_ok d'"
  by (induction ls arbitrary: n d) (auto simp: andThen_Inr_iff, metis receive_line_ok)

lemma receivePurchase_InrD:
  assumes "receivePurchase c i d = Inr (d', r)"
  obtains p amounts d1 orderedOn expected where
    "purchase_guard c i d = Inr ()" "line_amounts (ri_lines i) = Inr amounts"
    "p = new_purchase c i (sum_list amounts) orderedOn expected"
    "d1 = d\<lparr>purchase_orders := purchase_orders d @ [p]\<rparr>"
    "list_all (\<lambda>n. int4 n \<and> 0 \<le> n) [pu_subtotalAmount p, pu_taxAmount p, pu_freightAmount p, pu_totalAmount p]"
    "receive_lines c p 0 (zip (ri_lines i) amounts) d1 = Inr d'" "r = PurchaseResult p"
  using assms
  by (auto simp: receivePurchase_def insert_purchase_order_def andThen_Inr_iff Let_def split: option.splits if_splits)

lemma dispatch_ok:
  assumes "supply_ok d" and "dispatch c cmd d = Inr (d', r)"
  shows "supply_ok d'"
proof (cases "moves_stock cmd")
  case False
  then show ?thesis using master_data_frame [OF assms(2)] same_stock_ok [OF assms(1)] by blast
next
  case True
  then consider i where "cmd = POST_MOVEMENT i" | i where "cmd = RECEIVE_PURCHASE i"
    by (cases cmd) auto
  then show ?thesis
  proof cases
    case 1
    then show ?thesis using assms postMovement_ok by simp
  next
    case 2
    then have "receivePurchase c i d = Inr (d', r)" using assms(2) by simp
    then show ?thesis
    proof (rule receivePurchase_InrD)
      fix p d1 amounts
      assume "d1 = d\<lparr>purchase_orders := purchase_orders d @ [p]\<rparr>"
        and "receive_lines c p 0 (zip (ri_lines i) amounts) d1 = Inr d'"
      then show ?thesis using receive_lines_ok [of d1] assms(1) by simp
    qed
  qed
qed

lemma apply_dispatch:
  "applySupplyCommand en c cmd d = Inr x \<longleftrightarrow> en (cl_organizationId c) \<and> dispatch c cmd d = Inr x"
  by (auto simp: applySupplyCommand_def split: sum.splits supply_failure.splits)

text \<open>A session of commands; a command that fails leaves the tables as they are.\<close>

fun supply_run :: "(uid \<Rightarrow> bool) \<Rightarrow> (supply_call \<times> SupplyCommand) list \<Rightarrow> supply_db \<Rightarrow> supply_db" where
  "supply_run en [] d = d"
| "supply_run en ((c, cmd) # cs) d =
     supply_run en cs (case applySupplyCommand en c cmd d of Inl _ \<Rightarrow> d | Inr (d', _) \<Rightarrow> d')"

lemma supply_run_ok: "supply_ok d \<Longrightarrow> supply_ok (supply_run en cs d)"
proof (induction cs arbitrary: d)
  case Nil
  then show ?case by simp
next
  case (Cons x cs)
  obtain c cmd where x: "x = (c, cmd)" by (cases x)
  have "supply_ok (case applySupplyCommand en c cmd d of Inl _ \<Rightarrow> d | Inr (d', _) \<Rightarrow> d')"
    using Cons.prems dispatch_ok [OF Cons.prems]
    by (auto simp: apply_dispatch split: sum.split)
  then show ?case using Cons.IH by (simp add: x)
qed

section \<open>The abstract stock\<close>

text \<open>The entries that a command adds to the stock: none when it repeats a known movement.\<close>

fun stock_entries :: "supply_call \<Rightarrow> supply_db \<Rightarrow> SupplyCommand \<Rightarrow> ((uid \<times> uid \<times> uid) \<times> int) list" where
  "stock_entries c d (POST_MOVEMENT i) =
     (if Some (cl_organizationId c, vi_idempotencyKey i) \<in> set (map movement_key (stock_movements d)) then []
      else [((cl_organizationId c, vi_ingredientId i, vi_locationId i), vi_quantityDeltaMicros i)])"
| "stock_entries c d (RECEIVE_PURCHASE i) =
     map (\<lambda>l. ((cl_organizationId c, ni_ingredientId l, ni_locationId l), ni_quantityMicros l)) (ri_lines i)"
| "stock_entries c d _ = []"

definition add_stock :: "('k \<times> int) list \<Rightarrow> ('k \<Rightarrow> int) \<Rightarrow> 'k \<Rightarrow> int" where
  "add_stock es s = fold (\<lambda>(k, n) s. s(k := s k + n)) es s"

lemma add_stock_simps [simp]:
  "add_stock [] s = s" "add_stock ((k, n) # es) s = add_stock es (s(k := s k + n))"
  by (simp_all add: add_stock_def)

lemma length_line_amounts: "line_amounts ls = Inr as \<Longrightarrow> length as = length ls"
  by (induction ls arbitrary: as) (auto simp: andThen_Inr_iff split: option.splits)

lemma receive_line_on_hand:
  assumes "receive_line c p n l amount d = Inr d'"
  shows "on_hand d' = (on_hand d)
    ((cl_organizationId c, ni_ingredientId l, ni_locationId l) :=
       on_hand d (cl_organizationId c, ni_ingredientId l, ni_locationId l) + ni_quantityMicros l)"
  using assms
proof (rule receive_line_InrD)
  fix d2 made expires
  assume p: "post_stock (receipt_movement c p n l)
       (d\<lparr>purchase_lines := purchase_lines d @ [purchase_line c p n l amount made expires]\<rparr>) = Inr d2"
    and s: "d' = d2 \<or> store_lot (received_lot c n l made expires) d2 = Inr d'"
  have "on_hand d' = on_hand d2"
    using s store_lot_InrD(2) by (auto simp: on_hand_def find_balance_def fun_eq_iff)
  then show ?thesis using post_stock_on_hand [OF p]
    by (simp add: receipt_movement_def stock_key_def)
qed

lemma receive_lines_on_hand:
  "receive_lines c p n (zip ls as) d = Inr d' \<Longrightarrow> length as = length ls \<Longrightarrow>
     on_hand d' = add_stock
       (map (\<lambda>l. ((cl_organizationId c, ni_ingredientId l, ni_locationId l), ni_quantityMicros l)) ls) (on_hand d)"
proof (induction ls arbitrary: n as d)
  case Nil
  then show ?case by simp
next
  case (Cons l ls)
  then obtain a as' where as: "as = a # as'" by (cases as) auto
  obtain d1 where s: "receive_line c p n l a d = Inr d1"
    and r: "receive_lines c p (Suc n) (zip ls as') d1 = Inr d'"
    using Cons.prems(1) by (auto simp: as andThen_Inr_iff)
  have "length as' = length ls" using Cons.prems(2) as by simp
  note IH = Cons.IH [OF r this]
  show ?case unfolding list.map add_stock_simps receive_line_on_hand [OF s, symmetric] by (rule IH)
qed

lemma find_key_None:
  "List.find (\<lambda>m. movement_key m = k) ms = None \<longleftrightarrow> k \<notin> set (map movement_key ms)"
  by (induction ms) auto

lemma dispatch_on_hand:
  assumes "dispatch c cmd d = Inr (d', r)"
  shows "on_hand d' = add_stock (stock_entries c d cmd) (on_hand d)"
proof (cases "moves_stock cmd")
  case False
  then have "stock_entries c d cmd = []" by (cases cmd) auto
  then show ?thesis using master_data_frame [OF assms False] same_stock_on_hand
    by simp
next
  case True
  then consider i where "cmd = POST_MOVEMENT i" | i where "cmd = RECEIVE_PURCHASE i"
    by (cases cmd) auto
  then show ?thesis
  proof cases
    case 1
    then have "postMovement c i d = Inr (d', r)" using assms by simp
    then show ?thesis
    proof (rule postMovement_InrD, elim disjE exE conjE)
      fix m
      assume "List.find (\<lambda>m. movement_key m = Some (cl_organizationId c, vi_idempotencyKey i)) (stock_movements d) = Some m"
      then have "Some (cl_organizationId c, vi_idempotencyKey i) \<in> set (map movement_key (stock_movements d))"
        by (metis find_key_None option.distinct(1))
      moreover assume "d' = d"
      ultimately show ?thesis by (simp add: 1)
    next
      fix ingredient d1
      assume new: "List.find (\<lambda>m. movement_key m = Some (cl_organizationId c, vi_idempotencyKey i)) (stock_movements d) = None"
        and p: "post_stock (new_movement c i) d = Inr d1"
        and d': "d' = (if in_trackExpiry ingredient \<and> vi_quantityDeltaMicros i < 0
                then d1\<lparr>inventory_lots := consume_for (new_movement c i) (inventory_lots d1)\<rparr> else d1)"
      have "Some (cl_organizationId c, vi_idempotencyKey i) \<notin> set (map movement_key (stock_movements d))"
        using new by (simp only: find_key_None not_False_eq_True)
      moreover have "on_hand d' = on_hand d1" by (simp add: d')
      ultimately show ?thesis using post_stock_on_hand [OF p]
        by (simp add: 1 new_movement_def stock_key_def)
    qed
  next
    case 2
    then have "receivePurchase c i d = Inr (d', r)" using assms by simp
    then show ?thesis
    proof (rule receivePurchase_InrD)
      fix p d1 amounts
      assume "d1 = d\<lparr>purchase_orders := purchase_orders d @ [p]\<rparr>"
        and r: "receive_lines c p 0 (zip (ri_lines i) amounts) d1 = Inr d'"
        and "line_amounts (ri_lines i) = Inr amounts"
      then show ?thesis using receive_lines_on_hand [OF r] length_line_amounts [of "ri_lines i" amounts]
        by (simp add: 2)
    qed
  qed
qed

section \<open>The movements of a command\<close>

definition row_of_line :: "purchase_order_row \<Rightarrow> line_input \<Rightarrow> int \<Rightarrow> purchase_line_row \<Rightarrow> bool" where
  "row_of_line p l amount row \<longleftrightarrow>
     pl_purchaseOrderId row = pu_id p \<and> pl_ingredientId row = ni_ingredientId l
     \<and> pl_locationId row = ni_locationId l \<and> pl_quantityMicros row = ni_quantityMicros l
     \<and> pl_unitCostMicros row = ni_unitCostMicros l \<and> pl_lineAmount row = amount
     \<and> 0 < pl_quantityMicros row \<and> 0 \<le> pl_unitCostMicros row"

fun rows_of_lines :: "purchase_order_row \<Rightarrow> line_input list \<Rightarrow> int list \<Rightarrow> purchase_line_row list \<Rightarrow> bool" where
  "rows_of_lines p (l # ls) (a # as) (row # rows) = (row_of_line p l a row \<and> rows_of_lines p ls as rows)"
| "rows_of_lines p ls as rows = (ls = [] \<and> as = [] \<and> rows = [])"

definition permitted :: "supply_call \<Rightarrow> supply_db \<Rightarrow> stock_movement_row \<Rightarrow> bool" where
  "permitted c d m \<longleftrightarrow>
     mv_organizationId m = cl_organizationId c
     \<and> (\<exists>l \<in> set (locations d). lo_id l = mv_locationId m \<and> lo_organizationId l = cl_organizationId c
          \<and> lo_isActive l \<and> (as_canUseAllStalls (cl_scope c) \<or> isAuthorizedStall (cl_scope c) (lo_stallId l)))"

lemma receive_line_movements:
  assumes "receive_line c p n l amount d = Inr d'"
  shows "stock_movements d' = stock_movements d @ [receipt_movement c p n l]
    \<and> (\<exists>row. purchase_lines d' = purchase_lines d @ [row] \<and> row_of_line p l amount row)
    \<and> purchase_orders d' = purchase_orders d"
  using assms
proof (rule receive_line_InrD)
  fix d2 made expires
  assume p: "post_stock (receipt_movement c p n l)
       (d\<lparr>purchase_lines := purchase_lines d @ [purchase_line c p n l amount made expires]\<rparr>) = Inr d2"
    and q: "0 < ni_quantityMicros l" "0 \<le> ni_unitCostMicros l"
    and s: "d' = d2 \<or> store_lot (received_lot c n l made expires) d2 = Inr d'"
  have "stock_movements d' = stock_movements d2" "purchase_lines d' = purchase_lines d2"
    "purchase_orders d' = purchase_orders d2"
    using s store_lot_InrD(1,4,5) by auto
  then show ?thesis using post_stock_InrD(1,4,5) [OF p] q by (simp add: purchase_line_def row_of_line_def)
qed

lemma receive_lines_movements:
  assumes "receive_lines c p n (zip ls as) d = Inr d'" and "length as = length ls"
  obtains ms rows where "stock_movements d' = stock_movements d @ ms"
    "\<forall>m \<in> set ms. mv_organizationId m = cl_organizationId c \<and> mv_locationId m \<in> ni_locationId ` set ls"
    "purchase_lines d' = purchase_lines d @ rows" "rows_of_lines p ls as rows"
    "purchase_orders d' = purchase_orders d"
proof -
  have "\<exists>ms rows. stock_movements d' = stock_movements d @ ms
    \<and> (\<forall>m \<in> set ms. mv_organizationId m = cl_organizationId c \<and> mv_locationId m \<in> ni_locationId ` set ls)
    \<and> purchase_lines d' = purchase_lines d @ rows \<and> rows_of_lines p ls as rows
    \<and> purchase_orders d' = purchase_orders d"
    using assms
  proof (induction ls arbitrary: n as d)
    case Nil
    then show ?case by simp
  next
    case (Cons l ls)
    then obtain a as' where as: "as = a # as'" by (cases as) auto
    obtain d1 where s: "receive_line c p n l a d = Inr d1"
      and r: "receive_lines c p (Suc n) (zip ls as') d1 = Inr d'"
      using Cons.prems(1) by (auto simp: as andThen_Inr_iff)
    obtain ms rows where rest: "stock_movements d' = stock_movements d1 @ ms"
      "\<forall>m \<in> set ms. mv_organizationId m = cl_organizationId c \<and> mv_locationId m \<in> ni_locationId ` set ls"
      "purchase_lines d' = purchase_lines d1 @ rows" "rows_of_lines p ls as' rows"
      "purchase_orders d' = purchase_orders d1"
      using Cons.IH [OF r] Cons.prems(2) as by auto
    obtain row where row: "purchase_lines d1 = purchase_lines d @ [row]" "row_of_line p l a row"
      "stock_movements d1 = stock_movements d @ [receipt_movement c p n l]"
      "purchase_orders d1 = purchase_orders d"
      using receive_line_movements [OF s] by auto
    show ?case
      by (rule exI [of _ "receipt_movement c p n l # ms"], rule exI [of _ "row # rows"])
        (use rest row in \<open>auto simp: as receipt_movement_def\<close>)
  qed
  then show thesis using that by blast
qed

lemma purchase_guard_places:
  assumes "purchase_guard c i d = Inr ()" and "distinct (map lo_id (locations d))" and "l \<in> set (ri_lines i)"
  shows "\<exists>r \<in> set (locations d). lo_id r = ni_locationId l \<and> lo_organizationId r = cl_organizationId c
      \<and> lo_isActive r \<and> (as_canUseAllStalls (cl_scope c) \<or> isAuthorizedStall (cl_scope c) (lo_stallId r))"
proof -
  define ids where "ids = js_set (map ni_locationId (ri_lines i))"
  define places where "places = filter (\<lambda>r. lo_organizationId r = cl_organizationId c
      \<and> lo_id r \<in> set ids \<and> lo_isActive r) (locations d)"
  have len: "length places = length ids"
    and ok: "\<forall>r \<in> set places. as_canUseAllStalls (cl_scope c) \<or> isAuthorizedStall (cl_scope c) (lo_stallId r)"
    using assms(1)
    by (auto simp: purchase_guard_def Let_def andThen_Inr_iff list_ex_iff places_def ids_def)
  have sub: "lo_id ` set places \<subseteq> set ids" by (auto simp: places_def)
  have "distinct (map lo_id places)" using assms(2) by (simp add: places_def distinct_map_filter)
  then have "card (lo_id ` set places) = length places"
    using distinct_card [of "map lo_id places"] by simp
  moreover have "card (set ids) = length ids" by (rule distinct_card) (simp add: ids_def)
  ultimately have "card (set ids) = card (lo_id ` set places)" using len by simp
  then have eq: "lo_id ` set places = set ids" by (metis card_subset_eq List.finite_set sub)
  have "ni_locationId l \<in> set ids" using assms(3) by (auto simp: ids_def)
  then obtain r where "r \<in> set places" "lo_id r = ni_locationId l" using eq by (metis imageE)
  then show ?thesis using ok by (auto simp: places_def)
qed

lemma dispatch_movements:
  assumes "dispatch c cmd d = Inr (d', r)"
  obtains ms where "stock_movements d' = stock_movements d @ ms"
    "distinct (map lo_id (locations d)) \<Longrightarrow> \<forall>m \<in> set ms. permitted c d m"
proof (cases "moves_stock cmd")
  case False
  then show thesis using master_data_frame [OF assms False] that [of "[]"] by (simp add: same_stock_def)
next
  case True
  then consider i where "cmd = POST_MOVEMENT i" | i where "cmd = RECEIVE_PURCHASE i"
    by (cases cmd) auto
  then show thesis
  proof cases
    case 1
    then have "postMovement c i d = Inr (d', r)" using assms by simp
    then show thesis
    proof (rule postMovement_InrD, elim disjE exE conjE)
      assume "d' = d"
      then show thesis using that [of "[]"] by simp
    next
      fix location ingredient d1
      assume l: "active_location (cl_organizationId c) (vi_locationId i) d = Some location"
        and a: "assertLocationAccess (cl_scope c) (lo_stallId location) = Inr ()"
        and p: "post_stock (new_movement c i) d = Inr d1"
        and d': "d' = (if in_trackExpiry ingredient \<and> vi_quantityDeltaMicros i < 0
                then d1\<lparr>inventory_lots := consume_for (new_movement c i) (inventory_lots d1)\<rparr> else d1)"
      have "permitted c d (new_movement c i)"
        using l a find_Some_D [of _ "locations d" location]
        by (force simp: permitted_def new_movement_def active_location_def assertLocationAccess_def)
      moreover have "stock_movements d' = stock_movements d @ [new_movement c i]"
        using post_stock_InrD(1) [OF p] by (simp add: d')
      ultimately show thesis using that by simp
    qed
  next
    case 2
    then have "receivePurchase c i d = Inr (d', r)" using assms by simp
    then show thesis
    proof (rule receivePurchase_InrD)
      fix p amounts d1
      assume g: "purchase_guard c i d = Inr ()" and a: "line_amounts (ri_lines i) = Inr amounts"
        and d1: "d1 = d\<lparr>purchase_orders := purchase_orders d @ [p]\<rparr>"
        and r: "receive_lines c p 0 (zip (ri_lines i) amounts) d1 = Inr d'"
      show thesis
      proof (rule receive_lines_movements [OF r length_line_amounts [OF a]])
        fix ms
        assume m: "stock_movements d' = stock_movements d1 @ ms"
          and loc: "\<forall>m \<in> set ms. mv_organizationId m = cl_organizationId c
            \<and> mv_locationId m \<in> ni_locationId ` set (ri_lines i)"
        show thesis
        proof (rule that)
          show "stock_movements d' = stock_movements d @ ms" using m d1 by simp
          assume distinct: "distinct (map lo_id (locations d))"
          show "\<forall>m \<in> set ms. permitted c d m"
          proof
            fix m
            assume "m \<in> set ms"
            then obtain l where "l \<in> set (ri_lines i)" "mv_locationId m = ni_locationId l"
              "mv_organizationId m = cl_organizationId c" using loc by auto
            then show "permitted c d m"
              using purchase_guard_places [OF g distinct, of l] by (simp add: permitted_def)
          qed
        qed
      qed
    qed
  qed
qed

lemma supply_run_movements: "\<exists>ms. stock_movements (supply_run en cs d) = stock_movements d @ ms"
proof (induction cs arbitrary: d)
  case Nil
  then show ?case by simp
next
  case (Cons x cs)
  obtain c cmd where x: "x = (c, cmd)" by (cases x)
  show ?case
  proof (cases "applySupplyCommand en c cmd d")
    case (Inl e)
    then show ?thesis using Cons.IH [of d] by (simp add: x)
  next
    case (Inr y)
    obtain d1 r where y: "y = (d1, r)" by (cases y)
    then have "dispatch c cmd d = Inr (d1, r)" using Inr apply_dispatch by blast
    then obtain ms where "stock_movements d1 = stock_movements d @ ms" by (rule dispatch_movements) blast
    moreover obtain ms' where "stock_movements (supply_run en cs d1) = stock_movements d1 @ ms'"
      using Cons.IH by blast
    ultimately show ?thesis using Inr y by (simp add: x)
  qed
qed

end
