(* ===== verification/SupplyRules.thy ===== *)
theory SupplyRules
  imports SupplyStock
begin

text \<open>
  The properties of the supply module and a session of commands they are evaluated on: a
  purchase of tea with a lot, a loss, and the retry of the loss.
\<close>

section \<open>A session\<close>

definition tea :: ingredient_row where
  "tea = \<lparr>in_id = ''tea'', in_organizationId = ''org'', in_code = ''TEA'', in_name = ''Tea'',
     in_baseUom = ''G'', in_itemType = INGREDIENT, in_trackExpiry = True,
     in_defaultShelfLifeDays = None, in_preferredSupplierId = None, in_lowStockThresholdMicros = 0,
     in_isActive = True, in_createdByProfileId = ''owner''\<rparr>"

definition shelf :: location_row where
  "shelf = \<lparr>lo_id = ''shelf'', lo_organizationId = ''org'', lo_stallId = Some ''stall'',
     lo_code = ''SHELF'', lo_name = ''Shelf'', lo_locationType = STALL, lo_isActive = True,
     lo_createdByProfileId = ''owner''\<rparr>"

definition grower :: supplier_row where
  "grower = \<lparr>su_id = ''grower'', su_organizationId = ''org'', su_code = ''GROWER'', su_name = ''Grower'',
     su_contactName = None, su_phone = None, su_email = None, su_paymentTermsDays = 0,
     su_leadTimeDays = 0, su_isActive = True, su_createdByProfileId = ''owner''\<rparr>"

definition pantry :: supply_db where
  "pantry = \<lparr>ingredients = [tea], suppliers = [grower], locations = [shelf], recipe_components = [],
     balances = [], stock_movements = [], purchase_orders = [], purchase_lines = [],
     inventory_lots = [], supply_products = [],
     supply_stalls = [\<lparr>ss_id = ''stall'', ss_organizationId = ''org'', ss_isActive = True\<rparr>]\<rparr>"

definition keeper :: "string \<Rightarrow> supply_call" where
  "keeper k = \<lparr>cl_organizationId = ''org'', cl_actorProfileId = ''keeper'',
     cl_scope = \<lparr>as_canUseAllStalls = False, as_authorizedStallIds = [''stall'']\<rparr>,
     cl_ids = \<lparr>fr_main = k @ ''-main'', fr_line = (\<lambda>n. k @ ''-line-'' @ string_of_nat n),
       fr_movement = (\<lambda>n. k @ ''-movement-'' @ string_of_nat n),
       fr_lot = (\<lambda>n. k @ ''-lot-'' @ string_of_nat n)\<rparr>,
     cl_now = 1000\<rparr>"

definition delivery_of_tea :: purchase_input where
  "delivery_of_tea = \<lparr>ri_supplierId = ''grower'', ri_stallId = Some ''stall'',
     ri_documentNumber = ''D-1'', ri_orderedOn = ''2026-01-05'', ri_expectedOn = None,
     ri_taxAmount = 5, ri_freightAmount = 10, ri_note = None,
     ri_lines = [\<lparr>ni_ingredientId = ''tea'', ni_locationId = ''shelf'', ni_quantityMicros = 5000000,
       ni_unitCostMicros = 20500000, ni_lotNumber = Some ''L1'', ni_manufacturedOn = None,
       ni_expiresOn = Some ''2026-12-31''\<rparr>]\<rparr>"

definition loss_of_tea :: movement_input where
  "loss_of_tea = \<lparr>vi_ingredientId = ''tea'', vi_locationId = ''shelf'', vi_movementType = WASTE,
     vi_quantityDeltaMicros = - 2000000, vi_unitCostMicros = None, vi_sourceType = ''STOCKTAKE'',
     vi_sourceId = ''S1'', vi_idempotencyKey = ''stocktake-2026-02'', vi_reason = ''spoiled''\<rparr>"

definition supply_session :: "(supply_call \<times> SupplyCommand) list" where
  "supply_session = [(keeper ''a'', RECEIVE_PURCHASE delivery_of_tea), (keeper ''b'', POST_MOVEMENT loss_of_tea),
     (keeper ''c'', POST_MOVEMENT loss_of_tea)]"

definition all_modules :: "uid \<Rightarrow> bool" where
  "all_modules organizationId = True"

lemma pantry_ok: "supply_ok pantry"
  by (simp add: supply_ok_def pantry_def stock_ledger.references_def List.map_filter_def balances_ok_def
      lots_ok_def)

lemma pantry_after:
  "on_hand (supply_run all_modules supply_session pantry) (''org'', ''tea'', ''shelf'') = 3000000"
  by code_simp

section \<open>Properties\<close>

lemma on_hand_total:
  assumes "supply_ok d"
  shows "on_hand d k = movement_total k d"
proof -
  have b: "balances_ok d" using assms by (simp add: supply_ok_def)
  show ?thesis
  proof (cases "find_balance k d")
    case None
    then show ?thesis using movement_total_none [OF b] by (simp add: on_hand_def)
  next
    case (Some r)
    then show ?thesis using b find_balance_Some [OF Some] by (auto simp: on_hand_def balances_ok_def)
  qed
qed

text \<open>C3. (invariant) Every session of supply commands keeps the tables reconciled: what a
  balance shows is the total of the movements of its ingredient and location, no balance or
  idempotency key occurs twice, average costs stay in range, and every lot keeps between
  nothing and what was received of it, the consumed ones nothing and the available ones
  something.\<close>
theorem stock_stays_reconciled:
  assumes "supply_ok d"
  shows "supply_ok (supply_run en session d)
    \<and> (\<forall>k. on_hand (supply_run en session d) k = movement_total k (supply_run en session d))"
  using supply_run_ok [OF assms] on_hand_total by blast

theorem stock_stays_reconciled_witness:
  "supply_ok (supply_run all_modules supply_session pantry)
   \<and> movement_total (''org'', ''tea'', ''shelf'') (supply_run all_modules supply_session pantry) = 3000000"
  using stock_stays_reconciled [OF pantry_ok, of all_modules supply_session] pantry_after by metis

text \<open>C9. (refinement) The commands implement an abstract stock, a quantity for every
  organization, ingredient and location: a new movement adds its quantity, a purchase adds
  the quantities of its lines, and a repeated movement or any other command changes
  nothing.\<close>
theorem commands_refine_stock:
  assumes "applySupplyCommand en c command d = Inr (d', r)"
  shows "on_hand d' = add_stock (stock_entries c d command) (on_hand d)"
  using assms dispatch_on_hand by (simp add: apply_dispatch)

definition pantry_stocked :: supply_db where
  "pantry_stocked = supply_run all_modules [(keeper ''a'', RECEIVE_PURCHASE delivery_of_tea)] pantry"

lemma stocked:
  "case applySupplyCommand all_modules (keeper ''a'') (RECEIVE_PURCHASE delivery_of_tea) pantry of
     Inl _ \<Rightarrow> False
   | Inr (d, r) \<Rightarrow> on_hand d (''org'', ''tea'', ''shelf'') = 5000000
       \<and> map lt_remainingQuantityMicros (inventory_lots d) = [5000000]
       \<and> map pu_totalAmount (purchase_orders d) = [118] \<and> map pl_lineAmount (purchase_lines d) = [103]
       \<and> length (stock_movements d) = 1"
  by code_simp

theorem commands_refine_stock_witness:
  "\<exists>d r. applySupplyCommand all_modules (keeper ''a'') (RECEIVE_PURCHASE delivery_of_tea) pantry = Inr (d, r)
     \<and> on_hand d (''org'', ''tea'', ''shelf'') = 5000000
     \<and> on_hand d = add_stock [((''org'', ''tea'', ''shelf''), 5000000)] (on_hand pantry)"
proof -
  obtain d r where r: "applySupplyCommand all_modules (keeper ''a'') (RECEIVE_PURCHASE delivery_of_tea) pantry = Inr (d, r)"
    and h: "on_hand d (''org'', ''tea'', ''shelf'') = 5000000"
    using stocked by (auto split: sum.splits)
  have "stock_entries (keeper ''a'') pantry (RECEIVE_PURCHASE delivery_of_tea) =
      [((''org'', ''tea'', ''shelf''), 5000000)]"
    by (simp add: keeper_def delivery_of_tea_def)
  then show ?thesis using commands_refine_stock [OF r] r h by auto
qed


lemma pantry_posted:
  "case applySupplyCommand all_modules (keeper ''b'') (POST_MOVEMENT loss_of_tea) pantry_stocked of
     Inl _ \<Rightarrow> False
   | Inr (d, r) \<Rightarrow>
       (case applySupplyCommand all_modules (keeper ''c'') (POST_MOVEMENT loss_of_tea) d of
          Inl _ \<Rightarrow> False | Inr _ \<Rightarrow> True)"
  by code_simp


text \<open>C35. (safety) A manager with restricted stalls moves stock only at active locations of the
  organization that belong to an authorized stall; the ledger keeps every earlier
  movement.\<close>
theorem restricted_manager_posts_at_own_stalls:
  assumes "supply_ok d" and "applySupplyCommand en c command d = Inr (d', r)"
    and "\<not> as_canUseAllStalls (cl_scope c)"
  shows "\<exists>ms. stock_movements d' = stock_movements d @ ms
    \<and> (\<forall>m \<in> set ms. mv_organizationId m = cl_organizationId c
        \<and> (\<exists>l \<in> set (locations d). lo_id l = mv_locationId m \<and> lo_organizationId l = cl_organizationId c
             \<and> lo_isActive l \<and> isAuthorizedStall (cl_scope c) (lo_stallId l)))"
proof -
  have "dispatch c command d = Inr (d', r)" using assms(2) by (simp add: apply_dispatch)
  then show ?thesis
  proof (rule dispatch_movements)
    fix ms
    assume m: "stock_movements d' = stock_movements d @ ms"
      and "distinct (map lo_id (locations d)) \<Longrightarrow> \<forall>m \<in> set ms. permitted c d m"
    then have "\<forall>m \<in> set ms. permitted c d m" using assms(1) by (simp add: supply_ok_def)
    then show ?thesis using assms(3) m by (auto simp: permitted_def)
  qed
qed

theorem restricted_manager_posts_at_own_stalls_witness:
  "\<exists>d r ms. applySupplyCommand all_modules (keeper ''a'') (RECEIVE_PURCHASE delivery_of_tea) pantry = Inr (d, r)
     \<and> stock_movements d = ms \<and> ms \<noteq> []
     \<and> (\<forall>m \<in> set ms. \<exists>l \<in> set (locations pantry). lo_id l = mv_locationId m
          \<and> isAuthorizedStall \<lparr>as_canUseAllStalls = False, as_authorizedStallIds = [''stall'']\<rparr> (lo_stallId l))"
proof -
  obtain d r where r: "applySupplyCommand all_modules (keeper ''a'') (RECEIVE_PURCHASE delivery_of_tea) pantry = Inr (d, r)"
    and n: "length (stock_movements d) = 1"
    using stocked by (auto split: sum.splits)
  have "\<not> as_canUseAllStalls (cl_scope (keeper ''a''))" by (simp add: keeper_def)
  note restricted_manager_posts_at_own_stalls [OF pantry_ok r this]
  then obtain ms where "stock_movements d = stock_movements pantry @ ms"
    and "\<forall>m \<in> set ms. \<exists>l \<in> set (locations pantry). lo_id l = mv_locationId m
          \<and> isAuthorizedStall \<lparr>as_canUseAllStalls = False, as_authorizedStallIds = [''stall'']\<rparr> (lo_stallId l)"
    by (simp add: keeper_def) blast
  moreover have "stock_movements pantry = []" by (simp add: pantry_def)
  ultimately show ?thesis using r n by force
qed

section \<open>Purchases\<close>

lemma purchase_amount_rounding:
  assumes "purchaseLineAmount q c = Some a" and "0 < q" and "0 \<le> c"
  shows "0 \<le> a" and "a \<le> 1000000000"
    and "1000000000000 * a \<le> q * c + 500000000000" and "q * c + 500000000000 < 1000000000000 * (a + 1)"
proof -
  let ?v = "q * c + 500000000000"
  have v: "0 \<le> ?v" using assms(2,3) by simp
  have a: "a = ?v div 1000000000000" and le: "a \<le> 1000000000"
    using assms(1) v by (auto simp: purchaseLineAmount_def Let_def split: if_splits)
  show "0 \<le> a" using v by (simp add: a pos_imp_zdiv_nonneg_iff)
  show "a \<le> 1000000000" by (rule le)
  have e: "?v = 1000000000000 * a + ?v mod 1000000000000" by (simp add: a)
  have m: "0 \<le> ?v mod 1000000000000" "?v mod 1000000000000 < 1000000000000" by simp_all
  show "1000000000000 * a \<le> ?v" using e m by linarith
  have "1000000000000 * (a + 1) = 1000000000000 * a + 1000000000000" by (simp only: distrib_left)
  then show "?v < 1000000000000 * (a + 1)" using e m by linarith
qed

definition rounded_amount :: "purchase_line_row \<Rightarrow> bool" where
  "rounded_amount row \<longleftrightarrow>
     (let exact = pl_quantityMicros row * pl_unitCostMicros row; unit = 1000000000000 in
      unit * pl_lineAmount row \<le> exact + unit div 2 \<and> exact + unit div 2 < unit * (pl_lineAmount row + 1))"

lemma rows_of_lines_amounts:
  "rows_of_lines p ls as rows \<Longrightarrow> line_amounts ls = Inr as \<Longrightarrow>
     map pl_lineAmount rows = as \<and> map pl_quantityMicros rows = map ni_quantityMicros ls
     \<and> (\<forall>row \<in> set rows. rounded_amount row \<and> 0 \<le> pl_lineAmount row \<and> pl_purchaseOrderId row = pu_id p)"
proof (induction p ls as rows rule: rows_of_lines.induct)
  case (1 p l ls a as row rows)
  then have r: "row_of_line p l a row" and rest: "rows_of_lines p ls as rows" by simp_all
  have l: "purchaseLineAmount (ni_quantityMicros l) (ni_unitCostMicros l) = Some a"
    and ls: "line_amounts ls = Inr as"
    using 1(3) by (auto simp: andThen_Inr_iff split: option.splits)
  have q: "0 < ni_quantityMicros l" "0 \<le> ni_unitCostMicros l" using r by (auto simp: row_of_line_def)
  have "rounded_amount row" "0 \<le> pl_lineAmount row"
    using purchase_amount_rounding [OF l q] r by (simp_all add: rounded_amount_def row_of_line_def Let_def)
  then show ?case using 1(1) [OF rest ls] r by (simp add: row_of_line_def)
qed auto

text \<open>C40. (functional) A received purchase adds up: its document has one line per line of the
  request with its quantity, every line amount is the exact cost rounded to the nearest
  currency unit, the subtotal is their sum, and the total adds tax and freight and fits the
  column.\<close>
theorem purchase_document_adds_up:
  assumes "applySupplyCommand en c (RECEIVE_PURCHASE i) d = Inr (d', r)"
  shows "\<exists>p rows. r = PurchaseResult p \<and> purchase_orders d' = purchase_orders d @ [p]
    \<and> purchase_lines d' = purchase_lines d @ rows
    \<and> map pl_quantityMicros rows = map ni_quantityMicros (ri_lines i)
    \<and> (\<forall>row \<in> set rows. pl_purchaseOrderId row = pu_id p \<and> rounded_amount row \<and> 0 \<le> pl_lineAmount row)
    \<and> pu_subtotalAmount p = sum_of pl_lineAmount rows
    \<and> pu_totalAmount p = pu_subtotalAmount p + ri_taxAmount i + ri_freightAmount i
    \<and> 0 \<le> pu_totalAmount p \<and> pu_totalAmount p \<le> 2147483647"
proof -
  have "receivePurchase c i d = Inr (d', r)" using assms by (simp add: apply_dispatch)
  then show ?thesis
  proof (rule receivePurchase_InrD)
    fix p amounts d1 orderedOn expected
    assume a: "line_amounts (ri_lines i) = Inr amounts"
      and p: "p = new_purchase c i (sum_list amounts) orderedOn expected"
      and d1: "d1 = d\<lparr>purchase_orders := purchase_orders d @ [p]\<rparr>"
      and range: "list_all (\<lambda>n. int4 n \<and> 0 \<le> n)
        [pu_subtotalAmount p, pu_taxAmount p, pu_freightAmount p, pu_totalAmount p]"
      and l: "receive_lines c p 0 (zip (ri_lines i) amounts) d1 = Inr d'"
      and r: "r = PurchaseResult p"
    show ?thesis
    proof (rule receive_lines_movements [OF l length_line_amounts [OF a]])
      fix ms rows
      assume rows: "purchase_lines d' = purchase_lines d1 @ rows" "rows_of_lines p (ri_lines i) amounts rows"
        and o: "purchase_orders d' = purchase_orders d1"
      note R = rows_of_lines_amounts [OF rows(2) a]
      have "pu_subtotalAmount p = sum_of pl_lineAmount rows" using R p by (simp add: new_purchase_def)
      moreover have "pu_totalAmount p = pu_subtotalAmount p + ri_taxAmount i + ri_freightAmount i"
        by (simp add: p new_purchase_def)
      ultimately show ?thesis using R rows(1) o d1 r range by (auto simp: int4_def)
    qed
  qed
qed

theorem purchase_document_adds_up_witness:
  "\<exists>d r p rows. applySupplyCommand all_modules (keeper ''a'') (RECEIVE_PURCHASE delivery_of_tea) pantry = Inr (d, r)
     \<and> purchase_orders d = [p] \<and> purchase_lines d = rows \<and> pu_totalAmount p = 118
     \<and> pu_totalAmount p = sum_of pl_lineAmount rows + 5 + 10"
proof -
  obtain d r where r: "applySupplyCommand all_modules (keeper ''a'') (RECEIVE_PURCHASE delivery_of_tea) pantry = Inr (d, r)"
    and t: "map pu_totalAmount (purchase_orders d) = [118]"
    using stocked by (auto split: sum.splits)
  show ?thesis using purchase_document_adds_up [OF r] r t
    by (auto simp: pantry_def delivery_of_tea_def)
qed

section \<open>A divergence\<close>

text \<open>The schema accepts reusable equipment, the constraint of the table does not.\<close>

lemma reusable_equipment_parses:
  "parse_ingredient \<lparr>ii_code = ''cup'', ii_name = ''Cup'', ii_baseUom = ''ea'',
     ii_itemType = REUSABLE_EQUIPMENT, ii_trackExpiry = False, ii_defaultShelfLifeDays = None,
     ii_preferredSupplierId = None, ii_lowStockThresholdMicros = 0\<rparr> =
   Some \<lparr>ii_code = ''CUP'', ii_name = ''Cup'', ii_baseUom = ''EA'',
     ii_itemType = REUSABLE_EQUIPMENT, ii_trackExpiry = False, ii_defaultShelfLifeDays = None,
     ii_preferredSupplierId = None, ii_lowStockThresholdMicros = 0\<rparr>"
  by code_simp

lemma reusable_equipment_refused:
  "ii_itemType i = REUSABLE_EQUIPMENT \<Longrightarrow> applySupplyCommand en c (CREATE_INGREDIENT i) d \<noteq> Inr x"
  by (auto simp: apply_dispatch createIngredient_def andThen_Inr_iff Let_def ingredient_checks_def
      new_ingredient_def split: if_splits)

end
