(* ===== verification/SupplyDashboard.thy ===== *)
theory SupplyDashboard
  imports SupplyRules
begin

text \<open>
  The figures of the supply dashboard (\<open>getSupplyDashboard\<close> of \<open>supply-service.ts\<close>): totals
  and average costs by ingredient, the cost of a product's recipe with its margin, the value
  of the inventory, and the count of tracked stock whose lots do not add up to its balance.
  The rows are those that the bounded queries returned.
\<close>

record dashboard_rows =
  dr_ingredients :: "ingredient_row list"
  dr_balances :: "balance_row list"
  dr_products :: "supply_product_row list"
  dr_recipeComponents :: "recipe_component_row list"
  dr_inventoryLots :: "lot_row list"

text \<open>A \<open>Map\<close> that accumulates a sum by key.\<close>

definition or_zero :: "int option \<Rightarrow> int" where
  "or_zero n = (case n of None \<Rightarrow> 0 | Some v \<Rightarrow> v)"

definition accumulate :: "('r \<Rightarrow> 'k) \<Rightarrow> ('r \<Rightarrow> int) \<Rightarrow> 'r list \<Rightarrow> 'k \<Rightarrow> int option" where
  "accumulate key v rs = fold (\<lambda>r m. m(key r \<mapsto> or_zero (m (key r)) + v r)) rs (\<lambda>_. None)"

definition quantityByIngredient :: "balance_row list \<Rightarrow> uid \<Rightarrow> int option" where
  "quantityByIngredient = accumulate ba_ingredientId ba_quantityMicros"

definition in_stock :: "balance_row list \<Rightarrow> balance_row list" where
  "in_stock = filter (\<lambda>b. \<not> ba_quantityMicros b \<le> 0)"

definition costValueByIngredient :: "balance_row list \<Rightarrow> uid \<Rightarrow> int option" where
  "costValueByIngredient bs =
     accumulate ba_ingredientId (\<lambda>b. ba_quantityMicros b * ba_averageUnitCostMicros b) (in_stock bs)"

definition costQuantityByIngredient :: "balance_row list \<Rightarrow> uid \<Rightarrow> int option" where
  "costQuantityByIngredient bs = accumulate ba_ingredientId ba_quantityMicros (in_stock bs)"

definition averageCostByIngredient :: "dashboard_rows \<Rightarrow> uid \<Rightarrow> int option" where
  "averageCostByIngredient rows k =
     (if k \<in> set (map in_id (dr_ingredients rows))
      then Some (let quantity = or_zero (costQuantityByIngredient (dr_balances rows) k) in
             if quantity > 0 then bigint_div (or_zero (costValueByIngredient (dr_balances rows) k)) quantity
             else 0)
      else None)"

definition recipeEligible :: "dashboard_rows \<Rightarrow> uid \<Rightarrow> bool" where
  "recipeEligible rows k \<longleftrightarrow>
     list_ex (\<lambda>i. in_id i = k \<and> (in_itemType i = INGREDIENT \<or> in_itemType i = PACKAGING))
       (dr_ingredients rows)"

definition component_cost :: "dashboard_rows \<Rightarrow> recipe_component_row \<Rightarrow> int" where
  "component_cost rows r =
     (let unitCost = or_zero (averageCostByIngredient rows (rc_ingredientId r));
          baseCost = bigint_div (rc_quantityMicros r * unitCost) 1000000
      in bigint_div (baseCost * (10000 + rc_wasteBasisPoints r)) 10000)"

definition productCostMicros :: "dashboard_rows \<Rightarrow> uid \<Rightarrow> int option" where
  "productCostMicros rows =
     accumulate rc_productId (component_cost rows)
       (filter (\<lambda>r. recipeEligible rows (rc_ingredientId r)) (dr_recipeComponents rows))"

record product_cost =
  pk_productId :: uid
  pk_sellingPrice :: int
  pk_recipeCostMicros :: int
  pk_recipeCostAmount :: int
  pk_grossProfit :: int
  pk_grossMarginBasisPoints :: int
  pk_recipeComplete :: bool

definition product_cost_of :: "dashboard_rows \<Rightarrow> supply_product_row \<Rightarrow> product_cost" where
  "product_cost_of rows p =
     (let costMicros = or_zero (productCostMicros rows (sp_id p));
          costAmount = bigint_div (costMicros + 500000) 1000000;
          grossProfit = sp_defaultPrice p - costAmount
      in \<lparr>pk_productId = sp_id p, pk_sellingPrice = sp_defaultPrice p,
          pk_recipeCostMicros = costMicros, pk_recipeCostAmount = costAmount,
          pk_grossProfit = grossProfit,
          pk_grossMarginBasisPoints =
            (if sp_defaultPrice p > 0 then math_round_div (grossProfit * 10000) (sp_defaultPrice p) else 0),
          pk_recipeComplete =
            list_ex (\<lambda>r. rc_productId r = sp_id p \<and> recipeEligible rows (rc_ingredientId r))
              (dr_recipeComponents rows)\<rparr>)"

definition inventoryValueAmount :: "dashboard_rows \<Rightarrow> int" where
  "inventoryValueAmount rows =
     bigint_div
       (fold (\<lambda>b sum. if ba_quantityMicros b > 0
                      then sum + ba_quantityMicros b * ba_averageUnitCostMicros b else sum)
         (dr_balances rows) 0) 1000000000000"

definition low_stock :: "dashboard_rows \<Rightarrow> ingredient_row \<Rightarrow> bool" where
  "low_stock rows i \<longleftrightarrow>
     or_zero (quantityByIngredient (dr_balances rows) (in_id i)) \<le> in_lowStockThresholdMicros i"

definition tracked :: "dashboard_rows \<Rightarrow> uid \<Rightarrow> bool" where
  "tracked rows k \<longleftrightarrow> list_ex (\<lambda>i. in_id i = k \<and> in_trackExpiry i) (dr_ingredients rows)"

definition tracked_balances :: "dashboard_rows \<Rightarrow> balance_row list" where
  "tracked_balances rows = filter (\<lambda>b. tracked rows (ba_ingredientId b)) (dr_balances rows)"

definition tracked_lots :: "dashboard_rows \<Rightarrow> lot_row list" where
  "tracked_lots rows = filter (\<lambda>l. tracked rows (lt_ingredientId l)) (dr_inventoryLots rows)"

text \<open>The last balance of a key is the one that stays in the \<open>Map\<close>.\<close>

definition balanceByIngredientLocation :: "dashboard_rows \<Rightarrow> uid \<times> uid \<Rightarrow> int option" where
  "balanceByIngredientLocation rows =
     fold (\<lambda>b m. m((ba_ingredientId b, ba_locationId b) \<mapsto> positive_part (ba_quantityMicros b)))
       (tracked_balances rows) (\<lambda>_. None)"

definition lotByIngredientLocation :: "dashboard_rows \<Rightarrow> uid \<times> uid \<Rightarrow> int option" where
  "lotByIngredientLocation rows =
     accumulate (\<lambda>l. (lt_ingredientId l, lt_locationId l)) lt_remainingQuantityMicros (tracked_lots rows)"

definition lotCoverageKeys :: "dashboard_rows \<Rightarrow> (uid \<times> uid) list" where
  "lotCoverageKeys rows =
     js_set (map (\<lambda>b. (ba_ingredientId b, ba_locationId b)) (tracked_balances rows)
             @ map (\<lambda>l. (lt_ingredientId l, lt_locationId l)) (tracked_lots rows))"

definition lotCoverageGapCount :: "dashboard_rows \<Rightarrow> nat" where
  "lotCoverageGapCount rows =
     length (filter (\<lambda>k. or_zero (balanceByIngredientLocation rows k) \<noteq> or_zero (lotByIngredientLocation rows k))
       (lotCoverageKeys rows))"

section \<open>The maps as sums\<close>

lemma accumulate_fold:
  "or_zero (fold (\<lambda>r m. m(key r \<mapsto> or_zero (m (key r)) + v r)) rs m k) =
     or_zero (m k) + sum_of v (filter (\<lambda>r. key r = k) rs)"
  by (induction rs arbitrary: m) (auto simp: or_zero_def)

lemma or_zero_accumulate: "or_zero (accumulate key v rs k) = sum_of v (filter (\<lambda>r. key r = k) rs)"
  by (simp add: accumulate_def accumulate_fold) (simp add: or_zero_def)

lemma last_balance_fold:
  "distinct (map key bs) \<Longrightarrow>
     or_zero (fold (\<lambda>b m. m(key b \<mapsto> positive_part (v b))) bs m k) =
       (if k \<in> set (map key bs) then sum_of (\<lambda>b. positive_part (v b)) (filter (\<lambda>b. key b = k) bs) else or_zero (m k))"
proof (induction bs arbitrary: m)
  case Nil
  then show ?case by simp
next
  case (Cons b bs)
  show ?case
  proof (cases "key b = k")
    case True
    then have "k \<notin> set (map key bs)" using Cons.prems by auto
    then have "filter (\<lambda>b. key b = k) bs = []" by (auto simp: filter_empty_conv)
    then show ?thesis using Cons True \<open>k \<notin> set (map key bs)\<close> by (simp add: or_zero_def)
  next
    case False
    then show ?thesis using Cons by simp
  qed
qed

lemma sum_of_const_le: "(\<And>x. x \<in> set xs \<Longrightarrow> f x \<le> c * g x) \<Longrightarrow> sum_of f xs \<le> c * sum_of g xs" for c :: int
  by (induction xs) (auto simp: distrib_left intro: add_mono)

definition stock_at :: "dashboard_rows \<Rightarrow> uid \<times> uid \<Rightarrow> int" where
  "stock_at rows k =
     sum_of (\<lambda>b. positive_part (ba_quantityMicros b))
       (filter (\<lambda>b. (ba_ingredientId b, ba_locationId b) = k) (tracked_balances rows))"

definition lots_at :: "dashboard_rows \<Rightarrow> uid \<times> uid \<Rightarrow> int" where
  "lots_at rows k =
     sum_of lt_remainingQuantityMicros
       (filter (\<lambda>l. (lt_ingredientId l, lt_locationId l) = k) (tracked_lots rows))"

text \<open>(equivalence) The coverage count of the dashboard is the number of places, an
  ingredient at a location, where the remaining lots of tracked stock do not add up to what
  the balance shows (nothing, when it is negative); it is 0 exactly when every such place is
  covered.\<close>
theorem coverage_gaps_counted:
  assumes "distinct (map (\<lambda>b. (ba_ingredientId b, ba_locationId b)) (dr_balances rows))"
  shows "lotCoverageGapCount rows = card {k. stock_at rows k \<noteq> lots_at rows k}
    \<and> (lotCoverageGapCount rows = 0 \<longleftrightarrow> (\<forall>k. stock_at rows k = lots_at rows k))"
proof -
  have d: "distinct (map (\<lambda>b. (ba_ingredientId b, ba_locationId b)) (tracked_balances rows))"
    using assms by (simp add: tracked_balances_def distinct_map_filter)
  have stock: "or_zero (balanceByIngredientLocation rows k) = stock_at rows k" for k
  proof -
    have none: "stock_at rows k = 0"
      if "k \<notin> set (map (\<lambda>b. (ba_ingredientId b, ba_locationId b)) (tracked_balances rows))"
    proof -
      have "filter (\<lambda>b. (ba_ingredientId b, ba_locationId b) = k) (tracked_balances rows) = []"
        using that by (auto simp: filter_empty_conv)
      then show ?thesis by (simp add: stock_at_def)
    qed
    show ?thesis
      unfolding balanceByIngredientLocation_def last_balance_fold [OF d]
      using none by (auto simp: stock_at_def or_zero_def)
  qed
  have lots: "or_zero (lotByIngredientLocation rows k) = lots_at rows k" for k
    by (simp add: lotByIngredientLocation_def or_zero_accumulate lots_at_def)
  let ?gap = "\<lambda>k. stock_at rows k \<noteq> lots_at rows k"
  have keys: "k \<in> set (lotCoverageKeys rows)" if "?gap k" for k
  proof (rule ccontr)
    assume "k \<notin> set (lotCoverageKeys rows)"
    then have "filter (\<lambda>b. (ba_ingredientId b, ba_locationId b) = k) (tracked_balances rows) = []"
      and "filter (\<lambda>l. (lt_ingredientId l, lt_locationId l) = k) (tracked_lots rows) = []"
      by (auto simp: lotCoverageKeys_def filter_empty_conv)
    then show False using that by (simp add: stock_at_def lots_at_def)
  qed
  have "lotCoverageGapCount rows = length (filter ?gap (lotCoverageKeys rows))"
    by (simp add: lotCoverageGapCount_def stock lots)
  also have "\<dots> = card (set (filter ?gap (lotCoverageKeys rows)))"
    by (rule distinct_card [symmetric]) (simp add: lotCoverageKeys_def)
  also have "set (filter ?gap (lotCoverageKeys rows)) = {k. ?gap k}" using keys by auto
  finally have count: "lotCoverageGapCount rows = card {k. ?gap k}" .
  have "finite {k. ?gap k}" by (rule finite_subset [of _ "set (lotCoverageKeys rows)"]) (use keys in auto)
  then show ?thesis using count by auto
qed

definition sample_dashboard :: dashboard_rows where
  "sample_dashboard = \<lparr>dr_ingredients = [tea],
     dr_balances = [\<lparr>ba_organizationId = ''org'', ba_ingredientId = ''tea'', ba_locationId = ''shelf'',
       ba_quantityMicros = 7, ba_averageUnitCostMicros = 2, ba_lastMovementId = ''m''\<rparr>],
     dr_products = [], dr_recipeComponents = [], dr_inventoryLots = []\<rparr>"

theorem coverage_gaps_counted_witness:
  "lotCoverageGapCount sample_dashboard = 1
   \<and> card {k. stock_at sample_dashboard k \<noteq> lots_at sample_dashboard k} = 1"
proof -
  have "lotCoverageGapCount sample_dashboard = 1" by code_simp
  then show ?thesis using coverage_gaps_counted [of sample_dashboard] by (simp add: sample_dashboard_def)
qed

section \<open>Recipe costs\<close>

text \<open>The average cost that the dashboard shows for an ingredient lies between the
  least and the greatest average cost of its stocked balances.\<close>
lemma dashboard_average_bounds:
  assumes "averageCostByIngredient rows k = Some avg" and "b \<in> set (in_stock (dr_balances rows))"
    and "ba_ingredientId b = k"
    and "\<forall>b \<in> set (in_stock (dr_balances rows)). ba_ingredientId b = k \<longrightarrow>
      0 \<le> lo \<and> lo \<le> ba_averageUnitCostMicros b \<and> ba_averageUnitCostMicros b \<le> hi"
  shows "lo \<le> avg \<and> avg \<le> hi"
proof -
  define bs where "bs = filter (\<lambda>b. ba_ingredientId b = k) (in_stock (dr_balances rows))"
  define q where "q = sum_of ba_quantityMicros bs"
  define v where "v = sum_of (\<lambda>b. ba_quantityMicros b * ba_averageUnitCostMicros b) bs"
  have pos: "0 < ba_quantityMicros b" if "b \<in> set bs" for b using that by (simp add: bs_def in_stock_def)
  have b: "b \<in> set bs" using assms(2,3) by (simp add: bs_def)
  have rng: "0 \<le> lo \<and> lo \<le> ba_averageUnitCostMicros r \<and> ba_averageUnitCostMicros r \<le> hi" if "r \<in> set bs" for r
    using that assms(4) by (auto simp: bs_def)
  have "ba_quantityMicros b \<le> q"
    unfolding q_def using b pos by (intro member_le_sum_list) (auto intro: less_imp_le)
  then have q: "0 < q" using pos [OF b] by simp
  have hi: "v \<le> hi * q" unfolding v_def q_def
    by (rule sum_of_const_le) (use pos rng in \<open>simp add: mult.commute mult_right_mono\<close>)
  have "sum_of (\<lambda>b. - (ba_quantityMicros b * ba_averageUnitCostMicros b)) bs \<le> (- lo) * q"
    unfolding q_def by (rule sum_of_const_le) (use pos rng in \<open>simp add: mult.commute mult_right_mono\<close>)
  moreover have "sum_of (\<lambda>b. - (ba_quantityMicros b * ba_averageUnitCostMicros b)) bs = - v"
    unfolding v_def by (induction bs) auto
  ultimately have lo: "lo * q \<le> v" by simp
  have "0 \<le> lo" using rng [OF b] by simp
  then have "0 \<le> v" using lo q by (meson mult_nonneg_nonneg less_imp_le order_trans)
  moreover have "avg = bigint_div v q"
    using assms(1) q
    by (auto simp: averageCostByIngredient_def Let_def costQuantityByIngredient_def costValueByIngredient_def
        or_zero_accumulate q_def v_def bs_def split: if_splits)
  ultimately have avg: "avg = v div q" using q by simp
  have "lo * q div q \<le> v div q" using lo q by (rule zdiv_mono1)
  moreover have "v div q \<le> hi * q div q" using hi q by (rule zdiv_mono1)
  ultimately show ?thesis using q by (simp add: avg)
qed

end
