(* ===== verification/BillingMath.thy ===== *)
theory BillingMath
  imports JsText JsDate
begin

text \<open>
  The arithmetic of pay-as-you-go billing: the charge of a stall
  (\<open>src/src/server/billing/payg-pricing.ts\<close>), the tax of an invoice
  (\<open>billing-tax-policy.ts\<close>) and the calendar months of a billing time zone
  (\<open>billing-period.ts\<close>). Amounts are integers; the code refuses every number that is not a
  safe integer, so the fractions a JavaScript number could hold never enter a sum. The
  quotient of \<open>roundRatio\<close> is exact for numerators below \<open>2 ^ 52\<close>, which covers every 32-bit
  amount with a rate of at most 10000. The offsets of the time zones, the data of
  \<open>Intl.DateTimeFormat\<close>, are a parameter.
\<close>

section \<open>Failures\<close>

datatype PaygBillingErrorCode =
  PAYG_NOT_ENABLED | PAYG_OPEN_BETA_ACTIVE | PAYG_REFUND_CREDITS_NOT_ENABLED
| PAYG_SUBSCRIPTION_NOT_FOUND | PAYG_PLAN_NOT_CONFIGURED | PAYG_SUBSCRIPTION_NOT_ELIGIBLE
| PAYG_CHANGE_REQUEST_INVALID | PAYG_EFFECTIVE_DATE_INVALID | PAYG_PERIOD_NOT_CLOSABLE
| PAYG_INVOICE_CONFLICT | PAYG_INVOICE_HAS_PENDING_PAYMENT | PAYG_PLAN_VERSION_NOT_SEALED
| PAYG_CONTRACT_HASH_MISMATCH | PAYG_BILLING_TIMEZONE_INVALID | PAYG_BILLING_CYCLE_UNSUPPORTED
| PAYG_SUBSCRIPTION_CONTRACT_MISMATCH | PAYG_TAX_POLICY_UNCONFIGURED | PAYG_TAX_POLICY_MISMATCH

datatype BillingWorkflowErrorCode =
  SUBSCRIPTION_NOT_FOUND | SUBSCRIPTION_STATE_CONFLICT | PLAN_VERSION_NOT_AVAILABLE
| RENEWAL_TOO_EARLY | PLAN_CHANGE_ALREADY_PENDING | ADDITIONAL_STALL_ALREADY_PENDING
| INVOICE_NOT_FOUND | INVOICE_NOT_PAYABLE | INVOICE_NOT_EDITABLE | INVOICE_AMOUNT_MISMATCH
| INVOICE_HAS_PENDING_PAYMENT | PAYMENT_NOT_FOUND | PAYMENT_STATE_CONFLICT
| PAYMENT_IDEMPOTENCY_CONFLICT | PAYMENT_AMOUNT_EXCEEDS_DUE | UNPAID_INVOICE_EXISTS
| ORDER_PACKAGE_NOT_AVAILABLE | ADD_ON_NOT_AVAILABLE | REQUEST_NOT_FOUND | REQUEST_STATE_CONFLICT

text \<open>
  What a billing operation can throw: its own error classes, a plain \<open>Error\<close> whose message is
  a code, a \<open>TypeError\<close> or \<open>RangeError\<close> about a number, and the failures of the database: a
  violated check, unique key or foreign key, and the exceptions its triggers raise.
\<close>

datatype database_failure =
  CheckViolation | UniqueKeyViolation | RecordNotFound | OutOfRange
| InvoiceDiscountExceedsTotal | InvoiceNotEditable | ScopeMismatch | PlanVersionMismatch
| PaygPricingNotConfigured

datatype billing_failure =
  PaygBillingError PaygBillingErrorCode
| BillingWorkflowError BillingWorkflowErrorCode
| PlainError PaygBillingErrorCode
| DuplicatePaygStall
| NumberError
| DatabaseError database_failure

section \<open>The charge of a stall\<close>

definition PAYG_UNIT_PRICE :: int where "PAYG_UNIT_PRICE = 1"

definition PAYG_MONTHLY_STALL_CAP :: int where "PAYG_MONTHLY_STALL_CAP = 1499"

definition PAYG_MINIMUM_CHARGE :: int where "PAYG_MINIMUM_CHARGE = 0"

record payg_usage_input =
  gu_stallId :: uid
  gu_stallName :: string
  gu_grossCompletedOrders :: int
  gu_fullRefundCredits :: "int option"
  gu_unitPrice :: "int option"
  gu_capAmount :: "int option"
  gu_minimumCharge :: "int option"

record payg_stall_charge =
  gc_stallId :: uid
  gc_stallName :: string
  gc_grossCompletedOrders :: int
  gc_fullRefundCredits :: int
  gc_netBillableOrders :: int
  gc_unitPrice :: int
  gc_uncappedAmount :: int
  gc_capAmount :: int
  gc_finalCharge :: int
  gc_capSavings :: int
  gc_capReached :: bool

definition opt_or :: "'a option \<Rightarrow> 'a \<Rightarrow> 'a" where
  "opt_or x d = (case x of Some v \<Rightarrow> v | None \<Rightarrow> d)"

lemma opt_or_simps [simp]: "opt_or None d = d" "opt_or (Some v) d = v"
  by (simp_all add: opt_or_def)

definition nonNegativeInteger :: "int \<Rightarrow> billing_failure + int" where
  "nonNegativeInteger v = (if \<not> isSafeInteger v \<or> v < 0 then Inl NumberError else Inr v)"

definition safeMultiply :: "int \<Rightarrow> int \<Rightarrow> billing_failure + int" where
  "safeMultiply l r = (if isSafeInteger (l * r) then Inr (l * r) else Inl NumberError)"

definition safeAdd :: "int \<Rightarrow> int \<Rightarrow> billing_failure + int" where
  "safeAdd l r = (if isSafeInteger (l + r) then Inr (l + r) else Inl NumberError)"

definition calculatePaygStallCharge :: "payg_usage_input \<Rightarrow> billing_failure + payg_stall_charge" where
  "calculatePaygStallCharge i =
     andThen (nonNegativeInteger (gu_grossCompletedOrders i)) (\<lambda>gross.
     andThen (nonNegativeInteger (opt_or (gu_fullRefundCredits i) 0)) (\<lambda>refunds.
     andThen (nonNegativeInteger (opt_or (gu_unitPrice i) PAYG_UNIT_PRICE)) (\<lambda>unitPrice.
     andThen (nonNegativeInteger (opt_or (gu_capAmount i) PAYG_MONTHLY_STALL_CAP)) (\<lambda>cap.
     andThen (nonNegativeInteger (opt_or (gu_minimumCharge i) PAYG_MINIMUM_CHARGE)) (\<lambda>minimum.
       if minimum > cap then Inl NumberError
       else
         (let net = max (gross - refunds) 0 in
          andThen (safeMultiply net unitPrice) (\<lambda>uncapped.
            let final = min (max uncapped minimum) cap in
            Inr \<lparr>gc_stallId = gu_stallId i, gc_stallName = gu_stallName i,
                 gc_grossCompletedOrders = gross, gc_fullRefundCredits = refunds,
                 gc_netBillableOrders = net, gc_unitPrice = unitPrice,
                 gc_uncappedAmount = uncapped, gc_capAmount = cap, gc_finalCharge = final,
                 gc_capSavings = max (uncapped - final) 0, gc_capReached = (uncapped \<ge> cap)\<rparr>)))))))"

fun stall_charges ::
  "uid list \<Rightarrow> payg_usage_input list \<Rightarrow> billing_failure + payg_stall_charge list" where
  "stall_charges seen [] = Inr []"
| "stall_charges seen (i # is) =
     (if gu_stallId i \<in> set seen then Inl DuplicatePaygStall
      else
        andThen (calculatePaygStallCharge i) (\<lambda>c.
        andThen (stall_charges (gu_stallId i # seen) is) (\<lambda>cs. Inr (c # cs))))"

fun total_charge :: "int \<Rightarrow> payg_stall_charge list \<Rightarrow> billing_failure + int" where
  "total_charge acc [] = Inr acc"
| "total_charge acc (c # cs) =
     andThen (safeAdd acc (gc_finalCharge c)) (\<lambda>t. total_charge t cs)"

definition calculatePaygOrganizationCharge ::
  "payg_usage_input list \<Rightarrow> billing_failure + payg_stall_charge list \<times> int" where
  "calculatePaygOrganizationCharge is =
     andThen (stall_charges [] is) (\<lambda>cs.
     andThen (total_charge 0 cs) (\<lambda>t. Inr (cs, t)))"

section \<open>Tax\<close>

record tax_policy =
  tp_treatment :: string
  tp_rateBps :: "int option"
  tp_jurisdiction :: "string option"
  tp_roundingMode :: string
  tp_roundingScope :: string
  tp_capTaxBasis :: "string option"

definition billingTaxTreatments :: "string list" where
  "billingTaxTreatments = [''UNCONFIGURED'', ''INCLUSIVE'', ''EXCLUSIVE'', ''EXEMPT'', ''OUT_OF_SCOPE'']"

definition billingTaxRoundingModes :: "string list" where
  "billingTaxRoundingModes = [''HALF_UP'', ''HALF_EVEN'', ''FLOOR'', ''CEILING'']"

definition assertTaxPolicy :: "tax_policy \<Rightarrow> billing_failure + unit" where
  "assertTaxPolicy p =
     (if tp_treatment p \<notin> set billingTaxTreatments
         \<or> tp_roundingMode p \<notin> set billingTaxRoundingModes
         \<or> tp_roundingScope p \<notin> set [''INVOICE'', ''STALL_LINE'']
      then Inl (PlainError PAYG_TAX_POLICY_MISMATCH)
      else if tp_treatment p = ''UNCONFIGURED'' then
        ensure (tp_rateBps p = None \<and> tp_jurisdiction p = None \<and> tp_capTaxBasis p = None)
          (PlainError PAYG_TAX_POLICY_MISMATCH)
      else if js_trim (or_empty (tp_jurisdiction p)) = [] then Inl (PlainError PAYG_TAX_POLICY_MISMATCH)
      else if tp_treatment p = ''INCLUSIVE'' \<or> tp_treatment p = ''EXCLUSIVE'' then
        ensure (tp_rateBps p \<noteq> None \<and> 0 \<le> the (tp_rateBps p) \<and> the (tp_rateBps p) \<le> 10000
            \<and> tp_capTaxBasis p \<in> set [Some ''TAX_INCLUSIVE_TOTAL'', Some ''PRE_TAX_USAGE''])
          (PlainError PAYG_TAX_POLICY_MISMATCH)
      else ensure (tp_rateBps p = None \<or> tp_rateBps p = Some 0) (PlainError PAYG_TAX_POLICY_MISMATCH))"

definition assertMoney :: "int \<Rightarrow> billing_failure + unit" where
  "assertMoney v = ensure (isSafeInteger v \<and> 0 \<le> v) NumberError"

definition validateLineAmounts :: "int list option \<Rightarrow> int \<Rightarrow> billing_failure + int list" where
  "validateLineAmounts lines taxable =
     (if opt_or lines [] = [] then Inl (PlainError PAYG_TAX_POLICY_MISMATCH)
      else if \<not> list_all (\<lambda>v. isSafeInteger v \<and> 0 \<le> v) (opt_or lines []) then Inl NumberError
      else if sum_list (opt_or lines []) \<noteq> taxable then Inl (PlainError PAYG_TAX_POLICY_MISMATCH)
      else Inr (opt_or lines []))"

definition roundRatio :: "int \<Rightarrow> int \<Rightarrow> string \<Rightarrow> billing_failure + int" where
  "roundRatio numerator denominator mode =
     (if \<not> isSafeInteger numerator \<or> denominator \<le> 0 then Inl NumberError
      else
        (let quotient = numerator div denominator; remainder = numerator mod denominator in
         Inr (if mode = ''FLOOR'' then quotient
              else if mode = ''CEILING'' then quotient + (if remainder > 0 then 1 else 0)
              else if remainder * 2 < denominator then quotient
              else if remainder * 2 > denominator then quotient + 1
              else if mode = ''HALF_EVEN'' then (if quotient mod 2 = 0 then quotient else quotient + 1)
              else quotient + 1)))"

fun tax_of_amounts :: "string \<Rightarrow> int \<Rightarrow> string \<Rightarrow> int list \<Rightarrow> billing_failure + int" where
  "tax_of_amounts treatment rate mode [] = Inr 0"
| "tax_of_amounts treatment rate mode (a # as) =
     andThen (roundRatio (a * rate) (if treatment = ''INCLUSIVE'' then 10000 + rate else 10000) mode) (\<lambda>t.
     andThen (tax_of_amounts treatment rate mode as) (\<lambda>s. Inr (t + s)))"

record tax_result =
  tr_subtotal :: int
  tr_taxAmount :: int
  tr_totalAmount :: int

definition calculateBillingTax ::
  "tax_policy \<Rightarrow> int \<Rightarrow> int list option \<Rightarrow> billing_failure + tax_result" where
  "calculateBillingTax p taxable lines =
     andThen (assertMoney taxable) (\<lambda>_.
     andThen (assertTaxPolicy p) (\<lambda>_.
     andThen (if tp_roundingScope p = ''STALL_LINE'' then validateLineAmounts lines taxable else Inr [taxable]) (\<lambda>amounts.
       if tp_treatment p = ''UNCONFIGURED'' then Inl (PlainError PAYG_TAX_POLICY_UNCONFIGURED)
       else if tp_treatment p = ''EXEMPT'' \<or> tp_treatment p = ''OUT_OF_SCOPE'' then
         Inr \<lparr>tr_subtotal = taxable, tr_taxAmount = 0, tr_totalAmount = taxable\<rparr>
       else
         andThen (tax_of_amounts (tp_treatment p) (opt_or (tp_rateBps p) 0) (tp_roundingMode p) amounts) (\<lambda>tax.
           if tp_treatment p = ''INCLUSIVE'' then
             Inr \<lparr>tr_subtotal = taxable - tax, tr_taxAmount = tax, tr_totalAmount = taxable\<rparr>
           else
             Inr \<lparr>tr_subtotal = taxable, tr_taxAmount = tax, tr_totalAmount = taxable + tax\<rparr>))))"

section \<open>Billing periods\<close>

record billing_cycle =
  bc_billingTimezone :: string
  bc_billingCycleAnchorDay :: int
  bc_billingPeriodType :: string

text \<open>
  \<open>zones tz\<close> is the offset of the wall clock of a zone from UTC at an instant, in
  milliseconds, and \<open>None\<close> for a name the formatter rejects.
\<close>

type_synonym time_zones = "string \<Rightarrow> (instant \<Rightarrow> int) option"

definition assertSupportedBillingCycle :: "time_zones \<Rightarrow> billing_cycle \<Rightarrow> billing_failure + unit" where
  "assertSupportedBillingCycle zones c =
     (if bc_billingCycleAnchorDay c \<noteq> 1 \<or> bc_billingPeriodType c \<noteq> ''CALENDAR_MONTH'' then
        Inl (PlainError PAYG_BILLING_CYCLE_UNSUPPORTED)
      else ensure (zones (bc_billingTimezone c) \<noteq> None) (PlainError PAYG_BILLING_TIMEZONE_INVALID))"

definition dateParts :: "(instant \<Rightarrow> int) \<Rightarrow> instant \<Rightarrow> int \<times> int \<times> int" where
  "dateParts off t = (let w = t + off t in (utc_year w, utc_month w + 1, utc_day w))"

definition timeParts :: "(instant \<Rightarrow> int) \<Rightarrow> instant \<Rightarrow> int \<times> int \<times> int" where
  "timeParts off t =
     (let s = (t + off t) mod DAY_MS div 1000 in (s div 3600, s mod 3600 div 60, s mod 60))"

definition represented :: "(instant \<Rightarrow> int) \<Rightarrow> instant \<Rightarrow> instant" where
  "represented off t =
     (case dateParts off t of (year, month, day) \<Rightarrow>
      case timeParts off t of (hour, minute, second) \<Rightarrow>
        date_utc year (month - 1) day + hour * 3600000 + minute * 60000 + second * 1000)"

fun zoned_guess :: "nat \<Rightarrow> (instant \<Rightarrow> int) \<Rightarrow> instant \<Rightarrow> instant \<Rightarrow> instant" where
  "zoned_guess 0 off target guess = guess"
| "zoned_guess (Suc attempts) off target guess =
     (let following = target - (represented off guess - guess) in
      if following = guess then guess else zoned_guess attempts off target following)"

definition zonedMidnight :: "(instant \<Rightarrow> int) \<Rightarrow> int \<Rightarrow> int \<Rightarrow> int \<Rightarrow> instant" where
  "zonedMidnight off year month day =
     (let target = date_utc year (month - 1) day in zoned_guess 4 off target target)"

definition billingPeriodForInstant :: "time_zones \<Rightarrow> instant \<Rightarrow> billing_cycle \<Rightarrow> billing_failure + instant" where
  "billingPeriodForInstant zones t c =
     andThen (assertSupportedBillingCycle zones c) (\<lambda>_.
       case dateParts (the (zones (bc_billingTimezone c))) t of (year, month, _) \<Rightarrow>
         Inr (date_utc year (month - 1) 1))"

definition billingPeriodEndInstant :: "time_zones \<Rightarrow> instant \<Rightarrow> billing_cycle \<Rightarrow> billing_failure + instant" where
  "billingPeriodEndInstant zones period c =
     andThen (assertSupportedBillingCycle zones c) (\<lambda>_.
       let year = utc_year period; month = utc_month period + 1;
           nextYear = (if month = 12 then year + 1 else year);
           nextMonth = (if month = 12 then 1 else month + 1)
       in Inr (zonedMidnight (the (zones (bc_billingTimezone c))) nextYear nextMonth 1))"

definition billingPeriodStartInstant :: "time_zones \<Rightarrow> instant \<Rightarrow> billing_cycle \<Rightarrow> billing_failure + instant" where
  "billingPeriodStartInstant zones period c =
     andThen (assertSupportedBillingCycle zones c) (\<lambda>_.
       Inr (zonedMidnight (the (zones (bc_billingTimezone c))) (utc_year period) (utc_month period + 1)
              (bc_billingCycleAnchorDay c)))"

definition hasBillingPeriodEnded :: "time_zones \<Rightarrow> instant \<Rightarrow> billing_cycle \<Rightarrow> instant \<Rightarrow> billing_failure + bool" where
  "hasBillingPeriodEnded zones period c now =
     andThen (billingPeriodEndInstant zones period c) (\<lambda>e. Inr (e \<le> now))"

section \<open>Lemmas: charges\<close>

lemma nonNegativeInteger_Inr [simp]: "nonNegativeInteger v = Inr w \<longleftrightarrow> w = v \<and> isSafeInteger v \<and> 0 \<le> v"
  by (auto simp: nonNegativeInteger_def)

lemma safeMultiply_Inr [simp]: "safeMultiply l r = Inr w \<longleftrightarrow> w = l * r \<and> isSafeInteger (l * r)"
  by (auto simp: safeMultiply_def)

lemma safeAdd_Inr [simp]: "safeAdd l r = Inr w \<longleftrightarrow> w = l + r \<and> isSafeInteger (l + r)"
  by (auto simp: safeAdd_def)

lemma stall_charge_bounds:
  assumes "calculatePaygStallCharge i = Inr c"
  shows "0 \<le> gc_finalCharge c" "opt_or (gu_minimumCharge i) PAYG_MINIMUM_CHARGE \<le> gc_finalCharge c"
    "gc_finalCharge c \<le> gc_capAmount c" "gc_uncappedAmount c = gc_netBillableOrders c * gc_unitPrice c"
    "gc_netBillableOrders c = max (gc_grossCompletedOrders c - gc_fullRefundCredits c) 0"
    "gc_stallId c = gu_stallId i"
  using assms
  by (auto simp: calculatePaygStallCharge_def andThen_Inr_iff Let_def split: if_splits)

lemma stall_charges_total:
  "stall_charges seen is = Inr cs \<Longrightarrow>
     list_all2 (\<lambda>i c. calculatePaygStallCharge i = Inr c) is cs
     \<and> distinct (map gu_stallId is) \<and> set (map gu_stallId is) \<inter> set seen = {}"
  by (induction seen "is" arbitrary: cs rule: stall_charges.induct)
    (auto simp: andThen_Inr_iff split: if_splits)

lemma total_charge_sum: "total_charge t cs = Inr s \<Longrightarrow> s = t + sum_of gc_finalCharge cs"
  by (induction t cs rule: total_charge.induct) (fastforce simp: andThen_Inr_iff)+

section \<open>Lemmas: tax\<close>

lemma roundRatio_error:
  assumes "roundRatio n d mode = Inr r"
  shows "r * d < n + d" "n < r * d + d"
    "mode \<noteq> ''FLOOR'' \<Longrightarrow> mode \<noteq> ''CEILING'' \<Longrightarrow> 2 * \<bar>r * d - n\<bar> \<le> d"
proof -
  have d: "0 < d" using assms by (auto simp: roundRatio_def split: if_splits)
  define q where "q = n div d"
  define m where "m = n mod d"
  have n: "n = q * d + m" "0 \<le> m" "m < d" using d by (simp_all add: q_def m_def)
  have r: "r = (if mode = ''FLOOR'' then q
              else if mode = ''CEILING'' then q + (if m > 0 then 1 else 0)
              else if m * 2 < d then q else if m * 2 > d then q + 1
              else if mode = ''HALF_EVEN'' then (if q mod 2 = 0 then q else q + 1) else q + 1)"
    using assms d by (auto simp: roundRatio_def Let_def q_def m_def split: if_splits)
  have cases: "r = q \<or> r = q + 1 \<and> 0 < m" using r d n by (auto split: if_splits)
  then show "r * d < n + d" "n < r * d + d" using n d by (auto simp: distrib_right)
  assume "mode \<noteq> ''FLOOR''" "mode \<noteq> ''CEILING''"
  then have "r = q \<and> m * 2 \<le> d \<or> r = q + 1 \<and> d \<le> m * 2" using r by (auto split: if_splits)
  then show "2 * \<bar>r * d - n\<bar> \<le> d" using n d by (auto simp: distrib_right)
qed

lemma roundRatio_range:
  assumes "roundRatio n d mode = Inr r" and "0 \<le> n"
  shows "0 \<le> r" and "n \<le> k * d \<Longrightarrow> r \<le> k"
proof -
  have d: "0 < d" using assms by (auto simp: roundRatio_def split: if_splits)
  show "0 \<le> r"
  proof (rule ccontr)
    assume "\<not> 0 \<le> r"
    then have "r * d \<le> - 1 * d" using d by (intro mult_right_mono) auto
    then show False using roundRatio_error(2) [OF assms(1)] assms(2) by simp
  qed
  assume "n \<le> k * d"
  show "r \<le> k"
  proof (rule ccontr)
    assume "\<not> r \<le> k"
    then have "(k + 1) * d \<le> r * d" using d by (intro mult_right_mono) auto
    then show False using roundRatio_error(1) [OF assms(1)] \<open>n \<le> k * d\<close> by (simp add: distrib_right)
  qed
qed

lemma tax_of_amounts_range:
  "tax_of_amounts t rate mode as = Inr s \<Longrightarrow> 0 \<le> rate \<Longrightarrow> rate \<le> 10000 \<Longrightarrow> \<forall>a \<in> set as. 0 \<le> a \<Longrightarrow>
     0 \<le> s \<and> s \<le> sum_list as"
proof (induction as arbitrary: s)
  case Nil
  then show ?case by simp
next
  case (Cons a as)
  obtain x y where x: "roundRatio (a * rate) (if t = ''INCLUSIVE'' then 10000 + rate else 10000) mode = Inr x"
    and y: "tax_of_amounts t rate mode as = Inr y" and s: "s = x + y"
    using Cons.prems(1) by (auto simp: andThen_Inr_iff)
  have "0 \<le> a * rate" using Cons.prems by simp
  moreover have "a * rate \<le> a * (if t = ''INCLUSIVE'' then 10000 + rate else 10000)"
    using Cons.prems by (intro mult_left_mono) auto
  ultimately have "0 \<le> x" "x \<le> a" using roundRatio_range [OF x] by auto
  then show ?case using Cons.IH [OF y] Cons.prems s by auto
qed

lemma tax_of_amounts_error:
  "tax_of_amounts t rate mode as = Inr s \<Longrightarrow>
     \<bar>s * (if t = ''INCLUSIVE'' then 10000 + rate else 10000) - sum_list as * rate\<bar>
       \<le> int (length as) * (if t = ''INCLUSIVE'' then 10000 + rate else 10000)"
proof (induction as arbitrary: s)
  case Nil
  then show ?case by simp
next
  case (Cons a as)
  let ?d = "if t = ''INCLUSIVE'' then 10000 + rate else 10000 :: int"
  obtain x y where x: "roundRatio (a * rate) ?d mode = Inr x"
    and y: "tax_of_amounts t rate mode as = Inr y" and s: "s = x + y"
    using Cons.prems by (auto simp: andThen_Inr_iff)
  have "\<bar>x * ?d - a * rate\<bar> \<le> ?d" using roundRatio_error(1,2) [OF x] by linarith
  moreover have "\<bar>y * ?d - sum_list as * rate\<bar> \<le> int (length as) * ?d" by (rule Cons.IH [OF y])
  moreover have "s * ?d - sum_list (a # as) * rate = (x * ?d - a * rate) + (y * ?d - sum_list as * rate)"
    by (simp add: s algebra_simps)
  moreover have "int (length (a # as)) * ?d = ?d + int (length as) * ?d" by (simp add: algebra_simps)
  ultimately show ?case by linarith
qed

lemma calculateBillingTax_amounts:
  assumes "calculateBillingTax p taxable lines = Inr r"
  shows "tr_subtotal r + tr_taxAmount r = tr_totalAmount r" "0 \<le> tr_taxAmount r"
    "0 \<le> tr_subtotal r" "tr_taxAmount r \<le> taxable" "0 \<le> taxable"
    "tp_treatment p \<noteq> ''EXCLUSIVE'' \<Longrightarrow> tr_totalAmount r = taxable"
    "tp_treatment p \<noteq> ''INCLUSIVE'' \<Longrightarrow> tr_subtotal r = taxable"
proof -
  obtain amounts where t: "0 \<le> taxable" and p: "assertTaxPolicy p = Inr ()"
    and a: "(if tp_roundingScope p = ''STALL_LINE'' then validateLineAmounts lines taxable else Inr [taxable]) = Inr amounts"
    and r: "(if tp_treatment p = ''UNCONFIGURED'' then Inl (PlainError PAYG_TAX_POLICY_UNCONFIGURED)
       else if tp_treatment p = ''EXEMPT'' \<or> tp_treatment p = ''OUT_OF_SCOPE'' then
         Inr \<lparr>tr_subtotal = taxable, tr_taxAmount = 0, tr_totalAmount = taxable\<rparr>
       else
         andThen (tax_of_amounts (tp_treatment p) (opt_or (tp_rateBps p) 0) (tp_roundingMode p) amounts) (\<lambda>tax.
           if tp_treatment p = ''INCLUSIVE'' then
             Inr \<lparr>tr_subtotal = taxable - tax, tr_taxAmount = tax, tr_totalAmount = taxable\<rparr>
           else
             Inr \<lparr>tr_subtotal = taxable, tr_taxAmount = tax, tr_totalAmount = taxable + tax\<rparr>)) = Inr r"
    using assms by (auto simp: calculateBillingTax_def andThen_Inr_iff assertMoney_def)
  have amounts: "sum_list amounts = taxable" "\<forall>a \<in> set amounts. 0 \<le> a"
    using a t by (auto simp: validateLineAmounts_def list_all_iff split: if_splits)
  have tax: "0 \<le> tax \<and> tax \<le> taxable"
    if "tp_treatment p \<noteq> ''UNCONFIGURED''" "tp_treatment p \<noteq> ''EXEMPT''" "tp_treatment p \<noteq> ''OUT_OF_SCOPE''"
      "tax_of_amounts (tp_treatment p) (opt_or (tp_rateBps p) 0) (tp_roundingMode p) amounts = Inr tax" for tax
  proof -
    have "tp_treatment p = ''INCLUSIVE'' \<or> tp_treatment p = ''EXCLUSIVE''"
      using p that(1-3) by (auto simp: assertTaxPolicy_def billingTaxTreatments_def split: if_splits)
    then have "0 \<le> opt_or (tp_rateBps p) 0 \<and> opt_or (tp_rateBps p) 0 \<le> 10000"
      using p by (auto simp: assertTaxPolicy_def split: if_splits)
    then show ?thesis using tax_of_amounts_range [OF that(4)] amounts by auto
  qed
  show "tr_subtotal r + tr_taxAmount r = tr_totalAmount r" "0 \<le> tr_taxAmount r"
    "0 \<le> tr_subtotal r" "tr_taxAmount r \<le> taxable"
    using r tax t by (auto simp: andThen_Inr_iff split: if_splits)
  show "0 \<le> taxable" by (rule t)
  have "tp_treatment p \<in> set billingTaxTreatments" using p by (auto simp: assertTaxPolicy_def split: if_splits)
  then show "tr_totalAmount r = taxable" if "tp_treatment p \<noteq> ''EXCLUSIVE''"
    using r that by (auto simp: andThen_Inr_iff billingTaxTreatments_def split: if_splits)
  show "tr_subtotal r = taxable" if "tp_treatment p \<noteq> ''INCLUSIVE''"
    using r that by (auto simp: andThen_Inr_iff split: if_splits)
qed

section \<open>Lemmas: periods\<close>

lemma represented_eq: "represented off t = t + off t - (t + off t) mod 1000"
proof -
  define w where "w = t + off t"
  define s where "s = w mod DAY_MS div 1000"
  have split: "s div 3600 * 3600000 + s mod 3600 div 60 * 60000 + s mod 60 * 1000 = s * 1000"
  proof -
    have "s mod 3600 mod 60 = s mod 60" by (rule mod_mod_cancel) simp
    then have "s mod 3600 = s mod 3600 div 60 * 60 + s mod 60" by (metis div_mult_mod_eq)
    moreover have "s = s div 3600 * 3600 + s mod 3600" by simp
    ultimately show ?thesis by linarith
  qed
  have "w mod DAY_MS mod 1000 = w mod 1000" by (rule mod_mod_cancel) (simp add: DAY_MS_def)
  then have s: "s * 1000 = w mod DAY_MS - w mod 1000" unfolding s_def by (simp add: minus_mod_eq_div_mult [symmetric])
  have "represented off t = date_utc (utc_year w) (utc_month w) (utc_day w)
      + (s div 3600 * 3600000 + s mod 3600 div 60 * 60000 + s mod 60 * 1000)"
    by (simp add: represented_def dateParts_def timeParts_def Let_def w_def s_def)
  also have "\<dots> = w - w mod 1000" by (simp add: split date_utc_parts s)
  finally show ?thesis by (simp add: w_def)
qed

lemma represented_whole:
  "1000 dvd t \<Longrightarrow> 1000 dvd off t \<Longrightarrow> represented off t = t + off t"
  by (simp add: represented_eq)

lemma date_utc_thousand: "1000 dvd date_utc y m d"
  by (simp add: date_utc_def DAY_MS_def)

text \<open>
  Around the target the clock of a zone changes at most once, at \<open>s\<close>, from the offset \<open>a\<close> to
  the offset \<open>b\<close>. Unless the change skips the target, the loop ends at an instant whose wall
  clock shows it; and a change that skips it is the only case in which no instant does.
\<close>

definition one_change :: "(instant \<Rightarrow> int) \<Rightarrow> instant \<Rightarrow> int \<Rightarrow> int \<Rightarrow> instant \<Rightarrow> bool" where
  "one_change off s a b target \<longleftrightarrow>
     1000 dvd a \<and> 1000 dvd b
     \<and> off target = (if target < s then a else b)
     \<and> off (target - a) = (if target - a < s then a else b)
     \<and> off (target - b) = (if target - b < s then a else b)"

lemma zoned_guess_step:
  assumes "1000 dvd g" and "1000 dvd off g"
  shows "zoned_guess (Suc n) off target g =
    (if target - off g = g then g else zoned_guess n off target (target - off g))"
  using represented_whole [of g off] assms by (simp add: Let_def)

lemma zoned_guess_found:
  assumes "1000 dvd g" and "1000 dvd off g" and "g + off g = target"
  shows "zoned_guess n off target g = g" and "represented off g = target"
proof -
  show "represented off g = target" using represented_whole assms by simp
  then show "zoned_guess n off target g = g" using assms(3) by (cases n) (simp_all add: Let_def)
qed

lemma zoned_guess_shows:
  assumes z: "one_change off s a b target" and t: "1000 dvd target"
    and shown: "\<not> (s + a \<le> target \<and> target < s + b)"
  shows "represented off (zoned_guess (Suc (Suc (Suc n))) off target target) = target"
proof -
  let ?a = "target - a" and ?b = "target - b"
  have ab: "1000 dvd a" "1000 dvd b" using z by (simp_all add: one_change_def)
  then have d: "1000 dvd ?a" "1000 dvd ?b" using t by simp_all
  have offa: "off ?a = (if ?a < s then a else b)" and offb: "off ?b = (if ?b < s then a else b)"
    using z by (simp_all add: one_change_def)
  have found: "zoned_guess m off target ?a = ?a \<and> represented off ?a = target" if "off ?a = a" for m
    using zoned_guess_found(1) [of ?a off target m] zoned_guess_found(2) [of ?a off target] d ab that by simp
  have found': "zoned_guess m off target ?b = ?b \<and> represented off ?b = target" if "off ?b = b" for m
    using zoned_guess_found(1) [of ?b off target m] zoned_guess_found(2) [of ?b off target] d ab that by simp
  have from_a: "represented off (zoned_guess (Suc m) off target ?a) = target" for m
  proof (cases "off ?a = a")
    case True
    then show ?thesis using found by simp
  next
    case False
    then have "off ?a = b" "off ?b = b" using offa offb shown by (auto split: if_splits)
    then show ?thesis using zoned_guess_step [of ?a off m target] d ab found' by auto
  qed
  have from_b: "represented off (zoned_guess (Suc m) off target ?b) = target" for m
  proof (cases "off ?b = b")
    case True
    then show ?thesis using found' by simp
  next
    case False
    then have "off ?b = a" "off ?a = a" using offa offb shown by (auto split: if_splits)
    then show ?thesis using zoned_guess_step [of ?b off m target] d ab found by auto
  qed
  have "off target = a \<or> off target = b" using z by (auto simp: one_change_def)
  then show ?thesis
  proof
    assume o: "off target = a"
    have "zoned_guess (Suc (Suc (Suc n))) off target target =
        (if ?a = target then target else zoned_guess (Suc (Suc n)) off target ?a)"
      using zoned_guess_step [of target off "Suc (Suc n)" target] t ab o by simp
    moreover have "represented off target = target" if "?a = target"
      using represented_whole [of target off] t ab o that by simp
    ultimately show ?thesis using from_a [of "Suc n"] by auto
  next
    assume o: "off target = b"
    have "zoned_guess (Suc (Suc (Suc n))) off target target =
        (if ?b = target then target else zoned_guess (Suc (Suc n)) off target ?b)"
      using zoned_guess_step [of target off "Suc (Suc n)" target] t ab o by simp
    moreover have "represented off target = target" if "?b = target"
      using represented_whole [of target off] t ab o that by simp
    ultimately show ?thesis using from_b [of "Suc n"] by auto
  qed
qed

end
