(* ===== verification/BillingTables.thy ===== *)
theory BillingTables
  imports BillingMath DeliveryJobs
begin

text \<open>
  The billing tables and what the database does on a write of them
  (\<open>src/supabase/migrations/20260713000560_commercial_and_invitations.sql\<close>,
  \<open>20260718224537_commercial_billing_phase1_core.sql\<close>, \<open>20260718233000_*\<close>,
  \<open>20260822100000_payg_open_beta_billing.sql\<close>, \<open>20260824110000_*\<close>): the checks of a row, the
  unique keys, the trigger that recomputes the totals of an invoice after every statement on
  its lines, the trigger that ties a subscription to its plan version, and the SQL function
  that rebuilds the usage summaries of the stalls. A statement that fails rolls the
  transaction back, so an operation is a function into a failure or the new tables.
  Checks that only repeat what another table or a schema already enforces on the same text
  (currency codes, lengths, formats) are left out.
\<close>

definition utf8 :: "nat list \<Rightarrow> string" where
  "utf8 bs = map char_of bs"

section \<open>Rows\<close>

record contract_entitlement =
  ce_featureCode :: string
  ce_isEnabled :: bool
  ce_limitValue :: "int option"
  ce_configurationJson :: json

record version_row =
  pw_id :: uid
  pw_planId :: uid
  pw_planCode :: string
  pw_planIsActive :: bool
  pw_version :: int
  pw_displayName :: string
  pw_billingInterval :: string
  pw_basePrice :: int
  pw_annualPrice :: "int option"
  pw_currency :: string
  pw_trialDays :: "int option"
  pw_includedStalls :: int
  pw_maxStalls :: "int option"
  pw_additionalStallPrice :: "int option"
  pw_maxStaff :: "int option"
  pw_maxProducts :: "int option"
  pw_maxQrCodes :: "int option"
  pw_includedOrders :: "int option"
  pw_reportRetentionDays :: "int option"
  pw_overagePolicy :: string
  pw_pricingMode :: string
  pw_usageUnitPrice :: int
  pw_usageMetric :: "string option"
  pw_usageScope :: "string option"
  pw_monthlyCapAmount :: "int option"
  pw_minimumCharge :: int
  pw_billingTimezone :: string
  pw_billingCycleAnchorDay :: int
  pw_billingPeriodType :: string
  pw_invoiceCloseDelayHours :: "int option"
  pw_taxTreatment :: string
  pw_taxRateBps :: "int option"
  pw_taxJurisdiction :: "string option"
  pw_taxRoundingMode :: string
  pw_taxRoundingScope :: string
  pw_capTaxBasis :: "string option"
  pw_taxDocumentRequired :: bool
  pw_sealedAt :: "instant option"
  pw_sealedByProfileId :: "uid option"
  pw_contractHash :: "string option"
  pw_entitlements :: "contract_entitlement list"
  pw_isPublic :: bool
  pw_requiresQuote :: bool
  pw_effectiveFrom :: instant
  pw_effectiveUntil :: "instant option"

record billed_subscription =
  sx_id :: uid
  sx_organizationId :: uid
  sx_planId :: uid
  sx_planVersionId :: uid
  sx_status :: string
  sx_billingInterval :: string
  sx_billingPeriodStart :: instant
  sx_billingPeriodEnd :: instant
  sx_trialStartedAt :: "instant option"
  sx_trialEndsAt :: "instant option"
  sx_paymentDueAt :: "instant option"
  sx_pastDueAt :: "instant option"
  sx_gracePeriodEndsAt :: "instant option"
  sx_suspendedAt :: "instant option"
  sx_reactivatedAt :: "instant option"
  sx_pricingEffectiveAt :: "instant option"
  sx_billingTimezone :: string
  sx_billingCycleAnchorDay :: int
  sx_billingPeriodType :: string
  sx_invoiceCloseDelayHours :: "int option"

record invoice_row =
  nv_id :: uid
  nv_organizationId :: uid
  nv_subscriptionId :: uid
  nv_planVersionId :: "uid option"
  nv_status :: string
  nv_currency :: string
  nv_billingPeriodStart :: instant
  nv_billingPeriodEnd :: instant
  nv_subtotal :: int
  nv_discountAmount :: int
  nv_taxAmount :: int
  nv_totalAmount :: int
  nv_amountPaid :: int
  nv_amountDue :: int
  nv_pricingMode :: "string option"
  nv_pricingSnapshotJson :: "json option"
  nv_issuedAt :: "instant option"
  nv_dueAt :: instant
  nv_paidAt :: "instant option"
  nv_voidedAt :: "instant option"
  nv_createdAt :: instant

record invoice_line =
  ln_id :: uid
  ln_organizationId :: uid
  ln_invoiceId :: uid
  ln_itemType :: string
  ln_code :: string
  ln_description :: string
  ln_quantity :: int
  ln_unitPrice :: int
  ln_subtotal :: int
  ln_referenceId :: "string option"
  ln_metadataJson :: "json option"
  ln_createdAt :: instant

record manual_payment =
  mp_id :: uid
  mp_organizationId :: uid
  mp_invoiceId :: uid
  mp_paymentMethod :: string
  mp_amount :: int
  mp_currency :: string
  mp_referenceNumber :: "string option"
  mp_bankLastFive :: "string option"
  mp_receivedAt :: instant
  mp_recordedByProfileId :: uid
  mp_note :: "string option"
  mp_idempotencyKey :: string
  mp_verificationStatus :: string
  mp_verifiedByProfileId :: "uid option"
  mp_verifiedAt :: "instant option"
  mp_rejectedAt :: "instant option"

record change_request =
  cq_id :: uid
  cq_organizationId :: uid
  cq_subscriptionId :: uid
  cq_requestType :: string
  cq_status :: string
  cq_requestedPlanVersionId :: "uid option"
  cq_requestedBillingInterval :: "string option"
  cq_requestedQuantity :: "int option"
  cq_reason :: string
  cq_requestedByProfileId :: uid
  cq_decidedByProfileId :: "uid option"
  cq_decisionNote :: "string option"
  cq_invoiceId :: "uid option"
  cq_decidedAt :: "instant option"

record credit_adjustment =
  cr_id :: uid
  cr_organizationId :: uid
  cr_subscriptionId :: uid
  cr_originalOrderId :: uid
  cr_originalInvoiceId :: uid
  cr_targetInvoiceId :: "uid option"
  cr_creditAmount :: int
  cr_taxCreditAmount :: int
  cr_status :: string
  cr_reasonCode :: string
  cr_createdAt :: instant
  cr_appliedAt :: "instant option"

record usage_summary =
  us_organizationId :: uid
  us_stallId :: uid
  us_billingPeriod :: instant
  us_grossCompletedOrderCount :: int
  us_fullRefundCreditCount :: int
  us_netBillableOrderCount :: int
  us_unitPrice :: int
  us_uncappedAmount :: int
  us_capAmount :: int
  us_finalCharge :: int
  us_capSavings :: int

record usage_event =
  uv_organizationId :: uid
  uv_stallId :: "uid option"
  uv_eventType :: string
  uv_quantity :: int
  uv_billingPeriod :: instant
  uv_occurredAt :: instant

record billed_stall =
  bs_id :: uid
  bs_organizationId :: uid
  bs_name :: string
  bs_isActive :: bool

record subscription_item =
  im_id :: uid
  im_organizationId :: uid
  im_subscriptionId :: uid
  im_itemType :: string
  im_referenceId :: "string option"
  im_code :: string
  im_description :: string
  im_quantity :: int
  im_unitPrice :: int
  im_currency :: string
  im_status :: string
  im_startsAt :: instant
  im_endsAt :: "instant option"

record catalog_item =
  ca_id :: uid
  ca_code :: string
  ca_displayName :: string
  ca_unitPrice :: int
  ca_currency :: string
  ca_isActive :: bool
  ca_availabilityStatus :: string

text \<open>A notification is known by its organization and \<open>dedupe_key\<close>, a unique key; its title and
  message are not modelled. Its outbox row is the one of the channel \<open>IN_APP\<close>.\<close>

record billing_notification =
  bn_organizationId :: uid
  bn_notificationType :: string
  bn_severity :: string
  bn_entityType :: string
  bn_entityId :: uid
  bn_dedupeKey :: string

record billing_audit =
  bu_organizationId :: "uid option"
  bu_actorProfileId :: "uid option"
  bu_action :: string
  bu_entityType :: string
  bu_entityId :: uid
  bu_requestId :: string

record close_job =
  cj_subscriptionId :: uid
  cj_billingPeriod :: instant
  cj_idempotencyKey :: string
  cj_status :: string
  cj_attemptCount :: int
  cj_lastErrorCode :: "string option"
  cj_lastRequestId :: "string option"
  cj_startedAt :: "instant option"
  cj_completedAt :: "instant option"

record billing_tables =
  bt_flags :: "(string \<times> bool) list"
  bt_versions :: "version_row list"
  bt_subscriptions :: "billed_subscription list"
  bt_organizations :: "(uid \<times> string) list"
  bt_requests :: "change_request list"
  bt_invoices :: "invoice_row list"
  bt_lines :: "invoice_line list"
  bt_payments :: "manual_payment list"
  bt_tax_documents :: "(uid \<times> string) list"
  bt_credits :: "credit_adjustment list"
  bt_summaries :: "usage_summary list"
  bt_usage :: "usage_event list"
  bt_stalls :: "billed_stall list"
  bt_items :: "subscription_item list"
  bt_catalog :: "catalog_item list"
  bt_notifications :: "billing_notification list"
  bt_outbox :: "(uid \<times> string) list"
  bt_audit :: "billing_audit list"
  bt_close_jobs :: "close_job list"

text \<open>The caller of an operation, the clock and the identifiers the database hands out, by the
  place of the statement in the operation.\<close>

record billing_call =
  bc_actorProfileId :: "uid option"
  bc_requestId :: string
  bc_now :: instant
  bc_fresh :: "nat \<Rightarrow> uid"

section \<open>Feature flags\<close>

definition flags_only :: "billing_tables \<Rightarrow> billing_db" where
  "flags_only t =
     \<lparr>subscriptions = [], add_on_catalog = [], usage_events = [], active_flags = bt_flags t,
      billing_stalls = [], billing_products = [], billing_qr_codes = [], member_organizations = [],
      member_stalls = []\<rparr>"

record billing_experience =
  ex_openBetaFreeAccess :: bool
  ex_merchantBillingVisible :: bool
  ex_paygBillingEnabled :: bool
  ex_paygNewMerchantsEnabled :: bool
  ex_paygLegacyMigrationEnabled :: bool
  ex_paygRefundCreditsEnabled :: bool
  ex_paygAutomaticInvoiceCloseEnabled :: bool

definition getBillingExperienceState :: "billing_tables \<Rightarrow> billing_experience" where
  "getBillingExperienceState t =
     (let on = (\<lambda>code. isBillingFeatureEnabled code (flags_only t)) in
      \<lparr>ex_openBetaFreeAccess = on ''OPEN_BETA_FREE_ACCESS_ENABLED'',
       ex_merchantBillingVisible = on ''MERCHANT_BILLING_VISIBLE'',
       ex_paygBillingEnabled = on ''PAYG_BILLING_ENABLED'',
       ex_paygNewMerchantsEnabled = on ''PAYG_NEW_MERCHANTS_ENABLED'',
       ex_paygLegacyMigrationEnabled = on ''PAYG_LEGACY_MIGRATION_ENABLED'',
       ex_paygRefundCreditsEnabled = on ''PAYG_REFUND_CREDITS_ENABLED'',
       ex_paygAutomaticInvoiceCloseEnabled = on ''PAYG_AUTOMATIC_INVOICE_CLOSE_ENABLED''\<rparr>)"

section \<open>Lookups\<close>

definition find_version :: "uid \<Rightarrow> billing_tables \<Rightarrow> version_row option" where
  "find_version k t = List.find (\<lambda>v. pw_id v = k) (bt_versions t)"

definition find_subscription :: "uid \<Rightarrow> billing_tables \<Rightarrow> billed_subscription option" where
  "find_subscription k t = List.find (\<lambda>s. sx_id s = k) (bt_subscriptions t)"

definition organization_subscription :: "uid \<Rightarrow> billing_tables \<Rightarrow> billed_subscription option" where
  "organization_subscription org t = List.find (\<lambda>s. sx_organizationId s = org) (bt_subscriptions t)"

definition find_invoice :: "uid \<Rightarrow> billing_tables \<Rightarrow> invoice_row option" where
  "find_invoice k t = List.find (\<lambda>v. nv_id v = k) (bt_invoices t)"

definition period_key :: "uid \<Rightarrow> instant \<Rightarrow> instant \<Rightarrow> invoice_row \<Rightarrow> bool" where
  "period_key org from until v \<longleftrightarrow>
     nv_organizationId v = org \<and> nv_billingPeriodStart v = from \<and> nv_billingPeriodEnd v = until"

definition period_invoice :: "uid \<Rightarrow> instant \<Rightarrow> instant \<Rightarrow> billing_tables \<Rightarrow> invoice_row option" where
  "period_invoice org from until t = List.find (period_key org from until) (bt_invoices t)"

definition invoice_lines :: "uid \<Rightarrow> billing_tables \<Rightarrow> invoice_line list" where
  "invoice_lines k t = filter (\<lambda>l. ln_invoiceId l = k) (bt_lines t)"

definition not_found :: "'a option \<Rightarrow> billing_failure \<Rightarrow> billing_failure + 'a" where
  "not_found x e = (case x of Some v \<Rightarrow> Inr v | None \<Rightarrow> Inl e)"

lemma not_found_Inr [simp]: "not_found x e = Inr v \<longleftrightarrow> x = Some v"
  by (cases x) (auto simp: not_found_def)

section \<open>Invoices\<close>

definition editable_statuses :: "string list" where
  "editable_statuses = [''DRAFT'', ''OPEN'', ''OVERDUE'']"

definition invoice_in_range :: "invoice_row \<Rightarrow> bool" where
  "invoice_in_range v \<longleftrightarrow>
     list_all int4 [nv_subtotal v, nv_discountAmount v, nv_taxAmount v, nv_totalAmount v, nv_amountPaid v,
                    nv_amountDue v]"

definition invoice_checks :: "invoice_row \<Rightarrow> bool" where
  "invoice_checks v \<longleftrightarrow>
     nv_status v \<in> set [''DRAFT'', ''OPEN'', ''PAID'', ''VOID'', ''OVERDUE'', ''CANCELLED'']
     \<and> list_all (\<lambda>n. 0 \<le> n) [nv_subtotal v, nv_discountAmount v, nv_taxAmount v, nv_totalAmount v,
                           nv_amountPaid v, nv_amountDue v]
     \<and> nv_billingPeriodStart v < nv_billingPeriodEnd v
     \<and> nv_subtotal v + nv_taxAmount v - nv_discountAmount v = nv_totalAmount v
     \<and> nv_totalAmount v - nv_amountPaid v = nv_amountDue v
     \<and> nv_amountPaid v \<le> nv_totalAmount v
     \<and> nv_discountAmount v \<le> nv_subtotal v + nv_taxAmount v
     \<and> (nv_status v = ''PAID'' \<longrightarrow> nv_paidAt v \<noteq> None)
     \<and> (nv_status v = ''VOID'' \<longrightarrow> nv_voidedAt v \<noteq> None)"

definition update_invoice ::
  "uid \<Rightarrow> (invoice_row \<Rightarrow> invoice_row) \<Rightarrow> billing_tables \<Rightarrow> billing_failure + billing_tables" where
  "update_invoice k f t =
     (case find_invoice k t of
        None \<Rightarrow> Inl (DatabaseError RecordNotFound)
      | Some v \<Rightarrow>
          if \<not> invoice_in_range (f v) then Inl (DatabaseError OutOfRange)
          else if \<not> invoice_checks (f v) then Inl (DatabaseError CheckViolation)
          else Inr (t\<lparr>bt_invoices := update_where (\<lambda>v. nv_id v = k) f (bt_invoices t)\<rparr>))"

definition insert_invoice :: "invoice_row \<Rightarrow> billing_tables \<Rightarrow> billing_failure + billing_tables" where
  "insert_invoice v t =
     (if map_option sx_organizationId (find_subscription (nv_subscriptionId v) t) \<noteq> Some (nv_organizationId v)
        then Inl (DatabaseError ScopeMismatch)
      else if \<not> invoice_in_range v then Inl (DatabaseError OutOfRange)
      else if \<not> invoice_checks v then Inl (DatabaseError CheckViolation)
      else if find_invoice (nv_id v) t \<noteq> None
            \<or> period_invoice (nv_organizationId v) (nv_billingPeriodStart v) (nv_billingPeriodEnd v) t \<noteq> None
        then Inl (DatabaseError UniqueKeyViolation)
      else Inr (t\<lparr>bt_invoices := bt_invoices t @ [v]\<rparr>))"

section \<open>Lines and the totals trigger\<close>

definition line_types :: "string list" where
  "line_types = [''BASE_PLAN'', ''ADDITIONAL_STALL'', ''EXCESS_ORDER'', ''ORDER_PACKAGE'', ''ADD_ON'',
     ''CUSTOM_SERVICE'', ''CREDIT'', ''DISCOUNT'', ''PAYG_USAGE'']"

definition line_in_range :: "invoice_line \<Rightarrow> bool" where
  "line_in_range l \<longleftrightarrow> list_all int4 [ln_quantity l, ln_unitPrice l, ln_subtotal l]"

definition line_checks :: "invoice_line \<Rightarrow> bool" where
  "line_checks l \<longleftrightarrow>
     ln_itemType l \<in> set line_types \<and> 0 < ln_quantity l \<and> 0 \<le> ln_unitPrice l \<and> 0 \<le> ln_subtotal l
     \<and> ln_subtotal l = ln_quantity l * ln_unitPrice l"

definition is_discount :: "invoice_line \<Rightarrow> bool" where
  "is_discount l \<longleftrightarrow> ln_itemType l \<in> set [''CREDIT'', ''DISCOUNT'']"

definition charge_total :: "uid \<Rightarrow> billing_tables \<Rightarrow> int" where
  "charge_total k t = sum_of ln_subtotal (filter (\<lambda>l. \<not> is_discount l) (invoice_lines k t))"

definition discount_total :: "uid \<Rightarrow> billing_tables \<Rightarrow> int" where
  "discount_total k t = sum_of ln_subtotal (filter is_discount (invoice_lines k t))"

definition recalculated :: "int \<Rightarrow> int \<Rightarrow> invoice_row \<Rightarrow> invoice_row" where
  "recalculated charge discount v =
     v\<lparr>nv_subtotal := charge, nv_discountAmount := discount,
       nv_totalAmount := charge + nv_taxAmount v - discount,
       nv_amountDue := charge + nv_taxAmount v - discount - nv_amountPaid v\<rparr>"

text \<open>\<open>refresh_invoice_totals_after_line_item\<close> calls this function only for an invoice that
  exists.\<close>

definition recalculate_invoice_totals :: "uid \<Rightarrow> billing_tables \<Rightarrow> billing_failure + billing_tables" where
  "recalculate_invoice_totals k t =
     (case find_invoice k t of
        None \<Rightarrow> Inr t
      | Some v \<Rightarrow>
          if nv_status v \<notin> set editable_statuses then Inl (DatabaseError InvoiceNotEditable)
          else if \<not> int4 (charge_total k t) \<or> \<not> int4 (discount_total k t) then Inl (DatabaseError OutOfRange)
          else if discount_total k t > charge_total k t + nv_taxAmount v
            then Inl (DatabaseError InvoiceDiscountExceedsTotal)
          else update_invoice k (recalculated (charge_total k t) (discount_total k t)) t)"

text \<open>One \<open>insert\<close> of the lines of an invoice. The trigger runs for each row, after all rows are
  in, so running it once is the same.\<close>

definition insert_lines :: "uid \<Rightarrow> invoice_line list \<Rightarrow> billing_tables \<Rightarrow> billing_failure + billing_tables" where
  "insert_lines k ls t =
     (if ls = [] then Inr t
      else if list_ex (\<lambda>l. map_option nv_organizationId (find_invoice (ln_invoiceId l) t)
                             \<noteq> Some (ln_organizationId l)) ls
        then Inl (DatabaseError ScopeMismatch)
      else if \<not> list_all line_in_range ls then Inl (DatabaseError OutOfRange)
      else if \<not> list_all line_checks ls then Inl (DatabaseError CheckViolation)
      else if \<not> distinct (map ln_id (bt_lines t @ ls)) then Inl (DatabaseError UniqueKeyViolation)
      else recalculate_invoice_totals k (t\<lparr>bt_lines := bt_lines t @ ls\<rparr>))"

definition delete_lines :: "uid \<Rightarrow> (invoice_line \<Rightarrow> bool) \<Rightarrow> billing_tables \<Rightarrow> billing_failure + billing_tables" where
  "delete_lines k p t =
     (if \<not> list_ex p (invoice_lines k t) then Inr t
      else recalculate_invoice_totals k
             (t\<lparr>bt_lines := filter (\<lambda>l. \<not> (ln_invoiceId l = k \<and> p l)) (bt_lines t)\<rparr>))"

section \<open>Subscriptions\<close>

definition subscription_checks :: "billed_subscription \<Rightarrow> bool" where
  "subscription_checks s \<longleftrightarrow>
     sx_status s \<in> set [''TRIALING'', ''ACTIVE'', ''PAST_DUE'', ''GRACE_PERIOD'', ''SUSPENDED'', ''CANCELLED'']
     \<and> sx_billingPeriodStart s < sx_billingPeriodEnd s
     \<and> (case sx_trialEndsAt s of None \<Rightarrow> True
         | Some e \<Rightarrow> (case sx_trialStartedAt s of None \<Rightarrow> False | Some b \<Rightarrow> b < e))
     \<and> (case (sx_gracePeriodEndsAt s, sx_pastDueAt s) of (Some g, Some p) \<Rightarrow> p < g | _ \<Rightarrow> True)
     \<and> sx_billingCycleAnchorDay s = 1 \<and> sx_billingPeriodType s = ''CALENDAR_MONTH''
     \<and> (case sx_invoiceCloseDelayHours s of None \<Rightarrow> True | Some h \<Rightarrow> 0 \<le> h \<and> h \<le> 744)"

text \<open>\<open>resolve_subscription_plan_version\<close>: before a write of the plan, the version or the status.\<close>

definition resolve_plan_version ::
  "instant \<Rightarrow> billing_tables \<Rightarrow> billed_subscription \<Rightarrow> billing_failure + billed_subscription" where
  "resolve_plan_version now t s =
     (case find_version (sx_planVersionId s) t of
        None \<Rightarrow> Inl (DatabaseError PlanVersionMismatch)
      | Some v \<Rightarrow>
          if pw_planId v \<noteq> sx_planId s then Inl (DatabaseError PlanVersionMismatch)
          else
            (let started = (if sx_status s = ''TRIALING'' \<and> sx_trialStartedAt s = None then Some now
                            else sx_trialStartedAt s);
                 ends = (if sx_status s = ''TRIALING'' \<and> sx_trialEndsAt s = None
                         then Some (the started + opt_or (pw_trialDays v) 14 * DAY_MS) else sx_trialEndsAt s)
             in Inr (s\<lparr>sx_trialStartedAt := started, sx_trialEndsAt := ends,
                       sx_billingInterval := (if pw_billingInterval v = ''TRIAL'' then ''TRIAL''
                                              else sx_billingInterval s)\<rparr>)))"

definition put_subscription :: "billed_subscription \<Rightarrow> billing_tables \<Rightarrow> billing_failure + billing_tables" where
  "put_subscription s t =
     (if \<not> subscription_checks s then Inl (DatabaseError CheckViolation)
      else Inr (t\<lparr>bt_subscriptions := update_where (\<lambda>r. sx_id r = sx_id s) (\<lambda>_. s) (bt_subscriptions t)\<rparr>))"

definition update_subscription ::
  "instant \<Rightarrow> bool \<Rightarrow> uid \<Rightarrow> (billed_subscription \<Rightarrow> billed_subscription) \<Rightarrow> billing_tables
     \<Rightarrow> billing_failure + billing_tables" where
  "update_subscription now writesPlan k f t =
     andThen (not_found (find_subscription k t) (DatabaseError RecordNotFound)) (\<lambda>s.
     andThen (if writesPlan then resolve_plan_version now t (f s) else Inr (f s)) (\<lambda>s'.
       put_subscription s' t))"

text \<open>The status of an organization; its row exists, by the foreign key of the subscription.\<close>

definition set_organization_status :: "uid \<Rightarrow> string \<Rightarrow> billing_tables \<Rightarrow> billing_tables" where
  "set_organization_status org status t =
     t\<lparr>bt_organizations := update_where (\<lambda>o'. fst o' = org) (\<lambda>o'. (fst o', status)) (bt_organizations t)\<rparr>"

section \<open>Requests, notifications and the audit log\<close>

definition request_checks :: "change_request \<Rightarrow> bool" where
  "request_checks q \<longleftrightarrow>
     (cq_requestType q = ''PLAN_CHANGE'' \<and> cq_requestedPlanVersionId q \<noteq> None
        \<and> cq_requestedBillingInterval q \<in> set [Some ''MONTHLY'', Some ''ANNUAL''] \<and> cq_requestedQuantity q = None
      \<or> cq_requestType q = ''ADDITIONAL_STALL'' \<and> cq_requestedPlanVersionId q = None
        \<and> cq_requestedBillingInterval q = None
        \<and> (case cq_requestedQuantity q of None \<Rightarrow> False | Some n \<Rightarrow> 1 \<le> n \<and> n \<le> 100))
     \<and> (cq_status q = ''PENDING'' \<and> cq_decidedByProfileId q = None \<and> cq_decidedAt q = None
      \<or> cq_status q \<in> set [''APPROVED'', ''REJECTED'', ''CANCELLED'']
        \<and> cq_decidedByProfileId q \<noteq> None \<and> cq_decidedAt q \<noteq> None)"

definition pending_like :: "change_request \<Rightarrow> change_request \<Rightarrow> bool" where
  "pending_like q r \<longleftrightarrow>
     cq_organizationId r = cq_organizationId q \<and> cq_requestType r = cq_requestType q \<and> cq_status r = ''PENDING''"

definition insert_request :: "change_request \<Rightarrow> billing_tables \<Rightarrow> billing_failure + billing_tables" where
  "insert_request q t =
     (if \<not> request_checks q then Inl (DatabaseError CheckViolation)
      else if list_ex (\<lambda>r. cq_id r = cq_id q) (bt_requests t)
            \<or> cq_status q = ''PENDING'' \<and> list_ex (pending_like q) (bt_requests t)
        then Inl (DatabaseError UniqueKeyViolation)
      else Inr (t\<lparr>bt_requests := bt_requests t @ [q]\<rparr>))"

definition update_requests ::
  "(change_request \<Rightarrow> bool) \<Rightarrow> (change_request \<Rightarrow> change_request) \<Rightarrow> billing_tables
     \<Rightarrow> billing_failure + billing_tables" where
  "update_requests p f t =
     (if \<not> list_all (\<lambda>q. p q \<longrightarrow> request_checks (f q)) (bt_requests t) then Inl (DatabaseError CheckViolation)
      else Inr (t\<lparr>bt_requests := update_where p f (bt_requests t)\<rparr>))"

definition createNotification :: "billing_notification \<Rightarrow> billing_tables \<Rightarrow> billing_tables" where
  "createNotification n t =
     (let key = (bn_organizationId n, bn_dedupeKey n) in
      t\<lparr>bt_notifications :=
          (if list_ex (\<lambda>m. (bn_organizationId m, bn_dedupeKey m) = key) (bt_notifications t)
           then bt_notifications t else bt_notifications t @ [n]),
        bt_outbox := (if key \<in> set (bt_outbox t) then bt_outbox t else bt_outbox t @ [key])\<rparr>)"

definition createAudit ::
  "billing_call \<Rightarrow> uid \<Rightarrow> string \<Rightarrow> string \<Rightarrow> uid \<Rightarrow> billing_tables \<Rightarrow> billing_tables" where
  "createAudit c org action entityType entityId t =
     t\<lparr>bt_audit := bt_audit t @
         [\<lparr>bu_organizationId = Some org, bu_actorProfileId = bc_actorProfileId c, bu_action = action,
           bu_entityType = entityType, bu_entityId = entityId, bu_requestId = bc_requestId c\<rparr>]\<rparr>"

section \<open>Usage summaries\<close>

definition summary_key :: "usage_summary \<Rightarrow> uid \<times> uid \<times> instant" where
  "summary_key s = (us_organizationId s, us_stallId s, us_billingPeriod s)"

definition upsert_summary :: "usage_summary \<Rightarrow> usage_summary list \<Rightarrow> usage_summary list" where
  "upsert_summary s rows =
     (if list_ex (\<lambda>r. summary_key r = summary_key s) rows
      then update_where (\<lambda>r. summary_key r = summary_key s) (\<lambda>_. s) rows
      else rows @ [s])"

text \<open>The stalls of a rebuild: the active ones and those with an event of the period.\<close>

definition scoped_stalls :: "uid \<Rightarrow> instant \<Rightarrow> billing_tables \<Rightarrow> uid list" where
  "scoped_stalls org period t =
     map bs_id (filter (\<lambda>s. bs_organizationId s = org
         \<and> (bs_isActive s
            \<or> list_ex (\<lambda>e. uv_stallId e = Some (bs_id s) \<and> uv_billingPeriod e = period) (bt_usage t)))
       (bt_stalls t))"

definition ledger_sum :: "uid \<Rightarrow> uid \<Rightarrow> instant \<Rightarrow> instant option \<Rightarrow> string \<Rightarrow> billing_tables \<Rightarrow> int" where
  "ledger_sum org stall period effective eventType t =
     sum_of uv_quantity (filter (\<lambda>e. uv_organizationId e = org \<and> uv_stallId e = Some stall
         \<and> uv_billingPeriod e = period \<and> uv_eventType e = eventType
         \<and> (case effective of None \<Rightarrow> True | Some a \<Rightarrow> a \<le> uv_occurredAt e)) (bt_usage t))"

definition summary_of ::
  "uid \<Rightarrow> uid \<Rightarrow> instant \<Rightarrow> int \<Rightarrow> int \<Rightarrow> instant option \<Rightarrow> billing_tables \<Rightarrow> usage_summary" where
  "summary_of org stall period unitPrice cap effective t =
     (let gross = max (ledger_sum org stall period effective ''BILLABLE_ORDER_COMPLETED'' t) 0;
          refunds = max (- ledger_sum org stall period effective ''BILLABLE_ORDER_FULL_REFUND'' t) 0;
          net = max (ledger_sum org stall period effective ''BILLABLE_ORDER_COMPLETED'' t
                     + ledger_sum org stall period effective ''BILLABLE_ORDER_FULL_REFUND'' t) 0
      in \<lparr>us_organizationId = org, us_stallId = stall, us_billingPeriod = period,
          us_grossCompletedOrderCount = gross, us_fullRefundCreditCount = refunds,
          us_netBillableOrderCount = net, us_unitPrice = unitPrice, us_uncappedAmount = net * unitPrice,
          us_capAmount = cap, us_finalCharge = min (net * unitPrice) cap,
          us_capSavings = max (net * unitPrice - cap) 0\<rparr>)"

definition summary_in_range :: "usage_summary \<Rightarrow> bool" where
  "summary_in_range s \<longleftrightarrow>
     list_all int4 [us_grossCompletedOrderCount s, us_fullRefundCreditCount s, us_netBillableOrderCount s,
       us_unitPrice s, us_uncappedAmount s, us_capAmount s, us_finalCharge s, us_capSavings s]"

definition summary_checks :: "usage_summary \<Rightarrow> bool" where
  "summary_checks s \<longleftrightarrow>
     list_all (\<lambda>n. 0 \<le> n) [us_grossCompletedOrderCount s, us_fullRefundCreditCount s, us_netBillableOrderCount s,
       us_unitPrice s, us_uncappedAmount s, us_capAmount s, us_finalCharge s, us_capSavings s]
     \<and> us_netBillableOrderCount s = max (us_grossCompletedOrderCount s - us_fullRefundCreditCount s) 0
     \<and> us_uncappedAmount s = us_netBillableOrderCount s * us_unitPrice s
     \<and> us_finalCharge s = min (us_uncappedAmount s) (us_capAmount s)
     \<and> us_capSavings s = us_uncappedAmount s - us_finalCharge s"

definition rebuild_payg_stall_usage_summaries ::
  "billing_call \<Rightarrow> uid \<Rightarrow> instant \<Rightarrow> billing_tables \<Rightarrow> billing_failure + billing_tables" where
  "rebuild_payg_stall_usage_summaries c org p t =
     (let period = monthStart p in
      case organization_subscription org t of
        None \<Rightarrow> Inr t
      | Some s \<Rightarrow>
         (case find_version (sx_planVersionId s) t of
            None \<Rightarrow> Inr t
          | Some v \<Rightarrow>
              if pw_planCode v \<noteq> ''PAYG'' then Inr t
              else if pw_pricingMode v \<noteq> ''USAGE_PER_STALL_CAPPED''
                  \<or> pw_usageMetric v \<noteq> Some ''NET_BILLABLE_COMPLETED_ORDER''
                  \<or> pw_usageScope v \<noteq> Some ''STALL'' \<or> pw_monthlyCapAmount v = None
                then Inl (DatabaseError PaygPricingNotConfigured)
              else
                (let rows = map (\<lambda>stall. summary_of org stall period (pw_usageUnitPrice v)
                               (the (pw_monthlyCapAmount v)) (sx_pricingEffectiveAt s) t)
                             (scoped_stalls org period t)
                 in if \<not> list_all summary_in_range rows then Inl (DatabaseError OutOfRange)
                    else if \<not> list_all summary_checks rows then Inl (DatabaseError CheckViolation)
                    else
                      (let t' = t\<lparr>bt_summaries := fold upsert_summary rows (bt_summaries t)\<rparr>
                       in Inr (if bc_actorProfileId c = None then t'
                               else createAudit c org ''PAYG_USAGE_REBUILT''
                                      ''BILLING_STALL_USAGE_SUMMARY'' org t')))))"

section \<open>Text of dates\<close>

definition two_digits :: "int \<Rightarrow> string" where
  "two_digits n = (if n < 10 then ''0'' else []) @ string_of_int n"

text \<open>\<open>date.toISOString().slice(0, 10)\<close> for the years 1000 to 9999.\<close>

definition iso_date :: "instant \<Rightarrow> string" where
  "iso_date d = string_of_int (utc_year d) @ ''-'' @ two_digits (utc_month d + 1) @ ''-'' @ two_digits (utc_day d)"

definition addUtcMonths :: "instant \<Rightarrow> int \<Rightarrow> instant" where
  "addUtcMonths value n = date_utc (utc_year value) (utc_month value + n) 1"

definition addUtcDays :: "instant \<Rightarrow> int \<Rightarrow> instant" where
  "addUtcDays value n = value + n * 86400000"

text \<open>\<open>utcDate\<close> of the PAYG service and \<open>dayStart\<close> of the workflow.\<close>

definition utcDate :: "instant \<Rightarrow> instant" where
  "utcDate value = date_utc (utc_year value) (utc_month value) (utc_day value)"

end
