(* ===== verification/PaygBilling.thy ===== *)
theory PaygBilling
  imports BillingTables
begin

text \<open>
  Pay-as-you-go billing (\<open>src/src/server/billing/payg-billing-service.ts\<close>): the sealed contract of
  a plan version and its hash (\<open>payg-contract.ts\<close>, \<open>payg-contract-admin.ts\<close>), the migration of a
  subscription, the closing of a billing period with its invoice, tax and late refund credits,
  and the automatic close (\<open>payg-automatic-close-service.ts\<close>). SHA-256, the collation order of
  \<open>localeCompare\<close> and the time zones are parameters; object keys are sorted as byte strings,
  which is their order in the source for keys of the basic multilingual plane.
\<close>

record billing_env =
  be_zones :: time_zones
  be_sha256 :: "string \<Rightarrow> string"
  be_collate :: "string \<Rightarrow> string \<Rightarrow> bool"

section \<open>The contract of a plan version\<close>

definition hex_digit :: "nat \<Rightarrow> char" where
  "hex_digit n = char_of (if n < 10 then 48 + n else 87 + n)"

definition json_escape :: "char \<Rightarrow> string" where
  "json_escape ch =
     (let n = of_char ch :: nat in
      if n = 34 then [CHR 0x5C, CHR 0x22]
      else if n = 92 then [CHR 0x5C, CHR 0x5C]
      else if n = 8 then CHR 0x5C # ''b''
      else if n = 9 then CHR 0x5C # ''t''
      else if n = 10 then CHR 0x5C # ''n''
      else if n = 12 then CHR 0x5C # ''f''
      else if n = 13 then CHR 0x5C # ''r''
      else if n < 32 then CHR 0x5C # ''u00'' @ [hex_digit (n div 16), hex_digit (n mod 16)]
      else [ch])"

definition json_quote :: "string \<Rightarrow> string" where
  "json_quote s = CHR 0x22 # concat (map json_escape s) @ [CHR 0x22]"

fun join_comma :: "string list \<Rightarrow> string" where
  "join_comma [] = []"
| "join_comma [x] = x"
| "join_comma (x # xs) = x @ '','' @ join_comma xs"

fun stableJson :: "json \<Rightarrow> string"
  and stable_items :: "json list \<Rightarrow> string list"
  and stable_members :: "(string \<times> json) list \<Rightarrow> (string \<times> string) list" where
  "stableJson JNull = ''null''"
| "stableJson (JBool b) = (if b then ''true'' else ''false'')"
| "stableJson (JNumber n) = string_of_int n"
| "stableJson (JString s) = json_quote s"
| "stableJson (JArray vs) = ''['' @ join_comma (stable_items vs) @ '']''"
| "stableJson (JObject kvs) =
     ''{'' @ join_comma (map snd (sort_by (\<lambda>a b. fst a \<le> fst b) (stable_members kvs))) @ ''}''"
| "stable_items [] = []"
| "stable_items (v # vs) = stableJson v # stable_items vs"
| "stable_members [] = []"
| "stable_members ((k, v) # kvs) = (k, json_quote k @ '':'' @ stableJson v) # stable_members kvs"

definition opt_number :: "int option \<Rightarrow> json" where
  "opt_number x = (case x of None \<Rightarrow> JNull | Some n \<Rightarrow> JNumber n)"

definition opt_text :: "string option \<Rightarrow> json" where
  "opt_text x = (case x of None \<Rightarrow> JNull | Some s \<Rightarrow> JString s)"

definition entitlement_json :: "contract_entitlement \<Rightarrow> json" where
  "entitlement_json e =
     JObject [(''featureCode'', JString (ce_featureCode e)), (''isEnabled'', JBool (ce_isEnabled e)),
       (''limitValue'', opt_number (ce_limitValue e)), (''configurationJson'', ce_configurationJson e)]"

definition normalizedPaygContract :: "billing_env \<Rightarrow> version_row \<Rightarrow> json" where
  "normalizedPaygContract env v =
     JObject
      [(''planId'', JString (pw_planId v)), (''version'', JNumber (pw_version v)),
       (''displayName'', JString (pw_displayName v)), (''billingInterval'', JString (pw_billingInterval v)),
       (''basePrice'', JNumber (pw_basePrice v)), (''annualPrice'', opt_number (pw_annualPrice v)),
       (''currency'', JString (pw_currency v)), (''trialDays'', opt_number (pw_trialDays v)),
       (''includedStalls'', JNumber (pw_includedStalls v)), (''maxStalls'', opt_number (pw_maxStalls v)),
       (''additionalStallPrice'', opt_number (pw_additionalStallPrice v)),
       (''maxStaff'', opt_number (pw_maxStaff v)), (''maxProducts'', opt_number (pw_maxProducts v)),
       (''maxQrCodes'', opt_number (pw_maxQrCodes v)), (''includedOrders'', opt_number (pw_includedOrders v)),
       (''reportRetentionDays'', opt_number (pw_reportRetentionDays v)),
       (''overagePolicy'', JString (pw_overagePolicy v)), (''pricingMode'', JString (pw_pricingMode v)),
       (''usageUnitPrice'', JNumber (pw_usageUnitPrice v)), (''usageMetric'', opt_text (pw_usageMetric v)),
       (''usageScope'', opt_text (pw_usageScope v)),
       (''monthlyCapAmount'', opt_number (pw_monthlyCapAmount v)),
       (''minimumCharge'', JNumber (pw_minimumCharge v)),
       (''billingTimezone'', JString (pw_billingTimezone v)),
       (''billingCycleAnchorDay'', JNumber (pw_billingCycleAnchorDay v)),
       (''billingPeriodType'', JString (pw_billingPeriodType v)),
       (''invoiceCloseDelayHours'', opt_number (pw_invoiceCloseDelayHours v)),
       (''taxTreatment'', JString (pw_taxTreatment v)), (''taxRateBps'', opt_number (pw_taxRateBps v)),
       (''taxJurisdiction'', opt_text (pw_taxJurisdiction v)),
       (''taxRoundingMode'', JString (pw_taxRoundingMode v)),
       (''taxRoundingScope'', JString (pw_taxRoundingScope v)),
       (''capTaxBasis'', opt_text (pw_capTaxBasis v)),
       (''taxDocumentRequired'', JBool (pw_taxDocumentRequired v)),
       (''entitlements'', JArray (map entitlement_json
          (sort_by (\<lambda>l r. be_collate env (ce_featureCode l) (ce_featureCode r)) (pw_entitlements v))))]"

definition calculatePaygContractHash :: "billing_env \<Rightarrow> version_row \<Rightarrow> string" where
  "calculatePaygContractHash env v = be_sha256 env (stableJson (normalizedPaygContract env v))"

definition taxPolicyFor :: "version_row \<Rightarrow> tax_policy" where
  "taxPolicyFor v =
     \<lparr>tp_treatment = pw_taxTreatment v, tp_rateBps = pw_taxRateBps v,
      tp_jurisdiction = pw_taxJurisdiction v, tp_roundingMode = pw_taxRoundingMode v,
      tp_roundingScope = pw_taxRoundingScope v, tp_capTaxBasis = pw_capTaxBasis v\<rparr>"

definition version_cycle :: "version_row \<Rightarrow> billing_cycle" where
  "version_cycle v =
     \<lparr>bc_billingTimezone = pw_billingTimezone v, bc_billingCycleAnchorDay = pw_billingCycleAnchorDay v,
      bc_billingPeriodType = pw_billingPeriodType v\<rparr>"

definition subscription_cycle :: "billed_subscription \<Rightarrow> billing_cycle" where
  "subscription_cycle s =
     \<lparr>bc_billingTimezone = sx_billingTimezone s, bc_billingCycleAnchorDay = sx_billingCycleAnchorDay s,
      bc_billingPeriodType = sx_billingPeriodType s\<rparr>"

definition assertPaygContractIntegrity :: "billing_env \<Rightarrow> version_row \<Rightarrow> billing_failure + unit" where
  "assertPaygContractIntegrity env v =
     (if pw_sealedAt v = None \<or> \<not> truthy (pw_sealedByProfileId v) \<or> \<not> truthy (pw_contractHash v)
        then Inl (PlainError PAYG_PLAN_VERSION_NOT_SEALED)
      else if Some (calculatePaygContractHash env v) \<noteq> pw_contractHash v
        then Inl (PlainError PAYG_CONTRACT_HASH_MISMATCH)
      else
        andThen (assertSupportedBillingCycle (be_zones env) (version_cycle v)) (\<lambda>_.
        andThen (assertTaxPolicy (taxPolicyFor v)) (\<lambda>_.
          ensure (pw_taxTreatment v \<noteq> ''UNCONFIGURED'') (PlainError PAYG_TAX_POLICY_UNCONFIGURED))))"

definition assertChargeablePaygContract :: "billing_env \<Rightarrow> version_row \<Rightarrow> billing_failure + unit" where
  "assertChargeablePaygContract env v =
     (case assertPaygContractIntegrity env v of
        Inr u \<Rightarrow> Inr u
      | Inl (PlainError code) \<Rightarrow> Inl (PaygBillingError code)
      | Inl _ \<Rightarrow> Inl (PaygBillingError PAYG_TAX_POLICY_MISMATCH))"

definition assertPaygVersion :: "version_row \<Rightarrow> billing_failure + unit" where
  "assertPaygVersion v =
     ensure (pw_planCode v = ''PAYG'' \<and> pw_pricingMode v = ''USAGE_PER_STALL_CAPPED''
         \<and> pw_currency v = ''TWD'' \<and> pw_basePrice v = 0 \<and> pw_usageUnitPrice v = 1
         \<and> pw_usageMetric v = Some ''NET_BILLABLE_COMPLETED_ORDER'' \<and> pw_usageScope v = Some ''STALL''
         \<and> pw_monthlyCapAmount v = Some 1499 \<and> pw_minimumCharge v = 0)
       (PaygBillingError PAYG_PLAN_NOT_CONFIGURED)"

section \<open>Sealing a contract\<close>

record contract_input =
  ki_sourcePlanVersionId :: uid
  ki_billingTimezone :: string
  ki_invoiceCloseDelayHours :: "int option"
  ki_taxTreatment :: string
  ki_taxRateBps :: "int option"
  ki_taxJurisdiction :: "string option"
  ki_taxRoundingMode :: string
  ki_taxRoundingScope :: string
  ki_capTaxBasis :: "string option"
  ki_taxDocumentRequired :: bool

datatype seal_failure = SealFailure billing_failure | PaygSourceVersionInvalid

definition input_policy :: "contract_input \<Rightarrow> tax_policy" where
  "input_policy i =
     \<lparr>tp_treatment = ki_taxTreatment i, tp_rateBps = ki_taxRateBps i,
      tp_jurisdiction = ki_taxJurisdiction i, tp_roundingMode = ki_taxRoundingMode i,
      tp_roundingScope = ki_taxRoundingScope i, tp_capTaxBasis = ki_capTaxBasis i\<rparr>"

definition latest_version :: "uid \<Rightarrow> billing_tables \<Rightarrow> int" where
  "latest_version planId t =
     (case map pw_version (filter (\<lambda>v. pw_planId v = planId) (bt_versions t)) of
        [] \<Rightarrow> 0 | n # ns \<Rightarrow> fold max ns n)"

definition created_version ::
  "billing_call \<Rightarrow> contract_input \<Rightarrow> version_row \<Rightarrow> billing_tables \<Rightarrow> version_row" where
  "created_version c i source t =
     source\<lparr>pw_id := bc_fresh c 0, pw_version := latest_version (pw_planId source) t + 1,
       pw_isPublic := True, pw_requiresQuote := False, pw_effectiveFrom := bc_now c,
       pw_effectiveUntil := None, pw_billingTimezone := ki_billingTimezone i,
       pw_billingCycleAnchorDay := 1, pw_billingPeriodType := ''CALENDAR_MONTH'',
       pw_invoiceCloseDelayHours := ki_invoiceCloseDelayHours i, pw_taxTreatment := ki_taxTreatment i,
       pw_taxRateBps := ki_taxRateBps i, pw_taxJurisdiction := ki_taxJurisdiction i,
       pw_taxRoundingMode := ki_taxRoundingMode i, pw_taxRoundingScope := ki_taxRoundingScope i,
       pw_capTaxBasis := ki_capTaxBasis i, pw_taxDocumentRequired := ki_taxDocumentRequired i,
       pw_sealedAt := None, pw_sealedByProfileId := None, pw_contractHash := None\<rparr>"

definition is_hash :: "string \<Rightarrow> bool" where
  "is_hash s \<longleftrightarrow> length s = 64 \<and> list_all (\<lambda>ch. is_digit ch \<or> ch \<in> set ''abcdef'') s"

text \<open>A plan belongs to no organization.\<close>

definition sealing_audit :: "billing_call \<Rightarrow> version_row \<Rightarrow> billing_audit" where
  "sealing_audit c v =
     \<lparr>bu_organizationId = None, bu_actorProfileId = bc_actorProfileId c,
      bu_action = ''PAYG_PLAN_VERSION_SEALED'', bu_entityType = ''PLAN_VERSION'', bu_entityId = pw_id v,
      bu_requestId = bc_requestId c\<rparr>"

definition createAndSealPaygPlanVersion ::
  "billing_env \<Rightarrow> billing_call \<Rightarrow> contract_input \<Rightarrow> billing_tables
     \<Rightarrow> seal_failure + billing_tables \<times> version_row" where
  "createAndSealPaygPlanVersion env c i t =
     (case andThen (assertSupportedBillingCycle (be_zones env)
              \<lparr>bc_billingTimezone = ki_billingTimezone i, bc_billingCycleAnchorDay = 1,
               bc_billingPeriodType = ''CALENDAR_MONTH''\<rparr>)
             (\<lambda>_. assertTaxPolicy (input_policy i)) of
        Inl e \<Rightarrow> Inl (SealFailure e)
      | Inr _ \<Rightarrow>
         (case find_version (ki_sourcePlanVersionId i) t of
            None \<Rightarrow> Inl PaygSourceVersionInvalid
          | Some source \<Rightarrow>
              if pw_planCode source \<noteq> ''PAYG'' \<or> pw_pricingMode source \<noteq> ''USAGE_PER_STALL_CAPPED''
                then Inl PaygSourceVersionInvalid
              else
                (let created = created_version c i source t;
                     hash = calculatePaygContractHash env created;
                     sealed = created\<lparr>pw_sealedAt := Some (bc_now c),
                                pw_sealedByProfileId := bc_actorProfileId c, pw_contractHash := Some hash\<rparr>
                 in if find_version (bc_fresh c 0) t \<noteq> None
                      then Inl (SealFailure (DatabaseError UniqueKeyViolation))
                    else if (case ki_invoiceCloseDelayHours i of None \<Rightarrow> False | Some h \<Rightarrow> h < 0 \<or> 744 < h)
                        \<or> \<not> is_hash hash \<or> bc_actorProfileId c = None
                      then Inl (SealFailure (DatabaseError CheckViolation))
                    else Inr (t\<lparr>bt_versions := bt_versions t @ [sealed], bt_audit := bt_audit t @ [sealing_audit c sealed]\<rparr>,
                              sealed))))"

section \<open>Moving a subscription to pay-as-you-go\<close>

definition available_payg :: "instant \<Rightarrow> version_row \<Rightarrow> bool" where
  "available_payg now v \<longleftrightarrow>
     pw_pricingMode v = ''USAGE_PER_STALL_CAPPED'' \<and> pw_isPublic v \<and> \<not> pw_requiresQuote v
     \<and> pw_effectiveFrom v \<le> now \<and> pw_sealedAt v \<noteq> None \<and> pw_contractHash v \<noteq> None
     \<and> pw_taxTreatment v \<noteq> ''UNCONFIGURED''
     \<and> (case pw_effectiveUntil v of None \<Rightarrow> True | Some e \<Rightarrow> now < e)
     \<and> pw_planCode v = ''PAYG'' \<and> pw_planIsActive v"

definition findPaygPlanVersion :: "instant \<Rightarrow> billing_tables \<Rightarrow> version_row option" where
  "findPaygPlanVersion now t =
     (case sort_by (\<lambda>v w. pw_version w \<le> pw_version v) (filter (available_payg now) (bt_versions t)) of
        [] \<Rightarrow> None | v # _ \<Rightarrow> Some v)"

record migrate_input =
  mi_effectiveDate :: instant
  mi_reason :: string
  mi_changeRequestId :: "uid option"

definition request_version :: "change_request \<Rightarrow> billing_tables \<Rightarrow> version_row option" where
  "request_version q t = Option.bind (cq_requestedPlanVersionId q) (\<lambda>k. find_version k t)"

definition valid_migration_request ::
  "billed_subscription \<Rightarrow> change_request option \<Rightarrow> billing_tables \<Rightarrow> bool" where
  "valid_migration_request s q t =
     (case q of None \<Rightarrow> False
      | Some r \<Rightarrow> cq_status r = ''PENDING'' \<and> cq_requestType r = ''PLAN_CHANGE''
          \<and> cq_subscriptionId r = sx_id s \<and> cq_organizationId r = sx_organizationId s
          \<and> map_option pw_planCode (request_version r t) = Some ''PAYG'')"

definition migrated_subscription ::
  "version_row \<Rightarrow> instant \<Rightarrow> instant \<Rightarrow> instant \<Rightarrow> billed_subscription \<Rightarrow> billed_subscription" where
  "migrated_subscription v periodStart periodEnd pricingEffectiveAt s =
     s\<lparr>sx_planId := pw_planId v, sx_planVersionId := pw_id v, sx_status := ''ACTIVE'',
       sx_billingInterval := ''MONTHLY'', sx_billingPeriodStart := periodStart,
       sx_billingPeriodEnd := periodEnd, sx_pricingEffectiveAt := Some pricingEffectiveAt,
       sx_billingTimezone := pw_billingTimezone v,
       sx_billingCycleAnchorDay := pw_billingCycleAnchorDay v,
       sx_billingPeriodType := pw_billingPeriodType v,
       sx_invoiceCloseDelayHours := pw_invoiceCloseDelayHours v, sx_trialEndsAt := None,
       sx_paymentDueAt := None, sx_pastDueAt := None, sx_gracePeriodEndsAt := None,
       sx_suspendedAt := None\<rparr>"

definition decided_request :: "billing_call \<Rightarrow> string \<Rightarrow> string \<Rightarrow> change_request \<Rightarrow> change_request" where
  "decided_request c status note q =
     q\<lparr>cq_status := status, cq_decidedByProfileId := bc_actorProfileId c,
       cq_decisionNote := Some note, cq_decidedAt := Some (bc_now c)\<rparr>"

definition plan_code_of :: "billed_subscription \<Rightarrow> billing_tables \<Rightarrow> string option" where
  "plan_code_of s t =
     map_option pw_planCode (List.find (\<lambda>v. pw_planId v = sx_planId s) (bt_versions t))"

definition assert_effective_date ::
  "billing_env \<Rightarrow> instant \<Rightarrow> billed_subscription \<Rightarrow> version_row \<Rightarrow> instant \<Rightarrow> billing_failure + unit" where
  "assert_effective_date env now s v date =
     (if utc_day date \<noteq> 1 \<or> date < utcDate (sx_billingPeriodEnd s)
        then Inl (PaygBillingError PAYG_EFFECTIVE_DATE_INVALID)
      else
        andThen (billingPeriodForInstant (be_zones env) now (version_cycle v)) (\<lambda>current.
          ensure (date \<le> current) (PaygBillingError PAYG_EFFECTIVE_DATE_INVALID)))"

definition migrateSubscription ::
  "billing_env \<Rightarrow> billing_call \<Rightarrow> uid \<Rightarrow> migrate_input \<Rightarrow> billing_tables \<Rightarrow> billing_failure + billing_tables" where
  "migrateSubscription env c k i t =
     (let ex = getBillingExperienceState t in
      andThen (ensure (ex_paygBillingEnabled ex) (PaygBillingError PAYG_NOT_ENABLED)) (\<lambda>_.
      andThen (not_found (find_subscription k t) (PaygBillingError PAYG_SUBSCRIPTION_NOT_FOUND)) (\<lambda>s.
      let q = (if truthy (mi_changeRequestId i)
               then List.find (\<lambda>r. cq_id r = the (mi_changeRequestId i)) (bt_requests t) else None) in
      andThen (ensure (truthy (mi_changeRequestId i) \<longrightarrow> valid_migration_request s q t)
                 (PaygBillingError PAYG_CHANGE_REQUEST_INVALID)) (\<lambda>_.
      andThen (not_found (case Option.bind q (\<lambda>r. request_version r t) of
                            Some v \<Rightarrow> Some v | None \<Rightarrow> findPaygPlanVersion (bc_now c) t)
                 (PaygBillingError PAYG_PLAN_NOT_CONFIGURED)) (\<lambda>v.
      andThen (assertPaygVersion v) (\<lambda>_.
      andThen (assertChargeablePaygContract env v) (\<lambda>_.
      let code = plan_code_of s t in
      andThen (ensure (code \<in> set [Some ''TRIAL'', Some ''LITE'', Some ''STANDARD'', Some ''PRO''])
                 (PaygBillingError PAYG_SUBSCRIPTION_NOT_ELIGIBLE)) (\<lambda>_.
      andThen (ensure (if code = Some ''TRIAL'' then ex_paygNewMerchantsEnabled ex
                       else ex_paygLegacyMigrationEnabled ex)
                 (PaygBillingError PAYG_NOT_ENABLED)) (\<lambda>_.
      let date = utcDate (mi_effectiveDate i); periodStart = monthStart date;
          periodEnd = addUtcMonths periodStart 1 in
      andThen (assert_effective_date env (bc_now c) s v date) (\<lambda>_.
      andThen (billingPeriodStartInstant (be_zones env) date (version_cycle v)) (\<lambda>effectiveAt.
      andThen (update_subscription (bc_now c) True k
                 (migrated_subscription v periodStart periodEnd effectiveAt) t) (\<lambda>t1.
      andThen (case q of None \<Rightarrow> Inr (set_organization_status (sx_organizationId s) ''ACTIVE'' t1)
               | Some r \<Rightarrow> update_requests (\<lambda>x. cq_id x = cq_id r)
                    (decided_request c ''APPROVED'' (mi_reason i))
                    (set_organization_status (sx_organizationId s) ''ACTIVE'' t1)) (\<lambda>t2.
        Inr (createAudit c (sx_organizationId s) ''SUBSCRIPTION_MIGRATED_TO_PAYG'' ''SUBSCRIPTION'' k t2))))))))))))))"

section \<open>Closing a billing period\<close>

definition close_gate :: "billing_tables \<Rightarrow> billing_failure + unit" where
  "close_gate t =
     (let ex = getBillingExperienceState t in
      if \<not> ex_paygBillingEnabled ex then Inl (PaygBillingError PAYG_NOT_ENABLED)
      else if ex_openBetaFreeAccess ex then Inl (PaygBillingError PAYG_OPEN_BETA_ACTIVE)
      else ensure (ex_paygRefundCreditsEnabled ex) (PaygBillingError PAYG_REFUND_CREDITS_NOT_ENABLED))"

definition chargeable_subscription ::
  "billing_env \<Rightarrow> uid \<Rightarrow> billing_tables \<Rightarrow> billing_failure + billed_subscription \<times> version_row" where
  "chargeable_subscription env k t =
     andThen (not_found (find_subscription k t) (PaygBillingError PAYG_SUBSCRIPTION_NOT_FOUND)) (\<lambda>s.
     andThen (not_found (find_version (sx_planVersionId s) t) (DatabaseError RecordNotFound)) (\<lambda>v.
     andThen (assertPaygVersion v) (\<lambda>_.
     andThen (assertChargeablePaygContract env v) (\<lambda>_.
       if sx_billingTimezone s \<noteq> pw_billingTimezone v
          \<or> sx_billingCycleAnchorDay s \<noteq> pw_billingCycleAnchorDay v
          \<or> sx_billingPeriodType s \<noteq> pw_billingPeriodType v
          \<or> sx_invoiceCloseDelayHours s \<noteq> pw_invoiceCloseDelayHours v
       then Inl (PaygBillingError PAYG_SUBSCRIPTION_CONTRACT_MISMATCH)
       else Inr (s, v)))))"

definition assert_closable ::
  "billing_env \<Rightarrow> instant \<Rightarrow> billed_subscription \<Rightarrow> instant \<Rightarrow> billing_failure + unit" where
  "assert_closable env now s periodStart =
     andThen (hasBillingPeriodEnded (be_zones env) periodStart (subscription_cycle s) now) (\<lambda>ended.
       case sx_pricingEffectiveAt s of
         None \<Rightarrow> Inl (PaygBillingError PAYG_PERIOD_NOT_CLOSABLE)
       | Some effectiveAt \<Rightarrow>
           if \<not> ended then Inl (PaygBillingError PAYG_PERIOD_NOT_CLOSABLE)
           else
             andThen (billingPeriodForInstant (be_zones env) effectiveAt (subscription_cycle s)) (\<lambda>first.
               ensure (first \<le> periodStart) (PaygBillingError PAYG_PERIOD_NOT_CLOSABLE)))"

definition period_summaries :: "uid \<Rightarrow> instant \<Rightarrow> billing_tables \<Rightarrow> usage_summary list" where
  "period_summaries org periodStart t =
     sort_by (\<lambda>a b. us_stallId a \<le> us_stallId b)
       (filter (\<lambda>s. us_organizationId s = org \<and> us_billingPeriod s = periodStart) (bt_summaries t))"

definition pricingSnapshotFor :: "version_row \<Rightarrow> json" where
  "pricingSnapshotFor v =
     JObject
      [(''planVersionId'', JString (pw_id v)), (''planCode'', JString (pw_planCode v)),
       (''planVersion'', JNumber (pw_version v)), (''pricingMode'', JString (pw_pricingMode v)),
       (''currency'', JString (pw_currency v)), (''baseFee'', JNumber (pw_basePrice v)),
       (''usageUnitPrice'', JNumber (pw_usageUnitPrice v)), (''usageMetric'', opt_text (pw_usageMetric v)),
       (''usageScope'', opt_text (pw_usageScope v)),
       (''monthlyCapAmount'', opt_number (pw_monthlyCapAmount v)),
       (''minimumCharge'', JNumber (pw_minimumCharge v)),
       (''billingTimezone'', JString (pw_billingTimezone v)),
       (''billingCycleAnchorDay'', JNumber (pw_billingCycleAnchorDay v)),
       (''billingPeriodType'', JString (pw_billingPeriodType v)),
       (''invoiceCloseDelayHours'', opt_number (pw_invoiceCloseDelayHours v)),
       (''taxTreatment'', JString (pw_taxTreatment v)), (''taxRateBps'', opt_number (pw_taxRateBps v)),
       (''taxJurisdiction'', opt_text (pw_taxJurisdiction v)),
       (''taxRoundingMode'', JString (pw_taxRoundingMode v)),
       (''taxRoundingScope'', JString (pw_taxRoundingScope v)),
       (''capTaxBasis'', opt_text (pw_capTaxBasis v)),
       (''taxDocumentRequired'', JBool (pw_taxDocumentRequired v)),
       (''contractHash'', opt_text (pw_contractHash v))]"

definition invoiceContractHash :: "json option \<Rightarrow> string option" where
  "invoiceContractHash snapshot =
     (case snapshot of None \<Rightarrow> None
      | Some v \<Rightarrow> (case obj_field ''contractHash'' v of Some (JString h) \<Rightarrow> Some h | _ \<Rightarrow> None))"

text \<open>The remainder of the division is handed out one unit at a time, from the first line on.\<close>

fun add_remainder :: "int \<Rightarrow> int list \<Rightarrow> int list" where
  "add_remainder r [] = []"
| "add_remainder r (a # as) = (if 0 < r then (a + 1) # add_remainder (r - 1) as else a # as)"

definition allocate_tax :: "int \<Rightarrow> int list \<Rightarrow> int list" where
  "allocate_tax totalTax amounts =
     (let allocated = map (\<lambda>a. totalTax * a div sum_list amounts) amounts
      in add_remainder (totalTax - sum_list allocated) allocated)"

fun line_by_line_taxes :: "tax_policy \<Rightarrow> int list \<Rightarrow> billing_failure + int list" where
  "line_by_line_taxes p [] = Inr []"
| "line_by_line_taxes p (a # as) =
     andThen (calculateBillingTax (p\<lparr>tp_roundingScope := ''INVOICE''\<rparr>) a None) (\<lambda>r.
     andThen (line_by_line_taxes p as) (\<lambda>rs. Inr (tr_taxAmount r # rs)))"

definition calculateInclusiveLineTaxes :: "int list \<Rightarrow> int \<Rightarrow> tax_policy \<Rightarrow> billing_failure + int list" where
  "calculateInclusiveLineTaxes amounts totalTax p =
     (if tp_roundingScope p = ''STALL_LINE'' then line_by_line_taxes p amounts
      else if sum_list amounts = 0 then Inr (map (\<lambda>_. 0) amounts)
      else Inr (allocate_tax totalTax amounts))"

definition credit_amount :: "credit_adjustment \<Rightarrow> int" where
  "credit_amount k = cr_creditAmount k + cr_taxCreditAmount k"

fun select_credits :: "int \<Rightarrow> int \<Rightarrow> credit_adjustment list \<Rightarrow> credit_adjustment list" where
  "select_credits applied limit [] = []"
| "select_credits applied limit (k # ks) =
     (if applied + credit_amount k > limit then select_credits applied limit ks
      else k # select_credits (applied + credit_amount k) limit ks)"

definition selectCreditsWithinTotal :: "credit_adjustment list \<Rightarrow> int \<Rightarrow> credit_adjustment list" where
  "selectCreditsWithinTotal ks totalAmount = select_credits 0 totalAmount ks"

definition credit_candidates :: "uid \<Rightarrow> uid \<Rightarrow> billing_tables \<Rightarrow> credit_adjustment list" where
  "credit_candidates k invoiceId t =
     sort_by (\<lambda>a b. cr_createdAt a < cr_createdAt b \<or> cr_createdAt a = cr_createdAt b \<and> cr_id a \<le> cr_id b)
       (filter (\<lambda>r. cr_subscriptionId r = k
          \<and> (cr_status r = ''UNAPPLIED'' \<or> cr_status r = ''APPLIED'' \<and> cr_targetInvoiceId r = Some invoiceId))
         (bt_credits t))"

definition applicable_credits :: "instant \<Rightarrow> billing_tables \<Rightarrow> credit_adjustment list \<Rightarrow> credit_adjustment list" where
  "applicable_credits periodStart t ks =
     filter (\<lambda>r. case find_invoice (cr_originalInvoiceId r) t of
                   None \<Rightarrow> False | Some v \<Rightarrow> nv_billingPeriodEnd v \<le> periodStart) ks"

definition is_payg_line :: "invoice_line \<Rightarrow> bool" where
  "is_payg_line l \<longleftrightarrow>
     ln_itemType l = ''PAYG_USAGE'' \<or> ln_itemType l = ''CREDIT'' \<and> ln_code l = ''PAYG_LATE_REFUND_CREDIT''"

definition usage_suffix :: string where
  "usage_suffix =
     utf8 [0xEF, 0xBD, 0x9C] @ ''PAYG '' @
     utf8 [0xE5, 0xAE, 0x8C, 0xE6, 0x88, 0x90, 0xE8, 0xA8, 0x82, 0xE5, 0x96, 0xAE, 0xE7, 0x94, 0xA8, 0xE9, 0x87, 0x8F]"

definition credit_description :: string where
  "credit_description =
     utf8 [0xE5, 0x85, 0x88, 0xE5, 0x89, 0x8D, 0xE5, 0xB8, 0xB3, 0xE6, 0x9C, 0x9F, 0xE5, 0xAE, 0x8C, 0xE6, 0x95,
           0xB4, 0xE9, 0x80, 0x80, 0xE6, 0xAC, 0xBE, 0xE6, 0x8A, 0x98, 0xE6, 0x8A, 0xB5]"

definition stall_name :: "uid \<Rightarrow> billing_tables \<Rightarrow> string" where
  "stall_name k t = (case List.find (\<lambda>s. bs_id s = k) (bt_stalls t) of Some s \<Rightarrow> bs_name s | None \<Rightarrow> [])"

definition usage_line ::
  "billing_call \<Rightarrow> invoice_row \<Rightarrow> instant \<Rightarrow> billing_tables \<Rightarrow> uid \<Rightarrow> usage_summary \<Rightarrow> int \<Rightarrow> invoice_line" where
  "usage_line c v periodStart t k s tax =
     \<lparr>ln_id = k, ln_organizationId = us_organizationId s, ln_invoiceId = nv_id v,
      ln_itemType = ''PAYG_USAGE'', ln_code = ''PAYG_STALL_USAGE'',
      ln_description = stall_name (us_stallId s) t @ usage_suffix, ln_quantity = 1,
      ln_unitPrice = us_finalCharge s - tax, ln_subtotal = us_finalCharge s - tax,
      ln_referenceId = Some (us_stallId s),
      ln_metadataJson = Some (JObject
        [(''stallId'', JString (us_stallId s)), (''stallName'', JString (stall_name (us_stallId s) t)),
         (''billingPeriod'', JString (iso_date periodStart)),
         (''grossCompletedOrders'', JNumber (us_grossCompletedOrderCount s)),
         (''fullRefundCredits'', JNumber (us_fullRefundCreditCount s)),
         (''netBillableOrders'', JNumber (us_netBillableOrderCount s)),
         (''usageUnitPrice'', JNumber (us_unitPrice s)), (''uncappedAmount'', JNumber (us_uncappedAmount s)),
         (''monthlyCapAmount'', JNumber (us_capAmount s)), (''finalCharge'', JNumber (us_finalCharge s)),
         (''extractedTax'', JNumber tax), (''capSavings'', JNumber (us_capSavings s))]),
      ln_createdAt = bc_now c\<rparr>"

definition usage_lines ::
  "billing_call \<Rightarrow> invoice_row \<Rightarrow> instant \<Rightarrow> billing_tables \<Rightarrow> usage_summary list \<Rightarrow> int list \<Rightarrow> invoice_line list" where
  "usage_lines c v periodStart t ss taxes =
     map (\<lambda>(n, s, tax). usage_line c v periodStart t (bc_fresh c (Suc n)) s tax)
       (zip [0..<length ss] (zip ss taxes))"

definition credit_line :: "billing_call \<Rightarrow> invoice_row \<Rightarrow> uid \<Rightarrow> credit_adjustment \<Rightarrow> invoice_line" where
  "credit_line c v k r =
     \<lparr>ln_id = k, ln_organizationId = nv_organizationId v, ln_invoiceId = nv_id v, ln_itemType = ''CREDIT'',
      ln_code = ''PAYG_LATE_REFUND_CREDIT'', ln_description = credit_description, ln_quantity = 1,
      ln_unitPrice = credit_amount r, ln_subtotal = credit_amount r, ln_referenceId = Some (cr_id r),
      ln_metadataJson = Some (JObject
        [(''adjustmentId'', JString (cr_id r)), (''originalInvoiceId'', JString (cr_originalInvoiceId r)),
         (''originalOrderId'', JString (cr_originalOrderId r)),
         (''creditAmount'', JNumber (cr_creditAmount r)),
         (''taxCreditAmount'', JNumber (cr_taxCreditAmount r)), (''reasonCode'', JString (cr_reasonCode r))]),
      ln_createdAt = bc_now c\<rparr>"

definition credit_lines ::
  "billing_call \<Rightarrow> invoice_row \<Rightarrow> nat \<Rightarrow> credit_adjustment list \<Rightarrow> invoice_line list" where
  "credit_lines c v n ks =
     map (\<lambda>(m, r). credit_line c v (bc_fresh c (Suc (n + m))) r) (zip [0..<length ks] ks)"

text \<open>Credits of an earlier close of the period go back, the selected ones are applied.\<close>

definition settle_credits ::
  "instant \<Rightarrow> uid \<Rightarrow> credit_adjustment list \<Rightarrow> credit_adjustment list \<Rightarrow> billing_tables \<Rightarrow> billing_tables" where
  "settle_credits now invoiceId found selected t =
     (let chosen = map cr_id selected;
          released = map cr_id (filter (\<lambda>r. cr_targetInvoiceId r = Some invoiceId \<and> cr_id r \<notin> set chosen) found);
          credits1 = update_where (\<lambda>r. cr_id r \<in> set released \<and> cr_targetInvoiceId r = Some invoiceId)
             (\<lambda>r. r\<lparr>cr_status := ''UNAPPLIED'', cr_targetInvoiceId := None, cr_appliedAt := None\<rparr>) (bt_credits t)
      in t\<lparr>bt_credits := update_where (\<lambda>r. cr_id r \<in> set chosen)
             (\<lambda>r. r\<lparr>cr_status := ''APPLIED'', cr_targetInvoiceId := Some invoiceId,
                   cr_appliedAt := Some now\<rparr>) credits1\<rparr>)"

definition new_period_invoice ::
  "billing_env \<Rightarrow> billing_call \<Rightarrow> billed_subscription \<Rightarrow> version_row \<Rightarrow> instant \<Rightarrow> instant
     \<Rightarrow> billing_failure + invoice_row" where
  "new_period_invoice env c s v periodStart periodEnd =
     andThen (billingPeriodStartInstant (be_zones env) periodEnd (subscription_cycle s)) (\<lambda>start.
       Inr \<lparr>nv_id = bc_fresh c 0, nv_organizationId = sx_organizationId s, nv_subscriptionId = sx_id s,
            nv_planVersionId = Some (sx_planVersionId s), nv_status = ''DRAFT'', nv_currency = pw_currency v,
            nv_billingPeriodStart = periodStart, nv_billingPeriodEnd = periodEnd, nv_subtotal = 0,
            nv_discountAmount = 0, nv_taxAmount = 0, nv_totalAmount = 0, nv_amountPaid = 0,
            nv_amountDue = 0, nv_pricingMode = Some (pw_pricingMode v),
            nv_pricingSnapshotJson = Some (pricingSnapshotFor v), nv_issuedAt = None,
            nv_dueAt = addUtcDays start 7, nv_paidAt = None, nv_voidedAt = None,
            nv_createdAt = bc_now c\<rparr>)"

definition opened_invoice ::
  "billing_call \<Rightarrow> billed_subscription \<Rightarrow> version_row \<Rightarrow> invoice_row \<Rightarrow> tax_result \<Rightarrow> int \<Rightarrow> invoice_row \<Rightarrow> invoice_row" where
  "opened_invoice c s v old tax creditTotal r =
     r\<lparr>nv_status := ''OPEN'',
       nv_issuedAt := Some (opt_or (nv_issuedAt old) (bc_now c)),
       nv_planVersionId := Some (sx_planVersionId s), nv_pricingMode := Some (pw_pricingMode v),
       nv_pricingSnapshotJson := Some (pricingSnapshotFor v), nv_subtotal := tr_subtotal tax,
       nv_taxAmount := tr_taxAmount tax, nv_discountAmount := creditTotal,
       nv_totalAmount := tr_totalAmount tax - creditTotal,
       nv_amountDue := tr_totalAmount tax - creditTotal - nv_amountPaid old\<rparr>"

record close_result =
  co_invoice :: invoice_row
  co_summaries :: "usage_summary list"
  co_idempotent :: bool

text \<open>What an invoice that already exists for the period allows: \<open>Some\<close> of the invoice when it is
  returned as it is, \<open>None\<close> when the period is computed (again).\<close>

definition reusable_invoice ::
  "billed_subscription \<Rightarrow> version_row \<Rightarrow> invoice_row option \<Rightarrow> billing_tables
     \<Rightarrow> billing_failure + invoice_row option" where
  "reusable_invoice s v existing t =
     (case existing of
        None \<Rightarrow> Inr None
      | Some i \<Rightarrow>
          if nv_subscriptionId i \<noteq> sx_id s \<or> nv_planVersionId i \<noteq> Some (sx_planVersionId s)
             \<or> nv_pricingMode i \<noteq> Some ''USAGE_PER_STALL_CAPPED''
            then Inl (PaygBillingError PAYG_INVOICE_CONFLICT)
          else if nv_status i \<notin> set editable_statuses \<or> (nv_id i, ''ISSUED'') \<in> set (bt_tax_documents t) then
            (if invoiceContractHash (nv_pricingSnapshotJson i) \<noteq> pw_contractHash v
             then Inl (PaygBillingError PAYG_INVOICE_CONFLICT) else Inr (Some i))
          else if list_ex (\<lambda>p. mp_invoiceId p = nv_id i \<and> mp_verificationStatus p = ''PENDING_VERIFICATION'')
                    (bt_payments t)
            then Inl (PaygBillingError PAYG_INVOICE_HAS_PENDING_PAYMENT)
          else Inr None)"

definition settle_period ::
  "billing_env \<Rightarrow> billing_call \<Rightarrow> billed_subscription \<Rightarrow> version_row \<Rightarrow> instant \<Rightarrow> instant \<Rightarrow> usage_summary list
     \<Rightarrow> invoice_row option \<Rightarrow> billing_tables \<Rightarrow> billing_failure + billing_tables \<times> close_result" where
  "settle_period env c s v periodStart periodEnd ss existing t =
     (let amounts = map us_finalCharge ss; policy = taxPolicyFor v in
      andThen (calculateBillingTax policy (sum_list amounts)
         (if tp_roundingScope policy = ''STALL_LINE'' \<and> amounts \<noteq> [] then Some amounts else None)) (\<lambda>tax.
      andThen (if pw_taxTreatment v = ''INCLUSIVE''
               then calculateInclusiveLineTaxes amounts (tr_taxAmount tax) policy
               else Inr (map (\<lambda>_. 0) amounts)) (\<lambda>taxes.
      andThen (case existing of Some i \<Rightarrow> Inr (i, t)
               | None \<Rightarrow>
                  andThen (new_period_invoice env c s v periodStart periodEnd) (\<lambda>i.
                  andThen (insert_invoice i t) (\<lambda>t'. Inr (i, t')))) (\<lambda>(i, t1).
      let found = credit_candidates (sx_id s) (nv_id i) t1;
          selected = selectCreditsWithinTotal (applicable_credits periodStart t1 found) (tr_totalAmount tax);
          creditTotal = sum_of credit_amount selected in
      andThen (delete_lines (nv_id i) is_payg_line t1) (\<lambda>t2.
      andThen (insert_lines (nv_id i) (usage_lines c i periodStart t2 ss taxes) t2) (\<lambda>t3.
      andThen (insert_lines (nv_id i) (credit_lines c i (length ss) selected) t3) (\<lambda>t4.
      let t5 = settle_credits (bc_now c) (nv_id i) found selected t4 in
      if nv_amountPaid i > tr_totalAmount tax - creditTotal then Inl (PaygBillingError PAYG_INVOICE_CONFLICT)
      else
      andThen (update_invoice (nv_id i) (opened_invoice c s v i tax creditTotal) t5) (\<lambda>t6.
      andThen (if monthStart (sx_billingPeriodStart s) = periodStart
               then update_subscription (bc_now c) False (sx_id s)
                      (\<lambda>r. r\<lparr>sx_billingPeriodStart := periodEnd,
                            sx_billingPeriodEnd := addUtcMonths periodEnd 1\<rparr>) t6
               else Inr t6) (\<lambda>t7.
      andThen (not_found (find_invoice (nv_id i) t7) (DatabaseError RecordNotFound)) (\<lambda>opened.
        Inr (createAudit c (sx_organizationId s) ''PAYG_INVOICE_CLOSED'' ''INVOICE'' (nv_id i) t7,
             \<lparr>co_invoice = opened, co_summaries = ss, co_idempotent = False\<rparr>)))))))))))"

definition closeBillingPeriod ::
  "billing_env \<Rightarrow> billing_call \<Rightarrow> uid \<Rightarrow> instant \<Rightarrow> billing_tables
     \<Rightarrow> billing_failure + billing_tables \<times> close_result" where
  "closeBillingPeriod env c k billingPeriod t =
     andThen (close_gate t) (\<lambda>_.
     andThen (chargeable_subscription env k t) (\<lambda>(s, v).
     let periodStart = monthStart billingPeriod; periodEnd = addUtcMonths periodStart 1 in
     andThen (assert_closable env (bc_now c) s periodStart) (\<lambda>_.
     andThen (rebuild_payg_stall_usage_summaries c (sx_organizationId s) periodStart t) (\<lambda>t1.
     let ss = period_summaries (sx_organizationId s) periodStart t1;
         existing = period_invoice (sx_organizationId s) periodStart periodEnd t1 in
     andThen (reusable_invoice s v existing t1) (\<lambda>reused.
       case reused of
         Some i \<Rightarrow> Inr (t1, \<lparr>co_invoice = i, co_summaries = ss, co_idempotent = True\<rparr>)
       | None \<Rightarrow> settle_period env c s v periodStart periodEnd ss existing t1)))))"

section \<open>The automatic close\<close>

definition MAX_BATCH_SIZE :: nat where "MAX_BATCH_SIZE = 50"

definition MAX_ATTEMPTS :: int where "MAX_ATTEMPTS = 5"

record close_batch =
  cb_status :: string
  cb_eligible :: int
  cb_succeeded :: int
  cb_skipped :: int
  cb_failed :: int

definition empty_batch :: "string \<Rightarrow> close_batch" where
  "empty_batch status = \<lparr>cb_status = status, cb_eligible = 0, cb_succeeded = 0, cb_skipped = 0, cb_failed = 0\<rparr>"

definition closing_candidate :: "billing_tables \<Rightarrow> billed_subscription \<Rightarrow> bool" where
  "closing_candidate t s \<longleftrightarrow>
     sx_status s = ''ACTIVE'' \<and> sx_pricingEffectiveAt s \<noteq> None \<and> sx_invoiceCloseDelayHours s \<noteq> None
     \<and> (case find_version (sx_planVersionId s) t of None \<Rightarrow> False
         | Some v \<Rightarrow> pw_planCode v = ''PAYG'' \<and> pw_planIsActive v \<and> pw_sealedAt v \<noteq> None
             \<and> pw_contractHash v \<noteq> None \<and> pw_taxTreatment v \<noteq> ''UNCONFIGURED'')"

definition closing_candidates :: "billing_tables \<Rightarrow> billed_subscription list" where
  "closing_candidates t =
     take MAX_BATCH_SIZE
       (sort_by (\<lambda>a b. sx_billingPeriodEnd a < sx_billingPeriodEnd b
            \<or> sx_billingPeriodEnd a = sx_billingPeriodEnd b \<and> sx_id a \<le> sx_id b)
         (filter (closing_candidate t) (bt_subscriptions t)))"

definition close_job_key :: "billed_subscription \<Rightarrow> string" where
  "close_job_key s = ''PAYG_CLOSE:'' @ sx_id s @ '':'' @ iso_date (sx_billingPeriodStart s)"

definition find_job :: "string \<Rightarrow> billing_tables \<Rightarrow> close_job option" where
  "find_job key t = List.find (\<lambda>j. cj_idempotencyKey j = key) (bt_close_jobs t)"

definition update_job :: "string \<Rightarrow> (close_job \<Rightarrow> close_job) \<Rightarrow> billing_tables \<Rightarrow> billing_tables" where
  "update_job key f t =
     t\<lparr>bt_close_jobs := update_where (\<lambda>j. cj_idempotencyKey j = key) f (bt_close_jobs t)\<rparr>"

definition ensure_job :: "billed_subscription \<Rightarrow> billing_tables \<Rightarrow> billing_tables \<times> close_job" where
  "ensure_job s t =
     (case find_job (close_job_key s) t of
        Some j \<Rightarrow> (t, j)
      | None \<Rightarrow>
         (let j = \<lparr>cj_subscriptionId = sx_id s, cj_billingPeriod = sx_billingPeriodStart s,
                   cj_idempotencyKey = close_job_key s, cj_status = ''PENDING'', cj_attemptCount = 0,
                   cj_lastErrorCode = None, cj_lastRequestId = None, cj_startedAt = None,
                   cj_completedAt = None\<rparr>
          in (t\<lparr>bt_close_jobs := bt_close_jobs t @ [j]\<rparr>, j)))"

fun payg_code_text :: "PaygBillingErrorCode \<Rightarrow> string" where
  "payg_code_text PAYG_NOT_ENABLED = ''PAYG_NOT_ENABLED''"
| "payg_code_text PAYG_OPEN_BETA_ACTIVE = ''PAYG_OPEN_BETA_ACTIVE''"
| "payg_code_text PAYG_REFUND_CREDITS_NOT_ENABLED = ''PAYG_REFUND_CREDITS_NOT_ENABLED''"
| "payg_code_text PAYG_SUBSCRIPTION_NOT_FOUND = ''PAYG_SUBSCRIPTION_NOT_FOUND''"
| "payg_code_text PAYG_PLAN_NOT_CONFIGURED = ''PAYG_PLAN_NOT_CONFIGURED''"
| "payg_code_text PAYG_SUBSCRIPTION_NOT_ELIGIBLE = ''PAYG_SUBSCRIPTION_NOT_ELIGIBLE''"
| "payg_code_text PAYG_CHANGE_REQUEST_INVALID = ''PAYG_CHANGE_REQUEST_INVALID''"
| "payg_code_text PAYG_EFFECTIVE_DATE_INVALID = ''PAYG_EFFECTIVE_DATE_INVALID''"
| "payg_code_text PAYG_PERIOD_NOT_CLOSABLE = ''PAYG_PERIOD_NOT_CLOSABLE''"
| "payg_code_text PAYG_INVOICE_CONFLICT = ''PAYG_INVOICE_CONFLICT''"
| "payg_code_text PAYG_INVOICE_HAS_PENDING_PAYMENT = ''PAYG_INVOICE_HAS_PENDING_PAYMENT''"
| "payg_code_text PAYG_PLAN_VERSION_NOT_SEALED = ''PAYG_PLAN_VERSION_NOT_SEALED''"
| "payg_code_text PAYG_CONTRACT_HASH_MISMATCH = ''PAYG_CONTRACT_HASH_MISMATCH''"
| "payg_code_text PAYG_BILLING_TIMEZONE_INVALID = ''PAYG_BILLING_TIMEZONE_INVALID''"
| "payg_code_text PAYG_BILLING_CYCLE_UNSUPPORTED = ''PAYG_BILLING_CYCLE_UNSUPPORTED''"
| "payg_code_text PAYG_SUBSCRIPTION_CONTRACT_MISMATCH = ''PAYG_SUBSCRIPTION_CONTRACT_MISMATCH''"
| "payg_code_text PAYG_TAX_POLICY_UNCONFIGURED = ''PAYG_TAX_POLICY_UNCONFIGURED''"
| "payg_code_text PAYG_TAX_POLICY_MISMATCH = ''PAYG_TAX_POLICY_MISMATCH''"

definition close_error_code :: "billing_failure \<Rightarrow> string" where
  "close_error_code e =
     (case e of PaygBillingError code \<Rightarrow> payg_code_text code | _ \<Rightarrow> ''PAYG_CLOSE_UNEXPECTED'')"

definition claimed_job :: "billing_call \<Rightarrow> close_job \<Rightarrow> close_job" where
  "claimed_job c j =
     j\<lparr>cj_status := ''RUNNING'', cj_attemptCount := cj_attemptCount j + 1, cj_lastErrorCode := None,
       cj_lastRequestId := Some (bc_requestId c), cj_startedAt := Some (bc_now c), cj_completedAt := None\<rparr>"

definition claimable_job :: "close_job \<Rightarrow> bool" where
  "claimable_job j \<longleftrightarrow> cj_status j \<in> set [''PENDING'', ''FAILED''] \<and> cj_attemptCount j < MAX_ATTEMPTS"

text \<open>One round of the loop, for a subscription the scheduler has read; \<open>c\<close> carries the request
  identifier of the round.\<close>

definition close_one ::
  "billing_env \<Rightarrow> billing_call \<Rightarrow> billed_subscription \<Rightarrow> billing_tables \<times> close_batch
     \<Rightarrow> billing_failure + billing_tables \<times> close_batch" where
  "close_one env c s tr =
     (case tr of (t, r) \<Rightarrow>
      case sx_invoiceCloseDelayHours s of
        None \<Rightarrow> Inr (t, r\<lparr>cb_skipped := cb_skipped r + 1\<rparr>)
      | Some delayHours \<Rightarrow>
         andThen (billingPeriodEndInstant (be_zones env) (sx_billingPeriodStart s) (subscription_cycle s)) (\<lambda>periodEnd.
           if periodEnd + delayHours * (60 * 60000) > bc_now c
             then Inr (t, r\<lparr>cb_skipped := cb_skipped r + 1\<rparr>)
           else
             (case ensure_job s t of (t1, j) \<Rightarrow>
              let r1 = r\<lparr>cb_eligible := cb_eligible r + 1\<rparr>; key = close_job_key s in
              if cj_status j = ''SUCCEEDED'' \<or> cj_status j = ''RUNNING'' \<or> cj_attemptCount j \<ge> MAX_ATTEMPTS
                 \<or> \<not> claimable_job j
                then Inr (t1, r1\<lparr>cb_skipped := cb_skipped r1 + 1\<rparr>)
              else
                (let t2 = update_job key (claimed_job c) t1 in
                 case closeBillingPeriod env (c\<lparr>bc_actorProfileId := None\<rparr>) (sx_id s) (sx_billingPeriodStart s) t2 of
                   Inr (t3, _) \<Rightarrow>
                     Inr (update_job key (\<lambda>j. j\<lparr>cj_status := ''SUCCEEDED'', cj_completedAt := Some (bc_now c),
                              cj_lastErrorCode := None\<rparr>) t3,
                          r1\<lparr>cb_succeeded := cb_succeeded r1 + 1\<rparr>)
                 | Inl e \<Rightarrow>
                     Inr (update_job key (\<lambda>j. j\<lparr>cj_status := ''FAILED'', cj_completedAt := Some (bc_now c),
                              cj_lastErrorCode := Some (close_error_code e)\<rparr>) t2,
                          r1\<lparr>cb_failed := cb_failed r1 + 1\<rparr>)))))"

text \<open>A failure outside the transactions ends the run; the rounds before it stay committed.\<close>

fun close_all ::
  "billing_env \<Rightarrow> (nat \<Rightarrow> billing_call) \<Rightarrow> billed_subscription list \<Rightarrow> billing_tables \<times> close_batch
     \<Rightarrow> billing_tables \<times> (billing_failure + close_batch)" where
  "close_all env call [] tr = (fst tr, Inr (snd tr))"
| "close_all env call (s # ss) tr =
     (case close_one env (call (length ss)) s tr of
        Inl e \<Rightarrow> (fst tr, Inl e)
      | Inr tr' \<Rightarrow> close_all env call ss tr')"

definition processAutomaticPaygClose ::
  "billing_env \<Rightarrow> (nat \<Rightarrow> billing_call) \<Rightarrow> billing_tables \<Rightarrow> billing_tables \<times> (billing_failure + close_batch)" where
  "processAutomaticPaygClose env call t =
     (let ex = getBillingExperienceState t in
      if \<not> ex_paygAutomaticInvoiceCloseEnabled ex then (t, Inr (empty_batch ''DISABLED''))
      else if ex_openBetaFreeAccess ex \<or> \<not> ex_paygBillingEnabled ex \<or> \<not> ex_paygRefundCreditsEnabled ex
        then (t, Inr (empty_batch ''PREREQUISITES_BLOCKED''))
      else close_all env call (closing_candidates t) (t, empty_batch ''COMPLETED''))"

end
