(* ===== verification/BillingWorkflow.thy ===== *)
theory BillingWorkflow
  imports PaygBilling
begin

text \<open>
  The manual billing workflow (\<open>src/src/server/billing/billing-workflow-service.ts\<close>): requests of
  a merchant, plan invoices, manual payments and their review, lines, voiding, the status of a
  subscription and order packages. Each operation is one transaction over \<open>billing_tables\<close>.
  Not modelled: \<open>rebuildUsageSummary\<close>, which only calls SQL reporting functions, and the texts
  of the notifications.
\<close>

section \<open>Dates\<close>

definition addCalendarMonths :: "instant \<Rightarrow> int \<Rightarrow> instant" where
  "addCalendarMonths value months =
     (let target = date_utc (utc_year value) (utc_month value + months) 1;
          lastDay = utc_day (date_utc (utc_year target) (utc_month target + 1) 0)
      in date_utc (utc_year target) (utc_month target) (min (utc_day value) lastDay))"

definition billingPeriod :: "string \<Rightarrow> instant \<Rightarrow> instant \<times> instant" where
  "billingPeriod interval now =
     (let start = utcDate now
      in (start, addCalendarMonths start (if interval = ''ANNUAL'' then 12 else 1)))"

definition isManualRenewalTooEarly :: "billed_subscription \<Rightarrow> uid \<Rightarrow> instant \<Rightarrow> bool" where
  "isManualRenewalTooEarly s requestedPlanVersionId now \<longleftrightarrow>
     sx_status s = ''ACTIVE'' \<and> sx_planVersionId s = requestedPlanVersionId
     \<and> utcDate now < utcDate (sx_billingPeriodEnd s)"

definition three_digits :: "int \<Rightarrow> string" where
  "three_digits n = (if n < 10 then ''00'' else if n < 100 then ''0'' else []) @ string_of_int n"

definition iso_instant :: "instant \<Rightarrow> string" where
  "iso_instant t =
     (let ms = t mod DAY_MS in
      iso_date t @ ''T'' @ two_digits (ms div 3600000) @ '':'' @ two_digits (ms mod 3600000 div 60000)
        @ '':'' @ two_digits (ms mod 60000 div 1000) @ ''.'' @ three_digits (ms mod 1000) @ ''Z'')"

section \<open>Requests of a merchant\<close>

text \<open>\<open>isUniqueViolation\<close> around the whole transaction.\<close>

definition on_unique_violation ::
  "BillingWorkflowErrorCode \<Rightarrow> billing_failure + 'a \<Rightarrow> billing_failure + 'a" where
  "on_unique_violation code r =
     (if r = Inl (DatabaseError UniqueKeyViolation) then Inl (BillingWorkflowError code) else r)"

definition public_version :: "instant \<Rightarrow> uid \<Rightarrow> billing_tables \<Rightarrow> version_row option" where
  "public_version now k t =
     List.find (\<lambda>v. pw_id v = k \<and> pw_isPublic v \<and> \<not> pw_requiresQuote v \<and> pw_effectiveFrom v \<le> now
        \<and> (case pw_effectiveUntil v of None \<Rightarrow> True | Some e \<Rightarrow> now < e)) (bt_versions t)"

definition assertPlanChangeRequestAvailable ::
  "billing_tables \<Rightarrow> string option \<Rightarrow> version_row \<Rightarrow> billing_failure + unit" where
  "assertPlanChangeRequestAvailable t currentPlanCode v =
     (let ex = getBillingExperienceState t;
          refused = Inl (BillingWorkflowError PLAN_VERSION_NOT_AVAILABLE);
          sourceEnabled = (if currentPlanCode = Some ''TRIAL'' then ex_paygNewMerchantsEnabled ex
             else currentPlanCode \<in> set [Some ''LITE'', Some ''STANDARD'', Some ''PRO'']
                  \<and> ex_paygLegacyMigrationEnabled ex)
      in if currentPlanCode = Some ''PAYG'' then refused
         else if pw_pricingMode v = ''FIXED'' \<and> pw_planCode v \<noteq> ''PAYG'' then Inr ()
         else if pw_pricingMode v \<noteq> ''USAGE_PER_STALL_CAPPED'' \<or> pw_planCode v \<noteq> ''PAYG'' then refused
         else if \<not> ex_paygBillingEnabled ex \<or> \<not> sourceEnabled then refused
         else Inr ())"

definition plan_change_request ::
  "billing_call \<Rightarrow> uid \<Rightarrow> billed_subscription \<Rightarrow> uid \<Rightarrow> string \<Rightarrow> string \<Rightarrow> change_request" where
  "plan_change_request c org s versionId interval reason =
     \<lparr>cq_id = bc_fresh c 0, cq_organizationId = org, cq_subscriptionId = sx_id s,
      cq_requestType = ''PLAN_CHANGE'', cq_status = ''PENDING'',
      cq_requestedPlanVersionId = Some versionId, cq_requestedBillingInterval = Some interval,
      cq_requestedQuantity = None, cq_reason = reason,
      cq_requestedByProfileId = opt_or (bc_actorProfileId c) [], cq_decidedByProfileId = None,
      cq_decisionNote = None, cq_invoiceId = None, cq_decidedAt = None\<rparr>"

definition requestPlanChange ::
  "billing_call \<Rightarrow> uid \<Rightarrow> uid \<Rightarrow> string \<Rightarrow> string \<Rightarrow> billing_tables \<Rightarrow> billing_failure + billing_tables" where
  "requestPlanChange c org planVersionId interval reason t =
     on_unique_violation PLAN_CHANGE_ALREADY_PENDING
      (andThen (not_found (organization_subscription org t) (BillingWorkflowError SUBSCRIPTION_NOT_FOUND)) (\<lambda>s.
       andThen (not_found (public_version (bc_now c) planVersionId t)
                  (BillingWorkflowError PLAN_VERSION_NOT_AVAILABLE)) (\<lambda>v.
       andThen (ensure (pw_billingInterval v \<noteq> ''TRIAL''
                   \<and> \<not> (interval = ''ANNUAL'' \<and> pw_annualPrice v = None))
                  (BillingWorkflowError PLAN_VERSION_NOT_AVAILABLE)) (\<lambda>_.
       andThen (assertPlanChangeRequestAvailable t (plan_code_of s t) v) (\<lambda>_.
       let q = plan_change_request c org s (pw_id v) interval reason in
       andThen (insert_request q t) (\<lambda>t1.
         Inr (createAudit c org ''PLAN_CHANGE_REQUESTED'' ''BILLING_CHANGE_REQUEST'' (cq_id q) t1)))))))"

definition additional_stall_request ::
  "billing_call \<Rightarrow> uid \<Rightarrow> billed_subscription \<Rightarrow> int \<Rightarrow> string \<Rightarrow> change_request" where
  "additional_stall_request c org s quantity reason =
     \<lparr>cq_id = bc_fresh c 0, cq_organizationId = org, cq_subscriptionId = sx_id s,
      cq_requestType = ''ADDITIONAL_STALL'', cq_status = ''PENDING'', cq_requestedPlanVersionId = None,
      cq_requestedBillingInterval = None, cq_requestedQuantity = Some quantity, cq_reason = reason,
      cq_requestedByProfileId = opt_or (bc_actorProfileId c) [], cq_decidedByProfileId = None,
      cq_decisionNote = None, cq_invoiceId = None, cq_decidedAt = None\<rparr>"

definition requestAdditionalStalls ::
  "billing_call \<Rightarrow> uid \<Rightarrow> int \<Rightarrow> string \<Rightarrow> billing_tables \<Rightarrow> billing_failure + billing_tables" where
  "requestAdditionalStalls c org quantity reason t =
     on_unique_violation ADDITIONAL_STALL_ALREADY_PENDING
      (andThen (not_found (organization_subscription org t) (BillingWorkflowError SUBSCRIPTION_NOT_FOUND)) (\<lambda>s.
       andThen (ensure (map_option pw_pricingMode (find_version (sx_planVersionId s) t) = Some ''FIXED'')
                  (BillingWorkflowError ADD_ON_NOT_AVAILABLE)) (\<lambda>_.
       let q = additional_stall_request c org s quantity reason in
       andThen (insert_request q t) (\<lambda>t1.
         Inr (createAudit c org ''ADDITIONAL_STALL_REQUESTED'' ''BILLING_CHANGE_REQUEST'' (cq_id q) t1)))))"

definition rejectBillingChangeRequest ::
  "billing_call \<Rightarrow> uid \<Rightarrow> string \<Rightarrow> billing_tables \<Rightarrow> billing_failure + billing_tables" where
  "rejectBillingChangeRequest c k note t =
     andThen (not_found (List.find (\<lambda>q. cq_id q = k) (bt_requests t)) (BillingWorkflowError REQUEST_NOT_FOUND)) (\<lambda>q.
     andThen (ensure (cq_status q = ''PENDING'') (BillingWorkflowError REQUEST_STATE_CONFLICT)) (\<lambda>_.
     andThen (update_requests (\<lambda>r. cq_id r = k) (decided_request c ''REJECTED'' note) t) (\<lambda>t1.
       Inr (createNotification
         \<lparr>bn_organizationId = cq_organizationId q, bn_notificationType = ''BILLING_REQUEST_REJECTED'',
          bn_severity = ''WARNING'', bn_entityType = ''BILLING_CHANGE_REQUEST'', bn_entityId = k,
          bn_dedupeKey = ''billing-request-rejected:'' @ k\<rparr>
         (createAudit c (cq_organizationId q)
           (if cq_requestType q = ''PLAN_CHANGE'' then ''PLAN_CHANGE_REJECTED'' else ''ADDITIONAL_STALL_REJECTED'')
           ''BILLING_CHANGE_REQUEST'' k t1)))))"

section \<open>Plan invoices\<close>

record plan_invoice_input =
  pj_organizationId :: uid
  pj_planVersionId :: uid
  pj_billingInterval :: string
  pj_dueAt :: instant
  pj_changeRequestId :: "uid option"

definition planVersionPricingSnapshot :: "version_row \<Rightarrow> json" where
  "planVersionPricingSnapshot v =
     JObject
      [(''planVersionId'', JString (pw_id v)), (''planCode'', JString (pw_planCode v)),
       (''planVersion'', JNumber (pw_version v)), (''pricingMode'', JString (pw_pricingMode v)),
       (''currency'', JString (pw_currency v)), (''baseFee'', JNumber (pw_basePrice v)),
       (''usageUnitPrice'', JNumber (pw_usageUnitPrice v)), (''usageMetric'', opt_text (pw_usageMetric v)),
       (''usageScope'', opt_text (pw_usageScope v)),
       (''monthlyCapAmount'', opt_number (pw_monthlyCapAmount v)),
       (''minimumCharge'', JNumber (pw_minimumCharge v))]"

definition draft_plan_invoice ::
  "billing_call \<Rightarrow> plan_invoice_input \<Rightarrow> billed_subscription \<Rightarrow> version_row \<Rightarrow> instant \<Rightarrow> instant \<Rightarrow> invoice_row" where
  "draft_plan_invoice c i s v from until =
     \<lparr>nv_id = bc_fresh c 0, nv_organizationId = pj_organizationId i, nv_subscriptionId = sx_id s,
      nv_planVersionId = Some (pw_id v), nv_status = ''DRAFT'', nv_currency = pw_currency v,
      nv_billingPeriodStart = from, nv_billingPeriodEnd = until, nv_subtotal = 0, nv_discountAmount = 0,
      nv_taxAmount = 0, nv_totalAmount = 0, nv_amountPaid = 0, nv_amountDue = 0,
      nv_pricingMode = Some (pw_pricingMode v), nv_pricingSnapshotJson = Some (planVersionPricingSnapshot v),
      nv_issuedAt = None, nv_dueAt = pj_dueAt i, nv_paidAt = None, nv_voidedAt = None,
      nv_createdAt = bc_now c\<rparr>"

definition interval_text :: "string \<Rightarrow> string" where
  "interval_text interval =
     (if interval = ''ANNUAL'' then utf8 [0xE5, 0xB9, 0xB4, 0xE7, 0xB9, 0xB3]
      else utf8 [0xE6, 0x9C, 0x88, 0xE7, 0xB9, 0xB3])"

definition base_plan_line ::
  "billing_call \<Rightarrow> plan_invoice_input \<Rightarrow> version_row \<Rightarrow> int \<Rightarrow> uid \<Rightarrow> invoice_line" where
  "base_plan_line c i v unitPrice invoiceId =
     \<lparr>ln_id = bc_fresh c 1, ln_organizationId = pj_organizationId i, ln_invoiceId = invoiceId,
      ln_itemType = ''BASE_PLAN'', ln_code = pw_planCode v,
      ln_description = pw_displayName v @ '' '' @ interval_text (pj_billingInterval i), ln_quantity = 1,
      ln_unitPrice = unitPrice, ln_subtotal = unitPrice, ln_referenceId = Some (pw_id v),
      ln_metadataJson = Some (JObject [(''billingInterval'', JString (pj_billingInterval i))]),
      ln_createdAt = bc_now c\<rparr>"

definition manual_invoice_note :: string where
  "manual_invoice_note =
     utf8 [0xE5, 0xB7, 0xB2, 0xE5, 0xBB, 0xBA, 0xE7, 0xAB, 0x8B, 0xE4, 0xBA, 0xBA, 0xE5, 0xB7, 0xA5, 0xE4, 0xBB,
           0x98, 0xE6, 0xAC, 0xBE, 0xE5, 0xB8, 0xB3, 0xE5, 0x96, 0xAE, 0xE3, 0x80, 0x82]"

definition approve_plan_request ::
  "billing_call \<Rightarrow> plan_invoice_input \<Rightarrow> uid \<Rightarrow> uid \<Rightarrow> billing_tables \<Rightarrow> billing_failure + billing_tables" where
  "approve_plan_request c i versionId invoiceId t =
     (if \<not> truthy (pj_changeRequestId i) then Inr t
      else
        (let wanted = (\<lambda>q. Some (cq_id q) = pj_changeRequestId i \<and> cq_organizationId q = pj_organizationId i
               \<and> cq_requestType q = ''PLAN_CHANGE'' \<and> cq_status q = ''PENDING''
               \<and> cq_requestedPlanVersionId q = Some versionId)
         in andThen (update_requests wanted
               (\<lambda>q. decided_request c ''APPROVED'' manual_invoice_note q\<lparr>cq_invoiceId := Some invoiceId\<rparr>) t) (\<lambda>t1.
               if count_where wanted (bt_requests t) \<noteq> 1 then Inl (BillingWorkflowError REQUEST_NOT_FOUND)
               else Inr t1)))"

definition createPlanInvoice ::
  "billing_call \<Rightarrow> plan_invoice_input \<Rightarrow> billing_tables \<Rightarrow> billing_failure + billing_tables \<times> invoice_row" where
  "createPlanInvoice c i t =
     andThen (not_found (organization_subscription (pj_organizationId i) t)
                (BillingWorkflowError SUBSCRIPTION_NOT_FOUND)) (\<lambda>s.
     andThen (not_found (find_version (pj_planVersionId i) t)
                (BillingWorkflowError PLAN_VERSION_NOT_AVAILABLE)) (\<lambda>v.
     andThen (ensure (pw_billingInterval v \<noteq> ''TRIAL'' \<and> pw_pricingMode v = ''FIXED'')
                (BillingWorkflowError PLAN_VERSION_NOT_AVAILABLE)) (\<lambda>_.
     andThen (not_found (if pj_billingInterval i = ''ANNUAL'' then pw_annualPrice v else Some (pw_basePrice v))
                (BillingWorkflowError PLAN_VERSION_NOT_AVAILABLE)) (\<lambda>unitPrice.
     andThen (ensure (\<not> isManualRenewalTooEarly s (pw_id v) (bc_now c))
                (BillingWorkflowError RENEWAL_TOO_EARLY)) (\<lambda>_.
     case billingPeriod (pj_billingInterval i) (bc_now c) of (from, until) \<Rightarrow>
     let existing = period_invoice (pj_organizationId i) from until t in
     andThen (ensure (case existing of None \<Rightarrow> True | Some x \<Rightarrow> nv_status x \<in> set editable_statuses)
                (BillingWorkflowError INVOICE_NOT_EDITABLE)) (\<lambda>_.
     let invoice = opt_or existing (draft_plan_invoice c i s v from until) in
     andThen (if existing = None then insert_invoice invoice t else Inr t) (\<lambda>t1.
     andThen (ensure (nv_currency invoice = pw_currency v) (BillingWorkflowError INVOICE_AMOUNT_MISMATCH)) (\<lambda>_.
     andThen (delete_lines (nv_id invoice) (\<lambda>l. ln_itemType l = ''BASE_PLAN'') t1) (\<lambda>t2.
     andThen (insert_lines (nv_id invoice) [base_plan_line c i v unitPrice (nv_id invoice)] t2) (\<lambda>t3.
     andThen (update_invoice (nv_id invoice)
                (\<lambda>r. r\<lparr>nv_status := ''OPEN'', nv_issuedAt := Some (opt_or (nv_issuedAt invoice) (bc_now c)),
                      nv_dueAt := pj_dueAt i, nv_planVersionId := Some (pw_id v),
                      nv_pricingMode := Some (pw_pricingMode v),
                      nv_pricingSnapshotJson := Some (planVersionPricingSnapshot v)\<rparr>) t3) (\<lambda>t4.
     andThen (approve_plan_request c i (pw_id v) (nv_id invoice) t4) (\<lambda>t5.
     andThen (not_found (find_invoice (nv_id invoice) t5) (DatabaseError RecordNotFound)) (\<lambda>opened.
       Inr (createNotification
              \<lparr>bn_organizationId = pj_organizationId i, bn_notificationType = ''INVOICE_CREATED'',
               bn_severity = ''INFO'', bn_entityType = ''INVOICE'', bn_entityId = nv_id invoice,
               bn_dedupeKey = ''invoice-created:'' @ nv_id invoice\<rparr>
              (createAudit c (pj_organizationId i) ''INVOICE_CREATED'' ''INVOICE'' (nv_id invoice) t5),
            opened))))))))))))))"

section \<open>Manual payments\<close>

record payment_input =
  pn_invoiceId :: uid
  pn_paymentMethod :: string
  pn_amount :: int
  pn_referenceNumber :: "string option"
  pn_bankLastFive :: "string option"
  pn_receivedAt :: instant
  pn_note :: "string option"
  pn_idempotencyKey :: string

definition payment_checks :: "manual_payment \<Rightarrow> bool" where
  "payment_checks p \<longleftrightarrow>
     mp_paymentMethod p \<in> set [''BANK_TRANSFER'', ''CASH'', ''LINE_PAY_MANUAL'', ''OTHER'']
     \<and> 0 < mp_amount p
     \<and> (mp_bankLastFive p \<noteq> None \<longrightarrow> mp_paymentMethod p = ''BANK_TRANSFER'')
     \<and> mp_verificationStatus p \<in> set [''PENDING_VERIFICATION'', ''VERIFIED'', ''REJECTED'', ''VOIDED'']
     \<and> (mp_verificationStatus p = ''VERIFIED'' \<longrightarrow> mp_verifiedByProfileId p \<noteq> None \<and> mp_verifiedAt p \<noteq> None)
     \<and> (mp_verificationStatus p = ''REJECTED'' \<longrightarrow> mp_verifiedByProfileId p \<noteq> None \<and> mp_rejectedAt p \<noteq> None)"

definition find_payment :: "uid \<Rightarrow> billing_tables \<Rightarrow> manual_payment option" where
  "find_payment k t = List.find (\<lambda>p. mp_id p = k) (bt_payments t)"

definition payment_key :: "uid \<Rightarrow> string \<Rightarrow> manual_payment \<Rightarrow> bool" where
  "payment_key org key p \<longleftrightarrow> mp_organizationId p = org \<and> mp_idempotencyKey p = key"

definition insert_payment :: "manual_payment \<Rightarrow> billing_tables \<Rightarrow> billing_failure + billing_tables" where
  "insert_payment p t =
     (if \<not> int4 (mp_amount p) then Inl (DatabaseError OutOfRange)
      else if \<not> payment_checks p then Inl (DatabaseError CheckViolation)
      else if find_payment (mp_id p) t \<noteq> None
          \<or> list_ex (payment_key (mp_organizationId p) (mp_idempotencyKey p)) (bt_payments t)
        then Inl (DatabaseError UniqueKeyViolation)
      else Inr (t\<lparr>bt_payments := bt_payments t @ [p]\<rparr>))"

definition update_payment ::
  "uid \<Rightarrow> (manual_payment \<Rightarrow> manual_payment) \<Rightarrow> billing_tables \<Rightarrow> billing_failure + billing_tables" where
  "update_payment k f t =
     (case find_payment k t of
        None \<Rightarrow> Inl (DatabaseError RecordNotFound)
      | Some p \<Rightarrow>
          if \<not> payment_checks (f p) then Inl (DatabaseError CheckViolation)
          else Inr (t\<lparr>bt_payments := update_where (\<lambda>p. mp_id p = k) f (bt_payments t)\<rparr>))"

definition payment_notice :: "string \<Rightarrow> string \<Rightarrow> string \<Rightarrow> manual_payment \<Rightarrow> billing_notification" where
  "payment_notice type severity keyPrefix p =
     \<lparr>bn_organizationId = mp_organizationId p, bn_notificationType = type, bn_severity = severity,
      bn_entityType = ''MANUAL_PAYMENT'', bn_entityId = mp_id p, bn_dedupeKey = keyPrefix @ mp_id p\<rparr>"

definition new_payment :: "billing_call \<Rightarrow> uid \<Rightarrow> payment_input \<Rightarrow> invoice_row \<Rightarrow> manual_payment" where
  "new_payment c org i v =
     \<lparr>mp_id = bc_fresh c 0, mp_organizationId = org, mp_invoiceId = nv_id v,
      mp_paymentMethod = pn_paymentMethod i, mp_amount = pn_amount i, mp_currency = nv_currency v,
      mp_referenceNumber = pn_referenceNumber i, mp_bankLastFive = pn_bankLastFive i,
      mp_receivedAt = pn_receivedAt i, mp_recordedByProfileId = opt_or (bc_actorProfileId c) [],
      mp_note = pn_note i, mp_idempotencyKey = pn_idempotencyKey i,
      mp_verificationStatus = ''PENDING_VERIFICATION'', mp_verifiedByProfileId = None,
      mp_verifiedAt = None, mp_rejectedAt = None\<rparr>"

definition submitManualPayment ::
  "billing_call \<Rightarrow> uid \<Rightarrow> payment_input \<Rightarrow> billing_tables
     \<Rightarrow> billing_failure + billing_tables \<times> manual_payment \<times> bool" where
  "submitManualPayment c org i t =
     (case List.find (payment_key org (pn_idempotencyKey i)) (bt_payments t) of
        Some p \<Rightarrow>
          if mp_invoiceId p = pn_invoiceId i \<and> mp_paymentMethod p = pn_paymentMethod i \<and> mp_amount p = pn_amount i
          then Inr (t, p, True)
          else Inl (BillingWorkflowError PAYMENT_IDEMPOTENCY_CONFLICT)
      | None \<Rightarrow>
          andThen (not_found (List.find (\<lambda>v. nv_id v = pn_invoiceId i \<and> nv_organizationId v = org) (bt_invoices t))
                     (BillingWorkflowError INVOICE_NOT_FOUND)) (\<lambda>v.
          if nv_status v \<notin> set [''OPEN'', ''OVERDUE''] \<or> nv_amountDue v \<le> 0
            then Inl (BillingWorkflowError INVOICE_NOT_PAYABLE)
          else if pn_amount i > nv_amountDue v then Inl (BillingWorkflowError PAYMENT_AMOUNT_EXCEEDS_DUE)
          else
            (let p = new_payment c org i v in
             andThen (insert_payment p t) (\<lambda>t1.
               Inr (createNotification (payment_notice ''PAYMENT_SUBMITTED'' ''INFO'' ''payment-submitted:'' p)
                      (createAudit c org ''MANUAL_PAYMENT_SUBMITTED'' ''MANUAL_PAYMENT'' (mp_id p) t1),
                    p, False)))))"

section \<open>Activation of a paid invoice\<close>

definition item_checks :: "subscription_item \<Rightarrow> bool" where
  "item_checks m \<longleftrightarrow>
     0 < im_quantity m \<and> 0 \<le> im_unitPrice m \<and> im_status m \<in> set [''PENDING'', ''ACTIVE'', ''ENDED'', ''CANCELLED'']
     \<and> (case im_endsAt m of None \<Rightarrow> True | Some e \<Rightarrow> im_startsAt m < e)"

definition insert_item :: "subscription_item \<Rightarrow> billing_tables \<Rightarrow> billing_failure + billing_tables" where
  "insert_item m t =
     (if map_option sx_organizationId (find_subscription (im_subscriptionId m) t) \<noteq> Some (im_organizationId m)
        then Inl (DatabaseError ScopeMismatch)
      else if \<not> item_checks m then Inl (DatabaseError CheckViolation)
      else if im_id m \<in> set (map im_id (bt_items t)) then Inl (DatabaseError UniqueKeyViolation)
      else Inr (t\<lparr>bt_items := bt_items t @ [m]\<rparr>))"

definition update_items ::
  "(subscription_item \<Rightarrow> bool) \<Rightarrow> (subscription_item \<Rightarrow> subscription_item) \<Rightarrow> billing_tables
     \<Rightarrow> billing_failure + billing_tables" where
  "update_items p f t =
     (if \<not> list_all (\<lambda>m. p m \<longrightarrow> item_checks (f m)) (bt_items t) then Inl (DatabaseError CheckViolation)
      else Inr (t\<lparr>bt_items := update_where p f (bt_items t)\<rparr>))"

definition activate_item ::
  "billing_call \<Rightarrow> uid \<Rightarrow> subscription_item \<Rightarrow> billing_failure + billing_tables \<Rightarrow> billing_failure + billing_tables" where
  "activate_item c org m r =
     andThen r (\<lambda>t.
     andThen (update_items (\<lambda>x. im_id x = im_id m)
                (\<lambda>x. x\<lparr>im_status := ''ACTIVE'', im_startsAt := bc_now c\<rparr>) t) (\<lambda>t1.
       Inr (createNotification
         \<lparr>bn_organizationId = org, bn_notificationType = ''ADD_ON_ASSIGNED'', bn_severity = ''INFO'',
          bn_entityType = ''SUBSCRIPTION_ITEM'', bn_entityId = im_id m,
          bn_dedupeKey = ''add-on-assigned:'' @ im_id m\<rparr>
         (createAudit c org ''ADD_ON_ASSIGNED'' ''SUBSCRIPTION_ITEM'' (im_id m) t1))))"

definition pending_items :: "invoice_row \<Rightarrow> billing_tables \<Rightarrow> subscription_item list" where
  "pending_items v t =
     filter (\<lambda>m. im_subscriptionId m = nv_subscriptionId v \<and> im_status m = ''PENDING''
        \<and> Some (im_id m) \<in> set (map ln_referenceId
              (filter (\<lambda>l. ln_itemType l = ''ADD_ON'' \<and> truthy (ln_referenceId l)) (invoice_lines (nv_id v) t))))
       (bt_items t)"

definition activatePendingInvoiceItems ::
  "billing_call \<Rightarrow> invoice_row \<Rightarrow> billing_tables \<Rightarrow> billing_failure + billing_tables" where
  "activatePendingInvoiceItems c v t =
     fold (activate_item c (nv_organizationId v)) (pending_items v t) (Inr t)"

text \<open>The newest base-plan line of the invoice.\<close>

definition base_line :: "invoice_row \<Rightarrow> billing_tables \<Rightarrow> invoice_line option" where
  "base_line v t =
     (case sort_by (\<lambda>a b. ln_createdAt b \<le> ln_createdAt a)
             (filter (\<lambda>l. ln_itemType l = ''BASE_PLAN'') (invoice_lines (nv_id v) t)) of
        [] \<Rightarrow> None | l # _ \<Rightarrow> Some l)"

definition line_interval :: "invoice_line \<Rightarrow> string" where
  "line_interval l =
     (case ln_metadataJson l of
        None \<Rightarrow> ''MONTHLY''
      | Some m \<Rightarrow> if obj_field ''billingInterval'' m = Some (JString ''ANNUAL'') then ''ANNUAL'' else ''MONTHLY'')"

definition base_plan_item ::
  "billing_call \<Rightarrow> billed_subscription \<Rightarrow> version_row \<Rightarrow> invoice_line \<Rightarrow> subscription_item" where
  "base_plan_item c s v l =
     \<lparr>im_id = bc_fresh c 1, im_organizationId = sx_organizationId s, im_subscriptionId = sx_id s,
      im_itemType = ''BASE_PLAN'', im_referenceId = Some (pw_id v), im_code = ln_code l,
      im_description = ln_description l, im_quantity = 1, im_unitPrice = ln_unitPrice l,
      im_currency = pw_currency v, im_status = ''ACTIVE'', im_startsAt = bc_now c, im_endsAt = None\<rparr>"

definition activated_subscription ::
  "billing_call \<Rightarrow> invoice_row \<Rightarrow> version_row \<Rightarrow> string \<Rightarrow> billed_subscription \<Rightarrow> billed_subscription" where
  "activated_subscription c v w interval s =
     s\<lparr>sx_planId := pw_planId w, sx_planVersionId := pw_id w, sx_billingInterval := interval,
       sx_status := ''ACTIVE'', sx_billingPeriodStart := nv_billingPeriodStart v,
       sx_billingPeriodEnd := nv_billingPeriodEnd v, sx_paymentDueAt := Some (nv_billingPeriodEnd v),
       sx_pastDueAt := None, sx_gracePeriodEndsAt := None, sx_suspendedAt := None,
       sx_reactivatedAt := (if sx_status s = ''SUSPENDED'' then Some (bc_now c) else sx_reactivatedAt s)\<rparr>"

definition activateFromPaidInvoice ::
  "billing_call \<Rightarrow> invoice_row \<Rightarrow> billing_tables \<Rightarrow> billing_failure + billing_tables \<times> bool" where
  "activateFromPaidInvoice c v t =
     andThen (not_found (find_subscription (nv_subscriptionId v) t)
                (BillingWorkflowError SUBSCRIPTION_NOT_FOUND)) (\<lambda>s.
     case base_line v t of
       None \<Rightarrow> andThen (activatePendingInvoiceItems c v t) (\<lambda>t1. Inr (t1, False))
     | Some l \<Rightarrow>
         if \<not> truthy (ln_referenceId l) then andThen (activatePendingInvoiceItems c v t) (\<lambda>t1. Inr (t1, False))
         else
           andThen (not_found (find_version (the (ln_referenceId l)) t)
                      (BillingWorkflowError PLAN_VERSION_NOT_AVAILABLE)) (\<lambda>w.
           andThen (update_items (\<lambda>m. im_subscriptionId m = sx_id s \<and> im_itemType m = ''BASE_PLAN''
                        \<and> im_status m = ''ACTIVE'')
                      (\<lambda>m. m\<lparr>im_status := ''ENDED'', im_endsAt := Some (bc_now c)\<rparr>) t) (\<lambda>t1.
           andThen (insert_item (base_plan_item c s w l) t1) (\<lambda>t2.
           andThen (update_subscription (bc_now c) True (sx_id s)
                      (activated_subscription c v w (line_interval l)) t2) (\<lambda>t3.
           andThen (activatePendingInvoiceItems c v
                      (createAudit c (sx_organizationId s)
                         (if sx_status s = ''SUSPENDED'' then ''SUBSCRIPTION_REACTIVATED'' else ''SUBSCRIPTION_ACTIVATED'')
                         ''SUBSCRIPTION'' (sx_id s)
                         (set_organization_status (sx_organizationId s) ''ACTIVE'' t3))) (\<lambda>t4.
             Inr (t4, True)))))))"

section \<open>Review of a payment\<close>

record verify_result =
  vr_payment :: manual_payment
  vr_invoice :: invoice_row
  vr_subscriptionActivated :: bool
  vr_idempotent :: bool

definition verified_payment :: "billing_call \<Rightarrow> manual_payment \<Rightarrow> manual_payment" where
  "verified_payment c p =
     p\<lparr>mp_verificationStatus := ''VERIFIED'', mp_verifiedByProfileId := bc_actorProfileId c,
       mp_verifiedAt := Some (bc_now c)\<rparr>"

definition paid_invoice :: "billing_call \<Rightarrow> invoice_row \<Rightarrow> int \<Rightarrow> invoice_row \<Rightarrow> invoice_row" where
  "paid_invoice c old amountPaid r =
     (let paid = (amountPaid = nv_totalAmount old) in
      r\<lparr>nv_amountPaid := amountPaid, nv_amountDue := nv_totalAmount old - amountPaid,
        nv_status := (if paid then ''PAID'' else nv_status old),
        nv_paidAt := (if paid then Some (bc_now c) else None)\<rparr>)"

definition verifyManualPayment ::
  "billing_call \<Rightarrow> uid \<Rightarrow> billing_tables \<Rightarrow> billing_failure + billing_tables \<times> verify_result" where
  "verifyManualPayment c k t =
     andThen (not_found (find_payment k t) (BillingWorkflowError PAYMENT_NOT_FOUND)) (\<lambda>p.
     if mp_verificationStatus p = ''VERIFIED'' then
       andThen (not_found (find_invoice (mp_invoiceId p) t) (DatabaseError RecordNotFound)) (\<lambda>v.
         Inr (t, \<lparr>vr_payment = p, vr_invoice = v, vr_subscriptionActivated = (nv_status v = ''PAID''),
                 vr_idempotent = True\<rparr>))
     else if mp_verificationStatus p \<noteq> ''PENDING_VERIFICATION''
       then Inl (BillingWorkflowError PAYMENT_STATE_CONFLICT)
     else
       andThen (not_found (find_invoice (mp_invoiceId p) t) (BillingWorkflowError INVOICE_NOT_FOUND)) (\<lambda>v.
       if nv_status v \<notin> set [''OPEN'', ''OVERDUE''] then Inl (BillingWorkflowError INVOICE_NOT_PAYABLE)
       else if mp_currency p \<noteq> nv_currency v \<or> mp_amount p > nv_amountDue v
         then Inl (BillingWorkflowError INVOICE_AMOUNT_MISMATCH)
       else
         (let amountPaid = nv_amountPaid v + mp_amount p; paid = (amountPaid = nv_totalAmount v) in
          andThen (update_payment k (verified_payment c) t) (\<lambda>t1.
          andThen (update_invoice (nv_id v) (paid_invoice c v amountPaid) t1) (\<lambda>t2.
          let v' = paid_invoice c v amountPaid v in
          andThen (if paid then activateFromPaidInvoice c v' t2 else Inr (t2, False)) (\<lambda>(t3, activated).
            Inr (createNotification (payment_notice ''PAYMENT_VERIFIED'' ''INFO'' ''payment-verified:'' p)
                   (createAudit c (mp_organizationId p) ''MANUAL_PAYMENT_VERIFIED'' ''MANUAL_PAYMENT'' k t3),
                 \<lparr>vr_payment = verified_payment c p, vr_invoice = v', vr_subscriptionActivated = activated,
                  vr_idempotent = False\<rparr>)))))))"

definition rejectManualPayment ::
  "billing_call \<Rightarrow> uid \<Rightarrow> billing_tables \<Rightarrow> billing_failure + billing_tables" where
  "rejectManualPayment c k t =
     andThen (not_found (find_payment k t) (BillingWorkflowError PAYMENT_NOT_FOUND)) (\<lambda>p.
     andThen (ensure (mp_verificationStatus p = ''PENDING_VERIFICATION'')
                (BillingWorkflowError PAYMENT_STATE_CONFLICT)) (\<lambda>_.
     andThen (update_payment k (\<lambda>p. p\<lparr>mp_verificationStatus := ''REJECTED'',
                 mp_verifiedByProfileId := bc_actorProfileId c, mp_rejectedAt := Some (bc_now c)\<rparr>) t) (\<lambda>t1.
       Inr (createNotification (payment_notice ''PAYMENT_REJECTED'' ''WARNING'' ''payment-rejected:'' p)
              (createAudit c (mp_organizationId p) ''MANUAL_PAYMENT_REJECTED'' ''MANUAL_PAYMENT'' k t1)))))"

section \<open>Lines and voiding\<close>

datatype line_input =
  AddOnLine string int
| TextLine string string string int int

definition find_catalog :: "string \<Rightarrow> string list \<Rightarrow> billing_tables \<Rightarrow> catalog_item option" where
  "find_catalog code statuses t =
     List.find (\<lambda>a. ca_code a = code \<and> ca_isActive a \<and> ca_availabilityStatus a \<in> set statuses) (bt_catalog t)"

definition pending_add_on :: "billing_call \<Rightarrow> invoice_row \<Rightarrow> catalog_item \<Rightarrow> int \<Rightarrow> subscription_item" where
  "pending_add_on c v a quantity =
     \<lparr>im_id = bc_fresh c 1, im_organizationId = nv_organizationId v, im_subscriptionId = nv_subscriptionId v,
      im_itemType = ''ADD_ON'', im_referenceId = Some (ca_id a), im_code = ca_code a,
      im_description = ca_displayName a, im_quantity = quantity, im_unitPrice = ca_unitPrice a,
      im_currency = ca_currency a, im_status = ''PENDING'', im_startsAt = bc_now c, im_endsAt = None\<rparr>"

definition invoice_line_of ::
  "billing_call \<Rightarrow> invoice_row \<Rightarrow> string \<Rightarrow> string \<Rightarrow> string \<Rightarrow> int \<Rightarrow> int \<Rightarrow> uid option \<Rightarrow> invoice_line" where
  "invoice_line_of c v itemType code description quantity unitPrice ref =
     \<lparr>ln_id = bc_fresh c 0, ln_organizationId = nv_organizationId v, ln_invoiceId = nv_id v,
      ln_itemType = itemType, ln_code = code, ln_description = description, ln_quantity = quantity,
      ln_unitPrice = unitPrice, ln_subtotal = quantity * unitPrice, ln_referenceId = ref,
      ln_metadataJson = None, ln_createdAt = bc_now c\<rparr>"

text \<open>The line of an input; an add-on also gets a pending subscription item.\<close>

definition prepared_line ::
  "billing_call \<Rightarrow> invoice_row \<Rightarrow> line_input \<Rightarrow> billing_tables \<Rightarrow> billing_failure + billing_tables \<times> invoice_line" where
  "prepared_line c v i t =
     (case i of
        AddOnLine code quantity \<Rightarrow>
          andThen (not_found (find_catalog code [''ENABLED'', ''MANUAL_APPROVAL_REQUIRED''] t)
                     (BillingWorkflowError ADD_ON_NOT_AVAILABLE)) (\<lambda>a.
          if prefix ''ORDER_PACKAGE_'' (ca_code a) \<or> prefix ''ADDITIONAL_STALL_'' (ca_code a)
            then Inl (BillingWorkflowError ADD_ON_NOT_AVAILABLE)
          else
            (let m = pending_add_on c v a quantity in
             andThen (insert_item m t) (\<lambda>t1.
               Inr (t1, invoice_line_of c v ''ADD_ON'' (ca_code a) (ca_displayName a) quantity (ca_unitPrice a)
                          (Some (im_id m))))))
      | TextLine itemType code description quantity unitPrice \<Rightarrow>
          Inr (t, invoice_line_of c v itemType code description quantity unitPrice None))"

definition addInvoiceLine ::
  "billing_call \<Rightarrow> uid \<Rightarrow> line_input \<Rightarrow> billing_tables \<Rightarrow> billing_failure + billing_tables \<times> invoice_line" where
  "addInvoiceLine c k i t =
     andThen (not_found (find_invoice k t) (BillingWorkflowError INVOICE_NOT_FOUND)) (\<lambda>v.
     andThen (ensure (nv_status v \<in> set editable_statuses) (BillingWorkflowError INVOICE_NOT_EDITABLE)) (\<lambda>_.
     andThen (prepared_line c v i t) (\<lambda>(t1, l).
     andThen (insert_lines k [l] t1) (\<lambda>t2.
     andThen (update_invoice k (\<lambda>r. r\<lparr>nv_status := ''OPEN'',
                 nv_issuedAt := Some (opt_or (nv_issuedAt v) (bc_now c))\<rparr>) t2) (\<lambda>t3.
     let t4 = createAudit c (nv_organizationId v)
                (if ln_itemType l = ''CREDIT'' then ''CREDIT_ISSUED''
                 else if ln_itemType l = ''ADD_ON'' then ''ADD_ON_ASSIGNED'' else ''INVOICE_LINE_ADDED'')
                ''INVOICE_LINE_ITEM'' (ln_id l) t3 in
       Inr (if ln_itemType l = ''CREDIT''
            then createNotification
              \<lparr>bn_organizationId = nv_organizationId v, bn_notificationType = ''CREDIT_ISSUED'',
               bn_severity = ''INFO'', bn_entityType = ''INVOICE'', bn_entityId = k,
               bn_dedupeKey = ''credit-issued:'' @ ln_id l\<rparr> t4
            else t4, l))))))"

definition voidInvoice :: "billing_call \<Rightarrow> uid \<Rightarrow> billing_tables \<Rightarrow> billing_failure + billing_tables" where
  "voidInvoice c k t =
     andThen (not_found (find_invoice k t) (BillingWorkflowError INVOICE_NOT_FOUND)) (\<lambda>v.
     if nv_status v \<notin> set editable_statuses \<or> nv_amountPaid v > 0
       then Inl (BillingWorkflowError INVOICE_NOT_EDITABLE)
     else if list_ex (\<lambda>p. mp_invoiceId p = k \<and> mp_verificationStatus p = ''PENDING_VERIFICATION'') (bt_payments t)
       then Inl (BillingWorkflowError INVOICE_HAS_PENDING_PAYMENT)
     else
       (let items = map ln_referenceId (filter (\<lambda>l. ln_itemType l = ''ADD_ON'' \<and> truthy (ln_referenceId l))
                      (invoice_lines k t)) in
        andThen (if items = [] then Inr t
                 else update_items (\<lambda>m. Some (im_id m) \<in> set items \<and> im_status m = ''PENDING'')
                        (\<lambda>m. m\<lparr>im_status := ''CANCELLED'', im_endsAt := Some (bc_now c)\<rparr>) t) (\<lambda>t1.
        andThen (update_invoice k (\<lambda>r. r\<lparr>nv_status := ''VOID'', nv_voidedAt := Some (bc_now c)\<rparr>) t1) (\<lambda>t2.
          Inr (createNotification
            \<lparr>bn_organizationId = nv_organizationId v, bn_notificationType = ''INVOICE_VOIDED'',
             bn_severity = ''WARNING'', bn_entityType = ''INVOICE'', bn_entityId = k,
             bn_dedupeKey = ''invoice-voided:'' @ k\<rparr>
            (createAudit c (nv_organizationId v) ''INVOICE_VOIDED'' ''INVOICE'' k t2))))))"

section \<open>The status of a subscription\<close>

datatype subscription_operation = SUSPEND | REACTIVATE | ACTIVATE | EXTEND_TRIAL

definition subscription_change ::
  "billing_call \<Rightarrow> subscription_operation \<Rightarrow> int option \<Rightarrow> billed_subscription \<Rightarrow> billing_tables
     \<Rightarrow> billing_failure + billed_subscription \<times> string \<times> string" where
  "subscription_change c operation days s t =
     (let now = bc_now c; conflict = Inl (BillingWorkflowError SUBSCRIPTION_STATE_CONFLICT) in
      case operation of
        SUSPEND \<Rightarrow>
          if sx_status s = ''CANCELLED'' then conflict
          else Inr (s\<lparr>sx_status := ''SUSPENDED'', sx_suspendedAt := Some now\<rparr>, ''SUSPENDED'', ''SUBSCRIPTION_SUSPENDED'')
      | EXTEND_TRIAL \<Rightarrow>
          (case sx_trialEndsAt s of
             None \<Rightarrow> conflict
           | Some trialEnd \<Rightarrow>
               if opt_or days 0 = 0 \<or> sx_status s \<notin> set [''TRIALING'', ''SUSPENDED''] then conflict
               else
                 (let ends = max trialEnd now + opt_or days 0 * 86400000 in
                  Inr (s\<lparr>sx_status := ''TRIALING'', sx_trialEndsAt := Some ends,
                         sx_billingPeriodEnd := utcDate ends, sx_suspendedAt := None\<rparr>,
                       ''TRIALING'', ''TRIAL_EXTENDED'')))
      | _ \<Rightarrow>
          if operation = REACTIVATE \<and> sx_status s \<noteq> ''SUSPENDED'' then conflict
          else if list_ex (\<lambda>v. nv_subscriptionId v = sx_id s \<and> nv_status v \<in> set [''OPEN'', ''OVERDUE'']
                             \<and> nv_amountDue v > 0) (bt_invoices t)
            then Inl (BillingWorkflowError UNPAID_INVOICE_EXISTS)
          else Inr (s\<lparr>sx_status := ''ACTIVE'', sx_pastDueAt := None, sx_gracePeriodEndsAt := None,
                      sx_suspendedAt := None,
                      sx_reactivatedAt := (if operation = REACTIVATE then Some now else sx_reactivatedAt s)\<rparr>,
                    ''ACTIVE'',
                    if operation = REACTIVATE then ''SUBSCRIPTION_REACTIVATED'' else ''SUBSCRIPTION_ACTIVATED''))"

definition transitionSubscription ::
  "billing_call \<Rightarrow> uid \<Rightarrow> subscription_operation \<Rightarrow> int option \<Rightarrow> billing_tables
     \<Rightarrow> billing_failure + billing_tables" where
  "transitionSubscription c k operation days t =
     andThen (not_found (find_subscription k t) (BillingWorkflowError SUBSCRIPTION_NOT_FOUND)) (\<lambda>s.
     andThen (subscription_change c operation days s t) (\<lambda>(s', organizationStatus, type).
     andThen (update_subscription (bc_now c) True k (\<lambda>_. s') t) (\<lambda>t1.
       Inr (createNotification
         \<lparr>bn_organizationId = sx_organizationId s, bn_notificationType = type,
          bn_severity = (if operation = SUSPEND then ''CRITICAL'' else ''INFO''),
          bn_entityType = ''SUBSCRIPTION'', bn_entityId = k,
          bn_dedupeKey = js_toLowerCase type @ '':'' @ k @ '':'' @ iso_instant (bc_now c)\<rparr>
         (createAudit c (sx_organizationId s) type ''SUBSCRIPTION'' k
           (set_organization_status (sx_organizationId s) organizationStatus t1))))))"

section \<open>Order packages\<close>

definition draft_period_invoice ::
  "billing_call \<Rightarrow> billed_subscription \<Rightarrow> string \<Rightarrow> instant \<Rightarrow> instant \<Rightarrow> invoice_row" where
  "draft_period_invoice c s currency from until =
     \<lparr>nv_id = bc_fresh c 1, nv_organizationId = sx_organizationId s, nv_subscriptionId = sx_id s,
      nv_planVersionId = None, nv_status = ''DRAFT'', nv_currency = currency,
      nv_billingPeriodStart = from, nv_billingPeriodEnd = until, nv_subtotal = 0, nv_discountAmount = 0,
      nv_taxAmount = 0, nv_totalAmount = 0, nv_amountPaid = 0, nv_amountDue = 0, nv_pricingMode = None,
      nv_pricingSnapshotJson = None, nv_issuedAt = None, nv_dueAt = opt_or (sx_paymentDueAt s) until,
      nv_paidAt = None, nv_voidedAt = None, nv_createdAt = bc_now c\<rparr>"

definition editablePeriodInvoice ::
  "billing_call \<Rightarrow> billed_subscription \<Rightarrow> string \<Rightarrow> billing_tables \<Rightarrow> billing_failure + billing_tables \<times> invoice_row" where
  "editablePeriodInvoice c s currency t =
     (let org = sx_organizationId s; from = sx_billingPeriodStart s; until = sx_billingPeriodEnd s;
          closed = (\<lambda>x. case x of None \<Rightarrow> False | Some v \<Rightarrow> nv_status v \<notin> set editable_statuses);
          shifted = closed (period_invoice org from until t);
          from' = (if shifted then until else from);
          until' = (if shifted then until + (until - from) else until);
          existing = period_invoice org from' until' t
      in if closed existing then Inl (BillingWorkflowError INVOICE_NOT_EDITABLE)
         else
           (case existing of
              Some v \<Rightarrow> Inr (t, v)
            | None \<Rightarrow>
                let v = draft_period_invoice c s currency from' until' in
                andThen (insert_invoice v t) (\<lambda>t1. Inr (t1, v))))"

definition package_item ::
  "billing_call \<Rightarrow> billed_subscription \<Rightarrow> catalog_item \<Rightarrow> int \<Rightarrow> subscription_item" where
  "package_item c s a quantity =
     \<lparr>im_id = bc_fresh c 2, im_organizationId = sx_organizationId s, im_subscriptionId = sx_id s,
      im_itemType = ''ORDER_PACKAGE'', im_referenceId = None, im_code = ca_code a,
      im_description = ca_displayName a, im_quantity = quantity, im_unitPrice = ca_unitPrice a,
      im_currency = ca_currency a, im_status = ''ACTIVE'', im_startsAt = bc_now c,
      im_endsAt = Some (sx_billingPeriodEnd s)\<rparr>"

definition assignOrderPackage ::
  "billing_call \<Rightarrow> uid \<Rightarrow> string \<Rightarrow> int \<Rightarrow> billing_tables \<Rightarrow> billing_failure + billing_tables" where
  "assignOrderPackage c k code quantity t =
     andThen (not_found (find_subscription k t) (BillingWorkflowError SUBSCRIPTION_NOT_FOUND)) (\<lambda>s.
     andThen (ensure (map_option pw_pricingMode (find_version (sx_planVersionId s) t) = Some ''FIXED'')
                (BillingWorkflowError ORDER_PACKAGE_NOT_AVAILABLE)) (\<lambda>_.
     andThen (not_found (find_catalog code [''ENABLED''] t)
                (BillingWorkflowError ORDER_PACKAGE_NOT_AVAILABLE)) (\<lambda>a.
     andThen (ensure (prefix (''ORDER_PACKAGE_'' @ opt_or (plan_code_of s t) [] @ ''_'') code)
                (BillingWorkflowError ORDER_PACKAGE_NOT_AVAILABLE)) (\<lambda>_.
     let m = package_item c s a quantity in
     andThen (insert_item m t) (\<lambda>t1.
     andThen (editablePeriodInvoice c s (ca_currency a) t1) (\<lambda>(t2, v).
     andThen (insert_lines (nv_id v)
                [invoice_line_of c v ''ORDER_PACKAGE'' (ca_code a) (ca_displayName a) quantity (ca_unitPrice a)
                   (Some (im_id m))] t2) (\<lambda>t3.
     andThen (update_invoice (nv_id v) (\<lambda>r. r\<lparr>nv_status := ''OPEN'',
                 nv_issuedAt := Some (opt_or (nv_issuedAt v) (bc_now c))\<rparr>) t3) (\<lambda>t4.
       Inr (createAudit c (sx_organizationId s) ''ORDER_PACKAGE_ASSIGNED'' ''SUBSCRIPTION_ITEM'' (im_id m) t4)))))))))"

end
