(* ===== verification/BillingLedger.thy ===== *)
theory BillingLedger
  imports BillingWorkflow
begin

text \<open>
  The invariant of the billing tables. Every invoice satisfies the checks of its row; what it
  says was paid is the sum of its verified payments; an invoice that is marked paid owes
  nothing; and the subtotal and the discount of an invoice that is not a pay-as-you-go invoice
  are the sums of its lines. The lemmas go statement by statement, then operation by
  operation; most operations touch other tables only.
\<close>

section \<open>The invariant\<close>

definition verified_total :: "uid \<Rightarrow> billing_tables \<Rightarrow> int" where
  "verified_total k t =
     sum_of mp_amount (filter (\<lambda>p. mp_invoiceId p = k \<and> mp_verificationStatus p = ''VERIFIED'') (bt_payments t))"

definition lines_match :: "billing_tables \<Rightarrow> invoice_row \<Rightarrow> bool" where
  "lines_match t v \<longleftrightarrow>
     nv_subtotal v = charge_total (nv_id v) t \<and> nv_discountAmount v = discount_total (nv_id v) t"

definition payg_invoice :: "invoice_row \<Rightarrow> bool" where
  "payg_invoice v \<longleftrightarrow> nv_pricingMode v = Some ''USAGE_PER_STALL_CAPPED''"

definition invoice_ok :: "uid set \<Rightarrow> billing_tables \<Rightarrow> invoice_row \<Rightarrow> bool" where
  "invoice_ok open t v \<longleftrightarrow>
     invoice_checks v \<and> (nv_status v = ''PAID'' \<longrightarrow> nv_amountDue v = 0)
     \<and> nv_amountPaid v = verified_total (nv_id v) t
     \<and> (nv_id v \<notin> open \<longrightarrow> \<not> payg_invoice v \<longrightarrow> lines_match t v)"

text \<open>The invoices in \<open>open\<close> are those whose lines are being written.\<close>

definition ledger_ok :: "uid set \<Rightarrow> billing_tables \<Rightarrow> bool" where
  "ledger_ok open t \<longleftrightarrow>
     distinct (map nv_id (bt_invoices t)) \<and> distinct (map mp_id (bt_payments t))
     \<and> list_all (invoice_ok open t) (bt_invoices t)
     \<and> list_all (\<lambda>l. ln_invoiceId l \<in> set (map nv_id (bt_invoices t))) (bt_lines t)
     \<and> list_all (\<lambda>p. mp_invoiceId p \<in> set (map nv_id (bt_invoices t))) (bt_payments t)"

abbreviation billing_ok :: "billing_tables \<Rightarrow> bool" where
  "billing_ok t \<equiv> ledger_ok {} t"

definition ledger :: "billing_tables \<Rightarrow> invoice_row list \<times> invoice_line list \<times> manual_payment list" where
  "ledger t = (bt_invoices t, bt_lines t, bt_payments t)"

lemma ledger_ok_cong: "ledger t' = ledger t \<Longrightarrow> ledger_ok open t' = ledger_ok open t"
  by (simp add: ledger_def ledger_ok_def invoice_ok_def lines_match_def verified_total_def
      charge_total_def discount_total_def invoice_lines_def cong: list.pred_cong)

lemma ledger_find: "ledger t' = ledger t \<Longrightarrow> find_invoice k t' = find_invoice k t"
  by (simp add: ledger_def find_invoice_def)

lemma ledger_ok_mono: "ledger_ok A t \<Longrightarrow> A \<subseteq> B \<Longrightarrow> ledger_ok B t"
  by (auto simp: ledger_ok_def list_all_iff invoice_ok_def)

section \<open>Writes beside the ledger\<close>

lemma ledger_beside [simp]:
  "ledger (createAudit c org a e i t) = ledger t"
  "ledger (createNotification n t) = ledger t"
  "ledger (set_organization_status org st t) = ledger t"
  "ledger (settle_credits now k cs ss t) = ledger t"
  "ledger (update_job key f t) = ledger t"
  by (simp_all add: ledger_def createAudit_def createNotification_def set_organization_status_def
      settle_credits_def update_job_def Let_def)

lemma ledger_statements:
  "update_subscription now w k f t = Inr t' \<Longrightarrow> ledger t' = ledger t"
  "insert_request q t = Inr t' \<Longrightarrow> ledger t' = ledger t"
  "update_requests p g t = Inr t' \<Longrightarrow> ledger t' = ledger t"
  "insert_item m t = Inr t' \<Longrightarrow> ledger t' = ledger t"
  "update_items r h t = Inr t' \<Longrightarrow> ledger t' = ledger t"
  "rebuild_payg_stall_usage_summaries c org d t = Inr t' \<Longrightarrow> ledger t' = ledger t"
       apply (auto simp: ledger_def update_subscription_def put_subscription_def andThen_Inr_iff split: if_splits)[1]
      apply (auto simp: ledger_def insert_request_def split: if_splits)[1]
     apply (auto simp: ledger_def update_requests_def split: if_splits)[1]
    apply (auto simp: ledger_def insert_item_def split: if_splits)[1]
   apply (auto simp: ledger_def update_items_def split: if_splits)[1]
  apply (auto simp: ledger_def rebuild_payg_stall_usage_summaries_def createAudit_def Let_def
      split: if_splits option.splits)[1]
  done

section \<open>Statements on invoices and lines\<close>

lemma find_invoice_Some:
  "find_invoice k t = Some v \<Longrightarrow> v \<in> set (bt_invoices t) \<and> nv_id v = k"
  by (auto simp: find_invoice_def dest: find_Some_D)

lemma find_invoice_in:
  "ledger_ok A t \<Longrightarrow> v \<in> set (bt_invoices t) \<Longrightarrow> find_invoice (nv_id v) t = Some v"
proof -
  assume ok: "ledger_ok A t" and v: "v \<in> set (bt_invoices t)"
  then have d: "distinct (map nv_id (bt_invoices t))" by (simp add: ledger_ok_def)
  have "\<exists>w. find_invoice (nv_id v) t = Some w"
    using v by (cases "find_invoice (nv_id v) t") (auto simp: find_invoice_def find_None_D)
  then obtain w where w: "find_invoice (nv_id v) t = Some w" by blast
  then have "w \<in> set (bt_invoices t)" "nv_id w = nv_id v" using find_invoice_Some by auto
  then have "w = v" using d v by (auto simp: distinct_map dest: inj_onD)
  then show ?thesis using w by simp
qed

lemma verified_total_frame: "bt_payments t' = bt_payments t \<Longrightarrow> verified_total k t' = verified_total k t"
  by (simp add: verified_total_def)

lemma lines_match_frame: "bt_lines t' = bt_lines t \<Longrightarrow> lines_match t' v = lines_match t v"
  by (simp add: lines_match_def charge_total_def discount_total_def invoice_lines_def)

lemma update_invoice_ok:
  assumes u: "update_invoice k f t = Inr t'" and ok: "ledger_ok A t"
    and keep: "\<And>v. nv_id (f v) = nv_id v" "\<And>v. nv_id v = k \<Longrightarrow> v \<in> set (bt_invoices t) \<Longrightarrow> nv_amountPaid (f v) = nv_amountPaid v"
    and paid: "\<And>v. nv_id v = k \<Longrightarrow> v \<in> set (bt_invoices t) \<Longrightarrow> nv_status (f v) = ''PAID'' \<Longrightarrow> nv_amountDue (f v) = 0"
    and match: "\<And>v. nv_id v = k \<Longrightarrow> v \<in> set (bt_invoices t) \<Longrightarrow> k \<notin> B \<Longrightarrow> \<not> payg_invoice (f v) \<Longrightarrow> lines_match t (f v)"
    and sub: "A \<subseteq> insert k B"
  shows "ledger_ok B t'" "find_invoice k t' = map_option f (find_invoice k t)"
    "bt_lines t' = bt_lines t" "bt_payments t' = bt_payments t"
    "map nv_id (bt_invoices t') = map nv_id (bt_invoices t)"
proof -
  from u obtain v where v: "find_invoice k t = Some v" and chk: "invoice_checks (f v)"
    and t': "t' = t\<lparr>bt_invoices := update_where (\<lambda>v. nv_id v = k) f (bt_invoices t)\<rparr>"
    by (auto simp: update_invoice_def split: option.splits if_splits)
  show rest: "bt_lines t' = bt_lines t" "bt_payments t' = bt_payments t" by (simp_all add: t')
  show ids: "map nv_id (bt_invoices t') = map nv_id (bt_invoices t)"
    by (simp add: t' update_where_def keep(1))
  have vin: "v \<in> set (bt_invoices t)" "nv_id v = k" using v find_invoice_Some by auto
  have only: "w = v" if "w \<in> set (bt_invoices t)" "nv_id w = k" for w
    using find_invoice_in [OF ok that(1)] that(2) v by simp
  have row: "invoice_ok B t' w'" if "w' \<in> set (bt_invoices t')" for w'
  proof -
    from that obtain w where w: "w \<in> set (bt_invoices t)" "w' = (if nv_id w = k then f w else w)"
      by (auto simp: t' update_where_def)
    have old: "invoice_ok A t w" using ok w(1) by (auto simp: ledger_ok_def list_all_iff)
    show ?thesis
    proof (cases "nv_id w = k")
      case True
      then have "w = v" "w' = f v" using only w by auto
      then show ?thesis
        using old chk keep paid [of v] match [of v] vin
        by (auto simp: invoice_ok_def verified_total_frame [OF rest(2)] lines_match_frame [OF rest(1)])
    next
      case False
      then show ?thesis
        using old w(2) sub
        by (auto simp: invoice_ok_def verified_total_frame [OF rest(2)] lines_match_frame [OF rest(1)])
    qed
  qed
  then show "ledger_ok B t'" using ok ids rest by (auto simp: ledger_ok_def list_all_iff)
  have "List.find (\<lambda>v. nv_id v = k) (update_where (\<lambda>v. nv_id v = k) f vs)
      = map_option f (List.find (\<lambda>v. nv_id v = k) vs)" for vs
    by (induction vs) (auto simp: keep(1))
  then show "find_invoice k t' = map_option f (find_invoice k t)" by (simp add: find_invoice_def t')
qed

lemma recalculate_ok:
  assumes r: "recalculate_invoice_totals k t = Inr t'" and ok: "ledger_ok (insert k B) t"
    and v: "find_invoice k t = Some v"
  shows "ledger_ok B t'" "find_invoice k t' = Some (recalculated (charge_total k t) (discount_total k t) v)"
    "bt_lines t' = bt_lines t" "bt_payments t' = bt_payments t"
    "map nv_id (bt_invoices t') = map nv_id (bt_invoices t)"
proof -
  have ed: "nv_status v \<in> set editable_statuses"
    and u: "update_invoice k (recalculated (charge_total k t) (discount_total k t)) t = Inr t'"
    using r v by (auto simp: recalculate_invoice_totals_def split: if_splits)
  have only: "w = v" if "w \<in> set (bt_invoices t)" "nv_id w = k" for w
    using find_invoice_in [OF ok that(1)] that(2) v by simp
  have np: "nv_status v \<noteq> ''PAID''" using ed by (auto simp: editable_statuses_def)
  have "ledger_ok B t' \<and> find_invoice k t' = map_option (recalculated (charge_total k t) (discount_total k t)) (find_invoice k t)
      \<and> bt_lines t' = bt_lines t \<and> bt_payments t' = bt_payments t
      \<and> map nv_id (bt_invoices t') = map nv_id (bt_invoices t)"
    using update_invoice_ok [OF u ok, of B] only np
    by (auto simp: recalculated_def lines_match_def payg_invoice_def)
  then show "ledger_ok B t'" "find_invoice k t' = Some (recalculated (charge_total k t) (discount_total k t) v)"
    "bt_lines t' = bt_lines t" "bt_payments t' = bt_payments t"
    "map nv_id (bt_invoices t') = map nv_id (bt_invoices t)"
    using v by auto
qed

lemma insert_lines_ok:
  assumes i: "insert_lines k ls t = Inr t'" and ok: "ledger_ok B t"
    and own: "\<forall>l \<in> set ls. ln_invoiceId l = k" and sub: "B \<subseteq> {k}"
  shows "ledger_ok (if ls = [] then B else {}) t'" "bt_lines t' = bt_lines t @ ls"
    "bt_payments t' = bt_payments t" "map nv_id (bt_invoices t') = map nv_id (bt_invoices t)"
    "ls \<noteq> [] \<Longrightarrow> find_invoice k t' = map_option (recalculated (charge_total k t') (discount_total k t')) (find_invoice k t)"
    "list_all line_checks ls"
proof -
  have "ledger_ok (if ls = [] then B else {}) t' \<and> bt_lines t' = bt_lines t @ ls \<and> bt_payments t' = bt_payments t
    \<and> map nv_id (bt_invoices t') = map nv_id (bt_invoices t)
    \<and> (ls \<noteq> [] \<longrightarrow> find_invoice k t' = map_option (recalculated (charge_total k t') (discount_total k t')) (find_invoice k t))
    \<and> list_all line_checks ls"
  proof (cases "ls = []")
    case True
    then show ?thesis using i ok by (simp add: insert_lines_def)
  next
    case False
    let ?t = "t\<lparr>bt_lines := bt_lines t @ ls\<rparr>"
    have r: "recalculate_invoice_totals k ?t = Inr t'" and c: "list_all line_checks ls"
      and sc: "\<not> list_ex (\<lambda>l. map_option nv_organizationId (find_invoice (ln_invoiceId l) t) \<noteq> Some (ln_organizationId l)) ls"
      using i False by (auto simp: insert_lines_def split: if_splits)
    obtain l where l: "l \<in> set ls" using False by (cases ls) auto
    then obtain v where v: "find_invoice k t = Some v" using sc own by (auto simp: list_ex_iff)
    then have v': "find_invoice k ?t = Some v" by (simp add: find_invoice_def)
    have other: "charge_total j ?t = charge_total j t \<and> discount_total j ?t = discount_total j t" if "j \<noteq> k" for j
    proof -
      have "invoice_lines j ?t = invoice_lines j t"
        using own that by (auto simp: invoice_lines_def filter_empty_conv)
      then show ?thesis by (simp add: charge_total_def discount_total_def)
    qed
    have "invoice_ok (insert k {}) ?t w" if "w \<in> set (bt_invoices t)" for w
      using that ok sub other [of "nv_id w"]
      by (auto simp: ledger_ok_def list_all_iff invoice_ok_def lines_match_def verified_total_def)
    moreover have "\<forall>l \<in> set ls. ln_invoiceId l \<in> set (map nv_id (bt_invoices t))"
      using own find_invoice_Some [OF v] by auto
    ultimately have ok': "ledger_ok (insert k {}) ?t"
      using ok by (auto simp: ledger_ok_def list_all_iff)
    have lines: "bt_lines t' = bt_lines ?t" by (rule recalculate_ok(3) [OF r ok' v'])
    then have tot: "charge_total k t' = charge_total k ?t" "discount_total k t' = discount_total k ?t"
      by (simp_all add: charge_total_def discount_total_def invoice_lines_def)
    show ?thesis using recalculate_ok [OF r ok' v'] False v c tot by simp
  qed
  then show "ledger_ok (if ls = [] then B else {}) t'" "bt_lines t' = bt_lines t @ ls"
    "bt_payments t' = bt_payments t" "map nv_id (bt_invoices t') = map nv_id (bt_invoices t)"
    "ls \<noteq> [] \<Longrightarrow> find_invoice k t' = map_option (recalculated (charge_total k t') (discount_total k t')) (find_invoice k t)"
    "list_all line_checks ls"
    by auto
qed

lemma delete_lines_ok:
  assumes d: "delete_lines k p t = Inr t'" and ok: "billing_ok t"
  shows "billing_ok t'" "bt_lines t' = filter (\<lambda>l. \<not> (ln_invoiceId l = k \<and> p l)) (bt_lines t)"
    "bt_payments t' = bt_payments t" "map nv_id (bt_invoices t') = map nv_id (bt_invoices t)"
    "find_invoice k t' = (if list_ex p (invoice_lines k t)
       then map_option (recalculated (charge_total k t') (discount_total k t')) (find_invoice k t)
       else find_invoice k t)"
proof -
  have "billing_ok t' \<and> bt_lines t' = filter (\<lambda>l. \<not> (ln_invoiceId l = k \<and> p l)) (bt_lines t)
    \<and> bt_payments t' = bt_payments t \<and> map nv_id (bt_invoices t') = map nv_id (bt_invoices t)
    \<and> find_invoice k t' = (if list_ex p (invoice_lines k t)
       then map_option (recalculated (charge_total k t') (discount_total k t')) (find_invoice k t)
       else find_invoice k t)"
  proof (cases "list_ex p (invoice_lines k t)")
    case False
    then have "\<forall>l \<in> set (bt_lines t). \<not> (ln_invoiceId l = k \<and> p l)"
      by (auto simp: list_ex_iff invoice_lines_def)
    then have "filter (\<lambda>l. \<not> (ln_invoiceId l = k \<and> p l)) (bt_lines t) = bt_lines t"
      by (simp add: filter_id_conv)
    then show ?thesis using d ok False by (simp add: delete_lines_def)
  next
    case True
    let ?t = "t\<lparr>bt_lines := filter (\<lambda>l. \<not> (ln_invoiceId l = k \<and> p l)) (bt_lines t)\<rparr>"
    have r: "recalculate_invoice_totals k ?t = Inr t'" using d True by (simp add: delete_lines_def)
    obtain l where l: "l \<in> set (bt_lines t)" "ln_invoiceId l = k"
      using True by (auto simp: list_ex_iff invoice_lines_def)
    then have "k \<in> nv_id ` set (bt_invoices t)" using ok by (auto simp: ledger_ok_def list_all_iff)
    then obtain v where v: "find_invoice k t = Some v" using find_invoice_in [OF ok] by fastforce
    then have v': "find_invoice k ?t = Some v" by (simp add: find_invoice_def)
    have other: "invoice_lines j ?t = invoice_lines j t" if "j \<noteq> k" for j
      using that by (auto simp: invoice_lines_def intro!: filter_cong)
    have "invoice_ok (insert k {}) ?t w" if "w \<in> set (bt_invoices t)" for w
      using that ok other [of "nv_id w"]
      by (auto simp: ledger_ok_def list_all_iff invoice_ok_def lines_match_def verified_total_def
          charge_total_def discount_total_def)
    then have ok': "ledger_ok (insert k {}) ?t" using ok by (auto simp: ledger_ok_def list_all_iff)
    have lines: "bt_lines t' = bt_lines ?t" by (rule recalculate_ok(3) [OF r ok' v'])
    then have tot: "charge_total k t' = charge_total k ?t" "discount_total k t' = discount_total k ?t"
      by (simp_all add: charge_total_def discount_total_def invoice_lines_def)
    show ?thesis using recalculate_ok [OF r ok' v'] True v tot by simp
  qed
  then show "billing_ok t'" "bt_lines t' = filter (\<lambda>l. \<not> (ln_invoiceId l = k \<and> p l)) (bt_lines t)"
    "bt_payments t' = bt_payments t" "map nv_id (bt_invoices t') = map nv_id (bt_invoices t)"
    "find_invoice k t' = (if list_ex p (invoice_lines k t)
       then map_option (recalculated (charge_total k t') (discount_total k t')) (find_invoice k t)
       else find_invoice k t)"
    by auto
qed

lemma find_of_append:
  "List.find p (xs @ ys) = (case List.find p xs of Some x \<Rightarrow> Some x | None \<Rightarrow> List.find p ys)"
  by (induction xs) auto

lemma insert_invoice_ok:
  assumes i: "insert_invoice v t = Inr t'" and ok: "billing_ok t"
    and z: "nv_amountPaid v = 0" "nv_subtotal v = 0" "nv_discountAmount v = 0" "nv_status v \<noteq> ''PAID''"
  shows "billing_ok t'" "find_invoice (nv_id v) t' = Some v" "find_invoice (nv_id v) t = None"
    "bt_lines t' = bt_lines t" "bt_payments t' = bt_payments t" "bt_invoices t' = bt_invoices t @ [v]"
    "bt_credits t' = bt_credits t"
proof -
  have chk: "invoice_checks v" and new: "find_invoice (nv_id v) t = None"
    and t': "t' = t\<lparr>bt_invoices := bt_invoices t @ [v]\<rparr>"
    using i by (auto simp: insert_invoice_def split: if_splits)
  have fresh: "nv_id v \<notin> nv_id ` set (bt_invoices t)"
    using new by (auto simp: find_invoice_def find_None_D)
  have fk: "\<forall>l \<in> set (bt_lines t). ln_invoiceId l \<in> nv_id ` set (bt_invoices t)"
      "\<forall>p \<in> set (bt_payments t). mp_invoiceId p \<in> nv_id ` set (bt_invoices t)"
    using ok by (simp_all add: ledger_ok_def list_all_iff)
  have "invoice_lines (nv_id v) t = []"
    using fk(1) fresh unfolding invoice_lines_def filter_empty_conv by metis
  then have m: "lines_match t v" using z by (simp add: lines_match_def charge_total_def discount_total_def)
  have "verified_total (nv_id v) t = 0"
  proof -
    have "filter (\<lambda>p. mp_invoiceId p = nv_id v \<and> mp_verificationStatus p = ''VERIFIED'') (bt_payments t) = []"
      using fk(2) fresh unfolding filter_empty_conv by metis
    then show ?thesis by (simp add: verified_total_def)
  qed
  then have "invoice_ok {} t v" using chk z m by (simp add: invoice_ok_def)
  moreover have "invoice_ok {} t' w = invoice_ok {} t w" for w
    by (simp add: invoice_ok_def t' verified_total_def lines_match_def charge_total_def discount_total_def invoice_lines_def)
  ultimately show "billing_ok t'"
    using ok fresh by (auto simp: ledger_ok_def list_all_iff t')
  show "find_invoice (nv_id v) t = None" by (rule new)
  then show "find_invoice (nv_id v) t' = Some v"
    by (simp add: find_invoice_def t' find_of_append)
  show "bt_lines t' = bt_lines t" "bt_payments t' = bt_payments t" "bt_invoices t' = bt_invoices t @ [v]"
    "bt_credits t' = bt_credits t" by (simp_all add: t')
qed

end
