(* ===== verification/BillingSteps.thy ===== *)
theory BillingSteps
  imports BillingLedger
begin

text \<open>
  The operations of billing keep the invariant of its tables, and so does any sequence of
  them. A call that fails leaves the tables as they were.
\<close>

section \<open>The manual workflow\<close>

lemma andThen_InrE:
  "andThen r f = Inr x \<Longrightarrow> (\<And>a. r = Inr a \<Longrightarrow> f a = Inr x \<Longrightarrow> P) \<Longrightarrow> P"
  by (auto simp: andThen_Inr_iff)

lemma on_unique_Inr: "on_unique_violation code r = Inr x \<Longrightarrow> r = Inr x"
  by (auto simp: on_unique_violation_def split: if_splits)

lemma requestPlanChange_ledger: "requestPlanChange c org k i r t = Inr t' \<Longrightarrow> ledger t' = ledger t"
  unfolding requestPlanChange_def
  by (drule on_unique_Inr) (auto simp: andThen_Inr_iff Let_def dest: ledger_statements)

lemma requestAdditionalStalls_ledger: "requestAdditionalStalls c org n r t = Inr t' \<Longrightarrow> ledger t' = ledger t"
  unfolding requestAdditionalStalls_def
  by (drule on_unique_Inr) (auto simp: andThen_Inr_iff Let_def dest: ledger_statements)

lemma rejectBillingChangeRequest_ledger: "rejectBillingChangeRequest c k n t = Inr t' \<Longrightarrow> ledger t' = ledger t"
  by (auto simp: rejectBillingChangeRequest_def andThen_Inr_iff dest: ledger_statements)

lemma transitionSubscription_ledger: "transitionSubscription c k p d t = Inr t' \<Longrightarrow> ledger t' = ledger t"
  by (auto simp: transitionSubscription_def andThen_Inr_iff dest: ledger_statements)

lemma approve_plan_request_ledger: "approve_plan_request c i w k t = Inr t' \<Longrightarrow> ledger t' = ledger t"
  by (auto simp: approve_plan_request_def andThen_Inr_iff Let_def split: if_splits dest: ledger_statements)

lemma migrateSubscription_ledger:
  assumes "migrateSubscription env c k i t = Inr t'"
  shows "ledger t' = ledger t"
proof -
  obtain f t1 t2 g org and q :: "change_request option" where t1: "update_subscription (bc_now c) True k f t = Inr t1"
    and t2: "(case q of None \<Rightarrow> Inr (set_organization_status org ''ACTIVE'' t1)
              | Some r \<Rightarrow> update_requests (\<lambda>x. cq_id x = cq_id r) g (set_organization_status org ''ACTIVE'' t1)) = Inr t2"
    and fin: "Inr (createAudit c org ''SUBSCRIPTION_MIGRATED_TO_PAYG'' ''SUBSCRIPTION'' k t2) = (Inr t' :: billing_failure + billing_tables)"
    using assms unfolding migrateSubscription_def Let_def
    by (elim andThen_InrE) (rule that, assumption+)
  have "ledger t2 = ledger t1" using t2 by (cases q) (auto dest: ledger_statements)
  then show ?thesis using ledger_statements(1) [OF t1] fin by auto
qed

lemma createAndSeal_ledger: "createAndSealPaygPlanVersion env c i t = Inr (t', v) \<Longrightarrow> ledger t' = ledger t"
  by (auto simp: createAndSealPaygPlanVersion_def Let_def ledger_def split: sum.splits option.splits if_splits)

lemma same_ledger_ok: "ledger t' = ledger t \<Longrightarrow> billing_ok t \<Longrightarrow> billing_ok t'"
  using ledger_ok_cong by blast

lemma createPlanInvoice_ok:
  assumes "createPlanInvoice c i t = Inr (t', r)" and ok: "billing_ok t"
  shows "billing_ok t'"
proof -
  obtain start until where p: "billingPeriod (pj_billingInterval i) (bc_now c) = (start, until)" by fastforce
  obtain s v price existing inv t1 t2 t3 t4 t5 where
    ex: "existing = period_invoice (pj_organizationId i) start until t"
    and inv: "inv = opt_or existing (draft_plan_invoice c i s v start until)"
    and t1: "(if existing = None then insert_invoice inv t else Inr t) = Inr t1"
    and t2: "delete_lines (nv_id inv) (\<lambda>l. ln_itemType l = ''BASE_PLAN'') t1 = Inr t2"
    and t3: "insert_lines (nv_id inv) [base_plan_line c i v price (nv_id inv)] t2 = Inr t3"
    and t4: "update_invoice (nv_id inv)
                (\<lambda>r. r\<lparr>nv_status := ''OPEN'', nv_issuedAt := Some (opt_or (nv_issuedAt inv) (bc_now c)),
                      nv_dueAt := pj_dueAt i, nv_planVersionId := Some (pw_id v),
                      nv_pricingMode := Some (pw_pricingMode v),
                      nv_pricingSnapshotJson := Some (planVersionPricingSnapshot v)\<rparr>) t3 = Inr t4"
    and t5: "approve_plan_request c i (pw_id v) (nv_id inv) t4 = Inr t5"
    and fin: "ledger t' = ledger t5"
    using assms(1) p
    by (auto simp: createPlanInvoice_def andThen_Inr_iff Let_def split: if_splits)
  have ok1: "billing_ok t1"
  proof (cases existing)
    case None
    then show ?thesis using t1 insert_invoice_ok(1) [OF _ ok, of inv t1] by (simp add: inv draft_plan_invoice_def)
  next
    case (Some x)
    then show ?thesis using t1 ok by simp
  qed
  have ok2: "billing_ok t2" by (rule delete_lines_ok(1) [OF t2 ok1])
  have ok3: "billing_ok t3" and f3: "find_invoice (nv_id inv) t3
      = map_option (recalculated (charge_total (nv_id inv) t3) (discount_total (nv_id inv) t3)) (find_invoice (nv_id inv) t2)"
    using insert_lines_ok(1,5) [OF t3 ok2] by (simp_all add: base_plan_line_def)
  have m: "lines_match t3 w" if "w \<in> set (bt_invoices t3)" "nv_id w = nv_id inv" for w
  proof -
    have "find_invoice (nv_id inv) t3 = Some w" using find_invoice_in [OF ok3 that(1)] that(2) by simp
    then show ?thesis using f3 that(2) by (auto simp: lines_match_def recalculated_def)
  qed
  have "billing_ok t4"
    by (rule update_invoice_ok(1) [OF t4 ok3])
      (use m in \<open>auto simp: lines_match_def charge_total_def discount_total_def\<close>)
  then have "billing_ok t5" using same_ledger_ok approve_plan_request_ledger [OF t5] by blast
  then show ?thesis using fin same_ledger_ok by blast
qed

section \<open>Payments\<close>

lemma sum_update_one:
  assumes "distinct (map key xs)" and "List.find (\<lambda>x. key x = k) xs = Some p" and "\<And>x. key (f x) = key x"
  shows "sum_of g (filter Q (update_where (\<lambda>x. key x = k) f xs))
     = sum_of g (filter Q xs) + (if Q (f p) then g (f p) else 0) - (if Q p then g p else 0)"
  using assms(1,2)
proof (induction xs)
  case Nil
  then show ?case by simp
next
  case (Cons x xs)
  show ?case
  proof (cases "key x = k")
    case True
    then have "\<forall>y \<in> set xs. key y \<noteq> k" using Cons.prems(1) by (force simp: image_iff)
    then have "update_where (\<lambda>x. key x = k) f xs = xs"
      by (auto simp: update_where_def intro!: map_idI)
    then show ?thesis using True Cons.prems(2) by simp
  next
    case False
    then show ?thesis using Cons by simp
  qed
qed

lemma find_payment_Some: "find_payment k t = Some p \<Longrightarrow> p \<in> set (bt_payments t) \<and> mp_id p = k"
  by (auto simp: find_payment_def dest: find_Some_D)

lemma update_payment_total:
  assumes u: "update_payment k f t = Inr t'" and ok: "ledger_ok A t" and p: "find_payment k t = Some p"
    and keep: "\<And>x. mp_id (f x) = mp_id x" "\<And>x. mp_invoiceId (f x) = mp_invoiceId x" "\<And>x. mp_amount (f x) = mp_amount x"
  shows "verified_total j t' = verified_total j t
    + (if mp_invoiceId p = j \<and> mp_verificationStatus (f p) = ''VERIFIED'' then mp_amount p else 0)
    - (if mp_invoiceId p = j \<and> mp_verificationStatus p = ''VERIFIED'' then mp_amount p else 0)"
  and "bt_invoices t' = bt_invoices t" "bt_lines t' = bt_lines t"
    "distinct (map mp_id (bt_payments t'))"
    "list_all (\<lambda>p. mp_invoiceId p \<in> set (map nv_id (bt_invoices t))) (bt_payments t')"
proof -
  have t': "t' = t\<lparr>bt_payments := update_where (\<lambda>p. mp_id p = k) f (bt_payments t)\<rparr>"
    using u p by (auto simp: update_payment_def split: if_splits)
  then show "bt_invoices t' = bt_invoices t" "bt_lines t' = bt_lines t" by simp_all
  have d: "distinct (map mp_id (bt_payments t))" using ok by (simp add: ledger_ok_def)
  have "map mp_id (bt_payments t') = map mp_id (bt_payments t)" by (simp add: t' update_where_def keep(1))
  then show "distinct (map mp_id (bt_payments t'))" using d by simp
  show "list_all (\<lambda>p. mp_invoiceId p \<in> set (map nv_id (bt_invoices t))) (bt_payments t')"
    using ok by (auto simp: t' update_where_def ledger_ok_def list_all_iff keep(2))
  show "verified_total j t' = verified_total j t
    + (if mp_invoiceId p = j \<and> mp_verificationStatus (f p) = ''VERIFIED'' then mp_amount p else 0)
    - (if mp_invoiceId p = j \<and> mp_verificationStatus p = ''VERIFIED'' then mp_amount p else 0)"
    using sum_update_one [of mp_id "bt_payments t" k p f mp_amount
        "\<lambda>p. mp_invoiceId p = j \<and> mp_verificationStatus p = ''VERIFIED''"] d p keep
    by (simp add: verified_total_def t' find_payment_def)
qed

lemma submitManualPayment_ok:
  assumes "submitManualPayment c org i t = Inr (t', p, b)" and ok: "billing_ok t"
  shows "billing_ok t'"
proof (cases "List.find (payment_key org (pn_idempotencyKey i)) (bt_payments t)")
  case (Some q)
  then show ?thesis using assms by (auto simp: submitManualPayment_def split: if_splits)
next
  case None
  then obtain v t1 where v: "List.find (\<lambda>v. nv_id v = pn_invoiceId i \<and> nv_organizationId v = org) (bt_invoices t) = Some v"
    and t1: "insert_payment (new_payment c org i v) t = Inr t1" and fin: "ledger t' = ledger t1"
    using assms(1) by (auto simp: submitManualPayment_def andThen_Inr_iff Let_def split: if_splits)
  have vin: "v \<in> set (bt_invoices t)" using find_Some_D [OF v] by simp
  have t1': "t1 = t\<lparr>bt_payments := bt_payments t @ [new_payment c org i v]\<rparr>"
    and new: "find_payment (mp_id (new_payment c org i v)) t = None"
    using t1 by (auto simp: insert_payment_def split: if_splits)
  have "mp_id (new_payment c org i v) \<notin> mp_id ` set (bt_payments t)"
    using new by (auto simp: find_payment_def find_None_D)
  moreover have same: "invoice_ok {} t1 = invoice_ok {} t"
    by (rule ext) (simp add: invoice_ok_def t1' verified_total_def lines_match_def charge_total_def
        discount_total_def invoice_lines_def new_payment_def)
  moreover have "mp_invoiceId (new_payment c org i v) = nv_id v" by (simp add: new_payment_def)
  ultimately have "billing_ok t1"
    using ok vin unfolding ledger_ok_def same by (simp add: t1')
  then show ?thesis using fin same_ledger_ok by blast
qed

lemma rejectManualPayment_ok:
  assumes "rejectManualPayment c k t = Inr t'" and ok: "billing_ok t"
  shows "billing_ok t'"
proof -
  obtain p t1 where p: "find_payment k t = Some p" "mp_verificationStatus p = ''PENDING_VERIFICATION''"
    and t1: "update_payment k (\<lambda>p. p\<lparr>mp_verificationStatus := ''REJECTED'',
                 mp_verifiedByProfileId := bc_actorProfileId c, mp_rejectedAt := Some (bc_now c)\<rparr>) t = Inr t1"
    and fin: "ledger t' = ledger t1"
    using assms(1) by (auto simp: rejectManualPayment_def andThen_Inr_iff)
  note u = update_payment_total [OF t1 ok p(1), simplified]
  have "verified_total j t1 = verified_total j t" for j using u(1) [of j] p(2) by simp
  then have same: "invoice_ok {} t1 = invoice_ok {} t"
    by (intro ext) (simp add: invoice_ok_def lines_match_frame [OF u(3)])
  have "billing_ok t1" using ok u(4,5) unfolding ledger_ok_def same u(2,3) by simp
  then show ?thesis using fin same_ledger_ok by blast
qed

lemma activate_items_ledger:
  "fold (activate_item c org) ms (Inr t) = Inr t' \<Longrightarrow> ledger t' = ledger t"
proof (induction ms arbitrary: t)
  case Nil
  then show ?case by simp
next
  case (Cons m ms)
  have fail: "fold (activate_item c org) xs (Inl e) = Inl e" for xs e
    by (induction xs) (simp_all add: activate_item_def andThen_def)
  obtain t1 where t1: "activate_item c org m (Inr t) = Inr t1"
    using Cons.prems fail by (cases "activate_item c org m (Inr t)") auto
  then have "ledger t1 = ledger t" by (auto simp: activate_item_def andThen_Inr_iff dest: ledger_statements)
  then show ?case using Cons.IH [of t1] Cons.prems t1 by simp
qed

lemma activatePending_ledger: "activatePendingInvoiceItems c v t = Inr t' \<Longrightarrow> ledger t' = ledger t"
  by (auto simp: activatePendingInvoiceItems_def dest: activate_items_ledger)

lemma activateFromPaidInvoice_ledger:
  assumes "activateFromPaidInvoice c v t = Inr (t', b)"
  shows "ledger t' = ledger t"
proof -
  obtain s where a: "(case base_line v t of
       None \<Rightarrow> andThen (activatePendingInvoiceItems c v t) (\<lambda>t1. Inr (t1, False))
     | Some l \<Rightarrow>
         if \<not> truthy (ln_referenceId l) then andThen (activatePendingInvoiceItems c v t) (\<lambda>t1. Inr (t1, False))
         else
           andThen (not_found (find_version (the (ln_referenceId l)) t)
                      (BillingWorkflowError PLAN_VERSION_NOT_AVAILABLE)) (\<lambda>w.
           andThen (update_items (\<lambda>m. im_subscriptionId m = sx_id s \<and> im_itemType m = ''BASE_PLAN''
                        \<and> im_status m = ''ACTIVE'')
                      (\<lambda>m. m\<lparr>im_status := ''ENDED'', im_endsAt := Some (bc_now c)\<rparr>) t) (\<lambda>t1.
           andThen (insert_item (base_plan_item c s w l) t1) (\<lambda>t2.
           andThen (update_subscription (bc_now c) True (sx_id s)
                      (activated_subscription c v w (line_interval l)) t2) (\<lambda>t3.
           andThen (activatePendingInvoiceItems c v
                      (createAudit c (sx_organizationId s)
                         (if sx_status s = ''SUSPENDED'' then ''SUBSCRIPTION_REACTIVATED'' else ''SUBSCRIPTION_ACTIVATED'')
                         ''SUBSCRIPTION'' (sx_id s)
                         (set_organization_status (sx_organizationId s) ''ACTIVE'' t3))) (\<lambda>t4.
             Inr (t4, True))))))) = Inr (t', b)"
    using assms unfolding activateFromPaidInvoice_def by (elim andThen_InrE) (rule that, assumption+)
  show ?thesis
  proof (cases "base_line v t")
    case None
    then show ?thesis using a by (auto simp: andThen_Inr_iff dest: activatePending_ledger)
  next
    case (Some l)
    show ?thesis
    proof (cases "truthy (ln_referenceId l)")
      case False
      then show ?thesis using a Some by (auto simp: andThen_Inr_iff dest: activatePending_ledger)
    next
      case True
      then obtain w p f t1 t2 t3 g t4 where "update_items p f t = Inr t1" "insert_item (base_plan_item c s w l) t1 = Inr t2"
        "update_subscription (bc_now c) True (sx_id s) g t2 = Inr t3"
        "activatePendingInvoiceItems c v (createAudit c (sx_organizationId s)
            (if sx_status s = ''SUSPENDED'' then ''SUBSCRIPTION_REACTIVATED'' else ''SUBSCRIPTION_ACTIVATED'')
            ''SUBSCRIPTION'' (sx_id s) (set_organization_status (sx_organizationId s) ''ACTIVE'' t3)) = Inr t4"
        "t' = t4"
        using a Some by (simp add: andThen_Inr_iff) blast
      then show ?thesis using ledger_statements(1,4,5) activatePending_ledger ledger_beside by metis
    qed
  qed
qed

lemma verifyManualPayment_parts:
  assumes a: "verifyManualPayment c k t = Inr (t', r)" and new: "\<not> vr_idempotent r"
  obtains p v t1 t2 t3 b where "find_payment k t = Some p" "mp_verificationStatus p = ''PENDING_VERIFICATION''"
    "find_invoice (mp_invoiceId p) t = Some v" "nv_status v \<in> set [''OPEN'', ''OVERDUE'']"
    "mp_amount p \<le> nv_amountDue v"
    "update_payment k (verified_payment c) t = Inr t1"
    "update_invoice (nv_id v) (paid_invoice c v (nv_amountPaid v + mp_amount p)) t1 = Inr t2"
    "(if nv_amountPaid v + mp_amount p = nv_totalAmount v
      then activateFromPaidInvoice c (paid_invoice c v (nv_amountPaid v + mp_amount p) v) t2
      else Inr (t2, False)) = Inr (t3, b)"
    "ledger t' = ledger t3" "vr_invoice r = paid_invoice c v (nv_amountPaid v + mp_amount p) v"
proof -
  obtain p where p: "find_payment k t = Some p"
    using a unfolding verifyManualPayment_def by (elim andThen_InrE) auto
  have nv: "mp_verificationStatus p \<noteq> ''VERIFIED''"
    using a new p by (auto simp: verifyManualPayment_def andThen_Inr_iff)
  have pend: "mp_verificationStatus p = ''PENDING_VERIFICATION''"
    using a nv p by (auto simp: verifyManualPayment_def andThen_Inr_iff split: if_splits)
  obtain v where v: "find_invoice (mp_invoiceId p) t = Some v"
    using a p nv pend by (auto simp: verifyManualPayment_def andThen_Inr_iff)
  have b: "(if nv_status v \<notin> set [''OPEN'', ''OVERDUE''] then Inl (BillingWorkflowError INVOICE_NOT_PAYABLE)
       else if mp_currency p \<noteq> nv_currency v \<or> mp_amount p > nv_amountDue v
         then Inl (BillingWorkflowError INVOICE_AMOUNT_MISMATCH)
       else
         (let amountPaid = nv_amountPaid v + mp_amount p; paid = (amountPaid = nv_totalAmount v) in
          andThen (update_payment k (verified_payment c) t) (\<lambda>t1.
          andThen (update_invoice (nv_id v) (paid_invoice c v amountPaid) t1) (\<lambda>t2.
          let v' = paid_invoice c v amountPaid v in
          andThen (if paid then activateFromPaidInvoice c v' t2 else Inr (t2, False)) (\<lambda>(t3, activated).
            Inr (createNotification (payment_notice ''PAYMENT_VERIFIED'' ''INFO'' ''payment-verified:'' p)
                   (createAudit c (mp_organizationId p) ''MANUAL_PAYMENT_VERIFIED'' ''MANUAL_PAYMENT'' k t3),
                 \<lparr>vr_payment = verified_payment c p, vr_invoice = v', vr_subscriptionActivated = activated,
                  vr_idempotent = False\<rparr>)))))) = Inr (t', r)"
    using a p v nv pend by (simp add: verifyManualPayment_def not_found_def)
  have st: "nv_status v \<in> set [''OPEN'', ''OVERDUE'']" and due: "mp_amount p \<le> nv_amountDue v"
    using b by (auto split: if_splits)
  have c: "andThen (update_payment k (verified_payment c) t) (\<lambda>t1.
          andThen (update_invoice (nv_id v) (paid_invoice c v (nv_amountPaid v + mp_amount p)) t1) (\<lambda>t2.
          andThen (if nv_amountPaid v + mp_amount p = nv_totalAmount v
                   then activateFromPaidInvoice c (paid_invoice c v (nv_amountPaid v + mp_amount p) v) t2
                   else Inr (t2, False)) (\<lambda>x.
            Inr (createNotification (payment_notice ''PAYMENT_VERIFIED'' ''INFO'' ''payment-verified:'' p)
                   (createAudit c (mp_organizationId p) ''MANUAL_PAYMENT_VERIFIED'' ''MANUAL_PAYMENT'' k (fst x)),
                 \<lparr>vr_payment = verified_payment c p,
                  vr_invoice = paid_invoice c v (nv_amountPaid v + mp_amount p) v,
                  vr_subscriptionActivated = snd x, vr_idempotent = False\<rparr>)))) = Inr (t', r)"
    using b st due by (simp add: Let_def case_prod_unfold split: if_splits)
  then obtain t1 t2 x where t1: "update_payment k (verified_payment c) t = Inr t1"
    and t2: "update_invoice (nv_id v) (paid_invoice c v (nv_amountPaid v + mp_amount p)) t1 = Inr t2"
    and t3: "(if nv_amountPaid v + mp_amount p = nv_totalAmount v
                   then activateFromPaidInvoice c (paid_invoice c v (nv_amountPaid v + mp_amount p) v) t2
                   else Inr (t2, False)) = Inr x"
    and fin: "ledger t' = ledger (fst x)" "vr_invoice r = paid_invoice c v (nv_amountPaid v + mp_amount p) v"
    by (elim andThen_InrE) auto
  obtain t3' b where x: "x = (t3', b)" by fastforce
  show thesis using that [OF p pend v st due t1 t2 t3 [unfolded x]] fin x by simp
qed

text \<open>The result of a review that was not idempotent: the payment is verified and the invoice
  has its amount.\<close>

lemma verifyManualPayment_step:
  assumes "verifyManualPayment c k t = Inr (t', r)" and ok: "billing_ok t" and new: "\<not> vr_idempotent r"
  obtains p v where "find_payment k t = Some p" "mp_verificationStatus p = ''PENDING_VERIFICATION''"
    "find_invoice (mp_invoiceId p) t = Some v" "nv_status v \<in> set [''OPEN'', ''OVERDUE'']"
    "mp_amount p \<le> nv_amountDue v" "billing_ok t'"
    "find_invoice (nv_id v) t' = Some (paid_invoice c v (nv_amountPaid v + mp_amount p) v)"
    "vr_invoice r = paid_invoice c v (nv_amountPaid v + mp_amount p) v"
    "bt_lines t' = bt_lines t"
proof -
  obtain p v t1 t2 t3 b where p: "find_payment k t = Some p" "mp_verificationStatus p = ''PENDING_VERIFICATION''"
    and v: "find_invoice (mp_invoiceId p) t = Some v" "nv_status v \<in> set [''OPEN'', ''OVERDUE'']"
    and amount: "mp_amount p \<le> nv_amountDue v"
    and t1: "update_payment k (verified_payment c) t = Inr t1"
    and t2: "update_invoice (nv_id v) (paid_invoice c v (nv_amountPaid v + mp_amount p)) t1 = Inr t2"
    and t3: "(if nv_amountPaid v + mp_amount p = nv_totalAmount v
              then activateFromPaidInvoice c (paid_invoice c v (nv_amountPaid v + mp_amount p) v) t2
              else Inr (t2, False)) = Inr (t3, b)"
    and fin: "ledger t' = ledger t3" and r: "vr_invoice r = paid_invoice c v (nv_amountPaid v + mp_amount p) v"
    by (rule verifyManualPayment_parts [OF assms(1) new])
  have vin: "v \<in> set (bt_invoices t)" "nv_id v = mp_invoiceId p" using find_invoice_Some [OF v(1)] by auto
  note u = update_payment_total [OF t1 ok p(1)]
  have keep: "mp_id (verified_payment c x) = mp_id x" "mp_invoiceId (verified_payment c x) = mp_invoiceId x"
    "mp_amount (verified_payment c x) = mp_amount x" "mp_verificationStatus (verified_payment c x) = ''VERIFIED''" for x
    by (simp_all add: verified_payment_def)
  note u = u [OF keep(1-3)]
  have tot: "verified_total j t1 = verified_total j t + (if j = nv_id v then mp_amount p else 0)" for j
    using u(1) [of j] p(2) vin(2) keep(4) by auto
  have chk: "find_invoice (nv_id v) t1 = Some v"
    using v(1) vin(2) u(2) by (simp add: find_invoice_def)
  have only: "w = v" if "w \<in> set (bt_invoices t)" "nv_id w = nv_id v" for w
    using find_invoice_in [OF ok that(1)] that(2) v(1) vin(2) by simp
  have np: "nv_status v \<noteq> ''PAID''" using v(2) by auto
  let ?f = "paid_invoice c v (nv_amountPaid v + mp_amount p)"
  have t2': "t2 = t1\<lparr>bt_invoices := update_where (\<lambda>w. nv_id w = nv_id v) ?f (bt_invoices t1)\<rparr>"
    and c2: "invoice_checks (?f v)"
    using t2 chk by (auto simp: update_invoice_def split: if_splits)
  have row: "invoice_ok {} t2 w'" if "w' \<in> set (bt_invoices t2)" for w'
  proof -
    from that obtain w where w: "w \<in> set (bt_invoices t)" "w' = (if nv_id w = nv_id v then ?f w else w)"
      by (auto simp: t2' update_where_def u(2))
    have old: "invoice_ok {} t w" using ok w(1) by (auto simp: ledger_ok_def list_all_iff)
    have frame: "verified_total j t2 = verified_total j t1" "lines_match t2 x = lines_match t x"
        "charge_total j t2 = charge_total j t" "discount_total j t2 = discount_total j t" for j x
      using u(3) by (simp_all add: t2' verified_total_def lines_match_def charge_total_def discount_total_def invoice_lines_def)
    show ?thesis
    proof (cases "nv_id w = nv_id v")
      case True
      then have "w = v" "w' = ?f v" using only w by auto
      then show ?thesis using old c2
        by (auto simp: invoice_ok_def frame tot paid_invoice_def Let_def payg_invoice_def lines_match_def np)
    next
      case False
      then show ?thesis using old w(2) by (auto simp: invoice_ok_def frame tot)
    qed
  qed
  have ids: "map nv_id (bt_invoices t2) = map nv_id (bt_invoices t)"
    by (simp add: t2' update_where_def u(2) paid_invoice_def Let_def)
  have "bt_lines t2 = bt_lines t" "bt_payments t2 = bt_payments t1" by (simp_all add: t2' u(3))
  then have ok2: "billing_ok t2" using row ok ids u(4,5) by (auto simp: ledger_ok_def list_all_iff)
  have l3: "ledger t3 = ledger t2" using t3 activateFromPaidInvoice_ledger by (auto split: if_splits)
  have f2: "find_invoice (nv_id v) t2 = Some (?f v)"
  proof -
    have "v \<in> set (bt_invoices t1)" using vin(1) u(2) by simp
    then have "?f v \<in> set (bt_invoices t2)" by (auto simp: t2' update_where_def)
    then show ?thesis using find_invoice_in [OF ok2] by (fastforce simp: paid_invoice_def Let_def)
  qed
  show thesis
  proof (rule that [OF p v amount])
    show "billing_ok t'" using ok2 fin l3 same_ledger_ok by metis
    show "find_invoice (nv_id v) t' = Some (paid_invoice c v (nv_amountPaid v + mp_amount p) v)"
      using f2 fin l3 ledger_find by metis
    show "vr_invoice r = paid_invoice c v (nv_amountPaid v + mp_amount p) v" by (rule r)
    show "bt_lines t' = bt_lines t" using fin l3 \<open>bt_lines t2 = bt_lines t\<close> by (simp add: ledger_def)
  qed
qed

lemma verifyManualPayment_ok:
  assumes "verifyManualPayment c k t = Inr (t', r)" and ok: "billing_ok t"
  shows "billing_ok t'"
proof (cases "vr_idempotent r")
  case True
  then have "t' = t" using assms(1)
    by (auto simp: verifyManualPayment_def andThen_Inr_iff Let_def split: if_splits)
  then show ?thesis using ok by simp
next
  case False
  from verifyManualPayment_step [OF assms False] show ?thesis by blast
qed

section \<open>Lines, voiding and packages\<close>

lemma prepared_line_ledger:
  "prepared_line c v i t = Inr (t', l) \<Longrightarrow> ledger t' = ledger t \<and> ln_invoiceId l = nv_id v"
  by (auto simp: prepared_line_def andThen_Inr_iff Let_def invoice_line_of_def split: line_input.splits if_splits
      dest: ledger_statements)

lemma add_and_open_ok:
  assumes i: "insert_lines k [l] t = Inr t1" and ok: "billing_ok t" and l: "ln_invoiceId l = k"
    and u: "update_invoice k (\<lambda>r. r\<lparr>nv_status := ''OPEN'', nv_issuedAt := x\<rparr>) t1 = Inr t2"
  shows "billing_ok t2"
proof -
  have ok1: "billing_ok t1" using insert_lines_ok(1) [OF i ok] l by simp
  have "billing_ok t1 \<Longrightarrow> w \<in> set (bt_invoices t1) \<Longrightarrow> \<not> payg_invoice w \<Longrightarrow> lines_match t1 w" for w
    by (auto simp: ledger_ok_def list_all_iff invoice_ok_def)
  then show ?thesis
    by (intro update_invoice_ok(1) [OF u ok1])
      (use ok1 in \<open>auto simp: lines_match_def payg_invoice_def\<close>)
qed

lemma addInvoiceLine_ok:
  assumes "addInvoiceLine c k i t = Inr (t', l)" and ok: "billing_ok t"
  shows "billing_ok t'"
proof -
  obtain v t1 t2 t3 where v: "find_invoice k t = Some v" and t1: "prepared_line c v i t = Inr (t1, l)"
    and t2: "insert_lines k [l] t1 = Inr t2"
    and t3: "update_invoice k (\<lambda>r. r\<lparr>nv_status := ''OPEN'',
                 nv_issuedAt := Some (opt_or (nv_issuedAt v) (bc_now c))\<rparr>) t2 = Inr t3"
    and fin: "ledger t' = ledger t3"
    using assms(1) by (auto simp: addInvoiceLine_def andThen_Inr_iff Let_def split: if_splits)
  have ok1: "billing_ok t1" using prepared_line_ledger [OF t1] ok same_ledger_ok by blast
  have "ln_invoiceId l = k" using prepared_line_ledger [OF t1] find_invoice_Some [OF v] by simp
  then have "billing_ok t3" using add_and_open_ok [OF t2 ok1 _ t3] by simp
  then show ?thesis using fin same_ledger_ok by blast
qed

lemma voidInvoice_ok:
  assumes "voidInvoice c k t = Inr t'" and ok: "billing_ok t"
  shows "billing_ok t'"
proof -
  obtain t1 t2 where l1: "ledger t1 = ledger t"
    and t2: "update_invoice k (\<lambda>r. r\<lparr>nv_status := ''VOID'', nv_voidedAt := Some (bc_now c)\<rparr>) t1 = Inr t2"
    and fin: "ledger t' = ledger t2"
    using assms(1)
    by (auto simp: voidInvoice_def andThen_Inr_iff Let_def split: if_splits dest: ledger_statements)
  have ok1: "billing_ok t1" using same_ledger_ok [OF l1 ok] .
  have "billing_ok t1 \<Longrightarrow> w \<in> set (bt_invoices t1) \<Longrightarrow> \<not> payg_invoice w \<Longrightarrow> lines_match t1 w" for w
    by (auto simp: ledger_ok_def list_all_iff invoice_ok_def)
  then have "billing_ok t2"
    by (intro update_invoice_ok(1) [OF t2 ok1])
      (use ok1 in \<open>auto simp: lines_match_def payg_invoice_def\<close>)
  then show ?thesis using fin same_ledger_ok by blast
qed

lemma period_invoice_Some: "period_invoice org from until t = Some v \<Longrightarrow> v \<in> set (bt_invoices t) \<and> period_key org from until v"
  by (auto simp: period_invoice_def dest: find_Some_D)

lemma editablePeriodInvoice_ok:
  assumes "editablePeriodInvoice c s cur t = Inr (t', v)" and ok: "billing_ok t"
  shows "billing_ok t'"
proof -
  have "t' = t \<or> (\<exists>from until. insert_invoice (draft_period_invoice c s cur from until) t = Inr t')"
    using assms(1) by (auto simp: editablePeriodInvoice_def andThen_Inr_iff Let_def split: if_splits option.splits)
  then show ?thesis
    using ok insert_invoice_ok(1) [OF _ ok] by (auto simp: draft_period_invoice_def)
qed

lemma assignOrderPackage_ok:
  assumes "assignOrderPackage c k code n t = Inr t'" and ok: "billing_ok t"
  shows "billing_ok t'"
proof -
  obtain s a v t1 t2 t3 t4 where t1: "insert_item (package_item c s a n) t = Inr t1"
    and t2: "editablePeriodInvoice c s (ca_currency a) t1 = Inr (t2, v)"
    and t3: "insert_lines (nv_id v) [invoice_line_of c v ''ORDER_PACKAGE'' (ca_code a) (ca_displayName a) n
              (ca_unitPrice a) (Some (im_id (package_item c s a n)))] t2 = Inr t3"
    and t4: "update_invoice (nv_id v) (\<lambda>r. r\<lparr>nv_status := ''OPEN'',
                 nv_issuedAt := Some (opt_or (nv_issuedAt v) (bc_now c))\<rparr>) t3 = Inr t4"
    and fin: "ledger t' = ledger t4"
    using assms(1) by (auto simp: assignOrderPackage_def andThen_Inr_iff Let_def)
  have "billing_ok t1" using ledger_statements(4) [OF t1] ok same_ledger_ok by blast
  then have "billing_ok t2" using editablePeriodInvoice_ok [OF t2] by blast
  then have "billing_ok t4" using add_and_open_ok [OF t3 _ _ t4] by (simp add: invoice_line_of_def)
  then show ?thesis using fin same_ledger_ok by blast
qed

end
