(* ===== verification/BillingClose.thy ===== *)
theory BillingClose
  imports BillingSteps
begin

text \<open>
  The close of a pay-as-you-go period: what the invoice says after it, what its lines add up
  to, and the operations of the service keep the invariant of the tables.
\<close>

section \<open>The tax of the lines\<close>

lemma add_remainder_sum:
  "0 \<le> r \<Longrightarrow> r \<le> int (length as) \<Longrightarrow> sum_list (add_remainder r as) = sum_list as + r"
  by (induction r as rule: add_remainder.induct) auto

lemma add_remainder_length [simp]: "length (add_remainder r as) = length as"
  by (induction r as rule: add_remainder.induct) auto

lemma floor_parts:
  fixes t s :: int
  assumes "0 < s"
  shows "s * sum_of (\<lambda>a. t * a div s) as \<le> t * sum_list as"
    "t * sum_list as - s * sum_of (\<lambda>a. t * a div s) as \<le> (s - 1) * int (length as)"
proof -
  have "s * sum_of (\<lambda>a. t * a div s) as \<le> t * sum_list as
      \<and> t * sum_list as - s * sum_of (\<lambda>a. t * a div s) as \<le> (s - 1) * int (length as)"
  proof (induction as)
    case Nil
    then show ?case by simp
  next
    case (Cons a as)
    define q m where "q = t * a div s" and "m = t * a mod s"
    have e: "t * a = s * q + m" unfolding q_def m_def by (simp add: mult.commute)
    have m: "0 \<le> m" "m \<le> s - 1" using assms by (simp_all add: m_def)
    have sums: "sum_of (\<lambda>a. t * a div s) (a # as) = q + sum_of (\<lambda>a. t * a div s) as"
      "t * sum_list (a # as) = s * q + m + t * sum_list as"
      by (simp_all add: q_def [symmetric] distrib_left e [symmetric])
    have "(s - 1) * int (length (a # as)) = (s - 1) + (s - 1) * int (length as)" by (simp add: algebra_simps)
    then show ?case using Cons m unfolding sums by (simp only: distrib_left) linarith
  qed
  then show "s * sum_of (\<lambda>a. t * a div s) as \<le> t * sum_list as"
    "t * sum_list as - s * sum_of (\<lambda>a. t * a div s) as \<le> (s - 1) * int (length as)" by auto
qed

text \<open>The tax handed out to the lines is the tax of the invoice.\<close>

lemma allocate_tax_sum:
  assumes "0 < sum_list amounts"
  shows "sum_list (allocate_tax totalTax amounts) = totalTax"
proof -
  let ?s = "sum_list amounts" and ?f = "sum_of (\<lambda>a. totalTax * a div sum_list amounts) amounts"
  note p = floor_parts [OF assms, of totalTax amounts]
  have "?s * ?f \<le> ?s * totalTax" using p(1) by (simp add: mult.commute)
  then have lo: "?f \<le> totalTax" using assms by simp
  have "?s * (totalTax - ?f) \<le> (?s - 1) * int (length amounts)"
    using p(2) by (simp add: algebra_simps)
  also have "\<dots> \<le> ?s * int (length amounts)" by (intro mult_right_mono) auto
  finally have hi: "totalTax - ?f \<le> int (length amounts)" using assms by simp
  show ?thesis using add_remainder_sum [of "totalTax - ?f" "map (\<lambda>a. totalTax * a div ?s) amounts"] lo hi
    by (simp add: allocate_tax_def Let_def)
qed

lemma line_by_line_sum:
  assumes "line_by_line_taxes p amounts = Inr taxes" and "tp_treatment p = ''INCLUSIVE''"
    and "tax_of_amounts ''INCLUSIVE'' (opt_or (tp_rateBps p) 0) (tp_roundingMode p) amounts = Inr s"
  shows "sum_list taxes = s" "length taxes = length amounts"
proof -
  have "sum_list taxes = s \<and> length taxes = length amounts" using assms(1,3)
  proof (induction amounts arbitrary: taxes s)
    case Nil
    then show ?case by simp
  next
    case (Cons a as)
    obtain r rs where r: "calculateBillingTax (p\<lparr>tp_roundingScope := ''INVOICE''\<rparr>) a None = Inr r"
      and rs: "line_by_line_taxes p as = Inr rs" and taxes: "taxes = tr_taxAmount r # rs"
      using Cons.prems(1) by (auto simp: andThen_Inr_iff)
    obtain x y where x: "roundRatio (a * opt_or (tp_rateBps p) 0) (10000 + opt_or (tp_rateBps p) 0) (tp_roundingMode p) = Inr x"
      and y: "tax_of_amounts ''INCLUSIVE'' (opt_or (tp_rateBps p) 0) (tp_roundingMode p) as = Inr y" and s: "s = x + y"
      using Cons.prems(2) by (auto simp: andThen_Inr_iff)
    have "tr_taxAmount r = x"
      using r x assms(2) by (auto simp: calculateBillingTax_def andThen_Inr_iff split: if_splits)
    then show ?case using Cons.IH [OF rs y] s taxes by simp
  qed
  then show "sum_list taxes = s" "length taxes = length amounts" by auto
qed

definition line_taxes :: "version_row \<Rightarrow> int list \<Rightarrow> int \<Rightarrow> billing_failure + int list" where
  "line_taxes v amounts tax =
     (if pw_taxTreatment v = ''INCLUSIVE'' then calculateInclusiveLineTaxes amounts tax (taxPolicyFor v)
      else Inr (map (\<lambda>_. 0) amounts))"

lemma line_taxes_sum:
  assumes tax: "calculateBillingTax (taxPolicyFor v) (sum_list amounts)
      (if tp_roundingScope (taxPolicyFor v) = ''STALL_LINE'' \<and> amounts \<noteq> [] then Some amounts else None) = Inr tax"
    and taxes: "line_taxes v amounts (tr_taxAmount tax) = Inr taxes"
  shows "length taxes = length amounts" "sum_list amounts - sum_list taxes = tr_subtotal tax"
proof -
  note t = calculateBillingTax_amounts [OF tax]
  have pol: "tp_treatment (taxPolicyFor v) = pw_taxTreatment v" by (simp add: taxPolicyFor_def)
  have "length taxes = length amounts \<and> sum_list amounts - sum_list taxes = tr_subtotal tax"
  proof (cases "pw_taxTreatment v = ''INCLUSIVE''")
    case False
    then show ?thesis using taxes t(7) pol by (auto simp: line_taxes_def map_replicate_const sum_list_replicate)
  next
    case True
    then have tot: "tr_subtotal tax = sum_list amounts - tr_taxAmount tax" using t(1,6) pol by simp
    show ?thesis
    proof (cases "tp_roundingScope (taxPolicyFor v) = ''STALL_LINE''")
      case scope: True
      then have ne: "amounts \<noteq> []" and
        "tax_of_amounts ''INCLUSIVE'' (opt_or (tp_rateBps (taxPolicyFor v)) 0) (tp_roundingMode (taxPolicyFor v)) amounts
           = Inr (tr_taxAmount tax)"
        using tax True pol
        by (auto simp: calculateBillingTax_def andThen_Inr_iff validateLineAmounts_def split: if_splits)
      then show ?thesis
        using line_by_line_sum [of "taxPolicyFor v" amounts taxes "tr_taxAmount tax"] taxes True scope pol tot
        by (simp add: line_taxes_def calculateInclusiveLineTaxes_def)
    next
      case False
      show ?thesis
      proof (cases "sum_list amounts = 0")
        case z: True
        then have "tr_taxAmount tax = 0" using t(2,4) by simp
        then show ?thesis using taxes True False z tot
          by (auto simp: line_taxes_def calculateInclusiveLineTaxes_def map_replicate_const sum_list_replicate)
      next
        case nz: False
        then have "0 < sum_list amounts" using t(5) by simp
        then show ?thesis using taxes True False nz tot allocate_tax_sum
          by (auto simp: line_taxes_def calculateInclusiveLineTaxes_def allocate_tax_def Let_def)
      qed
    qed
  qed
  then show "length taxes = length amounts" "sum_list amounts - sum_list taxes = tr_subtotal tax" by auto
qed

section \<open>Credits\<close>

lemma select_credits_bound:
  "applied \<le> limit \<Longrightarrow> applied + sum_of credit_amount (select_credits applied limit ks) \<le> limit"
  by (induction applied limit ks rule: select_credits.induct) (auto simp: add.assoc)

lemma selected_within_total: "0 \<le> n \<Longrightarrow> sum_of credit_amount (selectCreditsWithinTotal ks n) \<le> n"
  using select_credits_bound [of 0 n ks] by (simp add: selectCreditsWithinTotal_def)

section \<open>The steps of a close\<close>

definition selected_credits ::
  "billed_subscription \<Rightarrow> invoice_row \<Rightarrow> instant \<Rightarrow> tax_result \<Rightarrow> billing_tables \<Rightarrow> credit_adjustment list" where
  "selected_credits s i periodStart tax t =
     selectCreditsWithinTotal (applicable_credits periodStart t (credit_candidates (sx_id s) (nv_id i) t))
       (tr_totalAmount tax)"

lemma settle_period_parts:
  assumes "settle_period env c s v periodStart periodEnd ss existing t = Inr (t', r)"
  obtains tax taxes i t1 t2 t3 t4 t6 t7 where
    "calculateBillingTax (taxPolicyFor v) (sum_list (map us_finalCharge ss))
       (if tp_roundingScope (taxPolicyFor v) = ''STALL_LINE'' \<and> map us_finalCharge ss \<noteq> []
        then Some (map us_finalCharge ss) else None) = Inr tax"
    "line_taxes v (map us_finalCharge ss) (tr_taxAmount tax) = Inr taxes"
    "(case existing of Some i \<Rightarrow> Inr (i, t)
      | None \<Rightarrow> andThen (new_period_invoice env c s v periodStart periodEnd) (\<lambda>i.
                andThen (insert_invoice i t) (\<lambda>t'. Inr (i, t')))) = Inr (i, t1)"
    "delete_lines (nv_id i) is_payg_line t1 = Inr t2"
    "insert_lines (nv_id i) (usage_lines c i periodStart t2 ss taxes) t2 = Inr t3"
    "insert_lines (nv_id i) (credit_lines c i (length ss) (selected_credits s i periodStart tax t1)) t3 = Inr t4"
    "nv_amountPaid i \<le> tr_totalAmount tax - sum_of credit_amount (selected_credits s i periodStart tax t1)"
    "update_invoice (nv_id i)
       (opened_invoice c s v i tax (sum_of credit_amount (selected_credits s i periodStart tax t1)))
       (settle_credits (bc_now c) (nv_id i) (credit_candidates (sx_id s) (nv_id i) t1)
          (selected_credits s i periodStart tax t1) t4) = Inr t6"
    "ledger t7 = ledger t6" "bt_credits t7 = bt_credits t6"
    "find_invoice (nv_id i) t7 = Some (co_invoice r)"
    "ledger t' = ledger t7" "bt_credits t' = bt_credits t7" "co_summaries r = ss" "\<not> co_idempotent r"
proof -
  from assms obtain tax taxes x where
    tax: "calculateBillingTax (taxPolicyFor v) (sum_list (map us_finalCharge ss))
       (if tp_roundingScope (taxPolicyFor v) = ''STALL_LINE'' \<and> map us_finalCharge ss \<noteq> []
        then Some (map us_finalCharge ss) else None) = Inr tax"
    and taxes: "line_taxes v (map us_finalCharge ss) (tr_taxAmount tax) = Inr taxes"
    and x: "(case existing of Some i \<Rightarrow> Inr (i, t)
      | None \<Rightarrow> andThen (new_period_invoice env c s v periodStart periodEnd) (\<lambda>i.
                andThen (insert_invoice i t) (\<lambda>t'. Inr (i, t')))) = Inr x"
    and rest: "(case x of (i, t1) \<Rightarrow>
      let found = credit_candidates (sx_id s) (nv_id i) t1;
          selected = selectCreditsWithinTotal (applicable_credits periodStart t1 found) (tr_totalAmount tax);
          creditTotal = sum_of credit_amount selected in
      andThen (delete_lines (nv_id i) is_payg_line t1) (\<lambda>t2.
      andThen (insert_lines (nv_id i) (usage_lines c i periodStart t2 ss taxes) t2) (\<lambda>t3.
      andThen (insert_lines (nv_id i) (credit_lines c i (length ss) selected) t3) (\<lambda>t4.
      let t5 = settle_credits (bc_now c) (nv_id i) found selected t4 in
      if nv_amountPaid i > tr_totalAmount tax - creditTotal then Inl (PaygBillingError PAYG_INVOICE_CONFLICT)
      else
      andThen (update_invoice (nv_id i) (opened_invoice c s v i tax creditTotal) t5) (\<lambda>t6.
      andThen (if monthStart (sx_billingPeriodStart s) = periodStart
               then update_subscription (bc_now c) False (sx_id s)
                      (\<lambda>r. r\<lparr>sx_billingPeriodStart := periodEnd,
                            sx_billingPeriodEnd := addUtcMonths periodEnd 1\<rparr>) t6
               else Inr t6) (\<lambda>t7.
      andThen (not_found (find_invoice (nv_id i) t7) (DatabaseError RecordNotFound)) (\<lambda>opened.
        Inr (createAudit c (sx_organizationId s) ''PAYG_INVOICE_CLOSED'' ''INVOICE'' (nv_id i) t7,
             \<lparr>co_invoice = opened, co_summaries = ss, co_idempotent = False\<rparr>)))))))) = Inr (t', r)"
    unfolding settle_period_def Let_def [of "map us_finalCharge ss"] Let_def [of "taxPolicyFor v"]
      line_taxes_def [symmetric]
    by (elim andThen_InrE) (rule that, assumption+)
  obtain i t1 where i: "x = (i, t1)" by fastforce
  let ?sel = "selected_credits s i periodStart tax t1"
  from rest obtain t2 t3 t4 where
    t2: "delete_lines (nv_id i) is_payg_line t1 = Inr t2"
    and t3: "insert_lines (nv_id i) (usage_lines c i periodStart t2 ss taxes) t2 = Inr t3"
    and t4: "insert_lines (nv_id i) (credit_lines c i (length ss) ?sel) t3 = Inr t4"
    and rest: "(if nv_amountPaid i > tr_totalAmount tax - sum_of credit_amount ?sel
       then Inl (PaygBillingError PAYG_INVOICE_CONFLICT)
      else
      andThen (update_invoice (nv_id i) (opened_invoice c s v i tax (sum_of credit_amount ?sel))
         (settle_credits (bc_now c) (nv_id i) (credit_candidates (sx_id s) (nv_id i) t1) ?sel t4)) (\<lambda>t6.
      andThen (if monthStart (sx_billingPeriodStart s) = periodStart
               then update_subscription (bc_now c) False (sx_id s)
                      (\<lambda>r. r\<lparr>sx_billingPeriodStart := periodEnd,
                            sx_billingPeriodEnd := addUtcMonths periodEnd 1\<rparr>) t6
               else Inr t6) (\<lambda>t7.
      andThen (not_found (find_invoice (nv_id i) t7) (DatabaseError RecordNotFound)) (\<lambda>opened.
        Inr (createAudit c (sx_organizationId s) ''PAYG_INVOICE_CLOSED'' ''INVOICE'' (nv_id i) t7,
             \<lparr>co_invoice = opened, co_summaries = ss, co_idempotent = False\<rparr>))))) = Inr (t', r)"
    unfolding i prod.case Let_def selected_credits_def [symmetric]
    by (elim andThen_InrE) (rule that, assumption+)
  have le: "nv_amountPaid i \<le> tr_totalAmount tax - sum_of credit_amount ?sel"
    using rest by (auto split: if_splits)
  from rest le obtain t6 t7 opened where
    t6: "update_invoice (nv_id i) (opened_invoice c s v i tax (sum_of credit_amount ?sel))
         (settle_credits (bc_now c) (nv_id i) (credit_candidates (sx_id s) (nv_id i) t1) ?sel t4) = Inr t6"
    and t7: "(if monthStart (sx_billingPeriodStart s) = periodStart
               then update_subscription (bc_now c) False (sx_id s)
                      (\<lambda>r. r\<lparr>sx_billingPeriodStart := periodEnd,
                            sx_billingPeriodEnd := addUtcMonths periodEnd 1\<rparr>) t6
               else Inr t6) = Inr t7"
    and op: "find_invoice (nv_id i) t7 = Some opened"
    and fin: "t' = createAudit c (sx_organizationId s) ''PAYG_INVOICE_CLOSED'' ''INVOICE'' (nv_id i) t7"
      "r = \<lparr>co_invoice = opened, co_summaries = ss, co_idempotent = False\<rparr>"
    by (auto simp: andThen_Inr_iff)
  have l7: "ledger t7 = ledger t6" using t7 ledger_statements(1) by (auto split: if_splits)
  have c7: "bt_credits t7 = bt_credits t6"
    using t7 by (auto simp: update_subscription_def put_subscription_def andThen_Inr_iff split: if_splits)
  show thesis
    by (rule that [OF tax taxes x [unfolded i] t2 t3 t4 le t6 l7 c7])
      (use op fin in \<open>simp_all add: createAudit_def ledger_def\<close>)
qed

lemma usage_line_invoice [simp]: "l \<in> set (usage_lines c i p t ss taxes) \<Longrightarrow> ln_invoiceId l = nv_id i"
  by (auto simp: usage_lines_def usage_line_def)

lemma credit_line_invoice [simp]: "l \<in> set (credit_lines c i n ks) \<Longrightarrow> ln_invoiceId l = nv_id i"
  by (auto simp: credit_lines_def credit_line_def)

lemma settle_ledger_credits:
  "find_invoice k (settle_credits now j cs ks t) = find_invoice k t"
  "bt_lines (settle_credits now j cs ks t) = bt_lines t"
  by (simp_all add: settle_credits_def find_invoice_def Let_def)

lemma new_period_invoice_fields:
  "new_period_invoice env c s v a b = Inr i \<Longrightarrow>
     nv_amountPaid i = 0 \<and> nv_subtotal i = 0 \<and> nv_discountAmount i = 0 \<and> nv_status i = ''DRAFT''
     \<and> nv_taxAmount i = 0 \<and> nv_organizationId i = sx_organizationId s
     \<and> nv_billingPeriodStart i = a \<and> nv_billingPeriodEnd i = b"
  by (auto simp: new_period_invoice_def andThen_Inr_iff)

text \<open>What a close that computes the period leaves behind.\<close>

lemma settle_period_result:
  assumes settle: "settle_period env c s v periodStart periodEnd ss existing t = Inr (t', r)"
    and ok: "billing_ok t" and ex: "\<And>i. existing = Some i \<Longrightarrow> find_invoice (nv_id i) t = Some i"
    and mode: "pw_pricingMode v = ''USAGE_PER_STALL_CAPPED''"
  shows "billing_ok t'" "find_invoice (nv_id (co_invoice r)) t' = Some (co_invoice r)"
    "\<exists>tax taxes i t1. calculateBillingTax (taxPolicyFor v) (sum_list (map us_finalCharge ss))
       (if tp_roundingScope (taxPolicyFor v) = ''STALL_LINE'' \<and> map us_finalCharge ss \<noteq> []
        then Some (map us_finalCharge ss) else None) = Inr tax
      \<and> nv_id i = nv_id (co_invoice r) \<and> (existing = None \<or> existing = Some i \<and> t1 = t)
      \<and> nv_subtotal (co_invoice r) = tr_subtotal tax \<and> nv_taxAmount (co_invoice r) = tr_taxAmount tax
      \<and> nv_discountAmount (co_invoice r) = sum_of credit_amount (selected_credits s i periodStart tax t1)
      \<and> nv_totalAmount (co_invoice r) = tr_totalAmount tax - nv_discountAmount (co_invoice r)
      \<and> nv_status (co_invoice r) = ''OPEN''
      \<and> bt_lines t' = filter (\<lambda>l. \<not> (ln_invoiceId l = nv_id i \<and> is_payg_line l)) (bt_lines t)
          @ usage_lines c i periodStart t1 ss taxes
          @ credit_lines c i (length ss) (selected_credits s i periodStart tax t1)
      \<and> line_taxes v (map us_finalCharge ss) (tr_taxAmount tax) = Inr taxes"
proof -
  obtain tax taxes i t1 t2 t3 t4 t6 t7 where
    tax: "calculateBillingTax (taxPolicyFor v) (sum_list (map us_finalCharge ss))
       (if tp_roundingScope (taxPolicyFor v) = ''STALL_LINE'' \<and> map us_finalCharge ss \<noteq> []
        then Some (map us_finalCharge ss) else None) = Inr tax"
    and taxes: "line_taxes v (map us_finalCharge ss) (tr_taxAmount tax) = Inr taxes"
    and inv: "(case existing of Some i \<Rightarrow> Inr (i, t)
      | None \<Rightarrow> andThen (new_period_invoice env c s v periodStart periodEnd) (\<lambda>i.
                andThen (insert_invoice i t) (\<lambda>t'. Inr (i, t')))) = Inr (i, t1)"
    and t2: "delete_lines (nv_id i) is_payg_line t1 = Inr t2"
    and t3: "insert_lines (nv_id i) (usage_lines c i periodStart t2 ss taxes) t2 = Inr t3"
    and t4: "insert_lines (nv_id i) (credit_lines c i (length ss) (selected_credits s i periodStart tax t1)) t3 = Inr t4"
    and t6: "update_invoice (nv_id i)
       (opened_invoice c s v i tax (sum_of credit_amount (selected_credits s i periodStart tax t1)))
       (settle_credits (bc_now c) (nv_id i) (credit_candidates (sx_id s) (nv_id i) t1)
          (selected_credits s i periodStart tax t1) t4) = Inr t6"
    and t7: "ledger t7 = ledger t6"
    and op: "find_invoice (nv_id i) t7 = Some (co_invoice r)" and fin: "ledger t' = ledger t7"
    by (rule settle_period_parts [OF settle])
  have ok1: "billing_ok t1" and f1: "find_invoice (nv_id i) t1 = Some i"
    and l1: "bt_lines t1 = bt_lines t" and e1: "existing = None \<or> existing = Some i \<and> t1 = t"
    using inv ok ex insert_invoice_ok(1,2,4) [OF _ ok, of i t1]
    by (auto simp: andThen_Inr_iff split: option.splits dest!: new_period_invoice_fields)
  note d = delete_lines_ok [OF t2 ok1]
  have i3: "billing_ok t3 \<and> bt_lines t3 = bt_lines t2 @ usage_lines c i periodStart t2 ss taxes
      \<and> map nv_id (bt_invoices t3) = map nv_id (bt_invoices t2)"
    using insert_lines_ok(1,2,4) [OF t3 d(1)] by (auto split: if_splits)
  have i4: "billing_ok t4 \<and> bt_lines t4 = bt_lines t3
       @ credit_lines c i (length ss) (selected_credits s i periodStart tax t1)"
    using insert_lines_ok(1,2) [OF t4, of "{}"] i3 by (auto split: if_splits)
  let ?t5 = "settle_credits (bc_now c) (nv_id i) (credit_candidates (sx_id s) (nv_id i) t1)
          (selected_credits s i periodStart tax t1) t4"
  have ok5: "billing_ok ?t5" using same_ledger_ok [OF ledger_beside(4)] i4 by blast
  let ?f = "opened_invoice c s v i tax (sum_of credit_amount (selected_credits s i periodStart tax t1))"
  note u = update_invoice_ok [OF t6 ok5, of "{}"]
  have ok6: "billing_ok t6 \<and> bt_lines t6 = bt_lines t4 \<and> find_invoice (nv_id i) t6 = map_option ?f (find_invoice (nv_id i) t4)"
    using u mode by (auto simp: opened_invoice_def payg_invoice_def settle_ledger_credits)
  show ok': "billing_ok t'" using ok6 fin t7 same_ledger_ok by metis
  have opened: "map_option ?f (find_invoice (nv_id i) t4) = Some (co_invoice r)"
    using op ok6 ledger_find [OF t7] by simp
  then obtain z where "find_invoice (nv_id i) t4 = Some z" and z: "co_invoice r = ?f z" by auto
  then have ids: "nv_id (co_invoice r) = nv_id i"
    using find_invoice_Some [of "nv_id i" t4 z] by (simp add: opened_invoice_def)
  show "find_invoice (nv_id (co_invoice r)) t' = Some (co_invoice r)"
    using op ids ledger_find [OF fin] by simp
  have names: "usage_lines c i periodStart t2 ss taxes = usage_lines c i periodStart t1 ss taxes"
  proof -
    have "bt_stalls t2 = bt_stalls t1"
      using t2 by (auto simp: delete_lines_def recalculate_invoice_totals_def update_invoice_def
          split: if_splits option.splits)
    then show ?thesis by (simp add: usage_lines_def usage_line_def stall_name_def)
  qed
  have lines: "bt_lines t' = filter (\<lambda>l. \<not> (ln_invoiceId l = nv_id i \<and> is_payg_line l)) (bt_lines t)
          @ usage_lines c i periodStart t1 ss taxes
          @ credit_lines c i (length ss) (selected_credits s i periodStart tax t1)"
    using fin t7 ok6 i4 i3 d(2) l1 names by (simp add: ledger_def)
  show "\<exists>tax taxes i t1. calculateBillingTax (taxPolicyFor v) (sum_list (map us_finalCharge ss))
       (if tp_roundingScope (taxPolicyFor v) = ''STALL_LINE'' \<and> map us_finalCharge ss \<noteq> []
        then Some (map us_finalCharge ss) else None) = Inr tax
      \<and> nv_id i = nv_id (co_invoice r) \<and> (existing = None \<or> existing = Some i \<and> t1 = t)
      \<and> nv_subtotal (co_invoice r) = tr_subtotal tax \<and> nv_taxAmount (co_invoice r) = tr_taxAmount tax
      \<and> nv_discountAmount (co_invoice r) = sum_of credit_amount (selected_credits s i periodStart tax t1)
      \<and> nv_totalAmount (co_invoice r) = tr_totalAmount tax - nv_discountAmount (co_invoice r)
      \<and> nv_status (co_invoice r) = ''OPEN''
      \<and> bt_lines t' = filter (\<lambda>l. \<not> (ln_invoiceId l = nv_id i \<and> is_payg_line l)) (bt_lines t)
          @ usage_lines c i periodStart t1 ss taxes
          @ credit_lines c i (length ss) (selected_credits s i periodStart tax t1)
      \<and> line_taxes v (map us_finalCharge ss) (tr_taxAmount tax) = Inr taxes"
    using tax taxes ids e1 lines
    by (intro exI [of _ tax] exI [of _ taxes] exI [of _ i] exI [of _ t1]) (auto simp: z opened_invoice_def)
qed

end
