(* ===== verification/BillingRules.thy ===== *)
theory BillingRules
  imports BillingClose
begin

text \<open>
  The properties of billing: the invariant over any sequence of operations, the figures of a
  closed period, what cannot be closed again, and the periods of a time zone.
\<close>

section \<open>A close, taken apart\<close>

text \<open>Whether the stored invoice of the period is returned, or the period is computed.\<close>

definition returned_as_is ::
  "billed_subscription \<Rightarrow> version_row \<Rightarrow> instant \<Rightarrow> billing_tables \<Rightarrow> billing_tables \<Rightarrow> close_result \<Rightarrow> bool" where
  "returned_as_is s v p t1 t' r \<longleftrightarrow>
     (\<exists>i. reusable_invoice s v (period_invoice (sx_organizationId s) (monthStart p)
            (addUtcMonths (monthStart p) 1) t1) t1 = Inr (Some i)
        \<and> t' = t1 \<and> r = \<lparr>co_invoice = i, co_summaries = period_summaries (sx_organizationId s) (monthStart p) t1,
                        co_idempotent = True\<rparr>)"

definition computed ::
  "billing_env \<Rightarrow> billing_call \<Rightarrow> billed_subscription \<Rightarrow> version_row \<Rightarrow> instant \<Rightarrow> billing_tables \<Rightarrow> billing_tables
     \<Rightarrow> close_result \<Rightarrow> bool" where
  "computed env c s v p t1 t' r \<longleftrightarrow>
     reusable_invoice s v (period_invoice (sx_organizationId s) (monthStart p)
            (addUtcMonths (monthStart p) 1) t1) t1 = Inr None
     \<and> settle_period env c s v (monthStart p) (addUtcMonths (monthStart p) 1)
          (period_summaries (sx_organizationId s) (monthStart p) t1)
          (period_invoice (sx_organizationId s) (monthStart p) (addUtcMonths (monthStart p) 1) t1) t1
        = Inr (t', r)"

lemma closeBillingPeriod_parts:
  assumes "closeBillingPeriod env c k p t = Inr (t', r)"
  obtains s v t1 where
    "chargeable_subscription env k t = Inr (s, v)"
    "assert_closable env (bc_now c) s (monthStart p) = Inr ()"
    "rebuild_payg_stall_usage_summaries c (sx_organizationId s) (monthStart p) t = Inr t1"
    "returned_as_is s v p t1 t' r \<or> computed env c s v p t1 t' r"
proof -
  from assms obtain sv where sv: "chargeable_subscription env k t = Inr sv"
    and rest: "(case sv of (s, v) \<Rightarrow>
     let periodStart = monthStart p; periodEnd = addUtcMonths periodStart 1 in
     andThen (assert_closable env (bc_now c) s periodStart) (\<lambda>_.
     andThen (rebuild_payg_stall_usage_summaries c (sx_organizationId s) periodStart t) (\<lambda>t1.
     let ss = period_summaries (sx_organizationId s) periodStart t1;
         existing = period_invoice (sx_organizationId s) periodStart periodEnd t1 in
     andThen (reusable_invoice s v existing t1) (\<lambda>reused.
       case reused of
         Some i \<Rightarrow> Inr (t1, \<lparr>co_invoice = i, co_summaries = ss, co_idempotent = True\<rparr>)
       | None \<Rightarrow> settle_period env c s v periodStart periodEnd ss existing t1)))) = Inr (t', r)"
    unfolding closeBillingPeriod_def by (elim andThen_InrE) (rule that, assumption+)
  obtain s v where x: "sv = (s, v)" by fastforce
  from rest obtain u t1 reused where
    a: "assert_closable env (bc_now c) s (monthStart p) = Inr u"
    and t1: "rebuild_payg_stall_usage_summaries c (sx_organizationId s) (monthStart p) t = Inr t1"
    and re: "reusable_invoice s v (period_invoice (sx_organizationId s) (monthStart p)
            (addUtcMonths (monthStart p) 1) t1) t1 = Inr reused"
    and fin: "(case reused of
         Some i \<Rightarrow> Inr (t1, \<lparr>co_invoice = i,
            co_summaries = period_summaries (sx_organizationId s) (monthStart p) t1, co_idempotent = True\<rparr>)
       | None \<Rightarrow> settle_period env c s v (monthStart p) (addUtcMonths (monthStart p) 1)
            (period_summaries (sx_organizationId s) (monthStart p) t1)
            (period_invoice (sx_organizationId s) (monthStart p) (addUtcMonths (monthStart p) 1) t1) t1) = Inr (t', r)"
    unfolding x prod.case Let_def by (elim andThen_InrE) (rule that, assumption+)
  show thesis
    by (rule that [OF sv [unfolded x] _ t1])
      (use a re fin in \<open>auto simp: returned_as_is_def computed_def split: option.splits\<close>)
qed

lemma chargeable_parts:
  assumes "chargeable_subscription env k t = Inr (s, v)"
  shows "find_subscription k t = Some s" "find_version (sx_planVersionId s) t = Some v"
    "pw_pricingMode v = ''USAGE_PER_STALL_CAPPED''" "pw_usageUnitPrice v = 1"
    "pw_monthlyCapAmount v = Some 1499" "assertPaygContractIntegrity env v = Inr ()"
proof -
  have a: "find_subscription k t = Some s \<and> find_version (sx_planVersionId s) t = Some v
      \<and> assertPaygVersion v = Inr () \<and> assertChargeablePaygContract env v = Inr ()"
    using assms unfolding chargeable_subscription_def by (elim andThen_InrE) (auto split: if_splits)
  then show "find_subscription k t = Some s" "find_version (sx_planVersionId s) t = Some v" by auto
  show "pw_pricingMode v = ''USAGE_PER_STALL_CAPPED''" "pw_usageUnitPrice v = 1"
    "pw_monthlyCapAmount v = Some 1499"
    using a by (auto simp: assertPaygVersion_def)
  show "assertPaygContractIntegrity env v = Inr ()"
    using a by (auto simp: assertChargeablePaygContract_def split: sum.splits billing_failure.splits)
qed

lemma period_invoice_found:
  "ledger_ok A t \<Longrightarrow> period_invoice org start until t = Some i \<Longrightarrow> find_invoice (nv_id i) t = Some i"
  using period_invoice_Some find_invoice_in by blast

lemma closeBillingPeriod_ok:
  assumes "closeBillingPeriod env c k p t = Inr (t', r)" and ok: "billing_ok t"
  shows "billing_ok t'"
proof -
  obtain s v t1 where sv: "chargeable_subscription env k t = Inr (s, v)"
    and t1: "rebuild_payg_stall_usage_summaries c (sx_organizationId s) (monthStart p) t = Inr t1"
    and res: "returned_as_is s v p t1 t' r \<or> computed env c s v p t1 t' r"
    by (rule closeBillingPeriod_parts [OF assms(1)])
  have ok1: "billing_ok t1" using ledger_statements(6) [OF t1] ok same_ledger_ok by blast
  from res show ?thesis
  proof
    assume "computed env c s v p t1 t' r"
    then show ?thesis
      unfolding computed_def
      using settle_period_result(1) [OF _ ok1 _ chargeable_parts(3) [OF sv]] period_invoice_found [OF ok1] by blast
  qed (use ok1 in \<open>auto simp: returned_as_is_def\<close>)
qed

lemma close_one_ok:
  assumes "close_one env c s (t, b) = Inr (t', b')" and ok: "billing_ok t"
  shows "billing_ok t'"
proof -
  have e: "ledger (fst (ensure_job s t)) = ledger t"
    by (auto simp: ensure_job_def ledger_def Let_def split: option.split)
  obtain t1 j where j: "ensure_job s t = (t1, j)" by fastforce
  let ?t2 = "update_job (close_job_key s) (claimed_job c) t1"
  let ?r = "closeBillingPeriod env (c\<lparr>bc_actorProfileId := None\<rparr>) (sx_id s) (sx_billingPeriodStart s) ?t2"
  have l1: "ledger t1 = ledger t" using e j by simp
  have l2: "ledger ?t2 = ledger t" using l1 by simp
  have "ledger t' = ledger t \<or> (\<exists>t3 x. ?r = Inr (t3, x) \<and> ledger t' = ledger t3)"
    using assms(1) j l1 l2
    by (auto simp: close_one_def andThen_Inr_iff Let_def split: option.splits if_splits sum.splits)
  then show ?thesis using closeBillingPeriod_ok same_ledger_ok [OF _ ok] same_ledger_ok [OF l2 ok] same_ledger_ok
    by metis
qed

lemma close_all_ok:
  "billing_ok (fst tr) \<Longrightarrow> billing_ok (fst (close_all env call ss tr))"
proof (induction env call ss tr rule: close_all.induct)
  case (1 env call tr)
  then show ?case by simp
next
  case (2 env call s ss tr)
  show ?case
  proof (cases "close_one env (call (length ss)) s tr")
    case (Inl e)
    then show ?thesis using "2.prems" by simp
  next
    case (Inr tr')
    moreover have "billing_ok (fst tr')"
      using close_one_ok [of env "call (length ss)" s "fst tr" "snd tr" "fst tr'" "snd tr'"] Inr "2.prems" by simp
    ultimately show ?thesis using "2.IH" [OF Inr] by simp
  qed
qed

section \<open>Sequences of operations\<close>

datatype billing_command =
  PlanChange uid uid string string
| AdditionalStalls uid int string
| RejectRequest uid string
| PlanInvoice plan_invoice_input
| SubmitPayment uid payment_input
| VerifyPayment uid
| RejectPayment uid
| AddLine uid line_input
| VoidInvoice uid
| Transition uid subscription_operation "int option"
| OrderPackage uid string int
| SealContract contract_input
| Migrate uid migrate_input
| ClosePeriod uid instant
| AutomaticClose

text \<open>The tables after a call: those of the transaction, or the old ones when it failed.\<close>

definition committed :: "billing_tables \<Rightarrow> 'e + billing_tables \<Rightarrow> billing_tables" where
  "committed t r = (case r of Inr t' \<Rightarrow> t' | Inl _ \<Rightarrow> t)"

definition committed_fst :: "billing_tables \<Rightarrow> 'e + billing_tables \<times> 'a \<Rightarrow> billing_tables" where
  "committed_fst t r = (case r of Inr (t', _) \<Rightarrow> t' | Inl _ \<Rightarrow> t)"

fun billing_apply :: "billing_env \<Rightarrow> billing_call \<times> billing_command \<Rightarrow> billing_tables \<Rightarrow> billing_tables" where
  "billing_apply env (c, PlanChange org v interval reason) t = committed t (requestPlanChange c org v interval reason t)"
| "billing_apply env (c, AdditionalStalls org n reason) t = committed t (requestAdditionalStalls c org n reason t)"
| "billing_apply env (c, RejectRequest k note) t = committed t (rejectBillingChangeRequest c k note t)"
| "billing_apply env (c, PlanInvoice i) t = committed_fst t (createPlanInvoice c i t)"
| "billing_apply env (c, SubmitPayment org i) t = committed_fst t (submitManualPayment c org i t)"
| "billing_apply env (c, VerifyPayment k) t = committed_fst t (verifyManualPayment c k t)"
| "billing_apply env (c, RejectPayment k) t = committed t (rejectManualPayment c k t)"
| "billing_apply env (c, AddLine k i) t = committed_fst t (addInvoiceLine c k i t)"
| "billing_apply env (c, VoidInvoice k) t = committed t (voidInvoice c k t)"
| "billing_apply env (c, Transition k p days) t = committed t (transitionSubscription c k p days t)"
| "billing_apply env (c, OrderPackage k code n) t = committed t (assignOrderPackage c k code n t)"
| "billing_apply env (c, SealContract i) t = committed_fst t (createAndSealPaygPlanVersion env c i t)"
| "billing_apply env (c, Migrate k i) t = committed t (migrateSubscription env c k i t)"
| "billing_apply env (c, ClosePeriod k p) t = committed_fst t (closeBillingPeriod env c k p t)"
| "billing_apply env (c, AutomaticClose) t =
     fst (processAutomaticPaygClose env (\<lambda>n. c\<lparr>bc_fresh := (\<lambda>m. bc_fresh c (n + 50 * m))\<rparr>) t)"

definition billing_run ::
  "billing_env \<Rightarrow> (billing_call \<times> billing_command) list \<Rightarrow> billing_tables \<Rightarrow> billing_tables" where
  "billing_run env cmds t = fold (billing_apply env) cmds t"

lemma billing_apply_ok: "billing_ok t \<Longrightarrow> billing_ok (billing_apply env cc t)"
proof (induction env cc t rule: billing_apply.induct)
  case (12 env c i t)
  then show ?case
    by (auto simp: committed_fst_def split: sum.splits dest!: createAndSeal_ledger intro: same_ledger_ok)
next
  case (15 env c t)
  then show ?case by (simp add: processAutomaticPaygClose_def Let_def close_all_ok)
qed (auto simp: committed_def committed_fst_def split: sum.splits
      dest: requestPlanChange_ledger requestAdditionalStalls_ledger rejectBillingChangeRequest_ledger
        transitionSubscription_ledger migrateSubscription_ledger
      intro: same_ledger_ok createPlanInvoice_ok submitManualPayment_ok verifyManualPayment_ok
        rejectManualPayment_ok addInvoiceLine_ok voidInvoice_ok assignOrderPackage_ok closeBillingPeriod_ok)

lemma billing_run_ok: "billing_ok t \<Longrightarrow> billing_ok (billing_run env cmds t)"
  unfolding billing_run_def by (induction cmds arbitrary: t) (simp_all add: billing_apply_ok)

definition empty_ledger :: "billing_tables \<Rightarrow> bool" where
  "empty_ledger t \<longleftrightarrow> bt_invoices t = [] \<and> bt_lines t = [] \<and> bt_payments t = []"

lemma empty_ledger_ok: "empty_ledger t \<Longrightarrow> billing_ok t"
  by (simp add: empty_ledger_def ledger_ok_def)

end
