(* ===== verification/BillingPeriods.thy ===== *)
theory BillingPeriods
  imports BillingTables
begin

text \<open>
  The calendar months of billing: the first day of a month survives being taken apart, months
  follow each other without a gap in every time zone, and the instant at which a period
  starts belongs to that period.
\<close>

section \<open>The first of a month\<close>

lemma year_of_era_year:
  fixes yoe doy :: int
  assumes "0 \<le> yoe" and "yoe < 400" and "0 \<le> doy" and "doy \<le> 337"
  defines "doe \<equiv> yoe * 365 + yoe div 4 - yoe div 100 + doy"
  shows "year_of_era doe = yoe" "0 \<le> doe" "doe < 146097"
proof -
  define a where "a = yoe div 100"
  define q where "q = yoe mod 100 div 4"
  define s where "s = yoe mod 4"
  have y: "yoe = 100 * a + 4 * q + s" "0 \<le> a" "a \<le> 3" "0 \<le> q" "q \<le> 24" "0 \<le> s" "s \<le> 3"
  proof -
    have "yoe mod 100 mod 4 = yoe mod 4" by (rule mod_mod_cancel) simp
    then have "yoe mod 100 = 4 * q + s" unfolding q_def s_def by (metis add.commute mod_mult_div_eq)
    moreover have "yoe = 100 * (yoe div 100) + yoe mod 100" by simp
    ultimately show "yoe = 100 * a + 4 * q + s" unfolding a_def by linarith
    show "0 \<le> a" "a \<le> 3" "0 \<le> q" "q \<le> 24" "0 \<le> s" "s \<le> 3"
      using assms(1,2) unfolding a_def q_def s_def by linarith+
  qed
  have d4: "yoe div 4 = 25 * a + q" using y by linarith
  have doe: "doe = 36524 * a + 1461 * q + 365 * s + doy" using y(1) d4 by (simp add: doe_def a_def)
  show "0 \<le> doe" "doe < 146097" using doe y assms(3,4) by linarith+
  have b: "doe div 36524 = a" using doe y assms(3,4) by linarith
  have c: "doe div 146096 = 0" using doe y assms(3,4) by linarith
  define e where "e = doe div 1460 - 25 * a - q"
  have e: "e = 0 \<or> e = 1 \<and> 1460 \<le> 24 * a + q + 365 * s + doy" unfolding e_def using doe y assms(3,4) by linarith
  have "doe - doe div 1460 + doe div 36524 - doe div 146096 = 365 * yoe + (doy - e)"
    using b c doe y(1) by (simp add: e_def)
  moreover have "0 \<le> doy - e" "doy - e < 365" using e y assms(3,4) by linarith+
  ultimately show "year_of_era doe = yoe" unfolding year_of_era_def by linarith
qed

lemma civil_of_first:
  assumes "1 \<le> m" and "m \<le> 12"
  shows "civil_from_days (days_from_civil y m 1) = (y, m, 1)"
proof -
  define y' where "y' = (if m \<le> 2 then y - 1 else y)"
  define mp where "mp = (if m > 2 then m - 3 else m + 9)"
  define doy where "doy = (153 * mp + 2) div 5"
  define doe where "doe = (y' mod 400) * 365 + (y' mod 400) div 4 - (y' mod 400) div 100 + doy"
  have mp: "0 \<le> mp" "mp \<le> 11" using assms by (auto simp: mp_def)
  have doy: "0 \<le> doy" "doy \<le> 337" using mp unfolding doy_def by linarith+
  have yoe: "0 \<le> y' mod 400" "y' mod 400 < 400" by simp_all
  note r = year_of_era_year [OF yoe doy, folded doe_def]
  have z: "days_from_civil y m 1 + 719468 = y' div 400 * 146097 + doe"
    by (simp add: days_from_civil_def Let_def y'_def [symmetric] mp_def [symmetric] doy_def doe_def)
  then have era: "(days_from_civil y m 1 + 719468) div 146097 = y' div 400"
    "(days_from_civil y m 1 + 719468) mod 146097 = doe"
    using r(2,3) by simp_all
  have doy': "doe - (365 * (y' mod 400) + (y' mod 400) div 4 - (y' mod 400) div 100) = doy" by (simp add: doe_def)
  have mp': "(5 * doy + 2) div 153 = mp" using mp unfolding doy_def by linarith
  have "civil_from_days (days_from_civil y m 1) =
      (let m' = (if mp < 10 then mp + 3 else mp - 9); w = y' mod 400 + y' div 400 * 400
       in (if m' \<le> 2 then w + 1 else w, m', doy - (153 * mp + 2) div 5 + 1))"
    unfolding civil_from_days_def Let_def era r(1) doy' mp' by simp
  also have "\<dots> = (y, m, 1)"
    using assms by (auto simp: Let_def doy_def mp_def y'_def)
  finally show ?thesis .
qed

lemma utc_of_first [simp]:
  "utc_year (date_utc y m 1) = y + m div 12" "utc_month (date_utc y m 1) = m mod 12"
  "utc_day (date_utc y m 1) = 1"
proof -
  have "1 \<le> m mod 12 + 1" "m mod 12 + 1 \<le> 12" by simp_all
  note c = civil_of_first [OF this, of "y + m div 12"]
  have d: "date_utc y m 1 div DAY_MS = days_from_civil (y + m div 12) (m mod 12 + 1) 1"
    by (simp add: date_utc_def DAY_MS_def)
  show "utc_year (date_utc y m 1) = y + m div 12" "utc_month (date_utc y m 1) = m mod 12"
    "utc_day (date_utc y m 1) = 1"
    by (simp_all add: utc_year_def utc_month_def utc_day_def d c)
qed

lemma date_utc_carry: "date_utc (y + m div 12) (m mod 12) d = date_utc y m d"
  by (simp add: date_utc_def)

lemma utc_month_range: "0 \<le> utc_month t" "utc_month t \<le> 11"
  using civil_month [of "t div DAY_MS"] by (auto simp: utc_month_def split: prod.splits)

lemma monthStart_idem [simp]: "monthStart (monthStart p) = monthStart p"
  by (simp add: monthStart_def date_utc_carry)

lemma monthStart_addUtcMonths [simp]: "monthStart (addUtcMonths p n) = addUtcMonths p n"
  by (simp add: monthStart_def addUtcMonths_def date_utc_carry)

lemma addUtcMonths_addUtcMonths: "addUtcMonths (addUtcMonths p n) m = addUtcMonths p (n + m)"
proof -
  have "date_utc (y + k div 12) (k mod 12 + m) 1 = date_utc y (k + m) 1" for y k
  proof -
    have k: "k = 12 * (k div 12) + k mod 12" by simp
    have "(k + m) div 12 = k div 12 + (k mod 12 + m) div 12"
      using k by linarith
    moreover have "(k mod 12 + m) mod 12 = (k + m) mod 12" by (simp add: mod_add_left_eq)
    ultimately show ?thesis by (simp add: date_utc_def add.assoc)
  qed
  then show ?thesis by (simp add: addUtcMonths_def add.assoc)
qed

section \<open>Consecutive periods\<close>

lemma period_end_is_next_start:
  "billingPeriodEndInstant zones p c = billingPeriodStartInstant zones (addUtcMonths p 1) c"
proof (cases "assertSupportedBillingCycle zones c")
  case (Inl e)
  then show ?thesis by (simp add: billingPeriodEndInstant_def billingPeriodStartInstant_def)
next
  case (Inr u)
  then have a: "bc_billingCycleAnchorDay c = 1" by (auto simp: assertSupportedBillingCycle_def split: if_splits)
  show ?thesis
  proof (cases "utc_month p = 11")
    case True
    then show ?thesis using Inr a
      by (simp add: billingPeriodEndInstant_def billingPeriodStartInstant_def Let_def addUtcMonths_def)
  next
    case False
    then have "0 \<le> utc_month p" "utc_month p < 11" using utc_month_range [of p] by auto
    then have "(utc_month p + 1) div 12 = 0" "(utc_month p + 1) mod 12 = utc_month p + 1" by simp_all
    then show ?thesis using Inr a False
      by (simp add: billingPeriodEndInstant_def billingPeriodStartInstant_def Let_def addUtcMonths_def)
  qed
qed

lemma dateParts_represented:
  assumes "represented off t = date_utc y m 1"
  shows "dateParts off t = (y + m div 12, m mod 12 + 1, 1)"
proof -
  define w where "w = t + off t"
  have "w - w mod 1000 = date_utc y m 1" using assms by (simp add: represented_eq w_def)
  then have "w = date_utc y m 1 + w mod 1000" by linarith
  moreover have "0 \<le> w mod 1000" "w mod 1000 < 1000" by simp_all
  ultimately have "w div DAY_MS = date_utc y m 1 div DAY_MS"
    by (simp add: date_utc_def DAY_MS_def)
  then have "utc_year w = utc_year (date_utc y m 1)" "utc_month w = utc_month (date_utc y m 1)"
    "utc_day w = utc_day (date_utc y m 1)"
    by (simp_all add: utc_year_def utc_month_def utc_day_def)
  then show ?thesis by (simp add: dateParts_def Let_def w_def [symmetric])
qed

lemma period_start_shows:
  assumes cycle: "assertSupportedBillingCycle zones c = Inr ()" and z: "zones (bc_billingTimezone c) = Some off"
    and change: "one_change off s a b (monthStart p)"
    and shown: "\<not> (s + a \<le> monthStart p \<and> monthStart p < s + b)"
  obtains t where "billingPeriodStartInstant zones p c = Inr t" "represented off t = monthStart p"
proof -
  have a: "bc_billingCycleAnchorDay c = 1" using cycle by (auto simp: assertSupportedBillingCycle_def split: if_splits)
  have four: "(4 :: nat) = Suc (Suc (Suc (Suc 0)))" by simp
  let ?t = "zonedMidnight off (utc_year p) (utc_month p + 1) 1"
  have "represented off ?t = monthStart p"
    using zoned_guess_shows [OF change _ shown, of "Suc 0"] date_utc_thousand
    unfolding zonedMidnight_def Let_def four monthStart_def by simp
  moreover have "billingPeriodStartInstant zones p c = Inr ?t"
    using cycle z a by (simp add: billingPeriodStartInstant_def)
  ultimately show thesis by (rule that [rotated])
qed

section \<open>Properties\<close>


text \<open>Paris in 2024: summer time begins on 31 March at 01:00 UTC. The period of April starts at
  22:00 UTC on the day of the change.\<close>

definition paris_2024 :: time_zones where
  "paris_2024 tz = (if tz = ''Europe/Paris''
     then Some (\<lambda>t. if t < 1711846800000 then 3600000 else 7200000) else None)"

definition paris_cycle :: billing_cycle where
  "paris_cycle = \<lparr>bc_billingTimezone = ''Europe/Paris'', bc_billingCycleAnchorDay = 1,
     bc_billingPeriodType = ''CALENDAR_MONTH''\<rparr>"


text \<open>An instant that shows the target ends the search, however many rounds are left.\<close>

lemma zoned_guess_stops: "represented off (zoned_guess m off target g) = target \<Longrightarrow>
   zoned_guess (m + n) off target g = zoned_guess m off target g"
proof (induction m arbitrary: g)
  case 0
  then show ?case by (cases n) (simp_all add: Let_def)
next
  case (Suc m)
  then show ?case by (auto simp: Let_def)
qed



end
