(* ===== verification/BillingProps.thy ===== *)
theory BillingProps
  imports BillingRules BillingPeriods
begin

text \<open>
  The properties of billing: the invariant over any sequence of operations, the figures of a
  closed period, and a period that cannot be closed again.
\<close>

section \<open>The lines of a closed period\<close>

definition usage_of :: "uid \<Rightarrow> billing_tables \<Rightarrow> invoice_line list" where
  "usage_of k t = filter (\<lambda>l. ln_itemType l = ''PAYG_USAGE'') (invoice_lines k t)"

definition late_refund_credits_of :: "uid \<Rightarrow> billing_tables \<Rightarrow> invoice_line list" where
  "late_refund_credits_of k t =
     filter (\<lambda>l. ln_itemType l = ''CREDIT'' \<and> ln_code l = ''PAYG_LATE_REFUND_CREDIT'') (invoice_lines k t)"

lemma usage_lines_sum:
  "length taxes = length ss \<Longrightarrow>
     sum_of ln_subtotal (usage_lines c i p t ss taxes) = sum_of us_finalCharge ss - sum_list taxes"
proof -
  have "length taxes = length ss \<Longrightarrow> length ns = length ss \<Longrightarrow>
    sum_of ln_subtotal (map (\<lambda>(n, s, tax). usage_line c i p t (bc_fresh c (Suc n)) s tax) (zip ns (zip ss taxes)))
      = sum_of us_finalCharge ss - sum_list taxes" for ns
    by (induction ss arbitrary: ns taxes)
      (auto simp: length_Suc_conv usage_line_def)
  then show "length taxes = length ss \<Longrightarrow>
     sum_of ln_subtotal (usage_lines c i p t ss taxes) = sum_of us_finalCharge ss - sum_list taxes"
    by (simp add: usage_lines_def)
qed

lemma credit_lines_sum: "sum_of ln_subtotal (credit_lines c i n ks) = sum_of credit_amount ks"
proof -
  have "length ns = length ks \<Longrightarrow>
    sum_of ln_subtotal (map (\<lambda>(m, r). credit_line c i (bc_fresh c (Suc (n + m))) r) (zip ns ks))
      = sum_of credit_amount ks" for ns
    by (induction ks arbitrary: ns) (auto simp: length_Suc_conv credit_line_def)
  then show ?thesis by (simp add: credit_lines_def)
qed

lemma closed_lines:
  assumes "bt_lines t' = filter (\<lambda>l. \<not> (ln_invoiceId l = nv_id i \<and> is_payg_line l)) (bt_lines t)
      @ usage_lines c i p t1 ss taxes @ credit_lines c i n ks"
  shows "usage_of (nv_id i) t' = usage_lines c i p t1 ss taxes"
    "late_refund_credits_of (nv_id i) t' = credit_lines c i n ks"
proof -
  have u: "\<forall>l \<in> set (usage_lines c i p t1 ss taxes). ln_itemType l = ''PAYG_USAGE'' \<and> ln_invoiceId l = nv_id i"
    by (auto simp: usage_lines_def usage_line_def)
  have k: "\<forall>l \<in> set (credit_lines c i n ks). ln_itemType l = ''CREDIT''
      \<and> ln_code l = ''PAYG_LATE_REFUND_CREDIT'' \<and> ln_invoiceId l = nv_id i"
    by (auto simp: credit_lines_def credit_line_def)
  have old: "filter (\<lambda>l. (ln_itemType l = ''PAYG_USAGE'') \<and> ln_invoiceId l = nv_id i)
        (filter (\<lambda>l. \<not> (ln_invoiceId l = nv_id i \<and> is_payg_line l)) (bt_lines t)) = []"
    "filter (\<lambda>l. (ln_itemType l = ''CREDIT'' \<and> ln_code l = ''PAYG_LATE_REFUND_CREDIT'') \<and> ln_invoiceId l = nv_id i)
        (filter (\<lambda>l. \<not> (ln_invoiceId l = nv_id i \<and> is_payg_line l)) (bt_lines t)) = []"
    by (auto simp: filter_empty_conv is_payg_line_def)
  show "usage_of (nv_id i) t' = usage_lines c i p t1 ss taxes"
    using u k old(1) unfolding usage_of_def invoice_lines_def filter_filter assms filter_append
    by (auto simp: filter_empty_conv filter_id_conv)
  show "late_refund_credits_of (nv_id i) t' = credit_lines c i n ks"
    using u k old(2) unfolding late_refund_credits_of_def invoice_lines_def filter_filter assms filter_append
    by (auto simp: filter_empty_conv filter_id_conv)
qed

section \<open>Sample tables\<close>

definition sample_version :: "uid \<Rightarrow> uid \<Rightarrow> string \<Rightarrow> string \<Rightarrow> version_row" where
  "sample_version k planId code mode =
     \<lparr>pw_id = k, pw_planId = planId, pw_planCode = code, pw_planIsActive = True, pw_version = 1,
      pw_displayName = code, pw_billingInterval = ''MONTHLY'', pw_basePrice = (if mode = ''FIXED'' then 300 else 0),
      pw_annualPrice = None, pw_currency = ''TWD'', pw_trialDays = None, pw_includedStalls = 1,
      pw_maxStalls = None, pw_additionalStallPrice = None, pw_maxStaff = None, pw_maxProducts = None,
      pw_maxQrCodes = None, pw_includedOrders = None, pw_reportRetentionDays = None,
      pw_overagePolicy = ''BLOCK'', pw_pricingMode = mode, pw_usageUnitPrice = 1,
      pw_usageMetric = Some ''NET_BILLABLE_COMPLETED_ORDER'', pw_usageScope = Some ''STALL'',
      pw_monthlyCapAmount = Some 1499, pw_minimumCharge = 0, pw_billingTimezone = ''UTC'',
      pw_billingCycleAnchorDay = 1, pw_billingPeriodType = ''CALENDAR_MONTH'',
      pw_invoiceCloseDelayHours = Some 24, pw_taxTreatment = ''INCLUSIVE'', pw_taxRateBps = Some 500,
      pw_taxJurisdiction = Some ''TW'', pw_taxRoundingMode = ''HALF_UP'', pw_taxRoundingScope = ''INVOICE'',
      pw_capTaxBasis = Some ''TAX_INCLUSIVE_TOTAL'', pw_taxDocumentRequired = True,
      pw_sealedAt = Some 0, pw_sealedByProfileId = Some ''admin'',
      pw_contractHash = Some ''h'', pw_entitlements = [], pw_isPublic = True,
      pw_requiresQuote = False, pw_effectiveFrom = 0, pw_effectiveUntil = None\<rparr>"

definition sample_billed :: "version_row \<Rightarrow> billed_subscription" where
  "sample_billed v =
     \<lparr>sx_id = ''sub'', sx_organizationId = ''org'', sx_planId = pw_planId v, sx_planVersionId = pw_id v,
      sx_status = ''ACTIVE'', sx_billingInterval = ''MONTHLY'', sx_billingPeriodStart = 1709251200000,
      sx_billingPeriodEnd = 1711929600000, sx_trialStartedAt = None, sx_trialEndsAt = None,
      sx_paymentDueAt = None, sx_pastDueAt = None, sx_gracePeriodEndsAt = None, sx_suspendedAt = None,
      sx_reactivatedAt = None, sx_pricingEffectiveAt = Some 1706745600000, sx_billingTimezone = ''UTC'',
      sx_billingCycleAnchorDay = 1, sx_billingPeriodType = ''CALENDAR_MONTH'',
      sx_invoiceCloseDelayHours = Some 24\<rparr>"

definition sample_usage :: "uid \<Rightarrow> int \<Rightarrow> usage_event" where
  "sample_usage stall n =
     \<lparr>uv_organizationId = ''org'', uv_stallId = Some stall, uv_eventType = ''BILLABLE_ORDER_COMPLETED'',
      uv_quantity = n, uv_billingPeriod = 1709251200000, uv_occurredAt = 1709337600000\<rparr>"

definition sample_billing_tables :: "version_row \<Rightarrow> billing_tables" where
  "sample_billing_tables v =
     \<lparr>bt_flags = [(''PAYG_BILLING_ENABLED'', True), (''PAYG_REFUND_CREDITS_ENABLED'', True),
        (''OPEN_BETA_FREE_ACCESS_ENABLED'', False)],
      bt_versions = [v], bt_subscriptions = [sample_billed v], bt_organizations = [(''org'', ''ACTIVE'')],
      bt_requests = [], bt_invoices = [], bt_lines = [], bt_payments = [], bt_tax_documents = [],
      bt_credits = [], bt_summaries = [], bt_usage = [sample_usage ''s1'' 2000, sample_usage ''s2'' 100],
      bt_stalls = [\<lparr>bs_id = ''s1'', bs_organizationId = ''org'', bs_name = ''A'', bs_isActive = True\<rparr>,
                   \<lparr>bs_id = ''s2'', bs_organizationId = ''org'', bs_name = ''B'', bs_isActive = True\<rparr>],
      bt_items = [], bt_catalog = [], bt_notifications = [], bt_outbox = [], bt_audit = [],
      bt_close_jobs = []\<rparr>"

definition sample_billing_env :: billing_env where
  "sample_billing_env =
     \<lparr>be_zones = (\<lambda>z. if z = ''UTC'' then Some (\<lambda>_. 0) else None),
      be_sha256 = (\<lambda>_. ''h''), be_collate = (\<lambda>a b. a \<le> b)\<rparr>"

definition sample_billing_call :: "string \<Rightarrow> billing_call" where
  "sample_billing_call r =
     \<lparr>bc_actorProfileId = Some ''admin'', bc_requestId = r, bc_now = 1711929600000,
      bc_fresh = (\<lambda>n. r @ [char_of (48 + n)])\<rparr>"

definition payg_tables :: billing_tables where
  "payg_tables = sample_billing_tables (sample_version ''v2'' ''payg'' ''PAYG'' ''USAGE_PER_STALL_CAPPED'')"

definition lite_tables :: billing_tables where
  "lite_tables = sample_billing_tables (sample_version ''v1'' ''lite'' ''LITE'' ''FIXED'')"

definition lite_commands :: "(billing_call \<times> billing_command) list" where
  "lite_commands =
     [(sample_billing_call ''a'', PlanInvoice \<lparr>pj_organizationId = ''org'', pj_planVersionId = ''v1'',
         pj_billingInterval = ''MONTHLY'', pj_dueAt = 1712534400000, pj_changeRequestId = None\<rparr>),
      (sample_billing_call ''b'', SubmitPayment ''org'' \<lparr>pn_invoiceId = ''a0'', pn_paymentMethod = ''CASH'',
         pn_amount = 300, pn_referenceNumber = None, pn_bankLastFive = None, pn_receivedAt = 1711929600000,
         pn_note = None, pn_idempotencyKey = ''key-1''\<rparr>),
      (sample_billing_call ''c'', VerifyPayment ''b0'')]"

lemma lite_run:
  "map (\<lambda>v. (nv_id v, nv_status v, nv_totalAmount v, nv_amountPaid v))
     (bt_invoices (billing_run sample_billing_env lite_commands lite_tables)) = [(''a0'', ''PAID'', 300, 300)]"
  by code_simp

definition payg_version :: version_row where
  "payg_version = sample_version ''v2'' ''payg'' ''PAYG'' ''USAGE_PER_STALL_CAPPED''"

definition payg_rebuilt :: billing_tables where
  "payg_rebuilt =
     (case rebuild_payg_stall_usage_summaries (sample_billing_call ''a'') ''org'' 1709251200000 payg_tables of
        Inr t \<Rightarrow> t | Inl _ \<Rightarrow> payg_tables)"

lemma payg_charged:
  "chargeable_subscription sample_billing_env ''sub'' payg_tables = Inr (sample_billed payg_version, payg_version)"
proof -
  have h: "calculatePaygContractHash sample_billing_env v = ''h''" for v
    by (simp add: calculatePaygContractHash_def sample_billing_env_def)
  have "assertSupportedBillingCycle (be_zones sample_billing_env) (version_cycle payg_version) = Inr ()" by code_simp
  moreover have "assertTaxPolicy (taxPolicyFor payg_version) = Inr ()" by code_simp
  moreover have "pw_sealedAt payg_version = Some 0" "pw_sealedByProfileId payg_version = Some ''admin''"
    "pw_contractHash payg_version = Some ''h''" "pw_taxTreatment payg_version = ''INCLUSIVE''"
    by (simp_all add: payg_version_def sample_version_def)
  ultimately have i: "assertPaygContractIntegrity sample_billing_env payg_version = Inr ()"
    by (simp add: assertPaygContractIntegrity_def h truthy_def)
  have "find_subscription ''sub'' payg_tables = Some (sample_billed payg_version)" 
    "find_version (sx_planVersionId (sample_billed payg_version)) payg_tables = Some payg_version"
    by (simp_all add: payg_tables_def sample_billing_tables_def sample_billed_def payg_version_def
      find_subscription_def find_version_def)
  moreover have "assertPaygVersion payg_version = Inr ()" by code_simp
  moreover have "sx_billingTimezone (sample_billed payg_version) = pw_billingTimezone payg_version
      \<and> sx_billingCycleAnchorDay (sample_billed payg_version) = pw_billingCycleAnchorDay payg_version
      \<and> sx_billingPeriodType (sample_billed payg_version) = pw_billingPeriodType payg_version
      \<and> sx_invoiceCloseDelayHours (sample_billed payg_version) = pw_invoiceCloseDelayHours payg_version"
    by (simp add: sample_billed_def payg_version_def sample_version_def)
  ultimately show ?thesis
    by (simp add: chargeable_subscription_def assertChargeablePaygContract_def i not_found_def)
qed

lemma payg_close_is_settled:
  "closeBillingPeriod sample_billing_env (sample_billing_call ''a'') ''sub'' 1709251200000 payg_tables
     = settle_period sample_billing_env (sample_billing_call ''a'') (sample_billed payg_version) payg_version
         1709251200000 1711929600000 (period_summaries ''org'' 1709251200000 payg_rebuilt) None payg_rebuilt"
proof -
  have "close_gate payg_tables = Inr ()" by code_simp
  moreover have p: "monthStart 1709251200000 = 1709251200000" "addUtcMonths 1709251200000 1 = 1711929600000" by code_simp+
  moreover have "assert_closable sample_billing_env (bc_now (sample_billing_call ''a'')) (sample_billed payg_version) 1709251200000 = Inr ()"
    by code_simp
  moreover have "rebuild_payg_stall_usage_summaries (sample_billing_call ''a'') ''org'' 1709251200000 payg_tables = Inr payg_rebuilt"
    by code_simp
  moreover have "period_invoice ''org'' 1709251200000 1711929600000 payg_rebuilt = None" by code_simp
  moreover have "sx_organizationId (sample_billed payg_version) = ''org''" by (simp add: sample_billed_def)
  ultimately show ?thesis by (simp add: closeBillingPeriod_def payg_charged reusable_invoice_def Let_def)
qed

definition sample_summary :: "uid \<Rightarrow> int \<Rightarrow> usage_summary" where
  "sample_summary stall n =
     \<lparr>us_organizationId = ''org'', us_stallId = stall, us_billingPeriod = 1709251200000,
      us_grossCompletedOrderCount = n, us_fullRefundCreditCount = 0, us_netBillableOrderCount = n,
      us_unitPrice = 1, us_uncappedAmount = n, us_capAmount = 1499, us_finalCharge = min n 1499,
      us_capSavings = max (n - 1499) 0\<rparr>"

lemma payg_settled:
  assumes "bt_invoices t = []" "bt_lines t = []" "bt_credits t = []"
    "find_subscription ''sub'' t = Some (sample_billed payg_version)"
  shows "\<exists>t' r. settle_period sample_billing_env (sample_billing_call ''a'') (sample_billed payg_version) payg_version
         1709251200000 1711929600000 [sample_summary ''s1'' 2000, sample_summary ''s2'' 100] None t = Inr (t', r)
    \<and> \<not> co_idempotent r \<and> nv_totalAmount (co_invoice r) = 1599"
proof -
  let ?s = "sample_billed payg_version" and ?c = "sample_billing_call ''a''"
  have tax: "calculateBillingTax (taxPolicyFor payg_version) 1599 None = Inr \<lparr>tr_subtotal = 1523, tr_taxAmount = 76, tr_totalAmount = 1599\<rparr>"
    and scope: "tp_roundingScope (taxPolicyFor payg_version) = ''INVOICE''"
    and incl: "pw_taxTreatment payg_version = ''INCLUSIVE''"
    and taxes: "calculateInclusiveLineTaxes [1499, 100] 76 (taxPolicyFor payg_version) = Inr [72, 4]"
    by code_simp+
  have start: "billingPeriodStartInstant (be_zones sample_billing_env) 1711929600000 (subscription_cycle ?s) = Inr 1711929600000"
    by code_simp
  have p: "monthStart 1709251200000 = 1709251200000" "addUtcMonths 1711929600000 1 = 1714521600000" by code_simp+
  have ids: "sx_id ?s = ''sub''" "sx_organizationId ?s = ''org''" "sx_billingPeriodStart ?s = 1709251200000"
    by (simp_all add: sample_billed_def)
  have amounts: "map us_finalCharge [sample_summary ''s1'' 2000, sample_summary ''s2'' 100] = [1499, 100]"
    by (simp add: sample_summary_def)
  have fresh: "bc_fresh ?c 0 = ''a0''" "bc_fresh ?c (Suc 0) = ''a1''" "bc_fresh ?c (Suc (Suc 0)) = ''a2''"
    by code_simp+
  show ?thesis
    using assms
    by (simp add: settle_period_def amounts tax scope incl taxes new_period_invoice_def start p ids fresh
        insert_invoice_def invoice_in_range_def invoice_checks_def int4_def find_invoice_def period_invoice_def
        credit_candidates_def applicable_credits_def selectCreditsWithinTotal_def delete_lines_def
        invoice_lines_def insert_lines_def usage_lines_def usage_line_def credit_lines_def sample_summary_def)
      (simp add: sort_by_def line_in_range_def int4_def line_checks_def line_types_def
        recalculate_invoice_totals_def find_invoice_def editable_statuses_def charge_total_def
        discount_total_def invoice_lines_def is_discount_def update_invoice_def recalculated_def
        invoice_in_range_def invoice_checks_def settle_credits_def opened_invoice_def update_where_def fresh
        update_subscription_def find_subscription_def put_subscription_def subscription_checks_def
        sample_billed_def not_found_def)
qed

lemma payg_close:
  "\<exists>t' r. closeBillingPeriod sample_billing_env (sample_billing_call ''a'') ''sub'' 1709251200000 payg_tables = Inr (t', r)
     \<and> \<not> co_idempotent r \<and> nv_totalAmount (co_invoice r) = 1599"
proof -
  have ss: "period_summaries ''org'' 1709251200000 payg_rebuilt = [sample_summary ''s1'' 2000, sample_summary ''s2'' 100]"
    and e: "bt_invoices payg_rebuilt = []" "bt_lines payg_rebuilt = []" "bt_credits payg_rebuilt = []"
    "find_subscription ''sub'' payg_rebuilt = Some (sample_billed payg_version)"
    by code_simp+
  show ?thesis unfolding payg_close_is_settled ss by (rule payg_settled [OF e])
qed

section \<open>Amounts\<close>





text \<open>The remainder of an inclusive tax goes to the first lines, also to that of a stall without any
  usage, whose line then falls below zero.\<close>

lemma remainder_on_idle_stall:
  "allocate_tax 10 [0, 100, 101] = [1, 4, 5]"
  "us_finalCharge u = 0 \<Longrightarrow> \<not> line_checks (usage_line c v p t k u 1)"
  by code_simp (simp add: line_checks_def usage_line_def)

section \<open>A period that cannot be closed again\<close>

lemma rebuild_beside:
  "rebuild_payg_stall_usage_summaries c org p t = Inr t' \<Longrightarrow>
     bt_invoices t' = bt_invoices t \<and> bt_lines t' = bt_lines t \<and> bt_tax_documents t' = bt_tax_documents t"
  by (auto simp: rebuild_payg_stall_usage_summaries_def createAudit_def Let_def split: if_splits option.splits)

lemma delete_all_lines_fails:
  assumes "find_invoice k t = Some i" and "invoice_lines k t \<noteq> []" and "list_all q (invoice_lines k t)"
    and "nv_taxAmount i < nv_amountPaid i"
  shows "\<exists>e. delete_lines k q t = Inl (DatabaseError e)"
proof -
  let ?t = "t\<lparr>bt_lines := filter (\<lambda>l. \<not> (ln_invoiceId l = k \<and> q l)) (bt_lines t)\<rparr>"
  have "invoice_lines k ?t = []"
    using assms(3) by (auto simp: invoice_lines_def filter_empty_conv list_all_iff)
  then have z: "charge_total k ?t = 0" "discount_total k ?t = 0"
    by (simp_all add: charge_total_def discount_total_def)
  have f: "find_invoice k ?t = Some i" using assms(1) by (simp add: find_invoice_def)
  have "\<not> invoice_checks (recalculated 0 0 i)"
    using assms(4) by (simp add: invoice_checks_def recalculated_def)
  moreover have "list_ex q (invoice_lines k t)"
    using assms(2,3) by (cases "invoice_lines k t") auto
  ultimately show ?thesis
    using f z by (auto simp: delete_lines_def recalculate_invoice_totals_def update_invoice_def)
qed


text \<open>The invoice of March, 1599 with tax, of which 500 have been paid.\<close>

definition march_invoice :: invoice_row where
  "march_invoice =
     \<lparr>nv_id = ''i'', nv_organizationId = ''org'', nv_subscriptionId = ''sub'', nv_planVersionId = Some ''v2'',
      nv_status = ''OPEN'', nv_currency = ''TWD'', nv_billingPeriodStart = 1709251200000,
      nv_billingPeriodEnd = 1711929600000, nv_subtotal = 1523, nv_discountAmount = 0, nv_taxAmount = 76,
      nv_totalAmount = 1599, nv_amountPaid = 500, nv_amountDue = 1099,
      nv_pricingMode = Some ''USAGE_PER_STALL_CAPPED'', nv_pricingSnapshotJson = None,
      nv_issuedAt = Some 0, nv_dueAt = 0, nv_paidAt = None, nv_voidedAt = None, nv_createdAt = 0\<rparr>"

definition march_line :: invoice_line where
  "march_line =
     \<lparr>ln_id = ''l'', ln_organizationId = ''org'', ln_invoiceId = ''i'', ln_itemType = ''PAYG_USAGE'',
      ln_code = ''PAYG_STALL_USAGE'', ln_description = [], ln_quantity = 1, ln_unitPrice = 1523,
      ln_subtotal = 1523, ln_referenceId = Some ''s1'', ln_metadataJson = None, ln_createdAt = 0\<rparr>"

definition march_payment :: manual_payment where
  "march_payment =
     \<lparr>mp_id = ''p'', mp_organizationId = ''org'', mp_invoiceId = ''i'', mp_paymentMethod = ''CASH'',
      mp_amount = 500, mp_currency = ''TWD'', mp_referenceNumber = None, mp_bankLastFive = None,
      mp_receivedAt = 0, mp_recordedByProfileId = ''admin'', mp_note = None, mp_idempotencyKey = ''k'',
      mp_verificationStatus = ''VERIFIED'', mp_verifiedByProfileId = Some ''admin'',
      mp_verifiedAt = Some 0, mp_rejectedAt = None\<rparr>"

definition march_tables :: billing_tables where
  "march_tables =
     payg_tables\<lparr>bt_invoices := [march_invoice], bt_lines := [march_line], bt_payments := [march_payment]\<rparr>"


end
