(* ===== verification/QrCart.thy ===== *)
theory QrCart
  imports DeliveryJobs
begin

text \<open>
  The cart a customer builds behind a QR code (\<open>src/src/lib/qr-cart.ts\<close>): adding, changing and
  replacing lines within the limits of the stall, and the draft that survives in the storage
  of the browser. The text of a draft is identified with the JSON value it parses to, \<open>None\<close>
  for a missing or unreadable text. Quantities are integers; the screens count in steps of
  one, so \<open>Math.trunc\<close> of a quantity is the quantity. \<open>createId\<close> is a parameter.
\<close>

section \<open>Numbers read from a text\<close>

text \<open>\<open>Number(text)\<close> as far as \<open>Number.isInteger\<close> accepts it: decimal literals with fraction and
  exponent, the prefixed literals, and the empty text for zero. A literal whose exact value is
  no integer is refused; the rounding of one closer to an integer than a double can tell is
  not modelled.\<close>

definition digit_value :: "char \<Rightarrow> nat option" where
  "digit_value c =
     (let n = of_char c :: nat in
      if 48 \<le> n \<and> n \<le> 57 then Some (n - 48)
      else if 97 \<le> n \<and> n \<le> 102 then Some (n - 87)
      else if 65 \<le> n \<and> n \<le> 70 then Some (n - 55)
      else None)"

fun digits_value :: "nat \<Rightarrow> nat \<Rightarrow> string \<Rightarrow> nat option" where
  "digits_value base acc [] = Some acc"
| "digits_value base acc (c # cs) =
     (case digit_value c of
        Some d \<Rightarrow> if d < base then digits_value base (acc * base + d) cs else None
      | None \<Rightarrow> None)"

definition prefixed_value :: "nat \<Rightarrow> string \<Rightarrow> int option" where
  "prefixed_value base s = (if s = [] then None else map_option int (digits_value base 0 s))"

definition signed :: "(string \<Rightarrow> int option) \<Rightarrow> string \<Rightarrow> int option" where
  "signed f s =
     (case s of c # cs \<Rightarrow> if c = CHR ''-'' then map_option uminus (f cs) else if c = CHR ''+'' then f cs else f s
      | [] \<Rightarrow> f s)"

definition scaled :: "nat \<Rightarrow> int \<Rightarrow> int option" where
  "scaled m e =
     (if e \<ge> 0 then (let v = int m * 10 ^ nat e in if v < 2 ^ 1024 then Some v else None)
      else if 10 ^ nat (- e) dvd m then Some (int (m div 10 ^ nat (- e))) else None)"

definition unsigned_decimal :: "string \<Rightarrow> int option" where
  "unsigned_decimal s =
     (let isE = (\<lambda>c. c = CHR ''e'' \<or> c = CHR ''E'');
          mantissa = takeWhile (\<lambda>c. \<not> isE c) s; rest = dropWhile (\<lambda>c. \<not> isE c) s;
          whole = takeWhile (\<lambda>c. c \<noteq> CHR ''.'') mantissa;
          fraction = drop 1 (dropWhile (\<lambda>c. c \<noteq> CHR ''.'') mantissa);
          exponent = (if rest = [] then Some 0
                      else signed (\<lambda>t. if t = [] then None else map_option int (digits_value 10 0 t)) (tl rest))
      in if whole @ fraction = [] then None
         else
           (case (digits_value 10 0 (whole @ fraction), exponent) of
              (Some m, Some e) \<Rightarrow> if m = 0 then Some 0 else scaled m (e - int (length fraction))
            | _ \<Rightarrow> None))"

definition integer_of_text :: "string \<Rightarrow> int option" where
  "integer_of_text text =
     (let s = js_trim text; p = take 2 s; r = drop 2 s in
      if s = [] then Some 0
      else if p = ''0x'' \<or> p = ''0X'' then prefixed_value 16 r
      else if p = ''0o'' \<or> p = ''0O'' then prefixed_value 8 r
      else if p = ''0b'' \<or> p = ''0B'' then prefixed_value 2 r
      else signed unsigned_decimal s)"

fun comma_separated :: "string list \<Rightarrow> string" where
  "comma_separated [] = []"
| "comma_separated [x] = x"
| "comma_separated (x # xs) = x @ '','' @ comma_separated xs"

text \<open>The text of a value as an element of an array.\<close>

fun element_text :: "json \<Rightarrow> string" where
  "element_text JNull = []"
| "element_text (JBool b) = (if b then ''true'' else ''false'')"
| "element_text (JNumber n) = string_of_int n"
| "element_text (JString s) = s"
| "element_text (JArray vs) = comma_separated (map element_text vs)"
| "element_text (JObject kvs) = ''[object Object]''"

definition js_Number :: "json \<Rightarrow> int option" where
  "js_Number v =
     (case v of
        JNull \<Rightarrow> Some 0
      | JBool b \<Rightarrow> Some (if b then 1 else 0)
      | JNumber n \<Rightarrow> Some n
      | JString s \<Rightarrow> integer_of_text s
      | JArray vs \<Rightarrow> integer_of_text (element_text v)
      | JObject kvs \<Rightarrow> None)"

section \<open>Carts\<close>

definition QR_CART_TTL_MS :: int where "QR_CART_TTL_MS = 24 * 60 * 60 * 1000"
definition QR_CART_VERSION :: int where "QR_CART_VERSION = 3"
definition QR_CART_MAX_LINES :: nat where "QR_CART_MAX_LINES = 100"

datatype QrCartOrderingMode = DEFAULT | DELIVERY | PREORDER

text \<open>\<open>Omit<QrCartLine, "id">\<close> and \<open>QrCartLine\<close>.\<close>

record cart_item =
  qi_productId :: uid
  qi_quantity :: int
  qi_note :: string
  qi_noteOptionIds :: "uid list"
  qi_bundleChoiceIds :: "uid list"

record cart_line = cart_item +
  ql_id :: uid

record cart_draft =
  qd_savedAt :: instant
  qd_orderingMode :: QrCartOrderingMode
  qd_scheduledPickupAt :: string
  qd_customerName :: string
  qd_customerNote :: string
  qd_customerPhone :: "string option"
  qd_deliveryAddress :: "string option"
  qd_lines :: "cart_line list"

record catalog_product =
  cp_id :: uid
  cp_noteGroups :: "uid list list"
  cp_bundleChoiceGroups :: "uid list list option"

record cart_limits =
  lm_maxItemQuantity :: int
  lm_maxUniqueProducts :: nat
  lm_maxTotalQuantity :: int
  lm_maxNoteLength :: nat

text \<open>The key is only compared for equality, and \<open>JSON.stringify\<close> is injective on it.\<close>

definition qrCartLineKey :: "'a cart_item_scheme \<Rightarrow> uid \<times> string \<times> uid list \<times> uid list" where
  "qrCartLineKey l =
     (qi_productId l, js_trim (qi_note l), sort (qi_noteOptionIds l), sort (qi_bundleChoiceIds l))"

definition qrCartTotalQuantity :: "'a cart_item_scheme list \<Rightarrow> int" where
  "qrCartTotalQuantity ls = sum_of qi_quantity ls"

definition qrCartProductQuantity :: "'a cart_item_scheme list \<Rightarrow> uid \<Rightarrow> int" where
  "qrCartProductQuantity ls p = sum_of qi_quantity (filter (\<lambda>l. qi_productId l = p) ls)"

definition distinct_products :: "'a cart_item_scheme list \<Rightarrow> nat" where
  "distinct_products ls = length (remdups (map qi_productId ls))"

text \<open>The product is new to the cart and the cart is full of other products.\<close>

definition too_many_products :: "'a cart_item_scheme list \<Rightarrow> uid \<Rightarrow> cart_limits \<Rightarrow> bool" where
  "too_many_products ls p lim \<longleftrightarrow>
     p \<notin> set (map qi_productId ls) \<and> distinct_products ls \<ge> lm_maxUniqueProducts lim"

definition exceeds_quantities :: "'a cart_item_scheme list \<Rightarrow> uid \<Rightarrow> int \<Rightarrow> cart_limits \<Rightarrow> bool" where
  "exceeds_quantities ls p n lim \<longleftrightarrow>
     qrCartProductQuantity ls p + n > lm_maxItemQuantity lim \<or> qrCartTotalQuantity ls + n > lm_maxTotalQuantity lim"

definition line_of :: "uid \<Rightarrow> cart_item \<Rightarrow> cart_line" where
  "line_of k i =
     \<lparr>qi_productId = qi_productId i, qi_quantity = qi_quantity i, qi_note = qi_note i,
      qi_noteOptionIds = qi_noteOptionIds i, qi_bundleChoiceIds = qi_bundleChoiceIds i, ql_id = k\<rparr>"

definition addQrCartLine ::
  "cart_line list \<Rightarrow> cart_item \<Rightarrow> cart_limits \<Rightarrow> uid \<Rightarrow> cart_line list option" where
  "addQrCartLine ls input lim newId =
     (if qi_quantity input < 1 then None
      else if exceeds_quantities ls (qi_productId input) (qi_quantity input) lim then None
      else
        (case find_index (\<lambda>l. qrCartLineKey l = qrCartLineKey input) ls of
           Some k \<Rightarrow> Some (ls[k := (ls ! k)\<lparr>qi_quantity := qi_quantity (ls ! k) + qi_quantity input\<rparr>])
         | None \<Rightarrow>
             if too_many_products ls (qi_productId input) lim then None
             else if length ls \<ge> QR_CART_MAX_LINES then None
             else Some (ls @ [line_of newId input])))"

definition updateQrCartLineQuantity ::
  "cart_line list \<Rightarrow> uid \<Rightarrow> int \<Rightarrow> cart_limits \<Rightarrow> cart_line list option" where
  "updateQrCartLineQuantity ls k quantity lim =
     (case List.find (\<lambda>l. ql_id l = k) ls of
        None \<Rightarrow> None
      | Some current \<Rightarrow>
          let others = filter (\<lambda>l. ql_id l \<noteq> k) ls in
          if quantity \<le> 0 then Some others
          else if exceeds_quantities others (qi_productId current) quantity lim then None
          else Some (update_where (\<lambda>l. ql_id l = k) (\<lambda>l. l\<lparr>qi_quantity := quantity\<rparr>) ls))"

definition replaceQrCartLine ::
  "cart_line list \<Rightarrow> uid \<Rightarrow> cart_item \<Rightarrow> cart_limits \<Rightarrow> cart_line list option" where
  "replaceQrCartLine ls k input lim =
     (case List.find (\<lambda>l. ql_id l = k) ls of
        None \<Rightarrow> None
      | Some current \<Rightarrow>
          if qi_quantity input < 1 then None
          else
            (let others = filter (\<lambda>l. ql_id l \<noteq> k) ls in
             if exceeds_quantities others (qi_productId input) (qi_quantity input) lim then None
             else if too_many_products others (qi_productId input) lim then None
             else
               (let duplicate = List.find (\<lambda>l. qrCartLineKey l = qrCartLineKey input) others;
                    merged = qi_quantity input + (case duplicate of Some d \<Rightarrow> qi_quantity d | None \<Rightarrow> 0)
                in Some (update_where (\<lambda>l. ql_id l = k)
                           (\<lambda>_. line_of k (input\<lparr>qi_quantity := merged\<rparr>))
                           (filter (\<lambda>l. Some (ql_id l) \<noteq> map_option ql_id duplicate) ls)))))"

section \<open>The stored draft\<close>

fun mode_text :: "QrCartOrderingMode \<Rightarrow> string" where
  "mode_text DEFAULT = ''DEFAULT''"
| "mode_text DELIVERY = ''DELIVERY''"
| "mode_text PREORDER = ''PREORDER''"

definition parsed_mode :: "json option \<Rightarrow> QrCartOrderingMode option" where
  "parsed_mode v = List.find (\<lambda>m. v = Some (JString (mode_text m))) [DEFAULT, DELIVERY, PREORDER]"

definition line_json :: "cart_line \<Rightarrow> json" where
  "line_json l =
     JObject [(''id'', JString (ql_id l)), (''productId'', JString (qi_productId l)),
       (''quantity'', JNumber (qi_quantity l)), (''note'', JString (qi_note l)),
       (''noteOptionIds'', JArray (map JString (qi_noteOptionIds l))),
       (''bundleChoiceIds'', JArray (map JString (qi_bundleChoiceIds l)))]"

text \<open>A property that is \<open>undefined\<close> is left out of the text.\<close>

definition optional_member :: "string \<Rightarrow> string option \<Rightarrow> (string \<times> json) list" where
  "optional_member name v = (case v of None \<Rightarrow> [] | Some s \<Rightarrow> [(name, JString s)])"

definition serializeQrCartDraft :: "cart_draft \<Rightarrow> instant \<Rightarrow> json" where
  "serializeQrCartDraft d now =
     JObject
       ([(''orderingMode'', JString (mode_text (qd_orderingMode d))),
         (''scheduledPickupAt'', JString (qd_scheduledPickupAt d)),
         (''customerName'', JString (qd_customerName d)), (''customerNote'', JString (qd_customerNote d))]
        @ optional_member ''customerPhone'' (qd_customerPhone d)
        @ optional_member ''deliveryAddress'' (qd_deliveryAddress d)
        @ [(''lines'', JArray (map line_json (qd_lines d))), (''version'', JNumber QR_CART_VERSION),
           (''savedAt'', JNumber now)])"

fun is_record :: "json \<Rightarrow> bool" where
  "is_record (JObject kvs) = True"
| "is_record v = False"

definition string_field :: "string \<Rightarrow> json \<Rightarrow> string" where
  "string_field name v = (case obj_field name v of Some (JString s) \<Rightarrow> s | _ \<Rightarrow> [])"

text \<open>\<open>[...new Set(values)]\<close> keeps the first of equal values.\<close>

definition first_occurrences :: "'a list \<Rightarrow> 'a list" where
  "first_occurrences xs = rev (remdups (rev xs))"

fun strings_of :: "json list \<Rightarrow> string list" where
  "strings_of [] = []"
| "strings_of (JString s # vs) = s # strings_of vs"
| "strings_of (v # vs) = strings_of vs"

definition sanitizedIds :: "json option \<Rightarrow> uid list \<Rightarrow> uid list" where
  "sanitizedIds v allowed =
     (case v of
        Some (JArray vs) \<Rightarrow> first_occurrences (filter (\<lambda>s. s \<in> set allowed) (strings_of vs))
      | _ \<Rightarrow> [])"

definition note_options :: "catalog_product \<Rightarrow> uid list" where
  "note_options p = concat (cp_noteGroups p)"

definition bundle_options :: "catalog_product \<Rightarrow> uid list" where
  "bundle_options p = concat (case cp_bundleChoiceGroups p of None \<Rightarrow> [] | Some gs \<Rightarrow> gs)"

text \<open>\<open>new Map(...)\<close>: the last product of an identifier wins.\<close>

definition find_product :: "uid \<Rightarrow> catalog_product list \<Rightarrow> catalog_product option" where
  "find_product k ps = List.find (\<lambda>p. cp_id p = k) (rev ps)"

definition restored_line ::
  "catalog_product \<Rightarrow> cart_limits \<Rightarrow> nat \<Rightarrow> json \<Rightarrow> uid list \<Rightarrow> int \<Rightarrow> cart_line" where
  "restored_line p lim index raw used quantity =
     (let productId = string_field ''productId'' raw;
          rawId = js_trim (string_field ''id'' raw);
          preferred = (if rawId \<noteq> [] then rawId
                       else ''restored:'' @ string_of_nat index @ '':'' @ productId)
      in \<lparr>qi_productId = productId, qi_quantity = quantity,
          qi_note = js_take (lm_maxNoteLength lim) (string_field ''note'' raw),
          qi_noteOptionIds = sanitizedIds (obj_field ''noteOptionIds'' raw) (note_options p),
          qi_bundleChoiceIds = sanitizedIds (obj_field ''bundleChoiceIds'' raw) (bundle_options p),
          ql_id = (if preferred \<in> set used then preferred @ '':'' @ string_of_nat index else preferred)\<rparr>)"

definition restore_line ::
  "catalog_product list \<Rightarrow> cart_limits \<Rightarrow> nat \<Rightarrow> json \<Rightarrow> cart_line list \<times> uid list \<Rightarrow> cart_line list \<times> uid list" where
  "restore_line ps lim index raw acc =
     (case acc of (ls, used) \<Rightarrow>
      let productId = string_field ''productId'' raw in
      case (find_product productId ps, Option.bind (obj_field ''quantity'' raw) js_Number) of
        (Some p, Some requested) \<Rightarrow>
          if requested \<le> 0 then acc
          else
            (let quantity = min requested (min (lm_maxItemQuantity lim - qrCartProductQuantity ls productId)
                              (lm_maxTotalQuantity lim - qrCartTotalQuantity ls))
             in if quantity \<le> 0 then acc
                else if too_many_products ls productId lim then acc
                else
                  (let l = restored_line p lim index raw used quantity in
                   case find_index (\<lambda>m. qrCartLineKey m = qrCartLineKey l) ls of
                     Some k \<Rightarrow> (ls[k := (ls ! k)\<lparr>qi_quantity := qi_quantity (ls ! k) + quantity\<rparr>], used)
                   | None \<Rightarrow> (ls @ [l], ql_id l # used)))
      | _ \<Rightarrow> acc)"

fun restore_lines ::
  "catalog_product list \<Rightarrow> cart_limits \<Rightarrow> nat \<Rightarrow> json list \<Rightarrow> cart_line list \<times> uid list \<Rightarrow> cart_line list" where
  "restore_lines ps lim index [] acc = fst acc"
| "restore_lines ps lim index (raw # raws) acc =
     (if length (fst acc) \<ge> QR_CART_MAX_LINES \<or> \<not> is_record raw then fst acc
      else restore_lines ps lim (Suc index) raws (restore_line ps lim index raw acc))"

definition record_field :: "string \<Rightarrow> json \<Rightarrow> json" where
  "record_field name v = (case obj_field name v of Some (JObject kvs) \<Rightarrow> JObject kvs | _ \<Rightarrow> JObject [])"

definition member_of :: "string \<Rightarrow> json option \<Rightarrow> (string \<times> json) list" where
  "member_of name v = (case v of None \<Rightarrow> [] | Some x \<Rightarrow> [(name, x)])"

definition legacyLines :: "json \<Rightarrow> catalog_product list \<Rightarrow> json list" where
  "legacyLines parsed ps =
     map (\<lambda>p. JObject
       ([(''id'', JString (''legacy:'' @ cp_id p)), (''productId'', JString (cp_id p)), (''note'', JString [])]
        @ member_of ''quantity'' (obj_field (cp_id p) (record_field ''quantities'' parsed))
        @ member_of ''noteOptionIds'' (obj_field (cp_id p) (record_field ''noteSelections'' parsed))
        @ member_of ''bundleChoiceIds'' (obj_field (cp_id p) (record_field ''bundleSelections'' parsed)))) ps"

definition stored_lines :: "json \<Rightarrow> catalog_product list \<Rightarrow> json list" where
  "stored_lines parsed ps =
     (case (obj_field ''version'' parsed, obj_field ''lines'' parsed) of
        (Some (JNumber n), Some (JArray vs)) \<Rightarrow>
          if n = QR_CART_VERSION \<or> n = 2 then vs else legacyLines parsed ps
      | _ \<Rightarrow> legacyLines parsed ps)"

definition restored_draft ::
  "json \<Rightarrow> catalog_product list \<Rightarrow> cart_limits \<Rightarrow> instant \<Rightarrow> QrCartOrderingMode \<Rightarrow> bool \<Rightarrow> cart_draft" where
  "restored_draft parsed ps lim savedAt mode current =
     \<lparr>qd_savedAt = savedAt, qd_orderingMode = mode,
      qd_scheduledPickupAt =
        (if mode \<noteq> DEFAULT \<and> current then js_take 64 (string_field ''scheduledPickupAt'' parsed) else []),
      qd_customerName = js_take 50 (string_field ''customerName'' parsed),
      qd_customerNote = js_take (lm_maxNoteLength lim) (string_field ''customerNote'' parsed),
      qd_customerPhone = Some (js_take 30 (string_field ''customerPhone'' parsed)),
      qd_deliveryAddress = Some (js_take 300 (string_field ''deliveryAddress'' parsed)),
      qd_lines = restore_lines ps lim 0 (stored_lines parsed ps) ([], [])\<rparr>"

definition nothing_entered :: "cart_draft \<Rightarrow> bool" where
  "nothing_entered d \<longleftrightarrow>
     qd_lines d = [] \<and> qd_customerName d = [] \<and> qd_customerNote d = [] \<and> \<not> truthy (qd_customerPhone d)
     \<and> \<not> truthy (qd_deliveryAddress d) \<and> \<not> (qd_orderingMode d \<noteq> DEFAULT \<and> qd_scheduledPickupAt d \<noteq> [])"

definition restoreQrCartDraft ::
  "json option \<Rightarrow> catalog_product list \<Rightarrow> cart_limits \<Rightarrow> instant \<Rightarrow> QrCartOrderingMode option \<Rightarrow> cart_draft option" where
  "restoreQrCartDraft raw ps lim now context_mode =
     (case raw of
        None \<Rightarrow> None
      | Some parsed \<Rightarrow>
         (case obj_field ''savedAt'' parsed of
            Some (JNumber savedAt) \<Rightarrow>
              if now - savedAt > QR_CART_TTL_MS \<or> now < savedAt then None
              else
                (let current = (obj_field ''version'' parsed = Some (JNumber QR_CART_VERSION));
                     parsedMode = parsed_mode (obj_field ''orderingMode'' parsed)
                 in if current \<and> (parsedMode = None \<or> (context_mode \<noteq> None \<and> parsedMode \<noteq> context_mode)) then None
                    else
                      (let mode = (if current then the parsedMode
                                   else case context_mode of Some m \<Rightarrow> m | None \<Rightarrow> DEFAULT);
                           d = restored_draft parsed ps lim savedAt mode current
                       in if nothing_entered d then None else Some d))
          | _ \<Rightarrow> None))"

section \<open>The keys of the storage\<close>

definition unreserved :: "char \<Rightarrow> bool" where
  "unreserved c \<longleftrightarrow>
     (let n = of_char c :: nat in
      65 \<le> n \<and> n \<le> 90 \<or> 97 \<le> n \<and> n \<le> 122 \<or> 48 \<le> n \<and> n \<le> 57 \<or> n \<in> {45, 95, 46, 33, 126, 42, 39, 40, 41})"

definition upper_hex :: "nat \<Rightarrow> char" where
  "upper_hex n = char_of (if n < 10 then 48 + n else 55 + n)"

definition encode_char :: "char \<Rightarrow> string" where
  "encode_char c =
     (if unreserved c then [c]
      else (let n = of_char c :: nat in [CHR ''%'', upper_hex (n div 16), upper_hex (n mod 16)]))"

definition encodeURIComponent :: "string \<Rightarrow> string" where
  "encodeURIComponent s = concat (map encode_char s)"

definition qrCartStorageKey :: "string \<Rightarrow> QrCartOrderingMode \<Rightarrow> string" where
  "qrCartStorageKey token scope =
     ''stallorder_qr_cart:'' @ encodeURIComponent token
       @ (if scope = DEFAULT then [] else '':'' @ js_toLowerCase (mode_text scope))"

definition qrOrderEditDraftStorageKey :: "string \<Rightarrow> string" where
  "qrOrderEditDraftStorageKey trackingToken = ''stallorder_qr_order_edit:'' @ encodeURIComponent trackingToken"

end
