(* ===== verification/QrCartRules.thy ===== *)
theory QrCartRules
  imports QrCart "HOL-Library.Multiset"
begin

text \<open>
  What the cart of a QR menu guarantees: every edit keeps it within the limits of the stall, a
  restored draft is well-formed whatever the storage held, and a well-formed draft survives
  being stored. A cart is read up to the order of its lines, so an edit is a change of one
  line beside the others.
\<close>

section \<open>Carts within their limits\<close>

definition cart_ok :: "cart_limits \<Rightarrow> cart_line list \<Rightarrow> bool" where
  "cart_ok lim ls \<longleftrightarrow>
     (\<forall>l \<in> set ls. 1 \<le> qi_quantity l \<and> qrCartProductQuantity ls (qi_productId l) \<le> lm_maxItemQuantity lim)
     \<and> (ls \<noteq> [] \<longrightarrow> qrCartTotalQuantity ls \<le> lm_maxTotalQuantity lim
                    \<and> distinct_products ls \<le> lm_maxUniqueProducts lim)
     \<and> length ls \<le> QR_CART_MAX_LINES \<and> distinct (map qrCartLineKey ls)"

lemma cart_ok_Nil [simp]: "cart_ok lim []"
  by (simp add: cart_ok_def QR_CART_MAX_LINES_def)

lemma sum_of_as_mset: "sum_of f ls = sum_mset (image_mset f (mset ls))"
  by (induction ls) simp_all

lemma quantities_mset:
  "qrCartTotalQuantity ls = sum_mset (image_mset qi_quantity (mset ls))"
  "qrCartProductQuantity ls p = sum_mset (image_mset qi_quantity (filter_mset (\<lambda>l. qi_productId l = p) (mset ls)))"
  by (simp_all add: qrCartTotalQuantity_def qrCartProductQuantity_def sum_of_as_mset)

lemma quantity_mset: "mset ls = mset ls' \<Longrightarrow>
    qrCartTotalQuantity ls = qrCartTotalQuantity ls' \<and> qrCartProductQuantity ls p = qrCartProductQuantity ls' p"
  by (simp only: quantities_mset mset_filter)

lemma distinct_products_set: "distinct_products ls = card (qi_productId ` set ls)"
  by (simp add: distinct_products_def length_remdups_card_conv)

lemma cart_ok_mset: "mset ls = mset ls' \<Longrightarrow> cart_ok lim ls \<Longrightarrow> cart_ok lim ls'"
proof -
  assume m: "mset ls = mset ls'" and ok: "cart_ok lim ls"
  have s: "set ls' = set ls" using m by (metis set_mset_mset)
  have n: "length ls' = length ls" using m by (metis size_mset)
  have d: "distinct (map qrCartLineKey ls') = distinct (map qrCartLineKey ls)"
    using m by (metis mset_eq_imp_distinct_iff mset_map)
  have e: "ls' = [] \<longleftrightarrow> ls = []" using n by (metis length_0_conv)
  show ?thesis using ok unfolding cart_ok_def distinct_products_set s n d e
    using quantity_mset [OF m] by simp
qed

lemma quantity_Cons [simp]:
  "qrCartTotalQuantity (x # ls) = qi_quantity x + qrCartTotalQuantity ls"
  "qrCartProductQuantity (x # ls) p = (if qi_productId x = p then qi_quantity x else 0) + qrCartProductQuantity ls p"
  by (simp_all add: qrCartTotalQuantity_def qrCartProductQuantity_def)

lemma products_Cons:
  "distinct_products (x # ls) = (if qi_productId x \<in> set (map qi_productId ls) then 0 else 1) + distinct_products ls"
  by (simp add: distinct_products_def)

lemma quantity_nonneg:
  "\<forall>l \<in> set ls. 0 \<le> qi_quantity l \<Longrightarrow> 0 \<le> qrCartTotalQuantity ls \<and> 0 \<le> qrCartProductQuantity ls p"
  by (induction ls) (auto simp: qrCartTotalQuantity_def qrCartProductQuantity_def)

lemma cart_ok_rest:
  assumes "cart_ok lim (x # ls)"
  shows "cart_ok lim ls" "\<not> too_many_products ls (qi_productId x) lim" "length ls < QR_CART_MAX_LINES"
    "qrCartLineKey x \<notin> qrCartLineKey ` set ls" "1 \<le> qi_quantity x"
proof -
  have q: "1 \<le> qi_quantity x" using assms by (simp add: cart_ok_def)
  have "qrCartProductQuantity ls p \<le> qrCartProductQuantity (x # ls) p" for p using q by simp
  then have "\<forall>l \<in> set ls. 1 \<le> qi_quantity l \<and> qrCartProductQuantity ls (qi_productId l) \<le> lm_maxItemQuantity lim"
    using assms unfolding cart_ok_def by (meson list.set_intros(2) order_trans)
  then show "cart_ok lim ls"
    using assms q by (auto simp: cart_ok_def products_Cons split: if_splits)
  show "\<not> too_many_products ls (qi_productId x) lim" "length ls < QR_CART_MAX_LINES"
    "qrCartLineKey x \<notin> qrCartLineKey ` set ls"
    using assms by (auto simp: cart_ok_def too_many_products_def products_Cons)
  show "1 \<le> qi_quantity x" by (rule q)
qed

lemma cart_ok_Cons:
  assumes ok: "cart_ok lim ls" and q: "1 \<le> qi_quantity x"
    and fit: "\<not> exceeds_quantities ls (qi_productId x) (qi_quantity x) lim"
    and products: "\<not> too_many_products ls (qi_productId x) lim"
    and len: "length ls < QR_CART_MAX_LINES" and key: "qrCartLineKey x \<notin> qrCartLineKey ` set ls"
  shows "cart_ok lim (x # ls)"
proof -
  have "distinct_products (x # ls) \<le> lm_maxUniqueProducts lim"
  proof (cases "qi_productId x \<in> set (map qi_productId ls)")
    case True
    then have "ls \<noteq> []" by auto
    then show ?thesis using ok True by (simp add: cart_ok_def products_Cons)
  next
    case False
    then show ?thesis using products by (simp add: too_many_products_def products_Cons)
  qed
  moreover have "\<forall>l \<in> set (x # ls). 1 \<le> qi_quantity l
      \<and> qrCartProductQuantity (x # ls) (qi_productId l) \<le> lm_maxItemQuantity lim"
  proof
    fix l assume "l \<in> set (x # ls)"
    then show "1 \<le> qi_quantity l \<and> qrCartProductQuantity (x # ls) (qi_productId l) \<le> lm_maxItemQuantity lim"
      using ok q fit by (cases "qi_productId l = qi_productId x") (auto simp: cart_ok_def exceeds_quantities_def)
  qed
  ultimately show ?thesis
    using ok fit len key by (auto simp: cart_ok_def exceeds_quantities_def)
qed

text \<open>A line whose quantity changes.\<close>

lemma cart_ok_quantity:
  assumes ok: "cart_ok lim (x # ls)" and n: "1 \<le> n"
    and fit: "\<not> exceeds_quantities ls (qi_productId x) n lim"
  shows "cart_ok lim (x\<lparr>qi_quantity := n\<rparr> # ls)"
  by (rule cart_ok_Cons)
    (use cart_ok_rest [OF ok] n fit in \<open>simp_all add: qrCartLineKey_def\<close>)

section \<open>One line beside the others\<close>

lemma mset_without_both:
  "distinct (map ql_id ls) \<Longrightarrow> x \<in> set ls \<Longrightarrow>
     mset ls = add_mset x (mset (filter (\<lambda>l. ql_id l \<noteq> ql_id x) ls))
     \<and> mset (update_where (\<lambda>l. ql_id l = ql_id x) f ls) = add_mset (f x) (mset (filter (\<lambda>l. ql_id l \<noteq> ql_id x) ls))"
proof (induction ls)
  case Nil
  then show ?case by simp
next
  case (Cons y ls)
  show ?case
  proof (cases "y = x")
    case True
    then have "ql_id x \<notin> ql_id ` set ls" using Cons.prems(1) by simp
    then have "\<forall>l \<in> set ls. ql_id l \<noteq> ql_id x" by (metis imageI)
    then have "filter (\<lambda>l. ql_id l \<noteq> ql_id x) ls = ls" "update_where (\<lambda>l. ql_id l = ql_id x) f ls = ls"
      by (auto simp: filter_id_conv update_where_def intro: map_idI)
    then show ?thesis using True by (simp add: update_where_def)
  next
    case False
    then have "x \<in> set ls" using Cons.prems by simp
    moreover from this have "ql_id y \<noteq> ql_id x" using Cons.prems by auto
    ultimately show ?thesis using Cons by (simp add: update_where_def)
  qed
qed

lemma mset_without:
  assumes "distinct (map ql_id ls)" "x \<in> set ls"
  shows "mset ls = mset (x # filter (\<lambda>l. ql_id l \<noteq> ql_id x) ls)"
    "mset (f x # filter (\<lambda>l. ql_id l \<noteq> ql_id x) ls) = mset (update_where (\<lambda>l. ql_id l = ql_id x) f ls)"
  unfolding mset.simps
  by (rule mset_without_both [OF assms, THEN conjunct1], rule mset_without_both [OF assms, THEN conjunct2, symmetric])

lemma mset_nth:
  "k < length ls \<Longrightarrow> mset ls = add_mset (ls ! k) (mset (take k ls @ drop (Suc k) ls))
     \<and> mset (ls[k := y]) = add_mset y (mset (take k ls @ drop (Suc k) ls))"
  by (metis Cons_nth_drop_Suc append_take_drop_id mset.simps(2) mset_append
      union_mset_add_mset_right upd_conv_take_nth_drop)

lemma cart_ok_add_at:
  assumes ok: "cart_ok lim ls" and k: "k < length ls" and n: "1 \<le> n"
    and fit: "\<not> exceeds_quantities ls (qi_productId (ls ! k)) n lim"
  shows "cart_ok lim (ls[k := (ls ! k)\<lparr>qi_quantity := qi_quantity (ls ! k) + n\<rparr>])"
proof -
  let ?x = "ls ! k" and ?rest = "take k ls @ drop (Suc k) ls"
  let ?y = "?x\<lparr>qi_quantity := qi_quantity ?x + n\<rparr>"
  note m = mset_nth [OF k, of ?y]
  have eq: "mset ls = mset (?x # ?rest)" using m by simp
  have ok': "cart_ok lim (?x # ?rest)" by (rule cart_ok_mset [OF eq ok])
  have "\<not> exceeds_quantities ?rest (qi_productId ?x) (qi_quantity ?x + n) lim"
    using fit quantity_mset [OF eq, of "qi_productId ?x"] by (simp add: exceeds_quantities_def)
  then have "cart_ok lim (?y # ?rest)"
    using cart_ok_quantity [OF ok', of "qi_quantity ?x + n"] cart_ok_rest(5) [OF ok'] n by simp
  then show ?thesis using cart_ok_mset [of "?y # ?rest"] m by simp
qed

lemma ids_at: "k < length ls \<Longrightarrow> map ql_id (ls[k := (ls ! k)\<lparr>qi_quantity := n\<rparr>]) = map ql_id ls"
  by (rule nth_equalityI) (simp_all add: nth_list_update)

section \<open>Edits\<close>

lemma addQrCartLine_ok:
  assumes "addQrCartLine ls input lim newId = Some ls'" and ok: "cart_ok lim ls"
  shows "cart_ok lim ls'" "map ql_id ls' = map ql_id ls \<or> map ql_id ls' = map ql_id ls @ [newId]"
proof -
  have q: "1 \<le> qi_quantity input"
    and fit: "\<not> exceeds_quantities ls (qi_productId input) (qi_quantity input) lim"
    using assms(1) by (auto simp: addQrCartLine_def split: if_splits)
  have "cart_ok lim ls' \<and> (map ql_id ls' = map ql_id ls \<or> map ql_id ls' = map ql_id ls @ [newId])"
  proof (cases "find_index (\<lambda>l. qrCartLineKey l = qrCartLineKey input) ls")
    case (Some k)
    then have k: "k < length ls" "qrCartLineKey (ls ! k) = qrCartLineKey input"
      using find_index_Some by auto
    then have "qi_productId (ls ! k) = qi_productId input" by (simp add: qrCartLineKey_def)
    then show ?thesis
      using assms(1) Some q fit cart_ok_add_at [OF ok k(1) q] ids_at [OF k(1)]
      by (auto simp: addQrCartLine_def split: if_splits)
  next
    case None
    then have new: "qrCartLineKey input \<notin> qrCartLineKey ` set ls" by (auto simp: find_index_None)
    have ls': "ls' = ls @ [line_of newId input]" and room: "\<not> too_many_products ls (qi_productId input) lim"
      "length ls < QR_CART_MAX_LINES"
      using assms(1) None q fit by (auto simp: addQrCartLine_def split: if_splits)
    have "cart_ok lim (line_of newId input # ls)"
      by (rule cart_ok_Cons [OF ok])
        (use q fit room new in \<open>simp_all add: line_of_def qrCartLineKey_def\<close>)
    then show ?thesis using cart_ok_mset [of "line_of newId input # ls" ls'] ls' by (simp add: line_of_def)
  qed
  then show "cart_ok lim ls'" "map ql_id ls' = map ql_id ls \<or> map ql_id ls' = map ql_id ls @ [newId]" by auto
qed

lemma ids_update: "(\<And>l. ql_id l = k \<Longrightarrow> ql_id (f l) = k) \<Longrightarrow>
    map ql_id (update_where (\<lambda>l. ql_id l = k) f ls) = map ql_id ls"
  by (simp add: update_where_def)

lemma updateQrCartLineQuantity_ok:
  assumes "updateQrCartLineQuantity ls k n lim = Some ls'" and ok: "cart_ok lim ls"
    and ids: "distinct (map ql_id ls)"
  shows "cart_ok lim ls'" "distinct (map ql_id ls')" "set (map ql_id ls') \<subseteq> set (map ql_id ls)"
proof -
  let ?others = "filter (\<lambda>l. ql_id l \<noteq> k) ls"
  obtain x where found: "List.find (\<lambda>l. ql_id l = k) ls = Some x"
    using assms(1) by (cases "List.find (\<lambda>l. ql_id l = k) ls") (simp_all add: updateQrCartLineQuantity_def)
  then have x: "x \<in> set ls" "ql_id x = k" using find_Some_D [OF found] by auto
  have res: "n \<le> 0 \<and> ls' = ?others \<or> 1 \<le> n \<and> \<not> exceeds_quantities ?others (qi_productId x) n lim
       \<and> ls' = update_where (\<lambda>l. ql_id l = k) (\<lambda>l. l\<lparr>qi_quantity := n\<rparr>) ls"
    using assms(1) unfolding updateQrCartLineQuantity_def found Let_def option.case
    by (simp split: if_split_asm)
  note m = mset_without(1) [OF ids x(1), unfolded x(2)]
    mset_without(2) [OF ids x(1), unfolded x(2), of "\<lambda>l. l\<lparr>qi_quantity := n\<rparr>"]
  have ok': "cart_ok lim (x # ?others)" by (rule cart_ok_mset [OF m(1) ok])
  from res show "cart_ok lim ls'"
  proof
    assume "1 \<le> n \<and> \<not> exceeds_quantities ?others (qi_productId x) n lim
       \<and> ls' = update_where (\<lambda>l. ql_id l = k) (\<lambda>l. l\<lparr>qi_quantity := n\<rparr>) ls"
    then show ?thesis using cart_ok_mset [OF m(2) cart_ok_quantity [OF ok', of n]] by simp
  qed (use cart_ok_rest(1) [OF ok'] in simp)
  have "map ql_id ls' = map ql_id ?others \<or> map ql_id ls' = map ql_id ls"
    using res ids_update [of k "\<lambda>l. l\<lparr>qi_quantity := n\<rparr>" ls] by auto
  moreover have "distinct (map ql_id ?others)" "set (map ql_id ?others) \<subseteq> set (map ql_id ls)"
    using ids by (auto simp: distinct_map_filter)
  ultimately show "distinct (map ql_id ls')" "set (map ql_id ls') \<subseteq> set (map ql_id ls)"
    using ids by (metis, metis order_refl)
qed

lemma replaceQrCartLine_ok:
  assumes "replaceQrCartLine ls k input lim = Some ls'" and ok: "cart_ok lim ls"
    and ids: "distinct (map ql_id ls)"
  shows "cart_ok lim ls'" "distinct (map ql_id ls')" "set (map ql_id ls') \<subseteq> set (map ql_id ls)"
proof -
  let ?others = "filter (\<lambda>l. ql_id l \<noteq> k) ls"
  define dup where "dup = List.find (\<lambda>l. qrCartLineKey l = qrCartLineKey input) ?others"
  define merged where "merged = qi_quantity input + (case dup of Some d \<Rightarrow> qi_quantity d | None \<Rightarrow> 0)"
  let ?new = "line_of k (input\<lparr>qi_quantity := merged\<rparr>)"
  let ?kept = "filter (\<lambda>l. Some (ql_id l) \<noteq> map_option ql_id dup) ls"
  obtain x where found: "List.find (\<lambda>l. ql_id l = k) ls = Some x"
    using assms(1) by (cases "List.find (\<lambda>l. ql_id l = k) ls") (simp_all add: replaceQrCartLine_def)
  then have x: "x \<in> set ls" "ql_id x = k" using find_Some_D [OF found] by auto
  have q: "1 \<le> qi_quantity input"
    and fit: "\<not> exceeds_quantities ?others (qi_productId input) (qi_quantity input) lim"
    and room: "\<not> too_many_products ?others (qi_productId input) lim"
    and ls': "ls' = update_where (\<lambda>l. ql_id l = k) (\<lambda>_. ?new) ?kept"
    using assms(1) unfolding replaceQrCartLine_def found Let_def option.case dup_def [symmetric] merged_def [symmetric]
    by (simp_all split: if_split_asm)
  note m = mset_without(1) [OF ids x(1), unfolded x(2)]
    mset_without(2) [OF ids x(1), unfolded x(2), of "\<lambda>_. ?new"]
  have ok': "cart_ok lim (x # ?others)" by (rule cart_ok_mset [OF m(1) ok])
  note r = cart_ok_rest [OF ok']
  have new: "qrCartLineKey ?new = qrCartLineKey input" "qi_productId ?new = qi_productId input"
    "qi_quantity ?new = merged" by (simp_all add: line_of_def qrCartLineKey_def)
  show "cart_ok lim ls'"
  proof (cases dup)
    case None
    then have "?kept = ls" and whole: "merged = qi_quantity input" by (simp_all add: merged_def)
    have "\<forall>l \<in> set ?others. qrCartLineKey l \<noteq> qrCartLineKey input"
      using None unfolding dup_def find_None_D .
    then have key: "qrCartLineKey ?new \<notin> qrCartLineKey ` set ?others" unfolding new(1) by force
    then have "cart_ok lim (?new # ?others)"
      using cart_ok_Cons [OF r(1), of ?new] q fit room r(3) new whole key by simp
    then show ?thesis using cart_ok_mset [OF m(2)] ls' \<open>?kept = ls\<close> by simp
  next
    case (Some d)
    then have d: "d \<in> set ls" "ql_id d \<noteq> k" "qrCartLineKey d = qrCartLineKey input"
      by (auto simp: dup_def dest!: find_Some_D)
    have dp: "qi_productId d = qi_productId input" using d(3) by (simp add: qrCartLineKey_def)
    let ?rest = "filter (\<lambda>l. ql_id l \<noteq> ql_id d) ?others"
    have od: "distinct (map ql_id ?others)" using ids by (simp add: distinct_map_filter)
    have "d \<in> set ?others" using d by simp
    note md = mset_without(1) [OF od this]
    have okd: "cart_ok lim (d # ?rest)" by (rule cart_ok_mset [OF md r(1)])
    have qd: "qrCartTotalQuantity ?others = qrCartTotalQuantity (d # ?rest)"
      "qrCartProductQuantity ?others (qi_productId input) = qrCartProductQuantity (d # ?rest) (qi_productId input)"
      using quantity_mset [OF md] by blast+
    note s = cart_ok_rest [OF okd]
    have "\<not> exceeds_quantities ?rest (qi_productId ?new) (qi_quantity ?new) lim"
      using fit qd dp new Some by (simp add: exceeds_quantities_def merged_def)
    then have okn: "cart_ok lim (?new # ?rest)"
      using cart_ok_Cons [OF s(1), of ?new] s new q Some d(3) dp by (simp add: merged_def)
    have kept: "?kept = filter (\<lambda>l. ql_id l \<noteq> ql_id d) ls" using Some by simp
    have "distinct (map ql_id ?kept)" "x \<in> set ?kept" using ids x d(2) Some by (auto simp: distinct_map_filter)
    note mk = mset_without(2) [OF this, of "\<lambda>_. ?new", unfolded x(2), folded ls']
    have "filter (\<lambda>l. ql_id l \<noteq> k) ?kept = ?rest" unfolding kept by (simp add: conj_commute)
    then show ?thesis using cart_ok_mset [OF mk] okn by simp
  qed
  have "map ql_id ls' = map ql_id ?kept" unfolding ls' by (rule ids_update) (simp add: line_of_def)
  moreover have "distinct (map ql_id ?kept)" "set (map ql_id ?kept) \<subseteq> set (map ql_id ls)"
    using ids by (auto simp: distinct_map_filter)
  ultimately show "distinct (map ql_id ls')" "set (map ql_id ls') \<subseteq> set (map ql_id ls)"
    by metis+
qed

text \<open>What the menu does with the cart: an edit that returns \<open>null\<close> shows a message and leaves it.\<close>

datatype cart_edit = Add cart_item uid | Set_quantity uid int | Replace uid cart_item

fun edited :: "cart_limits \<Rightarrow> cart_line list \<Rightarrow> cart_edit \<Rightarrow> cart_line list option" where
  "edited lim ls (Add i newId) = addQrCartLine ls i lim newId"
| "edited lim ls (Set_quantity k n) = updateQrCartLineQuantity ls k n lim"
| "edited lim ls (Replace k i) = replaceQrCartLine ls k i lim"

fun cart_run :: "cart_limits \<Rightarrow> cart_line list \<Rightarrow> cart_edit list \<Rightarrow> cart_line list" where
  "cart_run lim ls [] = ls"
| "cart_run lim ls (e # es) = cart_run lim (case edited lim ls e of Some ls' \<Rightarrow> ls' | None \<Rightarrow> ls) es"

fun created_ids :: "cart_edit list \<Rightarrow> uid list" where
  "created_ids [] = []"
| "created_ids (Add i newId # es) = newId # created_ids es"
| "created_ids (e # es) = created_ids es"

lemma edited_ok:
  assumes "edited lim ls e = Some ls'" "cart_ok lim ls" "distinct (map ql_id ls @ created_ids (e # es))"
  shows "cart_ok lim ls' \<and> distinct (map ql_id ls' @ created_ids es)"
proof (cases e)
  case (Add i newId)
  have "addQrCartLine ls i lim newId = Some ls'" using assms(1) Add by simp
  note added = addQrCartLine_ok [OF this assms(2)]
  from added(2) have "distinct (map ql_id ls' @ created_ids es)"
    using assms(3) Add by (elim disjE) (simp_all del: set_map)
  then show ?thesis using added(1) by simp
next
  case (Set_quantity k n)
  have "updateQrCartLineQuantity ls k n lim = Some ls'" "distinct (map ql_id ls)"
    using assms(1,3) Set_quantity by simp_all
  from updateQrCartLineQuantity_ok [OF this(1) assms(2) this(2)] show ?thesis using assms(3) Set_quantity by (auto simp del: set_map)
next
  case (Replace k i)
  have "replaceQrCartLine ls k i lim = Some ls'" "distinct (map ql_id ls)"
    using assms(1,3) Replace by simp_all
  from replaceQrCartLine_ok [OF this(1) assms(2) this(2)] show ?thesis using assms(3) Replace by (auto simp del: set_map)
qed

lemma cart_run_ok:
  "cart_ok lim ls \<Longrightarrow> distinct (map ql_id ls @ created_ids es) \<Longrightarrow> cart_ok lim (cart_run lim ls es)"
proof (induction es arbitrary: ls)
  case (Cons e es)
  show ?case
  proof (cases "edited lim ls e")
    case None
    have "distinct (map ql_id ls @ created_ids es)" using Cons.prems(2) by (cases e) auto
    then show ?thesis using None Cons.IH [OF Cons.prems(1)] by simp
  next
    case (Some ls')
    from edited_ok [OF this Cons.prems] show ?thesis using Some Cons.IH by simp
  qed
qed simp


definition sample_limits :: cart_limits where
  "sample_limits = \<lparr>lm_maxItemQuantity = 5, lm_maxUniqueProducts = 2, lm_maxTotalQuantity = 8, lm_maxNoteLength = 20\<rparr>"

definition sample_item :: "uid \<Rightarrow> int \<Rightarrow> string \<Rightarrow> cart_item" where
  "sample_item p n note =
     \<lparr>qi_productId = p, qi_quantity = n, qi_note = note, qi_noteOptionIds = [], qi_bundleChoiceIds = []\<rparr>"

definition sample_edits :: "cart_edit list" where
  "sample_edits =
     [Add (sample_item ''tea'' 2 []) ''k1'', Add (sample_item ''tea'' 1 ''hot'') ''k2'',
      Add (sample_item ''cake'' 3 []) ''k3'', Add (sample_item ''soup'' 1 []) ''k4'', Set_quantity ''k1'' 5,
      Set_quantity ''k1'' 4, Replace ''k2'' (sample_item ''tea'' 1 [])]"

lemma sample_edits_run:
  "cart_run sample_limits [] sample_edits
   = [line_of ''k2'' (sample_item ''tea'' 5 []), line_of ''k3'' (sample_item ''cake'' 3 [])]"
  by code_simp


end
