(* ===== verification/QrDraftRules.thy ===== *)
theory QrDraftRules
  imports QrCartRules
begin

text \<open>
  What \<open>restoreQrCartDraft\<close> promises: whatever the storage of the browser held, a restored draft
  is young enough, belongs to the menu that asked for it and holds a cart within the limits whose
  products and options are those of the menu; and a draft of that form that was stored comes back
  as it was.
\<close>

section \<open>Lines of the menu\<close>

definition line_ok :: "catalog_product list \<Rightarrow> cart_limits \<Rightarrow> cart_line \<Rightarrow> bool" where
  "line_ok ps lim l \<longleftrightarrow>
     (case find_product (qi_productId l) ps of
        None \<Rightarrow> False
      | Some p \<Rightarrow>
          set (qi_noteOptionIds l) \<subseteq> set (note_options p) \<and> distinct (qi_noteOptionIds l)
          \<and> set (qi_bundleChoiceIds l) \<subseteq> set (bundle_options p) \<and> distinct (qi_bundleChoiceIds l)
          \<and> js_length (qi_note l) \<le> lm_maxNoteLength lim)"

lemma js_length_Cons: "js_length (c # s) = js_length [c] + js_length s"
  by (simp add: js_length_def)

lemma js_length_Nil [simp]: "js_length [] = 0"
  by (simp add: js_length_def)

lemma js_length_take: "js_length (js_take n s) \<le> n"
proof (induction n s rule: js_take.induct)
  case (2 n c s)
  then show ?case
    using js_length_Cons [of c "js_take (n - js_length [c]) s"] by (cases "js_length [c] \<le> n") simp_all
qed simp

lemma js_take_whole: "js_length s \<le> n \<Longrightarrow> js_take n s = s"
proof (induction n s rule: js_take.induct)
  case (2 n c s)
  then show ?case using js_length_Cons [of c s] by simp
qed simp

lemma sanitizedIds_ok: "set (sanitizedIds v allowed) \<subseteq> set allowed" "distinct (sanitizedIds v allowed)"
  by (auto simp: sanitizedIds_def first_occurrences_def split: option.splits json.splits)

lemma strings_of_strings [simp]: "strings_of (map JString xs) = xs"
  by (induction xs) simp_all

lemma sanitizedIds_strings:
  "set xs \<subseteq> set allowed \<Longrightarrow> distinct xs \<Longrightarrow> sanitizedIds (Some (JArray (map JString xs))) allowed = xs"
  by (auto simp: sanitizedIds_def first_occurrences_def distinct_remdups_id filter_id_conv)

lemma line_ok_quantity [simp]: "line_ok ps lim (l\<lparr>qi_quantity := n\<rparr>) = line_ok ps lim l"
  by (cases "find_product (qi_productId l) ps") (simp_all add: line_ok_def)

lemma restored_line_fields [simp]:
  "qi_productId (restored_line p lim i raw used n) = string_field ''productId'' raw"
  "qi_quantity (restored_line p lim i raw used n) = n"
  by (simp_all add: restored_line_def Let_def)

lemma restored_line_ok:
  "find_product (string_field ''productId'' raw) ps = Some p \<Longrightarrow>
     line_ok ps lim (restored_line p lim i raw used n)"
  by (simp add: line_ok_def restored_line_def Let_def sanitizedIds_ok js_length_take)

section \<open>Restoring keeps the limits\<close>

definition lines_ok :: "catalog_product list \<Rightarrow> cart_limits \<Rightarrow> cart_line list \<Rightarrow> bool" where
  "lines_ok ps lim ls \<longleftrightarrow> cart_ok lim ls \<and> (\<forall>l \<in> set ls. line_ok ps lim l)"

lemma fits_remaining:
  "n \<le> min (lm_maxItemQuantity lim - qrCartProductQuantity ls p) (lm_maxTotalQuantity lim - qrCartTotalQuantity ls)
   \<longleftrightarrow> \<not> exceeds_quantities ls p n lim"
  by (auto simp: exceeds_quantities_def)

lemma merged_line_ok:
  assumes "lines_ok ps lim ls" "k < length ls" "1 \<le> n" "\<not> exceeds_quantities ls (qi_productId (ls ! k)) n lim"
  shows "lines_ok ps lim (ls[k := (ls ! k)\<lparr>qi_quantity := qi_quantity (ls ! k) + n\<rparr>])"
proof -
  have "cart_ok lim ls" "\<forall>l \<in> set ls. line_ok ps lim l" using assms(1) by (simp_all add: lines_ok_def)
  moreover from this have "\<forall>l \<in> set (ls[k := (ls ! k)\<lparr>qi_quantity := qi_quantity (ls ! k) + n\<rparr>]). line_ok ps lim l"
    using set_update_subset_insert [of ls k] assms(2) by fastforce
  ultimately show ?thesis using cart_ok_add_at [of lim ls k n] assms(2-4) by (simp add: lines_ok_def)
qed

lemma appended_line_ok:
  assumes "lines_ok ps lim ls" "line_ok ps lim l" "1 \<le> qi_quantity l"
    "\<not> exceeds_quantities ls (qi_productId l) (qi_quantity l) lim" "\<not> too_many_products ls (qi_productId l) lim"
    "length ls < QR_CART_MAX_LINES" "qrCartLineKey l \<notin> qrCartLineKey ` set ls"
  shows "lines_ok ps lim (ls @ [l])"
proof -
  have "cart_ok lim (l # ls)" by (rule cart_ok_Cons) (use assms in \<open>simp_all add: lines_ok_def\<close>)
  then show ?thesis using cart_ok_mset [of "l # ls" "ls @ [l]" lim] assms(1,2) by (simp add: lines_ok_def)
qed

lemma restore_line_ok:
  assumes ok: "lines_ok ps lim ls" and len: "length ls < QR_CART_MAX_LINES"
  shows "lines_ok ps lim (fst (restore_line ps lim i raw (ls, used)))"
proof -
  let ?p = "string_field ''productId'' raw"
  show ?thesis
  proof (cases "find_product ?p ps")
    case None
    then show ?thesis using ok by (simp add: restore_line_def Let_def)
  next
    case (Some p)
    note found = this
    show ?thesis
    proof (cases "Option.bind (obj_field ''quantity'' raw) js_Number")
      case None
      then show ?thesis using ok found by (simp add: restore_line_def Let_def)
    next
      case (Some requested)
      define n where "n = min requested (min (lm_maxItemQuantity lim - qrCartProductQuantity ls ?p)
        (lm_maxTotalQuantity lim - qrCartTotalQuantity ls))"
      define l where "l = restored_line p lim i raw used n"
      have l: "line_ok ps lim l" "qi_productId l = ?p" "qi_quantity l = n"
        unfolding l_def by (simp_all add: restored_line_ok [OF found])
      have eq: "restore_line ps lim i raw (ls, used) =
          (if requested \<le> 0 \<or> n \<le> 0 \<or> too_many_products ls ?p lim then (ls, used)
           else case find_index (\<lambda>m. qrCartLineKey m = qrCartLineKey l) ls of
             Some k \<Rightarrow> (ls[k := (ls ! k)\<lparr>qi_quantity := qi_quantity (ls ! k) + n\<rparr>], used)
           | None \<Rightarrow> (ls @ [l], ql_id l # used))"
        unfolding restore_line_def found Some Let_def option.case prod.case n_def [symmetric] l_def [symmetric]
        by simp
      show ?thesis
      proof (cases "requested \<le> 0 \<or> n \<le> 0 \<or> too_many_products ls ?p lim")
        case True
        then show ?thesis using ok eq by simp
      next
        case False
        then have n: "1 \<le> n" "\<not> too_many_products ls (qi_productId l) lim" using l(2) by simp_all
        have fit: "\<not> exceeds_quantities ls ?p n lim"
          unfolding fits_remaining [symmetric] n_def by (rule min.cobounded2)
        show ?thesis
        proof (cases "find_index (\<lambda>m. qrCartLineKey m = qrCartLineKey l) ls")
          case None
          then have "qrCartLineKey l \<notin> qrCartLineKey ` set ls" by (auto simp: find_index_None)
          from appended_line_ok [OF ok l(1) _ _ n(2) len this] show ?thesis
            using eq False None n(1) fit l(2,3) by simp
        next
          case (Some k)
          then have k: "k < length ls" "qrCartLineKey (ls ! k) = qrCartLineKey l" using find_index_Some by auto
          then have "qi_productId (ls ! k) = ?p" using l(2) by (simp add: qrCartLineKey_def)
          then show ?thesis using merged_line_ok [OF ok k(1) n(1)] fit eq False Some by simp
        qed
      qed
    qed
  qed
qed

lemma restore_lines_ok: "lines_ok ps lim (fst acc) \<Longrightarrow> lines_ok ps lim (restore_lines ps lim i raws acc)"
proof (induction raws arbitrary: i acc)
  case (Cons raw raws)
  obtain ls used where acc: "acc = (ls, used)" by (cases acc)
  show ?case using Cons restore_line_ok [of ps lim ls i raw used] unfolding acc by simp
qed simp

section \<open>Restored drafts\<close>

definition draft_ok ::
  "catalog_product list \<Rightarrow> cart_limits \<Rightarrow> instant \<Rightarrow> QrCartOrderingMode option \<Rightarrow> cart_draft \<Rightarrow> bool" where
  "draft_ok ps lim now m d \<longleftrightarrow>
     0 \<le> now - qd_savedAt d \<and> now - qd_savedAt d \<le> QR_CART_TTL_MS
     \<and> (m = None \<or> m = Some (qd_orderingMode d))
     \<and> (qd_orderingMode d = DEFAULT \<longrightarrow> qd_scheduledPickupAt d = []) \<and> js_length (qd_scheduledPickupAt d) \<le> 64
     \<and> js_length (qd_customerName d) \<le> 50 \<and> js_length (qd_customerNote d) \<le> lm_maxNoteLength lim
     \<and> (\<exists>t. qd_customerPhone d = Some t \<and> js_length t \<le> 30)
     \<and> (\<exists>t. qd_deliveryAddress d = Some t \<and> js_length t \<le> 300)
     \<and> lines_ok ps lim (qd_lines d) \<and> \<not> nothing_entered d"

lemma lines_ok_Nil [simp]: "lines_ok ps lim []"
  by (simp add: lines_ok_def)

lemma restored_draft_ok:
  assumes "0 \<le> now - savedAt" "now - savedAt \<le> QR_CART_TTL_MS" "m = None \<or> m = Some mode"
    "\<not> nothing_entered (restored_draft parsed ps lim savedAt mode current)"
  shows "draft_ok ps lim now m (restored_draft parsed ps lim savedAt mode current)"
  using assms restore_lines_ok [of ps lim "([], [])" 0 "stored_lines parsed ps"] js_length_take
  unfolding draft_ok_def by (simp add: restored_draft_def)

text \<open>C14. Whatever value the storage of the browser holds, a draft that \<open>restoreQrCartDraft\<close> gives back was
  saved at most a day ago and not in the future, has the ordering mode the menu asked for, no pickup time in
  the default mode, texts within their lengths, and at most a hundred lines with different contents and
  positive quantities, within the stall's limits per product, on products and in total, whose products are
  on the menu and whose options are options of that product, none twice; and something was entered.\<close>

theorem restored_draft_is_well_formed:
  assumes "restoreQrCartDraft raw ps lim now m = Some d"
  shows "draft_ok ps lim now m d"
proof -
  obtain parsed where raw: "raw = Some parsed" using assms by (cases raw) (simp_all add: restoreQrCartDraft_def)
  obtain savedAt where saved: "obj_field ''savedAt'' parsed = Some (JNumber savedAt)"
    using assms unfolding restoreQrCartDraft_def raw by (simp split: option.splits json.splits)
  define current where "current \<longleftrightarrow> obj_field ''version'' parsed = Some (JNumber QR_CART_VERSION)"
  define parsedMode where "parsedMode = parsed_mode (obj_field ''orderingMode'' parsed)"
  define mode where "mode = (if current then the parsedMode else case m of Some x \<Rightarrow> x | None \<Rightarrow> DEFAULT)"
  have eq: "(if now - savedAt > QR_CART_TTL_MS \<or> now < savedAt then None
      else if current \<and> (parsedMode = None \<or> (m \<noteq> None \<and> parsedMode \<noteq> m)) then None
      else if nothing_entered (restored_draft parsed ps lim savedAt mode current) then None
      else Some (restored_draft parsed ps lim savedAt mode current)) = Some d"
    using assms unfolding restoreQrCartDraft_def raw saved Let_def option.case json.case current_def [symmetric]
      parsedMode_def [symmetric] mode_def [symmetric] .
  then have age: "0 \<le> now - savedAt" "now - savedAt \<le> QR_CART_TTL_MS"
    and modes: "\<not> (current \<and> (parsedMode = None \<or> (m \<noteq> None \<and> parsedMode \<noteq> m)))"
    and d: "\<not> nothing_entered (restored_draft parsed ps lim savedAt mode current)"
      "restored_draft parsed ps lim savedAt mode current = d"
    by (simp_all split: if_split_asm)
  have "m = None \<or> m = Some mode" using modes unfolding mode_def by (cases m) auto
  from restored_draft_ok [OF age this d(1)] show ?thesis unfolding d(2) .
qed

section \<open>The round trip\<close>

lemma cart_ok_prefix: "cart_ok lim (ls @ ms) \<Longrightarrow> cart_ok lim ls"
proof (induction ms arbitrary: ls)
  case (Cons x ms)
  then have "cart_ok lim ((ls @ [x]) @ ms)" by simp
  from Cons.IH [OF this] have "cart_ok lim (x # ls)" by (rule cart_ok_mset [rotated]) simp
  then show ?case by (rule cart_ok_rest(1))
qed simp

lemma parsed_mode_text [simp]: "parsed_mode (Some (JString (mode_text m))) = Some m"
  by (cases m) (simp_all add: parsed_mode_def)

lemma line_json_fields [simp]:
  "is_record (line_json l)" "string_field ''productId'' (line_json l) = qi_productId l"
  "string_field ''id'' (line_json l) = ql_id l" "string_field ''note'' (line_json l) = qi_note l"
  "obj_field ''quantity'' (line_json l) = Some (JNumber (qi_quantity l))"
  "obj_field ''noteOptionIds'' (line_json l) = Some (JArray (map JString (qi_noteOptionIds l)))"
  "obj_field ''bundleChoiceIds'' (line_json l) = Some (JArray (map JString (qi_bundleChoiceIds l)))"
  by (simp_all add: line_json_def string_field_def obj_field_def)

lemma restored_line_json:
  assumes "line_ok ps lim x" "find_product (qi_productId x) ps = Some p"
    "ql_id x \<notin> set used" "ql_id x \<noteq> []" "js_trim (ql_id x) = ql_id x"
  shows "restored_line p lim i (line_json x) used (qi_quantity x) = x"
  using assms by (simp add: restored_line_def Let_def line_ok_def sanitizedIds_strings js_take_whole)

lemma restore_line_json:
  assumes ok: "lines_ok ps lim (ls @ [x])" and used: "ql_id x \<notin> set used"
    and k: "ql_id x \<noteq> []" "js_trim (ql_id x) = ql_id x"
  shows "restore_line ps lim i (line_json x) (ls, used) = (ls @ [x], ql_id x # used)"
proof -
  have cart: "cart_ok lim (x # ls)" and x: "line_ok ps lim x"
    using ok cart_ok_mset [of "ls @ [x]" "x # ls" lim] by (simp_all add: lines_ok_def)
  note r = cart_ok_rest [OF cart]
  obtain p where p: "find_product (qi_productId x) ps = Some p"
    using x by (cases "find_product (qi_productId x) ps") (simp_all add: line_ok_def)
  have "\<not> exceeds_quantities ls (qi_productId x) (qi_quantity x) lim"
    using cart by (simp add: exceeds_quantities_def cart_ok_def algebra_simps)
  then have "min (qi_quantity x) (min (lm_maxItemQuantity lim - qrCartProductQuantity ls (qi_productId x))
      (lm_maxTotalQuantity lim - qrCartTotalQuantity ls)) = qi_quantity x"
    by (simp add: exceeds_quantities_def)
  moreover have "find_index (\<lambda>m. qrCartLineKey m = qrCartLineKey x) ls = None"
    using r(4) unfolding find_index_None by (metis imageI)
  ultimately show ?thesis
    using r(2,5) by (simp add: restore_line_def Let_def p js_Number_def restored_line_json [OF x p used k])
qed

lemma restore_lines_json:
  "lines_ok ps lim (ls @ rest) \<Longrightarrow> distinct (map ql_id (ls @ rest)) \<Longrightarrow> set used = set (map ql_id ls)
   \<Longrightarrow> \<forall>l \<in> set rest. ql_id l \<noteq> [] \<and> js_trim (ql_id l) = ql_id l
   \<Longrightarrow> restore_lines ps lim i (map line_json rest) (ls, used) = ls @ rest"
proof (induction rest arbitrary: i ls used)
  case (Cons x rest)
  have "lines_ok ps lim (ls @ [x])"
    using Cons.prems(1) cart_ok_prefix [of lim "ls @ [x]" rest] by (simp add: lines_ok_def)
  moreover have "ql_id x \<notin> set used" using Cons.prems(2,3) by auto
  ultimately have "restore_line ps lim i (line_json x) (ls, used) = (ls @ [x], ql_id x # used)"
    using Cons.prems(4) by (intro restore_line_json) simp_all
  moreover have "length ls < QR_CART_MAX_LINES" using Cons.prems(1) by (simp add: lines_ok_def cart_ok_def)
  ultimately show ?case using Cons.IH [of "ls @ [x]" "ql_id x # used" "Suc i"] Cons.prems by simp
qed simp

lemma serialized_fields:
  assumes "qd_customerPhone d = Some phone" "qd_deliveryAddress d = Some address"
  shows "obj_field ''savedAt'' (serializeQrCartDraft d now) = Some (JNumber now)"
    "obj_field ''version'' (serializeQrCartDraft d now) = Some (JNumber QR_CART_VERSION)"
    "obj_field ''orderingMode'' (serializeQrCartDraft d now) = Some (JString (mode_text (qd_orderingMode d)))"
    "obj_field ''lines'' (serializeQrCartDraft d now) = Some (JArray (map line_json (qd_lines d)))"
    "string_field ''scheduledPickupAt'' (serializeQrCartDraft d now) = qd_scheduledPickupAt d"
    "string_field ''customerName'' (serializeQrCartDraft d now) = qd_customerName d"
    "string_field ''customerNote'' (serializeQrCartDraft d now) = qd_customerNote d"
    "string_field ''customerPhone'' (serializeQrCartDraft d now) = phone"
    "string_field ''deliveryAddress'' (serializeQrCartDraft d now) = address"
  by (simp_all add: serializeQrCartDraft_def assms optional_member_def obj_field_def string_field_def)

text \<open>C26. A well-formed draft whose lines have different, trimmed and nonempty identifiers survives the
  storage: serializing it and restoring the text within a day gives the same draft, every line with its
  identifier, quantity, note and options in the same order.\<close>

theorem draft_round_trip:
  assumes ok: "draft_ok ps lim later m d" and ids: "distinct (map ql_id (qd_lines d))"
    and plain: "\<forall>l \<in> set (qd_lines d). ql_id l \<noteq> [] \<and> js_trim (ql_id l) = ql_id l"
  shows "restoreQrCartDraft (Some (serializeQrCartDraft d (qd_savedAt d))) ps lim later m = Some d"
proof -
  obtain phone address where contact: "qd_customerPhone d = Some phone" "qd_deliveryAddress d = Some address"
    using ok by (auto simp: draft_ok_def)
  note fields = serialized_fields [OF contact, of "qd_savedAt d"]
  have "restore_lines ps lim 0 (map line_json (qd_lines d)) ([], []) = qd_lines d"
    using restore_lines_json [of ps lim "[]" "qd_lines d" "[]" 0] ok ids plain by (simp add: draft_ok_def)
  then have "restored_draft (serializeQrCartDraft d (qd_savedAt d)) ps lim (qd_savedAt d) (qd_orderingMode d) True = d"
    using ok contact by (simp add: restored_draft_def fields stored_lines_def draft_ok_def js_take_whole)
  then show ?thesis using ok by (auto simp: restoreQrCartDraft_def fields Let_def draft_ok_def)
qed

section \<open>A stored draft\<close>

definition sample_menu :: "catalog_product list" where
  "sample_menu =
     [\<lparr>cp_id = ''tea'', cp_noteGroups = [[''hot'', ''cold''], [''sweet'']], cp_bundleChoiceGroups = None\<rparr>]"

definition sample_line :: "uid \<Rightarrow> string \<Rightarrow> cart_line" where
  "sample_line k note =
     \<lparr>qi_productId = ''tea'', qi_quantity = 1, qi_note = note, qi_noteOptionIds = [''sweet'', ''hot''],
      qi_bundleChoiceIds = [], ql_id = k\<rparr>"

definition sample_draft :: "cart_line list \<Rightarrow> cart_draft" where
  "sample_draft ls =
     \<lparr>qd_savedAt = 1000, qd_orderingMode = PREORDER, qd_scheduledPickupAt = ''2026-01-01T10:00'',
      qd_customerName = ''Ann'', qd_customerNote = [], qd_customerPhone = Some [], qd_deliveryAddress = Some [],
      qd_lines = ls\<rparr>"

definition stored_draft :: "cart_draft \<Rightarrow> json" where
  "stored_draft d = serializeQrCartDraft d (qd_savedAt d)"

theorem restored_draft_is_well_formed_witness:
  "\<exists>d. restoreQrCartDraft (Some (stored_draft (sample_draft [sample_line ''a'' ''no ice'']))) sample_menu
         sample_limits 2000 (Some PREORDER) = Some d
       \<and> draft_ok sample_menu sample_limits 2000 (Some PREORDER) d \<and> length (qd_lines d) = 1"
proof -
  have "restoreQrCartDraft (Some (stored_draft (sample_draft [sample_line ''a'' ''no ice'']))) sample_menu
      sample_limits 2000 (Some PREORDER) = Some (sample_draft [sample_line ''a'' ''no ice''])"
    by code_simp
  from restored_draft_is_well_formed [OF this] this show ?thesis by (auto simp: sample_draft_def)
qed

theorem draft_round_trip_witness:
  "restoreQrCartDraft (Some (serializeQrCartDraft (sample_draft [sample_line ''a'' [], sample_line ''b'' ''no ice'']) 1000))
     sample_menu sample_limits 5000 None = Some (sample_draft [sample_line ''a'' [], sample_line ''b'' ''no ice''])"
proof -
  let ?d = "sample_draft [sample_line ''a'' [], sample_line ''b'' ''no ice'']"
  have lines: "lines_ok sample_menu sample_limits (qd_lines ?d)" by code_simp
  have entered: "\<not> nothing_entered ?d" by code_simp
  have "draft_ok sample_menu sample_limits 5000 None ?d"
    using lines entered unfolding draft_ok_def
    by (simp add: sample_draft_def sample_limits_def QR_CART_TTL_MS_def js_length_def)
  moreover have "distinct (map ql_id (qd_lines ?d))"
    "\<forall>l \<in> set (qd_lines ?d). ql_id l \<noteq> [] \<and> js_trim (ql_id l) = ql_id l" by code_simp+
  ultimately have "restoreQrCartDraft (Some (serializeQrCartDraft ?d (qd_savedAt ?d))) sample_menu sample_limits 5000 None
      = Some ?d"
    by (rule draft_round_trip)
  then show ?thesis by (simp add: sample_draft_def)
qed

text \<open>An identifier taken from the storage may clash with one made from it: the third line here gets the
  identifier of the first. A change of its quantity then changes both lines, and the product leaves its
  limit of five.\<close>

definition clashing_lines :: "cart_line list" where
  "clashing_lines = [sample_line ''a:2'' ''first'', sample_line ''a'' ''second'', sample_line ''a'' ''third'']"

lemma restored_ids_may_clash:
  "map_option (\<lambda>d. (map ql_id (qd_lines d),
       map_option (\<lambda>ls. qrCartProductQuantity ls ''tea'') (edited sample_limits (qd_lines d) (Set_quantity ''a:2'' 4))))
     (restoreQrCartDraft (Some (stored_draft (sample_draft clashing_lines))) sample_menu sample_limits 2000 None)
   = Some ([''a:2'', ''a'', ''a:2''], Some 9)"
  by code_simp

section \<open>Keys\<close>

lemma encode_char_parts:
  "\<not> unreserved c \<Longrightarrow> encode_char c =
     [CHR ''%'', upper_hex (of_char c div 16), upper_hex (of_char c mod 16)]"
  by (simp add: encode_char_def Let_def)

lemma encode_char_nonempty: "encode_char c \<noteq> []"
  by (simp add: encode_char_def Let_def)

lemma char_quotient: "(of_char c :: nat) div 16 < 16"
  by (rule less_mult_imp_div_less) simp

lemma upper_hex_inj: "m < 16 \<Longrightarrow> n < 16 \<Longrightarrow> upper_hex m = upper_hex n \<Longrightarrow> m = n"
  unfolding upper_hex_def by (auto simp: char_of_eq_iff take_bit_nat_eq_self split: if_splits)

lemma percent_reserved: "\<not> unreserved CHR ''%''" "\<not> unreserved CHR '':''"
  by (simp_all add: unreserved_def Let_def)

lemma encode_char_inj:
  assumes "encode_char c @ s = encode_char d @ t" shows "c = d \<and> s = t"
proof (cases "unreserved c \<or> unreserved d")
  case True
  then show ?thesis using assms percent_reserved
    by (cases "unreserved c"; cases "unreserved d") (auto simp: encode_char_def Let_def)
next
  case False
  let ?m = "of_char c :: nat" and ?n = "of_char d :: nat"
  have "upper_hex (?m div 16) = upper_hex (?n div 16)" "upper_hex (?m mod 16) = upper_hex (?n mod 16)" "s = t"
    using assms False by (simp_all add: encode_char_parts)
  moreover have "?m div 16 < 16" "?n div 16 < 16" by (rule char_quotient)+
  ultimately have "?m div 16 = ?n div 16" "?m mod 16 = ?n mod 16" by (auto intro: upper_hex_inj)
  then have "?m = ?n" by (metis div_mult_mod_eq)
  then show ?thesis using \<open>s = t\<close> by (simp add: of_char_eq_iff)
qed

lemma encode_no_colon: "CHR '':'' \<notin> set (encodeURIComponent s)"
proof -
  have "CHR '':'' \<notin> set (encode_char c)" for c
  proof -
    have "upper_hex n \<noteq> CHR '':''" if "n < 16" for n
    proof
      assume "upper_hex n = CHR '':''"
      then have "of_char (upper_hex n) = (of_char (CHR '':'') :: nat)" by simp
      then show False using that by (simp add: upper_hex_def take_bit_nat_eq_self split: if_splits)
    qed
    from this [of "of_char c div 16"] this [of "of_char c mod 16"] show ?thesis
      using percent_reserved(2) char_quotient [of c]
      by (cases "unreserved c") (auto simp: encode_char_def Let_def)
  qed
  then show ?thesis by (auto simp: encodeURIComponent_def)
qed

lemma encodeURIComponent_inj: "encodeURIComponent s = encodeURIComponent t \<Longrightarrow> s = t"
proof (induction s arbitrary: t)
  case Nil
  then show ?case using encode_char_nonempty by (cases t) (simp_all add: encodeURIComponent_def)
next
  case (Cons c s)
  show ?case
  proof (cases t)
    case Nil
    then show ?thesis using Cons.prems encode_char_nonempty by (simp add: encodeURIComponent_def)
  next
    case (Cons d t')
    have "encode_char c @ encodeURIComponent s = encode_char d @ encodeURIComponent t'"
      using Cons.prems Cons by (simp add: encodeURIComponent_def)
    from encode_char_inj [OF this] show ?thesis using Cons.IH Cons by auto
  qed
qed

lemma colon_split: "CHR '':'' \<notin> set a \<Longrightarrow> CHR '':'' \<notin> set b \<Longrightarrow>
    a @ u = b @ v \<Longrightarrow> u = [] \<or> hd u = CHR '':'' \<Longrightarrow> v = [] \<or> hd v = CHR '':'' \<Longrightarrow> a = b \<and> u = v"
proof (induction a arbitrary: b)
  case Nil
  then show ?case by (cases b) auto
next
  case (Cons x a)
  then show ?case by (cases b) auto
qed

lemma storage_keys_differ:
  assumes "qrCartStorageKey s m = qrCartStorageKey t n"
  shows "s = t \<and> m = n"
proof -
  define suffix where "suffix m = (if m = DEFAULT then [] else '':'' @ js_toLowerCase (mode_text m))" for m
  have "encodeURIComponent s @ suffix m = encodeURIComponent t @ suffix n"
    using assms by (simp add: qrCartStorageKey_def suffix_def)
  moreover have "suffix k = [] \<or> hd (suffix k) = CHR '':''" for k by (simp add: suffix_def)
  ultimately have "encodeURIComponent s = encodeURIComponent t \<and> suffix m = suffix n"
    by (intro colon_split encode_no_colon)
  moreover have "suffix DEFAULT = []" "suffix DELIVERY = '':delivery''" "suffix PREORDER = '':preorder''"
    unfolding suffix_def by (simp, code_simp, code_simp)
  ultimately show ?thesis using encodeURIComponent_inj by (cases m; cases n) auto
qed

end
