(* ===== verification/OrderItems.thy ===== *)
theory OrderItems
  imports DeliveryJobs StallData
begin

text \<open>
  The lines of an order that the staff enters, read again from the menu before anything is
  charged (\<open>src/src/lib/staff-order-create.ts\<close>, \<open>order-item-limits.ts\<close>,
  \<open>staff-fulfillment.ts\<close>, \<open>staff-order-contract.ts\<close>): availability, the choices of a bundle, the
  notes with their prices, the limits of the stall, the table and the wished time. The tables
  are those of \<open>prisma/schema.prisma\<close>. Parameters: the collation order of names, the format of a
  UUID and \<open>validate_requested_fulfillment_slot\<close>, a function of the database.
\<close>

section \<open>The menu\<close>

datatype ProductKind = SINGLE | BUNDLE

record category_row =
  ct_id :: uid
  ct_isActive :: bool

record product_row =
  pd_id :: uid
  pd_organizationId :: uid
  pd_categoryId :: uid
  pd_name :: string
  pd_defaultPrice :: int
  pd_kind :: ProductKind
  pd_isOrderDiscountEligible :: bool
  pd_isActive :: bool

record stall_product_row =
  sp_organizationId :: uid
  sp_stallId :: uid
  sp_productId :: uid
  sp_priceOverride :: "int option"
  sp_isEnabled :: bool
  sp_availableFrom :: "instant option"
  sp_availableUntil :: "instant option"

record note_group_row =
  ng_id :: uid
  ng_name :: string
  ng_minSelections :: int
  ng_maxSelections :: "int option"
  ng_sortOrder :: int
  ng_isActive :: bool

record note_assignment_row =
  na_productId :: uid
  na_noteGroupId :: uid
  na_sortOrder :: int
  na_isActive :: bool

record note_option_row =
  no_id :: uid
  no_noteGroupId :: uid
  no_name :: string
  no_priceDelta :: int
  no_sortOrder :: int
  no_isActive :: bool

record bundle_group_row =
  bg_id :: uid
  bg_organizationId :: uid
  bg_bundleProductId :: uid
  bg_name :: string
  bg_minSelections :: int
  bg_maxSelections :: int
  bg_sortOrder :: int

record bundle_choice_row =
  bx_id :: uid
  bx_organizationId :: uid
  bx_choiceGroupId :: uid
  bx_componentProductId :: uid
  bx_quantity :: int
  bx_priceDelta :: int
  bx_isEnabled :: bool
  bx_sortOrder :: int

record dining_table_row =
  dt_id :: uid
  dt_organizationId :: uid
  dt_stallId :: uid
  dt_label :: string
  dt_isActive :: bool

record order_item_limits =
  il_maxItemQuantity :: int
  il_maxUniqueProducts :: nat
  il_maxTotalQuantity :: int
  il_maxNoteLength :: nat

record staff_settings = order_item_limits +
  os_stallId :: uid
  os_unconfirmedOrderTimeoutSeconds :: int
  os_dineInEnabled :: bool
  os_staffDeliveryEnabled :: bool

record menu_db =
  categories :: "category_row list"
  products :: "product_row list"
  stall_products :: "stall_product_row list"
  note_groups :: "note_group_row list"
  note_assignments :: "note_assignment_row list"
  note_options :: "note_option_row list"
  bundle_groups :: "bundle_group_row list"
  bundle_choices :: "bundle_choice_row list"
  dining_tables :: "dining_table_row list"
  staff_settings :: "staff_settings list"

section \<open>What the query returns\<close>

text \<open>\<open>xs.flatMap(f)\<close>.\<close>

abbreviation flat_map :: "('a \<Rightarrow> 'b list) \<Rightarrow> 'a list \<Rightarrow> 'b list" where
  "flat_map f xs \<equiv> concat (map f xs)"

record note_group =
  gr_row :: note_group_row
  gr_options :: "note_option_row list"

record component_product =
  cq_row :: product_row
  cq_categoryIsActive :: bool
  cq_stallProducts :: "stall_product_row list"

record bundle_choice = bundle_choice_row +
  bx_componentProduct :: component_product

record bundle_group =
  bn_row :: bundle_group_row
  bn_choices :: "bundle_choice list"

record staff_order_assignment =
  ta_productId :: uid
  ta_priceOverride :: "int option"
  ta_product :: product_row
  ta_noteGroups :: "note_group list"
  ta_bundleChoiceGroups :: "bundle_group list"

definition available_at :: "stall_product_row \<Rightarrow> instant \<Rightarrow> bool" where
  "available_at s now \<longleftrightarrow>
     (case sp_availableFrom s of None \<Rightarrow> True | Some t \<Rightarrow> t \<le> now)
     \<and> (case sp_availableUntil s of None \<Rightarrow> True | Some t \<Rightarrow> now < t)"

definition find_product_row :: "menu_db \<Rightarrow> uid \<Rightarrow> product_row option" where
  "find_product_row m k = List.find (\<lambda>p. pd_id p = k) (products m)"

definition category_active :: "menu_db \<Rightarrow> product_row \<Rightarrow> bool" where
  "category_active m p = list_ex (\<lambda>c. ct_id c = pd_categoryId p \<and> ct_isActive c) (categories m)"

definition by_order_then :: "('a \<Rightarrow> int) \<Rightarrow> ('a \<Rightarrow> 'a \<Rightarrow> bool) \<Rightarrow> 'a \<Rightarrow> 'a \<Rightarrow> bool" where
  "by_order_then f le x y \<longleftrightarrow> f x < f y \<or> f x = f y \<and> le x y"

definition options_of_group :: "(string \<Rightarrow> string \<Rightarrow> bool) \<Rightarrow> menu_db \<Rightarrow> uid \<Rightarrow> note_option_row list" where
  "options_of_group collate m k =
     sort_by (by_order_then no_sortOrder (\<lambda>x y. collate (no_name x) (no_name y)))
       (filter (\<lambda>x. no_noteGroupId x = k \<and> no_isActive x) (note_options m))"

text \<open>The assigned groups with their orders, before the orders are dropped.\<close>

definition assigned_groups :: "menu_db \<Rightarrow> uid \<Rightarrow> (int \<times> note_group_row) list" where
  "assigned_groups m p =
     flat_map (\<lambda>a. if na_productId a = p \<and> na_isActive a
        then map (Pair (na_sortOrder a)) (filter (\<lambda>g. ng_id g = na_noteGroupId a \<and> ng_isActive g) (note_groups m))
        else []) (note_assignments m)"

definition note_groups_of :: "(string \<Rightarrow> string \<Rightarrow> bool) \<Rightarrow> menu_db \<Rightarrow> uid \<Rightarrow> note_group list" where
  "note_groups_of collate m p =
     map (\<lambda>(_, g). \<lparr>gr_row = g, gr_options = options_of_group collate m (ng_id g)\<rparr>)
       (sort_by (by_order_then fst (\<lambda>x y. ng_sortOrder (snd x) \<le> ng_sortOrder (snd y))) (assigned_groups m p))"

definition component_of :: "menu_db \<Rightarrow> uid \<Rightarrow> uid \<Rightarrow> product_row \<Rightarrow> component_product" where
  "component_of m organizationId stallId p =
     \<lparr>cq_row = p, cq_categoryIsActive = category_active m p,
      cq_stallProducts = filter (\<lambda>s. sp_productId s = pd_id p \<and> sp_organizationId s = organizationId
                                   \<and> sp_stallId s = stallId) (stall_products m)\<rparr>"

text \<open>A choice refers to a product by a foreign key, so its product is always found.\<close>

definition choices_of_group :: "menu_db \<Rightarrow> uid \<Rightarrow> uid \<Rightarrow> uid \<Rightarrow> bundle_choice list" where
  "choices_of_group m organizationId stallId k =
     flat_map (\<lambda>c. case find_product_row m (bx_componentProductId c) of
          None \<Rightarrow> []
        | Some p \<Rightarrow> [bundle_choice_row.extend c \<lparr>bx_componentProduct = component_of m organizationId stallId p\<rparr>])
       (sort_by (by_order_then bx_sortOrder (\<lambda>x y. bx_id x \<le> bx_id y))
          (filter (\<lambda>c. bx_choiceGroupId c = k) (bundle_choices m)))"

definition bundle_groups_of ::
  "(string \<Rightarrow> string \<Rightarrow> bool) \<Rightarrow> menu_db \<Rightarrow> uid \<Rightarrow> uid \<Rightarrow> uid \<Rightarrow> bundle_group list" where
  "bundle_groups_of collate m organizationId stallId p =
     map (\<lambda>g. \<lparr>bn_row = g, bn_choices = choices_of_group m organizationId stallId (bg_id g)\<rparr>)
       (sort_by (by_order_then bg_sortOrder (\<lambda>x y. collate (bg_name x) (bg_name y)))
          (filter (\<lambda>g. bg_bundleProductId g = p) (bundle_groups m)))"

definition assignment_of ::
  "(string \<Rightarrow> string \<Rightarrow> bool) \<Rightarrow> menu_db \<Rightarrow> uid \<Rightarrow> uid \<Rightarrow> stall_product_row \<Rightarrow> product_row \<Rightarrow> staff_order_assignment" where
  "assignment_of collate m organizationId stallId s p =
     \<lparr>ta_productId = sp_productId s, ta_priceOverride = sp_priceOverride s, ta_product = p,
      ta_noteGroups = note_groups_of collate m (pd_id p),
      ta_bundleChoiceGroups = bundle_groups_of collate m organizationId stallId (pd_id p)\<rparr>"

definition assignments_for ::
  "(string \<Rightarrow> string \<Rightarrow> bool) \<Rightarrow> menu_db \<Rightarrow> uid \<Rightarrow> uid \<Rightarrow> uid list \<Rightarrow> instant \<Rightarrow> staff_order_assignment list" where
  "assignments_for collate m organizationId stallId ids now =
     flat_map (\<lambda>s. case find_product_row m (sp_productId s) of
          None \<Rightarrow> []
        | Some p \<Rightarrow>
            if pd_isActive p \<and> category_active m p then [assignment_of collate m organizationId stallId s p] else [])
       (filter (\<lambda>s. sp_organizationId s = organizationId \<and> sp_stallId s = stallId \<and> sp_productId s \<in> set ids
                  \<and> sp_isEnabled s \<and> available_at s now) (stall_products m))"

section \<open>One line\<close>

datatype StaffOrderCreateError = ORDER_LIMIT_EXCEEDED | PRODUCT_UNAVAILABLE | PRODUCT_STOCK_INSUFFICIENT
  | INVALID_PRODUCT_NOTES | TABLE_UNAVAILABLE | DELIVERY_UNAVAILABLE | FULFILLMENT_TIME_INVALID
  | ACTIVE_SHIFT_REQUIRED | ORDER_CONFLICT

record requested_item =
  ri_productId :: uid
  ri_quantity :: int
  ri_note :: string
  ri_noteOptionIds :: "uid list"
  ri_bundleChoiceIds :: "uid list"

record chosen_option =
  op_noteGroupId :: "uid option"
  op_noteOptionId :: "uid option"
  op_groupName :: string
  op_optionName :: string
  op_priceDelta :: int
  op_sortOrder :: int

record prepared_item =
  it_productId :: uid
  it_name :: string
  it_baseUnitPrice :: int
  it_unitPrice :: int
  it_quantity :: int
  it_isOrderDiscountEligible :: bool
  it_note :: "string option"
  it_noteOptions :: "chosen_option list"

definition choice_available :: "uid \<Rightarrow> uid \<Rightarrow> instant \<Rightarrow> bundle_group \<Rightarrow> bundle_choice \<Rightarrow> bool" where
  "choice_available organizationId stallId now g c \<longleftrightarrow>
     (let p = cq_row (bx_componentProduct c);
          componentAssignment = List.find (\<lambda>s. sp_organizationId s = organizationId \<and> sp_stallId s = stallId)
                                  (cq_stallProducts (bx_componentProduct c))
      in bx_organizationId c = organizationId \<and> bx_choiceGroupId c = bg_id (bn_row g) \<and> bx_isEnabled c
         \<and> pd_organizationId p = organizationId \<and> pd_kind p = SINGLE \<and> pd_isActive p
         \<and> cq_categoryIsActive (bx_componentProduct c)
         \<and> (case componentAssignment of None \<Rightarrow> False | Some s \<Rightarrow> sp_isEnabled s \<and> available_at s now))"

text \<open>The prefix of the name of a bundle group and the sign between a name and a quantity, in UTF-8.\<close>

definition bundle_prefix :: string where
  "bundle_prefix = [CHR 0xE5, CHR 0xA5, CHR 0x97, CHR 0xE9, CHR 0xA4, CHR 0x90, CHR '' '', CHR 0xC2, CHR 0xB7, CHR '' '']"

definition times_sign :: string where
  "times_sign = [CHR '' '', CHR 0xC3, CHR 0x97, CHR '' '']"

definition bundle_option :: "bundle_group \<Rightarrow> nat \<Rightarrow> nat \<times> bundle_choice \<Rightarrow> chosen_option" where
  "bundle_option g groupIndex ic =
     (case ic of (choiceIndex, c) \<Rightarrow>
        \<lparr>op_noteGroupId = None, op_noteOptionId = None, op_groupName = bundle_prefix @ bg_name (bn_row g),
         op_optionName = pd_name (cq_row (bx_componentProduct c)) @ times_sign @ string_of_int (bx_quantity c),
         op_priceDelta = bx_priceDelta c, op_sortOrder = int groupIndex * 1000 + int choiceIndex\<rparr>)"

definition bundle_group_options ::
  "uid \<Rightarrow> uid \<Rightarrow> instant \<Rightarrow> requested_item \<Rightarrow> nat \<Rightarrow> bundle_group \<Rightarrow> StaffOrderCreateError + chosen_option list" where
  "bundle_group_options organizationId stallId now r groupIndex g =
     (let availableChoices = filter (choice_available organizationId stallId now g) (bn_choices g);
          selected = filter (\<lambda>c. bx_id c \<in> set (ri_bundleChoiceIds r)) availableChoices
      in if bg_organizationId (bn_row g) \<noteq> organizationId \<or> bg_bundleProductId (bn_row g) \<noteq> ri_productId r
         then Inl PRODUCT_UNAVAILABLE
         else if int (length availableChoices) < bg_minSelections (bn_row g) then Inl PRODUCT_UNAVAILABLE
         else if list_ex (\<lambda>c. bx_id c \<in> set (ri_bundleChoiceIds r) \<and> bx_id c \<notin> set (map bx_id availableChoices))
                   (bn_choices g) then Inl PRODUCT_UNAVAILABLE
         else if int (length selected) < bg_minSelections (bn_row g) \<or> int (length selected) > bg_maxSelections (bn_row g)
         then Inl INVALID_PRODUCT_NOTES
         else Inr (map (bundle_option g groupIndex) (enumerate 0 selected)))"

definition note_option_of :: "ProductKind \<Rightarrow> note_group \<Rightarrow> nat \<Rightarrow> note_option_row \<Rightarrow> chosen_option" where
  "note_option_of kind g groupIndex x =
     \<lparr>op_noteGroupId = Some (ng_id (gr_row g)), op_noteOptionId = Some (no_id x), op_groupName = ng_name (gr_row g),
      op_optionName = no_name x, op_priceDelta = no_priceDelta x,
      op_sortOrder = (if kind = BUNDLE then 100000 else 0) + int groupIndex * 1000 + no_sortOrder x\<rparr>"

definition note_group_options ::
  "ProductKind \<Rightarrow> requested_item \<Rightarrow> nat \<Rightarrow> note_group \<Rightarrow> StaffOrderCreateError + chosen_option list" where
  "note_group_options kind r groupIndex g =
     (let selected = filter (\<lambda>x. no_id x \<in> set (ri_noteOptionIds r)) (gr_options g)
      in if int (length selected) < ng_minSelections (gr_row g)
            \<or> (case ng_maxSelections (gr_row g) of None \<Rightarrow> False | Some n \<Rightarrow> int (length selected) > n)
         then Inl INVALID_PRODUCT_NOTES
         else Inr (map (note_option_of kind g groupIndex) selected))"

text \<open>\<open>forEach\<close> and \<open>flatMap\<close> over the groups with their index: the first group that throws ends it.\<close>

fun over_groups :: "(nat \<Rightarrow> 'g \<Rightarrow> 'e + 'o list) \<Rightarrow> nat \<Rightarrow> 'g list \<Rightarrow> 'e + 'o list" where
  "over_groups f i [] = Inr []"
| "over_groups f i (g # gs) =
     andThen (f i g) (\<lambda>xs. andThen (over_groups f (Suc i) gs) (\<lambda>ys. Inr (xs @ ys)))"

definition bundle_note_options ::
  "uid \<Rightarrow> uid \<Rightarrow> instant \<Rightarrow> staff_order_assignment \<Rightarrow> requested_item \<Rightarrow> StaffOrderCreateError + chosen_option list" where
  "bundle_note_options organizationId stallId now a r =
     (case pd_kind (ta_product a) of
        SINGLE \<Rightarrow> if ri_bundleChoiceIds r \<noteq> [] then Inl INVALID_PRODUCT_NOTES else Inr []
      | BUNDLE \<Rightarrow>
          let groups = ta_bundleChoiceGroups a in
          if groups = [] then Inl PRODUCT_UNAVAILABLE
          else if list_ex (\<lambda>k. k \<notin> set (flat_map (\<lambda>g. map bx_id (bn_choices g)) groups)) (ri_bundleChoiceIds r)
          then Inl INVALID_PRODUCT_NOTES
          else over_groups (bundle_group_options organizationId stallId now r) 0 groups)"

definition product_note_options ::
  "staff_order_assignment \<Rightarrow> requested_item \<Rightarrow> StaffOrderCreateError + chosen_option list" where
  "product_note_options a r =
     (if \<not> distinct (ri_noteOptionIds r) then Inl INVALID_PRODUCT_NOTES
      else if list_ex (\<lambda>k. k \<notin> set (flat_map (\<lambda>g. map no_id (gr_options g)) (ta_noteGroups a))) (ri_noteOptionIds r)
      then Inl INVALID_PRODUCT_NOTES
      else over_groups (note_group_options (pd_kind (ta_product a)) r) 0 (ta_noteGroups a))"

definition priced_item :: "staff_order_assignment \<Rightarrow> requested_item \<Rightarrow> chosen_option list \<Rightarrow> prepared_item" where
  "priced_item a r noteOptions =
     (let baseUnitPrice = (case ta_priceOverride a of Some n \<Rightarrow> n | None \<Rightarrow> pd_defaultPrice (ta_product a))
      in \<lparr>it_productId = ri_productId r, it_name = pd_name (ta_product a), it_baseUnitPrice = baseUnitPrice,
          it_unitPrice = max 0 (baseUnitPrice + sum_of op_priceDelta noteOptions), it_quantity = ri_quantity r,
          it_isOrderDiscountEligible = pd_isOrderDiscountEligible (ta_product a),
          it_note = (if ri_note r = [] then None else Some (ri_note r)), it_noteOptions = noteOptions\<rparr>)"

definition prepareTrustedStaffOrderItem ::
  "uid \<Rightarrow> uid \<Rightarrow> instant \<Rightarrow> staff_order_assignment \<Rightarrow> requested_item \<Rightarrow> StaffOrderCreateError + prepared_item" where
  "prepareTrustedStaffOrderItem organizationId stallId now a r =
     (if ta_productId a \<noteq> ri_productId r \<or> pd_organizationId (ta_product a) \<noteq> organizationId
      then Inl PRODUCT_UNAVAILABLE
      else if \<not> distinct (ri_bundleChoiceIds r) then Inl INVALID_PRODUCT_NOTES
      else andThen (bundle_note_options organizationId stallId now a r) (\<lambda>bundleNoteOptions.
           andThen (product_note_options a r) (\<lambda>productNoteOptions.
           Inr (priced_item a r (bundleNoteOptions @ productNoteOptions)))))"

section \<open>The order\<close>

definition quantity_of_product :: "requested_item list \<Rightarrow> uid \<Rightarrow> int" where
  "quantity_of_product items p = sum_of ri_quantity (filter (\<lambda>i. ri_productId i = p) items)"

definition orderItemsExceedLimits :: "requested_item list \<Rightarrow> string \<Rightarrow> 'a order_item_limits_scheme \<Rightarrow> bool" where
  "orderItemsExceedLimits items orderNote limits \<longleftrightarrow>
     (let keys = js_set (map ri_productId items) in
      length keys > il_maxUniqueProducts limits
      \<or> sum_of ri_quantity items > il_maxTotalQuantity limits
      \<or> list_ex (\<lambda>p. quantity_of_product items p > il_maxItemQuantity limits) keys
      \<or> list_ex (\<lambda>i. js_length (ri_note i) > il_maxNoteLength limits) items
      \<or> js_length orderNote > il_maxNoteLength limits)"

definition find_assignment :: "uid \<Rightarrow> staff_order_assignment list \<Rightarrow> staff_order_assignment option" where
  "find_assignment k as = List.find (\<lambda>a. ta_productId a = k) (rev as)"

fun prepare_each ::
  "uid \<Rightarrow> uid \<Rightarrow> instant \<Rightarrow> staff_order_assignment list \<Rightarrow> requested_item list \<Rightarrow> StaffOrderCreateError + prepared_item list" where
  "prepare_each organizationId stallId now as [] = Inr []"
| "prepare_each organizationId stallId now as (r # rs) =
     (case find_assignment (ri_productId r) as of
        None \<Rightarrow> Inl PRODUCT_UNAVAILABLE
      | Some a \<Rightarrow>
          andThen (prepareTrustedStaffOrderItem organizationId stallId now a r) (\<lambda>i.
          andThen (prepare_each organizationId stallId now as rs) (\<lambda>is. Inr (i # is))))"

record prepared_items =
  pp_settings :: staff_settings
  pp_subtotal :: int
  pp_discountEligibleSubtotal :: int
  pp_items :: "prepared_item list"

definition line_total :: "prepared_item \<Rightarrow> int" where
  "line_total i = it_unitPrice i * it_quantity i"

definition prepareStaffOrderItems ::
  "(string \<Rightarrow> string \<Rightarrow> bool) \<Rightarrow> menu_db \<Rightarrow> uid \<Rightarrow> uid \<Rightarrow> instant \<Rightarrow> requested_item list \<Rightarrow> string
     \<Rightarrow> StaffOrderCreateError + prepared_items" where
  "prepareStaffOrderItems collate m organizationId stallId now items customerNote =
     (let requestedProductIds = js_set (map ri_productId items);
          assignments = assignments_for collate m organizationId stallId requestedProductIds now
      in case List.find (\<lambda>s. os_stallId s = stallId) (staff_settings m) of
           None \<Rightarrow> Inl PRODUCT_UNAVAILABLE
         | Some settings \<Rightarrow>
             if orderItemsExceedLimits items customerNote settings then Inl ORDER_LIMIT_EXCEEDED
             else if length assignments \<noteq> length requestedProductIds then Inl PRODUCT_UNAVAILABLE
             else andThen (prepare_each organizationId stallId now assignments items) (\<lambda>prepared.
                    Inr \<lparr>pp_settings = settings, pp_subtotal = sum_of line_total prepared,
                         pp_discountEligibleSubtotal =
                           sum_of (\<lambda>i. if it_isOrderDiscountEligible i then line_total i else 0) prepared,
                         pp_items = prepared\<rparr>))"

definition getStaffFulfillmentError :: "FulfillmentType \<Rightarrow> staff_settings \<Rightarrow> StaffOrderCreateError option" where
  "getStaffFulfillmentError t s =
     (if t = DINE_IN \<and> \<not> os_dineInEnabled s then Some TABLE_UNAVAILABLE
      else if t = FulfillmentType.DELIVERY \<and> \<not> os_staffDeliveryEnabled s then Some DELIVERY_UNAVAILABLE
      else None)"

record staff_order_request =
  sq_idempotencyKey :: uid
  sq_customerName :: string
  sq_customerNote :: string
  sq_customerPhone :: string
  sq_payNow :: bool
  sq_checkout :: bool
  sq_items :: "requested_item list"
  sq_fulfillmentType :: FulfillmentType
  sq_diningTableId :: "uid option"
  sq_deliveryAddress :: string
  sq_requestedFulfillmentAt :: "instant option"

record prepared_order =
  qo_unconfirmedOrderTimeoutSeconds :: int
  qo_requestedFulfillmentAt :: "instant option"
  qo_diningTableId :: "uid option"
  qo_tableLabel :: "string option"
  qo_subtotal :: int
  qo_discountEligibleSubtotal :: int
  qo_items :: "prepared_item list"

definition find_table :: "menu_db \<Rightarrow> uid \<Rightarrow> uid \<Rightarrow> staff_order_request \<Rightarrow> StaffOrderCreateError + dining_table_row option" where
  "find_table m organizationId stallId q =
     (if sq_fulfillmentType q = DINE_IN
      then (case List.find (\<lambda>t. Some (dt_id t) = sq_diningTableId q \<and> dt_organizationId t = organizationId
                              \<and> dt_stallId t = stallId \<and> dt_isActive t) (dining_tables m) of
              None \<Rightarrow> Inl TABLE_UNAVAILABLE
            | Some t \<Rightarrow> Inr (Some t))
      else Inr None)"

text \<open>\<open>slot_problem\<close> stands for \<open>validate_requested_fulfillment_slot\<close>: the code of what is wrong with a time.\<close>

definition requested_time ::
  "(uid \<Rightarrow> FulfillmentType \<Rightarrow> instant \<Rightarrow> string option) \<Rightarrow> uid \<Rightarrow> staff_order_request
     \<Rightarrow> StaffOrderCreateError + instant option" where
  "requested_time slot_problem stallId q =
     (if sq_fulfillmentType q = DINE_IN then Inr None
      else (case sq_requestedFulfillmentAt q of
              None \<Rightarrow> Inr None
            | Some t \<Rightarrow> if slot_problem stallId (sq_fulfillmentType q) t \<noteq> None then Inl FULFILLMENT_TIME_INVALID
                        else Inr (Some t)))"

definition prepareOrder ::
  "(string \<Rightarrow> string \<Rightarrow> bool) \<Rightarrow> (uid \<Rightarrow> FulfillmentType \<Rightarrow> instant \<Rightarrow> string option) \<Rightarrow> menu_db \<Rightarrow> uid \<Rightarrow> uid \<Rightarrow> instant
     \<Rightarrow> staff_order_request \<Rightarrow> StaffOrderCreateError + prepared_order" where
  "prepareOrder collate slot_problem m organizationId stallId now q =
     andThen (prepareStaffOrderItems collate m organizationId stallId now (sq_items q) (sq_customerNote q)) (\<lambda>p.
     case getStaffFulfillmentError (sq_fulfillmentType q) (pp_settings p) of
       Some e \<Rightarrow> Inl e
     | None \<Rightarrow>
         andThen (find_table m organizationId stallId q) (\<lambda>table.
         andThen (requested_time slot_problem stallId q) (\<lambda>at.
         Inr \<lparr>qo_unconfirmedOrderTimeoutSeconds = os_unconfirmedOrderTimeoutSeconds (pp_settings p),
              qo_requestedFulfillmentAt = at, qo_diningTableId = map_option dt_id table,
              qo_tableLabel = map_option dt_label table, qo_subtotal = pp_subtotal p,
              qo_discountEligibleSubtotal = pp_discountEligibleSubtotal p, qo_items = pp_items p\<rparr>)))"

section \<open>The schema of the request\<close>

text \<open>The checks on a parsed request, whose texts have been trimmed; that they hold no control
  characters is not modelled, nor are the formats of the contact and of the checkout.\<close>

definition item_schema_ok :: "(string \<Rightarrow> bool) \<Rightarrow> requested_item \<Rightarrow> bool" where
  "item_schema_ok is_uuid i \<longleftrightarrow>
     is_uuid (ri_productId i) \<and> 1 \<le> ri_quantity i \<and> ri_quantity i \<le> 100 \<and> js_length (ri_note i) \<le> 1000
     \<and> list_all is_uuid (ri_noteOptionIds i) \<and> length (ri_noteOptionIds i) \<le> 50
     \<and> list_all is_uuid (ri_bundleChoiceIds i) \<and> length (ri_bundleChoiceIds i) \<le> 400"

definition configuration_key :: "requested_item \<Rightarrow> uid \<times> string \<times> uid list \<times> uid list" where
  "configuration_key i = (ri_productId i, ri_note i, sort (ri_noteOptionIds i), sort (ri_bundleChoiceIds i))"

definition request_items_ok :: "(string \<Rightarrow> bool) \<Rightarrow> staff_order_request \<Rightarrow> bool" where
  "request_items_ok is_uuid q \<longleftrightarrow>
     1 \<le> length (sq_items q) \<and> length (sq_items q) \<le> 100 \<and> list_all (item_schema_ok is_uuid) (sq_items q)
     \<and> list_all (\<lambda>i. distinct (ri_noteOptionIds i) \<and> distinct (ri_bundleChoiceIds i)) (sq_items q)
     \<and> distinct (map configuration_key (sq_items q))
     \<and> (sq_payNow q \<longrightarrow> sq_checkout q)"

end
