(* ===== verification/OrderItemRules.thy ===== *)
theory OrderItemRules
  imports OrderItems
begin

text \<open>
  What the preparation of an order guarantees: exactly the lines that follow the menu are
  accepted, and an accepted order is charged from the menu, whatever prices the client showed.
\<close>

section \<open>Lines that follow the menu\<close>

definition chosen_choices :: "uid \<Rightarrow> uid \<Rightarrow> instant \<Rightarrow> requested_item \<Rightarrow> bundle_group \<Rightarrow> bundle_choice list" where
  "chosen_choices org stall now r g =
     filter (\<lambda>c. bx_id c \<in> set (ri_bundleChoiceIds r)) (filter (choice_available org stall now g) (bn_choices g))"

definition chosen_notes :: "requested_item \<Rightarrow> note_group \<Rightarrow> note_option_row list" where
  "chosen_notes r g = filter (\<lambda>x. no_id x \<in> set (ri_noteOptionIds r)) (gr_options g)"

text \<open>A group of a bundle gets as many available choices as it asks for, and nothing unavailable.\<close>

definition bundle_group_followed :: "uid \<Rightarrow> uid \<Rightarrow> instant \<Rightarrow> requested_item \<Rightarrow> bundle_group \<Rightarrow> bool" where
  "bundle_group_followed org stall now r g \<longleftrightarrow>
     bg_organizationId (bn_row g) = org \<and> bg_bundleProductId (bn_row g) = ri_productId r
     \<and> (\<forall>c \<in> set (bn_choices g). bx_id c \<in> set (ri_bundleChoiceIds r) \<longrightarrow>
          (\<exists>d \<in> set (bn_choices g). choice_available org stall now g d \<and> bx_id d = bx_id c))
     \<and> bg_minSelections (bn_row g) \<le> int (length (chosen_choices org stall now r g))
     \<and> int (length (chosen_choices org stall now r g)) \<le> bg_maxSelections (bn_row g)"

definition note_group_followed :: "requested_item \<Rightarrow> note_group \<Rightarrow> bool" where
  "note_group_followed r g \<longleftrightarrow>
     ng_minSelections (gr_row g) \<le> int (length (chosen_notes r g))
     \<and> (\<forall>n. ng_maxSelections (gr_row g) = Some n \<longrightarrow> int (length (chosen_notes r g)) \<le> n)"

definition follows_menu :: "uid \<Rightarrow> uid \<Rightarrow> instant \<Rightarrow> staff_order_assignment \<Rightarrow> requested_item \<Rightarrow> bool" where
  "follows_menu org stall now a r \<longleftrightarrow>
     ta_productId a = ri_productId r \<and> pd_organizationId (ta_product a) = org
     \<and> distinct (ri_bundleChoiceIds r) \<and> distinct (ri_noteOptionIds r)
     \<and> (pd_kind (ta_product a) = SINGLE \<longrightarrow> ri_bundleChoiceIds r = [])
     \<and> (pd_kind (ta_product a) = BUNDLE \<longrightarrow>
          ta_bundleChoiceGroups a \<noteq> []
          \<and> (\<forall>k \<in> set (ri_bundleChoiceIds r). \<exists>g \<in> set (ta_bundleChoiceGroups a). \<exists>c \<in> set (bn_choices g). bx_id c = k)
          \<and> (\<forall>g \<in> set (ta_bundleChoiceGroups a). bundle_group_followed org stall now r g))
     \<and> (\<forall>k \<in> set (ri_noteOptionIds r). \<exists>g \<in> set (ta_noteGroups a). \<exists>x \<in> set (gr_options g). no_id x = k)
     \<and> (\<forall>g \<in> set (ta_noteGroups a). note_group_followed r g)"

section \<open>Groups\<close>

lemma andThen_ok: "(\<exists>b. andThen r f = Inr b) \<longleftrightarrow> (\<exists>a. r = Inr a \<and> (\<exists>b. f a = Inr b))"
  by (cases r) auto

lemma over_groups_ok:
  assumes "\<And>i g. (\<exists>xs. f i g = Inr xs) \<longleftrightarrow> P g"
  shows "(\<exists>xs. over_groups f i gs = Inr xs) \<longleftrightarrow> (\<forall>g \<in> set gs. P g)"
proof (induction gs arbitrary: i)
  case (Cons g gs)
  show ?case using assms [of i g] Cons.IH [of "Suc i"] by (simp add: andThen_ok)
qed simp

lemma over_groups_result:
  assumes "\<And>i g xs. f i g = Inr xs \<Longrightarrow> xs = F i g"
  shows "over_groups f i gs = Inr xs \<Longrightarrow> xs = concat (map (\<lambda>(j, g). F j g) (enumerate i gs))"
proof (induction gs arbitrary: i xs)
  case (Cons g gs)
  then obtain ys zs where "f i g = Inr ys" "over_groups f (Suc i) gs = Inr zs" "xs = ys @ zs"
    by (auto simp: andThen_Inr_iff)
  then show ?case using Cons.IH [of "Suc i" zs] assms [of i g ys] by simp
qed simp

lemma bundle_group_ok:
  "(\<exists>xs. bundle_group_options org stall now r i g = Inr xs) \<longleftrightarrow> bundle_group_followed org stall now r g"
proof -
  let ?available = "filter (choice_available org stall now g) (bn_choices g)"
  have le: "length (chosen_choices org stall now r g) \<le> length ?available"
    unfolding chosen_choices_def by (rule length_filter_le)
  have ids: "list_ex (\<lambda>c. bx_id c \<in> set (ri_bundleChoiceIds r) \<and> bx_id c \<notin> set (map bx_id ?available)) (bn_choices g)
     \<longleftrightarrow> \<not> (\<forall>c \<in> set (bn_choices g). bx_id c \<in> set (ri_bundleChoiceIds r) \<longrightarrow>
          (\<exists>d \<in> set (bn_choices g). choice_available org stall now g d \<and> bx_id d = bx_id c))"
    unfolding list_ex_iff by (auto simp: image_iff; metis)
  show ?thesis
    unfolding bundle_group_options_def Let_def ids chosen_choices_def [symmetric] bundle_group_followed_def
    using le by auto
qed

lemma bundle_group_result:
  "bundle_group_options org stall now r i g = Inr xs
   \<Longrightarrow> xs = map (bundle_option g i) (enumerate 0 (chosen_choices org stall now r g))"
  unfolding bundle_group_options_def Let_def chosen_choices_def [symmetric] by (simp split: if_split_asm)

lemma note_group_ok: "(\<exists>xs. note_group_options kind r i g = Inr xs) \<longleftrightarrow> note_group_followed r g"
  by (cases "ng_maxSelections (gr_row g)")
    (auto simp: note_group_options_def Let_def chosen_notes_def [symmetric] note_group_followed_def split: if_split_asm)

lemma note_group_result:
  "note_group_options kind r i g = Inr xs \<Longrightarrow> xs = map (note_option_of kind g i) (chosen_notes r g)"
  unfolding note_group_options_def Let_def chosen_notes_def [symmetric] by (simp split: if_split_asm)

lemma bundle_notes_ok:
  "(\<exists>xs. bundle_note_options org stall now a r = Inr xs) \<longleftrightarrow>
     (pd_kind (ta_product a) = SINGLE \<longrightarrow> ri_bundleChoiceIds r = [])
     \<and> (pd_kind (ta_product a) = BUNDLE \<longrightarrow>
          ta_bundleChoiceGroups a \<noteq> []
          \<and> (\<forall>k \<in> set (ri_bundleChoiceIds r). \<exists>g \<in> set (ta_bundleChoiceGroups a). \<exists>c \<in> set (bn_choices g). bx_id c = k)
          \<and> (\<forall>g \<in> set (ta_bundleChoiceGroups a). bundle_group_followed org stall now r g))"
proof (cases "pd_kind (ta_product a)")
  case SINGLE
  then show ?thesis by (simp add: bundle_note_options_def)
next
  case BUNDLE
  have ids: "list_ex (\<lambda>k. k \<notin> set (flat_map (\<lambda>g. map bx_id (bn_choices g)) gs)) ks
     \<longleftrightarrow> \<not> (\<forall>k \<in> set ks. \<exists>g \<in> set gs. \<exists>c \<in> set (bn_choices g). bx_id c = k)" for gs ks
    unfolding list_ex_iff by (auto simp: image_iff; metis)
  show ?thesis
    using BUNDLE over_groups_ok [of "bundle_group_options org stall now r", OF bundle_group_ok, of 0 "ta_bundleChoiceGroups a"]
    unfolding bundle_note_options_def Let_def ids by auto
qed

lemma product_notes_ok:
  "(\<exists>xs. product_note_options a r = Inr xs) \<longleftrightarrow>
     distinct (ri_noteOptionIds r)
     \<and> (\<forall>k \<in> set (ri_noteOptionIds r). \<exists>g \<in> set (ta_noteGroups a). \<exists>x \<in> set (gr_options g). no_id x = k)
     \<and> (\<forall>g \<in> set (ta_noteGroups a). note_group_followed r g)"
proof -
  have ids: "list_ex (\<lambda>k. k \<notin> set (flat_map (\<lambda>g. map no_id (gr_options g)) gs)) ks
     \<longleftrightarrow> \<not> (\<forall>k \<in> set ks. \<exists>g \<in> set gs. \<exists>x \<in> set (gr_options g). no_id x = k)" for gs ks
    unfolding list_ex_iff by (auto simp: image_iff; metis)
  show ?thesis
    using over_groups_ok [of "note_group_options (pd_kind (ta_product a)) r", OF note_group_ok, of 0 "ta_noteGroups a"]
    unfolding product_note_options_def ids by auto
qed

text \<open>The options of an accepted line, in closed form.\<close>

definition chosen_options :: "uid \<Rightarrow> uid \<Rightarrow> instant \<Rightarrow> staff_order_assignment \<Rightarrow> requested_item \<Rightarrow> chosen_option list" where
  "chosen_options org stall now a r =
     (if pd_kind (ta_product a) = SINGLE then []
      else concat (map (\<lambda>(i, g). map (bundle_option g i) (enumerate 0 (chosen_choices org stall now r g)))
             (enumerate 0 (ta_bundleChoiceGroups a))))
     @ concat (map (\<lambda>(i, g). map (note_option_of (pd_kind (ta_product a)) g i) (chosen_notes r g))
         (enumerate 0 (ta_noteGroups a)))"

lemma bundle_notes_result:
  assumes "bundle_note_options org stall now a r = Inr xs"
  shows "xs = (if pd_kind (ta_product a) = SINGLE then []
      else concat (map (\<lambda>(i, g). map (bundle_option g i) (enumerate 0 (chosen_choices org stall now r g)))
             (enumerate 0 (ta_bundleChoiceGroups a))))"
proof (cases "pd_kind (ta_product a)")
  case SINGLE
  then show ?thesis using assms by (simp add: bundle_note_options_def split: if_split_asm)
next
  case BUNDLE
  then have "over_groups (bundle_group_options org stall now r) 0 (ta_bundleChoiceGroups a) = Inr xs"
    using assms by (simp add: bundle_note_options_def Let_def split: if_split_asm)
  from over_groups_result [OF bundle_group_result this] show ?thesis using BUNDLE by simp
qed

lemma product_notes_result:
  assumes "product_note_options a r = Inr xs"
  shows "xs = concat (map (\<lambda>(i, g). map (note_option_of (pd_kind (ta_product a)) g i) (chosen_notes r g))
         (enumerate 0 (ta_noteGroups a)))"
proof -
  have "over_groups (note_group_options (pd_kind (ta_product a)) r) 0 (ta_noteGroups a) = Inr xs"
    using assms by (simp add: product_note_options_def split: if_split_asm)
  from over_groups_result [OF note_group_result this] show ?thesis .
qed

lemma prepared_line:
  "prepareTrustedStaffOrderItem org stall now a r = Inr i \<Longrightarrow> i = priced_item a r (chosen_options org stall now a r)"
  unfolding prepareTrustedStaffOrderItem_def chosen_options_def
  by (auto simp: andThen_Inr_iff dest!: bundle_notes_result product_notes_result split: if_split_asm)

lemma line_accepted:
  "(\<exists>i. prepareTrustedStaffOrderItem org stall now a r = Inr i) \<longleftrightarrow> follows_menu org stall now a r"
proof -
  have "(\<exists>i. prepareTrustedStaffOrderItem org stall now a r = Inr i) \<longleftrightarrow>
      ta_productId a = ri_productId r \<and> pd_organizationId (ta_product a) = org \<and> distinct (ri_bundleChoiceIds r)
      \<and> (\<exists>xs. bundle_note_options org stall now a r = Inr xs) \<and> (\<exists>xs. product_note_options a r = Inr xs)"
    by (auto simp: prepareTrustedStaffOrderItem_def andThen_ok)
  then show ?thesis unfolding bundle_notes_ok product_notes_ok follows_menu_def by blast
qed

text \<open>C30. A line of a staff order is accepted exactly when it follows the menu: it is a product of the
  organisation, no option is named twice, only a bundle has choices, every named choice and note belongs
  to the product, and every group of the product gets at least its minimum and at most its maximum of
  options, choices of a bundle being enabled, active and available at the stall now.\<close>

theorem line_accepted_iff_follows_menu:
  "(\<exists>i. prepareTrustedStaffOrderItem org stall now a r = Inr i) \<longleftrightarrow> follows_menu org stall now a r"
  by (rule line_accepted)

section \<open>Orders charged from the menu\<close>

text \<open>What the menu offers of a product at a stall and an instant.\<close>

definition offered ::
  "(string \<Rightarrow> string \<Rightarrow> bool) \<Rightarrow> menu_db \<Rightarrow> uid \<Rightarrow> uid \<Rightarrow> instant \<Rightarrow> staff_order_assignment \<Rightarrow> bool" where
  "offered collate m org stall now a \<longleftrightarrow>
     (\<exists>s \<in> set (stall_products m). \<exists>p \<in> set (products m).
        sp_organizationId s = org \<and> sp_stallId s = stall \<and> sp_productId s = pd_id p
        \<and> sp_isEnabled s \<and> available_at s now \<and> pd_isActive p \<and> category_active m p
        \<and> a = assignment_of collate m org stall s p)"

lemma assignments_offered: "a \<in> set (assignments_for collate m org stall ids now) \<Longrightarrow> offered collate m org stall now a"
proof -
  assume "a \<in> set (assignments_for collate m org stall ids now)"
  then obtain s p where s: "s \<in> set (stall_products m)" "sp_organizationId s = org" "sp_stallId s = stall"
      "sp_isEnabled s" "available_at s now" and p: "find_product_row m (sp_productId s) = Some p"
    and a: "pd_isActive p" "category_active m p" "a = assignment_of collate m org stall s p"
    by (auto simp: assignments_for_def split: option.splits if_split_asm) metis
  from p have "p \<in> set (products m)" "pd_id p = sp_productId s"
    using find_Some_D [of "\<lambda>p. pd_id p = sp_productId s" "products m" p] by (simp_all add: find_product_row_def)
  then show ?thesis using s a unfolding offered_def by metis
qed

lemma find_assignment_Some: "find_assignment k as = Some a \<Longrightarrow> a \<in> set as \<and> ta_productId a = k"
  unfolding find_assignment_def by (drule find_Some_D) simp

definition charged_line ::
  "(string \<Rightarrow> string \<Rightarrow> bool) \<Rightarrow> menu_db \<Rightarrow> uid \<Rightarrow> uid \<Rightarrow> instant \<Rightarrow> requested_item \<Rightarrow> prepared_item \<Rightarrow> bool" where
  "charged_line collate m org stall now r i \<longleftrightarrow>
     (\<exists>a. offered collate m org stall now a \<and> follows_menu org stall now a r
          \<and> i = priced_item a r (chosen_options org stall now a r))"

lemma prepare_each_lines:
  assumes "\<And>a. a \<in> set as \<Longrightarrow> offered collate m org stall now a"
  shows "prepare_each org stall now as rs = Inr ls \<Longrightarrow> list_all2 (charged_line collate m org stall now) rs ls"
proof (induction rs arbitrary: ls)
  case (Cons r rs)
  obtain a where a: "find_assignment (ri_productId r) as = Some a"
    using Cons.prems by (cases "find_assignment (ri_productId r) as") simp_all
  then obtain i js where i: "prepareTrustedStaffOrderItem org stall now a r = Inr i"
    and js: "prepare_each org stall now as rs = Inr js" "ls = i # js"
    using Cons.prems by (auto simp: andThen_Inr_iff)
  have "charged_line collate m org stall now r i"
    unfolding charged_line_def
    using assms find_assignment_Some [OF a] prepared_line [OF i] line_accepted i by blast
  then show ?case using js Cons.IH by simp
qed simp

lemma prepared_order_InrD:
  assumes "prepareStaffOrderItems collate m org stall now items note = Inr p"
  shows "list_all2 (charged_line collate m org stall now) items (pp_items p)"
    "\<not> orderItemsExceedLimits items note (pp_settings p)"
    "pp_settings p \<in> set (staff_settings m)" "os_stallId (pp_settings p) = stall"
    "pp_subtotal p = sum_of line_total (pp_items p)"
    "pp_discountEligibleSubtotal p = sum_of (\<lambda>i. if it_isOrderDiscountEligible i then line_total i else 0) (pp_items p)"
proof -
  let ?as = "assignments_for collate m org stall (js_set (map ri_productId items)) now"
  obtain s where s: "List.find (\<lambda>s. os_stallId s = stall) (staff_settings m) = Some s"
    using assms by (cases "List.find (\<lambda>s. os_stallId s = stall) (staff_settings m)")
      (simp_all add: prepareStaffOrderItems_def Let_def)
  have limits: "\<not> orderItemsExceedLimits items note s"
    using assms unfolding prepareStaffOrderItems_def Let_def s option.case by (simp split: if_split_asm)
  obtain ls where lines: "prepare_each org stall now ?as items = Inr ls"
    and p: "p = \<lparr>pp_settings = s, pp_subtotal = sum_of line_total ls,
        pp_discountEligibleSubtotal = sum_of (\<lambda>i. if it_isOrderDiscountEligible i then line_total i else 0) ls,
        pp_items = ls\<rparr>"
    using assms unfolding prepareStaffOrderItems_def Let_def s option.case
    by (auto simp: andThen_Inr_iff split: if_split_asm)
  show "list_all2 (charged_line collate m org stall now) items (pp_items p)"
    using prepare_each_lines [OF assignments_offered lines] p by simp
  show "\<not> orderItemsExceedLimits items note (pp_settings p)" using limits p by simp
  show "pp_settings p \<in> set (staff_settings m)" "os_stallId (pp_settings p) = stall"
    using find_Some_D [OF s] p by simp_all
qed (use assms in \<open>auto simp: prepareStaffOrderItems_def Let_def andThen_Inr_iff split: option.splits if_split_asm\<close>)

lemma charged_line_amount:
  "charged_line collate m org stall now r i \<Longrightarrow> 0 \<le> it_unitPrice i \<and> it_quantity i = ri_quantity r"
  by (auto simp: charged_line_def priced_item_def Let_def)

lemma eligible_bounds:
  "\<forall>i \<in> set ls. 0 \<le> line_total i \<Longrightarrow>
     0 \<le> sum_of (\<lambda>i. if it_isOrderDiscountEligible i then line_total i else 0) ls
     \<and> sum_of (\<lambda>i. if it_isOrderDiscountEligible i then line_total i else 0) ls \<le> sum_of line_total ls"
  by (induction ls) auto

lemma accepted_amounts:
  assumes "prepareStaffOrderItems collate m org stall now items note = Inr p"
    and "\<forall>r \<in> set items. 1 \<le> ri_quantity r"
  shows "0 \<le> pp_discountEligibleSubtotal p \<and> pp_discountEligibleSubtotal p \<le> pp_subtotal p"
proof -
  note d = prepared_order_InrD [OF assms(1)]
  have "\<forall>i \<in> set (pp_items p). 0 \<le> line_total i"
  proof
    fix i assume "i \<in> set (pp_items p)"
    then obtain r where "r \<in> set items" "charged_line collate m org stall now r i"
      using d(1) by (metis in_set_conv_nth list_all2_conv_all_nth nth_mem)
    then show "0 \<le> line_total i" using charged_line_amount assms(2) by (force simp: line_total_def)
  qed
  from eligible_bounds [OF this] show ?thesis using d(5,6) by simp
qed

definition within_limits :: "staff_order_request \<Rightarrow> staff_settings \<Rightarrow> bool" where
  "within_limits q s \<longleftrightarrow>
     card (ri_productId ` set (sq_items q)) \<le> il_maxUniqueProducts s
     \<and> sum_of ri_quantity (sq_items q) \<le> il_maxTotalQuantity s
     \<and> (\<forall>r \<in> set (sq_items q). quantity_of_product (sq_items q) (ri_productId r) \<le> il_maxItemQuantity s
           \<and> js_length (ri_note r) \<le> il_maxNoteLength s)
     \<and> js_length (sq_customerNote q) \<le> il_maxNoteLength s"

lemma within_limits: "within_limits q s \<longleftrightarrow> \<not> orderItemsExceedLimits (sq_items q) (sq_customerNote q) s"
  by (auto simp: within_limits_def orderItemsExceedLimits_def Let_def list_ex_iff length_js_set not_less)

definition fulfilment_ok ::
  "(uid \<Rightarrow> FulfillmentType \<Rightarrow> instant \<Rightarrow> string option) \<Rightarrow> menu_db \<Rightarrow> uid \<Rightarrow> uid \<Rightarrow> staff_order_request
     \<Rightarrow> staff_settings \<Rightarrow> prepared_order \<Rightarrow> bool" where
  "fulfilment_ok slot_problem m org stall q s o' \<longleftrightarrow>
     (if sq_fulfillmentType q = DINE_IN
      then os_dineInEnabled s \<and> qo_requestedFulfillmentAt o' = None
           \<and> (\<exists>t \<in> set (dining_tables m). dt_isActive t \<and> dt_organizationId t = org \<and> dt_stallId t = stall
                \<and> sq_diningTableId q = Some (dt_id t) \<and> qo_diningTableId o' = Some (dt_id t)
                \<and> qo_tableLabel o' = Some (dt_label t))
      else qo_diningTableId o' = None \<and> (sq_fulfillmentType q = FulfillmentType.DELIVERY \<longrightarrow> os_staffDeliveryEnabled s)
           \<and> qo_requestedFulfillmentAt o' = sq_requestedFulfillmentAt q
           \<and> (\<forall>t. sq_requestedFulfillmentAt q = Some t \<longrightarrow> slot_problem stall (sq_fulfillmentType q) t = None))"

lemma find_table_Inr:
  assumes "find_table m org stall q = Inr table"
  shows "if sq_fulfillmentType q = DINE_IN
     then \<exists>t \<in> set (dining_tables m). dt_isActive t \<and> dt_organizationId t = org \<and> dt_stallId t = stall
            \<and> sq_diningTableId q = Some (dt_id t) \<and> table = Some t
     else table = None"
proof (cases "sq_fulfillmentType q = DINE_IN")
  case True
  then obtain t where t: "List.find (\<lambda>t. Some (dt_id t) = sq_diningTableId q \<and> dt_organizationId t = org
      \<and> dt_stallId t = stall \<and> dt_isActive t) (dining_tables m) = Some t" "table = Some t"
    using assms by (auto simp: find_table_def split: option.splits)
  from find_Some_D [OF t(1)] show ?thesis using True t(2) by auto
qed (use assms in \<open>simp add: find_table_def\<close>)


section \<open>A menu\<close>

definition sample_product :: "uid \<Rightarrow> string \<Rightarrow> int \<Rightarrow> ProductKind \<Rightarrow> product_row" where
  "sample_product k name price kind =
     \<lparr>pd_id = k, pd_organizationId = ''org'', pd_categoryId = ''c'', pd_name = name, pd_defaultPrice = price,
      pd_kind = kind, pd_isOrderDiscountEligible = (kind = SINGLE), pd_isActive = True\<rparr>"

definition sample_offer :: "uid \<Rightarrow> int option \<Rightarrow> stall_product_row" where
  "sample_offer k price =
     \<lparr>sp_organizationId = ''org'', sp_stallId = ''stall'', sp_productId = k, sp_priceOverride = price,
      sp_isEnabled = True, sp_availableFrom = Some 10, sp_availableUntil = None\<rparr>"

definition sample_choice :: "uid \<Rightarrow> uid \<Rightarrow> int \<Rightarrow> bundle_choice_row" where
  "sample_choice k component delta =
     \<lparr>bx_id = k, bx_organizationId = ''org'', bx_choiceGroupId = ''g'', bx_componentProductId = component,
      bx_quantity = 1, bx_priceDelta = delta, bx_isEnabled = True, bx_sortOrder = 0\<rparr>"

definition sample_stall_menu :: menu_db where
  "sample_stall_menu =
     \<lparr>categories = [\<lparr>ct_id = ''c'', ct_isActive = True\<rparr>],
      products = [sample_product ''tea'' ''Tea'' 30 SINGLE, sample_product ''rice'' ''Rice'' 50 SINGLE,
        sample_product ''set'' ''Set'' 70 BUNDLE],
      stall_products = [sample_offer ''tea'' (Some 25), sample_offer ''rice'' None, sample_offer ''set'' None],
      note_groups = [\<lparr>ng_id = ''n'', ng_name = ''Sugar'', ng_minSelections = 1, ng_maxSelections = Some 1,
        ng_sortOrder = 0, ng_isActive = True\<rparr>],
      note_assignments = [\<lparr>na_productId = ''tea'', na_noteGroupId = ''n'', na_sortOrder = 0, na_isActive = True\<rparr>],
      note_options = [\<lparr>no_id = ''n1'', no_noteGroupId = ''n'', no_name = ''Less'', no_priceDelta = 0, no_sortOrder = 0,
          no_isActive = True\<rparr>,
        \<lparr>no_id = ''n2'', no_noteGroupId = ''n'', no_name = ''Honey'', no_priceDelta = 5, no_sortOrder = 1,
          no_isActive = True\<rparr>],
      bundle_groups = [\<lparr>bg_id = ''g'', bg_organizationId = ''org'', bg_bundleProductId = ''set'', bg_name = ''Main'',
        bg_minSelections = 1, bg_maxSelections = 1, bg_sortOrder = 0\<rparr>],
      bundle_choices = [sample_choice ''b1'' ''rice'' 10, sample_choice ''b2'' ''tea'' 0],
      dining_tables = [\<lparr>dt_id = ''t1'', dt_organizationId = ''org'', dt_stallId = ''stall'', dt_label = ''T1'',
        dt_isActive = True\<rparr>],
      staff_settings = [\<lparr>il_maxItemQuantity = 5, il_maxUniqueProducts = 3, il_maxTotalQuantity = 8,
        il_maxNoteLength = 20, os_stallId = ''stall'', os_unconfirmedOrderTimeoutSeconds = 600,
        os_dineInEnabled = True, os_staffDeliveryEnabled = False\<rparr>]\<rparr>"

definition sample_request :: staff_order_request where
  "sample_request =
     \<lparr>sq_idempotencyKey = ''k'', sq_customerName = [], sq_customerNote = [], sq_customerPhone = [], sq_payNow = False,
      sq_checkout = False,
      sq_items = [\<lparr>ri_productId = ''tea'', ri_quantity = 2, ri_note = [], ri_noteOptionIds = [''n2''], ri_bundleChoiceIds = []\<rparr>,
        \<lparr>ri_productId = ''set'', ri_quantity = 1, ri_note = ''hot'', ri_noteOptionIds = [], ri_bundleChoiceIds = [''b1'']\<rparr>],
      sq_fulfillmentType = DINE_IN, sq_diningTableId = Some ''t1'', sq_deliveryAddress = [],
      sq_requestedFulfillmentAt = None\<rparr>"

lemma sample_request_prepared:
  "case prepareOrder (\<lambda>x y. length x \<le> length y) (\<lambda>_ _ _. None) sample_stall_menu ''org'' ''stall'' 100 sample_request of
     Inr po \<Rightarrow> qo_subtotal po = 140 \<and> qo_discountEligibleSubtotal po = 60 | Inl _ \<Rightarrow> False"
  by code_simp


end
