(* ===== verification/StallSchedules.thy ===== *)
theory StallSchedules
  imports DeliveryJobs StallData
begin

text \<open>
  Locations, market events and schedules of a stall (\<open>src/src/lib/stall-schedules.ts\<close>,
  \<open>stall-schedule-contract.ts\<close>): three families of commands over the tables, with the
  constraints and triggers of \<open>20260720181500_stall_schedule_locations.sql\<close> that guard them, and
  the trigger of \<open>20260713000550_operational_realtime_and_alerts.sql\<close> that keeps the columns of a
  stall in step. A schedule command runs in one serializable transaction, so a failure leaves
  the tables as they were. The lengths and formats that the schema checks before the
  database does are left out, as are the reasons, which only go to the audit log, the cached
  public menus. Coordinates are counted in millionths of a degree. The parsed configuration of a feature is a
  parameter.
\<close>

section \<open>Tables\<close>

datatype StallBusinessStatus = OPEN | PAUSED | CLOSED | SOLD_OUT
datatype StallOrderingState = OPEN | PAUSED | CLOSED
datatype OrderSessionStatus = ACTIVE | CONSUMED | EXPIRED | REVOKED

record location_values =
  lv_name :: string
  lv_address :: string
  lv_latitude :: "int option"
  lv_longitude :: "int option"
  lv_mapUrl :: "string option"
  lv_instructions :: "string option"
  lv_isActive :: bool

record location_row = location_values +
  lv_id :: uid
  lv_organizationId :: uid
  lv_stallId :: uid

record event_values =
  me_name :: string
  me_slug :: string
  me_description :: "string option"
  me_venueName :: string
  me_address :: string
  me_latitude :: "int option"
  me_longitude :: "int option"
  me_startsAt :: instant
  me_endsAt :: instant
  me_organizer :: "string option"
  me_publicUrl :: "string option"
  me_isPublic :: bool

record event_row = event_values +
  me_id :: uid
  me_organizationId :: uid

record schedule_values =
  sv_locationId :: "uid option"
  sv_marketEventId :: "uid option"
  sv_startsAt :: instant
  sv_endsAt :: instant
  sv_orderingOpensAt :: "instant option"
  sv_orderingClosesAt :: "instant option"
  sv_specialNotice :: "string option"
  sv_menuOverrideId :: "uid option"
  sv_autoOpenEnabled :: bool
  sv_autoCloseEnabled :: bool

record schedule_row = schedule_values +
  sv_id :: uid
  sv_organizationId :: uid
  sv_stallId :: uid
  sv_status :: StallScheduleStatus

record qr_row =
  qr_id :: uid
  qr_organizationId :: uid
  qr_stallId :: uid
  qr_diningTableId :: "uid option"
  qr_locationId :: "uid option"
  qr_marketEventId :: "uid option"
  qr_stallScheduleId :: "uid option"
  qr_fulfillmentTypeContext :: "FulfillmentType option"

record session_row =
  sn_qrCodeId :: uid
  sn_stallId :: uid
  sn_status :: OrderSessionStatus
  sn_revokedAt :: "instant option"
  sn_locationId :: "uid option"
  sn_marketEventId :: "uid option"
  sn_stallScheduleId :: "uid option"

record order_context_row =
  oc_locationId :: "uid option"
  oc_marketEventId :: "uid option"
  oc_stallScheduleId :: "uid option"

text \<open>A stall with the pause source of its capacity settings and the delivery module of its
  ordering settings, where it has them.\<close>

record scheduled_stall =
  sl_id :: uid
  sl_organizationId :: uid
  sl_isActive :: bool
  sl_isSoldOut :: bool
  sl_businessStatus :: StallBusinessStatus
  sl_orderingEnabled :: bool
  sl_orderingState :: StallOrderingState
  sl_pauseSource :: "string option"
  sl_deliveryModuleEnabled :: "bool option"

record schedule_db =
  sd_stalls :: "scheduled_stall list"
  sd_locations :: "location_row list"
  sd_events :: "event_row list"
  sd_schedules :: "schedule_row list"
  sd_qrCodes :: "qr_row list"
  sd_sessions :: "session_row list"
  sd_orders :: "order_context_row list"

datatype StallScheduleOperationError =
  STALL_NOT_FOUND | LOCATION_NOT_FOUND | LOCATION_LIMIT_REACHED | LOCATION_IN_USE | EVENT_NOT_FOUND
| EVENT_FEATURE_REQUIRED | EVENT_IN_USE | SCHEDULE_NOT_FOUND | SCHEDULE_LIMIT_REACHED | SCHEDULE_IN_USE
| SCHEDULE_TRANSITION_DENIED | SCHEDULE_CONTEXT_INVALID | SCHEDULE_EVENT_WINDOW_INVALID
| RECURRING_COPY_REQUIRED | EVENT_SCHEDULE_NOT_COPYABLE | AUTOMATIC_ORDERING_REQUIRED
| QR_CODE_NOT_FOUND | QR_ORDER_TYPE_INVALID | DELIVERY_MODULE_REQUIRED

text \<open>A refusal of the module, or an exception of the database by its name.\<close>

datatype schedule_failure = Refused StallScheduleOperationError | Database string

definition refuse_unless :: "bool \<Rightarrow> StallScheduleOperationError \<Rightarrow> schedule_failure + unit" where
  "refuse_unless b e = ensure b (Refused e)"

definition db_check :: "bool \<Rightarrow> string \<Rightarrow> schedule_failure + unit" where
  "db_check b e = ensure b (Database e)"

definition find_or :: "'a option \<Rightarrow> StallScheduleOperationError \<Rightarrow> schedule_failure + 'a" where
  "find_or x e = (case x of None \<Rightarrow> Inl (Refused e) | Some r \<Rightarrow> Inr r)"

section \<open>Capabilities\<close>

record ScheduleCapabilities =
  sc_locationLimit :: "int option"
  sc_scheduleLimit :: "int option"
  sc_multipleLocations :: bool
  sc_recurringCopy :: bool
  sc_automaticOrdering :: bool
  sc_eventSchedule :: bool

definition limit_of :: "string \<Rightarrow> effective_entitlement list \<Rightarrow> int option" where
  "limit_of code es =
     Option.bind (List.find (\<lambda>e. ee_featureCode e = code) es) ee_limitValue"

definition flag_of :: "(string \<Rightarrow> json) \<Rightarrow> effective_entitlement \<Rightarrow> string \<Rightarrow> bool" where
  "flag_of parsed e name \<longleftrightarrow>
     (case ee_configuration e of None \<Rightarrow> False | Some t \<Rightarrow> obj_field name (parsed t) = Some (JBool True))"

definition getScheduleCapabilities ::
  "(string \<Rightarrow> string \<Rightarrow> bool) \<Rightarrow> (string \<Rightarrow> json) \<Rightarrow> billing_db \<Rightarrow> instant \<Rightarrow> uid
     \<Rightarrow> entitlement_failure + ScheduleCapabilities" where
  "getScheduleCapabilities collate parsed b now organizationId =
     andThen (assertFeatureEnabled collate b now organizationId ''STALL_LOCATION'') (\<lambda>location.
     andThen (assertFeatureEnabled collate b now organizationId ''STALL_SCHEDULE'') (\<lambda>schedule.
     andThen (getEffectiveEntitlements collate b now organizationId) (\<lambda>es.
     Inr \<lparr>sc_locationLimit = limit_of ''STALL_LOCATION'' es, sc_scheduleLimit = limit_of ''STALL_SCHEDULE'' es,
          sc_multipleLocations = flag_of parsed location ''multipleLocations'',
          sc_recurringCopy = flag_of parsed schedule ''recurringCopy'',
          sc_automaticOrdering = flag_of parsed schedule ''automaticOrdering'',
          sc_eventSchedule = flag_of parsed schedule ''eventSchedule''\<rparr>)))"

record schedule_call =
  kc_organizationId :: uid
  kc_stallId :: uid
  kc_capabilities :: ScheduleCapabilities
  kc_now :: instant
  kc_fresh :: "nat \<Rightarrow> uid"

section \<open>Constraints and triggers\<close>

definition opens_at :: "'a schedule_values_scheme \<Rightarrow> instant" where
  "opens_at s = (case sv_orderingOpensAt s of Some t \<Rightarrow> t | None \<Rightarrow> sv_startsAt s)"

definition closes_at :: "'a schedule_values_scheme \<Rightarrow> instant" where
  "closes_at s = (case sv_orderingClosesAt s of Some t \<Rightarrow> t | None \<Rightarrow> sv_endsAt s)"

definition schedule_checks :: "'a schedule_values_scheme \<Rightarrow> bool" where
  "schedule_checks s \<longleftrightarrow>
     (sv_locationId s \<noteq> None \<or> sv_marketEventId s \<noteq> None) \<and> sv_startsAt s < sv_endsAt s \<and> opens_at s < closes_at s"

definition THIRTY_DAYS :: int where "THIRTY_DAYS = 30 * 24 * 60 * 60000"

definition within_event :: "'a schedule_values_scheme \<Rightarrow> event_row \<Rightarrow> bool" where
  "within_event s e \<longleftrightarrow>
     me_startsAt e - THIRTY_DAYS \<le> sv_startsAt s \<and> sv_endsAt s \<le> me_endsAt e + THIRTY_DAYS"

definition stall_scope :: "uid \<Rightarrow> uid \<Rightarrow> schedule_db \<Rightarrow> bool" where
  "stall_scope org stall d \<longleftrightarrow> list_ex (\<lambda>s. sl_id s = stall \<and> sl_organizationId s = org) (sd_stalls d)"

definition location_in_scope :: "uid option \<Rightarrow> uid \<Rightarrow> uid \<Rightarrow> schedule_db \<Rightarrow> bool" where
  "location_in_scope k org stall d \<longleftrightarrow>
     k = None \<or> list_ex (\<lambda>l. Some (lv_id l) = k \<and> lv_organizationId l = org \<and> lv_stallId l = stall) (sd_locations d)"

definition event_in_scope :: "uid option \<Rightarrow> uid \<Rightarrow> schedule_db \<Rightarrow> bool" where
  "event_in_scope k org d \<longleftrightarrow>
     k = None \<or> list_ex (\<lambda>e. Some (me_id e) = k \<and> me_organizationId e = org) (sd_events d)"

text \<open>\<open>enforce_stall_schedule_scope\<close> and the scope of the stall.\<close>

definition schedule_scope :: "schedule_row \<Rightarrow> schedule_db \<Rightarrow> bool" where
  "schedule_scope s d \<longleftrightarrow>
     stall_scope (sv_organizationId s) (sv_stallId s) d
     \<and> location_in_scope (sv_locationId s) (sv_organizationId s) (sv_stallId s) d
     \<and> (sv_marketEventId s = None \<or>
          list_ex (\<lambda>e. Some (me_id e) = sv_marketEventId s \<and> me_organizationId e = sv_organizationId s \<and> within_event s e)
            (sd_events d))"

definition insert_schedule :: "schedule_row \<Rightarrow> schedule_db \<Rightarrow> schedule_failure + schedule_db" where
  "insert_schedule s d =
     andThen (db_check (schedule_scope s d) ''STALL_SCHEDULE_SCOPE_MISMATCH'') (\<lambda>_.
     andThen (db_check (schedule_checks s) ''stall_schedules_check'') (\<lambda>_.
     andThen (db_check (sv_id s \<notin> set (map sv_id (sd_schedules d))) ''stall_schedules_pkey'') (\<lambda>_.
     Inr (d\<lparr>sd_schedules := sd_schedules d @ [s]\<rparr>))))"

definition update_schedule :: "uid \<Rightarrow> (schedule_row \<Rightarrow> schedule_row) \<Rightarrow> schedule_db \<Rightarrow> schedule_failure + schedule_db" where
  "update_schedule k f d =
     andThen (db_check (list_all (\<lambda>s. sv_id s = k \<longrightarrow> schedule_scope (f s) d) (sd_schedules d))
                ''STALL_SCHEDULE_SCOPE_MISMATCH'') (\<lambda>_.
     andThen (db_check (list_all (\<lambda>s. sv_id s = k \<longrightarrow> schedule_checks (f s)) (sd_schedules d)) ''stall_schedules_check'') (\<lambda>_.
     Inr (d\<lparr>sd_schedules := update_where (\<lambda>s. sv_id s = k) f (sd_schedules d)\<rparr>)))"

definition delete_schedule :: "uid \<Rightarrow> schedule_db \<Rightarrow> schedule_failure + schedule_db" where
  "delete_schedule k d =
     andThen (db_check (\<not> list_ex (\<lambda>q. qr_stallScheduleId q = Some k) (sd_qrCodes d)
                \<and> \<not> list_ex (\<lambda>s. sn_stallScheduleId s = Some k) (sd_sessions d)
                \<and> \<not> list_ex (\<lambda>o'. oc_stallScheduleId o' = Some k) (sd_orders d)) ''stall_schedules_fkey'') (\<lambda>_.
     Inr (d\<lparr>sd_schedules := filter (\<lambda>s. sv_id s \<noteq> k) (sd_schedules d)\<rparr>))"

definition location_key_free :: "location_row \<Rightarrow> location_row list \<Rightarrow> bool" where
  "location_key_free l ls \<longleftrightarrow>
     \<not> list_ex (\<lambda>m. lv_id m = lv_id l \<or> lv_stallId m = lv_stallId l \<and> lv_name m = lv_name l) ls"

definition coordinates_pair :: "int option \<Rightarrow> int option \<Rightarrow> bool" where
  "coordinates_pair lat lon \<longleftrightarrow> (lat = None) = (lon = None)"

definition location_ok :: "location_row \<Rightarrow> location_row list \<Rightarrow> schedule_db \<Rightarrow> schedule_failure + unit" where
  "location_ok l others d =
     andThen (db_check (stall_scope (lv_organizationId l) (lv_stallId l) d) ''STALL_ORGANIZATION_SCOPE_MISMATCH'') (\<lambda>_.
     andThen (db_check (coordinates_pair (lv_latitude l) (lv_longitude l)) ''stall_locations_coordinates_pair_check'') (\<lambda>_.
     db_check (location_key_free l others) ''stall_locations_key''))"

definition insert_location :: "location_row \<Rightarrow> schedule_db \<Rightarrow> schedule_failure + schedule_db" where
  "insert_location l d =
     andThen (location_ok l (sd_locations d) d) (\<lambda>_. Inr (d\<lparr>sd_locations := sd_locations d @ [l]\<rparr>))"

definition update_location :: "location_row \<Rightarrow> location_values \<Rightarrow> schedule_db \<Rightarrow> schedule_failure + schedule_db" where
  "update_location l v d =
     (let l' = location_values.extend v \<lparr>lv_id = lv_id l, lv_organizationId = lv_organizationId l, lv_stallId = lv_stallId l\<rparr> in
      andThen (location_ok l' (filter (\<lambda>m. lv_id m \<noteq> lv_id l) (sd_locations d)) d) (\<lambda>_.
      Inr (d\<lparr>sd_locations := update_where (\<lambda>m. lv_id m = lv_id l) (\<lambda>_. l') (sd_locations d)\<rparr>)))"

definition delete_location :: "uid \<Rightarrow> schedule_db \<Rightarrow> schedule_failure + schedule_db" where
  "delete_location k d =
     andThen (db_check (\<not> list_ex (\<lambda>s. sv_locationId s = Some k) (sd_schedules d)
                \<and> \<not> list_ex (\<lambda>q. qr_locationId q = Some k) (sd_qrCodes d)
                \<and> \<not> list_ex (\<lambda>s. sn_locationId s = Some k) (sd_sessions d)
                \<and> \<not> list_ex (\<lambda>o'. oc_locationId o' = Some k) (sd_orders d)) ''stall_locations_fkey'') (\<lambda>_.
     Inr (d\<lparr>sd_locations := filter (\<lambda>l. lv_id l \<noteq> k) (sd_locations d)\<rparr>))"

definition event_key_free :: "event_row \<Rightarrow> event_row list \<Rightarrow> bool" where
  "event_key_free e es \<longleftrightarrow>
     \<not> list_ex (\<lambda>m. me_id m = me_id e \<or> me_organizationId m = me_organizationId e \<and> me_slug m = me_slug e) es"

definition event_checks :: "'a event_values_scheme \<Rightarrow> bool" where
  "event_checks e \<longleftrightarrow> coordinates_pair (me_latitude e) (me_longitude e) \<and> me_startsAt e < me_endsAt e"

definition insert_event :: "event_row \<Rightarrow> schedule_db \<Rightarrow> schedule_failure + schedule_db" where
  "insert_event e d =
     andThen (db_check (event_checks e) ''market_events_check'') (\<lambda>_.
     andThen (db_check (event_key_free e (sd_events d)) ''market_events_key'') (\<lambda>_.
     Inr (d\<lparr>sd_events := sd_events d @ [e]\<rparr>)))"

text \<open>\<open>enforce_market_event_scope_update\<close>: the schedules of an event stay near it.\<close>

definition update_event :: "event_row \<Rightarrow> event_values \<Rightarrow> schedule_db \<Rightarrow> schedule_failure + schedule_db" where
  "update_event e v d =
     (let e' = event_values.extend v \<lparr>me_id = me_id e, me_organizationId = me_organizationId e\<rparr> in
      andThen (db_check (list_all (\<lambda>s. sv_marketEventId s = Some (me_id e) \<longrightarrow> within_event s e') (sd_schedules d))
                 ''MARKET_EVENT_SCHEDULE_WINDOW_MISMATCH'') (\<lambda>_.
      andThen (db_check (event_checks e') ''market_events_check'') (\<lambda>_.
      andThen (db_check (event_key_free e' (filter (\<lambda>m. me_id m \<noteq> me_id e) (sd_events d))) ''market_events_key'') (\<lambda>_.
      Inr (d\<lparr>sd_events := update_where (\<lambda>m. me_id m = me_id e) (\<lambda>_. e') (sd_events d)\<rparr>)))))"

definition delete_event :: "uid \<Rightarrow> schedule_db \<Rightarrow> schedule_failure + schedule_db" where
  "delete_event k d =
     andThen (db_check (\<not> list_ex (\<lambda>s. sv_marketEventId s = Some k) (sd_schedules d)
                \<and> \<not> list_ex (\<lambda>q. qr_marketEventId q = Some k) (sd_qrCodes d)
                \<and> \<not> list_ex (\<lambda>s. sn_marketEventId s = Some k) (sd_sessions d)
                \<and> \<not> list_ex (\<lambda>o'. oc_marketEventId o' = Some k) (sd_orders d)) ''market_events_fkey'') (\<lambda>_.
     Inr (d\<lparr>sd_events := filter (\<lambda>e. me_id e \<noteq> k) (sd_events d)\<rparr>))"

text \<open>\<open>enforce_ordering_context_scope\<close>: a context names a location and an event of its scope, and
  those of its schedule. An order session takes the context of its QR code through it.\<close>

definition context_scope ::
  "uid \<Rightarrow> uid \<Rightarrow> uid option \<Rightarrow> uid option \<Rightarrow> uid option \<Rightarrow> schedule_db \<Rightarrow> bool" where
  "context_scope org stall location event schedule d \<longleftrightarrow>
     location_in_scope location org stall d \<and> event_in_scope event org d
     \<and> (schedule = None \<or>
          list_ex (\<lambda>s. Some (sv_id s) = schedule \<and> sv_organizationId s = org \<and> sv_stallId s = stall
                     \<and> sv_locationId s = location \<and> sv_marketEventId s = event) (sd_schedules d))"

text \<open>\<open>enforce_qr_schedule_type\<close>.\<close>

definition qr_type_ok :: "qr_row \<Rightarrow> bool" where
  "qr_type_ok q \<longleftrightarrow>
     (qr_fulfillmentTypeContext q = Some DINE_IN \<longrightarrow> qr_diningTableId q \<noteq> None)
     \<and> (qr_diningTableId q \<noteq> None \<longrightarrow>
          qr_fulfillmentTypeContext q = None \<or> qr_fulfillmentTypeContext q = Some DINE_IN)"

definition update_qr :: "uid \<Rightarrow> (qr_row \<Rightarrow> qr_row) \<Rightarrow> schedule_db \<Rightarrow> schedule_failure + schedule_db" where
  "update_qr k f d =
     andThen (db_check (list_all (\<lambda>q. qr_id q = k \<longrightarrow> context_scope (qr_organizationId (f q)) (qr_stallId (f q))
                 (qr_locationId (f q)) (qr_marketEventId (f q)) (qr_stallScheduleId (f q)) d) (sd_qrCodes d))
                ''ORDERING_SCOPE_MISMATCH'') (\<lambda>_.
     andThen (db_check (list_all (\<lambda>q. qr_id q = k \<longrightarrow> qr_type_ok (f q)) (sd_qrCodes d)) ''QR_ORDER_TYPE_MISMATCH'') (\<lambda>_.
     Inr (d\<lparr>sd_qrCodes := update_where (\<lambda>q. qr_id q = k) f (sd_qrCodes d)\<rparr>)))"

text \<open>\<open>sync_stall_foundation_fields\<close> on an update.\<close>

fun state_of_business :: "StallBusinessStatus \<Rightarrow> StallOrderingState" where
  "state_of_business StallBusinessStatus.PAUSED = StallOrderingState.PAUSED"
| "state_of_business StallBusinessStatus.CLOSED = StallOrderingState.CLOSED"
| "state_of_business s = StallOrderingState.OPEN"

fun business_of_state :: "bool \<Rightarrow> StallOrderingState \<Rightarrow> StallBusinessStatus" where
  "business_of_state True s = StallBusinessStatus.SOLD_OUT"
| "business_of_state False StallOrderingState.PAUSED = StallBusinessStatus.PAUSED"
| "business_of_state False StallOrderingState.CLOSED = StallBusinessStatus.CLOSED"
| "business_of_state False StallOrderingState.OPEN = StallBusinessStatus.OPEN"

definition sync_status :: "scheduled_stall \<Rightarrow> scheduled_stall \<Rightarrow> scheduled_stall" where
  "sync_status old new =
     (if sl_businessStatus new \<noteq> sl_businessStatus old
      then new\<lparr>sl_orderingState := state_of_business (sl_businessStatus new),
               sl_isSoldOut := (sl_businessStatus new = StallBusinessStatus.SOLD_OUT)\<rparr>
      else if sl_orderingState new \<noteq> sl_orderingState old \<or> sl_isSoldOut new \<noteq> sl_isSoldOut old
      then new\<lparr>sl_businessStatus := business_of_state (sl_isSoldOut new) (sl_orderingState new)\<rparr>
      else new)"

definition sync_enabled :: "scheduled_stall \<Rightarrow> scheduled_stall \<Rightarrow> scheduled_stall" where
  "sync_enabled old new =
     (if sl_orderingEnabled new \<noteq> sl_orderingEnabled old
      then (if \<not> sl_orderingEnabled new
            then (case sl_businessStatus new of
                    StallBusinessStatus.PAUSED \<Rightarrow> new\<lparr>sl_orderingState := StallOrderingState.PAUSED, sl_isSoldOut := False\<rparr>
                  | StallBusinessStatus.SOLD_OUT \<Rightarrow> new\<lparr>sl_orderingState := StallOrderingState.OPEN, sl_isSoldOut := True\<rparr>
                  | _ \<Rightarrow> new\<lparr>sl_orderingState := StallOrderingState.CLOSED,
                            sl_businessStatus := StallBusinessStatus.CLOSED, sl_isSoldOut := False\<rparr>)
            else if sl_businessStatus new = StallBusinessStatus.CLOSED
            then new\<lparr>sl_orderingState := StallOrderingState.OPEN, sl_businessStatus := StallBusinessStatus.OPEN\<rparr>
            else new)
      else new\<lparr>sl_orderingEnabled := (sl_orderingState new \<noteq> StallOrderingState.CLOSED)\<rparr>)"

definition update_stall :: "uid \<Rightarrow> (scheduled_stall \<Rightarrow> scheduled_stall) \<Rightarrow> schedule_db \<Rightarrow> schedule_db" where
  "update_stall k f d =
     d\<lparr>sd_stalls := update_where (\<lambda>s. sl_id s = k) (\<lambda>s. sync_enabled s (sync_status s (f s))) (sd_stalls d)\<rparr>"

definition revoke_sessions :: "(session_row \<Rightarrow> bool) \<Rightarrow> instant \<Rightarrow> schedule_db \<Rightarrow> schedule_db" where
  "revoke_sessions p now d =
     d\<lparr>sd_sessions := update_where (\<lambda>s. p s \<and> sn_status s = ACTIVE)
         (\<lambda>s. s\<lparr>sn_status := REVOKED, sn_revokedAt := Some now\<rparr>) (sd_sessions d)\<rparr>"

section \<open>Locations\<close>

datatype location_command =
  CreateLocation location_values | UpdateLocation uid location_values | DeleteLocation uid

definition location_count :: "schedule_call \<Rightarrow> schedule_db \<Rightarrow> nat" where
  "location_count c d =
     count_where (\<lambda>l. lv_organizationId l = kc_organizationId c \<and> lv_stallId l = kc_stallId c) (sd_locations d)"

definition find_location :: "schedule_call \<Rightarrow> uid \<Rightarrow> schedule_db \<Rightarrow> location_row option" where
  "find_location c k d =
     List.find (\<lambda>l. lv_id l = k \<and> lv_organizationId l = kc_organizationId c \<and> lv_stallId l = kc_stallId c) (sd_locations d)"

definition location_used :: "uid \<Rightarrow> schedule_db \<Rightarrow> bool" where
  "location_used k d \<longleftrightarrow>
     list_ex (\<lambda>s. sv_locationId s = Some k) (sd_schedules d) \<or> list_ex (\<lambda>q. qr_locationId q = Some k) (sd_qrCodes d)
     \<or> list_ex (\<lambda>o'. oc_locationId o' = Some k) (sd_orders d)"

fun applyStallLocationCommand :: "schedule_call \<Rightarrow> location_command \<Rightarrow> schedule_db \<Rightarrow> schedule_failure + schedule_db" where
  "applyStallLocationCommand c (CreateLocation v) d =
     andThen (refuse_unless (case sc_locationLimit (kc_capabilities c) of
                               None \<Rightarrow> True | Some n \<Rightarrow> int (location_count c d) < n) LOCATION_LIMIT_REACHED) (\<lambda>_.
     insert_location (location_values.extend v \<lparr>lv_id = kc_fresh c 0, lv_organizationId = kc_organizationId c,
        lv_stallId = kc_stallId c\<rparr>) d)"
| "applyStallLocationCommand c (UpdateLocation k v) d =
     andThen (find_or (find_location c k d) LOCATION_NOT_FOUND) (\<lambda>l. update_location l v d)"
| "applyStallLocationCommand c (DeleteLocation k) d =
     andThen (find_or (find_location c k d) LOCATION_NOT_FOUND) (\<lambda>l.
     andThen (refuse_unless (\<not> location_used (lv_id l) d) LOCATION_IN_USE) (\<lambda>_. delete_location (lv_id l) d))"

section \<open>Market events\<close>

datatype event_command = CreateEvent event_values | UpdateEvent uid event_values | DeleteEvent uid

definition find_event :: "schedule_call \<Rightarrow> uid \<Rightarrow> schedule_db \<Rightarrow> event_row option" where
  "find_event c k d = List.find (\<lambda>e. me_id e = k \<and> me_organizationId e = kc_organizationId c) (sd_events d)"

definition event_used :: "uid \<Rightarrow> schedule_db \<Rightarrow> bool" where
  "event_used k d \<longleftrightarrow>
     list_ex (\<lambda>s. sv_marketEventId s = Some k) (sd_schedules d) \<or> list_ex (\<lambda>q. qr_marketEventId q = Some k) (sd_qrCodes d)
     \<or> list_ex (\<lambda>o'. oc_marketEventId o' = Some k) (sd_orders d)"

fun event_step :: "schedule_call \<Rightarrow> event_command \<Rightarrow> schedule_db \<Rightarrow> schedule_failure + schedule_db" where
  "event_step c (CreateEvent v) d =
     insert_event (event_values.extend v \<lparr>me_id = kc_fresh c 0, me_organizationId = kc_organizationId c\<rparr>) d"
| "event_step c (UpdateEvent k v) d =
     andThen (find_or (find_event c k d) EVENT_NOT_FOUND) (\<lambda>e. update_event e v d)"
| "event_step c (DeleteEvent k) d =
     andThen (find_or (find_event c k d) EVENT_NOT_FOUND) (\<lambda>e.
     andThen (refuse_unless (\<not> event_used (me_id e) d) EVENT_IN_USE) (\<lambda>_. delete_event (me_id e) d))"

definition applyMarketEventCommand :: "schedule_call \<Rightarrow> event_command \<Rightarrow> schedule_db \<Rightarrow> schedule_failure + schedule_db" where
  "applyMarketEventCommand c command d =
     andThen (refuse_unless (sc_eventSchedule (kc_capabilities c)) EVENT_FEATURE_REQUIRED) (\<lambda>_. event_step c command d)"

section \<open>Schedules\<close>

datatype schedule_command =
  CreateSchedule schedule_values | UpdateSchedule uid schedule_values | DeleteSchedule uid | CopyWeekly uid nat
| SetStatus uid StallScheduleStatus "string option" | AssignQrContext uid "uid option" "FulfillmentType option"

definition assertScheduleReferences ::
  "schedule_call \<Rightarrow> schedule_values \<Rightarrow> schedule_db \<Rightarrow> schedule_failure + unit" where
  "assertScheduleReferences c v d =
     (let location = Option.bind (sv_locationId v) (\<lambda>k. List.find (\<lambda>l. lv_id l = k \<and> lv_organizationId l = kc_organizationId c
                       \<and> lv_stallId l = kc_stallId c \<and> lv_isActive l) (sd_locations d));
          event = Option.bind (sv_marketEventId v) (\<lambda>k. find_event c k d)
      in andThen (refuse_unless (\<not> ((sv_autoOpenEnabled v \<or> sv_autoCloseEnabled v)
                     \<and> \<not> sc_automaticOrdering (kc_capabilities c))) AUTOMATIC_ORDERING_REQUIRED) (\<lambda>_.
         andThen (refuse_unless (sv_locationId v = None \<or> location \<noteq> None) SCHEDULE_CONTEXT_INVALID) (\<lambda>_.
         if sv_marketEventId v = None then Inr ()
         else andThen (refuse_unless (sc_eventSchedule (kc_capabilities c)) EVENT_FEATURE_REQUIRED) (\<lambda>_.
              andThen (find_or event SCHEDULE_CONTEXT_INVALID) (\<lambda>e.
              refuse_unless (within_event v e) SCHEDULE_EVENT_WINDOW_INVALID)))))"

definition active_status :: "StallScheduleStatus \<Rightarrow> bool" where
  "active_status s \<longleftrightarrow> s \<in> {StallScheduleStatus.SCHEDULED, StallScheduleStatus.OPEN, StallScheduleStatus.DELAYED}"

definition active_schedules :: "uid \<Rightarrow> uid \<Rightarrow> schedule_db \<Rightarrow> nat" where
  "active_schedules org stall d =
     count_where (\<lambda>s. sv_organizationId s = org \<and> sv_stallId s = stall \<and> active_status (sv_status s)) (sd_schedules d)"

definition assertScheduleLimit :: "schedule_call \<Rightarrow> nat \<Rightarrow> schedule_db \<Rightarrow> schedule_failure + unit" where
  "assertScheduleLimit c additional d =
     (case sc_scheduleLimit (kc_capabilities c) of
        None \<Rightarrow> Inr ()
      | Some n \<Rightarrow>
          refuse_unless (int (active_schedules (kc_organizationId c) (kc_stallId c) d) + int additional \<le> n)
            SCHEDULE_LIMIT_REACHED)"

definition normalizeQrFulfillmentType ::
  "uid option \<Rightarrow> FulfillmentType option \<Rightarrow> schedule_failure + FulfillmentType" where
  "normalizeQrFulfillmentType diningTableId requested =
     (if diningTableId \<noteq> None
      then (if requested \<noteq> None \<and> requested \<noteq> Some DINE_IN then Inl (Refused QR_ORDER_TYPE_INVALID) else Inr DINE_IN)
      else if requested = Some DINE_IN then Inl (Refused QR_ORDER_TYPE_INVALID)
      else Inr (case requested of Some t \<Rightarrow> t | None \<Rightarrow> TAKEOUT))"

definition find_schedule :: "schedule_call \<Rightarrow> uid \<Rightarrow> schedule_db \<Rightarrow> schedule_row option" where
  "find_schedule c k d =
     List.find (\<lambda>s. sv_id s = k \<and> sv_organizationId s = kc_organizationId c \<and> sv_stallId s = kc_stallId c) (sd_schedules d)"

definition new_schedule :: "schedule_call \<Rightarrow> nat \<Rightarrow> schedule_values \<Rightarrow> schedule_row" where
  "new_schedule c i v =
     schedule_values.extend v \<lparr>sv_id = kc_fresh c i, sv_organizationId = kc_organizationId c, sv_stallId = kc_stallId c,
       sv_status = StallScheduleStatus.SCHEDULED\<rparr>"

definition create_schedule :: "schedule_call \<Rightarrow> schedule_values \<Rightarrow> schedule_db \<Rightarrow> schedule_failure + schedule_db" where
  "create_schedule c v d =
     andThen (assertScheduleReferences c v d) (\<lambda>_.
     andThen (assertScheduleLimit c 1 d) (\<lambda>_. insert_schedule (new_schedule c 0 v) d))"

definition with_values :: "schedule_values \<Rightarrow> schedule_row \<Rightarrow> schedule_row" where
  "with_values v s =
     schedule_values.extend v \<lparr>sv_id = sv_id s, sv_organizationId = sv_organizationId s, sv_stallId = sv_stallId s,
       sv_status = sv_status s\<rparr>"

definition change_schedule :: "schedule_call \<Rightarrow> schedule_row \<Rightarrow> schedule_values \<Rightarrow> schedule_db \<Rightarrow> schedule_failure + schedule_db" where
  "change_schedule c s v d =
     andThen (refuse_unless (sv_status s \<in> {StallScheduleStatus.SCHEDULED, StallScheduleStatus.DELAYED})
                SCHEDULE_TRANSITION_DENIED) (\<lambda>_.
     andThen (assertScheduleReferences c v d) (\<lambda>_. update_schedule (sv_id s) (with_values v) d))"

definition remove_schedule :: "schedule_row \<Rightarrow> schedule_db \<Rightarrow> schedule_failure + schedule_db" where
  "remove_schedule s d =
     andThen (refuse_unless (sv_status s \<in> {StallScheduleStatus.SCHEDULED, StallScheduleStatus.CANCELLED}) SCHEDULE_IN_USE) (\<lambda>_.
     andThen (refuse_unless (\<not> (list_ex (\<lambda>q. qr_stallScheduleId q = Some (sv_id s)) (sd_qrCodes d)
                \<or> list_ex (\<lambda>o'. oc_stallScheduleId o' = Some (sv_id s)) (sd_orders d))) SCHEDULE_IN_USE) (\<lambda>_.
     delete_schedule (sv_id s) d))"

definition WEEK :: int where "WEEK = 7 * 86400000"

text \<open>\<open>isActive\<close> of the location is not read again for a copy.\<close>

definition weekly_copy :: "schedule_row \<Rightarrow> nat \<Rightarrow> schedule_values" where
  "weekly_copy s week =
     (let offset = int week * WEEK in
      \<lparr>sv_locationId = sv_locationId s, sv_marketEventId = None, sv_startsAt = sv_startsAt s + offset,
       sv_endsAt = sv_endsAt s + offset, sv_orderingOpensAt = map_option (\<lambda>t. t + offset) (sv_orderingOpensAt s),
       sv_orderingClosesAt = map_option (\<lambda>t. t + offset) (sv_orderingClosesAt s),
       sv_specialNotice = sv_specialNotice s, sv_menuOverrideId = sv_menuOverrideId s,
       sv_autoOpenEnabled = sv_autoOpenEnabled s, sv_autoCloseEnabled = sv_autoCloseEnabled s\<rparr>)"

fun create_copies :: "schedule_call \<Rightarrow> schedule_row \<Rightarrow> nat list \<Rightarrow> schedule_db \<Rightarrow> schedule_failure + schedule_db" where
  "create_copies c s [] d = Inr d"
| "create_copies c s (week # weeks) d =
     andThen (insert_schedule (new_schedule c week (weekly_copy s week)) d) (create_copies c s weeks)"

definition copy_schedule :: "schedule_call \<Rightarrow> schedule_row \<Rightarrow> nat \<Rightarrow> schedule_db \<Rightarrow> schedule_failure + schedule_db" where
  "copy_schedule c s weeks d =
     andThen (refuse_unless (sc_recurringCopy (kc_capabilities c)) RECURRING_COPY_REQUIRED) (\<lambda>_.
     andThen (refuse_unless (sv_marketEventId s = None) EVENT_SCHEDULE_NOT_COPYABLE) (\<lambda>_.
     andThen (assertScheduleLimit c weeks d) (\<lambda>_. create_copies c s [1..<Suc weeks] d)))"

definition open_stall :: "schedule_row \<Rightarrow> schedule_db \<Rightarrow> schedule_db" where
  "open_stall s d =
     (case List.find (\<lambda>t. sl_id t = sv_stallId s \<and> sl_organizationId t = sv_organizationId s) (sd_stalls d) of
        None \<Rightarrow> d
      | Some t \<Rightarrow>
          if sl_isActive t \<and> \<not> sl_isSoldOut t \<and> (case sl_pauseSource t of None \<Rightarrow> True | Some p \<Rightarrow> p = ''NONE'')
          then update_stall (sl_id t) (\<lambda>t. t\<lparr>sl_businessStatus := StallBusinessStatus.OPEN, sl_orderingEnabled := True,
                 sl_orderingState := StallOrderingState.OPEN\<rparr>) d
          else d)"

definition close_stall :: "instant \<Rightarrow> schedule_row \<Rightarrow> schedule_db \<Rightarrow> schedule_db" where
  "close_stall now s d =
     revoke_sessions (\<lambda>n. sn_stallId n = sv_stallId s) now
       (update_stall (sv_stallId s) (\<lambda>t. t\<lparr>sl_orderingState := StallOrderingState.CLOSED\<rparr>) d)"

definition applyManualOrderingTransition ::
  "instant \<Rightarrow> schedule_row \<Rightarrow> StallScheduleStatus \<Rightarrow> StallScheduleStatus \<Rightarrow> schedule_db \<Rightarrow> schedule_db" where
  "applyManualOrderingTransition now s previous next_status d =
     (if next_status = StallScheduleStatus.OPEN then open_stall s d
      else if previous \<noteq> StallScheduleStatus.OPEN
              \<or> next_status \<notin> {StallScheduleStatus.COMPLETED, StallScheduleStatus.CANCELLED} then d
      else if list_ex (\<lambda>o'. sv_stallId o' = sv_stallId s \<and> sv_id o' \<noteq> sv_id s \<and> sv_status o' = StallScheduleStatus.OPEN)
                (sd_schedules d) then d
      else close_stall now s d)"

definition set_status ::
  "schedule_call \<Rightarrow> schedule_row \<Rightarrow> StallScheduleStatus \<Rightarrow> string option \<Rightarrow> schedule_db \<Rightarrow> schedule_failure + schedule_db" where
  "set_status c s next_status notice d =
     andThen (refuse_unless (canTransitionSchedule (sv_status s) next_status) SCHEDULE_TRANSITION_DENIED) (\<lambda>_.
     andThen (update_schedule (sv_id s) (\<lambda>s. s\<lparr>sv_status := next_status, sv_specialNotice := notice\<rparr>) d) (\<lambda>d1.
     Inr (applyManualOrderingTransition (kc_now c) s (sv_status s) next_status d1)))"

definition qr_context :: "schedule_row option \<Rightarrow> FulfillmentType \<Rightarrow> qr_row \<Rightarrow> qr_row" where
  "qr_context schedule fulfillmentType q =
     q\<lparr>qr_locationId := Option.bind schedule sv_locationId, qr_marketEventId := Option.bind schedule sv_marketEventId,
       qr_stallScheduleId := map_option sv_id schedule,
       qr_fulfillmentTypeContext :=
         (if schedule \<noteq> None then Some fulfillmentType else if qr_diningTableId q \<noteq> None then Some DINE_IN else None)\<rparr>"

definition assign_qr ::
  "schedule_call \<Rightarrow> uid \<Rightarrow> uid option \<Rightarrow> FulfillmentType option \<Rightarrow> schedule_db \<Rightarrow> schedule_failure + schedule_db" where
  "assign_qr c k scheduleId requested d =
     andThen (find_or (List.find (\<lambda>q. qr_id q = k \<and> qr_organizationId q = kc_organizationId c \<and> qr_stallId q = kc_stallId c)
                (sd_qrCodes d)) QR_CODE_NOT_FOUND) (\<lambda>q.
     let schedule = Option.bind scheduleId (\<lambda>j. find_schedule c j d) in
     andThen (refuse_unless (scheduleId = None \<or> schedule \<noteq> None) SCHEDULE_NOT_FOUND) (\<lambda>_.
     andThen (normalizeQrFulfillmentType (qr_diningTableId q) requested) (\<lambda>fulfillmentType.
     andThen (refuse_unless (fulfillmentType \<noteq> FulfillmentType.DELIVERY \<or>
                list_ex (\<lambda>t. sl_id t = kc_stallId c \<and> sl_organizationId t = kc_organizationId c
                           \<and> sl_deliveryModuleEnabled t = Some True) (sd_stalls d)) DELIVERY_MODULE_REQUIRED) (\<lambda>_.
     update_qr (qr_id q) (qr_context schedule fulfillmentType)
       (revoke_sessions (\<lambda>n. sn_qrCodeId n = qr_id q) (kc_now c) d)))))"

fun applyStallScheduleCommand :: "schedule_call \<Rightarrow> schedule_command \<Rightarrow> schedule_db \<Rightarrow> schedule_failure + schedule_db" where
  "applyStallScheduleCommand c (CreateSchedule v) d = create_schedule c v d"
| "applyStallScheduleCommand c (AssignQrContext k scheduleId requested) d = assign_qr c k scheduleId requested d"
| "applyStallScheduleCommand c (UpdateSchedule k v) d =
     andThen (find_or (find_schedule c k d) SCHEDULE_NOT_FOUND) (\<lambda>s. change_schedule c s v d)"
| "applyStallScheduleCommand c (DeleteSchedule k) d =
     andThen (find_or (find_schedule c k d) SCHEDULE_NOT_FOUND) (\<lambda>s. remove_schedule s d)"
| "applyStallScheduleCommand c (CopyWeekly k weeks) d =
     andThen (find_or (find_schedule c k d) SCHEDULE_NOT_FOUND) (\<lambda>s. copy_schedule c s weeks d)"
| "applyStallScheduleCommand c (SetStatus k next_status notice) d =
     andThen (find_or (find_schedule c k d) SCHEDULE_NOT_FOUND) (\<lambda>s. set_status c s next_status notice d)"

definition scheduleAuditAction :: "schedule_command \<Rightarrow> string" where
  "scheduleAuditAction command =
     (case command of
        CreateSchedule _ \<Rightarrow> ''STALL_SCHEDULE_CREATED''
      | UpdateSchedule _ _ \<Rightarrow> ''STALL_SCHEDULE_UPDATED''
      | DeleteSchedule _ \<Rightarrow> ''STALL_SCHEDULE_DELETED''
      | CopyWeekly _ _ \<Rightarrow> ''STALL_SCHEDULE_COPIED''
      | SetStatus _ _ _ \<Rightarrow> ''STALL_SCHEDULE_STATUS_CHANGED''
      | AssignQrContext _ _ _ \<Rightarrow> ''QR_SCHEDULE_CONTEXT_CHANGED'')"

section \<open>The schema\<close>

definition validateSchedule :: "schedule_values \<Rightarrow> bool" where
  "validateSchedule v \<longleftrightarrow>
     (sv_locationId v \<noteq> None \<or> sv_marketEventId v \<noteq> None) \<and> sv_startsAt v < sv_endsAt v \<and> opens_at v < closes_at v"

definition validateEvent :: "event_values \<Rightarrow> bool" where
  "validateEvent v \<longleftrightarrow> (me_latitude v = None) = (me_longitude v = None) \<and> me_startsAt v < me_endsAt v"

definition normalizeAutomaticOrderingFlags :: "bool \<Rightarrow> bool \<times> bool \<Rightarrow> bool \<times> bool" where
  "normalizeAutomaticOrderingFlags automaticOrdering flags =
     (automaticOrdering \<and> fst flags, automaticOrdering \<and> snd flags)"

end
