(* ===== verification/ScheduleRules.thy ===== *)
theory ScheduleRules
  imports StallSchedules
begin

text \<open>
  What the commands on locations, events and schedules guarantee: the tables stay consistent, the
  active schedules of a stall stay within the limit of its plan, and a change of status drives
  the ordering of the stall.
\<close>

section \<open>Keys\<close>

definition stall_keys :: "schedule_db \<Rightarrow> (uid \<times> uid) set" where
  "stall_keys d = (\<lambda>s. (sl_id s, sl_organizationId s)) ` set (sd_stalls d)"

definition location_keys :: "schedule_db \<Rightarrow> (uid \<times> uid \<times> uid) set" where
  "location_keys d = (\<lambda>l. (lv_id l, lv_organizationId l, lv_stallId l)) ` set (sd_locations d)"

definition event_keys :: "schedule_db \<Rightarrow> (uid \<times> uid) set" where
  "event_keys d = (\<lambda>e. (me_id e, me_organizationId e)) ` set (sd_events d)"

definition schedule_keys :: "schedule_db \<Rightarrow> (uid \<times> uid \<times> uid) set" where
  "schedule_keys d = (\<lambda>s. (sv_id s, sv_organizationId s, sv_stallId s)) ` set (sd_schedules d)"

lemma stall_scope_iff: "stall_scope org stall d \<longleftrightarrow> (stall, org) \<in> stall_keys d"
  by (auto simp: stall_scope_def stall_keys_def list_ex_iff)

lemma location_in_scope_iff:
  "location_in_scope k org stall d \<longleftrightarrow> (\<forall>j. k = Some j \<longrightarrow> (j, org, stall) \<in> location_keys d)"
  by (cases k) (auto simp: location_in_scope_def location_keys_def list_ex_iff)

lemma event_in_scope_iff: "event_in_scope k org d \<longleftrightarrow> (\<forall>j. k = Some j \<longrightarrow> (j, org) \<in> event_keys d)"
  by (cases k) (auto simp: event_in_scope_def event_keys_def list_ex_iff)

section \<open>Consistent tables\<close>

definition location_row_ok :: "schedule_db \<Rightarrow> location_row \<Rightarrow> bool" where
  "location_row_ok d l \<longleftrightarrow>
     (lv_stallId l, lv_organizationId l) \<in> stall_keys d \<and> coordinates_pair (lv_latitude l) (lv_longitude l)"

definition schedule_row_ok :: "schedule_db \<Rightarrow> schedule_row \<Rightarrow> bool" where
  "schedule_row_ok d s \<longleftrightarrow> schedule_scope s d \<and> schedule_checks s"

definition qr_row_ok :: "schedule_db \<Rightarrow> qr_row \<Rightarrow> bool" where
  "qr_row_ok d q \<longleftrightarrow>
     qr_type_ok q \<and> location_in_scope (qr_locationId q) (qr_organizationId q) (qr_stallId q) d
     \<and> event_in_scope (qr_marketEventId q) (qr_organizationId q) d
     \<and> (\<forall>j. qr_stallScheduleId q = Some j \<longrightarrow> (j, qr_organizationId q, qr_stallId q) \<in> schedule_keys d)"

definition tables_ok :: "schedule_db \<Rightarrow> bool" where
  "tables_ok d \<longleftrightarrow>
     distinct (map lv_id (sd_locations d)) \<and> distinct (map (\<lambda>l. (lv_stallId l, lv_name l)) (sd_locations d))
     \<and> distinct (map me_id (sd_events d)) \<and> distinct (map (\<lambda>e. (me_organizationId e, me_slug e)) (sd_events d))
     \<and> distinct (map sv_id (sd_schedules d))
     \<and> (\<forall>l \<in> set (sd_locations d). location_row_ok d l) \<and> (\<forall>e \<in> set (sd_events d). event_checks e)
     \<and> (\<forall>s \<in> set (sd_schedules d). schedule_row_ok d s) \<and> (\<forall>q \<in> set (sd_qrCodes d). qr_row_ok d q)"

lemma tables_okD:
  assumes "tables_ok d"
  shows "distinct (map lv_id (sd_locations d))" "distinct (map (\<lambda>l. (lv_stallId l, lv_name l)) (sd_locations d))"
    "distinct (map me_id (sd_events d))" "distinct (map (\<lambda>e. (me_organizationId e, me_slug e)) (sd_events d))"
    "distinct (map sv_id (sd_schedules d))" "\<And>l. l \<in> set (sd_locations d) \<Longrightarrow> location_row_ok d l"
    "\<And>e. e \<in> set (sd_events d) \<Longrightarrow> event_checks e" "\<And>s. s \<in> set (sd_schedules d) \<Longrightarrow> schedule_row_ok d s"
    "\<And>q. q \<in> set (sd_qrCodes d) \<Longrightarrow> qr_row_ok d q"
  using assms by (simp_all add: tables_ok_def)

lemma schedule_row_okI:
  assumes "schedule_row_ok d s" "stall_keys d \<subseteq> stall_keys d'"
    "\<And>j. sv_locationId s = Some j \<Longrightarrow> (j, sv_organizationId s, sv_stallId s) \<in> location_keys d \<Longrightarrow>
         (j, sv_organizationId s, sv_stallId s) \<in> location_keys d'"
    "\<And>e. e \<in> set (sd_events d) \<Longrightarrow> sv_marketEventId s = Some (me_id e) \<Longrightarrow> within_event s e \<Longrightarrow>
         \<exists>e' \<in> set (sd_events d'). me_id e' = me_id e \<and> me_organizationId e' = me_organizationId e \<and> within_event s e'"
  shows "schedule_row_ok d' s"
proof -
  have "(\<exists>e \<in> set (sd_events d). Some (me_id e) = sv_marketEventId s \<and> me_organizationId e = sv_organizationId s \<and> within_event s e)
      \<Longrightarrow> (\<exists>e \<in> set (sd_events d'). Some (me_id e) = sv_marketEventId s \<and> me_organizationId e = sv_organizationId s \<and> within_event s e)"
    using assms(4) by metis
  then show ?thesis
    using assms(1-3) unfolding schedule_row_ok_def schedule_scope_def stall_scope_iff location_in_scope_iff list_ex_iff
    by blast
qed

lemma qr_row_okI:
  assumes "qr_row_ok d q"
    "\<And>j. qr_locationId q = Some j \<Longrightarrow> (j, qr_organizationId q, qr_stallId q) \<in> location_keys d \<Longrightarrow>
         (j, qr_organizationId q, qr_stallId q) \<in> location_keys d'"
    "\<And>j. qr_marketEventId q = Some j \<Longrightarrow> (j, qr_organizationId q) \<in> event_keys d \<Longrightarrow> (j, qr_organizationId q) \<in> event_keys d'"
    "\<And>j. qr_stallScheduleId q = Some j \<Longrightarrow> (j, qr_organizationId q, qr_stallId q) \<in> schedule_keys d \<Longrightarrow>
         (j, qr_organizationId q, qr_stallId q) \<in> schedule_keys d'"
  shows "qr_row_ok d' q"
  using assms unfolding qr_row_ok_def location_in_scope_iff event_in_scope_iff by blast

section \<open>Tables that change\<close>

lemma db_check_Inr [simp]: "db_check b e = Inr u \<longleftrightarrow> b"
  by (simp add: db_check_def)

lemma refuse_unless_Inr [simp]: "refuse_unless b e = Inr u \<longleftrightarrow> b"
  by (simp add: refuse_unless_def)

lemma find_or_Inr [simp]: "find_or x e = Inr r \<longleftrightarrow> x = Some r"
  by (cases x) (simp_all add: find_or_def)

lemma distinct_replaced:
  assumes "distinct (map key xs)" "key y \<notin> key ` set (filter (\<lambda>x. k x \<noteq> j) xs)" "distinct (map k xs)"
  shows "distinct (map key (update_where (\<lambda>x. k x = j) (\<lambda>_. y) xs))"
  using assms
proof (induction xs)
  case (Cons x xs)
  show ?case
  proof (cases "k x = j")
    case True
    then have "\<forall>z \<in> set xs. k z \<noteq> j" using Cons.prems(3) by (metis distinct.simps(2) image_eqI list.simps(9) set_map)
    then have "filter (\<lambda>x. k x \<noteq> j) xs = xs" "update_where (\<lambda>x. k x = j) (\<lambda>_. y) xs = xs"
      by (simp_all add: filter_id_conv update_where_none count_where_def filter_empty_conv)
    then show ?thesis using True Cons.prems by simp
  next
    case False
    have "key x \<notin> key ` set (update_where (\<lambda>x. k x = j) (\<lambda>_. y) xs)"
      using Cons.prems False by (fastforce simp: in_update_where image_iff split: if_split_asm)
    then show ?thesis using Cons False by simp
  qed
qed simp

lemma keys_kept [simp]:
  "stall_keys (d\<lparr>sd_locations := a\<rparr>) = stall_keys d" "stall_keys (d\<lparr>sd_events := b\<rparr>) = stall_keys d"
  "stall_keys (d\<lparr>sd_schedules := e\<rparr>) = stall_keys d" "stall_keys (d\<lparr>sd_qrCodes := g\<rparr>) = stall_keys d"
  "stall_keys (d\<lparr>sd_sessions := h\<rparr>) = stall_keys d"
  "location_keys (d\<lparr>sd_events := b\<rparr>) = location_keys d" "location_keys (d\<lparr>sd_schedules := e\<rparr>) = location_keys d"
  "location_keys (d\<lparr>sd_qrCodes := g\<rparr>) = location_keys d" "location_keys (d\<lparr>sd_sessions := h\<rparr>) = location_keys d"
  "location_keys (d\<lparr>sd_stalls := i\<rparr>) = location_keys d"
  "event_keys (d\<lparr>sd_locations := a\<rparr>) = event_keys d" "event_keys (d\<lparr>sd_schedules := e\<rparr>) = event_keys d"
  "event_keys (d\<lparr>sd_qrCodes := g\<rparr>) = event_keys d" "event_keys (d\<lparr>sd_sessions := h\<rparr>) = event_keys d"
  "event_keys (d\<lparr>sd_stalls := i\<rparr>) = event_keys d"
  "schedule_keys (d\<lparr>sd_locations := a\<rparr>) = schedule_keys d" "schedule_keys (d\<lparr>sd_events := b\<rparr>) = schedule_keys d"
  "schedule_keys (d\<lparr>sd_qrCodes := g\<rparr>) = schedule_keys d" "schedule_keys (d\<lparr>sd_sessions := h\<rparr>) = schedule_keys d"
  "schedule_keys (d\<lparr>sd_stalls := i\<rparr>) = schedule_keys d"
  by (simp_all add: stall_keys_def location_keys_def event_keys_def schedule_keys_def)

text \<open>The tables other than the changed one, with the keys their rows refer to.\<close>

lemma tables_ok_cong:
  assumes ok: "tables_ok d" and stalls: "stall_keys d \<subseteq> stall_keys d'"
    and same: "sd_locations d' = sd_locations d" "sd_events d' = sd_events d" "sd_schedules d' = sd_schedules d"
      "sd_qrCodes d' = sd_qrCodes d"
  shows "tables_ok d'"
proof -
  have keys: "location_keys d' = location_keys d" "event_keys d' = event_keys d" "schedule_keys d' = schedule_keys d"
    by (simp_all add: location_keys_def event_keys_def schedule_keys_def same)
  note t = tables_okD [OF ok]
  have "schedule_row_ok d' s" if "s \<in> set (sd_schedules d)" for s
    by (rule schedule_row_okI [OF t(8) [OF that] stalls]) (auto simp: keys same)
  moreover have "qr_row_ok d' q" if "q \<in> set (sd_qrCodes d)" for q
    by (rule qr_row_okI [OF t(9) [OF that]]) (auto simp: keys)
  moreover have "location_row_ok d' l" if "l \<in> set (sd_locations d)" for l
    using t(6) [OF that] stalls by (auto simp: location_row_ok_def)
  ultimately show ?thesis using t(1-5,7) by (simp add: tables_ok_def same)
qed

lemma stall_keys_update [simp]:
  assumes "\<And>s. sl_id (f s) = sl_id s \<and> sl_organizationId (f s) = sl_organizationId s"
  shows "stall_keys (update_stall k f d) = stall_keys d"
proof -
  have "(\<lambda>s. (sl_id s, sl_organizationId s)) (sync_enabled s (sync_status s (f s))) = (sl_id s, sl_organizationId s)" for s
    using assms [of s] by (simp add: sync_enabled_def sync_status_def split: StallBusinessStatus.split)
  then show ?thesis
    unfolding stall_keys_def update_stall_def using map_update_where_same
    by (simp add: in_update_where image_def Bex_def) (metis (no_types, lifting))
qed

lemma update_stall_ok:
  "tables_ok d \<Longrightarrow> (\<And>s. sl_id (f s) = sl_id s \<and> sl_organizationId (f s) = sl_organizationId s) \<Longrightarrow> tables_ok (update_stall k f d)"
proof -
  assume ok: "tables_ok d" and f: "\<And>s. sl_id (f s) = sl_id s \<and> sl_organizationId (f s) = sl_organizationId s"
  have "stall_keys (update_stall k f d) = stall_keys d" by (rule stall_keys_update) (rule f)
  then show ?thesis by (intro tables_ok_cong [OF ok]) (simp_all add: update_stall_def)
qed

lemma revoke_sessions_ok: "tables_ok d \<Longrightarrow> tables_ok (revoke_sessions p now d)"
  by (rule tables_ok_cong) (simp_all add: revoke_sessions_def)

lemma insert_schedule_Inr:
  "insert_schedule s d = Inr d' \<longleftrightarrow>
     schedule_row_ok d s \<and> sv_id s \<notin> sv_id ` set (sd_schedules d) \<and> d' = d\<lparr>sd_schedules := sd_schedules d @ [s]\<rparr>"
  by (auto simp: insert_schedule_def andThen_Inr_iff schedule_row_ok_def)

lemma schedule_row_ok_schedules [simp]: "schedule_row_ok (d\<lparr>sd_schedules := x\<rparr>) s = schedule_row_ok d s"
  by (simp add: schedule_row_ok_def schedule_scope_def stall_scope_iff location_in_scope_iff)

lemma location_row_ok_cong [simp]:
  "location_row_ok (d\<lparr>sd_schedules := x\<rparr>) l = location_row_ok d l" "location_row_ok (d\<lparr>sd_events := b\<rparr>) l = location_row_ok d l"
  "location_row_ok (d\<lparr>sd_qrCodes := g\<rparr>) l = location_row_ok d l" "location_row_ok (d\<lparr>sd_locations := a\<rparr>) l = location_row_ok d l"
  by (simp_all add: location_row_ok_def)

lemma insert_schedule_ok:
  assumes "insert_schedule s d = Inr d'" "tables_ok d"
  shows "tables_ok d'"
proof -
  note t = tables_okD [OF assms(2)]
  have s: "schedule_row_ok d s" "sv_id s \<notin> sv_id ` set (sd_schedules d)" "d' = d\<lparr>sd_schedules := sd_schedules d @ [s]\<rparr>"
    using assms(1) by (simp_all add: insert_schedule_Inr)
  have "qr_row_ok d' q" if "q \<in> set (sd_qrCodes d)" for q
    by (rule qr_row_okI [OF t(9) [OF that]]) (auto simp: s(3) schedule_keys_def)
  then show ?thesis using t s by (auto simp: tables_ok_def)
qed

lemma update_schedule_Inr:
  "update_schedule k f d = Inr d' \<longleftrightarrow>
     (\<forall>s \<in> set (sd_schedules d). sv_id s = k \<longrightarrow> schedule_row_ok d (f s))
     \<and> d' = d\<lparr>sd_schedules := update_where (\<lambda>s. sv_id s = k) f (sd_schedules d)\<rparr>"
  by (auto simp: update_schedule_def andThen_Inr_iff schedule_row_ok_def list_all_iff)

lemma update_schedule_ok:
  assumes "update_schedule k f d = Inr d'" "tables_ok d"
    and f: "\<And>s. sv_id (f s) = sv_id s \<and> sv_organizationId (f s) = sv_organizationId s \<and> sv_stallId (f s) = sv_stallId s"
  shows "tables_ok d'"
proof -
  note t = tables_okD [OF assms(2)]
  have rows: "\<And>s. s \<in> set (sd_schedules d) \<Longrightarrow> sv_id s = k \<Longrightarrow> schedule_row_ok d (f s)"
    and d': "d' = d\<lparr>sd_schedules := update_where (\<lambda>s. sv_id s = k) f (sd_schedules d)\<rparr>"
    using assms(1) by (simp_all add: update_schedule_Inr)
  have rows': "sd_schedules d' = update_where (\<lambda>s. sv_id s = k) f (sd_schedules d)" by (simp add: d')
  have "map (\<lambda>s. (sv_id s, sv_organizationId s, sv_stallId s)) (sd_schedules d')
      = map (\<lambda>s. (sv_id s, sv_organizationId s, sv_stallId s)) (sd_schedules d)"
    unfolding rows' by (rule map_update_where_same) (simp add: f)
  then have keys: "schedule_keys d' = schedule_keys d" unfolding schedule_keys_def set_map [symmetric]
    by (rule arg_cong [where f = set])
  have ids: "map sv_id (sd_schedules d') = map sv_id (sd_schedules d)"
    unfolding rows' by (rule map_update_where_same) (simp add: f)
  have "qr_row_ok d' q" if "q \<in> set (sd_qrCodes d)" for q
    by (rule qr_row_okI [OF t(9) [OF that]]) (simp_all add: keys, simp_all add: d')
  moreover have "schedule_row_ok d s" if "s \<in> set (sd_schedules d')" for s
    using that t(8) rows by (auto simp: d' in_update_where split: if_split_asm)
  ultimately show ?thesis using t ids by (auto simp: tables_ok_def d')
qed

lemma delete_schedule_ok:
  assumes "delete_schedule k d = Inr d'" "tables_ok d"
  shows "tables_ok d'"
proof -
  note t = tables_okD [OF assms(2)]
  have d': "d' = d\<lparr>sd_schedules := filter (\<lambda>s. sv_id s \<noteq> k) (sd_schedules d)\<rparr>"
    and free: "\<And>q. q \<in> set (sd_qrCodes d) \<Longrightarrow> qr_stallScheduleId q \<noteq> Some k"
    using assms(1) by (auto simp: delete_schedule_def andThen_Inr_iff list_ex_iff)
  have "qr_row_ok d' q" if "q \<in> set (sd_qrCodes d)" for q
    by (rule qr_row_okI [OF t(9) [OF that]]) (use free [OF that] in \<open>auto simp: d' schedule_keys_def\<close>)
  then show ?thesis using t by (auto simp: tables_ok_def d' distinct_map_filter)
qed

lemma context_scope_keys:
  assumes "context_scope org stall location event schedule d"
  shows "location_in_scope location org stall d" "event_in_scope event org d"
    "schedule = Some j \<Longrightarrow> (j, org, stall) \<in> schedule_keys d"
  using assms by (auto simp: context_scope_def list_ex_iff schedule_keys_def)

lemma update_qr_ok:
  assumes "update_qr k f d = Inr d'" "tables_ok d"
  shows "tables_ok d'"
proof -
  note t = tables_okD [OF assms(2)]
  have d': "d' = d\<lparr>sd_qrCodes := update_where (\<lambda>q. qr_id q = k) f (sd_qrCodes d)\<rparr>"
    and row: "\<And>q. q \<in> set (sd_qrCodes d) \<Longrightarrow> qr_id q = k \<Longrightarrow> qr_row_ok d (f q)"
    using assms(1)
    by (auto simp: update_qr_def andThen_Inr_iff list_all_iff qr_row_ok_def dest: context_scope_keys)
  have "qr_row_ok d q" if "q \<in> set (sd_qrCodes d')" for q
    using that t(9) row by (auto simp: d' in_update_where split: if_split_asm)
  moreover have "qr_row_ok d' q = qr_row_ok d q" "schedule_row_ok d' s = schedule_row_ok d s" for q s
    by (simp_all add: d' qr_row_ok_def schedule_row_ok_def schedule_scope_def stall_scope_iff location_in_scope_iff
        event_in_scope_iff)
  ultimately show ?thesis using t by (auto simp: tables_ok_def d')
qed

lemma location_ok_Inr:
  "location_ok l others d = Inr u \<longleftrightarrow>
     location_row_ok d l \<and> (\<forall>m \<in> set others. lv_id m \<noteq> lv_id l \<and> (lv_stallId m, lv_name m) \<noteq> (lv_stallId l, lv_name l))"
  by (auto simp: location_ok_def andThen_Inr_iff location_row_ok_def stall_scope_iff location_key_free_def list_ex_iff)

lemma locations_change_ok:
  assumes ok: "tables_ok d" and d': "d' = d\<lparr>sd_locations := ls\<rparr>"
    and ls: "distinct (map lv_id ls)" "distinct (map (\<lambda>l. (lv_stallId l, lv_name l)) ls)"
      "\<And>l. l \<in> set ls \<Longrightarrow> location_row_ok d l"
    and kept: "\<And>j org stall. (j, org, stall) \<in> location_keys d \<Longrightarrow>
        (\<exists>s \<in> set (sd_schedules d). sv_locationId s = Some j) \<or> (\<exists>q \<in> set (sd_qrCodes d). qr_locationId q = Some j)
        \<Longrightarrow> (j, org, stall) \<in> location_keys d'"
  shows "tables_ok d'"
proof -
  note t = tables_okD [OF ok]
  have "schedule_row_ok d' s" if "s \<in> set (sd_schedules d)" for s
    by (rule schedule_row_okI [OF t(8) [OF that]]) (use kept that in \<open>auto simp: d'\<close>)
  moreover have "qr_row_ok d' q" if q: "q \<in> set (sd_qrCodes d)" for q
  proof (rule qr_row_okI [OF t(9) [OF q]])
    fix j assume "qr_locationId q = Some j" "(j, qr_organizationId q, qr_stallId q) \<in> location_keys d"
    then show "(j, qr_organizationId q, qr_stallId q) \<in> location_keys d'" using kept q by blast
  qed (simp_all add: d')
  ultimately show ?thesis using t ls by (simp add: tables_ok_def d')
qed

lemma insert_location_ok:
  assumes "insert_location l d = Inr d'" "tables_ok d"
  shows "tables_ok d'"
proof -
  note t = tables_okD [OF assms(2)]
  have l: "location_row_ok d l"
      "\<forall>m \<in> set (sd_locations d). lv_id m \<noteq> lv_id l \<and> (lv_stallId m, lv_name m) \<noteq> (lv_stallId l, lv_name l)"
    and d': "d' = d\<lparr>sd_locations := sd_locations d @ [l]\<rparr>"
    using assms(1) by (auto simp: insert_location_def andThen_Inr_iff location_ok_Inr)
  show ?thesis
    by (rule locations_change_ok [OF assms(2) d']) (use t l in \<open>auto simp: d' location_keys_def image_iff\<close>)
qed

lemma update_location_ok:
  assumes "update_location l v d = Inr d'" "tables_ok d" "l \<in> set (sd_locations d)"
  shows "tables_ok d'"
proof -
  note t = tables_okD [OF assms(2)]
  define l' where "l' = location_values.extend v \<lparr>lv_id = lv_id l, lv_organizationId = lv_organizationId l, lv_stallId = lv_stallId l\<rparr>"
  have id: "lv_id l' = lv_id l" "lv_organizationId l' = lv_organizationId l" "lv_stallId l' = lv_stallId l"
    by (simp_all add: l'_def location_values.defs)
  let ?ls = "update_where (\<lambda>m. lv_id m = lv_id l) (\<lambda>_. l') (sd_locations d)"
  let ?others = "filter (\<lambda>m. lv_id m \<noteq> lv_id l) (sd_locations d)"
  have l: "location_row_ok d l'"
      "\<forall>m \<in> set ?others. lv_id m \<noteq> lv_id l' \<and> (lv_stallId m, lv_name m) \<noteq> (lv_stallId l', lv_name l')"
    and d': "d' = d\<lparr>sd_locations := ?ls\<rparr>"
    using assms(1) unfolding update_location_def Let_def l'_def [symmetric] by (auto simp: andThen_Inr_iff location_ok_Inr)
  have same: "m = l" if "m \<in> set (sd_locations d)" "lv_id m = lv_id l" for m
    using t(1) that assms(3) by (metis distinct_map inj_onD)
  show ?thesis
  proof (rule locations_change_ok [OF assms(2) d'])
    show "distinct (map lv_id ?ls)" by (rule distinct_replaced [OF t(1) _ t(1)]) (auto simp: id)
    show "distinct (map (\<lambda>l. (lv_stallId l, lv_name l)) ?ls)"
      by (rule distinct_replaced [OF t(2) _ t(1)]) (use l(2) in auto)
    show "location_row_ok d m" if "m \<in> set ?ls" for m using that l(1) t(6) by (auto simp: in_update_where)
    fix j org stall assume "(j, org, stall) \<in> location_keys d"
    then obtain m where m: "m \<in> set (sd_locations d)" "(j, org, stall) = (lv_id m, lv_organizationId m, lv_stallId m)"
      by (auto simp: location_keys_def)
    show "(j, org, stall) \<in> location_keys d'"
    proof (cases "lv_id m = lv_id l")
      case True
      then have "l' \<in> set ?ls" "(j, org, stall) = (lv_id l', lv_organizationId l', lv_stallId l')"
        using m same [OF m(1) True] by (auto simp: in_update_where id intro!: bexI [of _ l])
      then show ?thesis unfolding d' location_keys_def by force
    next
      case False
      then have "m \<in> set ?ls" using m(1) by (auto simp: in_update_where)
      then show ?thesis using m(2) unfolding d' location_keys_def by force
    qed
  qed
qed

lemma delete_location_ok:
  assumes "delete_location k d = Inr d'" "tables_ok d"
  shows "tables_ok d'"
proof -
  note t = tables_okD [OF assms(2)]
  have d': "d' = d\<lparr>sd_locations := filter (\<lambda>l. lv_id l \<noteq> k) (sd_locations d)\<rparr>"
    and free: "\<And>s. s \<in> set (sd_schedules d) \<Longrightarrow> sv_locationId s \<noteq> Some k"
      "\<And>q. q \<in> set (sd_qrCodes d) \<Longrightarrow> qr_locationId q \<noteq> Some k"
    using assms(1) by (auto simp: delete_location_def andThen_Inr_iff list_ex_iff)
  show ?thesis
    by (rule locations_change_ok [OF assms(2) d'])
      (use t free in \<open>auto simp: d' location_keys_def distinct_map_filter\<close>)
qed

lemma events_change_ok:
  assumes ok: "tables_ok d" and d': "d' = d\<lparr>sd_events := es\<rparr>"
    and es: "distinct (map me_id es)" "distinct (map (\<lambda>e. (me_organizationId e, me_slug e)) es)"
      "\<And>e. e \<in> set es \<Longrightarrow> event_checks e"
    and kept: "\<And>e. e \<in> set (sd_events d) \<Longrightarrow>
        (\<exists>s \<in> set (sd_schedules d). sv_marketEventId s = Some (me_id e)) \<or> (\<exists>q \<in> set (sd_qrCodes d). qr_marketEventId q = Some (me_id e))
        \<Longrightarrow> \<exists>e' \<in> set es. me_id e' = me_id e \<and> me_organizationId e' = me_organizationId e
             \<and> (\<forall>s \<in> set (sd_schedules d). sv_marketEventId s = Some (me_id e) \<longrightarrow> within_event s e \<longrightarrow> within_event s e')"
  shows "tables_ok d'"
proof -
  note t = tables_okD [OF ok]
  have "schedule_row_ok d' s" if "s \<in> set (sd_schedules d)" for s
    by (rule schedule_row_okI [OF t(8) [OF that]]) (use kept that in \<open>auto simp: d'\<close>)
  moreover have "qr_row_ok d' q" if q: "q \<in> set (sd_qrCodes d)" for q
  proof (rule qr_row_okI [OF t(9) [OF q]])
    fix j assume j: "qr_marketEventId q = Some j" and "(j, qr_organizationId q) \<in> event_keys d"
    then obtain e where e: "e \<in> set (sd_events d)" "j = me_id e" "qr_organizationId q = me_organizationId e"
      by (auto simp: event_keys_def)
    have "\<exists>q \<in> set (sd_qrCodes d). qr_marketEventId q = Some (me_id e)" using q j e(2) by blast
    then obtain e' where "e' \<in> set es" "me_id e' = me_id e" "me_organizationId e' = me_organizationId e"
      using kept [OF e(1)] by metis
    then show "(j, qr_organizationId q) \<in> event_keys d'" using e by (auto simp: event_keys_def d' intro!: image_eqI [of _ _ e'])
  qed (auto simp: d')
  ultimately show ?thesis using t es by (simp add: tables_ok_def d')
qed

lemma insert_event_ok:
  assumes "insert_event e d = Inr d'" "tables_ok d"
  shows "tables_ok d'"
proof -
  note t = tables_okD [OF assms(2)]
  have e: "event_checks e"
      "\<forall>m \<in> set (sd_events d). me_id m \<noteq> me_id e \<and> (me_organizationId m, me_slug m) \<noteq> (me_organizationId e, me_slug e)"
    and d': "d' = d\<lparr>sd_events := sd_events d @ [e]\<rparr>"
    using assms(1) by (auto simp: insert_event_def andThen_Inr_iff event_key_free_def list_ex_iff)
  show ?thesis
    by (rule events_change_ok [OF assms(2) d']) (use t e in \<open>auto simp: image_iff\<close>)
qed

lemma update_event_ok:
  assumes "update_event e v d = Inr d'" "tables_ok d" "e \<in> set (sd_events d)"
  shows "tables_ok d'"
proof -
  note t = tables_okD [OF assms(2)]
  define e' where "e' = event_values.extend v \<lparr>me_id = me_id e, me_organizationId = me_organizationId e\<rparr>"
  have id: "me_id e' = me_id e" "me_organizationId e' = me_organizationId e" by (simp_all add: e'_def event_values.defs)
  let ?es = "update_where (\<lambda>m. me_id m = me_id e) (\<lambda>_. e') (sd_events d)"
  let ?others = "filter (\<lambda>m. me_id m \<noteq> me_id e) (sd_events d)"
  have e: "event_checks e'" "\<forall>s \<in> set (sd_schedules d). sv_marketEventId s = Some (me_id e) \<longrightarrow> within_event s e'"
      "\<forall>m \<in> set ?others. (me_organizationId m, me_slug m) \<noteq> (me_organizationId e', me_slug e')"
    and d': "d' = d\<lparr>sd_events := ?es\<rparr>"
    using assms(1) unfolding update_event_def Let_def e'_def [symmetric]
    by (auto simp: andThen_Inr_iff event_key_free_def list_ex_iff list_all_iff)
  have same: "m = e" if "m \<in> set (sd_events d)" "me_id m = me_id e" for m
    using t(3) that assms(3) by (metis distinct_map inj_onD)
  have in_es: "e' \<in> set ?es" using assms(3) by (auto simp: in_update_where intro!: bexI [of _ e])
  show ?thesis
  proof (rule events_change_ok [OF assms(2) d'])
    show "distinct (map me_id ?es)" by (rule distinct_replaced [OF t(3) _ t(3)]) (auto simp: id)
    show "distinct (map (\<lambda>e. (me_organizationId e, me_slug e)) ?es)"
      by (rule distinct_replaced [OF t(4) _ t(3)]) (use e(3) in auto)
    show "event_checks m" if "m \<in> set ?es" for m using that e(1) t(7) by (auto simp: in_update_where)
    fix m assume m: "m \<in> set (sd_events d)"
    show "\<exists>m' \<in> set ?es. me_id m' = me_id m \<and> me_organizationId m' = me_organizationId m
        \<and> (\<forall>s \<in> set (sd_schedules d). sv_marketEventId s = Some (me_id m) \<longrightarrow> within_event s m \<longrightarrow> within_event s m')"
    proof (cases "me_id m = me_id e")
      case True
      then show ?thesis using in_es id same [OF m True] e(2) by auto
    next
      case False
      then have "m \<in> set ?es" using m by (auto simp: in_update_where)
      then show ?thesis by blast
    qed
  qed
qed

lemma delete_event_ok:
  assumes "delete_event k d = Inr d'" "tables_ok d"
  shows "tables_ok d'"
proof -
  note t = tables_okD [OF assms(2)]
  have d': "d' = d\<lparr>sd_events := filter (\<lambda>e. me_id e \<noteq> k) (sd_events d)\<rparr>"
    and free: "\<And>s. s \<in> set (sd_schedules d) \<Longrightarrow> sv_marketEventId s \<noteq> Some k"
      "\<And>q. q \<in> set (sd_qrCodes d) \<Longrightarrow> qr_marketEventId q \<noteq> Some k"
    using assms(1) by (auto simp: delete_event_def andThen_Inr_iff list_ex_iff)
  show ?thesis
    by (rule events_change_ok [OF assms(2) d']) (use t free in \<open>auto simp: distinct_map_filter\<close>)
qed

section \<open>Commands\<close>

lemma find_schedule_Some:
  "find_schedule c k d = Some s \<Longrightarrow> s \<in> set (sd_schedules d) \<and> sv_id s = k \<and> sv_organizationId s = kc_organizationId c
     \<and> sv_stallId s = kc_stallId c"
  unfolding find_schedule_def by (drule find_Some_D) simp

lemma create_copies_ok: "create_copies c s weeks d = Inr d' \<Longrightarrow> tables_ok d \<Longrightarrow> tables_ok d'"
  by (induction weeks arbitrary: d) (auto simp: andThen_Inr_iff dest: insert_schedule_ok)

lemma with_values_keys [simp]:
  "sv_id (with_values v s) = sv_id s" "sv_organizationId (with_values v s) = sv_organizationId s"
  "sv_stallId (with_values v s) = sv_stallId s" "sv_status (with_values v s) = sv_status s"
  by (simp_all add: with_values_def schedule_values.defs)

lemma transition_ok: "tables_ok d \<Longrightarrow> tables_ok (applyManualOrderingTransition now s p n d)"
  by (auto simp: applyManualOrderingTransition_def open_stall_def close_stall_def split: option.split
      intro!: update_stall_ok revoke_sessions_ok)

lemma location_command_ok:
  "applyStallLocationCommand c a d = Inr d' \<Longrightarrow> tables_ok d \<Longrightarrow> tables_ok d'"
  by (cases a)
    (auto simp: andThen_Inr_iff find_location_def dest!: find_Some_D
      intro: insert_location_ok update_location_ok delete_location_ok)

lemma event_command_ok: "applyMarketEventCommand c a d = Inr d' \<Longrightarrow> tables_ok d \<Longrightarrow> tables_ok d'"
  by (cases a)
    (auto simp: applyMarketEventCommand_def andThen_Inr_iff find_event_def dest!: find_Some_D
      intro: insert_event_ok update_event_ok delete_event_ok)

lemma set_status_parts:
  assumes "set_status c s n notice d = Inr d'"
  obtains d1 where "canTransitionSchedule (sv_status s) n"
    "update_schedule (sv_id s) (\<lambda>s. s\<lparr>sv_status := n, sv_specialNotice := notice\<rparr>) d = Inr d1"
    "d' = applyManualOrderingTransition (kc_now c) s (sv_status s) n d1"
  using assms by (auto simp: set_status_def andThen_Inr_iff)

lemma schedule_command_ok:
  assumes "applyStallScheduleCommand c a d = Inr d'" "tables_ok d"
  shows "tables_ok d'"
proof (cases a)
  case (SetStatus k n notice)
  then obtain s where "set_status c s n notice d = Inr d'" using assms(1) by (auto simp: andThen_Inr_iff)
  then show ?thesis using transition_ok update_schedule_ok [OF _ assms(2)] by (elim set_status_parts) simp
next
  case (UpdateSchedule k v)
  then obtain j where "update_schedule j (with_values v) d = Inr d'"
    using assms(1) by (auto simp: andThen_Inr_iff change_schedule_def)
  then show ?thesis using update_schedule_ok [OF _ assms(2)] by simp
next
  case (AssignQrContext k scheduleId requested)
  then obtain q f where "update_qr q f (revoke_sessions (\<lambda>n. sn_qrCodeId n = q) (kc_now c) d) = Inr d'"
    using assms(1) by (auto simp: andThen_Inr_iff assign_qr_def Let_def)
  then show ?thesis by (rule update_qr_ok) (rule revoke_sessions_ok [OF assms(2)])
qed (use assms in \<open>auto simp: andThen_Inr_iff create_schedule_def remove_schedule_def copy_schedule_def
      intro: insert_schedule_ok delete_schedule_ok create_copies_ok\<close>)

datatype stall_action = Location location_command | Event event_command | Schedule schedule_command

fun stall_step :: "schedule_call \<times> stall_action \<Rightarrow> schedule_db \<Rightarrow> schedule_failure + schedule_db" where
  "stall_step (c, Location a) d = applyStallLocationCommand c a d"
| "stall_step (c, Event a) d = applyMarketEventCommand c a d"
| "stall_step (c, Schedule a) d = applyStallScheduleCommand c a d"

text \<open>A command that fails leaves the tables as they were.\<close>

fun stall_run :: "(schedule_call \<times> stall_action) list \<Rightarrow> schedule_db \<Rightarrow> schedule_db" where
  "stall_run [] d = d"
| "stall_run (a # as) d = stall_run as (case stall_step a d of Inr d' \<Rightarrow> d' | Inl _ \<Rightarrow> d)"

lemma stall_step_ok: "stall_step a d = Inr d' \<Longrightarrow> tables_ok d \<Longrightarrow> tables_ok d'"
  by (cases "(a, d)" rule: stall_step.cases) (auto dest: location_command_ok event_command_ok schedule_command_ok)

lemma stall_run_ok: "tables_ok d \<Longrightarrow> tables_ok (stall_run as d)"
  by (induction as arbitrary: d) (auto split: sum.split dest: stall_step_ok)

section \<open>The limit of active schedules\<close>

definition limited :: "uid \<Rightarrow> uid \<Rightarrow> nat \<Rightarrow> schedule_call \<Rightarrow> bool" where
  "limited org stall n c \<longleftrightarrow>
     (kc_organizationId c = org \<and> kc_stallId c = stall \<longrightarrow> (\<exists>m \<le> int n. sc_scheduleLimit (kc_capabilities c) = Some m))"

lemma count_mono: "(\<And>x. x \<in> set xs \<Longrightarrow> p x \<Longrightarrow> q x) \<Longrightarrow> count_where p xs \<le> count_where q xs"
  by (induction xs) (auto simp: le_SucI)

lemma count_update: "(\<And>x. x \<in> set xs \<Longrightarrow> p x \<Longrightarrow> q (f x) \<Longrightarrow> q x) \<Longrightarrow> count_where q (update_where p f xs) \<le> count_where q xs"
proof (induction xs)
  case (Cons x xs)
  then have "count_where q (update_where p f xs) \<le> count_where q xs" by simp
  then show ?case using Cons.prems [of x] by (auto simp: le_SucI)
qed simp

lemma count_filter: "count_where q (filter p xs) \<le> count_where q xs"
  by (induction xs) (auto simp: le_SucI)

lemma active_insert:
  "insert_schedule s d = Inr d' \<Longrightarrow> active_schedules org stall d' =
     active_schedules org stall d + (if sv_organizationId s = org \<and> sv_stallId s = stall \<and> active_status (sv_status s) then 1 else 0)"
  by (auto simp: insert_schedule_Inr active_schedules_def)

lemma new_schedule_fields [simp]:
  "sv_organizationId (new_schedule c i v) = kc_organizationId c" "sv_stallId (new_schedule c i v) = kc_stallId c"
  "active_status (sv_status (new_schedule c i v))"
  by (simp_all add: new_schedule_def schedule_values.defs active_status_def)

lemma active_copies:
  "create_copies c s weeks d = Inr d' \<Longrightarrow> active_schedules org stall d' =
     active_schedules org stall d + (if kc_organizationId c = org \<and> kc_stallId c = stall then length weeks else 0)"
  by (induction weeks arbitrary: d) (auto simp: andThen_Inr_iff active_insert)

lemma active_transition [simp]:
  "active_schedules org stall (applyManualOrderingTransition now s p n d) = active_schedules org stall d"
  by (simp add: applyManualOrderingTransition_def open_stall_def close_stall_def update_stall_def revoke_sessions_def
      active_schedules_def split: option.split)

lemma limit_granted:
  assumes "assertScheduleLimit c k d = Inr u" "limited org stall n c" "active_schedules org stall d \<le> n"
  shows "active_schedules org stall d + (if kc_organizationId c = org \<and> kc_stallId c = stall then k else 0) \<le> n"
  using assms by (auto simp: assertScheduleLimit_def limited_def)

lemma can_transition_active: "canTransitionSchedule s n \<Longrightarrow> active_status s"
  by (cases s) (simp_all add: canTransitionSchedule_def active_status_def)

lemma active_schedule_command:
  assumes run: "applyStallScheduleCommand c a d = Inr d'" and ok: "tables_ok d"
    and lim: "limited org stall n c" and le: "active_schedules org stall d \<le> n"
  shows "active_schedules org stall d' \<le> n"
proof (cases a)
  case (CreateSchedule v)
  then have "assertScheduleLimit c 1 d = Inr ()" "insert_schedule (new_schedule c 0 v) d = Inr d'"
    using run by (auto simp: create_schedule_def andThen_Inr_iff)
  then show ?thesis using limit_granted [OF _ lim le, of 1] by (simp add: active_insert)
next
  case (CopyWeekly k weeks)
  then obtain s where "assertScheduleLimit c weeks d = Inr ()" "create_copies c s [1..<Suc weeks] d = Inr d'"
    using run by (auto simp: copy_schedule_def andThen_Inr_iff)
  then show ?thesis using limit_granted [OF _ lim le, of weeks] by (auto simp: active_copies simp del: upt_Suc split: if_split_asm)
next
  case (SetStatus k m notice)
  then obtain s where s: "find_schedule c k d = Some s" "set_status c s m notice d = Inr d'"
    using run by (auto simp: andThen_Inr_iff)
  from s(2) obtain d1 where can: "canTransitionSchedule (sv_status s) m"
    and up: "update_schedule (sv_id s) (\<lambda>s. s\<lparr>sv_status := m, sv_specialNotice := notice\<rparr>) d = Inr d1"
    and d': "d' = applyManualOrderingTransition (kc_now c) s (sv_status s) m d1" by (rule set_status_parts)
  have only: "r = s" if "r \<in> set (sd_schedules d)" "sv_id r = sv_id s" for r
    using find_schedule_Some [OF s(1)] tables_okD(5) [OF ok] that by (metis distinct_map inj_onD)
  have "active_schedules org stall d1 \<le> active_schedules org stall d"
    using up can_transition_active [OF can] only unfolding update_schedule_Inr active_schedules_def
    by (auto intro!: count_update)
  then show ?thesis using le d' by simp
next
  case (UpdateSchedule k v)
  then obtain j where "update_schedule j (with_values v) d = Inr d'"
    using run by (auto simp: andThen_Inr_iff change_schedule_def)
  then have "active_schedules org stall d' \<le> active_schedules org stall d"
    unfolding update_schedule_Inr active_schedules_def by (auto intro!: count_update)
  then show ?thesis using le by simp
next
  case (DeleteSchedule k)
  then obtain j where "delete_schedule j d = Inr d'" using run by (auto simp: andThen_Inr_iff remove_schedule_def)
  then have "active_schedules org stall d' \<le> active_schedules org stall d"
    by (auto simp: delete_schedule_def andThen_Inr_iff active_schedules_def count_filter)
  then show ?thesis using le by simp
next
  case (AssignQrContext k scheduleId requested)
  then have "sd_schedules d' = sd_schedules d"
    using run by (auto simp: assign_qr_def Let_def andThen_Inr_iff update_qr_def revoke_sessions_def)
  then show ?thesis using le by (simp add: active_schedules_def)
qed

lemma other_commands_keep_schedules:
  "applyStallLocationCommand c l d = Inr d' \<Longrightarrow> sd_schedules d' = sd_schedules d"
  "applyMarketEventCommand c e d = Inr d' \<Longrightarrow> sd_schedules d' = sd_schedules d"
  by (cases l; auto simp: andThen_Inr_iff insert_location_def update_location_def delete_location_def Let_def)
    (cases e; auto simp: andThen_Inr_iff applyMarketEventCommand_def insert_event_def update_event_def delete_event_def Let_def)

lemma active_step:
  assumes "stall_step (c, a) d = Inr d'" "tables_ok d" "limited org stall n c" "active_schedules org stall d \<le> n"
  shows "active_schedules org stall d' \<le> n"
proof (cases a)
  case (Schedule x)
  then show ?thesis using assms active_schedule_command by simp
qed (use assms other_commands_keep_schedules in \<open>simp_all add: active_schedules_def\<close>)

lemma active_run:
  "tables_ok d \<Longrightarrow> active_schedules org stall d \<le> n \<Longrightarrow> \<forall>(c, a) \<in> set as. limited org stall n c
   \<Longrightarrow> active_schedules org stall (stall_run as d) \<le> n"
proof (induction as arbitrary: d)
  case (Cons x as)
  obtain c a where x: "x = (c, a)" by (cases x)
  show ?case
  proof (cases "stall_step x d")
    case (Inl e)
    then show ?thesis using Cons by simp
  next
    case (Inr d')
    have "active_schedules org stall d' \<le> n" using active_step [of c a d d'] Inr Cons.prems x by simp
    then show ?thesis using Cons.IH [of d'] stall_step_ok [OF Inr Cons.prems(1)] Cons.prems(3) Inr by simp
  qed
qed simp

section \<open>Properties\<close>

definition sample_capabilities :: ScheduleCapabilities where
  "sample_capabilities =
     \<lparr>sc_locationLimit = Some 1, sc_scheduleLimit = Some 3, sc_multipleLocations = False, sc_recurringCopy = True,
      sc_automaticOrdering = True, sc_eventSchedule = True\<rparr>"

definition sample_call :: "string \<Rightarrow> schedule_call" where
  "sample_call k =
     \<lparr>kc_organizationId = ''org'', kc_stallId = ''stall'', kc_capabilities = sample_capabilities, kc_now = 50,
      kc_fresh = (\<lambda>i. k @ replicate i CHR ''+'')\<rparr>"

definition sample_place :: location_values where
  "sample_place =
     \<lparr>lv_name = ''Square'', lv_address = ''1 Main'', lv_latitude = None, lv_longitude = None, lv_mapUrl = None,
      lv_instructions = None, lv_isActive = True\<rparr>"

definition sample_day :: "uid \<Rightarrow> schedule_values" where
  "sample_day place =
     \<lparr>sv_locationId = Some place, sv_marketEventId = None, sv_startsAt = 100, sv_endsAt = 200, sv_orderingOpensAt = None,
      sv_orderingClosesAt = Some 180, sv_specialNotice = None, sv_menuOverrideId = None, sv_autoOpenEnabled = True,
      sv_autoCloseEnabled = True\<rparr>"

definition sample_tables :: schedule_db where
  "sample_tables =
     \<lparr>sd_stalls = [\<lparr>sl_id = ''stall'', sl_organizationId = ''org'', sl_isActive = True, sl_isSoldOut = False,
        sl_businessStatus = StallBusinessStatus.CLOSED, sl_orderingEnabled = False,
        sl_orderingState = StallOrderingState.CLOSED, sl_pauseSource = None, sl_deliveryModuleEnabled = None\<rparr>],
      sd_locations = [], sd_events = [], sd_schedules = [],
      sd_qrCodes = [\<lparr>qr_id = ''qr'', qr_organizationId = ''org'', qr_stallId = ''stall'', qr_diningTableId = None,
        qr_locationId = None, qr_marketEventId = None, qr_stallScheduleId = None, qr_fulfillmentTypeContext = None\<rparr>],
      sd_sessions = [\<lparr>sn_qrCodeId = ''qr'', sn_stallId = ''stall'', sn_status = ACTIVE, sn_revokedAt = None,
        sn_locationId = None, sn_marketEventId = None, sn_stallScheduleId = None\<rparr>], sd_orders = []\<rparr>"

definition sample_week :: "(schedule_call \<times> stall_action) list" where
  "sample_week =
     [(sample_call ''p'', Location (CreateLocation sample_place)), (sample_call ''r'', Location (CreateLocation sample_place)),
      (sample_call ''s'', Schedule (CreateSchedule (sample_day ''p''))),
      (sample_call ''t'', Schedule (CopyWeekly ''s'' 3)), (sample_call ''u'', Schedule (CopyWeekly ''s'' 2)),
      (sample_call ''x'', Schedule (AssignQrContext ''qr'' (Some ''s'') None)),
      (sample_call ''y'', Schedule (DeleteSchedule ''s'')),
      (sample_call ''y'', Schedule (SetStatus ''s'' StallScheduleStatus.OPEN None))]"

lemma sample_tables_ok: "tables_ok sample_tables"
  by (simp add: tables_ok_def sample_tables_def qr_row_ok_def qr_type_ok_def location_in_scope_def event_in_scope_def)

lemma sample_week_run:
  "map sv_id (sd_schedules (stall_run sample_week sample_tables)) = [''s'', ''u+'', ''u++'']
   \<and> map sl_orderingState (sd_stalls (stall_run sample_week sample_tables)) = [StallOrderingState.OPEN]
   \<and> map sn_status (sd_sessions (stall_run sample_week sample_tables)) = [REVOKED]"
  by code_simp

text \<open>C12. From consistent tables, no sequence of commands on locations, events and schedules, accepted or
  refused, leaves inconsistent ones: identifiers, the names of a stall's locations and the slugs of an
  organisation's events stay unique, every schedule has a place or an event of its own scope, an ordering
  window and a time near its event, also after the event is moved, and no QR code refers to a location,
  event or schedule that is gone or belongs to another stall or organisation.\<close>

theorem stall_tables_stay_consistent:
  assumes "tables_ok d"
  shows "tables_ok (stall_run as d)"
  by (rule stall_run_ok [OF assms])

theorem stall_tables_stay_consistent_witness:
  "tables_ok (stall_run sample_week sample_tables) \<and> length (sd_schedules (stall_run sample_week sample_tables)) = 3"
proof
  show "tables_ok (stall_run sample_week sample_tables)"
    by (rule stall_tables_stay_consistent [OF sample_tables_ok])
  show "length (sd_schedules (stall_run sample_week sample_tables)) = 3"
    using sample_week_run [THEN conjunct1] by (metis length_map length_Cons list.size(3) numeral_3_eq_3)
qed

text \<open>C20. As long as the plan allows a stall at most \<open>n\<close> active schedules, no sequence of commands of this
  and other stalls takes it beyond them: not by creating, copying over several weeks, changing or
  reopening schedules.\<close>

theorem active_schedules_within_plan:
  assumes "tables_ok d" and "active_schedules org stall d \<le> n" and "\<forall>(c, a) \<in> set as. limited org stall n c"
  shows "active_schedules org stall (stall_run as d) \<le> n"
  by (rule active_run [OF assms])

theorem active_schedules_within_plan_witness:
  "active_schedules ''org'' ''stall'' (stall_run sample_week sample_tables) \<le> 3"
proof (rule active_schedules_within_plan [OF sample_tables_ok])
  show "active_schedules ''org'' ''stall'' sample_tables \<le> 3" by (simp add: active_schedules_def sample_tables_def)
  show "\<forall>(c, a) \<in> set sample_week. limited ''org'' ''stall'' 3 c"
    by (simp add: sample_week_def limited_def sample_call_def sample_capabilities_def)
qed

section \<open>Ordering\<close>

definition takes_orders :: "scheduled_stall \<Rightarrow> bool" where
  "takes_orders t \<longleftrightarrow> sl_orderingEnabled t \<and> sl_orderingState t = StallOrderingState.OPEN
     \<and> sl_businessStatus t = StallBusinessStatus.OPEN"

lemma opened_takes_orders:
  "\<not> sl_isSoldOut t \<Longrightarrow>
     takes_orders (sync_enabled t (sync_status t (t\<lparr>sl_businessStatus := StallBusinessStatus.OPEN,
       sl_orderingEnabled := True, sl_orderingState := StallOrderingState.OPEN\<rparr>)))"
  by (cases "sl_businessStatus t"; cases "sl_orderingEnabled t"; cases "sl_orderingState t")
    (simp_all add: takes_orders_def sync_enabled_def sync_status_def)

lemma closed_takes_none:
  "sl_orderingState (sync_enabled t (sync_status t (t\<lparr>sl_orderingState := StallOrderingState.CLOSED\<rparr>))) = StallOrderingState.CLOSED
   \<and> \<not> sl_orderingEnabled (sync_enabled t (sync_status t (t\<lparr>sl_orderingState := StallOrderingState.CLOSED\<rparr>)))"
  by (simp add: sync_enabled_def sync_status_def)

lemma sync_keys [simp]:
  "sl_id (sync_enabled old (sync_status old new)) = sl_id new"
  "sl_organizationId (sync_enabled old (sync_status old new)) = sl_organizationId new"
  by (simp_all add: sync_enabled_def sync_status_def split: StallBusinessStatus.split)

lemma update_stall_row:
  assumes "t \<in> set (sd_stalls (update_stall k f d))" "sl_id t = k" "\<And>s. sl_id (f s) = sl_id s"
  obtains t0 where "t0 \<in> set (sd_stalls d)" "sl_id t0 = k" "t = sync_enabled t0 (sync_status t0 (f t0))"
  using assms by (auto simp: update_stall_def in_update_where split: if_split_asm)

lemma close_stall_effect:
  assumes "t \<in> set (sd_stalls (close_stall now s d))" "sl_id t = sv_stallId s"
  shows "sl_orderingState t = StallOrderingState.CLOSED \<and> \<not> sl_orderingEnabled t"
proof -
  have "t \<in> set (sd_stalls (update_stall (sv_stallId s) (\<lambda>t. t\<lparr>sl_orderingState := StallOrderingState.CLOSED\<rparr>) d))"
    using assms(1) by (simp add: close_stall_def revoke_sessions_def)
  from this assms(2) show ?thesis by (rule update_stall_row) (simp_all only: closed_takes_none, simp_all)
qed

lemma close_stall_sessions:
  assumes "n \<in> set (sd_sessions (close_stall now s d))" "sn_stallId n = sv_stallId s"
  shows "sn_status n \<noteq> ACTIVE"
proof -
  obtain m where "n = (if sn_stallId m = sv_stallId s \<and> sn_status m = ACTIVE
      then m\<lparr>sn_status := REVOKED, sn_revokedAt := Some now\<rparr> else m)"
    using assms(1) unfolding close_stall_def revoke_sessions_def update_stall_def by (auto simp: in_update_where)
  then show ?thesis using assms(2) by (cases "sn_stallId m = sv_stallId s \<and> sn_status m = ACTIVE") auto
qed

lemma open_stall_effect:
  assumes t: "t \<in> set (sd_stalls (open_stall s d))" "sl_id t = sv_stallId s"
    and unique: "distinct (map sl_id (sd_stalls d))"
    and t0: "t0 \<in> set (sd_stalls d)" "sl_id t0 = sv_stallId s" "sl_organizationId t0 = sv_organizationId s"
      "sl_isActive t0" "\<not> sl_isSoldOut t0" "sl_pauseSource t0 = None \<or> sl_pauseSource t0 = Some ''NONE''"
  shows "takes_orders t"
proof -
  have only: "u = t0" if "u \<in> set (sd_stalls d)" "sl_id u = sv_stallId s" for u
    using unique that t0(1,2) by (metis distinct_map inj_onD)
  let ?p = "\<lambda>t. sl_id t = sv_stallId s \<and> sl_organizationId t = sv_organizationId s"
  have "List.find ?p (sd_stalls d) = Some t0"
  proof (cases "List.find ?p (sd_stalls d)")
    case None
    then show ?thesis using t0(1-3) unfolding find_None_D by blast
  next
    case (Some u)
    then show ?thesis using only [of u] find_Some_D [OF Some] by simp
  qed
  then have "t \<in> set (sd_stalls (update_stall (sv_stallId s) (\<lambda>t. t\<lparr>sl_businessStatus := StallBusinessStatus.OPEN,
      sl_orderingEnabled := True, sl_orderingState := StallOrderingState.OPEN\<rparr>) d))"
    using t(1) t0 by (auto simp: open_stall_def)
  from this t(2) show ?thesis
  proof (rule update_stall_row)
    fix u assume u: "u \<in> set (sd_stalls d)" "sl_id u = sv_stallId s"
      "t = sync_enabled u (sync_status u (u\<lparr>sl_businessStatus := StallBusinessStatus.OPEN, sl_orderingEnabled := True,
         sl_orderingState := StallOrderingState.OPEN\<rparr>))"
    show ?thesis using opened_takes_orders [of u] only [OF u(1,2)] t0(5) u(3) by simp
  qed simp
qed

lemma set_status_SomeD:
  assumes "applyStallScheduleCommand c (SetStatus k n notice) d = Inr d'"
  obtains s d1 where "find_schedule c k d = Some s" "canTransitionSchedule (sv_status s) n"
    "update_schedule k (\<lambda>s. s\<lparr>sv_status := n, sv_specialNotice := notice\<rparr>) d = Inr d1"
    "d' = applyManualOrderingTransition (kc_now c) s (sv_status s) n d1"
proof -
  obtain s where s: "find_schedule c k d = Some s" "set_status c s n notice d = Inr d'"
    using assms by (auto simp: andThen_Inr_iff)
  have k: "sv_id s = k" using find_schedule_Some [OF s(1)] by simp
  from s(2) show ?thesis by (rule set_status_parts) (rule that [OF s(1)], simp_all add: k)
qed

definition other_open :: "uid \<Rightarrow> uid \<Rightarrow> schedule_db \<Rightarrow> bool" where
  "other_open stall k d \<longleftrightarrow>
     (\<exists>s \<in> set (sd_schedules d). sv_stallId s = stall \<and> sv_id s \<noteq> k \<and> sv_status s = StallScheduleStatus.OPEN)"

lemma other_open_updated:
  assumes "update_schedule k f d = Inr d1" "\<And>s. sv_id (f s) = sv_id s"
  shows "other_open stall k d1 = other_open stall k d"
proof -
  have rows: "sd_schedules d1 = update_where (\<lambda>s. sv_id s = k) f (sd_schedules d)"
    using assms(1) by (simp add: update_schedule_Inr)
  have "filter (\<lambda>s. sv_id s \<noteq> k) (update_where (\<lambda>s. sv_id s = k) f xs) = filter (\<lambda>s. sv_id s \<noteq> k) xs" for xs
    by (induction xs) (simp_all add: assms(2))
  then have "set (filter (\<lambda>s. sv_id s \<noteq> k) (sd_schedules d1)) = set (filter (\<lambda>s. sv_id s \<noteq> k) (sd_schedules d))"
    by (simp only: rows)
  then show ?thesis unfolding other_open_def by (auto simp: set_eq_iff)
qed


definition open_tables :: schedule_db where
  "open_tables = stall_run sample_week sample_tables"


text \<open>Changing the place of a schedule leaves the QR codes bound to it behind: their context no longer fits,
  and \<open>enforce_ordering_context_scope\<close> refuses every order session opened with it.\<close>

definition moved_tables :: schedule_db where
  "moved_tables = stall_run
     [(sample_call ''p'', Location (CreateLocation sample_place)),
      ((sample_call ''r'')\<lparr>kc_capabilities := sample_capabilities\<lparr>sc_locationLimit := None\<rparr>\<rparr>,
        Location (CreateLocation (sample_place\<lparr>lv_name := ''Park''\<rparr>))),
      (sample_call ''s'', Schedule (CreateSchedule (sample_day ''p''))),
      (sample_call ''x'', Schedule (AssignQrContext ''qr'' (Some ''s'') None)),
      (sample_call ''y'', Schedule (UpdateSchedule ''s'' (sample_day ''r'')))] sample_tables"

lemma moved_schedule_strands_qr:
  "\<forall>q \<in> set (sd_qrCodes moved_tables). qr_stallScheduleId q = Some ''s''
     \<and> \<not> context_scope (qr_organizationId q) (qr_stallId q) (qr_locationId q) (qr_marketEventId q) (qr_stallScheduleId q) moved_tables"
  by code_simp

end
